(* ===== verification/Prelude.thy ===== *)
theory Prelude
  imports Main "HOL-Library.Word" "HOL-Library.Sublist"
begin

text \<open>
  Shared vocabulary of the development.

  \<^item> Octets are HOL characters; a Rust \<open>Vec<u8>\<close>, a \<open>&[u8]\<close> and the UTF-8 content of a Rust
    \<open>String\<close> are all lists of octets (\<open>bytes\<close>). All separators the driver looks for are
    ASCII, so the byte-wise string functions below agree with Rust's \<open>str\<close> methods.
  \<^item> Machine integers keep their width (\<open>i64\<close>, \<open>u64\<close>, \<open>u32\<close>, \<open>u16\<close>, \<open>u8\<close>).
  \<^item> \<open>Result\<close> is a sum with the error on the left; \<open>rbind\<close> is the \<open>?\<close> operator and
    \<open>collect_res\<close> is \<open>iter().map(f).collect::<Result<_,_>>()\<close>, which stops at the
    first error.
  \<^item> The string functions of Rust's standard library that the driver calls
    (\<open>split_once\<close>, \<open>rsplit_once\<close>, \<open>split\<close>, \<open>contains\<close>, \<open>parse\<close>, \<open>to_string\<close>), with the
    lemmas about them that the components share.
\<close>

section \<open>Machine types\<close>

type_synonym bytes = string
type_synonym u8 = "8 word"
type_synonym u16 = "16 word"
type_synonym u32 = "32 word"
type_synonym i64 = "64 word"
type_synonym u64 = "64 word"

named_theorems res_simps "rewrite rules of the result monad"

section \<open>Results\<close>

definition rbind :: "'e + 'a \<Rightarrow> ('a \<Rightarrow> 'e + 'b) \<Rightarrow> 'e + 'b" where
  "rbind r f = (case r of Inl e \<Rightarrow> Inl e | Inr x \<Rightarrow> f x)"

lemma rbind_Inl [simp, res_simps]: "rbind (Inl e) f = Inl e"
  by (simp add: rbind_def)

lemma rbind_Inr [simp, res_simps]: "rbind (Inr x) f = f x"
  by (simp add: rbind_def)

lemma rbind_eq_Inr_iff [res_simps]: "rbind r f = Inr y \<longleftrightarrow> (\<exists>x. r = Inr x \<and> f x = Inr y)"
  by (cases r) auto

lemma rbind_eq_Inl_iff [res_simps]:
  "rbind r f = Inl e \<longleftrightarrow> r = Inl e \<or> (\<exists>x. r = Inr x \<and> f x = Inl e)"
  by (cases r) auto

lemma rbind_assoc: "rbind (rbind r f) g = rbind r (\<lambda>x. rbind (f x) g)"
  by (cases r) auto

lemma rbind_cong [fundef_cong]:
  "r = r' \<Longrightarrow> (\<And>x. r' = Inr x \<Longrightarrow> f x = g x) \<Longrightarrow> rbind r f = rbind r' g"
  by (cases r') auto

fun collect_res :: "('a \<Rightarrow> 'e + 'b) \<Rightarrow> 'a list \<Rightarrow> 'e + 'b list" where
  "collect_res f [] = Inr []"
| "collect_res f (x # xs) = rbind (f x) (\<lambda>y. rbind (collect_res f xs) (\<lambda>ys. Inr (y # ys)))"

lemma collect_res_cong [fundef_cong]:
  "xs = ys \<Longrightarrow> (\<And>x. x \<in> set ys \<Longrightarrow> f x = g x) \<Longrightarrow> collect_res f xs = collect_res g ys"
proof (induction ys arbitrary: xs)
  case Nil
  then show ?case by simp
next
  case (Cons y ys)
  then show ?case by simp
qed

lemma collect_res_Inr_iff:
  "collect_res f xs = Inr ys \<longleftrightarrow> list_all2 (\<lambda>x y. f x = Inr y) xs ys"
proof (induction xs arbitrary: ys)
  case Nil
  then show ?case by (cases ys) auto
next
  case (Cons x xs)
  then show ?case by (cases ys) (auto simp: rbind_eq_Inr_iff)
qed

lemma collect_res_map: "collect_res (\<lambda>x. Inr (h x)) xs = Inr (map h xs)"
  by (induction xs) auto

lemma collect_res_Inr_length: "collect_res f xs = Inr ys \<Longrightarrow> length ys = length xs"
  by (auto simp: collect_res_Inr_iff dest: list_all2_lengthD)

text \<open>The loop \<open>while let (Some(a), Some(b)) = (it.next(), it.next())\<close>: a trailing odd
  element is dropped.\<close>

fun pair_up :: "'a list \<Rightarrow> ('a \<times> 'a) list" where
  "pair_up (a # b # xs) = (a, b) # pair_up xs"
| "pair_up _ = []"

definition unpair :: "('a \<times> 'a) list \<Rightarrow> 'a list" where
  "unpair ps = concat (map (\<lambda>(a, b). [a, b]) ps)"

lemma pair_up_unpair [simp]: "pair_up (unpair ps) = ps"
  by (induction ps) (auto simp: unpair_def)

lemma length_pair_up: "length (pair_up xs) = length xs div 2"
  by (induction xs rule: pair_up.induct) auto

lemma unpair_pair_up: "even (length xs) \<Longrightarrow> unpair (pair_up xs) = xs"
  by (induction xs rule: pair_up.induct) (auto simp: unpair_def)

section \<open>Strings\<close>

text \<open>\<open>str::split_once(c)\<close>, \<open>str::rsplit_once(c)\<close> and \<open>str::split(c)\<close> for a character.\<close>

fun split_once :: "char \<Rightarrow> bytes \<Rightarrow> (bytes \<times> bytes) option" where
  "split_once c [] = None"
| "split_once c (x # xs) =
     (if x = c then Some ([], xs) else map_option (\<lambda>(a, b). (x # a, b)) (split_once c xs))"

definition rsplit_once :: "char \<Rightarrow> bytes \<Rightarrow> (bytes \<times> bytes) option" where
  "rsplit_once c s = map_option (\<lambda>(a, b). (rev b, rev a)) (split_once c (rev s))"

fun split_on :: "char \<Rightarrow> bytes \<Rightarrow> bytes list" where
  "split_on c [] = [[]]"
| "split_on c (x # xs) =
     (if x = c then [] # split_on c xs
      else (case split_on c xs of [] \<Rightarrow> [[x]] | y # ys \<Rightarrow> (x # y) # ys))"

text \<open>\<open>str::split_once(p)\<close> and \<open>str::contains(p)\<close> for a string pattern.\<close>

fun split_once_str :: "bytes \<Rightarrow> bytes \<Rightarrow> (bytes \<times> bytes) option" where
  "split_once_str p [] = (if p = [] then Some ([], []) else None)"
| "split_once_str p (x # xs) =
     (if prefix p (x # xs) then Some ([], drop (length p) (x # xs))
      else map_option (\<lambda>(a, b). (x # a, b)) (split_once_str p xs))"

fun contains_str :: "bytes \<Rightarrow> bytes \<Rightarrow> bool" where
  "contains_str p [] = (p = [])"
| "contains_str p (x # xs) = (prefix p (x # xs) \<or> contains_str p xs)"

definition ascii_upper :: "char \<Rightarrow> char" where
  "ascii_upper c = (let n = of_char c :: nat in if 97 \<le> n \<and> n \<le> 122 then char_of (n - 32) else c)"

definition to_ascii_uppercase :: "bytes \<Rightarrow> bytes" where
  "to_ascii_uppercase s = map ascii_upper s"

lemma split_once_None_iff [simp]: "split_once c s = None \<longleftrightarrow> c \<notin> set s"
  by (induction s) auto

lemma split_once_absent [simp]: "c \<notin> set s \<Longrightarrow> split_once c s = None"
  by simp

lemma split_once_Some:
  "split_once c s = Some (a, b) \<longleftrightarrow> s = a @ c # b \<and> c \<notin> set a"
proof (induction s arbitrary: a)
  case Nil
  then show ?case by simp
next
  case (Cons x xs)
  then show ?case by (cases a) auto
qed

lemma split_once_append [simp]: "c \<notin> set a \<Longrightarrow> split_once c (a @ c # b) = Some (a, b)"
  by (simp add: split_once_Some)

lemma rsplit_once_None_iff [simp]: "rsplit_once c s = None \<longleftrightarrow> c \<notin> set s"
  by (simp add: rsplit_once_def)

lemma rsplit_once_absent [simp]: "c \<notin> set s \<Longrightarrow> rsplit_once c s = None"
  by simp

lemma rsplit_once_append [simp]: "c \<notin> set b \<Longrightarrow> rsplit_once c (a @ c # b) = Some (a, b)"
  by (simp add: rsplit_once_def)

lemma rsplit_once_append_colon_only [simp]:
  "c \<notin> set b \<Longrightarrow> rsplit_once c (c # b) = Some ([], b)"
  using rsplit_once_append [of c b "[]"] by simp

lemma split_once_str_None_iff: "split_once_str p s = None \<longleftrightarrow> \<not> contains_str p s"
  by (induction s) auto

lemma split_once_str_Some: "split_once_str p s = Some (a, b) \<Longrightarrow> s = a @ p @ b"
proof (induction s arbitrary: a)
  case Nil
  then show ?case by (auto split: if_splits)
next
  case (Cons x xs)
  then show ?case
    by (auto split: if_splits elim!: prefixE)
qed

lemma contains_str_sublist: "contains_str p s \<longleftrightarrow> sublist p s"
  by (induction s) (auto simp: sublist_Cons_right)

lemma contains_str_append: "contains_str p (a @ p @ b)"
  by (simp add: contains_str_sublist)

lemma split_on_not_Nil [simp]: "split_on c s \<noteq> []"
  by (induction s) (auto split: list.splits)

lemma split_on_noop [simp]: "c \<notin> set s \<Longrightarrow> split_on c s = [s]"
  by (induction s) auto

section \<open>Decimal numbers\<close>

text \<open>\<open>to_string\<close> of the integer types and \<open>str::parse\<close> into them: an optional sign (a
  \<open>+\<close> for every type, a \<open>-\<close> for signed ones), at least one digit, and a range check.\<close>

fun show_nat :: "nat \<Rightarrow> bytes" where
  "show_nat n = (if n < 10 then [char_of (48 + n)] else show_nat (n div 10) @ [char_of (48 + n mod 10)])"

declare show_nat.simps [simp del]

definition show_int :: "int \<Rightarrow> bytes" where
  "show_int i = (if i < 0 then CHR ''-'' # show_nat (nat (- i)) else show_nat (nat i))"

definition digit_val :: "char \<Rightarrow> nat option" where
  "digit_val c = (let n = of_char c :: nat in if 48 \<le> n \<and> n \<le> 57 then Some (n - 48) else None)"

fun parse_digits :: "nat \<Rightarrow> bytes \<Rightarrow> nat option" where
  "parse_digits acc [] = Some acc"
| "parse_digits acc (c # cs) =
     (case digit_val c of None \<Rightarrow> None | Some d \<Rightarrow> parse_digits (10 * acc + d) cs)"

definition parse_nat :: "bytes \<Rightarrow> nat option" where
  "parse_nat s = (if s = [] then None else parse_digits 0 s)"

definition strip_plus :: "bytes \<Rightarrow> bytes" where
  "strip_plus s = (case s of [] \<Rightarrow> [] | c # cs \<Rightarrow> if c = CHR ''+'' \<and> cs \<noteq> [] then cs else s)"

definition parse_unsigned :: "nat \<Rightarrow> bytes \<Rightarrow> nat option" where
  "parse_unsigned w s =
     (case parse_nat (strip_plus s) of
        None \<Rightarrow> None | Some n \<Rightarrow> if n < 2 ^ w then Some n else None)"

definition parse_signed :: "nat \<Rightarrow> bytes \<Rightarrow> int option" where
  "parse_signed w s =
     (case s of
        [] \<Rightarrow> None
      | c # cs \<Rightarrow>
          if c = CHR ''-'' then
            (case parse_nat cs of
               None \<Rightarrow> None | Some n \<Rightarrow> if n \<le> 2 ^ (w - 1) then Some (- int n) else None)
          else
            (case parse_nat (strip_plus s) of
               None \<Rightarrow> None | Some n \<Rightarrow> if n < 2 ^ (w - 1) then Some (int n) else None))"

lemma digit_val_char_of [simp]: "d < 10 \<Longrightarrow> digit_val (char_of (48 + d)) = Some d"
  by (simp add: digit_val_def Let_def)

lemma parse_digits_append:
  "parse_digits acc (xs @ ys) =
     (case parse_digits acc xs of None \<Rightarrow> None | Some a \<Rightarrow> parse_digits a ys)"
  by (induction xs arbitrary: acc) (auto split: option.splits)

lemma parse_digits_show_nat: "parse_digits 0 (show_nat n) = Some n"
proof (induction n rule: show_nat.induct)
  case (1 n)
  show ?case
  proof (cases "n < 10")
    case True
    then show ?thesis by (simp add: show_nat.simps [of n])
  next
    case False
    then show ?thesis
      using 1 by (simp add: show_nat.simps [of n] parse_digits_append)
  qed
qed

lemma show_nat_not_Nil [simp]: "show_nat n \<noteq> []"
  by (subst show_nat.simps) simp

lemma digit_val_Some_iff: "digit_val c \<noteq> None \<longleftrightarrow> c \<in> char_of ` {48..57::nat}"
proof -
  have "c \<in> char_of ` {48..57::nat}" if "48 \<le> (of_char c :: nat)" "(of_char c :: nat) \<le> 57"
    using that by (intro image_eqI [of _ _ "of_char c"]) auto
  then show ?thesis by (auto simp: digit_val_def Let_def)
qed

lemma show_nat_digits: "c \<in> set (show_nat n) \<Longrightarrow> digit_val c \<noteq> None"
proof (induction n arbitrary: c rule: show_nat.induct)
  case (1 n)
  show ?case
  proof (cases "n < 10")
    case True
    with 1(2) show ?thesis by (simp add: show_nat.simps [of n])
  next
    case False
    with 1 show ?thesis by (auto simp: show_nat.simps [of n])
  qed
qed

lemma not_digit [simp]:
  "digit_val CHR ''-'' = None" "digit_val CHR ''+'' = None" "digit_val CHR '':'' = None"
  "digit_val CHR ''/'' = None" "digit_val CHR ''@'' = None" "digit_val CHR ''?'' = None"
  "digit_val CHR ''#'' = None"
  by (simp_all add: digit_val_def)

lemma parse_nat_show_nat [simp]: "parse_nat (show_nat n) = Some n"
  by (simp add: parse_nat_def parse_digits_show_nat)

lemma hd_show_nat_digit: "show_nat n = c # cs \<Longrightarrow> digit_val c \<noteq> None"
  using show_nat_digits [of c n] by simp

lemma strip_plus_show_nat [simp]: "strip_plus (show_nat n) = show_nat n"
  using hd_show_nat_digit [of n] by (auto simp: strip_plus_def split: list.splits)

lemma parse_unsigned_show_nat [simp]: "n < 2 ^ w \<Longrightarrow> parse_unsigned w (show_nat n) = Some n"
  by (simp add: parse_unsigned_def)

lemma parse_signed_show_int:
  assumes "- (2 ^ (w - 1)) \<le> i" "i < 2 ^ (w - 1)"
  shows "parse_signed w (show_int i) = Some i"
proof (cases "i < 0")
  case True
  then have "nat (- i) \<le> 2 ^ (w - 1)" using assms(1) by (simp add: nat_le_iff)
  with True show ?thesis by (simp add: parse_signed_def show_int_def)
next
  case False
  then have "nat i < 2 ^ (w - 1)" using assms(2) by (simp add: nat_less_iff)
  moreover obtain c cs where c: "show_nat (nat i) = c # cs"
    by (cases "show_nat (nat i)") auto
  moreover from c have "c \<noteq> CHR ''-''"
    using hd_show_nat_digit [OF c] by auto
  moreover from c have "parse_nat (strip_plus (c # cs)) = Some (nat i)"
    by (metis parse_nat_show_nat strip_plus_show_nat)
  ultimately show ?thesis using False by (simp add: show_int_def parse_signed_def)
qed

section \<open>Data refinement\<close>

text \<open>A sequence of operations, with their results.\<close>

fun run_ops :: "('op \<Rightarrow> 's \<Rightarrow> 'r \<times> 's) \<Rightarrow> 'op list \<Rightarrow> 's \<Rightarrow> 'r list \<times> 's" where
  "run_ops step [] s = ([], s)"
| "run_ops step (x # xs) s =
     (let (r, s) = step x s; (rs, s) = run_ops step xs s in (r # rs, s))"

text \<open>Every operation of the implementation does what the specification says, seen through
  \<open>absf\<close>; \<open>ok\<close> are the operations the claim is about.\<close>

locale data_refinement =
  fixes absf :: "'c \<Rightarrow> 'a" and step :: "'op \<Rightarrow> 'c \<Rightarrow> 'r \<times> 'c" and spec :: "'op \<Rightarrow> 'a \<Rightarrow> 'r \<times> 'a"
    and ok :: "'op \<Rightarrow> bool"
  assumes step_refines: "ok x \<Longrightarrow> map_prod id absf (step x c) = spec x (absf c)"
begin

lemma run_refines: "list_all ok xs \<Longrightarrow> map_prod id absf (run_ops step xs c) = run_ops spec xs (absf c)"
proof (induction xs arbitrary: c)
  case (Cons x xs)
  obtain r c' where step: "step x c = (r, c')" by (cases "step x c")
  then have spec: "spec x (absf c) = (r, absf c')"
    using step_refines [of x c] Cons.prems by simp
  obtain rs c'' where run: "run_ops step xs c' = (rs, c'')" by (cases "run_ops step xs c'")
  then have "run_ops spec xs (absf c') = (rs, absf c'')"
    using Cons.IH [of c'] Cons.prems by simp
  with step spec run show ?case by simp
qed simp

end

end
