(* ===== verification/RuntimeFork.thy ===== *)
theory RuntimeFork
  imports Prelude
begin

text \<open>
  The process-global tokio runtime of \<open>runtime.rs\<close>.  Three statics: \<open>RUNTIME\<close> (set once),
  \<open>RUNTIME_PID\<close> (the process that set it, 0 before) and \<open>FORK_RUNTIME\<close> (the last runtime
  built after a fork, with its pid).  A forked child inherits the statics, but the worker
  threads of an inherited runtime are dead in it.

  A runtime is identified by a serial number; \<open>rt_owner\<close> records the process that built it,
  which is the process whose worker threads serve it.  A process is a number of its own, with
  the pid the system gave it: the code only sees pids, and a pid can be used again.
\<close>

record rt_state =
  RUNTIME :: "nat option"
  RUNTIME_PID :: u32
  FORK_RUNTIME :: "(u32 \<times> nat) option"
  rt_next :: nat
  rt_owner :: "nat \<Rightarrow> nat"

definition rt_init :: rt_state where
  "rt_init = \<lparr>RUNTIME = None, RUNTIME_PID = 0, FORK_RUNTIME = None, rt_next = 0,
     rt_owner = (\<lambda>_. 0)\<rparr>"

text \<open>\<open>Builder::new_multi_thread().enable_all().build()\<close>, with the system granting what a runtime
  needs; when it does not, \<open>expect\<close> panics, and the call has no result.\<close>

definition build_runtime :: "nat \<Rightarrow> rt_state \<Rightarrow> nat \<times> rt_state" where
  "build_runtime proc s =
     (rt_next s, s\<lparr>rt_next := Suc (rt_next s), rt_owner := (rt_owner s)(rt_next s := proc)\<rparr>)"

definition get_or_init :: "nat \<Rightarrow> rt_state \<Rightarrow> nat \<times> rt_state" where
  "get_or_init proc s =
     (case RUNTIME s of
        Some rt \<Rightarrow> (rt, s)
      | None \<Rightarrow> (let (rt, s) = build_runtime proc s in (rt, s\<lparr>RUNTIME := Some rt\<rparr>)))"

definition init_or_fork_runtime :: "nat \<Rightarrow> u32 \<Rightarrow> rt_state \<Rightarrow> nat \<times> rt_state" where
  "init_or_fork_runtime proc pid s =
     (if RUNTIME_PID s = 0 then
        (let (rt, s) = get_or_init proc s in (rt, s\<lparr>RUNTIME_PID := pid\<rparr>))
      else
        (case FORK_RUNTIME s of
           Some (stored_pid, rt) \<Rightarrow>
             if stored_pid = pid then (rt, s)
             else (let (rt, s) = build_runtime proc s in (rt, s\<lparr>FORK_RUNTIME := Some (pid, rt)\<rparr>))
         | None \<Rightarrow>
             (let (rt, s) = build_runtime proc s in (rt, s\<lparr>FORK_RUNTIME := Some (pid, rt)\<rparr>))))"

text \<open>\<open>get_runtime\<close>; \<open>None\<close> is the panic of \<open>RUNTIME.get().unwrap()\<close>.\<close>

definition get_runtime :: "nat \<Rightarrow> u32 \<Rightarrow> rt_state \<Rightarrow> (nat \<times> rt_state) option" where
  "get_runtime proc pid s =
     (if RUNTIME_PID s = pid then map_option (\<lambda>rt. (rt, s)) (RUNTIME s)
      else Some (init_or_fork_runtime proc pid s))"

section \<open>Invariant\<close>

definition rt_inv :: "(nat \<Rightarrow> u32) \<Rightarrow> nat set \<Rightarrow> rt_state \<Rightarrow> bool" where
  "rt_inv pid_of P s \<longleftrightarrow>
     (RUNTIME_PID s = 0 \<longrightarrow> RUNTIME s = None \<and> FORK_RUNTIME s = None) \<and>
     (RUNTIME_PID s \<noteq> 0 \<longrightarrow>
        (\<exists>rt < rt_next s. RUNTIME s = Some rt \<and> pid_of (rt_owner s rt) = RUNTIME_PID s)) \<and>
     (\<forall>p rt. FORK_RUNTIME s = Some (p, rt) \<longrightarrow> rt < rt_next s \<and> pid_of (rt_owner s rt) = p) \<and>
     (\<forall>rt < rt_next s. rt_owner s rt \<in> P)"

lemmas rt_defs = get_runtime_def init_or_fork_runtime_def get_or_init_def build_runtime_def Let_def

lemma rt_init_inv: "rt_inv pid_of P rt_init"
  by (simp add: rt_inv_def rt_init_def)

text \<open>
  Whole calls along a chain of forks: the statics a process sees are those its parent had at
  the fork, so the calls that shape them are the calls of its ancestors before each fork,
  followed by its own.
\<close>

fun rt_calls :: "(nat \<Rightarrow> u32) \<Rightarrow> nat list \<Rightarrow> rt_state \<Rightarrow> (nat list \<times> rt_state) option" where
  "rt_calls pid_of [] s = Some ([], s)"
| "rt_calls pid_of (p # ps) s =
     (case get_runtime p (pid_of p) s of
        None \<Rightarrow> None
      | Some (rt, s') \<Rightarrow> map_option (\<lambda>(rts, t). (rt # rts, t)) (rt_calls pid_of ps s'))"

lemma get_runtime_cases:
  assumes "rt_inv pid_of P s" "pid \<noteq> 0" "get_runtime proc pid s = r"
  obtains (fast) rt where "RUNTIME_PID s = pid" "RUNTIME s = Some rt" "r = Some (rt, s)"
  | (first) "RUNTIME_PID s = 0" "RUNTIME s = None"
      "r = Some (rt_next s, s\<lparr>rt_next := Suc (rt_next s), rt_owner := (rt_owner s)(rt_next s := proc),
             RUNTIME := Some (rt_next s), RUNTIME_PID := pid\<rparr>)"
  | (forked) rt where "RUNTIME_PID s \<noteq> 0" "RUNTIME_PID s \<noteq> pid" "FORK_RUNTIME s = Some (pid, rt)"
      "r = Some (rt, s)"
  | (rebuild) "RUNTIME_PID s \<noteq> 0" "RUNTIME_PID s \<noteq> pid" "\<forall>rt. FORK_RUNTIME s \<noteq> Some (pid, rt)"
      "r = Some (rt_next s, s\<lparr>rt_next := Suc (rt_next s), rt_owner := (rt_owner s)(rt_next s := proc),
             FORK_RUNTIME := Some (pid, rt_next s)\<rparr>)"
proof (cases "RUNTIME_PID s = pid")
  case True
  then show ?thesis using assms fast by (auto simp: get_runtime_def rt_inv_def)
next
  case ne: False
  show ?thesis
  proof (cases "RUNTIME_PID s = 0")
    case True
    then show ?thesis using assms ne first by (auto simp: rt_defs rt_inv_def)
  next
    case False
    then show ?thesis
      using assms(3) ne forked rebuild
      by (cases "FORK_RUNTIME s") (auto simp: rt_defs split: if_splits)
  qed
qed

lemma get_runtime_step:
  assumes inv: "rt_inv pid_of P s" and pid: "pid_of proc \<noteq> 0" and P: "proc \<in> P"
  shows "\<exists>rt s'. get_runtime proc (pid_of proc) s = Some (rt, s') \<and> rt_inv pid_of P s' \<and>
    pid_of (rt_owner s' rt) = pid_of proc \<and> rt < rt_next s' \<and>
    (\<forall>r < rt_next s. rt_owner s' r = rt_owner s r) \<and> rt_next s \<le> rt_next s'"
  using inv pid refl [of "get_runtime proc (pid_of proc) s"]
proof (cases rule: get_runtime_cases)
  case (fast rt)
  then show ?thesis using assms by (auto simp: rt_inv_def)
next
  case first
  then show ?thesis using assms by (auto simp: rt_inv_def)
next
  case (forked rt)
  then show ?thesis using assms by (auto simp: rt_inv_def)
next
  case rebuild
  have "rt_inv pid_of P (s\<lparr>rt_next := Suc (rt_next s), rt_owner := (rt_owner s)(rt_next s := proc),
      FORK_RUNTIME := Some (pid_of proc, rt_next s)\<rparr>)"
  proof -
    from inv rebuild(1) obtain r0 where r0: "r0 < rt_next s" "RUNTIME s = Some r0"
        "pid_of (rt_owner s r0) = RUNTIME_PID s" by (auto simp: rt_inv_def)
    then have "\<exists>rt < Suc (rt_next s). RUNTIME s = Some rt \<and>
        pid_of (((rt_owner s)(rt_next s := proc)) rt) = RUNTIME_PID s"
      by (intro exI [of _ r0]) simp
    then show ?thesis using inv P rebuild(1) by (auto simp: rt_inv_def)
  qed
  then show ?thesis using rebuild by simp
qed

lemma rt_calls_step:
  assumes "rt_inv pid_of P s" "set ps \<subseteq> P" "0 \<notin> pid_of ` P"
  shows "\<exists>rts t. rt_calls pid_of ps s = Some (rts, t) \<and>
    map (\<lambda>rt. pid_of (rt_owner t rt)) rts = map pid_of ps \<and> rt_inv pid_of P t \<and>
    (\<forall>rt \<in> set rts. rt < rt_next t) \<and>
    (\<forall>r < rt_next s. rt_owner t r = rt_owner s r) \<and> rt_next s \<le> rt_next t"
  using assms
proof (induction ps arbitrary: s)
  case Nil
  then show ?case by simp
next
  case (Cons p ps)
  have p: "p \<in> P" "pid_of p \<noteq> 0" using Cons.prems by auto
  obtain rt s' where s': "get_runtime p (pid_of p) s = Some (rt, s')" "rt_inv pid_of P s'"
      "pid_of (rt_owner s' rt) = pid_of p" "rt < rt_next s'"
      "\<forall>r < rt_next s. rt_owner s' r = rt_owner s r" "rt_next s \<le> rt_next s'"
    using get_runtime_step [of pid_of P s p, OF Cons.prems(1) p(2,1)] by auto
  obtain rts t where t: "rt_calls pid_of ps s' = Some (rts, t)"
      "map (\<lambda>rt. pid_of (rt_owner t rt)) rts = map pid_of ps" "rt_inv pid_of P t"
      "\<forall>rt \<in> set rts. rt < rt_next t"
      "\<forall>r < rt_next s'. rt_owner t r = rt_owner s' r" "rt_next s' \<le> rt_next t"
    using Cons.IH [OF s'(2)] Cons.prems by auto
  show ?case using s' t by auto
qed

text \<open>(C19) Fork safety: along any chain of forks whose processes have different, nonzero pids,
  \<open>get_runtime\<close> never panics and every call returns a runtime built by the calling process
  itself, whose worker threads are therefore alive.\<close>

theorem get_runtime_fork_safe:
  assumes "inj_on pid_of (set ps)" "0 \<notin> pid_of ` set ps"
  shows "\<exists>rts s. rt_calls pid_of ps rt_init = Some (rts, s) \<and> map (rt_owner s) rts = ps"
proof -
  obtain rts t where t: "rt_calls pid_of ps rt_init = Some (rts, t)"
      "map (\<lambda>rt. pid_of (rt_owner t rt)) rts = map pid_of ps" "rt_inv pid_of (set ps) t"
      "\<forall>rt \<in> set rts. rt < rt_next t"
    using rt_calls_step [OF rt_init_inv order_refl assms(2)] by auto
  have "set (map (rt_owner t) rts) \<subseteq> set ps" using t(3,4) by (auto simp: rt_inv_def)
  moreover have "map pid_of (map (rt_owner t) rts) = map pid_of ps" using t(2) by (simp add: comp_def)
  ultimately have "map (rt_owner t) rts = ps"
    using assms(1) by (metis inj_on_map_eq_map sup.absorb2)
  then show ?thesis using t(1) by blast
qed

theorem get_runtime_fork_safe_witness:
  "\<exists>rts s. rt_calls (\<lambda>p. if p = 0 then 10 else if p = 1 then 11 else 12) [0, 1, 1, 2] rt_init = Some (rts, s) \<and>
     map (rt_owner s) rts = [0, 1, 1, 2]"
  by (rule get_runtime_fork_safe) (auto simp: inj_on_def)

text \<open>A process builds at most one runtime between two forks: a second call by the same
  process returns the first call's runtime and changes nothing.\<close>

theorem get_runtime_idempotent:
  assumes "rt_inv pid_of P s" "pid \<noteq> 0" "get_runtime proc pid s = Some (rt, s')"
  shows "get_runtime proc pid s' = Some (rt, s')"
  using assms(1,2,3)
  by (cases rule: get_runtime_cases) (use assms(2) in \<open>auto simp: rt_defs\<close>)

theorem get_runtime_idempotent_witness:
  "get_runtime 0 10 (snd (the (get_runtime 0 10 rt_init))) = get_runtime 0 10 rt_init"
proof -
  have "get_runtime 0 10 rt_init = Some (0, snd (the (get_runtime 0 10 rt_init)))"
    by (simp add: rt_defs rt_init_def)
  from get_runtime_idempotent [OF rt_init_inv _ this] this show ?thesis by simp
qed

section \<open>Where it is not safe\<close>

text \<open>The two hypotheses are needed.  A descendant that is given the pid of the process
  that set \<open>RUNTIME\<close> takes the fast path and gets that process's runtime; and a fork by
  another thread between \<open>get_or_init\<close> and the store of \<open>RUNTIME_PID\<close> leaves the child
  with the parent's runtime and an unset pid, so its first call returns it.\<close>

theorem get_runtime_unsafe_cases:
  "(\<exists>rts s. rt_calls (\<lambda>p. if p = 1 then 11 else 10) [0, 1, 2] rt_init = Some (rts, s) \<and>
      map (rt_owner s) rts = [0, 1, 0]) \<and>
   (\<exists>rt s. get_runtime 1 11 (snd (get_or_init 0 rt_init)) = Some (rt, s) \<and> rt_owner s rt = 0)"
  by (simp add: rt_defs rt_init_def)

end
