(* ===== verification/Errors.thy ===== *)
theory Errors
  imports Prelude
begin

text \<open>
  The exception hierarchy (\<open>exceptions.rs\<close>) and the translation of redis-rs errors into it
  (\<open>errors.rs\<close>).

  \<open>redis::RedisError\<close> belongs to the redis crate.  The driver only reads it through the
  accessors \<open>kind()\<close>, \<open>code()\<close>, \<open>is_timeout()\<close>, \<open>is_connection_dropped()\<close>,
  \<open>is_connection_refusal()\<close> and \<open>to_string()\<close>; a \<open>redis_error\<close> is the record of what these
  return, with no relation between the fields assumed.  The error kinds the driver never
  names are \<open>EkOther\<close> and \<open>SkOther\<close>.
\<close>

section \<open>Python exception classes\<close>

text \<open>The classes of \<open>exceptions.rs\<close>, the two multi-base ones included, and the builtin
  classes the driver raises.\<close>

datatype (plugins only: code size) pyexc =
    BaseException | PyException | PyValueError | PyTypeError | PyRuntimeError | PyStopIteration
  | PyStopAsyncIteration | PyConnectionError | CancelledError | PyArithmeticError | PyOverflowError
  | PanicException | PyLookupError | PyIndexError | PyNotImplementedError | PyOSError | PyWarning
  | PyDeprecationWarning | PyUserWarning | PyRuntimeWarning
  | RedisError | ConnectionError | TimeoutError | BusyLoadingError | AuthenticationError
  | AuthenticationWrongNumberOfArgsError | MasterDownError | ResponseError | DataError
  | InvalidResponse | OutOfMemoryError | NoScriptError | ExecAbortError | ReadOnlyError
  | NoPermissionError | ModuleError | LockError | LockNotOwnedError | WatchError | PubSubError
  | SlaveError | ClusterError | MovedError | AskError | TryAgainError
  | ClusterDownError | ClusterCrossSlotError

fun bases :: "pyexc \<Rightarrow> pyexc list" where
  "bases RedisError = [PyException]"
| "bases ConnectionError = [RedisError]"
| "bases TimeoutError = [ConnectionError]"
| "bases BusyLoadingError = [ConnectionError]"
| "bases AuthenticationError = [ConnectionError]"
| "bases AuthenticationWrongNumberOfArgsError = [AuthenticationError]"
| "bases MasterDownError = [ConnectionError]"
| "bases ResponseError = [RedisError]"
| "bases DataError = [RedisError]"
| "bases InvalidResponse = [RedisError]"
| "bases OutOfMemoryError = [ResponseError]"
| "bases NoScriptError = [ResponseError]"
| "bases ExecAbortError = [ResponseError]"
| "bases ReadOnlyError = [ResponseError]"
| "bases NoPermissionError = [ResponseError]"
| "bases ModuleError = [ResponseError]"
| "bases LockError = [RedisError]"
| "bases LockNotOwnedError = [LockError]"
| "bases WatchError = [RedisError]"
| "bases PubSubError = [RedisError]"
| "bases SlaveError = [RedisError]"
| "bases ClusterError = [RedisError]"
| "bases MovedError = [ClusterError]"
| "bases AskError = [ClusterError]"
| "bases TryAgainError = [ClusterError]"
| "bases ClusterDownError = [ResponseError, ClusterError]"
| "bases ClusterCrossSlotError = [ResponseError, ClusterError]"
| "bases BaseException = []"
| "bases CancelledError = [BaseException]"
| "bases PyException = [BaseException]"
| "bases PyOverflowError = [PyArithmeticError]"
| "bases PanicException = [BaseException]"
| "bases PyIndexError = [PyLookupError]"
| "bases PyNotImplementedError = [PyRuntimeError]"
| "bases PyConnectionError = [PyOSError]"
| "bases PyDeprecationWarning = [PyWarning]"
| "bases PyUserWarning = [PyWarning]"
| "bases PyRuntimeWarning = [PyWarning]"
| "bases c = [PyException]"

text \<open>\<open>ancestors n c\<close> are the classes reached from \<open>c\<close> in at most \<open>n\<close> steps up; the
  hierarchy is six levels deep, so \<open>issubclass\<close> looks five steps up
  (\<open>issubclass_iff_reachable\<close> shows that this is all of them).\<close>

fun ancestors :: "nat \<Rightarrow> pyexc \<Rightarrow> pyexc list" where
  "ancestors 0 c = [c]"
| "ancestors (Suc n) c = c # concat (map (ancestors n) (bases c))"

definition issubclass :: "pyexc \<Rightarrow> pyexc \<Rightarrow> bool" where
  "issubclass c d \<longleftrightarrow> d \<in> set (ancestors 5 c)"

inductive base_reachable :: "pyexc \<Rightarrow> pyexc \<Rightarrow> bool" where
  self: "base_reachable c c"
| up: "b \<in> set (bases c) \<Longrightarrow> base_reachable b d \<Longrightarrow> base_reachable c d"

lemma ancestors_sound: "d \<in> set (ancestors n c) \<Longrightarrow> base_reachable c d"
  by (induction n arbitrary: c) (auto intro: base_reachable.intros)

lemma ancestors_self: "c \<in> set (ancestors n c)"
  by (cases n) auto

lemma ancestors_closed: "b \<in> set (bases c) \<Longrightarrow> set (ancestors 5 b) \<subseteq> set (ancestors 5 c)"
  by (cases c) (auto simp: eval_nat_numeral)

theorem issubclass_iff_reachable: "issubclass c d \<longleftrightarrow> base_reachable c d"
proof
  assume "issubclass c d"
  then show "base_reachable c d"
    by (auto simp: issubclass_def intro: ancestors_sound)
next
  assume "base_reachable c d"
  then have "d \<in> set (ancestors 5 c)"
    by (induction rule: base_reachable.induct) (use ancestors_self ancestors_closed in blast)+
  then show "issubclass c d"
    by (simp add: issubclass_def)
qed

lemma issubclass_trans: "issubclass a b \<Longrightarrow> issubclass b c \<Longrightarrow> issubclass a c"
  unfolding issubclass_iff_reachable
  by (induction rule: base_reachable.induct) (auto intro: base_reachable.intros)

text \<open>The hierarchy is an order, a class being below its bases.\<close>

lemma base_has_fewer_ancestors:
  "b \<in> set (bases c) \<Longrightarrow> card (set (ancestors 5 b)) < card (set (ancestors 5 c))"
  by (cases c) (auto simp: eval_nat_numeral card_insert_if)

lemma reachable_level: "base_reachable c d \<Longrightarrow> c = d \<or> card (set (ancestors 5 d)) < card (set (ancestors 5 c))"
  by (induction rule: base_reachable.induct) (auto dest: base_has_fewer_ancestors)

instantiation pyexc :: order
begin

definition less_eq_pyexc :: "pyexc \<Rightarrow> pyexc \<Rightarrow> bool" where
  "c \<le> d \<longleftrightarrow> issubclass c d"

definition less_pyexc :: "pyexc \<Rightarrow> pyexc \<Rightarrow> bool" where
  "c < d \<longleftrightarrow> issubclass c d \<and> c \<noteq> d"

instance
proof
  fix a b c :: pyexc
  have antisym: "issubclass a b \<Longrightarrow> issubclass b a \<Longrightarrow> a = b"
    unfolding issubclass_iff_reachable using reachable_level [of a b] reachable_level [of b a] by auto
  show "a \<le> a" by (simp add: less_eq_pyexc_def issubclass_def ancestors_self)
  show "a \<le> b \<Longrightarrow> b \<le> c \<Longrightarrow> a \<le> c" unfolding less_eq_pyexc_def by (rule issubclass_trans)
  show "a \<le> b \<Longrightarrow> b \<le> a \<Longrightarrow> a = b" unfolding less_eq_pyexc_def by (rule antisym)
  show "a < b \<longleftrightarrow> a \<le> b \<and> \<not> b \<le> a"
    using antisym by (auto simp: less_eq_pyexc_def less_pyexc_def issubclass_def ancestors_self)
qed

end

text \<open>What an \<open>except\<close> clause for a class catches, one for a class above it catches.\<close>

lemma caught_above: "d \<le> e \<Longrightarrow> issubclass c d \<Longrightarrow> issubclass c e"
  using order_trans [of c d e] by (simp add: less_eq_pyexc_def)

text \<open>A raised Python exception: its class and its message.\<close>

datatype pyerr = PyErr (err_class: pyexc) (err_msg: bytes)

section \<open>ExceptionClass\<close>

datatype (plugins only: code size) exception_class =
    EcRedisError | EcConnectionError | EcTimeoutError | EcBusyLoadingError
  | EcAuthenticationError | EcResponseError | EcNoScriptError | EcExecAbortError
  | EcReadOnlyError | EcNoPermissionError | EcOutOfMemoryError | EcModuleError
  | EcInvalidResponse | EcDataError | EcMasterDownError | EcClusterDownError
  | EcClusterCrossSlotError | EcMovedError | EcAskError | EcTryAgainError
  | EcWatchError | EcPubSubError

text \<open>\<open>raise_clusterdown_error\<close> and \<open>raise_clustercrossslot_error\<close> look the class up in the
  Python package at run time and construct it; \<open>lookup_ok\<close> says whether import, attribute
  access and construction succeed.  If not, they raise \<open>ResponseError\<close>.\<close>

definition raise_clusterdown_error :: "(pyexc \<Rightarrow> bool) \<Rightarrow> bytes \<Rightarrow> pyerr" where
  "raise_clusterdown_error lookup_ok msg =
     (if lookup_ok ClusterDownError then PyErr ClusterDownError msg else PyErr ResponseError msg)"

definition raise_clustercrossslot_error :: "(pyexc \<Rightarrow> bool) \<Rightarrow> bytes \<Rightarrow> pyerr" where
  "raise_clustercrossslot_error lookup_ok msg =
     (if lookup_ok ClusterCrossSlotError then PyErr ClusterCrossSlotError msg
      else PyErr ResponseError msg)"

fun into_py_err :: "(pyexc \<Rightarrow> bool) \<Rightarrow> exception_class \<Rightarrow> bytes \<Rightarrow> pyerr" where
  "into_py_err lk EcRedisError msg = PyErr RedisError msg"
| "into_py_err lk EcConnectionError msg = PyErr ConnectionError msg"
| "into_py_err lk EcTimeoutError msg = PyErr TimeoutError msg"
| "into_py_err lk EcBusyLoadingError msg = PyErr BusyLoadingError msg"
| "into_py_err lk EcAuthenticationError msg = PyErr AuthenticationError msg"
| "into_py_err lk EcResponseError msg = PyErr ResponseError msg"
| "into_py_err lk EcNoScriptError msg = PyErr NoScriptError msg"
| "into_py_err lk EcExecAbortError msg = PyErr ExecAbortError msg"
| "into_py_err lk EcReadOnlyError msg = PyErr ReadOnlyError msg"
| "into_py_err lk EcNoPermissionError msg = PyErr NoPermissionError msg"
| "into_py_err lk EcOutOfMemoryError msg = PyErr OutOfMemoryError msg"
| "into_py_err lk EcModuleError msg = PyErr ModuleError msg"
| "into_py_err lk EcInvalidResponse msg = PyErr InvalidResponse msg"
| "into_py_err lk EcDataError msg = PyErr DataError msg"
| "into_py_err lk EcMasterDownError msg = PyErr MasterDownError msg"
| "into_py_err lk EcClusterDownError msg = raise_clusterdown_error lk msg"
| "into_py_err lk EcClusterCrossSlotError msg = raise_clustercrossslot_error lk msg"
| "into_py_err lk EcMovedError msg = PyErr MovedError msg"
| "into_py_err lk EcAskError msg = PyErr AskError msg"
| "into_py_err lk EcTryAgainError msg = PyErr TryAgainError msg"
| "into_py_err lk EcWatchError msg = PyErr WatchError msg"
| "into_py_err lk EcPubSubError msg = PyErr PubSubError msg"

lemmas raise_defs = raise_clusterdown_error_def raise_clustercrossslot_error_def

lemma into_py_err_msg [simp]: "err_msg (into_py_err lk c msg) = msg"
  by (cases c) (simp_all add: raise_defs)

text \<open>The names \<open>register\<close> exports from the parent module.\<close>

definition registered :: "pyexc list" where
  "registered =
     [RedisError, ConnectionError, TimeoutError, BusyLoadingError, AuthenticationError,
      AuthenticationWrongNumberOfArgsError, MasterDownError, ResponseError, DataError,
      InvalidResponse, OutOfMemoryError, NoScriptError, ExecAbortError, ReadOnlyError,
      NoPermissionError, ModuleError, LockError, LockNotOwnedError, WatchError, PubSubError,
      SlaveError, ClusterError, ClusterDownError, ClusterCrossSlotError, MovedError, AskError,
      TryAgainError]"

section \<open>Classification of redis-rs errors\<close>

datatype server_error_kind =
    SkResponseError | SkExecAbort | SkBusyLoading | SkNoScript | SkMoved | SkAsk | SkTryAgain
  | SkClusterDown | SkCrossSlot | SkMasterDown | SkReadOnly | SkNoPerm | SkOther bytes

datatype error_kind =
    EkServer server_error_kind | EkIo | EkParse | EkExtension | EkClient
  | EkUnexpectedReturnType | EkOther bytes

record redis_error =
  re_kind :: error_kind
  re_code :: "bytes option"
  re_timeout :: bool
  re_dropped :: bool
  re_refused :: bool
  re_display :: bytes

text \<open>Layer 2: the server error kinds with an exception class of their own.\<close>

fun classify_server_kind :: "server_error_kind \<Rightarrow> exception_class option" where
  "classify_server_kind SkBusyLoading = Some EcBusyLoadingError"
| "classify_server_kind SkTryAgain = Some EcTryAgainError"
| "classify_server_kind SkReadOnly = Some EcReadOnlyError"
| "classify_server_kind SkNoScript = Some EcNoScriptError"
| "classify_server_kind SkExecAbort = Some EcExecAbortError"
| "classify_server_kind SkMoved = Some EcMovedError"
| "classify_server_kind SkAsk = Some EcAskError"
| "classify_server_kind SkClusterDown = Some EcClusterDownError"
| "classify_server_kind SkCrossSlot = Some EcClusterCrossSlotError"
| "classify_server_kind SkMasterDown = Some EcMasterDownError"
| "classify_server_kind SkNoPerm = Some EcNoPermissionError"
| "classify_server_kind _ = None"

text \<open>Layer 3: the error code, compared in upper case.\<close>

definition classify_code :: "bytes \<Rightarrow> exception_class option" where
  "classify_code code =
     (let code_upper = to_ascii_uppercase code in
      if code_upper = ''OOM'' then Some EcOutOfMemoryError
      else if code_upper = ''WRONGPASS'' \<or> code_upper = ''NOAUTH'' then Some EcAuthenticationError
      else if prefix ''MODULE'' code_upper then Some EcModuleError
      else if code_upper = ''NOTBUSY'' then Some EcResponseError
      else None)"

definition classify_error :: "redis_error \<Rightarrow> exception_class" where
  "classify_error e =
     (if re_timeout e then EcTimeoutError
      else if re_dropped e \<or> re_refused e then EcConnectionError
      else if re_kind e = EkIo then EcConnectionError
      else
        (case (case re_kind e of EkServer sk \<Rightarrow> classify_server_kind sk | _ \<Rightarrow> None) of
           Some c \<Rightarrow> c
         | None \<Rightarrow>
             (case (case re_code e of Some code \<Rightarrow> classify_code code | None \<Rightarrow> None) of
                Some c \<Rightarrow> c
              | None \<Rightarrow>
                  if re_kind e \<in> {EkParse, EkServer SkResponseError, EkExtension}
                  then EcResponseError
                  else EcRedisError)))"

definition to_py_err :: "(pyexc \<Rightarrow> bool) \<Rightarrow> redis_error \<Rightarrow> pyerr" where
  "to_py_err lk e = into_py_err lk (classify_error e) (re_display e)"

lemma classify_server_kind_None_iff:
  "classify_server_kind sk = None \<longleftrightarrow> sk = SkResponseError \<or> (\<exists>n. sk = SkOther n)"
  by (cases sk) auto

lemma classify_code_cases:
  "classify_code c \<in> {None, Some EcOutOfMemoryError, Some EcAuthenticationError,
     Some EcModuleError, Some EcResponseError}"
  by (simp add: classify_code_def Let_def)

lemma ascii_upper_idem: "ascii_upper (ascii_upper c) = ascii_upper c"
proof (cases "97 \<le> (of_char c :: nat) \<and> (of_char c :: nat) \<le> 122")
  case True
  then have "(of_char c :: nat) - 32 < 256" by linarith
  then have "(of_char (char_of ((of_char c :: nat) - 32) :: char) :: nat) = of_char c - 32"
    by simp
  with True show ?thesis by (auto simp: ascii_upper_def Let_def)
next
  case False
  then show ?thesis by (auto simp: ascii_upper_def Let_def)
qed

lemma to_ascii_uppercase_idem [simp]:
  "to_ascii_uppercase (to_ascii_uppercase s) = to_ascii_uppercase s"
  by (simp add: to_ascii_uppercase_def ascii_upper_idem)

lemma classify_code_upper [simp]: "classify_code (to_ascii_uppercase s) = classify_code s"
  by (simp add: classify_code_def)

section \<open>Properties\<close>

lemma class_is_redis_error: "issubclass (err_class (into_py_err lk c msg)) RedisError"
  by (cases c) (simp_all add: raise_defs issubclass_def eval_nat_numeral)

lemma class_is_registered: "err_class (into_py_err lk c msg) \<in> set registered"
  by (cases c) (simp_all add: raise_defs registered_def)

text \<open>(C17) Whatever redis-rs reports, and whether or not the lookup of the two multi-base classes
  works, the Python exception is of a registered class, is caught by \<open>except RedisError\<close>, and
  its text is the redis-rs text.\<close>
theorem raised_is_redis_error:
  "issubclass (err_class (to_py_err lk e)) RedisError \<and>
   err_class (to_py_err lk e) \<in> set registered \<and>
   err_msg (to_py_err lk e) = re_display e"
  by (simp add: to_py_err_def class_is_redis_error class_is_registered)

text \<open>The classes under \<open>ConnectionError\<close>.\<close>

lemma connection_classes:
  "issubclass (err_class (into_py_err lk c msg)) ConnectionError \<longleftrightarrow>
   c \<in> {EcConnectionError, EcTimeoutError, EcBusyLoadingError, EcAuthenticationError, EcMasterDownError}"
  by (cases c) (simp_all add: raise_defs issubclass_def eval_nat_numeral)

definition transport_failure :: "redis_error \<Rightarrow> bool" where
  "transport_failure e \<longleftrightarrow> re_timeout e \<or> re_dropped e \<or> re_refused e \<or> re_kind e = EkIo"

definition kind_unclassified :: "redis_error \<Rightarrow> bool" where
  "kind_unclassified e \<longleftrightarrow>
     (case re_kind e of EkServer sk \<Rightarrow> classify_server_kind sk = None | _ \<Rightarrow> True)"

definition code_in :: "bytes list \<Rightarrow> redis_error \<Rightarrow> bool" where
  "code_in codes e \<longleftrightarrow>
     (case re_code e of Some c \<Rightarrow> to_ascii_uppercase c \<in> set codes | None \<Rightarrow> False)"

lemma classify_code_auth:
  "classify_code c = Some EcAuthenticationError \<longleftrightarrow> to_ascii_uppercase c \<in> {''WRONGPASS'', ''NOAUTH''}"
  by (auto simp: classify_code_def Let_def)

lemma classify_code_authI:
  "to_ascii_uppercase c = ''WRONGPASS'' \<Longrightarrow> classify_code c = Some EcAuthenticationError"
  "to_ascii_uppercase c = ''NOAUTH'' \<Longrightarrow> classify_code c = Some EcAuthenticationError"
  by (simp_all add: classify_code_auth)

lemma classify_code_not_connection:
  "classify_code c \<noteq> Some EcConnectionError" "classify_code c \<noteq> Some EcTimeoutError"
  "classify_code c \<noteq> Some EcBusyLoadingError" "classify_code c \<noteq> Some EcMasterDownError"
  using classify_code_cases [of c] by auto

lemma server_kind_classes:
  "classify_server_kind sk = Some EcBusyLoadingError \<longleftrightarrow> sk = SkBusyLoading"
  "classify_server_kind sk = Some EcMasterDownError \<longleftrightarrow> sk = SkMasterDown"
  "classify_server_kind sk \<noteq> Some EcConnectionError" "classify_server_kind sk \<noteq> Some EcTimeoutError"
  "classify_server_kind sk \<noteq> Some EcAuthenticationError"
  by (cases sk; simp)+

text \<open>When \<open>except ConnectionError\<close> catches an error: exactly for a transport failure (timeout,
  dropped or refused connection, I/O), a server that is loading or has lost its master, or, when
  the server error kind has no class of its own, an authentication code, in any case.\<close>
theorem connection_error_iff:
  "issubclass (err_class (to_py_err lk e)) ConnectionError \<longleftrightarrow>
   transport_failure e \<or> re_kind e \<in> {EkServer SkBusyLoading, EkServer SkMasterDown} \<or>
   (kind_unclassified e \<and> code_in [''WRONGPASS'', ''NOAUTH''] e)"
proof (cases "transport_failure e")
  case True
  then show ?thesis
    by (auto simp: to_py_err_def connection_classes classify_error_def transport_failure_def)
next
  case False
  then show ?thesis
    unfolding to_py_err_def connection_classes
    by (cases "re_kind e"; cases "re_code e")
      (auto simp: classify_error_def transport_failure_def
         kind_unclassified_def code_in_def classify_code_auth classify_code_authI classify_code_not_connection
         server_kind_classes split: option.splits)
qed

text \<open>The catch-all class \<open>RedisError\<close> itself is raised exactly for the error kinds no layer
  names (client errors, unexpected return types, unknown kinds and unknown server kinds), with
  no recognised code; every other error gets a proper subclass.  The comparison of codes
  ignores case.\<close>
theorem fallback_class_iff:
  "classify_error e = EcRedisError \<longleftrightarrow>
   \<not> transport_failure e \<and> kind_unclassified e \<and>
   re_kind e \<notin> {EkParse, EkServer SkResponseError, EkExtension} \<and>
   (case re_code e of None \<Rightarrow> True | Some c \<Rightarrow> classify_code (to_ascii_uppercase c) = None)"
proof (cases "transport_failure e")
  case True
  then show ?thesis by (auto simp: classify_error_def transport_failure_def)
next
  case False
  have server: "classify_server_kind sk \<noteq> Some EcRedisError" for sk
    by (cases sk) auto
  have code: "classify_code c \<noteq> Some EcRedisError" for c
    using classify_code_cases [of c] by auto
  from False show ?thesis
    by (cases "re_kind e"; cases "re_code e")
      (auto simp: classify_error_def transport_failure_def kind_unclassified_def server code
        split: option.splits)
qed

end
