(* ===== verification/PyModel.thy ===== *)
theory PyModel
  imports Errors Complex_Main
begin

text \<open>
  The Python values the driver builds through PyO3, as far as the driver can tell them apart:
  \<open>None\<close>, \<open>bool\<close>, \<open>int\<close>, \<open>float\<close>, \<open>bytes\<close>, \<open>str\<close>, \<open>list\<close>, \<open>tuple\<close>, \<open>dict\<close>,
  \<open>set\<close> and opaque objects.  A \<open>str\<close> is the UTF-8 octets it was built from.  A dict is its
  list of items in insertion order; \<open>PyDict::set_item\<close> replaces the value of an equal key
  in place and raises \<open>TypeError\<close> on an unhashable one.

  Floats are IEEE-754 binary64 bit patterns.  What the driver asks of Rust's float
  parsing and conversion, and of the redis crate's \<open>Debug\<close> output, is gathered in the
  record \<open>py_env\<close>, a parameter of every definition that needs it.
\<close>

section \<open>Values\<close>

datatype f64 = F64 (f64_bits: "64 word")

datatype pyval =
    PNone
  | PBool bool
  | PInt int
  | PFloat f64
  | PBytes bytes
  | PStr bytes
  | PList "pyval list"
  | PTuple "pyval list"
  | PDict "(pyval \<times> pyval) list"
  | PSet "pyval list"
  | PObj nat

type_synonym 'a pyres = "pyerr + 'a"

section \<open>Equality of dict keys and set elements\<close>

definition f64_is_nan :: "f64 \<Rightarrow> bool" where
  "f64_is_nan f \<longleftrightarrow>
     (uint (f64_bits f) div 2 ^ 52) mod 2048 = 2047 \<and> uint (f64_bits f) mod 2 ^ 52 \<noteq> 0"

text \<open>The exact value of a finite float.\<close>

definition f64_value :: "f64 \<Rightarrow> rat option" where
  "f64_value f =
     (let b = uint (f64_bits f);
          neg = b div 2 ^ 63 = 1;
          e = (b div 2 ^ 52) mod 2048;
          m = b mod 2 ^ 52;
          mag = (if e = 0 then of_int m / 2 ^ 1074
                 else of_int (2 ^ 52 + m) * 2 ^ nat e / 2 ^ 1075)
      in if e = 2047 then None else Some (if neg then - mag else mag))"

text \<open>\<open>extract::<f64>()\<close>; \<open>as_double\<close> is \<open>PyFloat_AsDouble\<close> on what is not a float.\<close>

definition extract_f64 :: "(pyval \<Rightarrow> f64 pyres) \<Rightarrow> pyval \<Rightarrow> f64 pyres" where
  "extract_f64 as_double v = (case v of PFloat f \<Rightarrow> Inr f | other \<Rightarrow> as_double other)"

text \<open>\<open>Duration::from_secs_f64\<close>, in nanoseconds, rounded to the nearest one with ties to even; it
  panics on what is not a duration.\<close>

definition round_rat :: "rat \<Rightarrow> int" where
  "round_rat q =
     (let n = \<lfloor>q\<rfloor>; r = q - of_int n in if 1 / 2 < r \<or> r = 1 / 2 \<and> odd n then n + 1 else n)"

definition from_secs_f64 :: "f64 \<Rightarrow> pyerr + nat" where
  "from_secs_f64 s =
     (case f64_value s of
        Some q \<Rightarrow>
          if q < 0 then Inl (PyErr PanicException ''cannot convert float seconds to Duration: value is negative'')
          else if q \<ge> 2 ^ 64
          then Inl (PyErr PanicException ''cannot convert float seconds to Duration: value is either too big or NaN'')
          else Inr (nat (round_rat (q * 10 ^ 9)))
      | None \<Rightarrow>
          if \<not> f64_is_nan s \<and> uint (f64_bits s) \<ge> 2 ^ 63
          then Inl (PyErr PanicException ''cannot convert float seconds to Duration: value is negative'')
          else Inl (PyErr PanicException ''cannot convert float seconds to Duration: value is either too big or NaN''))"

fun py_number :: "pyval \<Rightarrow> rat option" where
  "py_number (PBool b) = Some (of_bool b)"
| "py_number (PInt i) = Some (of_int i)"
| "py_number (PFloat f) = f64_value f"
| "py_number _ = None"

text \<open>\<open>True == 1 == 1.0\<close>; two infinities are equal when they have the same sign; a NaN is
  equal to nothing; tuples compare element by element.\<close>

fun py_key_eq :: "pyval \<Rightarrow> pyval \<Rightarrow> bool" and py_keys_eq :: "pyval list \<Rightarrow> pyval list \<Rightarrow> bool" where
  "py_key_eq (PTuple xs) b = (case b of PTuple ys \<Rightarrow> py_keys_eq xs ys | _ \<Rightarrow> False)"
| "py_key_eq a b =
     (case (py_number a, py_number b) of
        (Some x, Some y) \<Rightarrow> x = y
      | _ \<Rightarrow> a = b \<and> (case a of PFloat f \<Rightarrow> \<not> f64_is_nan f | _ \<Rightarrow> True))"
| "py_keys_eq [] ys = (ys = [])"
| "py_keys_eq (x # xs) ys =
     (case ys of [] \<Rightarrow> False | y # ys' \<Rightarrow> py_key_eq x y \<and> py_keys_eq xs ys')"

fun py_hashable :: "pyval \<Rightarrow> bool" where
  "py_hashable (PList _) = False"
| "py_hashable (PDict _) = False"
| "py_hashable (PSet _) = False"
| "py_hashable (PTuple xs) = list_all py_hashable xs"
| "py_hashable _ = True"

definition unhashable :: pyerr where
  "unhashable = PyErr PyTypeError ''unhashable type''"

lemma py_key_eq_bytes [simp]: "py_key_eq x (PBytes b) \<longleftrightarrow> x = PBytes b"
  by (cases x) (auto split: option.splits)

lemma py_key_eq_str [simp]: "py_key_eq x (PStr b) \<longleftrightarrow> x = PStr b"
  by (cases x) (auto split: option.splits)

section \<open>Dicts and sets\<close>

fun dict_upd :: "pyval \<Rightarrow> 'v \<Rightarrow> (pyval \<times> 'v) list \<Rightarrow> (pyval \<times> 'v) list" where
  "dict_upd k v [] = [(k, v)]"
| "dict_upd k v ((k', v') # d) =
     (if py_key_eq k' k then (k', v) # d else (k', v') # dict_upd k v d)"

fun dict_get :: "(pyval \<times> 'v) list \<Rightarrow> pyval \<Rightarrow> 'v option" where
  "dict_get [] k = None"
| "dict_get ((k', v') # d) k = (if py_key_eq k' k then Some v' else dict_get d k)"

definition set_item :: "pyval \<Rightarrow> pyval \<Rightarrow> (pyval \<times> pyval) list \<Rightarrow> (pyval \<times> pyval) list pyres" where
  "set_item k v d = (if py_hashable k then Inr (dict_upd k v d) else Inl unhashable)"

definition set_add :: "pyval \<Rightarrow> pyval list \<Rightarrow> pyval list pyres" where
  "set_add x s =
     (if \<not> py_hashable x then Inl unhashable
      else Inr (if list_ex (\<lambda>y. py_key_eq y x) s then s else s @ [x]))"

text \<open>The loops \<open>for (k, v) in pairs { dict.set_item(bytes k, bytes v)? }\<close> and
  \<open>for b in items { set.add(bytes b)? }\<close>.\<close>

definition dict_of_bytes :: "(bytes \<times> pyval) list \<Rightarrow> (pyval \<times> pyval) list" where
  "dict_of_bytes ps = fold (\<lambda>(k, v) d. dict_upd (PBytes k) v d) ps []"

fun set_items :: "(pyval \<times> pyval) list \<Rightarrow> (pyval \<times> pyval) list \<Rightarrow> (pyval \<times> pyval) list pyres" where
  "set_items [] d = Inr d"
| "set_items ((k, v) # ps) d = rbind (set_item k v d) (set_items ps)"

text \<open>The loop that converts each value and stores it under its bytes key before the next one.\<close>

fun set_converted ::
  "('a \<Rightarrow> pyval pyres) \<Rightarrow> (bytes \<times> 'a) list \<Rightarrow> (pyval \<times> pyval) list \<Rightarrow> (pyval \<times> pyval) list pyres" where
  "set_converted f [] d = Inr d"
| "set_converted f ((k, v) # ps) d =
     rbind (f v) (\<lambda>v'. rbind (set_item (PBytes k) v' d) (set_converted f ps))"

abbreviation bytes_items :: "(bytes \<times> pyval) list \<Rightarrow> (pyval \<times> pyval) list" where
  "bytes_items ps \<equiv> map (\<lambda>(k, v). (PBytes k, v)) ps"

fun set_add_bytes :: "bytes list \<Rightarrow> pyval list \<Rightarrow> pyval list pyres" where
  "set_add_bytes [] s = Inr s"
| "set_add_bytes (b # bs) s = rbind (set_add (PBytes b) s) (set_add_bytes bs)"

lemma set_items_bytes_fold:
  "set_items (bytes_items ps) d = Inr (fold (\<lambda>(k, v) d. dict_upd (PBytes k) v d) ps d)"
  by (induction ps arbitrary: d) (auto simp: set_item_def)

lemma set_items_bytes [simp]: "set_items (bytes_items ps) [] = Inr (dict_of_bytes ps)"
  by (simp add: set_items_bytes_fold dict_of_bytes_def)

section \<open>Maps with insertion\<close>

text \<open>
  The contract the driver needs of a map it fills key by key: a lookup after an insertion
  returns the inserted value at that key and the old one elsewhere.  Rust's \<open>HashMap\<close> and
  a Python dict with bytes keys both provide it.
\<close>

locale insert_map =
  fixes lookup :: "'m \<Rightarrow> 'k \<Rightarrow> 'v option"
    and insert :: "'k \<Rightarrow> 'v \<Rightarrow> 'm \<Rightarrow> 'm"
  assumes lookup_insert: "lookup (insert k v m) k' = (if k' = k then Some v else lookup m k')"
begin

lemma lookup_fold_insert:
  "lookup (fold (\<lambda>(k, v) m. insert k v m) ps m) k =
     (case map_of (rev ps) k of Some v \<Rightarrow> Some v | None \<Rightarrow> lookup m k)"
proof (induction ps arbitrary: m)
  case Nil
  then show ?case by simp
next
  case (Cons p ps)
  then show ?case
    by (cases p) (auto simp: lookup_insert map_add_def split: option.splits)
qed

lemma lookup_fold_insert_distinct:
  assumes "distinct (map fst ps)"
  shows "lookup (fold (\<lambda>(k, v) m. insert k v m) ps m) k =
     (case map_of ps k of Some v \<Rightarrow> Some v | None \<Rightarrow> lookup m k)"
proof -
  have "map_of (rev ps) = map_of ps"
    using assms by (intro map_of_inject_set [THEN iffD2]) (auto simp: rev_map [symmetric])
  then show ?thesis by (simp add: lookup_fold_insert)
qed

end

lemma dict_get_upd_bytes:
  "dict_get (dict_upd (PBytes k) v d) (PBytes k') = (if k' = k then Some v else dict_get d (PBytes k'))"
  by (induction d) auto

interpretation bytes_dict: insert_map "\<lambda>d k. dict_get d (PBytes k)" "\<lambda>k. dict_upd (PBytes k)"
  by unfold_locales (rule dict_get_upd_bytes)

text \<open>A \<open>HashMap<K, V>\<close> of the driver is a partial function.\<close>

interpretation hash_map: insert_map "\<lambda>m k. m k" "\<lambda>k v m. m(k \<mapsto> v)"
  by unfold_locales simp

lemma dict_get_of_bytes: "dict_get (dict_of_bytes ps) (PBytes k) = map_of (rev ps) k"
  by (simp add: dict_of_bytes_def bytes_dict.lookup_fold_insert split: option.splits)

lemma dict_get_of_bytes_distinct:
  "distinct (map fst ps) \<Longrightarrow> dict_get (dict_of_bytes ps) (PBytes k) = map_of ps k"
  by (simp add: dict_of_bytes_def bytes_dict.lookup_fold_insert_distinct split: option.splits)

lemma keys_dict_of_bytes: "set (map fst (dict_of_bytes ps)) = PBytes ` fst ` set ps"
proof -
  have upd: "set (map fst (dict_upd (PBytes k) v d)) = Set.insert (PBytes k) (set (map fst d))" for k v
    and d :: "(pyval \<times> pyval) list"
  proof (induction d)
    case (Cons p d)
    then show ?case by (cases p) (simp add: insert_commute)
  qed simp
  have "set (map fst (fold (\<lambda>(k, v) d. dict_upd (PBytes k) v d) ps d)) =
        set (map fst d) \<union> PBytes ` fst ` set ps" for d :: "(pyval \<times> pyval) list"
  proof (induction ps arbitrary: d)
    case (Cons p ps)
    then show ?case using upd by (cases p) auto
  qed simp
  then show ?thesis by (simp add: dict_of_bytes_def)
qed

lemma set_add_bytes_set:
  "set_add_bytes bs s = Inr t \<Longrightarrow> set t = set s \<union> PBytes ` set bs"
proof (induction bs arbitrary: s)
  case (Cons b bs)
  then show ?case
    by (fastforce simp: set_add_def list_ex_iff split: if_splits)
qed simp

lemma set_add_bytes_total: "\<exists>t. set_add_bytes bs s = Inr t"
  by (induction bs arbitrary: s) (auto simp: set_add_def)

section \<open>The environment\<close>

text \<open>
  \<open>pe_lookup_ok\<close>: see \<open>raise_clusterdown_error\<close>.  \<open>pe_parse_f64\<close>: UTF-8 validation
  followed by \<open>str::parse::<f64>\<close>; \<open>pe_i64_as_f64\<close>: the \<open>as f64\<close> cast.
\<close>

record py_env =
  pe_lookup_ok :: "pyexc \<Rightarrow> bool"
  pe_parse_f64 :: "bytes \<Rightarrow> f64 option"
  pe_i64_as_f64 :: "i64 \<Rightarrow> f64"

definition f64_zero :: f64 where
  "f64_zero = F64 0"

end
