(* ===== verification/Bridge.thy ===== *)
theory Bridge
  imports PyModel
begin

text \<open>
  The boundary between redis-rs replies and Python values: \<open>redis_value_to_py\<close>,
  \<open>RawResult::into_py\<close> and \<open>build_stream_entries\<close> (\<open>async_bridge.rs\<close>), the
  \<open>IntoRawResult\<close> conversions (\<open>raw_result.rs\<close>), the sync conversion helpers
  (\<open>helpers.rs\<close>), the HRANDFIELD, HSCAN and ZRANDMEMBER renderers, and the pubsub message
  dict (\<open>pubsub.rs\<close>).

  \<open>redis::Value\<close> is a type of the redis crate with the constructors the driver matches on;
  constructors it never names are \<open>VOther\<close>, carrying their \<open>Debug\<close> text.
\<close>

section \<open>Reply values\<close>

datatype (plugins only: code size) redis_value =
    VNil
  | VInt i64
  | VBulkString bytes
  | VArray "redis_value list"
  | VSimpleString bytes
  | VOkay
  | VMap "(redis_value \<times> redis_value) list"
  | VAttribute redis_value "(redis_value \<times> redis_value) list"
  | VSet "redis_value list"
  | VDouble f64
  | VBoolean bool
  | VVerbatimString bytes bytes
  | VBigNumber int
  | VPush bytes "redis_value list"
  | VServerError bytes
  | VOther bytes

record bridge_env = py_env +
  be_debug :: "redis_value \<Rightarrow> bytes"
  be_message :: "error_kind \<Rightarrow> bytes \<Rightarrow> bytes option \<Rightarrow> bytes"

text \<open>A \<open>RedisError\<close> the driver builds itself from a kind, a description and possibly a detail;
  how it is displayed is the redis crate's.\<close>

definition made_error :: "bridge_env \<Rightarrow> error_kind \<Rightarrow> bytes \<Rightarrow> bytes option \<Rightarrow> redis_error" where
  "made_error env kind desc detail =
     \<lparr>re_kind = kind, re_code = None, re_timeout = False, re_dropped = False, re_refused = False,
      re_display = be_message env kind desc detail\<rparr>"

text \<open>An environment for concrete evaluations.\<close>

definition sample_env :: bridge_env where
  "sample_env = \<lparr>pe_lookup_ok = (\<lambda>_. True), pe_parse_f64 = (\<lambda>_. None),
     pe_i64_as_f64 = (\<lambda>_. f64_zero), be_debug = (\<lambda>_. []),
     be_message = (\<lambda>_ desc _. desc)\<rparr>"

function (sequential) redis_value_to_py :: "redis_value \<Rightarrow> pyval pyres"
  and redis_values_to_py :: "redis_value list \<Rightarrow> pyval list pyres"
  and redis_pairs_to_py ::
    "(redis_value \<times> redis_value) list \<Rightarrow> (pyval \<times> pyval) list \<Rightarrow> (pyval \<times> pyval) list pyres"
where
  "redis_value_to_py VNil = Inr PNone"
| "redis_value_to_py (VInt i) = Inr (PInt (sint i))"
| "redis_value_to_py (VBulkString b) = Inr (PBytes b)"
| "redis_value_to_py (VSimpleString s) = Inr (PBytes s)"
| "redis_value_to_py (VBoolean b) = Inr (PBool b)"
| "redis_value_to_py (VDouble f) = Inr (PFloat f)"
| "redis_value_to_py VOkay = Inr (PBool True)"
| "redis_value_to_py (VArray items) = rbind (redis_values_to_py items) (\<lambda>xs. Inr (PList xs))"
| "redis_value_to_py (VMap pairs) = rbind (redis_pairs_to_py pairs []) (\<lambda>d. Inr (PDict d))"
| "redis_value_to_py (VSet items) = rbind (redis_values_to_py items) (\<lambda>xs. Inr (PList xs))"
| "redis_value_to_py (VAttribute data attrs) = redis_value_to_py data"
| "redis_value_to_py (VPush kind data) = rbind (redis_values_to_py data) (\<lambda>xs. Inr (PList xs))"
| "redis_value_to_py (VBigNumber n) = Inr (PStr (show_int n))"
| "redis_value_to_py (VVerbatimString fmt txt) = Inr (PBytes txt)"
| "redis_value_to_py (VServerError e) = Inl (PyErr PyRuntimeError e)"
| "redis_value_to_py (VOther dbg) = Inr (PStr dbg)"
| "redis_values_to_py [] = Inr []"
| "redis_values_to_py (v # vs) =
     rbind (redis_value_to_py v) (\<lambda>x. rbind (redis_values_to_py vs) (\<lambda>xs. Inr (x # xs)))"
| "redis_pairs_to_py [] d = Inr d"
| "redis_pairs_to_py ((k, v) # ps) d =
     rbind (redis_value_to_py k) (\<lambda>k'.
     rbind (redis_value_to_py v) (\<lambda>v'.
     rbind (set_item k' v' d) (\<lambda>d'. redis_pairs_to_py ps d')))"
  by pat_completeness auto
termination
  by (relation "measure (case_sum size (case_sum (size_list size)
       (\<lambda>p. size_list (size_prod size size) (fst p))))") auto

section \<open>Pubsub messages\<close>

datatype pubsub_kind =
    KSubscribe | KUnsubscribe | KPSubscribe | KPUnsubscribe | KSSubscribe | KSUnsubscribe
  | KMessage | KPMessage | KSMessage | KPong

datatype pubsub_data = PubSubBytes bytes | PubSubCount i64

record pubsub_message =
  pm_kind :: pubsub_kind
  pm_pattern :: "bytes option"
  pm_channel :: bytes
  pm_data :: pubsub_data

fun type_str :: "pubsub_kind \<Rightarrow> bytes" where
  "type_str KSubscribe = ''subscribe''"
| "type_str KUnsubscribe = ''unsubscribe''"
| "type_str KPSubscribe = ''psubscribe''"
| "type_str KPUnsubscribe = ''punsubscribe''"
| "type_str KSSubscribe = ''ssubscribe''"
| "type_str KSUnsubscribe = ''sunsubscribe''"
| "type_str KMessage = ''message''"
| "type_str KPMessage = ''pmessage''"
| "type_str KSMessage = ''smessage''"
| "type_str KPong = ''pong''"

definition is_subscribe_confirmation :: "pubsub_kind \<Rightarrow> bool" where
  "is_subscribe_confirmation k \<longleftrightarrow>
     k \<in> {KSubscribe, KUnsubscribe, KPSubscribe, KPUnsubscribe, KSSubscribe, KSUnsubscribe}"

definition message_to_py :: "pubsub_message \<Rightarrow> pyval pyres" where
  "message_to_py m =
     rbind (set_item (PStr ''type'') (PStr (type_str (pm_kind m))) []) (\<lambda>d.
     rbind (set_item (PStr ''pattern'')
              (case pm_pattern m of Some p \<Rightarrow> PBytes p | None \<Rightarrow> PNone) d) (\<lambda>d.
     rbind (set_item (PStr ''channel'') (PBytes (pm_channel m)) d) (\<lambda>d.
     rbind (set_item (PStr ''data'')
              (case pm_data m of PubSubBytes b \<Rightarrow> PBytes b | PubSubCount n \<Rightarrow> PInt (sint n)) d)
       (\<lambda>d. Inr (PDict d)))))"

section \<open>RawResult\<close>

type_synonym fields = "(bytes \<times> bytes) list"
type_synonym stream_entry = "bytes \<times> fields"
type_synonym scored_pair = "bytes \<times> f64"

datatype (plugins only: code size) raw_result =
    RNil
  | ROptBytes "bytes option"
  | RBool bool
  | RInt i64
  | ROptInt "i64 option"
  | RF64 f64
  | ROptF64 "f64 option"
  | RStr bytes
  | ROptStr "bytes option"
  | ROptBytesList "bytes option list"
  | RBytesList "bytes list"
  | RStringList "bytes list"
  | RBytesPairs fields
  | RScoredMembers "scored_pair list"
  | ROptKeyAndBytesList "(bytes \<times> bytes list) option"
  | ROptKeyAndBytes "(bytes \<times> bytes) option"
  | RCursorAndStrings u64 "bytes list"
  | RIntList "i64 list"
  | RHRandfield redis_value "i64 option" bool
  | RHScan u64 redis_value bool
  | RSetOfBytes "bytes list"
  | RBoolList "bool list"
  | RSScan u64 "bytes list"
  | ROptScore "f64 option"
  | ROptRankAndScore "(i64 \<times> f64) option"
  | ROptKeyAndScoredMembers "(bytes \<times> scored_pair list) option"
  | ROptKeyMemberScore "(bytes \<times> bytes \<times> f64) option"
  | RZRandmember redis_value "i64 option" bool
  | RZScan u64 "scored_pair list"
  | RValue redis_value
  | RError exception_class bytes
  | RStreamEntries "stream_entry list"
  | RStreamReadEntries "(bytes \<times> stream_entry list) list"
  | RStreamPendingSummary "(i64 \<times> bytes \<times> bytes \<times> (bytes \<times> i64) list) option"
  | RStreamPendingRange "(bytes \<times> bytes \<times> i64 \<times> i64) list"
  | RStreamClaim "stream_entry list"
  | RStreamClaimJustIds "bytes list"
  | RStreamAutoclaim "bytes \<times> stream_entry list \<times> bytes list"
  | RStreamAutoclaimJustIds "bytes \<times> bytes list \<times> bytes list"
  | RStreamInfoStream "(bytes \<times> redis_value) list"
  | RStreamInfoGroups "(bytes \<times> redis_value) list list"
  | RStreamInfoConsumers "(bytes \<times> redis_value) list list"
  | ROptStrPair "(bytes \<times> bytes) option"
  | RIntPair "(i64 \<times> i64) option"
  | RBytesPairsList "fields list"
  | RPubSubMessage pubsub_message

section \<open>Renderers\<close>

definition bulk_or_none :: "redis_value \<Rightarrow> pyval" where
  "bulk_or_none v = (case v of VBulkString b \<Rightarrow> PBytes b | _ \<Rightarrow> PNone)"

definition nested_reply :: "redis_value list \<Rightarrow> bool" where
  "nested_reply items = (case items of VArray _ # _ \<Rightarrow> True | _ \<Rightarrow> False)"

text \<open>The two-element inner arrays of a nested (RESP3) reply; other items are skipped.\<close>

definition inner_pairs :: "redis_value list \<Rightarrow> (redis_value \<times> redis_value) list" where
  "inner_pairs items =
     List.map_filter (\<lambda>i. case i of VArray [a, b] \<Rightarrow> Some (a, b) | _ \<Rightarrow> None) items"

definition render_hrandfield ::
  "bridge_env \<Rightarrow> redis_value \<Rightarrow> i64 option \<Rightarrow> bool \<Rightarrow> pyval pyres" where
  "render_hrandfield env value count withvalues =
     (case (count, value) of
        (None, VNil) \<Rightarrow> Inr PNone
      | (None, VBulkString b) \<Rightarrow> Inr (PBytes b)
      | (Some _, VArray items) \<Rightarrow>
          if \<not> withvalues then
            Inr (PList (map (\<lambda>i. case i of
                                 VBulkString b \<Rightarrow> PBytes b
                               | VNil \<Rightarrow> PNone
                               | other \<Rightarrow> PBytes (be_debug env other)) items))
          else
            Inr (PList (map (\<lambda>(f, v). PTuple [bulk_or_none f, bulk_or_none v])
                         (if nested_reply items then inner_pairs items else pair_up items)))
      | (_, VNil) \<Rightarrow> Inr PNone
      | (_, other) \<Rightarrow> Inr (PStr (be_debug env other)))"

definition render_hscan :: "u64 \<Rightarrow> redis_value \<Rightarrow> bool \<Rightarrow> pyval pyres" where
  "render_hscan cursor value novalues =
     rbind
       (case value of
          VArray items \<Rightarrow>
            if novalues then Inr (PList (map bulk_or_none items))
            else rbind (set_items (map (\<lambda>(k, v). (bulk_or_none k, bulk_or_none v)) (pair_up items)) []) (\<lambda>d. Inr (PDict d))
        | _ \<Rightarrow> Inr (PList []))
       (\<lambda>payload. Inr (PTuple [PInt (uint cursor), payload]))"

definition parse_score :: "bridge_env \<Rightarrow> redis_value \<Rightarrow> f64" where
  "parse_score env v =
     (case v of
        VDouble f \<Rightarrow> f
      | VBulkString b \<Rightarrow> (case pe_parse_f64 env b of Some f \<Rightarrow> f | None \<Rightarrow> f64_zero)
      | VInt n \<Rightarrow> pe_i64_as_f64 env n
      | _ \<Rightarrow> f64_zero)"

definition render_zrandmember ::
  "bridge_env \<Rightarrow> redis_value \<Rightarrow> i64 option \<Rightarrow> bool \<Rightarrow> pyval pyres" where
  "render_zrandmember env value count withscores =
     (case (count, value) of
        (None, VNil) \<Rightarrow> Inr PNone
      | (None, VBulkString b) \<Rightarrow> Inr (PBytes b)
      | (Some _, VArray items) \<Rightarrow>
          if \<not> withscores then Inr (PList (map bulk_or_none items))
          else
            Inr (PList (map (\<lambda>(m, s). PTuple [bulk_or_none m, PFloat (parse_score env s)])
                         (if nested_reply items then inner_pairs items else pair_up items)))
      | (_, VNil) \<Rightarrow> Inr PNone
      | _ \<Rightarrow> Inr (PList []))"

definition build_stream_entries :: "stream_entry list \<Rightarrow> pyval pyres" where
  "build_stream_entries entries =
     rbind
       (collect_res (\<lambda>(id, flds).
          rbind (set_items (bytes_items (map (\<lambda>(k, v). (k, PBytes v)) flds)) [])
            (\<lambda>d. Inr (PTuple [PBytes id, PDict d]))) entries)
       (\<lambda>items. Inr (PList items))"

definition py_float_pair :: "scored_pair \<Rightarrow> pyval" where
  "py_float_pair p = (case p of (m, s) \<Rightarrow> PTuple [PBytes m, PFloat s])"

definition opt_py :: "('a \<Rightarrow> pyval) \<Rightarrow> 'a option \<Rightarrow> pyval" where
  "opt_py f v = (case v of Some x \<Rightarrow> f x | None \<Rightarrow> PNone)"

text \<open>The stream arms of \<open>into_py\<close> that build more than a list.\<close>

definition stream_read_to_py :: "(bytes \<times> stream_entry list) list \<Rightarrow> pyval pyres" where
  "stream_read_to_py streams =
     (if streams = [] then Inr PNone
      else rbind (set_converted build_stream_entries streams []) (\<lambda>d. Inr (PDict d)))"

definition stream_pending_summary_to_py ::
  "(i64 \<times> bytes \<times> bytes \<times> (bytes \<times> i64) list) option \<Rightarrow> pyval pyres" where
  "stream_pending_summary_to_py v =
     (case v of
        None \<Rightarrow> Inr (PTuple [PInt 0, PNone, PNone, PList []])
      | Some (count, min_id, max_id, consumers) \<Rightarrow>
          Inr (PTuple [PInt (sint count), PBytes min_id, PBytes max_id,
                 PList (map (\<lambda>(name, n). PTuple [PBytes name, PInt (sint n)]) consumers)]))"

definition stream_pending_range_to_py :: "(bytes \<times> bytes \<times> i64 \<times> i64) list \<Rightarrow> pyval pyres" where
  "stream_pending_range_to_py rows =
     rbind
       (collect_res (\<lambda>(id, consumer, idle, deliveries).
          rbind (set_items (bytes_items
                   [(''message_id'', PBytes id), (''consumer'', PBytes consumer),
                    (''time_since_delivered'', PInt (sint idle)),
                    (''times_delivered'', PInt (sint deliveries))]) [])
            (\<lambda>d. Inr (PDict d))) rows)
       (\<lambda>items. Inr (PList items))"

text \<open>A row of an XINFO reply.\<close>

definition info_row_to_py :: "(bytes \<times> redis_value) list \<Rightarrow> pyval pyres" where
  "info_row_to_py row = rbind (set_converted redis_value_to_py row []) (\<lambda>d. Inr (PDict d))"

definition info_rows_to_py :: "(bytes \<times> redis_value) list list \<Rightarrow> pyval pyres" where
  "info_rows_to_py rows =
     rbind (collect_res info_row_to_py rows)
       (\<lambda>items. Inr (PList items))"

section \<open>RawResult::into_py\<close>

fun into_py :: "bridge_env \<Rightarrow> raw_result \<Rightarrow> pyval pyres" where
  "into_py env RNil = Inr PNone"
| "into_py env (ROptBytes v) = Inr (opt_py PBytes v)"
| "into_py env (RBool b) = Inr (PBool b)"
| "into_py env (RInt n) = Inr (PInt (sint n))"
| "into_py env (RStr s) = Inr (PStr s)"
| "into_py env (ROptStr v) = Inr (opt_py PStr v)"
| "into_py env (ROptBytesList items) = Inr (PList (map (opt_py PBytes) items))"
| "into_py env (RBytesList items) = Inr (PList (map PBytes items))"
| "into_py env (RStringList items) = Inr (PList (map PStr items))"
| "into_py env (ROptKeyAndBytesList v) =
     Inr (opt_py (\<lambda>(key, values). PTuple [PStr key, PList (map PBytes values)]) v)"
| "into_py env (ROptKeyAndBytes v) = Inr (opt_py (\<lambda>(key, value). PTuple [PBytes key, PBytes value]) v)"
| "into_py env (RCursorAndStrings cursor keys) =
     Inr (PTuple [PInt (uint cursor), PList (map PStr keys)])"
| "into_py env (ROptInt v) = Inr (opt_py (\<lambda>n. PInt (sint n)) v)"
| "into_py env (RF64 f) = Inr (PFloat f)"
| "into_py env (ROptF64 v) = Inr (opt_py PFloat v)"
| "into_py env (RBytesPairs pairs) =
     rbind (set_items (bytes_items (map (\<lambda>(k, v). (k, PBytes v)) pairs)) []) (\<lambda>d. Inr (PDict d))"
| "into_py env (RScoredMembers items) = Inr (PList (map py_float_pair items))"
| "into_py env (RIntList items) = Inr (PList (map (\<lambda>n. PInt (sint n)) items))"
| "into_py env (RHRandfield v count withvalues) = render_hrandfield env v count withvalues"
| "into_py env (RHScan cursor value novalues) = render_hscan cursor value novalues"
| "into_py env (RSetOfBytes items) = rbind (set_add_bytes items []) (\<lambda>s. Inr (PSet s))"
| "into_py env (RBoolList items) = Inr (PList (map PBool items))"
| "into_py env (RSScan cursor members) =
     rbind (set_add_bytes members []) (\<lambda>s. Inr (PTuple [PInt (uint cursor), PSet s]))"
| "into_py env (ROptScore v) = Inr (opt_py PFloat v)"
| "into_py env (ROptRankAndScore v) =
     Inr (opt_py (\<lambda>(rank, score). PTuple [PInt (sint rank), PFloat score]) v)"
| "into_py env (ROptKeyAndScoredMembers v) =
     Inr (opt_py (\<lambda>(key, items). PTuple [PStr key, PList (map py_float_pair items)]) v)"
| "into_py env (ROptKeyMemberScore v) =
     Inr (opt_py (\<lambda>(k, m, s). PTuple [PBytes k, PBytes m, PFloat s]) v)"
| "into_py env (RZRandmember value count withscores) = render_zrandmember env value count withscores"
| "into_py env (RZScan cursor items) =
     Inr (PTuple [PInt (uint cursor), PList (map py_float_pair items)])"
| "into_py env (ROptStrPair v) = Inr (opt_py (\<lambda>(a, b). PTuple [PStr a, PStr b]) v)"
| "into_py env (RIntPair v) = Inr (opt_py (\<lambda>(a, b). PTuple [PInt (sint a), PInt (sint b)]) v)"
| "into_py env (RBytesPairsList rows) =
     rbind (collect_res (\<lambda>row. rbind (set_items (bytes_items (map (\<lambda>(k, v). (k, PBytes v)) row)) [])
              (\<lambda>d. Inr (PDict d))) rows) (\<lambda>items. Inr (PList items))"
| "into_py env (RValue v) = redis_value_to_py v"
| "into_py env (RError c e) = Inl (into_py_err (pe_lookup_ok env) c e)"
| "into_py env (RPubSubMessage msg) = message_to_py msg"
| "into_py env (RStreamEntries entries) = build_stream_entries entries"
| "into_py env (RStreamReadEntries streams) = stream_read_to_py streams"
| "into_py env (RStreamPendingSummary v) = stream_pending_summary_to_py v"
| "into_py env (RStreamPendingRange rows) = stream_pending_range_to_py rows"
| "into_py env (RStreamClaim entries) = build_stream_entries entries"
| "into_py env (RStreamClaimJustIds ids) = Inr (PList (map PBytes ids))"
| "into_py env (RStreamAutoclaim (next_id, entries, deleted)) =
     rbind (build_stream_entries entries)
       (\<lambda>es. Inr (PTuple [PBytes next_id, es, PList (map PBytes deleted)]))"
| "into_py env (RStreamAutoclaimJustIds (next_id, ids, deleted)) =
     Inr (PTuple [PBytes next_id, PList (map PBytes ids), PList (map PBytes deleted)])"
| "into_py env (RStreamInfoStream pairs) = info_row_to_py pairs"
| "into_py env (RStreamInfoGroups rows) = info_rows_to_py rows"
| "into_py env (RStreamInfoConsumers rows) = info_rows_to_py rows"

end
