(* ===== verification/RedisCmd.thy ===== *)
theory RedisCmd
  imports Bridge
begin

text \<open>
  Commands as the driver builds them.  \<open>redis::Cmd\<close> belongs to the redis crate: a
  \<open>redis_cmd\<close> is the record of the calls the driver makes on the builder, the name given to
  \<open>redis::cmd\<close> and the typed values given to \<open>arg\<close>, in order.  A \<open>request\<close> is what a
  command method does: answer without talking to the server, or dispatch a command.

  The second half of the theory is the contract of an argument encoder (locale
  \<open>lossless\<close>): a decoder recovers the options from the arguments, so no two option sets give
  the same command.  \<open>take_flag\<close>, \<open>take_opt\<close> and their rewrite rules are the decoder's
  building blocks.
\<close>

section \<open>Commands\<close>

datatype redis_arg =
    AStr bytes | ABytes bytes | AI64 i64 | AU64 u64 | AU32 u32 | AU16 u16 | AF64 f64 | AUsize nat

datatype redis_cmd = Cmd (cmd_name: bytes) (cmd_args: "redis_arg list")

datatype 'r request = Ready 'r | Dispatch redis_cmd

definition flag_arg :: "bytes \<Rightarrow> bool \<Rightarrow> redis_arg list" where
  "flag_arg kw b = (if b then [AStr kw] else [])"

definition opt_arg :: "bytes \<Rightarrow> ('a \<Rightarrow> redis_arg) \<Rightarrow> 'a option \<Rightarrow> redis_arg list" where
  "opt_arg kw f v = (case v of Some x \<Rightarrow> [AStr kw, f x] | None \<Rightarrow> [])"

definition opt_val :: "('a \<Rightarrow> redis_arg) \<Rightarrow> 'a option \<Rightarrow> redis_arg list" where
  "opt_val f v = (case v of Some x \<Rightarrow> [f x] | None \<Rightarrow> [])"

text \<open>What \<open>redis::from_redis_value\<close> makes of a reply, per target type.\<close>

record decoders =
  dc_bytes :: "redis_value \<Rightarrow> redis_error + bytes"
  dc_string :: "redis_value \<Rightarrow> redis_error + bytes"
  dc_bytes_list :: "redis_value \<Rightarrow> redis_error + bytes list"
  dc_pairs :: "redis_value \<Rightarrow> redis_error + (bytes \<times> bytes) list"

section \<open>The contract of an encoder\<close>

locale lossless =
  fixes enc :: "'a \<Rightarrow> 'b" and dec :: "'b \<Rightarrow> 'a option" and valid :: "'a \<Rightarrow> bool"
  assumes dec_enc: "valid x \<Longrightarrow> dec (enc x) = Some x"
begin

lemma enc_inj: "valid x \<Longrightarrow> valid y \<Longrightarrow> enc x = enc y \<Longrightarrow> x = y"
  by (metis dec_enc option.inject)

lemma inj_on_enc: "inj_on enc {x. valid x}"
  by (auto intro: inj_onI enc_inj)

end

definition take_flag :: "bytes \<Rightarrow> redis_arg list \<Rightarrow> bool \<times> redis_arg list" where
  "take_flag kw as = (case as of a # rest \<Rightarrow> if a = AStr kw then (True, rest) else (False, as) | [] \<Rightarrow> (False, []))"

definition take_opt :: "bytes \<Rightarrow> redis_arg list \<Rightarrow> redis_arg option \<times> redis_arg list" where
  "take_opt kw as =
     (case as of a # x # rest \<Rightarrow> if a = AStr kw then (Some x, rest) else (None, as) | _ \<Rightarrow> (None, as))"

definition no_head :: "bytes \<Rightarrow> redis_arg list \<Rightarrow> bool" where
  "no_head kw as \<longleftrightarrow> (case as of a # _ \<Rightarrow> a \<noteq> AStr kw | [] \<Rightarrow> True)"

lemma no_head_simps [simp]:
  "no_head kw []"
  "no_head kw (a # as) \<longleftrightarrow> a \<noteq> AStr kw"
  by (simp_all add: no_head_def)

lemma no_head_flag [simp]: "kw \<noteq> kw' \<Longrightarrow> no_head kw as \<Longrightarrow> no_head kw (flag_arg kw' b @ as)"
  by (simp add: flag_arg_def)

lemma no_head_flag_end [simp]: "kw \<noteq> kw' \<Longrightarrow> no_head kw (flag_arg kw' b)"
  by (simp add: flag_arg_def)

lemma no_head_opt [simp]: "kw \<noteq> kw' \<Longrightarrow> no_head kw as \<Longrightarrow> no_head kw (opt_arg kw' f v @ as)"
  by (simp add: opt_arg_def split: option.splits)

lemma no_head_opt_end [simp]: "kw \<noteq> kw' \<Longrightarrow> no_head kw (opt_arg kw' f v)"
  by (simp add: opt_arg_def split: option.splits)

lemma take_flag_arg [simp]: "no_head kw as \<Longrightarrow> take_flag kw (flag_arg kw b @ as) = (b, as)"
  by (cases as) (auto simp: take_flag_def flag_arg_def no_head_def)

lemma take_flag_end [simp]: "take_flag kw (flag_arg kw b) = (b, [])"
  by (auto simp: take_flag_def flag_arg_def)

lemma take_opt_arg [simp]: "no_head kw as \<Longrightarrow> take_opt kw (opt_arg kw f v @ as) = (map_option f v, as)"
  by (auto simp: take_opt_def opt_arg_def no_head_def split: option.splits list.splits)

lemma take_opt_end [simp]: "take_opt kw (opt_arg kw f v) = (map_option f v, [])"
  by (auto simp: take_opt_def opt_arg_def split: option.splits)

fun as_u64 :: "redis_arg \<Rightarrow> u64 option" where "as_u64 (AU64 n) = Some n" | "as_u64 _ = None"
fun as_i64 :: "redis_arg \<Rightarrow> i64 option" where "as_i64 (AI64 n) = Some n" | "as_i64 _ = None"
fun as_f64 :: "redis_arg \<Rightarrow> f64 option" where "as_f64 (AF64 f) = Some f" | "as_f64 _ = None"
fun as_str :: "redis_arg \<Rightarrow> bytes option" where "as_str (AStr s) = Some s" | "as_str _ = None"
fun as_bytes :: "redis_arg \<Rightarrow> bytes option" where "as_bytes (ABytes s) = Some s" | "as_bytes _ = None"

lemma bind_map_option_args [simp]:
  "Option.bind (map_option AU64 a) as_u64 = a"
  "Option.bind (map_option AI64 b) as_i64 = b"
  "Option.bind (map_option AStr s) as_str = s"
  by ((cases a; simp), (cases b; simp), (cases s; simp))

end
