(* ===== verification/Cluster.thy ===== *)
theory Cluster
  imports RedisCmd
begin

unbundle bit_operations_syntax

text \<open>
  Cluster routing (\<open>facade/cluster.rs\<close>): the CRC16 slot of a key, the grouping of a key list
  by slot, and the fan-out of MGET, MSET, DEL, UNLINK and EXISTS over the slots.

  A fan-out spawns one task per slot.  The order in which the server executes the tasks and the
  order in which the tasks are joined are both free: \<open>exec\<close> and \<open>joined\<close> are two
  enumerations of the slots (the iteration order of the \<open>HashMap\<close> only influences them).
  \<open>dispatch\<close> is the server: a command and a state give a reply and a new state; a task
  that panics or is cancelled is joined as an error, like a failing command.
\<close>

section \<open>CRC16 and slots\<close>

definition crc16_bit :: "u16 \<Rightarrow> u16" where
  "crc16_bit crc = (if crc AND 0x8000 \<noteq> 0 then push_bit 1 crc XOR 0x1021 else push_bit 1 crc)"

definition crc16_byte :: "u16 \<Rightarrow> char \<Rightarrow> u16" where
  "crc16_byte crc b = (crc16_bit ^^ 8) (crc XOR push_bit 8 (of_char b))"

definition crc16_xmodem :: "bytes \<Rightarrow> u16" where
  "crc16_xmodem data = foldl crc16_byte 0 data"

fun position :: "char \<Rightarrow> bytes \<Rightarrow> nat option" where
  "position c [] = None"
| "position c (x # xs) = (if x = c then Some 0 else map_option Suc (position c xs))"

definition hash_target :: "bytes \<Rightarrow> bytes" where
  "hash_target key =
     (case (position CHR ''{'' key, position CHR ''}'' key) of
        (Some s, Some e) \<Rightarrow> if e > s + 1 then take (e - (s + 1)) (drop (s + 1) key) else key
      | _ \<Rightarrow> key)"

definition cluster_slot :: "bytes \<Rightarrow> u16" where
  "cluster_slot key = crc16_xmodem (hash_target key) mod 16384"

section \<open>The fan-out\<close>

definition push_entry :: "u16 \<Rightarrow> 'a \<Rightarrow> (u16 \<Rightarrow> 'a list option) \<Rightarrow> u16 \<Rightarrow> 'a list option" where
  "push_entry slot x m = m(slot \<mapsto> (case m slot of Some xs \<Rightarrow> xs | None \<Rightarrow> []) @ [x])"

definition group_by_slot :: "bytes list \<Rightarrow> u16 \<Rightarrow> (nat \<times> bytes) list option" where
  "group_by_slot keys =
     fold (\<lambda>(idx, k). push_entry (cluster_slot k) (idx, k)) (enumerate 0 keys) (\<lambda>_. None)"

text \<open>The tasks, executed in the order \<open>exec\<close>, and the \<open>while let Some(joined)\<close> loop.\<close>

fun run_tasks :: "(u16 \<Rightarrow> 'db \<Rightarrow> 'r \<times> 'db) \<Rightarrow> u16 list \<Rightarrow> 'db \<Rightarrow> (u16 \<Rightarrow> 'r option) \<times> 'db" where
  "run_tasks task [] db = ((\<lambda>_. None), db)"
| "run_tasks task (s # ss) db =
     (let (r, db) = task s db; (rs, db) = run_tasks task ss db in (rs(s \<mapsto> r), db))"

fun join_all :: "('acc \<Rightarrow> 'r \<Rightarrow> 'acc) \<Rightarrow> ('e + 'r) list \<Rightarrow> 'acc \<Rightarrow> 'e + 'acc" where
  "join_all f [] acc = Inr acc"
| "join_all f (r # rs) acc = rbind r (\<lambda>x. join_all f rs (f acc x))"

type_synonym ('db, 'r) server = "redis_cmd \<Rightarrow> 'db \<Rightarrow> (redis_error + 'r) \<times> 'db"

definition group_entries :: "(u16 \<Rightarrow> 'a list option) \<Rightarrow> u16 \<Rightarrow> 'a list" where
  "group_entries g s = (case g s of Some xs \<Rightarrow> xs | None \<Rightarrow> [])"

definition scatter :: "'a list \<Rightarrow> nat list \<times> 'a list \<Rightarrow> 'a list" where
  "scatter out r = fold (\<lambda>(i, v) out. out[i := v]) (zip (fst r) (snd r)) out"

definition mget_task ::
  "('db, bytes option list) server \<Rightarrow> (u16 \<Rightarrow> (nat \<times> bytes) list option) \<Rightarrow> u16 \<Rightarrow> 'db \<Rightarrow>
   (redis_error + nat list \<times> bytes option list) \<times> 'db" where
  "mget_task dispatch groups s db =
     (let entries = group_entries groups s;
          (result, db) = dispatch (Cmd ''MGET'' (map (AStr \<circ> snd) entries)) db
      in (rbind result (\<lambda>vs. Inr (map fst entries, vs)), db))"

definition fanout_mget ::
  "('db, bytes option list) server \<Rightarrow> u16 list \<Rightarrow> u16 list \<Rightarrow> bytes list \<Rightarrow> 'db \<Rightarrow>
   (redis_error + bytes option list) \<times> 'db" where
  "fanout_mget dispatch exec joined keys db =
     (if keys = [] then (Inr [], db)
      else
        (let (rs, db) = run_tasks (mget_task dispatch (group_by_slot keys)) exec db
         in (join_all scatter (map (\<lambda>s. the (rs s)) joined) (replicate (length keys) None), db)))"

definition fanout_mset ::
  "('db, unit) server \<Rightarrow> u16 list \<Rightarrow> u16 list \<Rightarrow> (bytes \<times> bytes) list \<Rightarrow> 'db \<Rightarrow>
   (redis_error + unit) \<times> 'db" where
  "fanout_mset dispatch exec joined pairs db =
     (if pairs = [] then (Inr (), db)
      else
        (let groups = fold (\<lambda>(k, v). push_entry (cluster_slot k) (k, v)) pairs (\<lambda>_. None);
             task = (\<lambda>s. dispatch (Cmd ''MSET''
               (concat (map (\<lambda>(k, v). [AStr k, ABytes v]) (group_entries groups s)))));
             (rs, db) = run_tasks task exec db
         in (join_all (\<lambda>_ _. ()) (map (\<lambda>s. the (rs s)) joined) (), db)))"

definition fanout_count ::
  "bytes \<Rightarrow> ('db, i64) server \<Rightarrow> u16 list \<Rightarrow> u16 list \<Rightarrow> bytes list \<Rightarrow> 'db \<Rightarrow>
   (redis_error + i64) \<times> 'db" where
  "fanout_count name dispatch exec joined keys db =
     (if keys = [] then (Inr 0, db)
      else
        (let groups = group_by_slot keys;
             task = (\<lambda>s. dispatch (Cmd name (map (AStr \<circ> snd) (group_entries groups s))));
             (rs, db) = run_tasks task exec db
         in (join_all (+) (map (\<lambda>s. the (rs s)) joined) 0, db)))"

definition fanout_del ::
  "('db, i64) server \<Rightarrow> u16 list \<Rightarrow> u16 list \<Rightarrow> bytes list \<Rightarrow> bool \<Rightarrow> 'db \<Rightarrow>
   (redis_error + i64) \<times> 'db" where
  "fanout_del dispatch exec joined keys unlink =
     fanout_count (if unlink then ''UNLINK'' else ''DEL'') dispatch exec joined keys"

definition fanout_exists ::
  "('db, i64) server \<Rightarrow> u16 list \<Rightarrow> u16 list \<Rightarrow> bytes list \<Rightarrow> 'db \<Rightarrow>
   (redis_error + i64) \<times> 'db" where
  "fanout_exists dispatch exec joined keys = fanout_count ''EXISTS'' dispatch exec joined keys"

section \<open>CRC16 is polynomial division\<close>

text \<open>The reference: polynomials over GF(2) are the binary numbers of their coefficients, their sum is
  XOR, and a product with \<open>x^n\<close> is a shift.  \<open>times_poly\<close> multiplies by \<open>x^16 + x^12 + x^5 + 1\<close>, and
  \<open>message\<close> is the polynomial of the octets, most significant bit first.\<close>

definition times_poly :: "nat \<Rightarrow> nat" where
  "times_poly q = push_bit 16 q XOR push_bit 12 q XOR push_bit 5 q XOR q"

definition message :: "bytes \<Rightarrow> nat" where
  "message data = foldl (\<lambda>n c. 256 * n + of_char c) 0 data"

definition crc16_remainder :: "bytes \<Rightarrow> nat \<Rightarrow> bool" where
  "crc16_remainder data r \<longleftrightarrow> r < 2 ^ 16 \<and> (\<exists>q. push_bit 16 (message data) = times_poly q XOR r)"

lemma crc16_bit_alt: "crc16_bit r = push_bit 1 r XOR (if bit r 15 then 0x1021 else 0)"
proof -
  have "(0x8000 :: u16) = push_bit 15 1" by simp
  then have "(r AND 0x8000 \<noteq> 0) = bit r 15"
    by (simp only: bit_iff_and_push_bit_not_eq_0)
  then show ?thesis by (simp add: crc16_bit_def)
qed

lemma times_poly_xor: "times_poly (a XOR b) = times_poly a XOR times_poly b"
  by (simp add: times_poly_def push_bit_xor xor.assoc xor.left_commute)

lemma times_poly_push: "times_poly (push_bit n a) = push_bit n (times_poly a)"
  by (simp add: times_poly_def push_bit_xor add.commute)

lemma times_poly_0 [simp]: "times_poly 0 = 0"
  by (simp add: times_poly_def)

lemma times_poly_1: "times_poly 1 = push_bit 16 1 XOR 0x1021"
  by (simp add: times_poly_def push_bit_eq_mult)

text \<open>What leaves the register when it is shifted.\<close>

lemma push_unat: "push_bit 1 (unat (r :: u16)) = push_bit 16 (of_bool (bit r 15)) XOR unat (push_bit 1 r)"
proof (rule bit_eqI)
  fix n :: nat
  have "n = 16 \<or> n < 16 \<or> 16 < n" by arith
  then show "bit (push_bit 1 (unat r)) n = bit (push_bit 16 (of_bool (bit r 15)) XOR unat (push_bit 1 r)) n"
    by (elim disjE) (auto simp: bit_xor_iff bit_push_bit_iff bit_unsigned_iff bit_of_bool_iff
        simp del: push_bit_Suc dest: bit_imp_le_length)
qed

text \<open>One turn of the loop subtracts the divisor when a bit leaves the register.\<close>

lemma crc16_bit_divides: "push_bit 1 (unat r) = times_poly (of_bool (bit r 15)) XOR unat (crc16_bit r)"
proof -
  have "unat (crc16_bit r) = unat (push_bit 1 r) XOR (if bit r 15 then 0x1021 else 0)"
    by (simp add: crc16_bit_alt unsigned_xor_eq del: push_bit_Suc)
  then show ?thesis
    using push_unat [of r] times_poly_1 by (simp add: xor.assoc xor.left_commute xor.commute)
qed

lemma crc16_bits_divide: "\<exists>q. push_bit n (unat r) = times_poly q XOR unat ((crc16_bit ^^ n) r)"
proof (induction n)
  case 0
  show ?case by (rule exI [of _ 0]) simp
next
  case (Suc n)
  then obtain q where "push_bit n (unat r) = times_poly q XOR unat ((crc16_bit ^^ n) r)" by blast
  then have "push_bit 1 (push_bit n (unat r)) =
      times_poly (push_bit 1 q XOR of_bool (bit ((crc16_bit ^^ n) r) 15)) XOR unat ((crc16_bit ^^ Suc n) r)"
    by (simp only: push_bit_xor crc16_bit_divides times_poly_xor times_poly_push xor.assoc funpow.simps comp_apply)
  then show ?case by (metis push_bit_push_bit plus_1_eq_Suc)
qed

lemma bit_of_char: "bit (of_char (Char b0 b1 b2 b3 b4 b5 b6 b7) :: u16) n \<longleftrightarrow>
    n < 8 \<and> [b0, b1, b2, b3, b4, b5, b6, b7] ! n"
  by (simp only: of_char_Char bit_horner_sum_bit_word_iff) auto

lemma bit_of_char_nat: "bit (of_char (Char b0 b1 b2 b3 b4 b5 b6 b7) :: nat) n \<longleftrightarrow>
    n < 8 \<and> [b0, b1, b2, b3, b4, b5, b6, b7] ! n"
  by (simp only: of_char_Char bit_horner_sum_bit_iff) auto

lemma unat_of_char: "unat (of_char c :: u16) = of_char c"
proof (rule bit_eqI)
  show "bit (unat (of_char c :: u16)) n = bit (of_char c :: nat) n" for n
    by (cases c) (simp only: bit_unsigned_iff bit_of_char bit_of_char_nat, auto)
qed

lemma shift_byte: "256 * n + of_char c = push_bit 8 n XOR (of_char c :: nat)"
proof -
  have "push_bit 8 n AND (of_char c :: nat) = 0"
    by (rule bit_eqI, cases c) (simp only: bit_and_iff bit_push_bit_iff bit_of_char_nat bit_0_eq bot_apply, auto)
  then show ?thesis by (simp add: push_bit_eq_mult mult.commute flip: disjunctive_add_eq_xor)
qed

text \<open>A byte: its bits come in at the top of the register.\<close>

lemma crc16_byte_divides:
  assumes "push_bit 16 n = times_poly q XOR unat r"
  shows "\<exists>q'. push_bit 16 (256 * n + of_char c) = times_poly q' XOR unat (crc16_byte r c)"
proof -
  obtain q' where q': "push_bit 8 (unat (r XOR push_bit 8 (of_char c))) =
      times_poly q' XOR unat (crc16_byte r c)"
    using crc16_bits_divide [of 8 "r XOR push_bit 8 (of_char c)"] unfolding crc16_byte_def by blast
  have "unat (push_bit 8 (of_char c) :: u16) = push_bit 8 (of_char c)"
    using nat_of_char_less_256 [of c]
    by (simp only: unsigned_push_bit_eq unat_of_char) (simp add: take_bit_nat_eq_self push_bit_eq_mult)
  then have "push_bit 16 (256 * n + of_char c) =
      push_bit 8 (push_bit 16 n) XOR push_bit 8 (push_bit 8 (of_char c))"
    by (simp add: shift_byte push_bit_xor)
  also have "\<dots> = times_poly (push_bit 8 q) XOR push_bit 8 (unat (r XOR push_bit 8 (of_char c)))"
    using \<open>unat (push_bit 8 (of_char c) :: u16) = push_bit 8 (of_char c)\<close>
    by (simp add: assms unsigned_xor_eq push_bit_xor times_poly_push xor.assoc)
  finally show ?thesis
    by (metis q' times_poly_xor xor.assoc)
qed

lemma crc16_foldl_divides:
  assumes "push_bit 16 n = times_poly q XOR unat r"
  shows "\<exists>q. push_bit 16 (foldl (\<lambda>n c. 256 * n + of_char c) n data) = times_poly q XOR unat (foldl crc16_byte r data)"
  using assms
proof (induction data arbitrary: n q r)
  case (Cons c data)
  obtain q' where "push_bit 16 (256 * n + of_char c) = times_poly q' XOR unat (crc16_byte r c)"
    using crc16_byte_divides [OF Cons.prems] by blast
  from Cons.IH [OF this] show ?case by simp
qed auto

lemma crc16_is_a_remainder: "crc16_remainder data (unat (crc16_xmodem data))"
  using crc16_foldl_divides [of 0 0 0 data] unsigned_less [of "crc16_xmodem data"]
  by (simp add: crc16_remainder_def message_def crc16_xmodem_def)

text \<open>There is one remainder: a multiple of the divisor below \<open>2^16\<close> is zero.\<close>

lemma small_multiple:
  assumes "times_poly q < 2 ^ 16"
  shows "q = 0"
proof (rule ccontr)
  assume "q \<noteq> 0"
  have "i \<le> q" if "bit q i" for i
  proof (rule ccontr)
    assume "\<not> i \<le> q"
    moreover have "i < 2 ^ i" by (rule less_exp)
    ultimately have "q < 2 ^ i" by linarith
    then show False using that by (simp add: bit_iff_odd)
  qed
  then have finite: "finite {i. bit q i}" by (meson finite_nat_set_iff_bounded_le mem_Collect_eq)
  define d where "d = Max {i. bit q i}"
  have "{i. bit q i} \<noteq> {}" using \<open>q \<noteq> 0\<close> by (metis bit_eqI bit_0_eq bot_apply Collect_empty_eq bot_bool_def)
  then have d: "bit q d" "\<And>i. d < i \<Longrightarrow> \<not> bit q i"
    using Max_in [OF finite] Max_ge [OF finite] unfolding d_def by (auto simp: not_less leD)
  then have "bit (times_poly q) (d + 16)"
    by (simp add: times_poly_def bit_simps)
  moreover have "\<not> bit (times_poly q) (d + 16)"
    using assms by (metis bit_take_bit_iff less_add_same_cancel2 not_less take_bit_nat_eq_self trans_le_add2 le_refl)
  ultimately show False by blast
qed

lemma remainder_unique:
  assumes "crc16_remainder data r" "crc16_remainder data r'"
  shows "r = r'"
proof -
  obtain q q' where "times_poly q XOR r = times_poly q' XOR r'" "r < 2 ^ 16" "r' < 2 ^ 16"
    using assms unfolding crc16_remainder_def by metis
  moreover from this(1) have "times_poly q XOR times_poly q' = r XOR r'"
    by (metis xor.assoc xor.commute xor_self_eq xor.right_neutral)
  then have e: "times_poly (q XOR q') = r XOR r'" by (simp add: times_poly_xor)
  ultimately have "times_poly (q XOR q') < 2 ^ 16"
    by (metis take_bit_nat_eq_self take_bit_nat_less_exp take_bit_xor)
  then have "r XOR r' = 0" using small_multiple e by fastforce
  then show ?thesis by (metis xor.assoc xor_self_eq xor.right_neutral xor.left_neutral)
qed
section \<open>Hash tags\<close>

text \<open>The cluster specification: hash what stands between the first \<open>{\<close> and the first \<open>}\<close> after
  it, if that is not empty, and the whole key otherwise.\<close>

definition spec_target :: "bytes \<Rightarrow> bytes" where
  "spec_target key =
     (case split_once CHR ''{'' key of
        None \<Rightarrow> key
      | Some (_, rest) \<Rightarrow>
          (case split_once CHR ''}'' rest of
             None \<Rightarrow> key
           | Some (tag, _) \<Rightarrow> if tag = [] then key else tag))"

lemma position_None: "position c xs = None \<longleftrightarrow> c \<notin> set xs"
  by (induction xs) auto

lemma position_absent [simp]: "c \<notin> set xs \<Longrightarrow> position c xs = None"
  by (simp add: position_None)

lemma position_append [simp]: "c \<notin> set a \<Longrightarrow> position c (a @ c # b) = Some (length a)"
  by (induction a) auto

lemma position_append_left: "c \<in> set a \<Longrightarrow> \<exists>n < length a. position c (a @ b) = Some n"
  by (induction a) auto

text \<open>Hash tags: the code hashes what the specification says, except that a \<open>}\<close> before the
  first \<open>{\<close> makes it hash the whole key.\<close>
theorem hash_target_spec:
  "hash_target key =
     (if CHR ''}'' \<in> set (takeWhile (\<lambda>c. c \<noteq> CHR ''{'') key) then key else spec_target key)"
proof (cases "split_once CHR ''{'' key")
  case None
  then show ?thesis by (auto simp: hash_target_def spec_target_def split: option.splits)
next
  case (Some ab)
  then obtain a b where ab: "ab = (a, b)" and key: "key = a @ CHR ''{'' # b" and a: "CHR ''{'' \<notin> set a"
    by (cases ab) (auto simp: split_once_Some)
  have tw: "takeWhile (\<lambda>c. c \<noteq> CHR ''{'') key = a"
    unfolding key using a by (subst takeWhile_append2) auto
  show ?thesis
  proof (cases "CHR ''}'' \<in> set a")
    case True
    then obtain n where "n < length a" "position CHR ''}'' key = Some n"
      using position_append_left [of "CHR ''}''" a "CHR ''{'' # b"] by (auto simp: key)
    with True tw a show ?thesis by (simp add: hash_target_def key)
  next
    case False
    then have no: "CHR ''}'' \<notin> set (a @ [CHR ''{''])" by simp
    show ?thesis
    proof (cases "split_once CHR ''}'' b")
      case None
      then have "CHR ''}'' \<notin> set key" using no by (simp add: key)
      then show ?thesis
        using None Some False tw by (simp add: hash_target_def spec_target_def ab split: option.splits)
    next
      case (Some tr)
      then obtain tag r where tr: "tr = (tag, r)" and b: "b = tag @ CHR ''}'' # r" and tag: "CHR ''}'' \<notin> set tag"
        by (cases tr) (auto simp: split_once_Some)
      have "position CHR ''{'' key = Some (length a)" using a by (simp add: key)
      moreover have "position CHR ''}'' key = Some (length a + 1 + length tag)"
        using position_append [of "CHR ''}''" "a @ CHR ''{'' # tag" r] no tag by (simp add: key b)
      moreover have "take (length tag) (drop (Suc (length a)) key) = tag"
        by (simp add: key b)
      ultimately show ?thesis
        using Some \<open>split_once CHR ''{'' key = Some ab\<close> False tw
        by (simp add: hash_target_def spec_target_def ab tr)
    qed
  qed
qed

text \<open>The slot of the specification, and the keys whose slot the code finds.\<close>

definition spec_slot :: "bytes \<Rightarrow> nat \<Rightarrow> bool" where
  "spec_slot key s \<longleftrightarrow> (\<exists>r. crc16_remainder (spec_target key) r \<and> s = r mod 16384)"

definition plain_braces :: "bytes \<Rightarrow> bool" where
  "plain_braces key \<longleftrightarrow> CHR ''}'' \<notin> set (takeWhile (\<lambda>c. c \<noteq> CHR ''{'') key)"

lemma plain_braces_slot: "plain_braces key \<Longrightarrow> spec_slot key (unat (cluster_slot key))"
  using crc16_is_a_remainder [of "spec_target key"] hash_target_spec [of key]
  by (auto simp: plain_braces_def spec_slot_def cluster_slot_def unat_mod)

text \<open>(C14) The shift-and-xor loop is division: what it computes is the one remainder of the octets,
  read as a polynomial over GF(2) and multiplied by \<open>x^16\<close>, on division by
  \<open>x^16 + x^12 + x^5 + 1\<close>.  The slot of a key is below 16384, and it is the slot of the
  cluster specification unless the key has a \<open>}\<close> before its first \<open>{\<close>.\<close>
theorem crc16_is_remainder:
  "(\<forall>r. crc16_remainder data r \<longleftrightarrow> r = unat (crc16_xmodem data)) \<and>
   unat (cluster_slot key) < 16384 \<and>
   (CHR ''}'' \<in> set (takeWhile (\<lambda>c. c \<noteq> CHR ''{'') key) \<or> spec_slot key (unat (cluster_slot key)))"
proof (intro conjI allI)
  show "crc16_remainder data r \<longleftrightarrow> r = unat (crc16_xmodem data)" for r
    using crc16_is_a_remainder remainder_unique by blast
  show "unat (cluster_slot key) < 16384" by (simp add: cluster_slot_def unat_mod)
  show "CHR ''}'' \<in> set (takeWhile (\<lambda>c. c \<noteq> CHR ''{'') key) \<or> spec_slot key (unat (cluster_slot key))"
    using plain_braces_slot [of key] unfolding plain_braces_def by blast
qed

lemma brace_first_misrouted:
  "spec_target ''}{user}'' = ''user'' \<and> cluster_slot ''}{user}'' \<noteq> cluster_slot ''user''"
  by code_simp

section \<open>Grouping\<close>

lemma group_entries_push:
  "group_entries (push_entry s x m) t = group_entries m t @ (if t = s then [x] else [])"
  by (auto simp: group_entries_def push_entry_def split: option.splits)

lemma group_entries_fold:
  "group_entries (fold (\<lambda>x. push_entry (f x) x) xs m) s = group_entries m s @ filter (\<lambda>x. f x = s) xs"
proof (induction xs arbitrary: m)
  case Nil
  then show ?case by simp
next
  case (Cons x xs)
  then show ?case by (auto simp: group_entries_push)
qed

lemma group_entries_empty [simp]: "group_entries (\<lambda>_. None) s = []"
  by (simp add: group_entries_def)

lemma entries_by_slot:
  "group_entries (group_by_slot keys) s = filter (\<lambda>(i, k). cluster_slot k = s) (enumerate 0 keys)"
  using group_entries_fold [of "\<lambda>(i, k). cluster_slot k" "enumerate 0 keys" "\<lambda>_. None" s]
  by (simp add: group_by_slot_def split_def)

lemma snd_filter_enumerate: "map snd (filter (\<lambda>(i, k). P k) (enumerate n ks)) = filter P ks"
  by (induction ks arbitrary: n) auto

lemma keys_by_slot: "map (AStr \<circ> snd) (group_entries (group_by_slot keys) s) = map AStr (filter (\<lambda>k. cluster_slot k = s) keys)"
  using snd_filter_enumerate [of "\<lambda>k. cluster_slot k = s" 0 keys]
  by (simp add: entries_by_slot flip: map_map)

definition slot_orders :: "bytes list \<Rightarrow> u16 list \<Rightarrow> u16 list \<Rightarrow> bool" where
  "slot_orders keys exec joined \<longleftrightarrow>
     distinct exec \<and> distinct joined \<and>
     set exec = cluster_slot ` set keys \<and> set joined = cluster_slot ` set keys"

text \<open>A cluster takes a command on several keys only when they are in one slot, as its
  specification defines it.\<close>

definition same_slot :: "bytes list \<Rightarrow> bool" where
  "same_slot ks \<longleftrightarrow> ks \<noteq> [] \<and> (\<exists>s. \<forall>k \<in> set ks. spec_slot k s)"

definition slot_keys :: "bytes list \<Rightarrow> u16 \<Rightarrow> bytes list" where
  "slot_keys keys s = filter (\<lambda>k. cluster_slot k = s) keys"

lemma same_slot_keys:
  assumes "s \<in> cluster_slot ` set keys" "list_all plain_braces keys"
  shows "same_slot (slot_keys keys s)"
proof -
  have "slot_keys keys s \<noteq> []" using assms(1) by (auto simp: slot_keys_def filter_empty_conv)
  moreover have "\<forall>k \<in> set (slot_keys keys s). spec_slot k (unat s)"
    using assms(2) plain_braces_slot by (auto simp: slot_keys_def list_all_iff)
  ultimately show ?thesis unfolding same_slot_def by blast
qed

section \<open>MGET\<close>

text \<open>What the cluster is documented to do; \<open>lookup\<close> is the content of its state.\<close>

definition answers_mget ::
  "('db, bytes option list) server \<Rightarrow> ('db \<Rightarrow> bytes \<Rightarrow> bytes option) \<Rightarrow> bool" where
  "answers_mget dispatch lookup \<longleftrightarrow>
     (\<forall>ks db. same_slot ks \<longrightarrow> dispatch (Cmd ''MGET'' (map AStr ks)) db = (Inr (map (lookup db) ks), db))"

lemma run_tasks_readonly:
  "(\<And>s. s \<in> set exec \<Longrightarrow> task s db = (r s, db)) \<Longrightarrow>
   run_tasks task exec db = ((\<lambda>s. if s \<in> set exec then Some (r s) else None), db)"
  by (induction exec) (auto simp: fun_eq_iff)

lemma fold_updates_length [simp]: "length (fold (\<lambda>(i, v) out. out[i := v]) ps out) = length out"
  by (induction ps arbitrary: out) auto

lemma fold_updates_nth:
  "\<forall>(i, v) \<in> set ps. v = f i \<Longrightarrow> j < length out \<Longrightarrow>
   fold (\<lambda>(i, v) out. out[i := v]) ps out ! j = (if j \<in> fst ` set ps then f j else out ! j)"
proof (induction ps arbitrary: out)
  case (Cons p ps)
  then show ?case by (cases p) (auto simp: nth_list_update intro: rev_image_eqI)
qed simp

lemma join_all_Inr: "join_all f (map Inr rs) acc = Inr (foldl f acc rs)"
  by (induction rs arbitrary: acc) auto

lemma foldl_scatter:
  "foldl scatter out rs = fold (\<lambda>(i, v) out. out[i := v]) (concat (map (\<lambda>r. zip (fst r) (snd r)) rs)) out"
  by (induction rs arbitrary: out) (auto simp: scatter_def)

lemma entries_enumerate:
  "(i, k) \<in> set (group_entries (group_by_slot keys) s) \<longleftrightarrow>
   i < length keys \<and> k = keys ! i \<and> cluster_slot k = s"
  by (auto simp: entries_by_slot in_set_enumerate_eq)

text \<open>MGET over a cluster: however the per-slot requests are executed and joined, the caller
  gets exactly the values of the keys, in the order of the keys, duplicates included.\<close>
theorem fanout_mget_correct:
  assumes "answers_mget dispatch lookup" "slot_orders keys exec joined" "list_all plain_braces keys"
  shows "fanout_mget dispatch exec joined keys db = (Inr (map (lookup db) keys), db)"
proof (cases "keys = []")
  case True
  then show ?thesis by (simp add: fanout_mget_def)
next
  case False
  let ?E = "\<lambda>s. group_entries (group_by_slot keys) s"
  let ?r = "\<lambda>s. (map fst (?E s), map (lookup db \<circ> snd) (?E s))"
  let ?pairs = "concat (map (\<lambda>s. zip (fst (?r s)) (snd (?r s))) joined)"
  let ?task = "mget_task dispatch (group_by_slot keys)"
  have "dispatch (Cmd ''MGET'' (map (AStr \<circ> snd) (?E s))) db = (Inr (map (lookup db \<circ> snd) (?E s)), db)"
    if "s \<in> set exec" for s
  proof -
    have "same_slot (slot_keys keys s)" using assms(2,3) that by (simp add: slot_orders_def same_slot_keys)
    moreover have "map snd (?E s) = slot_keys keys s"
      using snd_filter_enumerate [of "\<lambda>k. cluster_slot k = s" 0 keys] by (simp add: entries_by_slot slot_keys_def)
    ultimately show ?thesis using assms(1) unfolding answers_mget_def by (metis map_map)
  qed
  then have "s \<in> set exec \<Longrightarrow> ?task s db = (Inr (?r s), db)" for s
    by (simp add: mget_task_def Let_def)
  then have run: "run_tasks ?task exec db = ((\<lambda>s. if s \<in> set exec then Some (Inr (?r s)) else None), db)"
    by (rule run_tasks_readonly)
  have zip: "zip (fst (?r s)) (snd (?r s)) = map (\<lambda>(i, k). (i, lookup db k)) (?E s)" for s
    by (simp add: zip_map_map zip_same_conv_map comp_def split_def)
  have "\<forall>(i, v) \<in> set ?pairs. v = lookup db (keys ! i)"
    unfolding zip by (auto simp: entries_enumerate)
  moreover have "i \<in> fst ` set ?pairs" if "i < length keys" for i
  proof -
    have "cluster_slot (keys ! i) \<in> set joined" "(i, keys ! i) \<in> set (?E (cluster_slot (keys ! i)))"
      using assms(2) that by (auto simp: slot_orders_def entries_enumerate)
    then show ?thesis unfolding zip by force
  qed
  ultimately have "foldl scatter (replicate (length keys) None) (map ?r joined) = map (lookup db) keys"
    by (intro nth_equalityI)
      (auto simp: foldl_scatter comp_def fold_updates_nth [where f = "\<lambda>i. lookup db (keys ! i)"])
  moreover have "map (\<lambda>s. the (if s \<in> set exec then Some (Inr (?r s)) else None)) joined =
      (map Inr (map ?r joined) :: (redis_error + nat list \<times> bytes option list) list)"
    using assms(2) by (auto simp: slot_orders_def)
  ultimately have "join_all scatter (map (\<lambda>s. the (if s \<in> set exec then Some (Inr (?r s)) else None)) joined)
      (replicate (length keys) None) = (Inr (map (lookup db) keys) :: redis_error + bytes option list)"
    by (simp only: join_all_Inr)
  then show ?thesis
    using False by (simp add: fanout_mget_def run)
qed

section \<open>Counting commands\<close>

lemma slot_keys_partition: "(\<Union>s \<in> cluster_slot ` set keys. set (slot_keys keys s)) = set keys"
  by (auto simp: slot_keys_def)

lemma slot_keys_disjoint: "s \<noteq> t \<Longrightarrow> set (slot_keys keys s) \<inter> set (slot_keys keys t) = {}"
  by (auto simp: slot_keys_def)

lemma join_all_plus: "join_all (+) (map Inr ns) acc = Inr (acc + sum_list ns)"
  by (induction ns arbitrary: acc) (auto simp: add.assoc)

lemma fanout_count_run:
  assumes "keys \<noteq> []" "set joined \<subseteq> set exec"
    and "run_tasks (\<lambda>s. dispatch (Cmd name (map AStr (slot_keys keys s)))) exec db = (rs, db')"
    and "\<And>s. s \<in> set exec \<Longrightarrow> rs s = Some (Inr (of_nat (n s)))"
  shows "fanout_count name dispatch exec joined keys db = (Inr (of_nat (\<Sum>s\<leftarrow>joined. n s)), db')"
proof -
  have "map (\<lambda>s. the (rs s)) joined = (map Inr (map (\<lambda>s. of_nat (n s)) joined) :: (redis_error + i64) list)"
    using assms(2,4) by auto
  then have "join_all (+) (map (\<lambda>s. the (rs s)) joined) 0 = (Inr (\<Sum>s\<leftarrow>joined. of_nat (n s)) :: redis_error + i64)"
    by (simp only: join_all_plus) simp
  moreover have "(\<Sum>s\<leftarrow>joined. of_nat (n s)) = (of_nat (\<Sum>s\<leftarrow>joined. n s) :: i64)"
    by (induction joined) auto
  ultimately show ?thesis
    using assms(1,3) by (simp add: fanout_count_def keys_by_slot flip: slot_keys_def)
qed

definition answers_del :: "bytes \<Rightarrow> ('db, i64) server \<Rightarrow> ('db \<Rightarrow> bytes \<Rightarrow> bytes option) \<Rightarrow> bool" where
  "answers_del name dispatch lookup \<longleftrightarrow>
     (\<forall>ks db. same_slot ks \<longrightarrow> (\<exists>db'. dispatch (Cmd name (map AStr ks)) db =
         (Inr (of_nat (card (set ks \<inter> dom (lookup db)))), db') \<and>
       lookup db' = lookup db |` (- set ks)))"

definition answers_exists :: "('db, i64) server \<Rightarrow> ('db \<Rightarrow> bytes \<Rightarrow> bytes option) \<Rightarrow> bool" where
  "answers_exists dispatch lookup \<longleftrightarrow>
     (\<forall>ks db. same_slot ks \<longrightarrow> dispatch (Cmd ''EXISTS'' (map AStr ks)) db =
         (Inr (of_nat (length (filter (\<lambda>k. lookup db k \<noteq> None) ks))), db))"

lemma run_del:
  assumes "answers_del name dispatch lookup" "distinct exec" "set exec \<subseteq> cluster_slot ` set keys"
    and "list_all plain_braces keys"
  shows "\<exists>rs db'. run_tasks (\<lambda>s. dispatch (Cmd name (map AStr (slot_keys keys s)))) exec db = (rs, db') \<and>
    lookup db' = lookup db |` (- (\<Union>s \<in> set exec. set (slot_keys keys s))) \<and>
    (\<forall>s \<in> set exec. rs s = Some (Inr (of_nat (card (set (slot_keys keys s) \<inter> dom (lookup db))))))"
  using assms(2,3)
proof (induction exec arbitrary: db)
  case Nil
  then show ?case by simp
next
  case (Cons s exec)
  obtain db1 where d: "dispatch (Cmd name (map AStr (slot_keys keys s))) db =
      (Inr (of_nat (card (set (slot_keys keys s) \<inter> dom (lookup db)))), db1)"
    and l1: "lookup db1 = lookup db |` (- set (slot_keys keys s))"
    using assms(1) same_slot_keys [OF _ assms(4), of s] Cons.prems(2) unfolding answers_del_def
    by (metis insert_subset list.simps(15))
  have inter: "set (slot_keys keys t) \<inter> dom (lookup db1) = set (slot_keys keys t) \<inter> dom (lookup db)"
    if "t \<in> set exec" for t
    using slot_keys_disjoint [of s t keys] that Cons.prems by (auto simp: l1)
  obtain rs db' where "run_tasks (\<lambda>s. dispatch (Cmd name (map AStr (slot_keys keys s)))) exec db1 = (rs, db')"
    "lookup db' = lookup db1 |` (- (\<Union>s \<in> set exec. set (slot_keys keys s)))"
    "\<forall>t \<in> set exec. rs t = Some (Inr (of_nat (card (set (slot_keys keys t) \<inter> dom (lookup db1)))))"
    using Cons.IH [of db1] Cons.prems by auto
  then show ?case
    using inter Cons.prems by (auto simp: d l1 Int_commute)
qed

text \<open>DEL and UNLINK over a cluster: whatever the order of the per-slot requests, afterwards
  exactly the given keys are gone, and the reply is the number of given keys that existed, each
  counted once.\<close>
theorem fanout_del_correct:
  assumes "answers_del (if unlink then ''UNLINK'' else ''DEL'') dispatch lookup"
    and "slot_orders keys exec joined" "list_all plain_braces keys"
  shows "case fanout_del dispatch exec joined keys unlink db of (r, db') \<Rightarrow>
    r = Inr (of_nat (card (set keys \<inter> dom (lookup db)))) \<and> lookup db' = lookup db |` (- set keys)"
proof (cases "keys = []")
  case True
  then show ?thesis by (simp add: fanout_del_def fanout_count_def restrict_map_def fun_eq_iff)
next
  case False
  let ?name = "if unlink then ''UNLINK'' else ''DEL''"
  have orders: "distinct exec" "distinct joined" "set joined = set exec"
    "set exec = cluster_slot ` set keys"
    using assms(2) by (auto simp: slot_orders_def)
  obtain rs db' where run: "run_tasks (\<lambda>s. dispatch (Cmd ?name (map AStr (slot_keys keys s)))) exec db = (rs, db')"
    and db': "lookup db' = lookup db |` (- (\<Union>s \<in> set exec. set (slot_keys keys s)))"
    and rs: "\<forall>s \<in> set exec. rs s = Some (Inr (of_nat (card (set (slot_keys keys s) \<inter> dom (lookup db)))))"
    using run_del [OF assms(1) orders(1) _ assms(3)] orders(4) by blast
  have "(\<Sum>s\<leftarrow>joined. card (set (slot_keys keys s) \<inter> dom (lookup db))) =
        (\<Sum>s \<in> set joined. card (set (slot_keys keys s) \<inter> dom (lookup db)))"
    using orders(2) by (simp add: sum_list_distinct_conv_sum_set)
  also have "\<dots> = card (\<Union>s \<in> set joined. set (slot_keys keys s) \<inter> dom (lookup db))"
    using slot_keys_disjoint by (intro card_UN_disjoint [symmetric]) blast+
  also have "(\<Union>s \<in> set joined. set (slot_keys keys s) \<inter> dom (lookup db)) = set keys \<inter> dom (lookup db)"
    using slot_keys_partition [of keys] orders by auto
  finally have "fst (fanout_del dispatch exec joined keys unlink db) = Inr (of_nat (card (set keys \<inter> dom (lookup db))))"
      "snd (fanout_del dispatch exec joined keys unlink db) = db'"
    using fanout_count_run [OF False _ run, of joined "\<lambda>s. card (set (slot_keys keys s) \<inter> dom (lookup db))"]
      rs orders by (simp_all add: fanout_del_def)
  moreover have "lookup db' = lookup db |` (- set keys)"
    unfolding db' orders(4) slot_keys_partition ..
  ultimately show ?thesis by (simp add: split_def)
qed

text \<open>EXISTS over a cluster counts every given key that exists, as often as it is given, and
  changes nothing.\<close>
theorem fanout_exists_correct:
  assumes "answers_exists dispatch lookup" "slot_orders keys exec joined" "list_all plain_braces keys"
  shows "fanout_exists dispatch exec joined keys db =
    (Inr (of_nat (length (filter (\<lambda>k. lookup db k \<noteq> None) keys))), db)"
proof (cases "keys = []")
  case True
  then show ?thesis by (simp add: fanout_exists_def fanout_count_def)
next
  case False
  let ?n = "\<lambda>s. length (filter (\<lambda>k. lookup db k \<noteq> None) (slot_keys keys s))"
  have orders: "distinct joined" "set joined = set exec" "set joined = cluster_slot ` set keys"
    using assms(2) by (auto simp: slot_orders_def)
  have "dispatch (Cmd ''EXISTS'' (map AStr (slot_keys keys s))) db = (Inr (of_nat (?n s)), db)" if "s \<in> set exec" for s
    using assms(1,3) that orders(2,3) by (simp add: answers_exists_def same_slot_keys)
  then have run: "run_tasks (\<lambda>s. dispatch (Cmd ''EXISTS'' (map AStr (slot_keys keys s)))) exec db =
      ((\<lambda>s. if s \<in> set exec then Some (Inr (of_nat (?n s))) else None), db)"
    by (rule run_tasks_readonly)
  have "(\<Sum>s \<in> S. ?n s) = length (filter (\<lambda>k. lookup db k \<noteq> None \<and> cluster_slot k \<in> S) keys)" if "finite S" for S
  proof (induction keys)
    case (Cons k keys)
    have "(\<Sum>s \<in> S. if cluster_slot k = s then (1::nat) else 0) = (if cluster_slot k \<in> S then 1 else 0)"
      using that by simp
    moreover have "length (filter (\<lambda>k. lookup db k \<noteq> None) (slot_keys (k # keys) s)) =
        (if lookup db k \<noteq> None then (if cluster_slot k = s then 1 else 0) else 0) +
        length (filter (\<lambda>k. lookup db k \<noteq> None) (slot_keys keys s))" for s
      by (simp add: slot_keys_def)
    ultimately show ?case using Cons by (auto simp: sum.distrib)
  qed (simp add: slot_keys_def)
  then have "(\<Sum>s\<leftarrow>joined. ?n s) = length (filter (\<lambda>k. lookup db k \<noteq> None \<and> cluster_slot k \<in> set joined) keys)"
    using orders(1) by (simp add: sum_list_distinct_conv_sum_set)
  also have "filter (\<lambda>k. lookup db k \<noteq> None \<and> cluster_slot k \<in> set joined) keys =
      filter (\<lambda>k. lookup db k \<noteq> None) keys"
    using orders(3) by (intro filter_cong) auto
  finally show ?thesis
    using fanout_count_run [OF False _ run, of joined ?n] orders(2) by (simp add: fanout_exists_def)
qed

section \<open>MSET\<close>

definition answers_mset :: "('db, unit) server \<Rightarrow> ('db \<Rightarrow> bytes \<Rightarrow> bytes option) \<Rightarrow> bool" where
  "answers_mset dispatch lookup \<longleftrightarrow>
     (\<forall>ps db. same_slot (map fst ps) \<longrightarrow>
       (\<exists>db'. dispatch (Cmd ''MSET'' (concat (map (\<lambda>(k, v). [AStr k, ABytes v]) ps))) db = (Inr (), db') \<and>
         lookup db' = fold (\<lambda>(k, v) m. m(k \<mapsto> v)) ps (lookup db)))"

definition slot_pairs :: "(bytes \<times> bytes) list \<Rightarrow> u16 \<Rightarrow> (bytes \<times> bytes) list" where
  "slot_pairs pairs s = filter (\<lambda>(k, v). cluster_slot k = s) pairs"

lemma pairs_by_slot:
  "group_entries (fold (\<lambda>(k, v). push_entry (cluster_slot k) (k, v)) pairs (\<lambda>_. None)) s = slot_pairs pairs s"
  using group_entries_fold [of "\<lambda>(k, v). cluster_slot k" pairs "\<lambda>_. None" s]
  by (simp add: slot_pairs_def split_def)

lemma map_of_slot_pairs:
  "map_of (rev (slot_pairs pairs s)) k = (if cluster_slot k = s then map_of (rev pairs) k else None)"
  by (induction pairs rule: rev_induct) (auto simp: slot_pairs_def)

lemma join_all_unit: "join_all (\<lambda>_ _. ()) (map (\<lambda>_. Inr ()) xs) () = Inr ()"
  by (induction xs) auto

lemma run_mset:
  assumes "answers_mset dispatch lookup" "distinct exec" "set exec \<subseteq> cluster_slot ` fst ` set pairs"
    and "list_all plain_braces (map fst pairs)"
  shows "\<exists>rs db'. run_tasks (\<lambda>s. dispatch (Cmd ''MSET''
      (concat (map (\<lambda>(k, v). [AStr k, ABytes v]) (slot_pairs pairs s))))) exec db = (rs, db') \<and>
    (\<forall>k. lookup db' k = (if cluster_slot k \<in> set exec
       then (case map_of (rev pairs) k of Some v \<Rightarrow> Some v | None \<Rightarrow> lookup db k) else lookup db k)) \<and>
    (\<forall>s \<in> set exec. rs s = Some (Inr ()))"
  using assms(2,3)
proof (induction exec arbitrary: db)
  case Nil
  then show ?case by simp
next
  case (Cons s exec)
  have "map fst (slot_pairs pairs s) = slot_keys (map fst pairs) s"
    by (induction pairs) (auto simp: slot_pairs_def slot_keys_def)
  then have "same_slot (map fst (slot_pairs pairs s))"
    using Cons.prems(2) same_slot_keys [OF _ assms(4), of s] by simp
  then obtain db1 where d: "dispatch (Cmd ''MSET'' (concat (map (\<lambda>(k, v). [AStr k, ABytes v]) (slot_pairs pairs s)))) db =
      (Inr (), db1)"
    and "lookup db1 = fold (\<lambda>(k, v) m. m(k \<mapsto> v)) (slot_pairs pairs s) (lookup db)"
    using assms(1) unfolding answers_mset_def by blast
  then have l1: "lookup db1 k = (if cluster_slot k = s
      then (case map_of (rev pairs) k of Some v \<Rightarrow> Some v | None \<Rightarrow> lookup db k) else lookup db k)" for k
    by (simp add: hash_map.lookup_fold_insert map_of_slot_pairs)
  obtain rs db' where "run_tasks (\<lambda>s. dispatch (Cmd ''MSET''
      (concat (map (\<lambda>(k, v). [AStr k, ABytes v]) (slot_pairs pairs s))))) exec db1 = (rs, db')"
    "\<forall>k. lookup db' k = (if cluster_slot k \<in> set exec
       then (case map_of (rev pairs) k of Some v \<Rightarrow> Some v | None \<Rightarrow> lookup db1 k) else lookup db1 k)"
    "\<forall>s \<in> set exec. rs s = Some (Inr ())"
    using Cons.IH [of db1] Cons.prems by auto
  then show ?case
    using Cons.prems by (auto simp: d l1 split: option.splits)
qed

text \<open>MSET over a cluster stores what one MSET of all pairs would store, in whatever order
  the per-slot requests run: a key given twice keeps its last value.\<close>
theorem fanout_mset_correct:
  assumes "answers_mset dispatch lookup" "slot_orders (map fst pairs) exec joined"
    and "list_all plain_braces (map fst pairs)"
  shows "case fanout_mset dispatch exec joined pairs db of (r, db') \<Rightarrow>
    r = Inr () \<and> lookup db' = fold (\<lambda>(k, v) m. m(k \<mapsto> v)) pairs (lookup db)"
proof (cases "pairs = []")
  case True
  then show ?thesis by (simp add: fanout_mset_def)
next
  case False
  have orders: "distinct exec" "set joined = set exec" "set exec = cluster_slot ` fst ` set pairs"
    using assms(2) by (auto simp: slot_orders_def)
  obtain rs db' where run: "run_tasks (\<lambda>s. dispatch (Cmd ''MSET''
      (concat (map (\<lambda>(k, v). [AStr k, ABytes v]) (slot_pairs pairs s))))) exec db = (rs, db')"
    and db': "\<forall>k. lookup db' k = (if cluster_slot k \<in> set exec
       then (case map_of (rev pairs) k of Some v \<Rightarrow> Some v | None \<Rightarrow> lookup db k) else lookup db k)"
    and rs: "\<forall>s \<in> set exec. rs s = Some (Inr ())"
    using run_mset [OF assms(1) orders(1) _ assms(3)] orders(3) by blast
  have "map_of (rev pairs) k = None" if "cluster_slot k \<notin> set exec" for k
    using that orders(3) by (auto simp: map_of_eq_None_iff)
  then have "lookup db' = fold (\<lambda>(k, v) m. m(k \<mapsto> v)) pairs (lookup db)"
    using db' by (auto simp: fun_eq_iff hash_map.lookup_fold_insert split: option.splits)
  moreover have "map (\<lambda>s. the (rs s)) joined = map (\<lambda>_. Inr ()) joined"
    using rs orders(2) by auto
  then have "join_all (\<lambda>_ _. ()) (map (\<lambda>s. the (rs s)) joined) () = (Inr () :: redis_error + unit)"
    by (simp only: join_all_unit)
  ultimately show ?thesis
    using False run by (simp add: fanout_mset_def pairs_by_slot)
qed

section \<open>Concrete runs\<close>

text \<open>A cluster whose state is its content, for the concrete evaluations; like the real one it
  refuses keys of different slots.\<close>

definition cross_slot_error :: redis_error where
  "cross_slot_error =
     \<lparr>re_kind = EkOther ''CROSSSLOT'', re_code = Some ''CROSSSLOT'', re_timeout = False, re_dropped = False,
      re_refused = False, re_display = ''CROSSSLOT''\<rparr>"

fun arg_key :: "redis_arg \<Rightarrow> bytes" where
  "arg_key (AStr k) = k"
| "arg_key _ = []"

fun arg_pairs :: "redis_arg list \<Rightarrow> (bytes \<times> bytes) list" where
  "arg_pairs (AStr k # ABytes v # as) = (k, v) # arg_pairs as"
| "arg_pairs _ = []"

definition kv_mget :: "(bytes \<Rightarrow> bytes option, bytes option list) server" where
  "kv_mget c db =
     (if same_slot (map arg_key (cmd_args c)) then (Inr (map (db \<circ> arg_key) (cmd_args c)), db)
      else (Inl cross_slot_error, db))"

definition kv_mset :: "(bytes \<Rightarrow> bytes option, unit) server" where
  "kv_mset c db =
     (if same_slot (map fst (arg_pairs (cmd_args c)))
      then (Inr (), fold (\<lambda>(k, v) m. m(k \<mapsto> v)) (arg_pairs (cmd_args c)) db)
      else (Inl cross_slot_error, db))"

definition kv_count :: "(bytes \<Rightarrow> bytes option, i64) server" where
  "kv_count c db =
     (if \<not> same_slot (map arg_key (cmd_args c)) then (Inl cross_slot_error, db)
      else if cmd_name c = ''EXISTS'' then
        (Inr (of_nat (length (filter (\<lambda>k. db k \<noteq> None) (map arg_key (cmd_args c))))), db)
      else
        (Inr (of_nat (card (set (map arg_key (cmd_args c)) \<inter> dom db))),
         db |` (- set (map arg_key (cmd_args c)))))"

lemma arg_key_AStr [simp]: "map arg_key (map AStr ks) = ks" "map (f \<circ> arg_key) (map AStr ks) = map f ks"
  by (simp_all add: comp_def)

lemma arg_pairs_concat [simp]: "arg_pairs (concat (map (\<lambda>(k, v). [AStr k, ABytes v]) ps)) = ps"
  by (induction ps) auto

lemma kv_answers:
  "answers_mget kv_mget (\<lambda>db. db)" "answers_mset kv_mset (\<lambda>db. db)"
  "answers_del ''DEL'' kv_count (\<lambda>db. db)" "answers_del ''UNLINK'' kv_count (\<lambda>db. db)" "answers_exists kv_count (\<lambda>db. db)"
  unfolding answers_mget_def answers_mset_def answers_del_def answers_exists_def
    kv_mget_def kv_mset_def kv_count_def redis_cmd.sel
  by (simp_all del: map_map)

lemma slots_ab: "cluster_slot ''a'' = 15495" "cluster_slot ''b'' = 3300"
  by code_simp+

lemma plain_ab: "list_all plain_braces [''a'', ''b'', ''a'']"
  by (simp add: plain_braces_def)

lemma orders_ab: "slot_orders [''a'', ''b'', ''a''] [3300, 15495] [15495, 3300]"
  by (simp add: slot_orders_def slots_ab insert_commute)

theorem fanout_mget_correct_witness:
  "fst (fanout_mget kv_mget [3300, 15495] [15495, 3300] [''a'', ''b'', ''a''] [''a'' \<mapsto> ''1'']) =
   Inr [Some ''1'', None, Some ''1'']"
  using fanout_mget_correct [OF kv_answers(1) orders_ab plain_ab] by simp

theorem fanout_mset_correct_witness:
  "snd (fanout_mset kv_mset [3300, 15495] [15495, 3300] [(''a'', ''1''), (''b'', ''2''), (''a'', ''3'')] Map.empty) ''a'' =
   Some ''3''"
  using fanout_mset_correct [OF kv_answers(2), of "[(''a'', ''1''), (''b'', ''2''), (''a'', ''3'')]"
      "[3300, 15495]" "[15495, 3300]" Map.empty] orders_ab plain_ab
  by (simp add: split_def)

theorem fanout_del_correct_witness:
  "fst (fanout_del kv_count [3300, 15495] [15495, 3300] [''a'', ''b'', ''a''] False [''a'' \<mapsto> ''1'']) = Inr 1"
  using fanout_del_correct [of False, simplified, OF kv_answers(3) orders_ab plain_ab, of "[''a'' \<mapsto> ''1'']"]
  by (simp add: split_def)

theorem fanout_exists_correct_witness:
  "fst (fanout_exists kv_count [3300, 15495] [15495, 3300] [''a'', ''b'', ''a''] [''a'' \<mapsto> ''1'']) = Inr 2"
  using fanout_exists_correct [OF kv_answers(5) orders_ab plain_ab, of "[''a'' \<mapsto> ''1'']"]
  by simp

end
