(* ===== verification/Awaitable.thy ===== *)
theory Awaitable
  imports Bridge
begin

text \<open>
  \<open>RedisRsAwaitable\<close> (\<open>async_bridge.rs\<close>): the object every async command returns.  A tokio
  task computes a \<open>RawResult\<close> and sends it through a oneshot channel; the asyncio task
  polls the object with \<open>__next__\<close>.  Five polls yield \<open>None\<close> (busy-yield); the sixth hands
  the receiver to a background task, yields the object itself as a blocking future, and from
  then on the background task stores the result in \<open>result_slot\<close> and schedules \<open>_wake\<close>
  on the event loop, which runs the done-callbacks.

  \<open>aw\<close> has the fields of the Rust struct (\<open>aw_rx\<close> says whether \<open>rx\<close> is \<open>Some\<close>; the
  counter is a \<open>u8\<close> with the wrap-around of a release build).  \<open>aw_sys\<close> adds what the
  object interacts with: the channel, the background task, the slot it shares with the
  object, the pending \<open>call_soon_threadsafe\<close> calls, and a history of the callbacks that
  have been run or handed to the event loop.
\<close>

section \<open>State\<close>

record aw =
  aw_rx :: bool
  aw_value :: "pyval option"
  aw_error :: "pyerr option"
  aw_resolved :: bool
  aw_cancelled :: bool
  aw_blocking :: bool
  aw_polls :: u8
  aw_cb :: "(nat \<times> nat list) option"  \<comment> \<open>event loop and callbacks\<close>

datatype channel = ChEmpty | ChSent raw_result | ChClosed

datatype task = NoTask | TaskWaiting | TaskDone

record aw_sys = aw +
  sys_chan :: channel
  sys_task :: task
  sys_slot :: "(unit + raw_result) option"
  sys_wakes :: nat
  sys_fired :: "nat list"

definition aw_new :: aw_sys where
  "aw_new = \<lparr>aw_rx = True, aw_value = None, aw_error = None, aw_resolved = False,
     aw_cancelled = False, aw_blocking = False, aw_polls = 0, aw_cb = None,
     sys_chan = ChEmpty, sys_task = NoTask, sys_slot = None, sys_wakes = 0, sys_fired = []\<rparr>"

section \<open>Operations\<close>

text \<open>What a call of \<open>__next__\<close> returns to Python.\<close>

datatype next_result =
    YieldNone
  | YieldSelf
  | StopIteration pyval
  | Raise pyerr

definition cancelled_error :: pyerr where
  "cancelled_error = PyErr CancelledError []"

definition already_consumed :: pyerr where
  "already_consumed = PyErr PyRuntimeError ''awaitable already consumed''"

definition operation_dropped :: pyerr where
  "operation_dropped = PyErr PyRuntimeError ''operation was dropped''"

definition deliver_value :: "pyval \<Rightarrow> 'a aw_scheme \<Rightarrow> next_result \<times> 'a aw_scheme" where
  "deliver_value v s = (StopIteration v, s\<lparr>aw_resolved := True, aw_value := Some v\<rparr>)"

definition deliver_error :: "pyerr \<Rightarrow> 'a aw_scheme \<Rightarrow> next_result \<times> 'a aw_scheme" where
  "deliver_error e s = (Raise e, s\<lparr>aw_resolved := True, aw_error := Some e\<rparr>)"

definition deliver :: "bridge_env \<Rightarrow> raw_result \<Rightarrow> 'a aw_scheme \<Rightarrow> next_result \<times> 'a aw_scheme" where
  "deliver env raw s =
     (case into_py env raw of Inr v \<Rightarrow> deliver_value v s | Inl e \<Rightarrow> deliver_error e s)"

text \<open>The tail of \<open>__next__\<close>, reached when no result is available yet.  \<open>loop\<close> is what
  \<open>asyncio.get_running_loop()\<close> gives; the receiver is taken before the call, so a failure
  loses it.\<close>

definition poll_or_block :: "pyerr + nat \<Rightarrow> aw_sys \<Rightarrow> next_result \<times> aw_sys" where
  "poll_or_block loop s0 =
     (let s = s0\<lparr>aw_polls := aw_polls s0 + 1\<rparr> in
      if aw_polls s \<le> 5 then (YieldNone, s)
      else if \<not> aw_rx s then (Raise already_consumed, s)
      else
        let s = s\<lparr>aw_rx := False\<rparr> in
        (case loop of
           Inl e \<Rightarrow> (Raise e, s)
         | Inr l \<Rightarrow>
             (YieldSelf,
              s\<lparr>aw_blocking := True, aw_cb := Some (l, []), sys_task := TaskWaiting,
                sys_slot := None\<rparr>)))"

definition try_recv :: "bridge_env \<Rightarrow> pyerr + nat \<Rightarrow> aw_sys \<Rightarrow> next_result \<times> aw_sys" where
  "try_recv env loop s =
     (if aw_rx s then
        (case sys_chan s of
           ChSent raw \<Rightarrow> deliver env raw (s\<lparr>aw_rx := False\<rparr>)
         | ChClosed \<Rightarrow> deliver_error operation_dropped (s\<lparr>aw_rx := False\<rparr>)
         | ChEmpty \<Rightarrow> poll_or_block loop s)
      else poll_or_block loop s)"

definition aw_next :: "bridge_env \<Rightarrow> pyerr + nat \<Rightarrow> aw_sys \<Rightarrow> next_result \<times> aw_sys" where
  "aw_next env loop s =
     (if aw_cancelled s then (Raise cancelled_error, s)
      else if aw_resolved s then
        (case aw_error s of
           Some e \<Rightarrow> (Raise e, s)
         | None \<Rightarrow>
             (case aw_value s of
                Some v \<Rightarrow> (StopIteration v, s)
              | None \<Rightarrow> (Raise already_consumed, s)))
      else
        (case (aw_cb s, sys_slot s) of
           (Some _, Some r) \<Rightarrow>
             (let s = s\<lparr>sys_slot := None, aw_cb := None\<rparr> in
              (case r of
                 Inr raw \<Rightarrow> deliver env raw s
               | Inl _ \<Rightarrow> deliver_error operation_dropped s))
         | _ \<Rightarrow> try_recv env loop s))"

definition aw_wake :: "aw_sys \<Rightarrow> aw_sys" where
  "aw_wake s =
     (case aw_cb s of
        Some (l, cbs) \<Rightarrow> s\<lparr>aw_cb := Some (l, []), sys_fired := sys_fired s @ cbs\<rparr>
      | None \<Rightarrow> s)"

definition add_done_callback :: "nat \<Rightarrow> aw_sys \<Rightarrow> aw_sys" where
  "add_done_callback c s =
     (case aw_cb s of Some (l, cbs) \<Rightarrow> s\<lparr>aw_cb := Some (l, cbs @ [c])\<rparr> | None \<Rightarrow> s)"

definition aw_result :: "aw_sys \<Rightarrow> pyval pyres" where
  "aw_result s =
     (if aw_cancelled s then Inl cancelled_error
      else case aw_error s of
             Some e \<Rightarrow> Inl e
           | None \<Rightarrow> (case aw_value s of Some v \<Rightarrow> Inr v | None \<Rightarrow> Inr PNone))"

definition aw_exception :: "aw_sys \<Rightarrow> pyerr option" where
  "aw_exception s = (if aw_cancelled s then Some cancelled_error else aw_error s)"

definition aw_cancel :: "aw_sys \<Rightarrow> bool \<times> aw_sys" where
  "aw_cancel s =
     (if aw_resolved s \<or> aw_cancelled s then (False, s)
      else
        (True,
         s\<lparr>aw_cancelled := True, aw_rx := False, aw_cb := None,
           sys_fired := sys_fired s @ (case aw_cb s of Some (l, cbs) \<Rightarrow> cbs | None \<Rightarrow> [])\<rparr>))"

definition aw_done :: "'a aw_scheme \<Rightarrow> bool" where
  "aw_done s \<longleftrightarrow> aw_resolved s \<or> aw_cancelled s"

text \<open>The body of the spawned task, once the channel has something for it.\<close>

definition task_step :: "aw_sys \<Rightarrow> aw_sys" where
  "task_step s =
     (if sys_task s = TaskWaiting then
        (case sys_chan s of
           ChEmpty \<Rightarrow> s
         | ChSent r \<Rightarrow> s\<lparr>sys_task := TaskDone, sys_slot := Some (Inr r), sys_wakes := sys_wakes s + 1\<rparr>
         | ChClosed \<Rightarrow> s\<lparr>sys_task := TaskDone, sys_slot := Some (Inl ()), sys_wakes := sys_wakes s + 1\<rparr>)
      else s)"

section \<open>Transitions\<close>

datatype aw_event =
    ENext "pyerr + nat" | EAddCallback nat | ECancel
  | ESend raw_result | EDropSender | ETask | EWake

text \<open>The sender half is used once; a \<open>_wake\<close> runs only when it has been scheduled.\<close>

fun aw_step :: "bridge_env \<Rightarrow> aw_event \<Rightarrow> aw_sys \<Rightarrow> aw_sys" where
  "aw_step env (ENext loop) s = snd (aw_next env loop s)"
| "aw_step env (EAddCallback c) s = add_done_callback c s"
| "aw_step env ECancel s = snd (aw_cancel s)"
| "aw_step env (ESend r) s = (if sys_chan s = ChEmpty then s\<lparr>sys_chan := ChSent r\<rparr> else s)"
| "aw_step env EDropSender s = (if sys_chan s = ChEmpty then s\<lparr>sys_chan := ChClosed\<rparr> else s)"
| "aw_step env ETask s = task_step s"
| "aw_step env EWake s = (if 0 < sys_wakes s then aw_wake (s\<lparr>sys_wakes := sys_wakes s - 1\<rparr>) else s)"

inductive aw_reachable :: "bridge_env \<Rightarrow> aw_sys \<Rightarrow> bool" for env where
  start: "aw_reachable env aw_new"
| step: "aw_reachable env s \<Longrightarrow> aw_reachable env (aw_step env e s)"

definition aw_run :: "bridge_env \<Rightarrow> aw_event list \<Rightarrow> aw_sys \<Rightarrow> aw_sys" where
  "aw_run env es s = fold (aw_step env) es s"

lemma aw_run_simps [simp]:
  "aw_run env [] s = s"
  "aw_run env (e # es) s = aw_run env es (aw_step env e s)"
  by (simp_all add: aw_run_def)

lemma aw_run_append: "aw_run env (es @ fs) s = aw_run env fs (aw_run env es s)"
  by (simp add: aw_run_def)

lemma reachable_run: "aw_reachable env s \<Longrightarrow> aw_reachable env (aw_run env es s)"
  by (induction es arbitrary: s) (auto intro: aw_reachable.step)

lemmas aw_defs = deliver_def deliver_value_def deliver_error_def poll_or_block_def try_recv_def
  aw_next_def aw_wake_def add_done_callback_def aw_cancel_def task_step_def Let_def

section \<open>Invariant\<close>

text \<open>
  The result fields agree with the flags; the receiver is in one place only (the object, the
  background task, or nowhere); what is delivered is the conversion of what was sent.
\<close>

definition delivered_ok :: "bridge_env \<Rightarrow> aw_sys \<Rightarrow> bool" where
  "delivered_ok env s \<longleftrightarrow>
     (case (aw_value s, aw_error s) of
        (Some v, None) \<Rightarrow> aw_resolved s \<and> (\<exists>r. sys_chan s = ChSent r \<and> into_py env r = Inr v)
      | (None, Some e) \<Rightarrow> aw_resolved s \<and>
          ((\<exists>r. sys_chan s = ChSent r \<and> into_py env r = Inl e) \<or>
           sys_chan s = ChClosed \<and> e = operation_dropped)
      | (None, None) \<Rightarrow> \<not> aw_resolved s
      | (Some _, Some _) \<Rightarrow> False)"

definition slot_ok :: "aw_sys \<Rightarrow> bool" where
  "slot_ok s \<longleftrightarrow>
     (case sys_slot s of
        None \<Rightarrow> True
      | Some (Inr r) \<Rightarrow> sys_task s = TaskDone \<and> sys_chan s = ChSent r
      | Some (Inl _) \<Rightarrow> sys_task s = TaskDone \<and> sys_chan s = ChClosed)"

definition place_ok :: "aw_sys \<Rightarrow> bool" where
  "place_ok s \<longleftrightarrow>
     \<not> (aw_resolved s \<and> aw_cancelled s) \<and>
     (aw_done s \<longrightarrow> \<not> aw_rx s \<and> aw_cb s = None) \<and>
     (aw_rx s \<longrightarrow> aw_cb s = None \<and> sys_task s = NoTask \<and> aw_polls s \<le> 5) \<and>
     (aw_resolved s \<longrightarrow> sys_task s \<noteq> TaskWaiting \<and> sys_slot s = None) \<and>
     (sys_task s = NoTask \<longrightarrow> sys_slot s = None) \<and>
     (aw_cb s \<noteq> None \<longrightarrow> sys_task s \<noteq> NoTask \<and> aw_blocking s) \<and>
     (aw_cb s \<noteq> None \<and> sys_task s = TaskDone \<longrightarrow> sys_slot s \<noteq> None) \<and>
     (sys_task s = NoTask \<longrightarrow> sys_wakes s = 0)"

definition aw_inv :: "bridge_env \<Rightarrow> aw_sys \<Rightarrow> bool" where
  "aw_inv env s \<longleftrightarrow> delivered_ok env s \<and> slot_ok s \<and> place_ok s"

lemmas aw_inv_defs = aw_inv_def delivered_ok_def slot_ok_def place_ok_def aw_done_def

lemma aw_new_inv: "aw_inv env aw_new"
  by (simp add: aw_inv_defs aw_new_def)

lemma deliver_inv:
  assumes "delivered_ok env s" "slot_ok s" "place_ok s" "\<not> aw_done s" "sys_chan s = ChSent r"
    and "\<not> aw_rx s" "aw_cb s = None" "sys_task s \<noteq> TaskWaiting" "sys_slot s = None"
  shows "aw_inv env (snd (deliver env r s))"
  using assms by (auto simp: aw_inv_defs aw_defs split: option.splits sum.splits)

lemma deliver_dropped_inv:
  assumes "delivered_ok env s" "slot_ok s" "place_ok s" "\<not> aw_done s" "sys_chan s = ChClosed"
    and "\<not> aw_rx s" "aw_cb s = None" "sys_task s \<noteq> TaskWaiting" "sys_slot s = None"
  shows "aw_inv env (snd (deliver_error operation_dropped s))"
  using assms by (auto simp: aw_inv_defs aw_defs split: option.splits sum.splits)

lemma poll_or_block_inv:
  assumes "aw_inv env s" "\<not> aw_done s"
  shows "aw_inv env (snd (poll_or_block loop s))"
  using assms
  by (auto simp: aw_inv_defs poll_or_block_def Let_def split: option.splits sum.splits prod.splits)

lemma try_recv_inv:
  assumes inv: "aw_inv env s" and nd: "\<not> aw_done s"
  shows "aw_inv env (snd (try_recv env loop s))"
proof (cases "aw_rx s")
  case True
  let ?s = "s\<lparr>aw_rx := False\<rparr>"
  from inv nd True have *: "delivered_ok env ?s" "slot_ok ?s" "place_ok ?s" "\<not> aw_done ?s"
      "\<not> aw_rx ?s" "aw_cb ?s = None" "sys_task ?s \<noteq> TaskWaiting" "sys_slot ?s = None"
    by (auto simp: aw_inv_defs split: option.splits sum.splits)
  show ?thesis
  proof (cases "sys_chan s")
    case ChEmpty
    then show ?thesis using True poll_or_block_inv [OF inv nd] by (simp add: try_recv_def)
  next
    case (ChSent r)
    then show ?thesis using True deliver_inv [OF *(1-4), of r] *(5-8) by (simp add: try_recv_def)
  next
    case ChClosed
    then show ?thesis using True deliver_dropped_inv [OF *(1-4)] *(5-8) by (simp add: try_recv_def)
  qed
next
  case False
  then show ?thesis using poll_or_block_inv [OF inv nd] by (simp add: try_recv_def)
qed

lemma aw_next_inv:
  assumes inv: "aw_inv env s"
  shows "aw_inv env (snd (aw_next env loop s))"
proof (cases "aw_done s")
  case True
  then show ?thesis
    using inv by (auto simp: aw_next_def aw_done_def split: option.splits)
next
  case False
  then have nd: "\<not> aw_cancelled s" "\<not> aw_resolved s" by (auto simp: aw_done_def)
  show ?thesis
  proof (cases "aw_cb s \<noteq> None \<and> sys_slot s \<noteq> None")
    case True
    then obtain c r where c: "aw_cb s = Some c" "sys_slot s = Some r" by auto
    let ?s = "s\<lparr>sys_slot := None, aw_cb := None\<rparr>"
    from inv False c have *: "delivered_ok env ?s" "slot_ok ?s" "place_ok ?s" "\<not> aw_done ?s"
        "\<not> aw_rx ?s" "aw_cb ?s = None" "sys_task ?s \<noteq> TaskWaiting" "sys_slot ?s = None"
      by (auto simp: aw_inv_defs split: option.splits sum.splits)
    from inv c have "sys_chan s = (case r of Inr raw \<Rightarrow> ChSent raw | Inl _ \<Rightarrow> ChClosed)"
      by (auto simp: aw_inv_defs split: sum.splits)
    then show ?thesis
      using nd c * deliver_inv [OF *(1-4)] deliver_dropped_inv [OF *(1-4)]
      by (auto simp: aw_next_def split: sum.splits)
  next
    case no: False
    then have "aw_next env loop s = try_recv env loop s"
      using nd by (auto simp: aw_next_def split: option.splits)
    then show ?thesis using try_recv_inv [OF inv False] by simp
  qed
qed

lemma aw_step_inv:
  assumes "aw_inv env s"
  shows "aw_inv env (aw_step env e s)"
proof (cases e)
  case (ENext loop)
  then show ?thesis using aw_next_inv [OF assms] by simp
next
  case (EAddCallback c)
  then show ?thesis using assms by (auto simp: aw_inv_defs add_done_callback_def split: option.splits sum.splits)
next
  case ECancel
  then show ?thesis using assms by (auto simp: aw_inv_defs aw_cancel_def split: option.splits sum.splits)
next
  case (ESend r)
  then show ?thesis using assms by (auto simp: aw_inv_defs split: option.splits sum.splits)
next
  case EDropSender
  then show ?thesis using assms by (auto simp: aw_inv_defs split: option.splits sum.splits)
next
  case ETask
  then show ?thesis
    using assms by (auto simp: aw_inv_defs task_step_def split: option.splits sum.splits channel.splits)
next
  case EWake
  then show ?thesis using assms by (auto simp: aw_inv_defs aw_wake_def split: option.splits sum.splits)
qed

lemma reachable_aw_inv: "aw_reachable env s \<Longrightarrow> aw_inv env s"
  by (induction rule: aw_reachable.induct) (auto intro: aw_new_inv aw_step_inv)

section \<open>A finished object stays finished\<close>

lemma done_step_fields:
  assumes "aw_inv env s" "aw_done s"
  shows "aw_done (aw_step env e s) \<and> aw_result (aw_step env e s) = aw_result s \<and>
         aw_exception (aw_step env e s) = aw_exception s"
  using assms
  by (cases e) (auto simp: aw_inv_defs aw_next_def aw_cancel_def add_done_callback_def task_step_def
      aw_wake_def aw_result_def aw_exception_def split: option.splits channel.splits)

text \<open>Once \<open>done()\<close> holds it holds for ever, and \<open>result()\<close> and \<open>exception()\<close> give the
  same answer after any further sequence of calls, task steps and wake-ups.\<close>

theorem awaitable_done_stable:
  assumes "aw_reachable env s" "aw_done s"
  shows "aw_done (aw_run env es s) \<and> aw_result (aw_run env es s) = aw_result s \<and>
         aw_exception (aw_run env es s) = aw_exception s"
  using assms
proof (induction es arbitrary: s)
  case Nil
  then show ?case by simp
next
  case (Cons e es)
  have "aw_reachable env (aw_step env e s)"
    using Cons.prems by (auto intro: aw_reachable.step)
  moreover note done_step_fields [OF reachable_aw_inv [OF Cons.prems(1)] Cons.prems(2), of e]
  ultimately show ?case using Cons.IH by simp
qed

section \<open>Delivery\<close>

text \<open>What a call of \<open>__next__\<close> makes of a result the command's task has sent.\<close>

definition outcome :: "bridge_env \<Rightarrow> raw_result \<Rightarrow> next_result" where
  "outcome env r = (case into_py env r of Inr v \<Rightarrow> StopIteration v | Inl e \<Rightarrow> Raise e)"

lemma fst_deliver [simp]: "fst (deliver env r s) = outcome env r"
  by (auto simp: aw_defs outcome_def split: sum.splits)

lemma polls_step:
  assumes "k < 5"
  shows "(of_nat k :: u8) + 1 \<le> 5"
proof -
  from assms consider "k = 0" | "k = 1" | "k = 2" | "k = 3" | "k = 4" by linarith
  then show ?thesis by cases simp_all
qed

lemma fresh_polls: "k \<le> 5 \<Longrightarrow>
  aw_run env (replicate k (ENext loop)) aw_new = aw_new\<lparr>aw_polls := of_nat k\<rparr>"
proof (induction k)
  case 0
  then show ?case by (simp add: aw_new_def)
next
  case (Suc k)
  have "replicate (Suc k) (ENext loop) = replicate k (ENext loop) @ [ENext loop]"
    by (simp add: replicate_append_same)
  then show ?case
    using Suc polls_step [of k]
    by (simp add: aw_run_append aw_next_def try_recv_def poll_or_block_def Let_def aw_new_def add.commute)
qed

text \<open>The polling protocol while no result has been sent: the first five calls of
  \<open>__next__\<close> yield \<open>None\<close>, the sixth yields the object itself as a blocking future (or
  fails as \<open>get_running_loop\<close> does).\<close>

theorem awaitable_poll_protocol:
  assumes "k \<le> 5"
  shows "fst (aw_next env loop (aw_run env (replicate k (ENext loop)) aw_new)) =
    (if k < 5 then YieldNone else case loop of Inr l \<Rightarrow> YieldSelf | Inl e \<Rightarrow> Raise e)"
proof (cases "k < 5")
  case True
  then show ?thesis
    using fresh_polls [OF assms] polls_step [of k]
    by (simp add: aw_next_def try_recv_def poll_or_block_def Let_def aw_new_def add.commute)
next
  case False
  with assms have "k = 5" by simp
  then show ?thesis
    using fresh_polls [OF assms]
    by (simp add: aw_next_def try_recv_def poll_or_block_def Let_def aw_new_def split: sum.splits)
qed

theorem awaitable_poll_protocol_witness:
  "fst (aw_next sample_env (Inr 1) (aw_run sample_env (replicate 5 (ENext (Inr 1))) aw_new)) = YieldSelf"
  using awaitable_poll_protocol [of 5 sample_env "Inr 1"] by simp

lemma sent_result_delivered:
  assumes "aw_reachable env s" "\<not> aw_done s" "sys_chan s = ChSent r"
    and "aw_rx s \<or> aw_cb s \<noteq> None"
  shows "fst (aw_next env loop (aw_step env ETask s)) = outcome env r \<and>
         aw_done (snd (aw_next env loop (aw_step env ETask s)))"
proof -
  from assms(1) have inv: "aw_inv env s" by (rule reachable_aw_inv)
  have nd: "\<not> aw_cancelled s" "\<not> aw_resolved s" using assms(2) by (auto simp: aw_done_def)
  have res: "aw_done (snd (deliver env r t))" for t :: aw_sys
    by (auto simp: aw_defs aw_done_def split: sum.splits)
  show ?thesis
  proof (cases "aw_cb s")
    case None
    with assms(4) have rx: "aw_rx s" by simp
    with inv have "sys_task s = NoTask" by (auto simp: aw_inv_defs)
    then show ?thesis using rx None nd assms(3) res by (simp add: task_step_def aw_next_def try_recv_def)
  next
    case (Some c)
    let ?t = "task_step s"
    have "aw_cb ?t = Some c \<and> sys_slot ?t = Some (Inr r) \<and> \<not> aw_cancelled ?t \<and> \<not> aw_resolved ?t"
      using inv Some assms(3) nd
      by (cases "sys_task s") (auto simp: aw_inv_defs task_step_def split: option.splits sum.splits)
    then show ?thesis using res by (simp add: aw_next_def Let_def)
  qed
qed

text \<open>No result is lost: whenever the command's task has sent a result and the object is
  neither finished nor abandoned (it still holds the receiver or has handed it to the
  background task), the next \<open>__next__\<close> after the background task's turn delivers exactly
  the conversion of that result.\<close>

theorem awaitable_delivers:
  assumes "aw_reachable env s" "\<not> aw_done s" "sys_chan s = ChSent r"
    and "aw_rx s \<or> aw_cb s \<noteq> None"
  shows "fst (aw_next env loop (aw_step env ETask s)) = outcome env r \<and>
         aw_done (snd (aw_next env loop (aw_step env ETask s)))"
  using assms by (rule sent_result_delivered)

section \<open>Callbacks\<close>

definition pending :: "aw_sys \<Rightarrow> nat list" where
  "pending s = (case aw_cb s of Some (l, cbs) \<Rightarrow> cbs | None \<Rightarrow> [])"

text \<open>The callbacks the object stored along a run, and the discipline asyncio keeps with a
  single awaiting task: nobody polls the object while callbacks are registered.\<close>

fun accepted :: "bridge_env \<Rightarrow> aw_event list \<Rightarrow> aw_sys \<Rightarrow> nat list" where
  "accepted env [] s = []"
| "accepted env (e # es) s =
     (case e of EAddCallback c \<Rightarrow> if aw_cb s \<noteq> None then [c] else [] | _ \<Rightarrow> []) @
     accepted env es (aw_step env e s)"

fun disciplined :: "bridge_env \<Rightarrow> aw_event list \<Rightarrow> aw_sys \<Rightarrow> bool" where
  "disciplined env [] s = True"
| "disciplined env (e # es) s =
     ((case e of ENext _ \<Rightarrow> pending s = [] | _ \<Rightarrow> True) \<and> disciplined env es (aw_step env e s))"

lemma pending_next: "pending s = [] \<Longrightarrow> pending (snd (aw_next env loop s)) = [] \<and>
    sys_fired (snd (aw_next env loop s)) = sys_fired s"
  by (auto simp: pending_def aw_defs split: option.splits sum.splits channel.splits prod.splits)

lemma callbacks_step:
  assumes "case e of ENext _ \<Rightarrow> pending s = [] | _ \<Rightarrow> True"
  shows "sys_fired (aw_step env e s) @ pending (aw_step env e s) =
    sys_fired s @ pending s @ accepted env [e] s"
  using assms
proof (cases e)
  case (ENext loop)
  then show ?thesis using assms pending_next [of s env loop] by simp
qed (auto simp: pending_def add_done_callback_def aw_cancel_def task_step_def aw_wake_def
       split: option.splits channel.splits)

lemma callbacks_run:
  "disciplined env es s \<Longrightarrow>
   sys_fired (aw_run env es s) @ pending (aw_run env es s) =
     sys_fired s @ pending s @ accepted env es s"
proof (induction es arbitrary: s)
  case Nil
  then show ?case by simp
next
  case (Cons e es)
  then show ?case using callbacks_step [where e = e and s = s and env = env] by auto
qed

text \<open>A \<open>_wake\<close> runs everything that is pending; a finished object has nothing pending.\<close>

lemma wake_fires: "0 < sys_wakes s \<Longrightarrow> sys_fired (aw_step env EWake s) = sys_fired s @ pending s"
  by (auto simp: aw_wake_def pending_def split: option.split)

lemma done_none_pending: "aw_reachable env s \<Longrightarrow> aw_done s \<Longrightarrow> pending s = []"
  using reachable_aw_inv [of env s] by (auto simp: aw_inv_defs pending_def)

lemma task_schedules_wake:
  "sys_task s = TaskWaiting \<Longrightarrow> sys_chan s \<noteq> ChEmpty \<Longrightarrow>
   0 < sys_wakes (aw_step env ETask s) \<and> sys_fired (aw_step env ETask s) = sys_fired s \<and>
   pending (aw_step env ETask s) = pending s"
  by (auto simp: task_step_def pending_def split: channel.split)

text \<open>(C18) Done-callbacks, along any disciplined run of a fresh object: every callback that was
  stored is still pending or has been run (or handed to the event loop by a cancellation) exactly
  once, in registration order.  When the object is finished all have been run; so they have when a
  scheduled \<open>_wake\<close> has run, and once the result has arrived at the background task, its turn and
  the \<open>_wake\<close> that it schedules run them all.\<close>

theorem awaitable_callbacks_once:
  assumes "disciplined env es aw_new"
  shows "sys_fired (aw_run env es aw_new) @ pending (aw_run env es aw_new) = accepted env es aw_new \<and>
    (aw_done (aw_run env es aw_new) \<longrightarrow> sys_fired (aw_run env es aw_new) = accepted env es aw_new) \<and>
    (0 < sys_wakes (aw_run env es aw_new) \<longrightarrow>
       sys_fired (aw_run env (es @ [EWake]) aw_new) = accepted env es aw_new) \<and>
    (sys_task (aw_run env es aw_new) = TaskWaiting \<and> sys_chan (aw_run env es aw_new) \<noteq> ChEmpty \<longrightarrow>
       sys_fired (aw_run env (es @ [ETask, EWake]) aw_new) = accepted env es aw_new)"
proof -
  let ?s = "aw_run env es aw_new"
  have all: "sys_fired ?s @ pending ?s = accepted env es aw_new"
    using callbacks_run [OF assms] by (simp add: aw_new_def pending_def)
  have "aw_reachable env ?s" by (intro reachable_run aw_reachable.start)
  then show ?thesis
    using all done_none_pending [of env ?s] wake_fires [of ?s env] task_schedules_wake [of ?s env]
      wake_fires [of "aw_step env ETask ?s" env]
    by (auto simp: aw_run_append simp del: aw_step.simps)
qed

lemma disciplined_append:
  "disciplined env (es @ fs) s \<longleftrightarrow> disciplined env es s \<and> disciplined env fs (aw_run env es s)"
  by (induction es arbitrary: s) auto

lemma accepted_append: "accepted env (es @ fs) s = accepted env es s @ accepted env fs (aw_run env es s)"
  by (induction es arbitrary: s) auto

lemma disciplined_polls: "pending s = [] \<Longrightarrow> disciplined env (replicate n (ENext loop)) s"
  by (induction n arbitrary: s) (auto simp: pending_next)

lemma accepted_polls [simp]: "accepted env (replicate n (ENext loop)) s = []"
  by (induction n arbitrary: s) auto

text \<open>The state after six polls without a result.\<close>

lemma blocked_state:
  "aw_run env (replicate 6 (ENext (Inr l))) aw_new =
     aw_new\<lparr>aw_rx := False, aw_blocking := True, aw_polls := 6, aw_cb := Some (l, []),
       sys_task := TaskWaiting\<rparr>"
proof -
  have "replicate 6 (ENext (Inr l)) = replicate 5 (ENext (Inr l)) @ [ENext (Inr l)]"
    by (simp add: numeral_eq_Suc)
  then show ?thesis
    using fresh_polls [of 5 env "Inr l"]
    by (simp add: aw_run_append aw_next_def try_recv_def poll_or_block_def Let_def aw_new_def)
qed

lemmas aw_eval = aw_run_append blocked_state aw_new_def add_done_callback_def task_step_def
  aw_wake_def pending_def

theorem awaitable_callbacks_once_witness:
  "sys_fired (aw_run sample_env (replicate 6 (ENext (Inr 1)) @ [EAddCallback 7, ESend RNil, ETask, EWake]) aw_new) = [7]"
proof -
  let ?es = "replicate 6 (ENext (Inr 1)) @ [EAddCallback 7, ESend RNil, ETask, EWake]"
  have "disciplined sample_env ?es aw_new"
    using disciplined_polls [of aw_new sample_env] by (simp add: disciplined_append pending_def aw_new_def)
  from awaitable_callbacks_once [OF this] show ?thesis
    unfolding accepted_append by (simp add: aw_run_append blocked_state) (simp add: aw_eval)
qed

text \<open>Without that discipline a wake-up can be lost: when another task polls the object
  after the background task has filled the slot but before \<open>_wake\<close> ran, the stored callback
  is dropped with the callback state, and no later step runs it.\<close>

theorem awaitable_lost_wakeup:
  "accepted sample_env (replicate 6 (ENext (Inr 1)) @ [EAddCallback 7, ESend RNil, ETask, ENext (Inr 1), EWake]) aw_new = [7] \<and>
   sys_fired (aw_run sample_env (replicate 6 (ENext (Inr 1)) @ [EAddCallback 7, ESend RNil, ETask, ENext (Inr 1), EWake]) aw_new) = [] \<and>
   pending (aw_run sample_env (replicate 6 (ENext (Inr 1)) @ [EAddCallback 7, ESend RNil, ETask, ENext (Inr 1), EWake]) aw_new) = []"
  unfolding accepted_append aw_run_append blocked_state
  by (simp add: aw_eval aw_next_def deliver_def deliver_value_def Let_def)

section \<open>Safety\<close>

text \<open>(C13) In every reachable state: the object is resolved just when it has a value or an error,
  and then has one of the two and is not cancelled; what it has is the conversion of the very result
  the command's task sent, or the report that the task dropped its sender; a finished object holds
  neither the receiver nor callbacks.  The result, or the receiver it will come from, is in at most
  one of four places: the object's receiver, the waiting background task, the slot, or the value
  fields; and while the object waits as a future it is in the background task or in the slot.\<close>

theorem awaitable_invariant:
  assumes "aw_reachable env s"
  shows "\<not> (aw_resolved s \<and> aw_cancelled s) \<and>
    (aw_resolved s \<longleftrightarrow> aw_value s \<noteq> None \<or> aw_error s \<noteq> None) \<and>
    (\<forall>v. aw_value s = Some v \<longrightarrow> aw_error s = None \<and> (\<exists>r. sys_chan s = ChSent r \<and> into_py env r = Inr v)) \<and>
    (\<forall>e. aw_error s = Some e \<longrightarrow> aw_value s = None \<and>
       ((\<exists>r. sys_chan s = ChSent r \<and> into_py env r = Inl e) \<or>
        sys_chan s = ChClosed \<and> e = operation_dropped)) \<and>
    (aw_done s \<longrightarrow> \<not> aw_rx s \<and> aw_cb s = None) \<and>
    length (filter id [aw_rx s, sys_task s = TaskWaiting, sys_slot s \<noteq> None, aw_resolved s]) \<le> 1 \<and>
    (aw_cb s \<noteq> None \<longrightarrow> sys_task s = TaskWaiting \<or> sys_slot s \<noteq> None)"
  using reachable_aw_inv [OF assms]
  by (cases "sys_task s") (auto simp: aw_inv_defs split: option.splits sum.splits)

lemma reachable_polls_send: "aw_reachable env (aw_run env (replicate 6 (ENext (Inr l)) @ es) aw_new)"
  by (intro reachable_run aw_reachable.start)

theorem awaitable_invariant_witness:
  "aw_value (aw_run sample_env [ESend (RInt 5), ENext (Inr 1)] aw_new) = Some (PInt 5) \<and>
   aw_error (aw_run sample_env [ESend (RInt 5), ENext (Inr 1)] aw_new) = None"
proof -
  let ?s = "aw_run sample_env [ESend (RInt 5), ENext (Inr 1)] aw_new"
  have "aw_reachable sample_env ?s" by (intro reachable_run aw_reachable.start)
  note awaitable_invariant [OF this]
  moreover have "aw_value ?s = Some (PInt 5)" by (simp add: aw_defs aw_new_def)
  ultimately show ?thesis by blast
qed

theorem awaitable_done_stable_witness:
  "aw_done (aw_run sample_env [ENext (Inr 1), EDropSender, ECancel] (aw_run sample_env [ESend (RInt 5), ENext (Inr 1)] aw_new))"
proof -
  let ?s = "aw_run sample_env [ESend (RInt 5), ENext (Inr 1)] aw_new"
  have "aw_reachable sample_env ?s" by (intro reachable_run aw_reachable.start)
  moreover have "aw_done ?s" by (simp add: aw_defs aw_new_def aw_done_def)
  ultimately show ?thesis using awaitable_done_stable by blast
qed

theorem awaitable_delivers_witness:
  "fst (aw_next sample_env (Inr 1) (aw_step sample_env ETask
      (aw_run sample_env (replicate 6 (ENext (Inr 1)) @ [ESend (RInt 5)]) aw_new))) = StopIteration (PInt 5)"
proof -
  let ?s = "aw_run sample_env (replicate 6 (ENext (Inr 1)) @ [ESend (RInt 5)]) aw_new"
  have s: "\<not> aw_done ?s" "sys_chan ?s = ChSent (RInt 5)" "aw_rx ?s \<or> aw_cb ?s \<noteq> None"
    unfolding aw_run_append blocked_state by (simp_all add: aw_eval aw_done_def)
  from awaitable_delivers [OF reachable_polls_send s] show ?thesis by (simp add: outcome_def)
qed

end
