(* ===== verification/SyncAsync.thy ===== *)
theory SyncAsync
  imports Awaitable
begin

text \<open>
  The two ways a command ends.  A sync method (\<open>sync_op!\<close> in \<open>helpers.rs\<close>) blocks on
  the command's future and converts its result with the helpers of \<open>helpers.rs\<close>; an async
  method (\<open>async_op!\<close>) returns a \<open>RedisRsAwaitable\<close> at once, and the spawned task sends
  the \<open>RawResult\<close> that \<open>IntoRawResult\<close> (\<open>raw_result.rs\<close>) makes of the same result.
  \<open>typed_reply\<close> has one constructor for each type with a \<open>From\<close> impl.
\<close>

section \<open>Typed replies\<close>

datatype (plugins only: code size) typed_reply =
    TUnit | TBool bool | TI64 i64 | TU64 u64 | TF64 f64
  | TOptI64 "i64 option" | TOptF64 "f64 option"
  | TBytes bytes | TOptBytes "bytes option" | TString bytes | TOptString "bytes option"
  | TBytesList "bytes list" | TOptBytesList "bytes option list" | TStringList "bytes list"
  | TBytesPairs fields | TScoredPairs "scored_pair list"
  | TOptKeyBytes "(bytes \<times> bytes) option" | TOptKeyBytesList "(bytes \<times> bytes list) option"
  | TCursorStrings "u64 \<times> bytes list" | TI64List "i64 list" | TValue redis_value
  | TBoolList "bool list" | TOptStrPair "(bytes \<times> bytes) option"
  | TStreamEntries "stream_entry list" | TStreamRead "(bytes \<times> stream_entry list) list"
  | TPendingSummary "(i64 \<times> bytes \<times> bytes \<times> (bytes \<times> i64) list) option"
  | TPendingRange "(bytes \<times> bytes \<times> i64 \<times> i64) list"

fun from_reply :: "typed_reply \<Rightarrow> raw_result" where
  "from_reply TUnit = RNil"
| "from_reply (TBool v) = RBool v"
| "from_reply (TI64 v) = RInt v"
| "from_reply (TU64 v) = RInt v"
| "from_reply (TF64 v) = RF64 v"
| "from_reply (TOptI64 v) = ROptInt v"
| "from_reply (TOptF64 v) = ROptF64 v"
| "from_reply (TBytes v) = ROptBytes (Some v)"
| "from_reply (TOptBytes v) = ROptBytes v"
| "from_reply (TString v) = RStr v"
| "from_reply (TOptString v) = ROptStr v"
| "from_reply (TBytesList v) = RBytesList v"
| "from_reply (TOptBytesList v) = ROptBytesList v"
| "from_reply (TStringList v) = RStringList v"
| "from_reply (TBytesPairs v) = RBytesPairs v"
| "from_reply (TScoredPairs v) = RScoredMembers v"
| "from_reply (TOptKeyBytes v) = ROptKeyAndBytes v"
| "from_reply (TOptKeyBytesList v) = ROptKeyAndBytesList v"
| "from_reply (TCursorStrings v) = RCursorAndStrings (fst v) (snd v)"
| "from_reply (TI64List v) = RIntList v"
| "from_reply (TValue v) = RValue v"
| "from_reply (TBoolList v) = RBoolList v"
| "from_reply (TOptStrPair v) = ROptStrPair v"
| "from_reply (TStreamEntries v) = RStreamEntries v"
| "from_reply (TStreamRead v) = RStreamReadEntries v"
| "from_reply (TPendingSummary v) = RStreamPendingSummary v"
| "from_reply (TPendingRange v) = RStreamPendingRange v"

definition classify :: "redis_error \<Rightarrow> raw_result" where
  "classify e = RError (classify_error e) (re_display e)"

definition into_raw_result :: "redis_error + typed_reply \<Rightarrow> raw_result" where
  "into_raw_result r = (case r of Inr v \<Rightarrow> from_reply v | Inl e \<Rightarrow> classify e)"

section \<open>Sync conversion helpers\<close>

definition py_opt_bytes :: "bytes option \<Rightarrow> pyval" where
  "py_opt_bytes v = (case v of Some b \<Rightarrow> PBytes b | None \<Rightarrow> PNone)"

definition py_int :: "i64 \<Rightarrow> pyval pyres" where
  "py_int v = Inr (PInt (sint v))"

definition py_bool :: "bool \<Rightarrow> pyval pyres" where
  "py_bool v = Inr (PBool v)"

definition py_bytes_list :: "bytes list \<Rightarrow> pyval pyres" where
  "py_bytes_list v = Inr (PList (map PBytes v))"

definition py_string_list :: "bytes list \<Rightarrow> pyval pyres" where
  "py_string_list v = Inr (PList (map PStr v))"

definition py_bytes_pairs :: "(bytes \<times> bytes) list \<Rightarrow> pyval pyres" where
  "py_bytes_pairs v =
     rbind (set_items (map (\<lambda>(k, x). (PBytes k, PBytes x)) v) []) (\<lambda>d. Inr (PDict d))"

definition py_tuple2 :: "pyval \<Rightarrow> pyval \<Rightarrow> pyval pyres" where
  "py_tuple2 a b = Inr (PTuple [a, b])"

definition py_set_of_bytes :: "bytes list \<Rightarrow> pyval pyres" where
  "py_set_of_bytes v = rbind (set_add_bytes v []) (\<lambda>s. Inr (PSet s))"

text \<open>The helper a sync method applies to a reply of the given type.\<close>

fun sync_convert :: "typed_reply \<Rightarrow> pyval pyres option" where
  "sync_convert (TOptBytes v) = Some (Inr (py_opt_bytes v))"
| "sync_convert (TI64 v) = Some (py_int v)"
| "sync_convert (TBool v) = Some (py_bool v)"
| "sync_convert (TBytesList v) = Some (py_bytes_list v)"
| "sync_convert (TStringList v) = Some (py_string_list v)"
| "sync_convert (TBytesPairs v) = Some (py_bytes_pairs v)"
| "sync_convert _ = None"

section \<open>The two call macros\<close>

definition closed_error :: pyerr where
  "closed_error = PyErr PyValueError ''closed''"

definition sync_op :: "bool \<Rightarrow> 'r \<Rightarrow> 'r pyres" where
  "sync_op is_closed r = (if is_closed then Inl closed_error else Inr r)"

definition async_op :: "bool \<Rightarrow> aw_sys pyres" where
  "async_op is_closed = (if is_closed then Inl closed_error else Inr aw_new)"

text \<open>A sync method: \<open>sync_op!\<close>, then \<open>map_err(to_py_err)?\<close>, then the conversion.\<close>

definition sync_method ::
  "(pyexc \<Rightarrow> bool) \<Rightarrow> bool \<Rightarrow> ('v \<Rightarrow> pyval pyres) \<Rightarrow> redis_error + 'v \<Rightarrow> pyval pyres" where
  "sync_method lk is_closed conv reply =
     rbind (sync_op is_closed reply) (\<lambda>r. case r of Inl e \<Rightarrow> Inl (to_py_err lk e) | Inr v \<Rightarrow> conv v)"

section \<open>Agreement\<close>

lemma into_py_classify [simp]: "into_py env (classify e) = Inl (to_py_err (pe_lookup_ok env) e)"
  by (simp add: classify_def to_py_err_def)

lemma sync_convert_agrees: "sync_convert v = Some c \<Longrightarrow> into_py env (from_reply v) = c"
  by (cases v rule: sync_convert.cases)
    (auto simp: py_opt_bytes_def opt_py_def py_int_def py_bool_def py_bytes_list_def
      py_string_list_def py_bytes_pairs_def comp_def split_def split: option.splits)

text \<open>The state after \<open>n\<close> polls of a fresh awaitable, up to the blocking one.\<close>

lemma six_polls: "aw_run env (replicate 6 (ENext (Inr l))) aw_new =
  aw_new\<lparr>aw_polls := 6, aw_rx := False, aw_blocking := True, aw_cb := Some (l, []),
         sys_task := TaskWaiting\<rparr>"
proof -
  have "replicate 6 (ENext (Inr l)) = replicate 5 (ENext (Inr l)) @ [ENext (Inr l)]"
    by (simp add: eval_nat_numeral)
  then show ?thesis
    using fresh_polls [of 5 env "Inr l"]
    by (simp add: aw_run_append aw_next_def try_recv_def poll_or_block_def Let_def aw_new_def)
qed

lemma waiting_state:
  assumes "n \<le> 6"
  shows "\<exists>s. aw_run env (replicate n (ENext (Inr l))) aw_new = s \<and> \<not> aw_done s \<and>
             sys_chan s = ChEmpty \<and> (aw_rx s \<or> aw_cb s \<noteq> None)"
proof (cases "n = 6")
  case True
  then show ?thesis using six_polls [of env l] by (simp add: aw_done_def aw_new_def)
next
  case False
  with assms have "n \<le> 5" by simp
  then show ?thesis using fresh_polls [of n env "Inr l"] by (simp add: aw_done_def aw_new_def)
qed

lemma sent_after_polls:
  assumes "n \<le> 6"
  shows "fst (aw_next env loop
           (aw_run env (replicate n (ENext (Inr l)) @ [ESend r, ETask]) aw_new)) = outcome env r"
proof -
  let ?s = "aw_run env (replicate n (ENext (Inr l))) aw_new"
  let ?t = "aw_step env (ESend r) ?s"
  obtain "\<not> aw_done ?s" "sys_chan ?s = ChEmpty" "aw_rx ?s \<or> aw_cb ?s \<noteq> None"
    using waiting_state [OF assms, of env l] by blast
  then have "\<not> aw_done ?t" "sys_chan ?t = ChSent r" "aw_rx ?t \<or> aw_cb ?t \<noteq> None"
    by (auto simp: aw_done_def)
  moreover have "aw_reachable env ?t"
    by (intro aw_reachable.step reachable_run aw_reachable.start)
  ultimately show ?thesis
    using sent_result_delivered [of env ?t r loop] by (simp add: aw_run_append)
qed

text \<open>The reply types that have a helper.\<close>

definition helper_replies :: "typed_reply set" where
  "helper_replies =
     range TOptBytes \<union> range TI64 \<union> range TBool \<union> range TBytesList \<union> range TStringList \<union> range TBytesPairs"

lemma helper_replies_iff: "v \<in> helper_replies \<longleftrightarrow> sync_convert v \<noteq> None"
  by (cases v rule: sync_convert.cases) (auto simp: helper_replies_def)

text \<open>(C1) The two macros and the helpers of \<open>helpers.rs\<close>: awaiting an async command whose reply is
  one of the six types with a helper (optional bytes, an integer, a bool, a list of bytes, a list
  of strings, pairs of bytes) gives what its sync twin gives, whatever the server replies and
  whenever the reply arrives (during the five busy polls, or after the object has blocked on its
  future): the same value or the same exception; on a closed client both raise the same error at
  the call.  Replies of other types are converted in the methods: what agrees and what does not is
  in the theories of the families.\<close>
theorem sync_async_agree:
  assumes "n \<le> 6"
    and "\<And>v. reply = Inr v \<Longrightarrow>
      v \<in> range TOptBytes \<union> range TI64 \<union> range TBool \<union> range TBytesList \<union> range TStringList \<union> range TBytesPairs"
  shows "case async_op is_closed of
      Inl e \<Rightarrow> sync_method (pe_lookup_ok env) is_closed (\<lambda>v. the (sync_convert v)) reply = Inl e
    | Inr s \<Rightarrow>
        fst (aw_next env loop
          (aw_run env (replicate n (ENext (Inr l)) @ [ESend (into_raw_result reply), ETask]) s)) =
        (case sync_method (pe_lookup_ok env) is_closed (\<lambda>v. the (sync_convert v)) reply of
           Inl e \<Rightarrow> Raise e | Inr v \<Rightarrow> StopIteration v)"
proof (cases reply)
  case (Inl e)
  then show ?thesis
    using assms(1)
    by (simp add: async_op_def sync_method_def sync_op_def sent_after_polls outcome_def into_raw_result_def)
next
  case (Inr v)
  with assms(2) have "v \<in> helper_replies" unfolding helper_replies_def by simp
  then obtain c where c: "sync_convert v = Some c" by (auto simp: helper_replies_iff)
  with Inr show ?thesis
    using assms(1) sync_convert_agrees [OF c, of env]
    by (auto simp: async_op_def sync_method_def sync_op_def sent_after_polls outcome_def
        into_raw_result_def split: sum.splits)
qed

theorem sync_async_agree_witness:
  "fst (aw_next sample_env (Inr 0)
     (aw_run sample_env (replicate 6 (ENext (Inr 3)) @
        [ESend (into_raw_result (Inr (TBytesPairs [(''a'', ''1''), (''a'', ''2'')]))), ETask]) aw_new)) =
   StopIteration (PDict [(PBytes ''a'', PBytes ''2'')])"
  using sync_async_agree [where n = 6 and reply = "Inr (TBytesPairs [(''a'', ''1''), (''a'', ''2'')])"
      and is_closed = False and env = sample_env and loop = "Inr 0" and l = 3]
  by (simp add: async_op_def sync_method_def sync_op_def py_bytes_pairs_def set_item_def)

end
