(* ===== verification/Pipeline.thy ===== *)
theory Pipeline
  imports SyncAsync RedisCmd
begin

text \<open>
  Pipelines (\<open>facade/pipeline.rs\<close>) and the reserved connection they watch keys on
  (\<open>connection.rs\<close>).

  \<open>pipe_sys\<close> is the Rust \<open>PipelineState\<close> with the topology of the client's connection, the
  log of what has been put on the wire, and the number of the next reserved connection.  A
  \<open>net\<close> holds the outcomes of the requests an operation may make; every operation takes one,
  so the server's and the network's behaviour is unconstrained.  The operations are those of the
  sync \<open>Pipeline\<close>; the ones of \<open>AsyncPipeline\<close> that differ are given separately, each as
  the whole body of its spawned task (with the error it delivers through the awaitable).
\<close>

section \<open>State\<close>

type_synonym buffered_cmd = "bytes \<times> bytes list"

datatype topology = OnStandard | OnCluster | OnSentinel

record reserved_connection =
  rc_id :: nat
  rc_watched :: bool

text \<open>What goes out: a new connection, a command on a reserved connection, a MULTI/EXEC block on
  a reserved connection, a pipeline (atomic or not) on the client's own connection.\<close>

datatype wire =
    WReserve nat
  | WCmd nat buffered_cmd
  | WAtomic nat "buffered_cmd list"
  | WPipe bool "buffered_cmd list"

record pipeline_state =
  commands :: "buffered_cmd list"
  watched_keys :: "bytes list"
  transaction :: bool
  explicit_transaction :: bool
  watching :: bool
  reserved :: "reserved_connection option"
  is_closed :: bool

record pipe_sys = pipeline_state +
  conn_kind :: topology
  wire_log :: "wire list"
  next_conn :: nat

record net =
  net_reserve :: "bytes option"
  net_watch :: "redis_error option"
  net_unwatch :: "redis_error option"
  net_immediate :: "redis_error + redis_value"
  net_exec :: "redis_error + redis_value"
  net_pipe :: "redis_error + redis_value list"

definition pipeline_new :: "topology \<Rightarrow> bool \<Rightarrow> pipe_sys" where
  "pipeline_new kind tx =
     \<lparr>commands = [], watched_keys = [], transaction = tx, explicit_transaction = False,
      watching = False, reserved = None, is_closed = False,
      conn_kind = kind, wire_log = [], next_conn = 0\<rparr>"

section \<open>The reserved connection\<close>

definition unwatch_if_needed ::
  "net \<Rightarrow> reserved_connection \<Rightarrow> wire list \<Rightarrow> redis_error option \<times> reserved_connection \<times> wire list" where
  "unwatch_if_needed net r wl =
     (if rc_watched r then
        (let wl = wl @ [WCmd (rc_id r) (''UNWATCH'', [])] in
         case net_unwatch net of
           Some e \<Rightarrow> (Some e, r, wl)
         | None \<Rightarrow> (None, r\<lparr>rc_watched := False\<rparr>, wl))
      else (None, r, wl))"

definition rc_watch ::
  "net \<Rightarrow> bytes list \<Rightarrow> reserved_connection \<Rightarrow> wire list \<Rightarrow>
   redis_error option \<times> reserved_connection \<times> wire list" where
  "rc_watch net keys r wl =
     (if keys = [] then (None, r, wl)
      else
        (let wl = wl @ [WCmd (rc_id r) (''WATCH'', keys)] in
         case net_watch net of
           Some e \<Rightarrow> (Some e, r, wl)
         | None \<Rightarrow> (None, r\<lparr>rc_watched := True\<rparr>, wl)))"

definition dispatch_immediate ::
  "net \<Rightarrow> buffered_cmd \<Rightarrow> reserved_connection \<Rightarrow> wire list \<Rightarrow> (redis_error + redis_value) \<times> wire list" where
  "dispatch_immediate net c r wl = (net_immediate net, wl @ [WCmd (rc_id r) c])"

datatype watched_exec_result = WatchedOk "redis_value list" | WatchAborted

definition unexpected_exec :: "bridge_env \<Rightarrow> redis_value \<Rightarrow> redis_error" where
  "unexpected_exec env v =
     made_error env (EkServer SkResponseError) ''EXEC returned unexpected value'' (Some (be_debug env v))"

definition pipeline_exec_watched ::
  "bridge_env \<Rightarrow> net \<Rightarrow> bytes list \<Rightarrow> buffered_cmd list \<Rightarrow> reserved_connection \<Rightarrow> wire list \<Rightarrow>
   (redis_error + watched_exec_result) \<times> wire list" where
  "pipeline_exec_watched env net keys block r wl =
     (let rewatch = keys \<noteq> [] \<and> \<not> rc_watched r;
          wl = (if rewatch then wl @ [WCmd (rc_id r) (''WATCH'', keys)] else wl)
      in case (if rewatch then net_watch net else None) of
           Some e \<Rightarrow> (Inl e, wl)
         | None \<Rightarrow>
             (let wl = wl @ [WAtomic (rc_id r) block] in
              case net_exec net of
                Inl e \<Rightarrow> (Inl e, wl)
              | Inr VNil \<Rightarrow> (Inr WatchAborted, wl)
              | Inr (VArray items) \<Rightarrow> (Inr (WatchedOk items), wl)
              | Inr other \<Rightarrow> (Inl (unexpected_exec env other), wl)))"

text \<open>\<open>ValkeyConnInner::pipeline_exec\<close>: a cluster pipeline is never atomic.\<close>

definition pipeline_exec ::
  "net \<Rightarrow> topology \<Rightarrow> buffered_cmd list \<Rightarrow> bool \<Rightarrow> wire list \<Rightarrow>
   (redis_error + redis_value list) \<times> wire list" where
  "pipeline_exec net kind block tx wl = (net_pipe net, wl @ [WPipe (tx \<and> kind \<noteq> OnCluster) block])"

section \<open>Pipeline\<close>

abbreviation to_err :: "bridge_env \<Rightarrow> redis_error \<Rightarrow> pyerr" where
  "to_err env \<equiv> to_py_err (pe_lookup_ok env)"

definition pipeline_closed :: pyerr where
  "pipeline_closed = PyErr RedisError ''pipeline is closed''"

definition internal_error :: "bridge_env \<Rightarrow> bytes \<Rightarrow> redis_error" where
  "internal_error env detail = made_error env EkClient ''internal error'' (Some detail)"

abbreviation no_reservation :: "bridge_env \<Rightarrow> redis_error" where
  "no_reservation env \<equiv>
     internal_error env ''immediate dispatch without a reservation; call awatch() first''"

definition clear_watch :: "pipe_sys \<Rightarrow> pipe_sys" where
  "clear_watch s = s\<lparr>watched_keys := [], watching := False\<rparr>"

definition clear_all :: "pipe_sys \<Rightarrow> pipe_sys" where
  "clear_all s = s\<lparr>commands := [], watched_keys := [], watching := False, explicit_transaction := False\<rparr>"

definition release_reserved :: "net \<Rightarrow> pipe_sys \<Rightarrow> pipe_sys" where
  "release_reserved net s =
     (case reserved s of
        None \<Rightarrow> (clear_all s)\<lparr>reserved := None\<rparr>
      | Some r \<Rightarrow>
          (let (_, _, wl) = unwatch_if_needed net r (wire_log s)
           in (clear_all s)\<lparr>reserved := None, wire_log := wl\<rparr>))"

definition ensure_reserved :: "net \<Rightarrow> pipe_sys \<Rightarrow> pyerr option \<times> pipe_sys" where
  "ensure_reserved net s =
     (case reserved s of
        Some _ \<Rightarrow> (None, s)
      | None \<Rightarrow>
          (case net_reserve net of
             Some e \<Rightarrow> (Some (PyErr ConnectionError e), s)
           | None \<Rightarrow>
               (None, s\<lparr>reserved := Some \<lparr>rc_id = next_conn s, rc_watched = False\<rparr>,
                       next_conn := next_conn s + 1, wire_log := wire_log s @ [WReserve (next_conn s)]\<rparr>)))"

definition dispatch_immediate_inner ::
  "bridge_env \<Rightarrow> net \<Rightarrow> buffered_cmd \<Rightarrow> pipe_sys \<Rightarrow> pyval pyres \<times> pipe_sys" where
  "dispatch_immediate_inner env net c s =
     (case reserved s of
        None \<Rightarrow>
          (Inl (to_err env (internal_error env ''immediate-mode dispatch with no reserved connection'')), s)
      | Some r \<Rightarrow>
          (let (res, wl) = dispatch_immediate net c r (wire_log s)
           in ((case res of Inl e \<Rightarrow> Inl (to_err env e) | Inr v \<Rightarrow> into_py env (RValue v)),
               s\<lparr>wire_log := wl\<rparr>)))"

text \<open>The pipeline object itself, which the buffering methods return.\<close>

definition self_obj :: pyval where
  "self_obj = PObj 0"

definition push_command :: "buffered_cmd \<Rightarrow> pipe_sys \<Rightarrow> pyval pyres \<times> pipe_sys" where
  "push_command c s = (Inr self_obj, s\<lparr>commands := commands s @ [c]\<rparr>)"

definition buf_or_dispatch ::
  "bridge_env \<Rightarrow> net \<Rightarrow> buffered_cmd \<Rightarrow> pipe_sys \<Rightarrow> pyval pyres \<times> pipe_sys" where
  "buf_or_dispatch env net c s =
     (if is_closed s then (Inl pipeline_closed, s)
      else if watching s \<and> \<not> explicit_transaction s then dispatch_immediate_inner env net c s
      else push_command c s)"

definition watched_outcome :: "bridge_env \<Rightarrow> redis_error + watched_exec_result \<Rightarrow> pyval pyres" where
  "watched_outcome env res =
     (case res of
        Inr (WatchedOk items) \<Rightarrow> into_py env (RValue (VArray items))
      | Inr WatchAborted \<Rightarrow> Inl (PyErr WatchError ''Watched variable changed.'')
      | Inl e \<Rightarrow> Inl (to_err env e))"

definition execute_watched :: "bridge_env \<Rightarrow> net \<Rightarrow> buffered_cmd list \<Rightarrow> pipe_sys \<Rightarrow> pyval pyres \<times> pipe_sys" where
  "execute_watched env net block s =
     (let (res, wl) =
        (case reserved s of
           None \<Rightarrow> (Inl (internal_error env ''execute_watched without a reserved connection''), wire_log s)
         | Some r \<Rightarrow> pipeline_exec_watched env net (watched_keys s) block r (wire_log s))
      in (watched_outcome env res, (clear_all s)\<lparr>reserved := None, wire_log := wl\<rparr>))"

definition execute :: "bridge_env \<Rightarrow> net \<Rightarrow> pipe_sys \<Rightarrow> pyval pyres \<times> pipe_sys" where
  "execute env net s =
     (if is_closed s then (Inl pipeline_closed, s)
      else if commands s = [] \<and> \<not> watching s \<and> \<not> explicit_transaction s then (Inr (PList []), s)
      else if watching s \<or> (explicit_transaction s \<and> reserved s \<noteq> None)
      then execute_watched env net (commands s) s
      else
        (let (res, wl) = pipeline_exec net (conn_kind s) (commands s)
                            (transaction s \<or> explicit_transaction s) (wire_log s)
         in ((case res of Inl e \<Rightarrow> Inl (to_err env e) | Inr vs \<Rightarrow> into_py env (RValue (VArray vs))),
             s\<lparr>commands := [], explicit_transaction := False, wire_log := wl\<rparr>)))"

definition watch_reserved ::
  "bridge_env \<Rightarrow> net \<Rightarrow> bytes list \<Rightarrow> reserved_connection \<Rightarrow> pipe_sys \<Rightarrow> pyval pyres \<times> pipe_sys" where
  "watch_reserved env net keys r s =
     (let (res, r, wl) = rc_watch net keys r (wire_log s);
          s = s\<lparr>reserved := Some r, wire_log := wl\<rparr>
      in case res of
           Some e \<Rightarrow> (Inl (to_err env e), s)
         | None \<Rightarrow> (Inr (PBool True), s\<lparr>watching := True, watched_keys := watched_keys s @ keys\<rparr>))"

definition watch :: "bridge_env \<Rightarrow> net \<Rightarrow> bytes list \<Rightarrow> pipe_sys \<Rightarrow> pyval pyres \<times> pipe_sys" where
  "watch env net keys s =
     (if is_closed s then (Inl pipeline_closed, s)
      else if explicit_transaction s then (Inl (PyErr RedisError ''Cannot issue a WATCH after a MULTI''), s)
      else
        (case ensure_reserved net s of
           (Some e, s) \<Rightarrow> (Inl e, s)
         | (None, s) \<Rightarrow> watch_reserved env net keys (the (reserved s)) s))"

definition unwatch :: "bridge_env \<Rightarrow> net \<Rightarrow> pipe_sys \<Rightarrow> pyval pyres \<times> pipe_sys" where
  "unwatch env net s =
     (if is_closed s then (Inl pipeline_closed, s)
      else
        (case reserved s of
           None \<Rightarrow> (Inr (PBool True), clear_watch s)
         | Some r \<Rightarrow>
             (let (res, r, wl) = unwatch_if_needed net r (wire_log s);
                  s = s\<lparr>reserved := Some r, wire_log := wl\<rparr>
              in case res of
                   Some e \<Rightarrow> (Inl (to_err env e), s)
                 | None \<Rightarrow> (Inr (PBool True), clear_watch s))))"

definition multi :: "pipe_sys \<Rightarrow> pyval pyres \<times> pipe_sys" where
  "multi s =
     (if is_closed s then (Inl pipeline_closed, s)
      else if explicit_transaction s then (Inl (PyErr RedisError ''Cannot issue nested calls to MULTI''), s)
      else if commands s \<noteq> [] \<and> \<not> watching s then
        (Inl (PyErr RedisError ''Commands without an initial WATCH have already been issued''), s)
      else (Inr PNone, s\<lparr>explicit_transaction := True\<rparr>))"

definition discard :: "bridge_env \<Rightarrow> net \<Rightarrow> pipe_sys \<Rightarrow> pyval pyres \<times> pipe_sys" where
  "discard env net s =
     (case (is_closed s, reserved s) of
        (False, Some r) \<Rightarrow>
          (let (res, r, wl) = unwatch_if_needed net r (wire_log s);
               s = s\<lparr>reserved := Some r, wire_log := wl\<rparr>
           in case res of
                Some e \<Rightarrow> (Inl (to_err env e), s)
              | None \<Rightarrow> (Inr PNone, clear_all s))
      | _ \<Rightarrow> (Inr PNone, clear_all s))"

definition pl_reset :: "net \<Rightarrow> pipe_sys \<Rightarrow> pyval pyres \<times> pipe_sys" where
  "pl_reset net s = (Inr PNone, release_reserved net s)"

definition pl_close :: "net \<Rightarrow> pipe_sys \<Rightarrow> pyval pyres \<times> pipe_sys" where
  "pl_close net s = (Inr PNone, (release_reserved net s)\<lparr>is_closed := True\<rparr>)"

section \<open>AsyncPipeline\<close>

text \<open>The bodies of the spawned tasks; the result is the \<open>RawResult\<close> they send.\<close>

definition buffer_cmd_inner :: "buffered_cmd \<Rightarrow> pipe_sys \<Rightarrow> pyval pyres \<times> pipe_sys" where
  "buffer_cmd_inner c s = (if is_closed s then (Inl pipeline_closed, s) else push_command c s)"

definition aclose :: "net \<Rightarrow> pipe_sys \<Rightarrow> raw_result \<times> pipe_sys" where
  "aclose net s =
     (let r = reserved s;
          s = (clear_all s)\<lparr>reserved := None, is_closed := True\<rparr>
      in case r of
           None \<Rightarrow> (RNil, s)
         | Some r \<Rightarrow> (let (_, _, wl) = unwatch_if_needed net r (wire_log s) in (RNil, s\<lparr>wire_log := wl\<rparr>)))"

definition awatch :: "net \<Rightarrow> bytes list \<Rightarrow> pipe_sys \<Rightarrow> raw_result \<times> pipe_sys" where
  "awatch net keys s =
     (if is_closed s then (RError EcRedisError ''pipeline is closed'', s)
      else if explicit_transaction s then (RError EcRedisError ''Cannot issue a WATCH after a MULTI'', s)
      else
        (case (if reserved s = None then net_reserve net else None) of
           Some e \<Rightarrow> (RError EcConnectionError e, s)
         | None \<Rightarrow>
             (let s = (if reserved s = None then
                         s\<lparr>reserved := Some \<lparr>rc_id = next_conn s, rc_watched = False\<rparr>,
                           next_conn := next_conn s + 1, wire_log := wire_log s @ [WReserve (next_conn s)]\<rparr>
                       else s);
                  (res, r, wl) = rc_watch net keys (the (reserved s)) (wire_log s);
                  s = s\<lparr>reserved := Some r, wire_log := wl\<rparr>
              in case res of
                   Some e \<Rightarrow> (classify e, s)
                 | None \<Rightarrow> (RBool True, s\<lparr>watching := True, watched_keys := watched_keys s @ keys\<rparr>))))"

definition aunwatch :: "net \<Rightarrow> pipe_sys \<Rightarrow> raw_result \<times> pipe_sys" where
  "aunwatch net s =
     (case reserved s of
        None \<Rightarrow> (RBool True, clear_watch s)
      | Some r \<Rightarrow>
          (let (res, r, wl) = unwatch_if_needed net r (wire_log s)
           in ((case res of None \<Rightarrow> RBool True | Some e \<Rightarrow> classify e),
               clear_watch (s\<lparr>reserved := Some r, wire_log := wl\<rparr>))))"

definition adiscard :: "net \<Rightarrow> pipe_sys \<Rightarrow> raw_result \<times> pipe_sys" where
  "adiscard net s =
     (case reserved s of
        None \<Rightarrow> (RNil, clear_all s)
      | Some r \<Rightarrow>
          (let (res, r, wl) = unwatch_if_needed net r (wire_log s)
           in (RNil, clear_all (s\<lparr>reserved := Some r, wire_log := wl\<rparr>))))"

definition aexecute :: "bridge_env \<Rightarrow> net \<Rightarrow> pipe_sys \<Rightarrow> raw_result \<times> pipe_sys" where
  "aexecute env net s =
     (if is_closed s then (RError EcRedisError ''pipeline is closed'', s)
      else if commands s = [] \<and> \<not> watching s \<and> \<not> explicit_transaction s then (RValue (VArray []), s)
      else if watching s \<or> (explicit_transaction s \<and> reserved s \<noteq> None) then
        (let (res, wl) =
           (case reserved s of
              Some r \<Rightarrow> pipeline_exec_watched env net (watched_keys s) (commands s) r (wire_log s)
            | None \<Rightarrow> (Inl (internal_error env ''aexecute without reservation''), wire_log s))
         in ((case res of
                Inr (WatchedOk items) \<Rightarrow> RValue (VArray items)
              | Inr WatchAborted \<Rightarrow> RError EcWatchError ''Watched variable changed.''
              | Inl e \<Rightarrow> classify e),
             (clear_all s)\<lparr>reserved := None, wire_log := wl\<rparr>))
      else
        (let (res, wl) = pipeline_exec net (conn_kind s) (commands s)
                            (transaction s \<or> explicit_transaction s) (wire_log s)
         in ((case res of Inr items \<Rightarrow> RValue (VArray items) | Inl e \<Rightarrow> classify e),
             s\<lparr>commands := [], explicit_transaction := False, wire_log := wl\<rparr>)))"

text \<open>\<open>immediate_dispatch_inner\<close> in its two halves: the task takes the reserved connection out
  of the state, and puts back what it took when the reply has come.\<close>

definition immediate_take :: "pipe_sys \<Rightarrow> reserved_connection option \<times> pipe_sys" where
  "immediate_take s = (reserved s, s\<lparr>reserved := None\<rparr>)"

definition immediate_put ::
  "bridge_env \<Rightarrow> net \<Rightarrow> buffered_cmd \<Rightarrow> reserved_connection option \<Rightarrow> pipe_sys \<Rightarrow> raw_result \<times> pipe_sys" where
  "immediate_put env net c taken s =
     (let (res, wl) =
        (case taken of
           Some r \<Rightarrow> dispatch_immediate net c r (wire_log s)
         | None \<Rightarrow> (Inl (no_reservation env), wire_log s))
      in ((case res of Inr v \<Rightarrow> RValue v | Inl e \<Rightarrow> classify e),
          s\<lparr>reserved := taken, wire_log := wl\<rparr>))"

text \<open>The two immediate commands, as what goes out; \<open>reset\<close> closes, and \<open>multi\<close> is that of
  \<open>Pipeline\<close>.\<close>

definition aget_immediate ::
  "bridge_env \<Rightarrow> net \<Rightarrow> bytes \<Rightarrow> reserved_connection option \<Rightarrow> pipe_sys \<Rightarrow> raw_result \<times> pipe_sys" where
  "aget_immediate env net key = immediate_put env net (''GET'', [key])"

definition aset_immediate ::
  "bridge_env \<Rightarrow> net \<Rightarrow> bytes \<Rightarrow> bytes \<Rightarrow> reserved_connection option \<Rightarrow> pipe_sys \<Rightarrow> raw_result \<times> pipe_sys" where
  "aset_immediate env net key value = immediate_put env net (''SET'', [key, value])"

definition apl_reset :: "net \<Rightarrow> pipe_sys \<Rightarrow> raw_result \<times> pipe_sys" where
  "apl_reset = aclose"

definition apl_multi :: "pipe_sys \<Rightarrow> pyval pyres \<times> pipe_sys" where
  "apl_multi s =
     (if is_closed s then (Inl pipeline_closed, s)
      else if explicit_transaction s then (Inl (PyErr RedisError ''Cannot issue nested calls to MULTI''), s)
      else if commands s \<noteq> [] \<and> \<not> watching s then
        (Inl (PyErr RedisError ''Commands without an initial WATCH have already been issued''), s)
      else (Inr PNone, s\<lparr>explicit_transaction := True\<rparr>))"

lemmas pl_defs = unwatch_if_needed_def rc_watch_def dispatch_immediate_def pipeline_exec_watched_def
  pipeline_exec_def clear_watch_def clear_all_def release_reserved_def ensure_reserved_def
  dispatch_immediate_inner_def push_command_def buf_or_dispatch_def watched_outcome_def
  execute_watched_def execute_def watch_reserved_def watch_def unwatch_def multi_def discard_def
  pl_reset_def pl_close_def pipeline_closed_def

lemmas apl_defs = buffer_cmd_inner_def aclose_def awatch_def aunwatch_def adiscard_def aexecute_def

section \<open>Invariant\<close>

definition pl_inv :: "pipe_sys \<Rightarrow> bool" where
  "pl_inv s \<longleftrightarrow>
     (watching s \<longrightarrow> reserved s \<noteq> None) \<and>
     (watched_keys s \<noteq> [] \<longrightarrow> watching s) \<and>
     (\<forall>r. reserved s = Some r \<longrightarrow> rc_watched r = (watched_keys s \<noteq> [])) \<and>
     (is_closed s \<longrightarrow> reserved s = None \<and> commands s = [] \<and> \<not> explicit_transaction s)"

datatype pl_event =
    PlCommand buffered_cmd | PlExecute | PlWatch "bytes list" | PlUnwatch | PlMulti | PlDiscard
  | PlReset | PlClose

fun pl_step :: "bridge_env \<Rightarrow> net \<Rightarrow> pl_event \<Rightarrow> pipe_sys \<Rightarrow> pyval pyres \<times> pipe_sys" where
  "pl_step env net (PlCommand c) s = buf_or_dispatch env net c s"
| "pl_step env net PlExecute s = execute env net s"
| "pl_step env net (PlWatch keys) s = watch env net keys s"
| "pl_step env net PlUnwatch s = unwatch env net s"
| "pl_step env net PlMulti s = multi s"
| "pl_step env net PlDiscard s = discard env net s"
| "pl_step env net PlReset s = pl_reset net s"
| "pl_step env net PlClose s = pl_close net s"

inductive pl_reachable :: "bridge_env \<Rightarrow> pipe_sys \<Rightarrow> bool" for env where
  start: "pl_reachable env (pipeline_new kind tx)"
| step: "pl_reachable env s \<Longrightarrow> pl_reachable env (snd (pl_step env net e s))"

lemma new_inv: "pl_inv (pipeline_new kind tx)"
  by (simp add: pl_inv_def pipeline_new_def)

lemma buf_or_dispatch_inv: "pl_inv s \<Longrightarrow> pl_inv (snd (buf_or_dispatch env net c s))"
  by (auto simp: pl_inv_def buf_or_dispatch_def dispatch_immediate_inner_def dispatch_immediate_def
      push_command_def split: option.splits)

lemma execute_inv: "pl_inv s \<Longrightarrow> pl_inv (snd (execute env net s))"
  by (auto simp: pl_inv_def execute_def execute_watched_def clear_all_def pipeline_exec_def
      split: prod.splits)

lemma ensure_reserved_inv:
  "pl_inv s \<Longrightarrow> \<not> is_closed s \<Longrightarrow> ensure_reserved net s = (None, t) \<Longrightarrow>
   pl_inv t \<and> reserved t \<noteq> None \<and> is_closed t = is_closed s \<and> explicit_transaction t = explicit_transaction s"
  by (auto simp: pl_inv_def ensure_reserved_def split: option.splits)

lemma ensure_reserved_failed: "ensure_reserved net s = (Some e, t) \<Longrightarrow> t = s"
  by (auto simp: ensure_reserved_def split: option.splits)

lemma watch_reserved_inv:
  "pl_inv s \<Longrightarrow> reserved s = Some r \<Longrightarrow> \<not> is_closed s \<Longrightarrow> pl_inv (snd (watch_reserved env net keys r s))"
  by (auto simp: pl_inv_def watch_reserved_def rc_watch_def Let_def split: option.splits)

lemma watch_inv: "pl_inv s \<Longrightarrow> pl_inv (snd (watch env net keys s))"
  using ensure_reserved_inv [of s net] ensure_reserved_failed [of net s] watch_reserved_inv
  by (auto simp: watch_def split: option.splits prod.splits)

lemma unwatch_inv: "pl_inv s \<Longrightarrow> pl_inv (snd (unwatch env net s))"
  by (auto simp: pl_inv_def unwatch_def unwatch_if_needed_def clear_watch_def Let_def split: option.splits)

lemma multi_inv: "pl_inv s \<Longrightarrow> pl_inv (snd (multi s))"
  by (auto simp: pl_inv_def multi_def)

lemma discard_inv: "pl_inv s \<Longrightarrow> pl_inv (snd (discard env net s))"
  by (auto simp: pl_inv_def discard_def unwatch_if_needed_def clear_all_def Let_def split: option.splits bool.splits)

lemma release_inv: "pl_inv s \<Longrightarrow> pl_inv (release_reserved net s)"
  by (auto simp: pl_inv_def release_reserved_def clear_all_def split: option.splits prod.splits)

lemma close_inv: "pl_inv s \<Longrightarrow> pl_inv (snd (pl_close net s))"
  by (auto simp: pl_inv_def pl_close_def release_reserved_def clear_all_def split: option.splits prod.splits)

lemma pl_step_inv: "pl_inv s \<Longrightarrow> pl_inv (snd (pl_step env net e s))"
  by (cases e) (simp_all add: buf_or_dispatch_inv execute_inv watch_inv unwatch_inv multi_inv
      discard_inv release_inv close_inv pl_reset_def)

lemma reachable_pl_inv: "pl_reachable env s \<Longrightarrow> pl_inv s"
  by (induction rule: pl_reachable.induct) (auto intro: new_inv pl_step_inv)

text \<open>(C6) The state of a sync pipeline after any sequence of calls, whatever the server answers: a
  watching pipeline holds a reserved connection, keys are recorded only while watching, the
  reserved connection has an outstanding WATCH exactly when keys are recorded, and a closed
  pipeline holds nothing.\<close>
theorem pipeline_invariant:
  assumes "pl_reachable env s"
  shows "(watching s \<longrightarrow> reserved s \<noteq> None) \<and> (watched_keys s \<noteq> [] \<longrightarrow> watching s) \<and>
    (\<forall>r. reserved s = Some r \<longrightarrow> rc_watched r = (watched_keys s \<noteq> [])) \<and>
    (is_closed s \<longrightarrow> reserved s = None \<and> commands s = [] \<and> \<not> watching s \<and> \<not> explicit_transaction s)"
  using reachable_pl_inv [OF assms] by (auto simp: pl_inv_def)

definition ok_net :: net where
  "ok_net = \<lparr>net_reserve = None, net_watch = None, net_unwatch = None, net_immediate = Inr VOkay,
     net_exec = Inr (VArray [VOkay]), net_pipe = Inr [VOkay]\<rparr>"

abbreviation watched_sample :: pipe_sys where
  "watched_sample \<equiv> snd (pl_step sample_env ok_net (PlWatch [''k'']) (pipeline_new OnStandard True))"

lemma watched_sample_reachable: "pl_reachable sample_env watched_sample"
  by (intro pl_reachable.intros)

theorem pipeline_invariant_witness: "reserved watched_sample \<noteq> None \<and> watched_keys watched_sample = [''k'']"
  using pipeline_invariant [OF watched_sample_reachable]
  by (simp add: pl_defs pipeline_new_def ok_net_def)

text \<open>(C5) What \<open>execute\<close> sends, from any state a client can reach: nothing when there is nothing to
  do or the pipeline is closed; otherwise the whole buffer, once and in order, in one
  MULTI/EXEC block on the reserved connection when the pipeline watches (or has called
  \<open>multi\<close> and still holds that connection), and in one pipeline on the client's connection
  otherwise.  Whatever the outcome, the buffer is empty afterwards and a second call sends
  nothing.\<close>
theorem execute_sends_buffer:
  assumes "pl_reachable env s"
  shows "case execute env net s of (res, s') \<Rightarrow>
    wire_log s' = wire_log s @
      (if is_closed s \<or> (commands s = [] \<and> \<not> watching s \<and> \<not> explicit_transaction s) then []
       else if watching s \<or> (explicit_transaction s \<and> reserved s \<noteq> None)
       then [WAtomic (rc_id (the (reserved s))) (commands s)]
       else [WPipe ((transaction s \<or> explicit_transaction s) \<and> conn_kind s \<noteq> OnCluster) (commands s)]) \<and>
    commands s' = [] \<and> \<not> watching s' \<and> \<not> explicit_transaction s' \<and>
    wire_log (snd (execute env net' s')) = wire_log s'"
  using reachable_pl_inv [OF assms]
  by (auto simp: pl_inv_def execute_def execute_watched_def pipeline_exec_watched_def pipeline_exec_def
      clear_all_def Let_def split: option.splits sum.splits redis_value.splits)

theorem execute_sends_buffer_witness:
  "wire_log (snd (execute sample_env ok_net watched_sample)) =
     [WReserve 0, WCmd 0 (''WATCH'', [''k'']), WAtomic 0 []]"
  using execute_sends_buffer [OF watched_sample_reachable, of ok_net ok_net]
  by (simp add: split_def) (simp add: pl_defs pipeline_new_def ok_net_def)

text \<open>The optimistic-locking outcome: executing a watching pipeline raises \<open>WatchError\<close>
  ("Watched variable changed.") when EXEC answers nil, returns the converted replies when it
  answers an array, and raises the translated error when the request fails; in every case the
  watch is over and the reserved connection is given up.\<close>
theorem watched_execute_outcome:
  assumes "pl_reachable env s" "watching s"
  shows "case execute env net s of (res, s') \<Rightarrow>
    res = (case net_exec net of
             Inl e \<Rightarrow> Inl (to_py_err (pe_lookup_ok env) e)
           | Inr VNil \<Rightarrow> Inl (PyErr WatchError ''Watched variable changed.'')
           | Inr (VArray items) \<Rightarrow> into_py env (RValue (VArray items))
           | Inr other \<Rightarrow> Inl (PyErr ResponseError (be_message env (EkServer SkResponseError)
               ''EXEC returned unexpected value'' (Some (be_debug env other))))) \<and>
    reserved s' = None \<and> \<not> watching s' \<and> watched_keys s' = []"
proof -
  have inv: "\<not> is_closed s" "reserved s \<noteq> None"
    "\<And>r. reserved s = Some r \<Longrightarrow> rc_watched r = (watched_keys s \<noteq> [])"
    using reachable_pl_inv [OF assms(1)] assms(2) by (auto simp: pl_inv_def)
  have unexpected: "to_py_err lk (unexpected_exec env v) =
      PyErr ResponseError (be_message env (EkServer SkResponseError)
        ''EXEC returned unexpected value'' (Some (be_debug env v)))" for lk v
    by (simp add: to_py_err_def classify_error_def unexpected_exec_def made_error_def)
  show ?thesis
    using inv assms(2) unexpected
    by (auto simp: execute_def execute_watched_def pipeline_exec_watched_def watched_outcome_def
        clear_all_def Let_def split: option.splits sum.splits redis_value.splits)
qed

theorem watched_execute_outcome_witness:
  "fst (execute sample_env (ok_net\<lparr>net_exec := Inr VNil\<rparr>) watched_sample) =
   Inl (PyErr WatchError ''Watched variable changed.'')"
  using watched_execute_outcome [OF watched_sample_reachable, of "ok_net\<lparr>net_exec := Inr VNil\<rparr>"]
  by (simp add: split_def) (simp add: pl_defs pipeline_new_def ok_net_def)

section \<open>Sync and async\<close>

text \<open>The async operations, with what awaiting them gives.\<close>

definition awaited :: "bridge_env \<Rightarrow> raw_result \<times> pipe_sys \<Rightarrow> pyval pyres \<times> pipe_sys" where
  "awaited env r = (into_py env (fst r), snd r)"

lemma awaited_watch: "awaited env (awatch net keys s) = watch env net keys s"
  by (auto simp: awaited_def awatch_def watch_def ensure_reserved_def watch_reserved_def rc_watch_def
      pipeline_closed_def Let_def split: option.splits)

lemma awaited_execute:
  "(watching s \<Longrightarrow> reserved s \<noteq> None) \<Longrightarrow> awaited env (aexecute env net s) = execute env net s"
  by (auto simp: awaited_def aexecute_def execute_def execute_watched_def watched_outcome_def
      pipeline_closed_def Let_def split: option.splits prod.splits sum.splits watched_exec_result.splits)

lemma awaited_close: "awaited env (aclose net s) = pl_close net s"
  by (auto simp: awaited_def aclose_def pl_close_def release_reserved_def clear_all_def Let_def
      split: option.splits prod.splits)

lemma awaited_unwatch:
  "\<not> is_closed s \<Longrightarrow> awaited env (aunwatch net s) = map_prod id clear_watch (unwatch env net s)"
  by (auto simp: awaited_def aunwatch_def unwatch_def unwatch_if_needed_def clear_watch_def Let_def split: option.splits)

lemma unwatch_clears:
  "\<not> is_closed s \<Longrightarrow> net_unwatch net = None \<Longrightarrow> clear_watch (snd (unwatch env net s)) = snd (unwatch env net s)"
  by (auto simp: unwatch_def unwatch_if_needed_def clear_watch_def Let_def split: option.splits)

lemma awaited_discard:
  "is_closed s \<Longrightarrow> reserved s = None \<Longrightarrow> awaited env (adiscard net s) = discard env net s"
  "\<not> is_closed s \<Longrightarrow> awaited env (adiscard net s) = (Inr PNone, clear_all (snd (discard env net s)))"
  by (auto simp: awaited_def adiscard_def discard_def unwatch_if_needed_def clear_all_def Let_def split: option.splits)

lemma discard_clears:
  "\<not> is_closed s \<Longrightarrow> net_unwatch net = None \<Longrightarrow>
   discard env net s = (Inr PNone, clear_all (snd (discard env net s)))"
  by (auto simp: discard_def unwatch_if_needed_def clear_all_def Let_def split: option.splits)

text \<open>An immediate command on its own: taken, sent and put back.\<close>

definition aget_now :: "bridge_env \<Rightarrow> net \<Rightarrow> bytes \<Rightarrow> pipe_sys \<Rightarrow> raw_result \<times> pipe_sys" where
  "aget_now env net key s = (case immediate_take s of (taken, s) \<Rightarrow> aget_immediate env net key taken s)"

definition aset_now :: "bridge_env \<Rightarrow> net \<Rightarrow> bytes \<Rightarrow> bytes \<Rightarrow> pipe_sys \<Rightarrow> raw_result \<times> pipe_sys" where
  "aset_now env net key value s = (case immediate_take s of (taken, s) \<Rightarrow> aset_immediate env net key value taken s)"

lemma awaited_immediate:
  assumes "watching s" "\<not> explicit_transaction s" "\<not> is_closed s" "reserved s = Some r"
  shows "awaited env (aget_now env net key s) = buf_or_dispatch env net (''GET'', [key]) s"
    and "awaited env (aset_now env net key value s) = buf_or_dispatch env net (''SET'', [key, value]) s"
  using assms
  by (auto simp: awaited_def aget_now_def aset_now_def immediate_take_def aget_immediate_def aset_immediate_def
      immediate_put_def buf_or_dispatch_def dispatch_immediate_inner_def dispatch_immediate_def Let_def split: sum.splits)

text \<open>(C11) From every state a client can reach, each operation of the async pipeline against its sync
  counterpart: the requests, the resulting state, and the value or exception once the awaitable
  converts the result.  \<open>awatch\<close>, \<open>aexecute\<close>, \<open>aclose\<close> and \<open>multi\<close> do the same.  So do an immediate
  GET or SET while watching, and a buffering method except while watching, when it buffers where the
  sync one sends.  \<open>aunwatch\<close> and \<open>adiscard\<close> on an open pipeline leave what their counterparts leave,
  with the watch (and the buffer) forgotten even when UNWATCH fails, of which \<open>adiscard\<close> says
  nothing; when the server accepts UNWATCH they do the same.  On a closed pipeline \<open>adiscard\<close> does
  the same, and \<open>aunwatch\<close> returns \<open>True\<close> where \<open>unwatch\<close> raises.  The async \<open>reset\<close> is \<open>close\<close>.\<close>
theorem async_pipeline_agrees:
  assumes "pl_reachable env s"
  shows "awaited env (awatch net keys s) = watch env net keys s \<and>
    awaited env (aexecute env net s) = execute env net s \<and>
    awaited env (aclose net s) = pl_close net s \<and>
    apl_multi s = multi s \<and>
    buffer_cmd_inner c s =
      (if watching s \<and> \<not> explicit_transaction s then push_command c s else buf_or_dispatch env net c s) \<and>
    (if watching s \<and> \<not> explicit_transaction s
     then awaited env (aget_now env net key s) = buf_or_dispatch env net (''GET'', [key]) s \<and>
       awaited env (aset_now env net key value s) = buf_or_dispatch env net (''SET'', [key, value]) s
     else True) \<and>
    (if is_closed s
     then awaited env (aunwatch net s) = (Inr (PBool True), clear_watch s) \<and>
       unwatch env net s = (Inl pipeline_closed, s) \<and>
       awaited env (adiscard net s) = discard env net s
     else awaited env (aunwatch net s) = map_prod id clear_watch (unwatch env net s) \<and>
       awaited env (adiscard net s) = (Inr PNone, clear_all (snd (discard env net s)))) \<and>
    (if is_closed s \<or> net_unwatch net \<noteq> None then True
     else awaited env (aunwatch net s) = unwatch env net s \<and> awaited env (adiscard net s) = discard env net s) \<and>
    awaited env (apl_reset net s) = pl_close net s"
proof -
  have inv: "watching s \<Longrightarrow> reserved s \<noteq> None" "is_closed s \<Longrightarrow> reserved s = None \<and> \<not> watching s"
    using reachable_pl_inv [OF assms] by (auto simp: pl_inv_def)
  have exe: "awaited env (aexecute env net s) = execute env net s"
    using inv(1) by (intro awaited_execute) simp
  have closed: "is_closed s \<Longrightarrow> awaited env (aunwatch net s) = (Inr (PBool True), clear_watch s)"
    "is_closed s \<Longrightarrow> unwatch env net s = (Inl pipeline_closed, s)"
    using inv(2) by (simp_all add: awaited_def aunwatch_def unwatch_def)
  have same: "\<not> is_closed s \<Longrightarrow> net_unwatch net = None \<Longrightarrow> map_prod id clear_watch (unwatch env net s) = unwatch env net s"
    using unwatch_clears [of s net env] by (simp add: prod_eq_iff)
  have now: "watching s \<and> \<not> explicit_transaction s \<Longrightarrow>
      awaited env (aget_now env net key s) = buf_or_dispatch env net (''GET'', [key]) s \<and>
      awaited env (aset_now env net key value s) = buf_or_dispatch env net (''SET'', [key, value]) s"
    using inv awaited_immediate [of s] by blast
  have buffered: "buffer_cmd_inner c s =
      (if watching s \<and> \<not> explicit_transaction s then push_command c s else buf_or_dispatch env net c s)"
    using inv(2) by (auto simp: buffer_cmd_inner_def buf_or_dispatch_def)
  have multi: "apl_multi s = multi s" by (simp add: apl_multi_def multi_def)
  show ?thesis
    using inv(2) closed same now buffered discard_clears [of s net env]
    by (simp add: exe multi awaited_watch awaited_close awaited_unwatch awaited_discard apl_reset_def)
qed

theorem async_pipeline_agrees_witness:
  "awaited sample_env (aexecute sample_env ok_net watched_sample) = execute sample_env ok_net watched_sample"
  using async_pipeline_agrees [OF watched_sample_reachable] by simp

section \<open>The transaction protocol\<close>

text \<open>
  What both pipeline classes promise their user: a successful watch of a fresh pipeline reserves
  a connection and watches the keys on it; a GET is then sent at once, on that connection; \<open>multi\<close>
  switches to buffering; a buffered command is appended; executing a watching pipeline sends one block on the reserved connection.
\<close>

primrec run_reads ::
  "(net \<Rightarrow> bytes \<Rightarrow> pipe_sys \<Rightarrow> pyval pyres \<times> pipe_sys) \<Rightarrow> (net \<times> bytes) list \<Rightarrow> pipe_sys \<Rightarrow>
   pyval pyres list \<times> pipe_sys" where
  "run_reads read [] s = ([], s)"
| "run_reads read (x # xs) s =
     (case read (fst x) (snd x) s of (r, s) \<Rightarrow> (case run_reads read xs s of (rs, s) \<Rightarrow> (r # rs, s)))"

locale pipeline_api =
  fixes api_watch :: "net \<Rightarrow> bytes list \<Rightarrow> pipe_sys \<Rightarrow> pyval pyres \<times> pipe_sys"
    and api_read :: "net \<Rightarrow> bytes \<Rightarrow> pipe_sys \<Rightarrow> pyval pyres \<times> pipe_sys"
    and api_multi :: "pipe_sys \<Rightarrow> pyval pyres \<times> pipe_sys"
    and api_command :: "net \<Rightarrow> buffered_cmd \<Rightarrow> pipe_sys \<Rightarrow> pyval pyres \<times> pipe_sys"
    and api_execute :: "net \<Rightarrow> pipe_sys \<Rightarrow> pyval pyres \<times> pipe_sys"
    and read_of :: "net \<Rightarrow> pyval pyres"
    and outcome_of :: "net \<Rightarrow> pyval pyres"
  assumes watch_fresh:
      "net_reserve net = None \<Longrightarrow> net_watch net = None \<Longrightarrow> keys \<noteq> [] \<Longrightarrow> \<not> is_closed s \<Longrightarrow>
       \<not> explicit_transaction s \<Longrightarrow> reserved s = None \<Longrightarrow>
       snd (api_watch net keys s) =
         s\<lparr>reserved := Some \<lparr>rc_id = next_conn s, rc_watched = True\<rparr>, next_conn := next_conn s + 1,
           watching := True, watched_keys := watched_keys s @ keys,
           wire_log := wire_log s @ [WReserve (next_conn s), WCmd (next_conn s) (''WATCH'', keys)]\<rparr>"
    and read_watching:
      "\<not> is_closed s \<Longrightarrow> \<not> explicit_transaction s \<Longrightarrow> watching s \<Longrightarrow> reserved s = Some r \<Longrightarrow>
       api_read net key s = (read_of net, s\<lparr>wire_log := wire_log s @ [WCmd (rc_id r) (''GET'', [key])]\<rparr>)"
    and multi_watching:
      "\<not> is_closed s \<Longrightarrow> \<not> explicit_transaction s \<Longrightarrow> watching s \<Longrightarrow>
       snd (api_multi s) = s\<lparr>explicit_transaction := True\<rparr>"
    and command_buffered:
      "\<not> is_closed s \<Longrightarrow> explicit_transaction s \<Longrightarrow>
       snd (api_command net c s) = s\<lparr>commands := commands s @ [c]\<rparr>"
    and execute_watching:
      "\<not> is_closed s \<Longrightarrow> watching s \<Longrightarrow> reserved s = Some r \<Longrightarrow> rc_watched r \<Longrightarrow>
       fst (api_execute net s) = outcome_of net \<and>
       wire_log (snd (api_execute net s)) = wire_log s @ [WAtomic (rc_id r) (commands s)]"
begin

lemma buffer_all:
  "\<not> is_closed s \<Longrightarrow> explicit_transaction s \<Longrightarrow>
   fold (\<lambda>c s. snd (api_command net c s)) cs s = s\<lparr>commands := commands s @ cs\<rparr>"
  by (induction cs arbitrary: s) (simp_all add: command_buffered)

lemma read_all:
  "\<not> is_closed s \<Longrightarrow> \<not> explicit_transaction s \<Longrightarrow> watching s \<Longrightarrow> reserved s = Some r \<Longrightarrow>
   run_reads api_read reads s =
     (map (read_of \<circ> fst) reads, s\<lparr>wire_log := wire_log s @ map (\<lambda>x. WCmd (rc_id r) (''GET'', [snd x])) reads\<rparr>)"
  by (induction reads arbitrary: s) (simp_all add: read_watching)

lemma transaction_atomic:
  assumes "net_reserve net = None" "net_watch net = None" "keys \<noteq> []"
  shows "case run_reads api_read reads (snd (api_watch net keys (pipeline_new kind tx))) of (got, s) \<Rightarrow>
    got = map (read_of \<circ> fst) reads \<and>
    (case api_execute net' (fold (\<lambda>c s. snd (api_command net' c s)) cs (snd (api_multi s))) of (res, s) \<Rightarrow>
       res = outcome_of net' \<and>
       wire_log s = [WReserve 0, WCmd 0 (''WATCH'', keys)] @
         map (\<lambda>x. WCmd 0 (''GET'', [snd x])) reads @ [WAtomic 0 cs])"
proof -
  let ?w = "(pipeline_new kind tx)\<lparr>reserved := Some \<lparr>rc_id = 0, rc_watched = True\<rparr>,
      next_conn := 1, watching := True, watched_keys := keys,
      wire_log := [WReserve 0, WCmd 0 (''WATCH'', keys)]\<rparr>"
  let ?r = "?w\<lparr>wire_log := wire_log ?w @ map (\<lambda>x. WCmd 0 (''GET'', [snd x])) reads\<rparr>"
  let ?m = "?r\<lparr>explicit_transaction := True\<rparr>"
  have w: "snd (api_watch net keys (pipeline_new kind tx)) = ?w"
    using watch_fresh [OF assms, of "pipeline_new kind tx"] by (simp add: pipeline_new_def)
  have r: "run_reads api_read reads ?w = (map (read_of \<circ> fst) reads, ?r)"
    using read_all [of ?w "\<lparr>rc_id = 0, rc_watched = True\<rparr>" reads] by (simp add: pipeline_new_def)
  have m: "snd (api_multi ?r) = ?m"
    by (rule multi_watching) (simp_all add: pipeline_new_def)
  have b: "fold (\<lambda>c s. snd (api_command net' c s)) cs ?m = ?m\<lparr>commands := commands ?m @ cs\<rparr>"
    by (rule buffer_all) (simp_all add: pipeline_new_def)
  show ?thesis
    unfolding w r prod.case m b
    using execute_watching [of "?m\<lparr>commands := commands ?m @ cs\<rparr>" "\<lparr>rc_id = 0, rc_watched = True\<rparr>" net']
    by (simp add: pipeline_new_def split_def)
qed

end

definition read_outcome :: "bridge_env \<Rightarrow> net \<Rightarrow> pyval pyres" where
  "read_outcome env net =
     (case net_immediate net of Inl e \<Rightarrow> Inl (to_err env e) | Inr v \<Rightarrow> into_py env (RValue v))"

text \<open>A GET, on either class.\<close>

definition sync_read :: "bridge_env \<Rightarrow> net \<Rightarrow> bytes \<Rightarrow> pipe_sys \<Rightarrow> pyval pyres \<times> pipe_sys" where
  "sync_read env net key = buf_or_dispatch env net (''GET'', [key])"

definition async_read :: "bridge_env \<Rightarrow> net \<Rightarrow> bytes \<Rightarrow> pipe_sys \<Rightarrow> pyval pyres \<times> pipe_sys" where
  "async_read env net key s = awaited env (aget_now env net key s)"

definition exec_outcome :: "bridge_env \<Rightarrow> net \<Rightarrow> pyval pyres" where
  "exec_outcome env net =
     watched_outcome env
       (case net_exec net of
          Inl e \<Rightarrow> Inl e
        | Inr VNil \<Rightarrow> Inr WatchAborted
        | Inr (VArray items) \<Rightarrow> Inr (WatchedOk items)
        | Inr other \<Rightarrow> Inl (unexpected_exec env other))"

interpretation sync_pipeline: pipeline_api "watch env" "sync_read env" multi "buf_or_dispatch env" "execute env"
    "read_outcome env" "exec_outcome env"
  for env
proof unfold_locales
  fix net :: net and keys :: "bytes list" and s :: pipe_sys
  assume "net_reserve net = None" "net_watch net = None" "keys \<noteq> []" "\<not> is_closed s"
    "\<not> explicit_transaction s" "reserved s = None"
  then show "snd (watch env net keys s) =
      s\<lparr>reserved := Some \<lparr>rc_id = next_conn s, rc_watched = True\<rparr>, next_conn := next_conn s + 1,
        watching := True, watched_keys := watched_keys s @ keys,
        wire_log := wire_log s @ [WReserve (next_conn s), WCmd (next_conn s) (''WATCH'', keys)]\<rparr>"
    by (simp add: watch_def ensure_reserved_def watch_reserved_def rc_watch_def)
next
  fix net :: net and r :: reserved_connection and s :: pipe_sys
  assume "\<not> is_closed s" "watching s" "reserved s = Some r" "rc_watched r"
  then show "fst (execute env net s) = exec_outcome env net \<and>
      wire_log (snd (execute env net s)) = wire_log s @ [WAtomic (rc_id r) (commands s)]"
    by (auto simp: execute_def execute_watched_def pipeline_exec_watched_def exec_outcome_def
        split: sum.splits redis_value.splits)
next
  fix net :: net and key :: bytes and r :: reserved_connection and s :: pipe_sys
  assume "\<not> is_closed s" "\<not> explicit_transaction s" "watching s" "reserved s = Some r"
  then show "sync_read env net key s =
      (read_outcome env net, s\<lparr>wire_log := wire_log s @ [WCmd (rc_id r) (''GET'', [key])]\<rparr>)"
    by (simp add: sync_read_def buf_or_dispatch_def dispatch_immediate_inner_def dispatch_immediate_def read_outcome_def)
qed (simp_all add: multi_def buf_or_dispatch_def push_command_def)

interpretation async_pipeline: pipeline_api "\<lambda>net keys s. awaited env (awatch net keys s)" "async_read env" apl_multi
    "\<lambda>_. buffer_cmd_inner" "\<lambda>net s. awaited env (aexecute env net s)" "read_outcome env" "exec_outcome env"
  for env
proof unfold_locales
  fix net :: net and key :: bytes and r :: reserved_connection and s :: pipe_sys
  assume s: "\<not> is_closed s" "\<not> explicit_transaction s" "watching s" "reserved s = Some r"
  then show "async_read env net key s =
      (read_outcome env net, s\<lparr>wire_log := wire_log s @ [WCmd (rc_id r) (''GET'', [key])]\<rparr>)"
    using awaited_immediate(1) [OF s(3,2,1,4), of env net key] sync_pipeline.read_watching [OF s]
    by (simp add: async_read_def sync_read_def)
next
  fix s :: pipe_sys
  assume "\<not> is_closed s" "\<not> explicit_transaction s" "watching s"
  then show "snd (apl_multi s) = s\<lparr>explicit_transaction := True\<rparr>" by (simp add: apl_multi_def)
qed (simp_all add: awaited_watch sync_pipeline.watch_fresh sync_pipeline.execute_watching
      awaited_execute buffer_cmd_inner_def push_command_def)

text \<open>(C7) The whole optimistic transaction (watch, reads, multi, commands, execute), with either pipeline
  class: WATCH, each read at once and in order, and then the commands, as one block, reach the
  server on one reserved connection, the one that watches the keys, each once and nothing else; the
  caller gets the replies of its reads, and what the block answered.\<close>
theorem transaction_protocol:
  assumes "net_reserve net = None" "net_watch net = None" "keys \<noteq> []"
  shows "(case run_reads (sync_read env) reads (snd (watch env net keys (pipeline_new kind tx))) of (got, s) \<Rightarrow>
      got = map (read_outcome env \<circ> fst) reads \<and>
      (case execute env net' (fold (\<lambda>c s. snd (buf_or_dispatch env net' c s)) cs (snd (multi s))) of (res, s) \<Rightarrow>
         res = exec_outcome env net' \<and>
         wire_log s = [WReserve 0, WCmd 0 (''WATCH'', keys)] @
           map (\<lambda>x. WCmd 0 (''GET'', [snd x])) reads @ [WAtomic 0 cs])) \<and>
    (case run_reads (async_read env) reads (snd (awaited env (awatch net keys (pipeline_new kind tx)))) of (got, s) \<Rightarrow>
      got = map (read_outcome env \<circ> fst) reads \<and>
      (case awaited env (aexecute env net' (fold (\<lambda>c s. snd (buffer_cmd_inner c s)) cs (snd (apl_multi s)))) of (res, s) \<Rightarrow>
         res = exec_outcome env net' \<and>
         wire_log s = [WReserve 0, WCmd 0 (''WATCH'', keys)] @
           map (\<lambda>x. WCmd 0 (''GET'', [snd x])) reads @ [WAtomic 0 cs]))"
  by (intro conjI sync_pipeline.transaction_atomic [OF assms] async_pipeline.transaction_atomic [OF assms])

theorem transaction_protocol_witness:
  "wire_log (snd (execute sample_env ok_net (fold (\<lambda>c s. snd (buf_or_dispatch sample_env ok_net c s))
      [(''SET'', [''n'', ''2''])]
      (snd (multi (snd (run_reads (sync_read sample_env) [(ok_net, ''n'')]
        (snd (watch sample_env ok_net [''n''] (pipeline_new OnStandard True)))))))))) =
   [WReserve 0, WCmd 0 (''WATCH'', [''n'']), WCmd 0 (''GET'', [''n'']), WAtomic 0 [(''SET'', [''n'', ''2''])]]"
proof -
  have net: "net_reserve ok_net = None" "net_watch ok_net = None" "[''n''] \<noteq> []" by (simp_all add: ok_net_def)
  show ?thesis
    using transaction_protocol [OF net, where net' = ok_net and env = sample_env and reads = "[(ok_net, ''n'')]"
        and cs = "[(''SET'', [''n'', ''2''])]" and kind = OnStandard and tx = True]
    by (simp add: split_def del: fold_simps run_reads.simps)
qed

section \<open>The retry loop\<close>

text \<open>
  \<open>transaction_helper\<close>: every attempt runs on a fresh pipeline; \<open>func\<close> is the caller's
  function on it.  The attempts are given as a list, each with the network's outcomes and what
  \<open>func\<close> does; \<open>None\<close> is a loop that is still retrying when the list ends.
\<close>

record attempt =
  at_net :: net
  at_func :: "pipe_sys \<Rightarrow> pyval pyres \<times> pipe_sys"

definition run_attempt ::
  "bridge_env \<Rightarrow> topology \<Rightarrow> bytes list \<Rightarrow> bool \<Rightarrow> attempt \<Rightarrow> pyval pyres \<times> pipe_sys" where
  "run_attempt env kind watches value_from_callable a =
     (let net = at_net a;
          s = pipeline_new kind True;
          (w, s) = (if watches \<noteq> [] then watch env net watches s else (Inr PNone, s));
          (res, s) =
            (case w of
               Inl e \<Rightarrow> (Inl e, s)
             | Inr _ \<Rightarrow>
                 (case at_func a s of
                    (Inl e, s) \<Rightarrow> (Inl e, s)
                  | (Inr func_value, s) \<Rightarrow>
                      (case execute env net s of
                         (Inl e, s) \<Rightarrow> (Inl e, s)
                       | (Inr exec_value, s) \<Rightarrow>
                           (Inr (if value_from_callable then func_value else exec_value), s))))
      in (res, release_reserved net s))"

definition retryable :: "pyval pyres \<Rightarrow> bool" where
  "retryable res = (case res of Inl e \<Rightarrow> issubclass (err_class e) WatchError | Inr _ \<Rightarrow> False)"

text \<open>\<open>watch_delay\<close>: what is slept before another attempt; \<open>thread::sleep\<close> gets a \<open>Duration\<close>.\<close>

definition f64_pos :: "f64 \<Rightarrow> bool" where
  "f64_pos s \<longleftrightarrow>
     (case f64_value s of Some q \<Rightarrow> 0 < q | None \<Rightarrow> \<not> f64_is_nan s \<and> uint (f64_bits s) < 2 ^ 63)"

definition watch_pause :: "f64 option \<Rightarrow> unit pyres" where
  "watch_pause delay =
     (case delay of
        Some d \<Rightarrow> if f64_pos d then rbind (from_secs_f64 d) (\<lambda>_. Inr ()) else Inr ()
      | None \<Rightarrow> Inr ())"

fun transaction_helper ::
  "bridge_env \<Rightarrow> topology \<Rightarrow> bytes list \<Rightarrow> bool \<Rightarrow> f64 option \<Rightarrow> attempt list \<Rightarrow> pyval pyres option" where
  "transaction_helper env kind watches vfc delay [] = None"
| "transaction_helper env kind watches vfc delay (a # as) =
     (let res = fst (run_attempt env kind watches vfc a) in
      if retryable res then
        (case watch_pause delay of
           Inl e \<Rightarrow> Some (Inl e)
         | Inr _ \<Rightarrow> transaction_helper env kind watches vfc delay as)
      else Some res)"

lemma transaction_helper_find:
  "watch_pause delay = Inr () \<Longrightarrow> transaction_helper env kind watches vfc delay as =
   List.find (\<lambda>r. \<not> retryable r) (map (fst \<circ> run_attempt env kind watches vfc) as)"
  by (induction as) (auto simp: Let_def)

text \<open>\<open>atransaction\<close>: the Python coroutine in \<open>atransaction_helper\<close>.  Its \<open>func\<close> may return a
  value or a coroutine to await; \<open>at_func\<close> is what comes of it.  \<open>asyncio.sleep\<close> takes any
  positive delay; an infinite one never ends.\<close>

definition run_aattempt ::
  "bridge_env \<Rightarrow> topology \<Rightarrow> bytes list \<Rightarrow> bool \<Rightarrow> attempt \<Rightarrow> pyval pyres \<times> pipe_sys" where
  "run_aattempt env kind watches value_from_callable a =
     (let net = at_net a;
          s = pipeline_new kind True;
          (w, s) = (if watches \<noteq> [] then awaited env (awatch net watches s) else (Inr PNone, s));
          (res, s) =
            (case w of
               Inl e \<Rightarrow> (Inl e, s)
             | Inr _ \<Rightarrow>
                 (case at_func a s of
                    (Inl e, s) \<Rightarrow> (Inl e, s)
                  | (Inr func_value, s) \<Rightarrow>
                      (case awaited env (aexecute env net s) of
                         (Inl e, s) \<Rightarrow> (Inl e, s)
                       | (Inr exec_value, s) \<Rightarrow>
                           (Inr (if value_from_callable then func_value else exec_value), s))))
      in (res, snd (aclose net s)))"

definition sleep_ends :: "f64 option \<Rightarrow> bool" where
  "sleep_ends delay \<longleftrightarrow> (case delay of Some d \<Rightarrow> f64_pos d \<longrightarrow> f64_value d \<noteq> None | None \<Rightarrow> True)"

fun atransaction_helper ::
  "bridge_env \<Rightarrow> topology \<Rightarrow> bytes list \<Rightarrow> bool \<Rightarrow> f64 option \<Rightarrow> attempt list \<Rightarrow> pyval pyres option" where
  "atransaction_helper env kind watches vfc delay [] = None"
| "atransaction_helper env kind watches vfc delay (a # as) =
     (let res = fst (run_aattempt env kind watches vfc a) in
      if retryable res then
        (if sleep_ends delay then atransaction_helper env kind watches vfc delay as else None)
      else Some res)"

text \<open>A function that uses the pipeline through its methods.\<close>

definition keeps_reservation :: "attempt \<Rightarrow> bool" where
  "keeps_reservation a \<longleftrightarrow>
     (\<forall>s. (watching s \<longrightarrow> reserved s \<noteq> None) \<longrightarrow>
        watching (snd (at_func a s)) \<longrightarrow> reserved (snd (at_func a s)) \<noteq> None)"

lemma run_attempts_agree:
  assumes "keeps_reservation a"
  shows "fst (run_aattempt env kind watches vfc a) = fst (run_attempt env kind watches vfc a)"
proof -
  let ?start = "if watches \<noteq> [] then watch env (at_net a) watches (pipeline_new kind True)
    else (Inr PNone, pipeline_new kind True)"
  obtain w s where ws: "?start = (w, s)" by fastforce
  have "pl_inv s"
    using ws watch_inv [OF new_inv, of env "at_net a" watches kind True] new_inv
    by (auto split: if_splits)
  obtain r t where rt: "at_func a s = (r, t)" by fastforce
  have "watching t \<Longrightarrow> reserved t \<noteq> None"
    using assms \<open>pl_inv s\<close> rt by (auto simp: keeps_reservation_def pl_inv_def dest: spec [of _ s])
  then have run: "awaited env (aexecute env (at_net a) t) = execute env (at_net a) t" by (rule awaited_execute)
  show ?thesis
    unfolding run_aattempt_def run_attempt_def awaited_watch Let_def ws
    by (simp add: rt run split: sum.split prod.split)
qed

lemma pause_ends: "watch_pause delay = Inr () \<Longrightarrow> sleep_ends delay"
  by (auto simp: watch_pause_def sleep_ends_def from_secs_f64_def split: option.splits if_splits)

text \<open>(C20) The retry loop of \<open>transaction()\<close>: with a delay that can be slept (or none) it returns
  exactly when some attempt ends without \<open>WatchError\<close>, and then gives the value or the
  exception of the first such attempt; every
  attempt leaves its pipeline empty and without a reserved connection, and closed when it is
  awaitable.  \<open>atransaction()\<close> returns what \<open>transaction()\<close> does.\<close>
theorem transaction_retries:
  assumes "watch_pause delay = Inr ()"
  shows "(transaction_helper env kind watches vfc delay as = Some res \<longleftrightarrow>
     (\<exists>n < length as. fst (run_attempt env kind watches vfc (as ! n)) = res \<and> \<not> retryable res \<and>
        list_all (\<lambda>a. retryable (fst (run_attempt env kind watches vfc a))) (take n as))) \<and>
   (\<forall>a. reserved (snd (run_attempt env kind watches vfc a)) = None \<and>
        commands (snd (run_attempt env kind watches vfc a)) = [] \<and>
        reserved (snd (run_aattempt env kind watches vfc a)) = None \<and>
        is_closed (snd (run_aattempt env kind watches vfc a))) \<and>
   (if list_all keeps_reservation as
    then atransaction_helper env kind watches vfc delay as = transaction_helper env kind watches vfc delay as
    else True)"
proof (intro conjI)
  show "transaction_helper env kind watches vfc delay as = Some res \<longleftrightarrow>
     (\<exists>n < length as. fst (run_attempt env kind watches vfc (as ! n)) = res \<and> \<not> retryable res \<and>
        list_all (\<lambda>a. retryable (fst (run_attempt env kind watches vfc a))) (take n as))"
    unfolding transaction_helper_find [OF assms] find_Some_iff by (auto simp: list_all_length)
  have "reserved (release_reserved net s) = None \<and> commands (release_reserved net s) = [] \<and>
      reserved (snd (aclose net s)) = None \<and> is_closed (snd (aclose net s))" for net s
    by (auto simp: release_reserved_def aclose_def clear_all_def Let_def split: option.splits prod.splits)
  then show "\<forall>a. reserved (snd (run_attempt env kind watches vfc a)) = None \<and>
        commands (snd (run_attempt env kind watches vfc a)) = [] \<and>
        reserved (snd (run_aattempt env kind watches vfc a)) = None \<and>
        is_closed (snd (run_aattempt env kind watches vfc a))"
    by (auto simp: run_attempt_def run_aattempt_def Let_def split: prod.splits)
  have "list_all keeps_reservation as \<Longrightarrow>
      atransaction_helper env kind watches vfc delay as = transaction_helper env kind watches vfc delay as"
    by (induction as) (simp_all add: run_attempts_agree Let_def assms pause_ends [OF assms])
  then show "if list_all keeps_reservation as
    then atransaction_helper env kind watches vfc delay as = transaction_helper env kind watches vfc delay as
    else True" by simp
qed

theorem transaction_retries_witness:
  "transaction_helper sample_env OnStandard [''k''] False None
     [\<lparr>at_net = ok_net\<lparr>net_exec := Inr VNil\<rparr>, at_func = multi\<rparr>, \<lparr>at_net = ok_net, at_func = multi\<rparr>] =
   Some (Inr (PList [PBool True]))"
proof -
  let ?as = "[\<lparr>at_net = ok_net\<lparr>net_exec := Inr VNil\<rparr>, at_func = multi\<rparr>, \<lparr>at_net = ok_net, at_func = multi\<rparr>]"
  have "fst (run_attempt sample_env OnStandard [''k''] False (?as ! 1)) = Inr (PList [PBool True])"
    "retryable (fst (run_attempt sample_env OnStandard [''k''] False (?as ! 0)))"
    by (simp_all add: run_attempt_def pl_defs pipeline_new_def ok_net_def retryable_def issubclass_def eval_nat_numeral)
  then show ?thesis
    using transaction_retries [of None sample_env OnStandard "[''k'']" False ?as "Inr (PList [PBool True])"]
    by (auto simp: watch_pause_def retryable_def intro!: exI [of _ 1])
qed

text \<open>A delay of infinity: the blocking \<open>transaction\<close> panics at the first \<open>WatchError\<close> (after the
  pipeline has been reset), the awaitable one sleeps for ever.\<close>

lemma infinite_delay:
  assumes "retryable (fst (run_attempt env kind watches vfc a))" "keeps_reservation a"
  shows "transaction_helper env kind watches vfc (Some (F64 0x7FF0000000000000)) (a # as) =
      Some (Inl (PyErr PanicException ''cannot convert float seconds to Duration: value is either too big or NaN''))"
    and "atransaction_helper env kind watches vfc (Some (F64 0x7FF0000000000000)) (a # as) = None"
  using assms
  by (simp_all add: run_attempts_agree Let_def watch_pause_def sleep_ends_def f64_pos_def f64_value_def
      f64_is_nan_def from_secs_f64_def)

section \<open>Overlapping async calls\<close>

text \<open>Two immediate commands of an \<open>AsyncPipeline\<close> that overlap lose the reserved connection:
  the second finds none, fails, and puts that none back after the first has restored it.  The
  pipeline still counts as watching, and \<open>aexecute\<close> fails with an internal error without
  sending the transaction.\<close>
theorem overlapping_immediates_lose_connection:
  assumes "reserved s = Some r" "watching s" "\<not> is_closed s"
  shows "let (first, s1) = immediate_take s;
             (second, s2) = immediate_take s1;
             (_, s3) = immediate_put env net c first s2;
             (raw, s4) = immediate_put env net d second s3
         in first = Some r \<and> raw = classify (no_reservation env) \<and> watching s4 \<and> reserved s4 = None \<and>
            fst (aexecute env net s4) = classify (internal_error env ''aexecute without reservation'') \<and>
            wire_log (snd (aexecute env net s4)) = wire_log s @ [WCmd (rc_id r) c]"
  using assms
  by (simp add: immediate_take_def immediate_put_def dispatch_immediate_def aexecute_def split: sum.splits)

theorem overlapping_immediates_lose_connection_witness:
  "fst (aexecute sample_env ok_net (snd (immediate_put sample_env ok_net (''GET'', [''b'']) None
     (snd (immediate_put sample_env ok_net (''GET'', [''a'']) (reserved watched_sample)
        (snd (immediate_take (snd (immediate_take watched_sample))))))))) =
     classify (internal_error sample_env ''aexecute without reservation'')"
proof -
  have s: "reserved watched_sample = Some \<lparr>rc_id = 0, rc_watched = True\<rparr>" "watching watched_sample"
    "\<not> is_closed watched_sample"
    by (simp_all add: pl_defs pipeline_new_def ok_net_def)
  then show ?thesis
    using overlapping_immediates_lose_connection [OF s, where net = ok_net and env = sample_env and
        c = "(''GET'', [''a''])" and d = "(''GET'', [''b''])"]
    by (simp add: immediate_take_def Let_def split_def)
qed

text \<open>\<open>multi\<close> accepts a pipeline whose first command was buffered before the watch.\<close>

lemma late_watch_accepted:
  "fst (multi (snd (watch sample_env ok_net [''k''] (snd (buf_or_dispatch sample_env ok_net (''GET'', [''k''])
     (pipeline_new OnStandard True)))))) = Inr PNone"
  by (simp add: pl_defs pipeline_new_def ok_net_def)

text \<open>\<open>aunwatch\<close> forgets the watch even when UNWATCH fails; \<open>unwatch\<close> does not.\<close>

lemma aunwatch_forgets:
  "reserved s = Some r \<Longrightarrow> rc_watched r \<Longrightarrow> watching s \<Longrightarrow> \<not> is_closed s \<Longrightarrow> net_unwatch net = Some e \<Longrightarrow>
   \<not> watching (snd (aunwatch net s)) \<and> watching (snd (unwatch env net s))"
  by (simp add: aunwatch_def unwatch_def unwatch_if_needed_def clear_watch_def)

text \<open>\<open>reset\<close> makes an \<open>AsyncPipeline\<close> unusable; a \<open>Pipeline\<close> can be used again.\<close>

lemma async_reset_closes:
  "is_closed (snd (apl_reset net s)) \<and> is_closed (snd (pl_reset net s)) = is_closed s"
  by (auto simp: apl_reset_def aclose_def pl_reset_def release_reserved_def clear_all_def Let_def
      split: option.splits prod.splits)

section \<open>Context managers\<close>

definition pl_enter :: "pipe_sys \<Rightarrow> pyval pyres \<times> pipe_sys" where
  "pl_enter s = (Inr self_obj, s)"

definition pl_exit :: "net \<Rightarrow> pipe_sys \<Rightarrow> bool pyres \<times> pipe_sys" where
  "pl_exit net s = (Inr False, release_reserved net s)"

definition pl_len :: "pipe_sys \<Rightarrow> nat" where
  "pl_len s = length (commands s)"

definition pl_bool :: "pipe_sys \<Rightarrow> bool" where
  "pl_bool s = True"

definition apl_aenter :: "pipe_sys \<Rightarrow> pyval pyres \<times> pipe_sys" where
  "apl_aenter s = (Inr self_obj, s)"

definition apl_aexit :: "net \<Rightarrow> pipe_sys \<Rightarrow> raw_result \<times> pipe_sys" where
  "apl_aexit = aclose"

definition pipe_factory_call :: "topology \<Rightarrow> pipe_sys" where
  "pipe_factory_call kind = pipeline_new kind True"

text \<open>A \<open>with\<close> statement over a pipeline: whatever its block does, the connection it may have
  reserved is given up, an outstanding WATCH is undone, nothing stays buffered, and an exception
  of the block goes on.\<close>

definition with_pipeline ::
  "net \<Rightarrow> (pipe_sys \<Rightarrow> 'r pyres \<times> pipe_sys) \<Rightarrow> pipe_sys \<Rightarrow> 'r pyres \<times> pipe_sys" where
  "with_pipeline net block s =
     (let (_, s) = pl_enter s;
          (r, s) = block s;
          (swallow, s) = pl_exit net s
      in (case swallow of Inl e \<Rightarrow> Inl e | Inr _ \<Rightarrow> r, s))"

lemma with_pipeline_releases:
  assumes "block s = (r, t)"
  shows "fst (with_pipeline net block s) = r" "reserved (snd (with_pipeline net block s)) = None"
    "pl_len (snd (with_pipeline net block s)) = 0" "\<not> watching (snd (with_pipeline net block s))"
    "wire_log (snd (with_pipeline net block s)) = wire_log t @
       (case reserved t of Some r \<Rightarrow> if rc_watched r then [WCmd (rc_id r) (''UNWATCH'', [])] else [] | None \<Rightarrow> [])"
  using assms
  by (auto simp: with_pipeline_def pl_enter_def pl_exit_def pl_len_def release_reserved_def unwatch_if_needed_def
      clear_all_def Let_def split: option.splits)

end
