(* ===== verification/Utf8.thy ===== *)
theory Utf8
  imports Prelude
begin

text \<open>
  \<open>String::from_utf8_lossy\<close> of Rust's standard library on octet lists: well-formed sequences
  are kept, each maximal ill-formed prefix is replaced by U+FFFD.
\<close>

definition octet :: "char \<Rightarrow> nat" where
  "octet c = of_char c"

definition is_cont :: "bytes \<Rightarrow> bool" where
  "is_cont s = (case s of [] \<Rightarrow> False | c # _ \<Rightarrow> 128 \<le> octet c \<and> octet c \<le> 191)"

text \<open>The second octet allowed after a given first octet of a three- or four-octet sequence.\<close>

definition second_ok :: "nat \<Rightarrow> bytes \<Rightarrow> bool" where
  "second_ok b s =
     (case s of
        [] \<Rightarrow> False
      | c # _ \<Rightarrow>
          (let n = octet c in
           (if b = 224 then 160 else if b = 240 then 144 else 128) \<le> n \<and>
           n \<le> (if b = 237 then 159 else if b = 244 then 143 else 191)))"

text \<open>\<open>utf8_step c s\<close> looks at the text \<open>c # s\<close>: how many octets after the first one belong
  to the next chunk, and whether the chunk is well-formed.\<close>

definition utf8_step :: "char \<Rightarrow> bytes \<Rightarrow> nat \<times> bool" where
  "utf8_step c s =
     (let b = octet c in
      if b < 128 then (0, True)
      else if 194 \<le> b \<and> b \<le> 223 then (if is_cont s then (1, True) else (0, False))
      else if 224 \<le> b \<and> b \<le> 239 then
        (if \<not> second_ok b s then (0, False)
         else if is_cont (drop 1 s) then (2, True) else (1, False))
      else if 240 \<le> b \<and> b \<le> 244 then
        (if \<not> second_ok b s then (0, False)
         else if \<not> is_cont (drop 1 s) then (1, False)
         else if is_cont (drop 2 s) then (3, True) else (2, False))
      else (0, False))"

definition replacement :: bytes where
  "replacement = [char_of (239::nat), char_of (191::nat), char_of (189::nat)]"

function utf8_lossy :: "bytes \<Rightarrow> bytes" where
  "utf8_lossy [] = []"
| "utf8_lossy (c # s) =
     (case utf8_step c s of
        (n, ok) \<Rightarrow> (if ok then c # take n s else replacement) @ utf8_lossy (drop n s))"
  by pat_completeness auto
termination by (relation "measure length") (auto simp: less_Suc_eq_le)

function valid_utf8 :: "bytes \<Rightarrow> bool" where
  "valid_utf8 [] = True"
| "valid_utf8 (c # s) = (case utf8_step c s of (n, ok) \<Rightarrow> ok \<and> valid_utf8 (drop n s))"
  by pat_completeness auto
termination by (relation "measure length") (auto simp: less_Suc_eq_le)

lemma utf8_lossy_valid [simp]: "valid_utf8 s \<Longrightarrow> utf8_lossy s = s"
  by (induction s rule: utf8_lossy.induct) (auto split: prod.splits)

lemma utf8_step_ascii [simp]: "octet c < 128 \<Longrightarrow> utf8_step c s = (0, True)"
  by (simp add: utf8_step_def)

lemma valid_utf8_ascii: "\<forall>c \<in> set s. octet c < 128 \<Longrightarrow> valid_utf8 s"
  by (induction s) auto

lemma valid_utf8_append_ascii:
  "octet c < 128 \<Longrightarrow> valid_utf8 (c # s) = valid_utf8 s"
  by simp

end
