(* ===== verification/Decode.thy ===== *)
theory Decode
  imports SyncAsync Utf8
begin

text \<open>
  Response decoding (\<open>facade/decode.rs\<close>): with \<open>decode_responses\<close> a client passes every
  result through \<open>decode_walk\<close>, which replaces each \<open>bytes\<close> leaf by what Python's
  \<open>bytes.decode\<close> makes of it.  The codec, chosen by the user through \<open>encoding\<close> and
  \<open>encoding_errors\<close>, is the function \<open>codec\<close>: the decoded text as UTF-8 octets, or the
  \<open>UnicodeDecodeError\<close>.
\<close>

section \<open>The walker\<close>

type_synonym codec = "bytes \<Rightarrow> bytes pyres"

function (sequential) decode_walk :: "codec \<Rightarrow> pyval \<Rightarrow> pyval pyres"
  and decode_list :: "codec \<Rightarrow> pyval list \<Rightarrow> pyval list pyres"
  and decode_items :: "codec \<Rightarrow> (pyval \<times> pyval) list \<Rightarrow> (pyval \<times> pyval) list \<Rightarrow> (pyval \<times> pyval) list pyres"
  and decode_elems :: "codec \<Rightarrow> pyval list \<Rightarrow> pyval list \<Rightarrow> pyval list pyres"
where
  "decode_walk c (PBytes b) = rbind (c b) (\<lambda>s. Inr (PStr s))"
| "decode_walk c (PList xs) = rbind (decode_list c xs) (\<lambda>ys. Inr (PList ys))"
| "decode_walk c (PTuple xs) = rbind (decode_list c xs) (\<lambda>ys. Inr (PTuple ys))"
| "decode_walk c (PDict d) = rbind (decode_items c d []) (\<lambda>d'. Inr (PDict d'))"
| "decode_walk c (PSet xs) = rbind (decode_elems c xs []) (\<lambda>ys. Inr (PSet ys))"
| "decode_walk c v = Inr v"
| "decode_list c [] = Inr []"
| "decode_list c (x # xs) = rbind (decode_walk c x) (\<lambda>y. rbind (decode_list c xs) (\<lambda>ys. Inr (y # ys)))"
| "decode_items c [] out = Inr out"
| "decode_items c ((k, v) # d) out =
     rbind (decode_walk c k) (\<lambda>k'.
     rbind (decode_walk c v) (\<lambda>v'.
     rbind (set_item k' v' out) (\<lambda>out'. decode_items c d out')))"
| "decode_elems c [] out = Inr out"
| "decode_elems c (x # xs) out =
     rbind (decode_walk c x) (\<lambda>x'. rbind (set_add x' out) (\<lambda>out'. decode_elems c xs out'))"
  by pat_completeness auto
termination
  by (relation "measure (case_sum (case_sum (\<lambda>p. size (snd p)) (\<lambda>p. size_list size (snd p)))
      (case_sum (\<lambda>p. size_list (size_prod size size) (fst (snd p))) (\<lambda>p. size_list size (fst (snd p)))))")
    auto

text \<open>\<open>Redis::maybe_decode\<close>, and the decoder \<open>AsyncRedis::maybe_wrap\<close> puts behind the await.\<close>

definition maybe_decode :: "codec option \<Rightarrow> pyval \<Rightarrow> pyval pyres" where
  "maybe_decode decode v = (case decode of Some c \<Rightarrow> decode_walk c v | None \<Rightarrow> Inr v)"

section \<open>What a decoded value contains\<close>

text \<open>The \<open>bytes\<close> leaves of a value, keys included, and the values Python can hold: dict keys
  and set elements are hashable.\<close>

fun leaves :: "pyval \<Rightarrow> bytes set" where
  "leaves (PBytes b) = {b}"
| "leaves (PList xs) = (\<Union>x \<in> set xs. leaves x)"
| "leaves (PTuple xs) = (\<Union>x \<in> set xs. leaves x)"
| "leaves (PDict d) = (\<Union>p \<in> set d. leaves (fst p) \<union> leaves (snd p))"
| "leaves (PSet xs) = (\<Union>x \<in> set xs. leaves x)"
| "leaves _ = {}"

fun well_formed :: "pyval \<Rightarrow> bool" where
  "well_formed (PList xs) \<longleftrightarrow> (\<forall>x \<in> set xs. well_formed x)"
| "well_formed (PTuple xs) \<longleftrightarrow> (\<forall>x \<in> set xs. well_formed x)"
| "well_formed (PDict d) \<longleftrightarrow> (\<forall>p \<in> set d. py_hashable (fst p) \<and> well_formed (fst p) \<and> well_formed (snd p))"
| "well_formed (PSet xs) \<longleftrightarrow> (\<forall>x \<in> set xs. py_hashable x \<and> well_formed x)"
| "well_formed _ \<longleftrightarrow> True"

lemmas decode_induct = decode_walk_decode_list_decode_items_decode_elems.induct

lemma decode_hashable:
  "decode_walk c v = Inr w \<Longrightarrow> py_hashable v \<Longrightarrow> py_hashable w"
  "decode_list c xs = Inr ys \<Longrightarrow> list_all py_hashable xs \<Longrightarrow> list_all py_hashable ys"
  "decode_items c d out = decode_items c d out" "decode_elems c es out' = decode_elems c es out'"
  by (induction c v and c xs and c d out and c es out' arbitrary: w and ys rule: decode_induct)
    (auto simp: rbind_eq_Inr_iff)

definition leafless :: "pyval \<Rightarrow> bool" where
  "leafless v \<longleftrightarrow> leaves v = {}"

lemma leafless_simps [simp]:
  "leafless (PList xs) \<longleftrightarrow> (\<forall>x \<in> set xs. leafless x)"
  "leafless (PTuple xs) \<longleftrightarrow> (\<forall>x \<in> set xs. leafless x)"
  "leafless (PDict d) \<longleftrightarrow> (\<forall>p \<in> set d. leafless (fst p) \<and> leafless (snd p))"
  "leafless (PSet xs) \<longleftrightarrow> (\<forall>x \<in> set xs. leafless x)"
  "leafless (PStr s)" "leafless PNone" "leafless (PBool b)" "leafless (PInt i)" "leafless (PFloat f)"
  "leafless (PObj n)"
  by (auto simp: leafless_def)

lemma dict_upd_all:
  "list_all (\<lambda>p. P (fst p) \<and> Q (snd p)) d \<Longrightarrow> P k \<Longrightarrow> Q v \<Longrightarrow> list_all (\<lambda>p. P (fst p) \<and> Q (snd p)) (dict_upd k v d)"
  by (induction d) auto

text \<open>The outcomes of the two insertions, without unfolding them in induction hypotheses.\<close>

lemma insertion_simps:
  "set_item k v d = Inr d' \<longleftrightarrow> py_hashable k \<and> d' = dict_upd k v d"
  "set_item k v d = Inl e \<longleftrightarrow> \<not> py_hashable k \<and> e = unhashable"
  "set_add x s = Inr s' \<longleftrightarrow> py_hashable x \<and> s' = (if list_ex (\<lambda>y. py_key_eq y x) s then s else s @ [x])"
  "set_add x s = Inl e \<longleftrightarrow> \<not> py_hashable x \<and> e = unhashable"
  by (auto simp: set_item_def set_add_def)

lemma decode_leafless:
  "decode_walk c v = Inr w \<Longrightarrow> leafless w"
  "decode_list c xs = Inr ys \<Longrightarrow> \<forall>y \<in> set ys. leafless y"
  "decode_items c d out = Inr out' \<Longrightarrow> list_all (\<lambda>p. leafless (fst p) \<and> leafless (snd p)) out \<Longrightarrow>
     list_all (\<lambda>p. leafless (fst p) \<and> leafless (snd p)) out'"
  "decode_elems c es acc = Inr acc' \<Longrightarrow> \<forall>x \<in> set acc. leafless x \<Longrightarrow> \<forall>x \<in> set acc'. leafless x"
  by (induction c v and c xs and c d out and c es acc arbitrary: w and ys and out' and acc' rule: decode_induct)
    (auto simp: rbind_eq_Inr_iff insertion_simps dict_upd_all list_all_iff [symmetric] split: if_splits)

text \<open>A failing walk fails as the codec does on some leaf, and a walk that succeeds has decoded
  every leaf.\<close>

lemma decode_error:
  "decode_walk c v = Inl e \<Longrightarrow> well_formed v \<Longrightarrow> \<exists>b \<in> leaves v. c b = Inl e"
  "decode_list c xs = Inl e \<Longrightarrow> \<forall>x \<in> set xs. well_formed x \<Longrightarrow> \<exists>x \<in> set xs. \<exists>b \<in> leaves x. c b = Inl e"
  "decode_items c d out = Inl e \<Longrightarrow>
     \<forall>p \<in> set d. py_hashable (fst p) \<and> well_formed (fst p) \<and> well_formed (snd p) \<Longrightarrow>
     \<exists>p \<in> set d. \<exists>b \<in> leaves (fst p) \<union> leaves (snd p). c b = Inl e"
  "decode_elems c es acc = Inl e \<Longrightarrow> \<forall>x \<in> set es. py_hashable x \<and> well_formed x \<Longrightarrow>
     \<exists>x \<in> set es. \<exists>b \<in> leaves x. c b = Inl e"
  by (induction c v and c xs and c d out and c es acc rule: decode_induct)
    (auto simp: rbind_eq_Inl_iff insertion_simps dest: decode_hashable(1))

lemma decode_success:
  "decode_walk c v = Inr w \<Longrightarrow> b \<in> leaves v \<Longrightarrow> c b \<noteq> Inl e"
  "decode_list c xs = Inr ys \<Longrightarrow> x \<in> set xs \<Longrightarrow> b \<in> leaves x \<Longrightarrow> c b \<noteq> Inl e"
  "decode_items c d out = Inr out' \<Longrightarrow> p \<in> set d \<Longrightarrow> b \<in> leaves (fst p) \<union> leaves (snd p) \<Longrightarrow> c b \<noteq> Inl e"
  "decode_elems c es acc = Inr acc' \<Longrightarrow> x \<in> set es \<Longrightarrow> b \<in> leaves x \<Longrightarrow> c b \<noteq> Inl e"
  by (induction c v and c xs and c d out and c es acc
      arbitrary: w b and ys x b and out' p b and acc' x b rule: decode_induct)
    (fastforce simp: rbind_eq_Inr_iff)+

text \<open>Python's UTF-8 codec with the default \<open>encoding_errors\<close>, and with \<open>replace\<close>.\<close>

definition utf8_strict :: codec where
  "utf8_strict b = (if valid_utf8 b then Inr b else Inl (PyErr PyValueError ''UnicodeDecodeError''))"

definition utf8_replace :: codec where
  "utf8_replace b = Inr (utf8_lossy b)"

text \<open>(C21) Decoding is complete: a decoded value has no \<open>bytes\<close> anywhere, keys included, and is
  only returned when the codec accepts every leaf; when it is not returned, the exception is the
  codec's for one of the leaves.\<close>
theorem decoding_complete:
  assumes "well_formed v"
  shows "case decode_walk c v of
      Inr w \<Rightarrow> leaves w = {} \<and> (\<forall>b \<in> leaves v. \<exists>s. c b = Inr s)
    | Inl e \<Rightarrow> (\<exists>b \<in> leaves v. c b = Inl e)"
proof (cases "decode_walk c v")
  case (Inl e)
  then show ?thesis using decode_error(1) assms by simp
next
  case (Inr w)
  have "\<exists>s. c b = Inr s" if "b \<in> leaves v" for b
    using decode_success(1) [OF Inr that] by (cases "c b") auto
  then show ?thesis using Inr decode_leafless(1) [OF Inr] by (simp add: leafless_def)
qed

theorem decoding_complete_witness:
  "case decode_walk utf8_strict (PDict [(PBytes ''k'', PList [PBytes ''v'', PNone])]) of
     Inr w \<Rightarrow> leaves w = {} | Inl e \<Rightarrow> False"
  using decoding_complete [of "PDict [(PBytes ''k'', PList [PBytes ''v'', PNone])]" utf8_strict]
  by (simp add: utf8_strict_def set_item_def octet_def split: sum.splits)

section \<open>Dicts\<close>

lemma dict_upd_fresh: "\<forall>p \<in> set d. \<not> py_key_eq (fst p) k \<Longrightarrow> dict_upd k v d = d @ [(k, v)]"
  by (induction d) auto

lemma decode_items_bytes:
  assumes "decode_items c (bytes_items ps) out = Inr out'"
    and "distinct (map fst ps)" "inj_on c (fst ` set ps)"
    and "\<forall>p \<in> set ps. \<forall>q \<in> set out. \<not> py_key_eq (fst q) (PStr (projr (c (fst p))))"
  shows "out' = out @ map (\<lambda>(k, v). (PStr (projr (c k)), projr (decode_walk c v))) ps"
  using assms
proof (induction ps arbitrary: out)
  case (Cons p ps)
  obtain k v where p: "p = (k, v)" by (cases p)
  with Cons.prems(1) obtain s v' where s: "c k = Inr s" "decode_walk c v = Inr v'"
    "decode_items c (bytes_items ps) (dict_upd (PStr s) v' out) = Inr out'"
    by (auto simp: rbind_eq_Inr_iff insertion_simps)
  have upd: "dict_upd (PStr s) v' out = out @ [(PStr s, v')]"
    using Cons.prems(4) p s(1) by (intro dict_upd_fresh) simp
  have fresh: "projr (c k') \<noteq> s" if "k' \<in> fst ` set ps" for k'
  proof
    assume "projr (c k') = s"
    moreover have "\<exists>t. c k' = Inr t"
      using s(3) that decode_success(3) [OF s(3)] by (cases "c k'") fastforce+
    ultimately have "c k' = c k" using s(1) by auto
    with Cons.prems(2,3) p that show False by (auto simp: inj_on_def)
  qed
  then have "out' = (out @ [(PStr s, v')]) @ map (\<lambda>(k, v). (PStr (projr (c k)), projr (decode_walk c v))) ps"
    using Cons.prems(2-4) p s(3) upd by (intro Cons.IH) (auto simp: inj_on_def)
  then show ?case using p s by simp
qed simp

text \<open>A decoded dict keeps every entry, in order: when the codec tells the keys apart (as
  UTF-8 does under the default \<open>strict\<close>), the result of HGETALL and the like is the same
  mapping with each key and each value decoded.\<close>
theorem decoded_dict:
  assumes "distinct (map fst ps)" "inj_on c (fst ` set ps)"
    and "decode_walk c (PDict (bytes_items ps)) = Inr w"
  shows "w = PDict (map (\<lambda>(k, v). (PStr (projr (c k)), projr (decode_walk c v))) ps)"
  using assms decode_items_bytes [of c ps "[]"] by (auto simp: rbind_eq_Inr_iff)

theorem decoded_dict_witness:
  "decode_walk utf8_strict (PDict (bytes_items [(''a'', PBytes ''1''), (''b'', PBytes ''2'')])) =
   Inr (PDict [(PStr ''a'', PStr ''1''), (PStr ''b'', PStr ''2'')])"
proof -
  let ?ps = "[(''a'', PBytes ''1''), (''b'', PBytes ''2'')]"
  obtain w where "decode_walk utf8_strict (PDict (bytes_items ?ps)) = Inr w"
    by (simp add: utf8_strict_def set_item_def octet_def)
  moreover from this have "w = PDict [(PStr ''a'', PStr ''1''), (PStr ''b'', PStr ''2'')]"
    using decoded_dict [of ?ps utf8_strict w] by (simp add: utf8_strict_def octet_def)
  ultimately show ?thesis by simp
qed

text \<open>With \<open>replace\<close>, two fields that are not UTF-8 become one.\<close>

lemma replaced_keys_collide:
  "decode_walk utf8_replace (PDict [(PBytes [CHR 0xFE], PBytes ''1''), (PBytes [CHR 0xFF], PBytes ''2'')]) =
   Inr (PDict [(PStr replacement, PStr ''2'')])"
  by (simp add: utf8_replace_def set_item_def octet_def utf8_step_def)

end
