(* ===== verification/Calls.thy ===== *)
theory Calls
  imports Decode RedisCmd
begin

text \<open>
  The frame of a command method (\<open>commands/\<close>): validate the arguments, send the command,
  convert the reply; once for the blocking class \<open>Redis\<close> (\<open>sync_op!\<close>, \<open>map_err(to_py_err)?\<close>,
  a conversion, \<open>maybe_decode\<close>) and once for the awaitable class \<open>AsyncRedis\<close>
  (\<open>async_op!\<close>, a \<open>RawResult\<close>, converted and decoded when awaited).

  \<open>server\<close> is what the connection answers to a command.  A method returns its outcome
  together with the commands it sent, so that "raises before anything is sent" can be said.
  The locale \<open>reply_pair\<close> is what the two conversions of a method owe each other.
\<close>

section \<open>Frames\<close>

text \<open>\<open>post\<close> is what the connection method makes of the typed reply, such as \<open>r == 1\<close>.\<close>

definition run_request ::
  "(redis_cmd \<Rightarrow> redis_error + 'a) \<Rightarrow> ('a \<Rightarrow> 'r) \<Rightarrow> 'r request \<Rightarrow> (redis_error + 'r) \<times> redis_cmd list" where
  "run_request server post req =
     (case req of
        Ready v \<Rightarrow> (Inr v, [])
      | Dispatch cmd \<Rightarrow> (map_sum id post (server cmd), [cmd]))"

definition sync_call ::
  "bridge_env \<Rightarrow> codec option \<Rightarrow> bool \<Rightarrow> 'k pyres \<Rightarrow> (redis_cmd \<Rightarrow> redis_error + 'a) \<Rightarrow> ('a \<Rightarrow> 'r) \<Rightarrow>
   ('k \<Rightarrow> 'r request) \<Rightarrow> ('r \<Rightarrow> pyval pyres) \<Rightarrow> pyval pyres \<times> redis_cmd list" where
  "sync_call env decode is_closed checked server post req conv =
     (case checked of
        Inl e \<Rightarrow> (Inl e, [])
      | Inr k \<Rightarrow>
          (if is_closed then (Inl closed_error, [])
           else
             (let (r, sent) = run_request server post (req k) in
              (rbind (case r of Inl e \<Rightarrow> Inl (to_py_err (pe_lookup_ok env) e) | Inr v \<Rightarrow> conv v)
                 (maybe_decode decode), sent))))"

definition async_call ::
  "bool \<Rightarrow> 'k pyres \<Rightarrow> (redis_cmd \<Rightarrow> redis_error + 'a) \<Rightarrow> ('a \<Rightarrow> 'r) \<Rightarrow> ('k \<Rightarrow> 'r request) \<Rightarrow>
   (redis_error + 'r \<Rightarrow> raw_result) \<Rightarrow> raw_result pyres \<times> redis_cmd list" where
  "async_call is_closed checked server post req raw =
     (case checked of
        Inl e \<Rightarrow> (Inl e, [])
      | Inr k \<Rightarrow>
          (if is_closed then (Inl closed_error, [])
           else (let (r, sent) = run_request server post (req k) in (Inr (raw r), sent))))"

text \<open>Calling an awaitable method and awaiting what it returns; \<open>snd r\<close> is what the call did
  to the server.\<close>

definition await_call ::
  "bridge_env \<Rightarrow> codec option \<Rightarrow> raw_result pyres \<times> 's \<Rightarrow> pyval pyres \<times> 's" where
  "await_call env decode r =
     (rbind (fst r) (\<lambda>raw. rbind (into_py env raw) (maybe_decode decode)), snd r)"

section \<open>The contract of a reply conversion\<close>

text \<open>The two conversions of a method, in one environment; most do not depend on it.\<close>

locale reply_at =
  fixes env :: bridge_env and conv :: "'r \<Rightarrow> pyval pyres" and raw :: "redis_error + 'r \<Rightarrow> raw_result"
  assumes reply_here: "into_py env (raw (Inr v)) = conv v"
    and error_here: "into_py env (raw (Inl e)) = Inl (to_py_err (pe_lookup_ok env) e)"
begin

lemma converted: "into_py env (raw r) = (case r of Inl e \<Rightarrow> Inl (to_py_err (pe_lookup_ok env) e) | Inr v \<Rightarrow> conv v)"
  by (cases r) (simp_all add: reply_here error_here)

lemma agree:
  "await_call env decode (async_call is_closed checked server post req raw) =
   sync_call env decode is_closed checked server post req conv"
  by (simp add: await_call_def async_call_def sync_call_def converted split: sum.split prod.split)

end

locale reply_pair =
  fixes conv :: "'r \<Rightarrow> pyval pyres" and raw :: "redis_error + 'r \<Rightarrow> raw_result"
  assumes raw_reply: "into_py env (raw (Inr v)) = conv v"
    and raw_error: "into_py env (raw (Inl e)) = Inl (to_py_err (pe_lookup_ok env) e)"

sublocale reply_pair < at: reply_at env conv raw for env
  by unfold_locales (simp_all add: raw_reply raw_error)

context reply_pair
begin

lemmas agree = at.agree

end

text \<open>Replies without \<open>bytes\<close>: the blocking method need not decode.\<close>

locale scalar_at = reply_at +
  assumes scalar_here: "conv v = Inr w \<Longrightarrow> decode_walk c w = Inr w"
begin

lemma decoded: "conv v = Inr w \<Longrightarrow> maybe_decode decode w = Inr w"
  by (auto simp: maybe_decode_def scalar_here split: option.splits)

lemma agree_undecoded:
  "await_call env decode (async_call is_closed checked server post req raw) =
   sync_call env None is_closed checked server post req conv"
  unfolding agree
  by (auto simp: sync_call_def rbind_def decoded split: sum.splits prod.splits)

end

locale scalar_reply = reply_pair +
  assumes scalar: "conv v = Inr w \<Longrightarrow> decode_walk c w = Inr w"

sublocale scalar_reply < scalar: scalar_at env conv raw for env
  by unfold_locales (rule scalar)

context scalar_reply
begin

lemmas agree_undecoded = scalar.agree_undecoded

end

section \<open>The reply types\<close>

definition raw_of :: "('r \<Rightarrow> typed_reply) \<Rightarrow> redis_error + 'r \<Rightarrow> raw_result" where
  "raw_of typ r = into_raw_result (map_sum id typ r)"

definition conv_unit :: "unit \<Rightarrow> pyval pyres" where "conv_unit v = Inr PNone"
definition conv_str :: "bytes \<Rightarrow> pyval pyres" where "conv_str v = Inr (PStr v)"
definition conv_f64 :: "f64 \<Rightarrow> pyval pyres" where "conv_f64 v = Inr (PFloat v)"
definition conv_bytes :: "bytes \<Rightarrow> pyval pyres" where "conv_bytes v = Inr (PBytes v)"
definition conv_opt_bytes :: "bytes option \<Rightarrow> pyval pyres" where "conv_opt_bytes v = Inr (py_opt_bytes v)"
definition conv_opt_bytes_list :: "bytes option list \<Rightarrow> pyval pyres" where
  "conv_opt_bytes_list v = Inr (PList (map py_opt_bytes v))"

lemmas conv_defs = raw_of_def into_raw_result_def conv_unit_def conv_str_def conv_f64_def
  conv_bytes_def conv_opt_bytes_def conv_opt_bytes_list_def py_int_def py_bool_def py_opt_bytes_def

interpretation int_reply: scalar_reply py_int "raw_of TI64"
  by unfold_locales (auto simp: conv_defs)

interpretation bool_reply: scalar_reply py_bool "raw_of TBool"
  by unfold_locales (auto simp: conv_defs)

interpretation unit_reply: scalar_reply conv_unit "raw_of (\<lambda>_. TUnit)"
  by unfold_locales (auto simp: conv_defs)

interpretation str_reply: scalar_reply conv_str "raw_of TString"
  by unfold_locales (auto simp: conv_defs)

interpretation f64_reply: scalar_reply conv_f64 "raw_of TF64"
  by unfold_locales (auto simp: conv_defs)

interpretation bytes_reply: reply_pair conv_bytes "raw_of TBytes"
  by unfold_locales (auto simp: conv_defs opt_py_def)

interpretation opt_bytes_reply: reply_pair conv_opt_bytes "raw_of TOptBytes"
  by unfold_locales (auto simp: conv_defs opt_py_def split: option.split)

interpretation opt_bytes_list_reply: reply_pair conv_opt_bytes_list "raw_of TOptBytesList"
  by unfold_locales (auto simp: conv_defs opt_py_def split: option.split)

end
