(* ===== verification/ConnCommands.thy ===== *)
theory ConnCommands
  imports RedisCmd
begin

text \<open>
  The command methods of \<open>ValkeyConnInner\<close> (\<open>connection.rs\<close>): strings and keys, lists,
  hashes and sets.  Every method builds one command and dispatches it; the ones that take a
  list of keys answer an empty list themselves.  \<open>is_one\<close> is the \<open>r == 1\<close> the methods
  \<open>msetnx\<close>, \<open>renamenx\<close>, \<open>copy\<close>, \<open>hset_nx\<close> and \<open>hexists\<close> make of an integer
  reply.  The reply shapes the methods take apart themselves (LMPOP, BLPOP, HGETALL) are with
  their commands, in Lists and Hashes.
\<close>

definition is_one :: "i64 \<Rightarrow> bool" where
  "is_one r \<longleftrightarrow> r = 1"

section \<open>Strings and keys\<close>

definition set_full :: "bytes \<Rightarrow> bytes \<Rightarrow> u64 option \<Rightarrow> u64 option \<Rightarrow> i64 option \<Rightarrow> i64 option \<Rightarrow> bool \<Rightarrow> bool \<Rightarrow> bool \<Rightarrow> bool \<Rightarrow> redis_cmd" where
  "set_full key val ex px exat pxat nx xx keepttl get =
     Cmd ''SET''
       ([AStr key, ABytes val] @ opt_arg ''EX'' AU64 ex @ opt_arg ''PX'' AU64 px @
        opt_arg ''EXAT'' AI64 exat @ opt_arg ''PXAT'' AI64 pxat @ flag_arg ''KEEPTTL'' keepttl @
        flag_arg ''NX'' nx @ flag_arg ''XX'' xx @ flag_arg ''GET'' get)"

definition getex :: "bytes \<Rightarrow> u64 option \<Rightarrow> u64 option \<Rightarrow> i64 option \<Rightarrow> i64 option \<Rightarrow> bool \<Rightarrow> redis_cmd" where
  "getex key ex px exat pxat persist =
     Cmd ''GETEX'' ([AStr key] @ opt_arg ''EX'' AU64 ex @ opt_arg ''PX'' AU64 px @ opt_arg ''EXAT'' AI64 exat @ opt_arg ''PXAT'' AI64 pxat @ flag_arg ''PERSIST'' persist)"

definition getdel :: "bytes \<Rightarrow> redis_cmd" where
  "getdel key =
     Cmd ''GETDEL'' ([AStr key])"

definition getrange :: "bytes \<Rightarrow> i64 \<Rightarrow> i64 \<Rightarrow> redis_cmd" where
  "getrange key start stop =
     Cmd ''GETRANGE'' ([AStr key] @ [AI64 start] @ [AI64 stop])"

definition setrange :: "bytes \<Rightarrow> i64 \<Rightarrow> bytes \<Rightarrow> redis_cmd" where
  "setrange key offset val =
     Cmd ''SETRANGE'' ([AStr key] @ [AI64 offset] @ [ABytes val])"

definition strlen :: "bytes \<Rightarrow> redis_cmd" where
  "strlen key =
     Cmd ''STRLEN'' ([AStr key])"

definition conn_append :: "bytes \<Rightarrow> bytes \<Rightarrow> redis_cmd" where
  "conn_append key val =
     Cmd ''APPEND'' ([AStr key] @ [ABytes val])"

definition mget :: "bytes list \<Rightarrow> bytes option list request" where
  "mget keys =
     (if keys = [] then Ready [] else Dispatch (Cmd ''MGET'' (map AStr keys)))"

definition mset :: "(bytes \<times> bytes) list \<Rightarrow> unit request" where
  "mset entries =
     (if entries = [] then Ready () else Dispatch (Cmd ''MSET'' (concat (map (\<lambda>(k, v). [AStr k, ABytes v]) entries))))"

definition msetnx :: "(bytes \<times> bytes) list \<Rightarrow> bool request" where
  "msetnx entries =
     (if entries = [] then Ready True else Dispatch (Cmd ''MSETNX'' (concat (map (\<lambda>(k, v). [AStr k, ABytes v]) entries))))"

definition incr :: "bytes \<Rightarrow> redis_cmd" where
  "incr key =
     Cmd ''INCR'' ([AStr key])"

definition incrby :: "bytes \<Rightarrow> i64 \<Rightarrow> redis_cmd" where
  "incrby key delta =
     Cmd ''INCRBY'' ([AStr key] @ [AI64 delta])"

definition incrbyfloat :: "bytes \<Rightarrow> f64 \<Rightarrow> redis_cmd" where
  "incrbyfloat key delta =
     Cmd ''INCRBYFLOAT'' ([AStr key] @ [AF64 delta])"

definition decr :: "bytes \<Rightarrow> redis_cmd" where
  "decr key =
     Cmd ''DECR'' ([AStr key])"

definition decrby :: "bytes \<Rightarrow> i64 \<Rightarrow> redis_cmd" where
  "decrby key delta =
     Cmd ''DECRBY'' ([AStr key] @ [AI64 delta])"

definition exists_many :: "bytes list \<Rightarrow> i64 request" where
  "exists_many keys =
     (if keys = [] then Ready 0 else Dispatch (Cmd ''EXISTS'' (map AStr keys)))"

definition unlink_many :: "bytes list \<Rightarrow> i64 request" where
  "unlink_many keys =
     (if keys = [] then Ready 0 else Dispatch (Cmd ''UNLINK'' (map AStr keys)))"

definition append_expire_flag :: "bool \<Rightarrow> bool \<Rightarrow> bool \<Rightarrow> bool \<Rightarrow> redis_arg list" where
  "append_expire_flag nx xx gt lt =
     (if nx then [AStr ''NX''] else if xx then [AStr ''XX''] else if gt then [AStr ''GT'']
      else if lt then [AStr ''LT''] else [])"

definition expire_full :: "bytes \<Rightarrow> i64 \<Rightarrow> bool \<Rightarrow> bool \<Rightarrow> bool \<Rightarrow> bool \<Rightarrow> redis_cmd" where
  "expire_full key seconds nx xx gt lt =
     Cmd ''EXPIRE'' ([AStr key, AI64 seconds] @ append_expire_flag nx xx gt lt)"

definition pexpire_full :: "bytes \<Rightarrow> i64 \<Rightarrow> bool \<Rightarrow> bool \<Rightarrow> bool \<Rightarrow> bool \<Rightarrow> redis_cmd" where
  "pexpire_full key milliseconds nx xx gt lt =
     Cmd ''PEXPIRE'' ([AStr key, AI64 milliseconds] @ append_expire_flag nx xx gt lt)"

definition expireat_full :: "bytes \<Rightarrow> i64 \<Rightarrow> bool \<Rightarrow> bool \<Rightarrow> bool \<Rightarrow> bool \<Rightarrow> redis_cmd" where
  "expireat_full key ts_seconds nx xx gt lt =
     Cmd ''EXPIREAT'' ([AStr key, AI64 ts_seconds] @ append_expire_flag nx xx gt lt)"

definition pexpireat_full :: "bytes \<Rightarrow> i64 \<Rightarrow> bool \<Rightarrow> bool \<Rightarrow> bool \<Rightarrow> bool \<Rightarrow> redis_cmd" where
  "pexpireat_full key ts_milliseconds nx xx gt lt =
     Cmd ''PEXPIREAT'' ([AStr key, AI64 ts_milliseconds] @ append_expire_flag nx xx gt lt)"

definition ttl :: "bytes \<Rightarrow> redis_cmd" where
  "ttl key =
     Cmd ''TTL'' ([AStr key])"

definition pttl :: "bytes \<Rightarrow> redis_cmd" where
  "pttl key =
     Cmd ''PTTL'' ([AStr key])"

definition expiretime :: "bytes \<Rightarrow> redis_cmd" where
  "expiretime key =
     Cmd ''EXPIRETIME'' ([AStr key])"

definition pexpiretime :: "bytes \<Rightarrow> redis_cmd" where
  "pexpiretime key =
     Cmd ''PEXPIRETIME'' ([AStr key])"

definition persist_key :: "bytes \<Rightarrow> redis_cmd" where
  "persist_key key =
     Cmd ''PERSIST'' ([AStr key])"

definition rename :: "bytes \<Rightarrow> bytes \<Rightarrow> redis_cmd" where
  "rename src dst =
     Cmd ''RENAME'' ([AStr src] @ [AStr dst])"

definition renamenx :: "bytes \<Rightarrow> bytes \<Rightarrow> redis_cmd" where
  "renamenx src dst =
     Cmd ''RENAMENX'' ([AStr src] @ [AStr dst])"

definition key_type :: "bytes \<Rightarrow> redis_cmd" where
  "key_type key =
     Cmd ''TYPE'' ([AStr key])"

definition conn_copy :: "bytes \<Rightarrow> bytes \<Rightarrow> i64 option \<Rightarrow> bool \<Rightarrow> redis_cmd" where
  "conn_copy src dst db replace =
     Cmd ''COPY'' ([AStr src] @ [AStr dst] @ opt_arg ''DB'' AI64 db @ flag_arg ''REPLACE'' replace)"

definition dump :: "bytes \<Rightarrow> redis_cmd" where
  "dump key =
     Cmd ''DUMP'' ([AStr key])"

definition restore :: "bytes \<Rightarrow> i64 \<Rightarrow> bytes \<Rightarrow> bool \<Rightarrow> bool \<Rightarrow> u64 option \<Rightarrow> u64 option \<Rightarrow> redis_cmd" where
  "restore key ttl_ms serialized replace absttl idletime frequency =
     Cmd ''RESTORE'' ([AStr key] @ [AI64 ttl_ms] @ [ABytes serialized] @ flag_arg ''REPLACE'' replace @ flag_arg ''ABSTTL'' absttl @ opt_arg ''IDLETIME'' AU64 idletime @ opt_arg ''FREQ'' AU64 frequency)"

section \<open>Lists\<close>

definition lpush :: "bytes \<Rightarrow> bytes list \<Rightarrow> redis_cmd" where
  "lpush key vals =
     Cmd ''LPUSH'' ([AStr key] @ map ABytes vals)"

definition rpush :: "bytes \<Rightarrow> bytes list \<Rightarrow> redis_cmd" where
  "rpush key vals =
     Cmd ''RPUSH'' ([AStr key] @ map ABytes vals)"

definition lpushx :: "bytes \<Rightarrow> bytes list \<Rightarrow> redis_cmd" where
  "lpushx key vals =
     Cmd ''LPUSHX'' ([AStr key] @ map ABytes vals)"

definition rpushx :: "bytes \<Rightarrow> bytes list \<Rightarrow> redis_cmd" where
  "rpushx key vals =
     Cmd ''RPUSHX'' ([AStr key] @ map ABytes vals)"

definition lpop_one :: "bytes \<Rightarrow> redis_cmd" where
  "lpop_one key =
     Cmd ''LPOP'' ([AStr key])"

definition rpop_one :: "bytes \<Rightarrow> redis_cmd" where
  "rpop_one key =
     Cmd ''RPOP'' ([AStr key])"

definition lpop_count :: "bytes \<Rightarrow> u64 \<Rightarrow> redis_cmd" where
  "lpop_count key count =
     Cmd ''LPOP'' ([AStr key] @ [AU64 count])"

definition rpop_count :: "bytes \<Rightarrow> u64 \<Rightarrow> redis_cmd" where
  "rpop_count key count =
     Cmd ''RPOP'' ([AStr key] @ [AU64 count])"

definition lrange :: "bytes \<Rightarrow> i64 \<Rightarrow> i64 \<Rightarrow> redis_cmd" where
  "lrange key start stop =
     Cmd ''LRANGE'' ([AStr key] @ [AI64 start] @ [AI64 stop])"

definition llen :: "bytes \<Rightarrow> redis_cmd" where
  "llen key =
     Cmd ''LLEN'' ([AStr key])"

definition lmove :: "bytes \<Rightarrow> bytes \<Rightarrow> bytes \<Rightarrow> bytes \<Rightarrow> redis_cmd" where
  "lmove src dst wherefrom whereto =
     Cmd ''LMOVE'' ([AStr src] @ [AStr dst] @ [AStr wherefrom] @ [AStr whereto])"

definition lpos_single :: "bytes \<Rightarrow> bytes \<Rightarrow> i64 option \<Rightarrow> i64 option \<Rightarrow> redis_cmd" where
  "lpos_single key element rank maxlen =
     Cmd ''LPOS'' ([AStr key] @ [ABytes element] @ opt_arg ''RANK'' AI64 rank @ opt_arg ''MAXLEN'' AI64 maxlen)"

definition lpos_count :: "bytes \<Rightarrow> bytes \<Rightarrow> i64 option \<Rightarrow> i64 \<Rightarrow> i64 option \<Rightarrow> redis_cmd" where
  "lpos_count key element rank count maxlen =
     Cmd ''LPOS'' ([AStr key, ABytes element] @ opt_arg ''RANK'' AI64 rank @
       [AStr ''COUNT'', AI64 count] @ opt_arg ''MAXLEN'' AI64 maxlen)"

definition lrem :: "bytes \<Rightarrow> i64 \<Rightarrow> bytes \<Rightarrow> redis_cmd" where
  "lrem key count val =
     Cmd ''LREM'' ([AStr key] @ [AI64 count] @ [ABytes val])"

definition lindex :: "bytes \<Rightarrow> i64 \<Rightarrow> redis_cmd" where
  "lindex key index =
     Cmd ''LINDEX'' ([AStr key] @ [AI64 index])"

definition lset :: "bytes \<Rightarrow> i64 \<Rightarrow> bytes \<Rightarrow> redis_cmd" where
  "lset key index val =
     Cmd ''LSET'' ([AStr key] @ [AI64 index] @ [ABytes val])"

definition linsert :: "bytes \<Rightarrow> bool \<Rightarrow> bytes \<Rightarrow> bytes \<Rightarrow> redis_cmd" where
  "linsert key before pivot val =
     Cmd ''LINSERT'' [AStr key, AStr (if before then ''BEFORE'' else ''AFTER''), ABytes pivot, ABytes val]"

definition ltrim :: "bytes \<Rightarrow> i64 \<Rightarrow> i64 \<Rightarrow> redis_cmd" where
  "ltrim key start stop =
     Cmd ''LTRIM'' ([AStr key] @ [AI64 start] @ [AI64 stop])"

definition lmpop :: "bytes list \<Rightarrow> bytes \<Rightarrow> i64 \<Rightarrow> redis_cmd" where
  "lmpop keys direction count =
     Cmd ''LMPOP'' ([AUsize (length keys)] @ map AStr keys @ [AStr direction, AStr ''COUNT'', AI64 count])"

definition blmpop :: "f64 \<Rightarrow> bytes list \<Rightarrow> bytes \<Rightarrow> i64 \<Rightarrow> redis_cmd" where
  "blmpop timeout keys direction count =
     Cmd ''BLMPOP'' ([AF64 timeout, AUsize (length keys)] @ map AStr keys @
       [AStr direction, AStr ''COUNT'', AI64 count])"

definition blmove :: "bytes \<Rightarrow> bytes \<Rightarrow> bytes \<Rightarrow> bytes \<Rightarrow> f64 \<Rightarrow> redis_cmd" where
  "blmove src dst wherefrom whereto timeout =
     Cmd ''BLMOVE'' ([AStr src] @ [AStr dst] @ [AStr wherefrom] @ [AStr whereto] @ [AF64 timeout])"

definition bpop_inner :: "bytes \<Rightarrow> bytes list \<Rightarrow> f64 \<Rightarrow> redis_cmd" where
  "bpop_inner command keys timeout =
     Cmd command (map AStr keys @ [AF64 timeout])"

definition blpop :: "bytes list \<Rightarrow> f64 \<Rightarrow> redis_cmd" where
  "blpop keys timeout =
     bpop_inner ''BLPOP'' keys timeout"

definition brpop :: "bytes list \<Rightarrow> f64 \<Rightarrow> redis_cmd" where
  "brpop keys timeout =
     bpop_inner ''BRPOP'' keys timeout"

section \<open>Hashes\<close>

definition hget :: "bytes \<Rightarrow> bytes \<Rightarrow> redis_cmd" where
  "hget key field =
     Cmd ''HGET'' ([AStr key] @ [AStr field])"

definition hget_multiple :: "bytes \<Rightarrow> bytes list \<Rightarrow> redis_cmd" where
  "hget_multiple key flds =
     Cmd ''HMGET'' ([AStr key] @ map AStr flds)"

definition hset_multiple :: "bytes \<Rightarrow> (bytes \<times> bytes) list \<Rightarrow> redis_cmd" where
  "hset_multiple key prs =
     Cmd ''HSET'' ([AStr key] @ concat (map (\<lambda>(k, v). [AStr k, ABytes v]) prs))"

definition hset_multiple_void :: "bytes \<Rightarrow> (bytes \<times> bytes) list \<Rightarrow> redis_cmd" where
  "hset_multiple_void key prs =
     Cmd ''HSET'' ([AStr key] @ concat (map (\<lambda>(k, v). [AStr k, ABytes v]) prs))"

definition hset_nx :: "bytes \<Rightarrow> bytes \<Rightarrow> bytes \<Rightarrow> redis_cmd" where
  "hset_nx key field val =
     Cmd ''HSETNX'' ([AStr key] @ [AStr field] @ [ABytes val])"

definition hgetall :: "bytes \<Rightarrow> redis_cmd" where
  "hgetall key =
     Cmd ''HGETALL'' ([AStr key])"

definition hdel :: "bytes \<Rightarrow> bytes list \<Rightarrow> redis_cmd" where
  "hdel key flds =
     Cmd ''HDEL'' ([AStr key] @ map AStr flds)"

definition hexists :: "bytes \<Rightarrow> bytes \<Rightarrow> redis_cmd" where
  "hexists key field =
     Cmd ''HEXISTS'' ([AStr key] @ [AStr field])"

definition hlen :: "bytes \<Rightarrow> redis_cmd" where
  "hlen key =
     Cmd ''HLEN'' ([AStr key])"

definition hkeys :: "bytes \<Rightarrow> redis_cmd" where
  "hkeys key =
     Cmd ''HKEYS'' ([AStr key])"

definition hvals :: "bytes \<Rightarrow> redis_cmd" where
  "hvals key =
     Cmd ''HVALS'' ([AStr key])"

definition hincrby :: "bytes \<Rightarrow> bytes \<Rightarrow> i64 \<Rightarrow> redis_cmd" where
  "hincrby key field amount =
     Cmd ''HINCRBY'' ([AStr key] @ [AStr field] @ [AI64 amount])"

definition hincrbyfloat :: "bytes \<Rightarrow> bytes \<Rightarrow> f64 \<Rightarrow> redis_cmd" where
  "hincrbyfloat key field amount =
     Cmd ''HINCRBYFLOAT'' ([AStr key] @ [AStr field] @ [AF64 amount])"

definition hrandfield_raw :: "bytes \<Rightarrow> i64 option \<Rightarrow> bool \<Rightarrow> redis_cmd" where
  "hrandfield_raw key count withvalues =
     Cmd ''HRANDFIELD'' ([AStr key] @
       (case count of Some c \<Rightarrow> AI64 c # flag_arg ''WITHVALUES'' withvalues | None \<Rightarrow> []))"

definition hscan_raw :: "bytes \<Rightarrow> u64 \<Rightarrow> bytes option \<Rightarrow> i64 option \<Rightarrow> bool \<Rightarrow> redis_cmd" where
  "hscan_raw key cursor pattern count novalues =
     Cmd ''HSCAN'' ([AStr key] @ [AU64 cursor] @ opt_arg ''MATCH'' AStr pattern @ opt_arg ''COUNT'' AI64 count @ flag_arg ''NOVALUES'' novalues)"

definition hexpire_family :: "bytes \<Rightarrow> bytes \<Rightarrow> bytes list \<Rightarrow> i64 \<Rightarrow> bytes option \<Rightarrow> redis_cmd" where
  "hexpire_family command key flds time modifier =
     Cmd command ([AStr key, AI64 time] @ opt_val AStr modifier @
       [AStr ''FIELDS'', AUsize (length flds)] @ map AStr flds)"

definition httl_family :: "bytes \<Rightarrow> bytes \<Rightarrow> bytes list \<Rightarrow> redis_cmd" where
  "httl_family command key flds =
     Cmd command ([AStr key, AStr ''FIELDS'', AUsize (length flds)] @ map AStr flds)"

section \<open>Sets\<close>

definition sadd :: "bytes \<Rightarrow> bytes list \<Rightarrow> redis_cmd" where
  "sadd key members =
     Cmd ''SADD'' ([AStr key] @ map ABytes members)"

definition srem :: "bytes \<Rightarrow> bytes list \<Rightarrow> redis_cmd" where
  "srem key members =
     Cmd ''SREM'' ([AStr key] @ map ABytes members)"

definition smembers :: "bytes \<Rightarrow> redis_cmd" where
  "smembers key =
     Cmd ''SMEMBERS'' ([AStr key])"

definition scard :: "bytes \<Rightarrow> redis_cmd" where
  "scard key =
     Cmd ''SCARD'' ([AStr key])"

definition sismember :: "bytes \<Rightarrow> bytes \<Rightarrow> redis_cmd" where
  "sismember key member =
     Cmd ''SISMEMBER'' ([AStr key] @ [ABytes member])"

definition smismember :: "bytes \<Rightarrow> bytes list \<Rightarrow> redis_cmd" where
  "smismember key members =
     Cmd ''SMISMEMBER'' ([AStr key] @ map ABytes members)"

definition spop_one :: "bytes \<Rightarrow> redis_cmd" where
  "spop_one key =
     Cmd ''SPOP'' ([AStr key])"

definition spop_count :: "bytes \<Rightarrow> i64 \<Rightarrow> redis_cmd" where
  "spop_count key count =
     Cmd ''SPOP'' ([AStr key] @ [AI64 count])"

definition srandmember_one :: "bytes \<Rightarrow> redis_cmd" where
  "srandmember_one key =
     Cmd ''SRANDMEMBER'' ([AStr key])"

definition srandmember_count :: "bytes \<Rightarrow> i64 \<Rightarrow> redis_cmd" where
  "srandmember_count key count =
     Cmd ''SRANDMEMBER'' ([AStr key] @ [AI64 count])"

definition sinter :: "bytes list \<Rightarrow> redis_cmd" where
  "sinter keys =
     Cmd ''SINTER'' (map AStr keys)"

definition sunion :: "bytes list \<Rightarrow> redis_cmd" where
  "sunion keys =
     Cmd ''SUNION'' (map AStr keys)"

definition sdiff :: "bytes list \<Rightarrow> redis_cmd" where
  "sdiff keys =
     Cmd ''SDIFF'' (map AStr keys)"

definition sinterstore :: "bytes \<Rightarrow> bytes list \<Rightarrow> redis_cmd" where
  "sinterstore destination keys =
     Cmd ''SINTERSTORE'' ([AStr destination] @ map AStr keys)"

definition sunionstore :: "bytes \<Rightarrow> bytes list \<Rightarrow> redis_cmd" where
  "sunionstore destination keys =
     Cmd ''SUNIONSTORE'' ([AStr destination] @ map AStr keys)"

definition sdiffstore :: "bytes \<Rightarrow> bytes list \<Rightarrow> redis_cmd" where
  "sdiffstore destination keys =
     Cmd ''SDIFFSTORE'' ([AStr destination] @ map AStr keys)"

definition sintercard :: "bytes list \<Rightarrow> i64 option \<Rightarrow> redis_cmd" where
  "sintercard keys limit =
     Cmd ''SINTERCARD'' ([AUsize (length keys)] @ map AStr keys @ opt_arg ''LIMIT'' AI64 limit)"

definition smove :: "bytes \<Rightarrow> bytes \<Rightarrow> bytes \<Rightarrow> redis_cmd" where
  "smove source destination member =
     Cmd ''SMOVE'' ([AStr source] @ [AStr destination] @ [ABytes member])"

definition sscan_raw :: "bytes \<Rightarrow> u64 \<Rightarrow> bytes option \<Rightarrow> i64 option \<Rightarrow> redis_cmd" where
  "sscan_raw key cursor match_pattern count =
     Cmd ''SSCAN'' ([AStr key] @ [AU64 cursor] @ opt_arg ''MATCH'' AStr match_pattern @ opt_arg ''COUNT'' AI64 count)"

end
