(* ===== verification/Strings.thy ===== *)
theory Strings
  imports Calls ConnCommands
begin

text \<open>
  The string and key commands as Python sees them (\<open>commands/strings.rs\<close>): argument
  validation and both versions of every method, in the frames of \<open>Calls\<close>.  Keyword options
  are gathered in records with the keywords' names; a \<open>HashMap\<close> argument is the list of its
  entries in the order it is iterated.
\<close>

section \<open>Arguments\<close>

text \<open>PyO3's conversion of an argument to \<open>String\<close>; the text of its \<open>TypeError\<close> is PyO3's.\<close>

definition extract_string :: "pyval \<Rightarrow> bytes pyres" where
  "extract_string v = (case v of PStr s \<Rightarrow> Inr s | _ \<Rightarrow> Inl (PyErr PyTypeError ''not a str''))"

definition flatten_mget_keys :: "pyval list \<Rightarrow> bytes list pyres" where
  "flatten_mget_keys keys =
     (case keys of
        [PList xs] \<Rightarrow> collect_res extract_string xs
      | [PTuple xs] \<Rightarrow> collect_res extract_string xs
      | _ \<Rightarrow> collect_res extract_string keys)"

definition count_set :: "bool list \<Rightarrow> nat" where
  "count_set bs = length (filter (\<lambda>b. b) bs)"

record expiry_options =
  eo_ex :: "u64 option"
  eo_px :: "u64 option"
  eo_exat :: "i64 option"
  eo_pxat :: "i64 option"

record set_options = expiry_options +
  so_nx :: bool
  so_xx :: bool
  so_keepttl :: bool
  so_get :: bool

definition ttl_set :: "'a expiry_options_scheme \<Rightarrow> nat" where
  "ttl_set opt = count_set [eo_ex opt \<noteq> None, eo_px opt \<noteq> None, eo_exat opt \<noteq> None, eo_pxat opt \<noteq> None]"

definition data_error :: "bytes \<Rightarrow> pyerr" where
  "data_error msg = PyErr DataError msg"

definition validate_set_kwargs :: "set_options \<Rightarrow> unit pyres" where
  "validate_set_kwargs opt =
     (if so_nx opt \<and> so_xx opt then Inl (data_error ''nx and xx options are mutually exclusive'')
      else if ttl_set opt > 1 then Inl (data_error ''only one of ex, px, exat, pxat may be set'')
      else if so_keepttl opt \<and> ttl_set opt > 0 then
        Inl (data_error ''keepttl is mutually exclusive with ex/px/exat/pxat'')
      else Inr ())"

definition validate_getex :: "expiry_options \<Rightarrow> bool \<Rightarrow> unit pyres" where
  "validate_getex opt persist =
     (if ttl_set opt > 1 then Inl (data_error ''only one of ex, px, exat, pxat may be set'')
      else if persist \<and> ttl_set opt > 0 then
        Inl (data_error ''persist is mutually exclusive with ex/px/exat/pxat'')
      else Inr ())"

record expire_flags =
  ef_nx :: bool
  ef_xx :: bool
  ef_gt :: bool
  ef_lt :: bool

definition validate_expire_flags :: "expire_flags \<Rightarrow> unit pyres" where
  "validate_expire_flags f =
     (if count_set [ef_nx f, ef_xx f, ef_gt f, ef_lt f] > 1
      then Inl (data_error ''at most one of nx, xx, gt, lt may be set on EXPIRE-family commands'')
      else Inr ())"

section \<open>Replies\<close>

fun set_value_to_py :: "redis_value \<Rightarrow> bool \<Rightarrow> pyval" where
  "set_value_to_py VOkay get = PBool True"
| "set_value_to_py (VSimpleString s) get =
     (if s = ''OK'' then PBool True else if get then PNone else PBool True)"
| "set_value_to_py VNil get = PNone"
| "set_value_to_py (VBulkString b) get = PBytes b"
| "set_value_to_py _ get = (if get then PNone else PBool True)"

definition set_raw_result :: "redis_error + redis_value \<Rightarrow> bool \<Rightarrow> raw_result" where
  "set_raw_result r get =
     (case r of
        Inr VOkay \<Rightarrow> RBool True
      | Inr (VSimpleString s) \<Rightarrow> if s = ''OK'' then RBool True else if get then RNil else RBool True
      | Inr VNil \<Rightarrow> RNil
      | Inr (VBulkString b) \<Rightarrow> ROptBytes (Some b)
      | Inr _ \<Rightarrow> if get then RNil else RBool True
      | Inl e \<Rightarrow> RError (classify_error e) (re_display e))"

section \<open>SET and PING\<close>

definition set_command :: "bytes \<Rightarrow> bytes \<Rightarrow> set_options \<Rightarrow> redis_cmd" where
  "set_command name val opt =
     set_full name val (eo_ex opt) (eo_px opt) (eo_exat opt) (eo_pxat opt)
       (so_nx opt) (so_xx opt) (so_keepttl opt) (so_get opt)"

definition redis_set ::
  "bridge_env \<Rightarrow> codec option \<Rightarrow> bool \<Rightarrow> (redis_cmd \<Rightarrow> redis_error + redis_value) \<Rightarrow> bytes \<Rightarrow> bytes \<Rightarrow>
   set_options \<Rightarrow> pyval pyres \<times> redis_cmd list" where
  "redis_set env decode is_closed server name val opt =
     sync_call env decode is_closed (validate_set_kwargs opt) server id
       (\<lambda>_. Dispatch (set_command name val opt)) (\<lambda>v. Inr (set_value_to_py v (so_get opt)))"

definition async_set ::
  "bool \<Rightarrow> (redis_cmd \<Rightarrow> redis_error + redis_value) \<Rightarrow> bytes \<Rightarrow> bytes \<Rightarrow> set_options \<Rightarrow>
   raw_result pyres \<times> redis_cmd list" where
  "async_set is_closed server name val opt =
     async_call is_closed (validate_set_kwargs opt) server id
       (\<lambda>_. Dispatch (set_command name val opt)) (\<lambda>r. set_raw_result r (so_get opt))"

text \<open>PING without a message reads the reply as a string, with one as bytes; \<open>text_server\<close> and
  \<open>bytes_server\<close> are the two readings.\<close>

definition redis_ping ::
  "bridge_env \<Rightarrow> codec option \<Rightarrow> bool \<Rightarrow> (redis_cmd \<Rightarrow> redis_error + bytes) \<Rightarrow> (redis_cmd \<Rightarrow> redis_error + bytes) \<Rightarrow>
   bytes option \<Rightarrow> pyval pyres \<times> redis_cmd list" where
  "redis_ping env decode is_closed text_server bytes_server message =
     (case message of
        None \<Rightarrow> sync_call env None is_closed (Inr ()) text_server id
          (\<lambda>_. Dispatch (Cmd ''PING'' [])) (\<lambda>s. py_bool (s = ''PONG''))
      | Some msg \<Rightarrow> sync_call env decode is_closed (Inr ()) bytes_server id
          (\<lambda>_. Dispatch (Cmd ''PING'' [AStr msg])) conv_bytes)"

definition async_ping ::
  "bool \<Rightarrow> (redis_cmd \<Rightarrow> redis_error + bytes) \<Rightarrow> (redis_cmd \<Rightarrow> redis_error + bytes) \<Rightarrow> bytes option \<Rightarrow>
   raw_result pyres \<times> redis_cmd list" where
  "async_ping is_closed text_server bytes_server message =
     (case message of
        None \<Rightarrow> async_call is_closed (Inr ()) text_server id
          (\<lambda>_. Dispatch (Cmd ''PING'' [])) (raw_of (\<lambda>s. TBool (s = ''PONG'')))
      | Some msg \<Rightarrow> async_call is_closed (Inr ()) bytes_server id
          (\<lambda>_. Dispatch (Cmd ''PING'' [AStr msg])) (raw_of TBytes))"

section \<open>The other methods\<close>

definition redis_get ::
  "bridge_env \<Rightarrow> codec option \<Rightarrow> bool \<Rightarrow> (redis_cmd \<Rightarrow> redis_error + bytes option) \<Rightarrow> bytes \<Rightarrow> pyval pyres \<times> redis_cmd list" where
  "redis_get env decode is_closed server key =
     sync_call env decode is_closed (Inr ()) server id
       (\<lambda>_. Dispatch (Cmd ''GET'' [AStr key])) conv_opt_bytes"

definition async_get ::
  "bool \<Rightarrow> (redis_cmd \<Rightarrow> redis_error + bytes option) \<Rightarrow> bytes \<Rightarrow> raw_result pyres \<times> redis_cmd list" where
  "async_get is_closed server key =
     async_call is_closed (Inr ()) server id
       (\<lambda>_. Dispatch (Cmd ''GET'' [AStr key])) (raw_of TOptBytes)"

definition redis_getex ::
  "bridge_env \<Rightarrow> codec option \<Rightarrow> bool \<Rightarrow> (redis_cmd \<Rightarrow> redis_error + bytes option) \<Rightarrow> bytes \<Rightarrow> expiry_options \<Rightarrow> bool \<Rightarrow> pyval pyres \<times> redis_cmd list" where
  "redis_getex env decode is_closed server name opt persist =
     sync_call env decode is_closed (validate_getex opt persist) server id
       (\<lambda>_. Dispatch (getex name (eo_ex opt) (eo_px opt) (eo_exat opt) (eo_pxat opt) persist)) conv_opt_bytes"

definition async_getex ::
  "bool \<Rightarrow> (redis_cmd \<Rightarrow> redis_error + bytes option) \<Rightarrow> bytes \<Rightarrow> expiry_options \<Rightarrow> bool \<Rightarrow> raw_result pyres \<times> redis_cmd list" where
  "async_getex is_closed server name opt persist =
     async_call is_closed (validate_getex opt persist) server id
       (\<lambda>_. Dispatch (getex name (eo_ex opt) (eo_px opt) (eo_exat opt) (eo_pxat opt) persist)) (raw_of TOptBytes)"

definition redis_getdel ::
  "bridge_env \<Rightarrow> codec option \<Rightarrow> bool \<Rightarrow> (redis_cmd \<Rightarrow> redis_error + bytes option) \<Rightarrow> bytes \<Rightarrow> pyval pyres \<times> redis_cmd list" where
  "redis_getdel env decode is_closed server name =
     sync_call env decode is_closed (Inr ()) server id
       (\<lambda>_. Dispatch (getdel name)) conv_opt_bytes"

definition async_getdel ::
  "bool \<Rightarrow> (redis_cmd \<Rightarrow> redis_error + bytes option) \<Rightarrow> bytes \<Rightarrow> raw_result pyres \<times> redis_cmd list" where
  "async_getdel is_closed server name =
     async_call is_closed (Inr ()) server id
       (\<lambda>_. Dispatch (getdel name)) (raw_of TOptBytes)"

definition redis_getrange ::
  "bridge_env \<Rightarrow> codec option \<Rightarrow> bool \<Rightarrow> (redis_cmd \<Rightarrow> redis_error + bytes) \<Rightarrow> bytes \<Rightarrow> i64 \<Rightarrow> i64 \<Rightarrow> pyval pyres \<times> redis_cmd list" where
  "redis_getrange env decode is_closed server name start stop =
     sync_call env decode is_closed (Inr ()) server id
       (\<lambda>_. Dispatch (getrange name start stop)) conv_bytes"

definition async_getrange ::
  "bool \<Rightarrow> (redis_cmd \<Rightarrow> redis_error + bytes) \<Rightarrow> bytes \<Rightarrow> i64 \<Rightarrow> i64 \<Rightarrow> raw_result pyres \<times> redis_cmd list" where
  "async_getrange is_closed server name start stop =
     async_call is_closed (Inr ()) server id
       (\<lambda>_. Dispatch (getrange name start stop)) (raw_of TBytes)"

definition redis_setrange ::
  "bridge_env \<Rightarrow> codec option \<Rightarrow> bool \<Rightarrow> (redis_cmd \<Rightarrow> redis_error + i64) \<Rightarrow> bytes \<Rightarrow> i64 \<Rightarrow> bytes \<Rightarrow> pyval pyres \<times> redis_cmd list" where
  "redis_setrange env decode is_closed server name offset val =
     sync_call env None is_closed (Inr ()) server id
       (\<lambda>_. Dispatch (setrange name offset val)) py_int"

definition async_setrange ::
  "bool \<Rightarrow> (redis_cmd \<Rightarrow> redis_error + i64) \<Rightarrow> bytes \<Rightarrow> i64 \<Rightarrow> bytes \<Rightarrow> raw_result pyres \<times> redis_cmd list" where
  "async_setrange is_closed server name offset val =
     async_call is_closed (Inr ()) server id
       (\<lambda>_. Dispatch (setrange name offset val)) (raw_of TI64)"

definition redis_strlen ::
  "bridge_env \<Rightarrow> codec option \<Rightarrow> bool \<Rightarrow> (redis_cmd \<Rightarrow> redis_error + i64) \<Rightarrow> bytes \<Rightarrow> pyval pyres \<times> redis_cmd list" where
  "redis_strlen env decode is_closed server name =
     sync_call env None is_closed (Inr ()) server id
       (\<lambda>_. Dispatch (strlen name)) py_int"

definition async_strlen ::
  "bool \<Rightarrow> (redis_cmd \<Rightarrow> redis_error + i64) \<Rightarrow> bytes \<Rightarrow> raw_result pyres \<times> redis_cmd list" where
  "async_strlen is_closed server name =
     async_call is_closed (Inr ()) server id
       (\<lambda>_. Dispatch (strlen name)) (raw_of TI64)"

definition redis_append ::
  "bridge_env \<Rightarrow> codec option \<Rightarrow> bool \<Rightarrow> (redis_cmd \<Rightarrow> redis_error + i64) \<Rightarrow> bytes \<Rightarrow> bytes \<Rightarrow> pyval pyres \<times> redis_cmd list" where
  "redis_append env decode is_closed server name val =
     sync_call env None is_closed (Inr ()) server id
       (\<lambda>_. Dispatch (conn_append name val)) py_int"

definition async_append ::
  "bool \<Rightarrow> (redis_cmd \<Rightarrow> redis_error + i64) \<Rightarrow> bytes \<Rightarrow> bytes \<Rightarrow> raw_result pyres \<times> redis_cmd list" where
  "async_append is_closed server name val =
     async_call is_closed (Inr ()) server id
       (\<lambda>_. Dispatch (conn_append name val)) (raw_of TI64)"

definition redis_mget ::
  "bridge_env \<Rightarrow> codec option \<Rightarrow> bool \<Rightarrow> (redis_cmd \<Rightarrow> redis_error + bytes option list) \<Rightarrow> pyval list \<Rightarrow> pyval pyres \<times> redis_cmd list" where
  "redis_mget env decode is_closed server keys =
     sync_call env decode is_closed (flatten_mget_keys keys) server id
       (\<lambda>key_strs. mget key_strs) conv_opt_bytes_list"

definition async_mget ::
  "bool \<Rightarrow> (redis_cmd \<Rightarrow> redis_error + bytes option list) \<Rightarrow> pyval list \<Rightarrow> raw_result pyres \<times> redis_cmd list" where
  "async_mget is_closed server keys =
     async_call is_closed (flatten_mget_keys keys) server id
       (\<lambda>key_strs. mget key_strs) (raw_of TOptBytesList)"

definition redis_mset ::
  "bridge_env \<Rightarrow> codec option \<Rightarrow> bool \<Rightarrow> (redis_cmd \<Rightarrow> redis_error + unit) \<Rightarrow> ((bytes \<times> bytes) list) \<Rightarrow> pyval pyres \<times> redis_cmd list" where
  "redis_mset env decode is_closed server entries =
     sync_call env None is_closed (Inr ()) server id
       (\<lambda>_. mset entries) conv_unit"

definition async_mset ::
  "bool \<Rightarrow> (redis_cmd \<Rightarrow> redis_error + unit) \<Rightarrow> ((bytes \<times> bytes) list) \<Rightarrow> raw_result pyres \<times> redis_cmd list" where
  "async_mset is_closed server entries =
     async_call is_closed (Inr ()) server id
       (\<lambda>_. mset entries) (raw_of (\<lambda>_. TUnit))"

definition redis_msetnx ::
  "bridge_env \<Rightarrow> codec option \<Rightarrow> bool \<Rightarrow> (redis_cmd \<Rightarrow> redis_error + i64) \<Rightarrow> ((bytes \<times> bytes) list) \<Rightarrow> pyval pyres \<times> redis_cmd list" where
  "redis_msetnx env decode is_closed server entries =
     sync_call env None is_closed (Inr ()) server is_one
       (\<lambda>_. msetnx entries) py_bool"

definition async_msetnx ::
  "bool \<Rightarrow> (redis_cmd \<Rightarrow> redis_error + i64) \<Rightarrow> ((bytes \<times> bytes) list) \<Rightarrow> raw_result pyres \<times> redis_cmd list" where
  "async_msetnx is_closed server entries =
     async_call is_closed (Inr ()) server is_one
       (\<lambda>_. msetnx entries) (raw_of TBool)"

definition redis_incr ::
  "bridge_env \<Rightarrow> codec option \<Rightarrow> bool \<Rightarrow> (redis_cmd \<Rightarrow> redis_error + i64) \<Rightarrow> bytes \<Rightarrow> pyval pyres \<times> redis_cmd list" where
  "redis_incr env decode is_closed server name =
     sync_call env None is_closed (Inr ()) server id
       (\<lambda>_. Dispatch (incr name)) py_int"

definition async_incr ::
  "bool \<Rightarrow> (redis_cmd \<Rightarrow> redis_error + i64) \<Rightarrow> bytes \<Rightarrow> raw_result pyres \<times> redis_cmd list" where
  "async_incr is_closed server name =
     async_call is_closed (Inr ()) server id
       (\<lambda>_. Dispatch (incr name)) (raw_of TI64)"

definition redis_incrby ::
  "bridge_env \<Rightarrow> codec option \<Rightarrow> bool \<Rightarrow> (redis_cmd \<Rightarrow> redis_error + i64) \<Rightarrow> bytes \<Rightarrow> i64 \<Rightarrow> pyval pyres \<times> redis_cmd list" where
  "redis_incrby env decode is_closed server name amount =
     sync_call env None is_closed (Inr ()) server id
       (\<lambda>_. Dispatch (incrby name amount)) py_int"

definition async_incrby ::
  "bool \<Rightarrow> (redis_cmd \<Rightarrow> redis_error + i64) \<Rightarrow> bytes \<Rightarrow> i64 \<Rightarrow> raw_result pyres \<times> redis_cmd list" where
  "async_incrby is_closed server name amount =
     async_call is_closed (Inr ()) server id
       (\<lambda>_. Dispatch (incrby name amount)) (raw_of TI64)"

definition redis_incrbyfloat ::
  "bridge_env \<Rightarrow> codec option \<Rightarrow> bool \<Rightarrow> (redis_cmd \<Rightarrow> redis_error + f64) \<Rightarrow> bytes \<Rightarrow> f64 \<Rightarrow> pyval pyres \<times> redis_cmd list" where
  "redis_incrbyfloat env decode is_closed server name amount =
     sync_call env None is_closed (Inr ()) server id
       (\<lambda>_. Dispatch (incrbyfloat name amount)) conv_f64"

definition async_incrbyfloat ::
  "bool \<Rightarrow> (redis_cmd \<Rightarrow> redis_error + f64) \<Rightarrow> bytes \<Rightarrow> f64 \<Rightarrow> raw_result pyres \<times> redis_cmd list" where
  "async_incrbyfloat is_closed server name amount =
     async_call is_closed (Inr ()) server id
       (\<lambda>_. Dispatch (incrbyfloat name amount)) (raw_of TF64)"

definition redis_decr ::
  "bridge_env \<Rightarrow> codec option \<Rightarrow> bool \<Rightarrow> (redis_cmd \<Rightarrow> redis_error + i64) \<Rightarrow> bytes \<Rightarrow> pyval pyres \<times> redis_cmd list" where
  "redis_decr env decode is_closed server name =
     sync_call env None is_closed (Inr ()) server id
       (\<lambda>_. Dispatch (decr name)) py_int"

definition async_decr ::
  "bool \<Rightarrow> (redis_cmd \<Rightarrow> redis_error + i64) \<Rightarrow> bytes \<Rightarrow> raw_result pyres \<times> redis_cmd list" where
  "async_decr is_closed server name =
     async_call is_closed (Inr ()) server id
       (\<lambda>_. Dispatch (decr name)) (raw_of TI64)"

definition redis_decrby ::
  "bridge_env \<Rightarrow> codec option \<Rightarrow> bool \<Rightarrow> (redis_cmd \<Rightarrow> redis_error + i64) \<Rightarrow> bytes \<Rightarrow> i64 \<Rightarrow> pyval pyres \<times> redis_cmd list" where
  "redis_decrby env decode is_closed server name amount =
     sync_call env None is_closed (Inr ()) server id
       (\<lambda>_. Dispatch (decrby name amount)) py_int"

definition async_decrby ::
  "bool \<Rightarrow> (redis_cmd \<Rightarrow> redis_error + i64) \<Rightarrow> bytes \<Rightarrow> i64 \<Rightarrow> raw_result pyres \<times> redis_cmd list" where
  "async_decrby is_closed server name amount =
     async_call is_closed (Inr ()) server id
       (\<lambda>_. Dispatch (decrby name amount)) (raw_of TI64)"

definition redis_delete ::
  "bridge_env \<Rightarrow> codec option \<Rightarrow> bool \<Rightarrow> (redis_cmd \<Rightarrow> redis_error + i64) \<Rightarrow> bytes list \<Rightarrow> pyval pyres \<times> redis_cmd list" where
  "redis_delete env decode is_closed server names =
     (if names = [] then (py_int 0, [])
      else sync_call env None is_closed (Inr ()) server id (\<lambda>_. Dispatch (Cmd ''DEL'' (map AStr names))) py_int)"

definition async_delete ::
  "bool \<Rightarrow> (redis_cmd \<Rightarrow> redis_error + i64) \<Rightarrow> bytes list \<Rightarrow> raw_result pyres \<times> redis_cmd list" where
  "async_delete is_closed server names =
     async_call is_closed (Inr ()) server id
       (\<lambda>_. if names = [] then Ready 0 else Dispatch (Cmd ''DEL'' (map AStr names))) (raw_of TI64)"

definition redis_exists ::
  "bridge_env \<Rightarrow> codec option \<Rightarrow> bool \<Rightarrow> (redis_cmd \<Rightarrow> redis_error + i64) \<Rightarrow> bytes list \<Rightarrow> pyval pyres \<times> redis_cmd list" where
  "redis_exists env decode is_closed server names =
     (if names = [] then (py_int 0, [])
      else sync_call env None is_closed (Inr ()) server id (\<lambda>_. exists_many names) py_int)"

definition async_exists ::
  "bool \<Rightarrow> (redis_cmd \<Rightarrow> redis_error + i64) \<Rightarrow> bytes list \<Rightarrow> raw_result pyres \<times> redis_cmd list" where
  "async_exists is_closed server names =
     async_call is_closed (Inr ()) server id
       (\<lambda>_. if names = [] then Ready 0 else exists_many names) (raw_of TI64)"

definition redis_unlink ::
  "bridge_env \<Rightarrow> codec option \<Rightarrow> bool \<Rightarrow> (redis_cmd \<Rightarrow> redis_error + i64) \<Rightarrow> bytes list \<Rightarrow> pyval pyres \<times> redis_cmd list" where
  "redis_unlink env decode is_closed server names =
     (if names = [] then (py_int 0, [])
      else sync_call env None is_closed (Inr ()) server id (\<lambda>_. unlink_many names) py_int)"

definition async_unlink ::
  "bool \<Rightarrow> (redis_cmd \<Rightarrow> redis_error + i64) \<Rightarrow> bytes list \<Rightarrow> raw_result pyres \<times> redis_cmd list" where
  "async_unlink is_closed server names =
     async_call is_closed (Inr ()) server id
       (\<lambda>_. if names = [] then Ready 0 else unlink_many names) (raw_of TI64)"

definition redis_expire ::
  "bridge_env \<Rightarrow> codec option \<Rightarrow> bool \<Rightarrow> (redis_cmd \<Rightarrow> redis_error + bool) \<Rightarrow> bytes \<Rightarrow> i64 \<Rightarrow> expire_flags \<Rightarrow> pyval pyres \<times> redis_cmd list" where
  "redis_expire env decode is_closed server name time fl =
     sync_call env None is_closed (validate_expire_flags fl) server id
       (\<lambda>_. Dispatch (expire_full name time (ef_nx fl) (ef_xx fl) (ef_gt fl) (ef_lt fl))) py_bool"

definition async_expire ::
  "bool \<Rightarrow> (redis_cmd \<Rightarrow> redis_error + bool) \<Rightarrow> bytes \<Rightarrow> i64 \<Rightarrow> expire_flags \<Rightarrow> raw_result pyres \<times> redis_cmd list" where
  "async_expire is_closed server name time fl =
     async_call is_closed (validate_expire_flags fl) server id
       (\<lambda>_. Dispatch (expire_full name time (ef_nx fl) (ef_xx fl) (ef_gt fl) (ef_lt fl))) (raw_of TBool)"

definition redis_pexpire ::
  "bridge_env \<Rightarrow> codec option \<Rightarrow> bool \<Rightarrow> (redis_cmd \<Rightarrow> redis_error + bool) \<Rightarrow> bytes \<Rightarrow> i64 \<Rightarrow> expire_flags \<Rightarrow> pyval pyres \<times> redis_cmd list" where
  "redis_pexpire env decode is_closed server name time fl =
     sync_call env None is_closed (validate_expire_flags fl) server id
       (\<lambda>_. Dispatch (pexpire_full name time (ef_nx fl) (ef_xx fl) (ef_gt fl) (ef_lt fl))) py_bool"

definition async_pexpire ::
  "bool \<Rightarrow> (redis_cmd \<Rightarrow> redis_error + bool) \<Rightarrow> bytes \<Rightarrow> i64 \<Rightarrow> expire_flags \<Rightarrow> raw_result pyres \<times> redis_cmd list" where
  "async_pexpire is_closed server name time fl =
     async_call is_closed (validate_expire_flags fl) server id
       (\<lambda>_. Dispatch (pexpire_full name time (ef_nx fl) (ef_xx fl) (ef_gt fl) (ef_lt fl))) (raw_of TBool)"

definition redis_expireat ::
  "bridge_env \<Rightarrow> codec option \<Rightarrow> bool \<Rightarrow> (redis_cmd \<Rightarrow> redis_error + bool) \<Rightarrow> bytes \<Rightarrow> i64 \<Rightarrow> expire_flags \<Rightarrow> pyval pyres \<times> redis_cmd list" where
  "redis_expireat env decode is_closed server name time fl =
     sync_call env None is_closed (validate_expire_flags fl) server id
       (\<lambda>_. Dispatch (expireat_full name time (ef_nx fl) (ef_xx fl) (ef_gt fl) (ef_lt fl))) py_bool"

definition async_expireat ::
  "bool \<Rightarrow> (redis_cmd \<Rightarrow> redis_error + bool) \<Rightarrow> bytes \<Rightarrow> i64 \<Rightarrow> expire_flags \<Rightarrow> raw_result pyres \<times> redis_cmd list" where
  "async_expireat is_closed server name time fl =
     async_call is_closed (validate_expire_flags fl) server id
       (\<lambda>_. Dispatch (expireat_full name time (ef_nx fl) (ef_xx fl) (ef_gt fl) (ef_lt fl))) (raw_of TBool)"

definition redis_pexpireat ::
  "bridge_env \<Rightarrow> codec option \<Rightarrow> bool \<Rightarrow> (redis_cmd \<Rightarrow> redis_error + bool) \<Rightarrow> bytes \<Rightarrow> i64 \<Rightarrow> expire_flags \<Rightarrow> pyval pyres \<times> redis_cmd list" where
  "redis_pexpireat env decode is_closed server name time fl =
     sync_call env None is_closed (validate_expire_flags fl) server id
       (\<lambda>_. Dispatch (pexpireat_full name time (ef_nx fl) (ef_xx fl) (ef_gt fl) (ef_lt fl))) py_bool"

definition async_pexpireat ::
  "bool \<Rightarrow> (redis_cmd \<Rightarrow> redis_error + bool) \<Rightarrow> bytes \<Rightarrow> i64 \<Rightarrow> expire_flags \<Rightarrow> raw_result pyres \<times> redis_cmd list" where
  "async_pexpireat is_closed server name time fl =
     async_call is_closed (validate_expire_flags fl) server id
       (\<lambda>_. Dispatch (pexpireat_full name time (ef_nx fl) (ef_xx fl) (ef_gt fl) (ef_lt fl))) (raw_of TBool)"

definition redis_ttl ::
  "bridge_env \<Rightarrow> codec option \<Rightarrow> bool \<Rightarrow> (redis_cmd \<Rightarrow> redis_error + i64) \<Rightarrow> bytes \<Rightarrow> pyval pyres \<times> redis_cmd list" where
  "redis_ttl env decode is_closed server name =
     sync_call env None is_closed (Inr ()) server id
       (\<lambda>_. Dispatch (ttl name)) py_int"

definition async_ttl ::
  "bool \<Rightarrow> (redis_cmd \<Rightarrow> redis_error + i64) \<Rightarrow> bytes \<Rightarrow> raw_result pyres \<times> redis_cmd list" where
  "async_ttl is_closed server name =
     async_call is_closed (Inr ()) server id
       (\<lambda>_. Dispatch (ttl name)) (raw_of TI64)"

definition redis_pttl ::
  "bridge_env \<Rightarrow> codec option \<Rightarrow> bool \<Rightarrow> (redis_cmd \<Rightarrow> redis_error + i64) \<Rightarrow> bytes \<Rightarrow> pyval pyres \<times> redis_cmd list" where
  "redis_pttl env decode is_closed server name =
     sync_call env None is_closed (Inr ()) server id
       (\<lambda>_. Dispatch (pttl name)) py_int"

definition async_pttl ::
  "bool \<Rightarrow> (redis_cmd \<Rightarrow> redis_error + i64) \<Rightarrow> bytes \<Rightarrow> raw_result pyres \<times> redis_cmd list" where
  "async_pttl is_closed server name =
     async_call is_closed (Inr ()) server id
       (\<lambda>_. Dispatch (pttl name)) (raw_of TI64)"

definition redis_expiretime ::
  "bridge_env \<Rightarrow> codec option \<Rightarrow> bool \<Rightarrow> (redis_cmd \<Rightarrow> redis_error + i64) \<Rightarrow> bytes \<Rightarrow> pyval pyres \<times> redis_cmd list" where
  "redis_expiretime env decode is_closed server name =
     sync_call env None is_closed (Inr ()) server id
       (\<lambda>_. Dispatch (expiretime name)) py_int"

definition async_expiretime ::
  "bool \<Rightarrow> (redis_cmd \<Rightarrow> redis_error + i64) \<Rightarrow> bytes \<Rightarrow> raw_result pyres \<times> redis_cmd list" where
  "async_expiretime is_closed server name =
     async_call is_closed (Inr ()) server id
       (\<lambda>_. Dispatch (expiretime name)) (raw_of TI64)"

definition redis_pexpiretime ::
  "bridge_env \<Rightarrow> codec option \<Rightarrow> bool \<Rightarrow> (redis_cmd \<Rightarrow> redis_error + i64) \<Rightarrow> bytes \<Rightarrow> pyval pyres \<times> redis_cmd list" where
  "redis_pexpiretime env decode is_closed server name =
     sync_call env None is_closed (Inr ()) server id
       (\<lambda>_. Dispatch (pexpiretime name)) py_int"

definition async_pexpiretime ::
  "bool \<Rightarrow> (redis_cmd \<Rightarrow> redis_error + i64) \<Rightarrow> bytes \<Rightarrow> raw_result pyres \<times> redis_cmd list" where
  "async_pexpiretime is_closed server name =
     async_call is_closed (Inr ()) server id
       (\<lambda>_. Dispatch (pexpiretime name)) (raw_of TI64)"

definition redis_persist ::
  "bridge_env \<Rightarrow> codec option \<Rightarrow> bool \<Rightarrow> (redis_cmd \<Rightarrow> redis_error + bool) \<Rightarrow> bytes \<Rightarrow> pyval pyres \<times> redis_cmd list" where
  "redis_persist env decode is_closed server name =
     sync_call env None is_closed (Inr ()) server id
       (\<lambda>_. Dispatch (persist_key name)) py_bool"

definition async_persist ::
  "bool \<Rightarrow> (redis_cmd \<Rightarrow> redis_error + bool) \<Rightarrow> bytes \<Rightarrow> raw_result pyres \<times> redis_cmd list" where
  "async_persist is_closed server name =
     async_call is_closed (Inr ()) server id
       (\<lambda>_. Dispatch (persist_key name)) (raw_of TBool)"

definition redis_rename ::
  "bridge_env \<Rightarrow> codec option \<Rightarrow> bool \<Rightarrow> (redis_cmd \<Rightarrow> redis_error + unit) \<Rightarrow> bytes \<Rightarrow> bytes \<Rightarrow> pyval pyres \<times> redis_cmd list" where
  "redis_rename env decode is_closed server src dst =
     sync_call env None is_closed (Inr ()) server id
       (\<lambda>_. Dispatch (rename src dst)) conv_unit"

definition async_rename ::
  "bool \<Rightarrow> (redis_cmd \<Rightarrow> redis_error + unit) \<Rightarrow> bytes \<Rightarrow> bytes \<Rightarrow> raw_result pyres \<times> redis_cmd list" where
  "async_rename is_closed server src dst =
     async_call is_closed (Inr ()) server id
       (\<lambda>_. Dispatch (rename src dst)) (raw_of (\<lambda>_. TUnit))"

definition redis_renamenx ::
  "bridge_env \<Rightarrow> codec option \<Rightarrow> bool \<Rightarrow> (redis_cmd \<Rightarrow> redis_error + i64) \<Rightarrow> bytes \<Rightarrow> bytes \<Rightarrow> pyval pyres \<times> redis_cmd list" where
  "redis_renamenx env decode is_closed server src dst =
     sync_call env None is_closed (Inr ()) server is_one
       (\<lambda>_. Dispatch (renamenx src dst)) py_bool"

definition async_renamenx ::
  "bool \<Rightarrow> (redis_cmd \<Rightarrow> redis_error + i64) \<Rightarrow> bytes \<Rightarrow> bytes \<Rightarrow> raw_result pyres \<times> redis_cmd list" where
  "async_renamenx is_closed server src dst =
     async_call is_closed (Inr ()) server is_one
       (\<lambda>_. Dispatch (renamenx src dst)) (raw_of TBool)"

definition redis_key_type ::
  "bridge_env \<Rightarrow> codec option \<Rightarrow> bool \<Rightarrow> (redis_cmd \<Rightarrow> redis_error + bytes) \<Rightarrow> bytes \<Rightarrow> pyval pyres \<times> redis_cmd list" where
  "redis_key_type env decode is_closed server name =
     sync_call env None is_closed (Inr ()) server id
       (\<lambda>_. Dispatch (key_type name)) conv_str"

definition async_key_type ::
  "bool \<Rightarrow> (redis_cmd \<Rightarrow> redis_error + bytes) \<Rightarrow> bytes \<Rightarrow> raw_result pyres \<times> redis_cmd list" where
  "async_key_type is_closed server name =
     async_call is_closed (Inr ()) server id
       (\<lambda>_. Dispatch (key_type name)) (raw_of TString)"

text \<open>\<open>type\<close> is the same method under redis-py's name.\<close>

definition redis_type ::
  "bridge_env \<Rightarrow> codec option \<Rightarrow> bool \<Rightarrow> (redis_cmd \<Rightarrow> redis_error + bytes) \<Rightarrow> bytes \<Rightarrow> pyval pyres \<times> redis_cmd list" where
  "redis_type env decode is_closed server name =
     sync_call env None is_closed (Inr ()) server id
       (\<lambda>_. Dispatch (key_type name)) conv_str"

definition async_type ::
  "bool \<Rightarrow> (redis_cmd \<Rightarrow> redis_error + bytes) \<Rightarrow> bytes \<Rightarrow> raw_result pyres \<times> redis_cmd list" where
  "async_type is_closed server name =
     async_call is_closed (Inr ()) server id
       (\<lambda>_. Dispatch (key_type name)) (raw_of TString)"

definition redis_copy ::
  "bridge_env \<Rightarrow> codec option \<Rightarrow> bool \<Rightarrow> (redis_cmd \<Rightarrow> redis_error + i64) \<Rightarrow> bytes \<Rightarrow> bytes \<Rightarrow> i64 option \<Rightarrow> bool \<Rightarrow> pyval pyres \<times> redis_cmd list" where
  "redis_copy env decode is_closed server source destination db replace =
     sync_call env None is_closed (Inr ()) server is_one
       (\<lambda>_. Dispatch (conn_copy source destination db replace)) py_bool"

definition async_copy ::
  "bool \<Rightarrow> (redis_cmd \<Rightarrow> redis_error + i64) \<Rightarrow> bytes \<Rightarrow> bytes \<Rightarrow> i64 option \<Rightarrow> bool \<Rightarrow> raw_result pyres \<times> redis_cmd list" where
  "async_copy is_closed server source destination db replace =
     async_call is_closed (Inr ()) server is_one
       (\<lambda>_. Dispatch (conn_copy source destination db replace)) (raw_of TBool)"

definition redis_dump ::
  "bridge_env \<Rightarrow> codec option \<Rightarrow> bool \<Rightarrow> (redis_cmd \<Rightarrow> redis_error + bytes option) \<Rightarrow> bytes \<Rightarrow> pyval pyres \<times> redis_cmd list" where
  "redis_dump env decode is_closed server name =
     sync_call env decode is_closed (Inr ()) server id
       (\<lambda>_. Dispatch (dump name)) conv_opt_bytes"

definition async_dump ::
  "bool \<Rightarrow> (redis_cmd \<Rightarrow> redis_error + bytes option) \<Rightarrow> bytes \<Rightarrow> raw_result pyres \<times> redis_cmd list" where
  "async_dump is_closed server name =
     async_call is_closed (Inr ()) server id
       (\<lambda>_. Dispatch (dump name)) (raw_of TOptBytes)"

definition redis_restore ::
  "bridge_env \<Rightarrow> codec option \<Rightarrow> bool \<Rightarrow> (redis_cmd \<Rightarrow> redis_error + unit) \<Rightarrow> bytes \<Rightarrow> i64 \<Rightarrow> bytes \<Rightarrow> bool \<Rightarrow> bool \<Rightarrow> u64 option \<Rightarrow> u64 option \<Rightarrow> pyval pyres \<times> redis_cmd list" where
  "redis_restore env decode is_closed server name ttl_ms val replace absttl idletime frequency =
     sync_call env None is_closed (Inr ()) server (\<lambda>_. True)
       (\<lambda>_. Dispatch (restore name ttl_ms val replace absttl idletime frequency)) py_bool"

definition async_restore ::
  "bool \<Rightarrow> (redis_cmd \<Rightarrow> redis_error + unit) \<Rightarrow> bytes \<Rightarrow> i64 \<Rightarrow> bytes \<Rightarrow> bool \<Rightarrow> bool \<Rightarrow> u64 option \<Rightarrow> u64 option \<Rightarrow> raw_result pyres \<times> redis_cmd list" where
  "async_restore is_closed server name ttl_ms val replace absttl idletime frequency =
     async_call is_closed (Inr ()) server (\<lambda>_. True)
       (\<lambda>_. Dispatch (restore name ttl_ms val replace absttl idletime frequency)) (raw_of TBool)"

section \<open>Both versions agree\<close>

lemma set_conversions_agree: "into_py env (set_raw_result r get) =
  (case r of Inl e \<Rightarrow> Inl (to_py_err (pe_lookup_ok env) e) | Inr v \<Rightarrow> Inr (set_value_to_py v get))"
proof (cases r)
  case (Inl e)
  then show ?thesis by (simp add: set_raw_result_def to_py_err_def)
next
  case (Inr v)
  then show ?thesis by (cases v) (auto simp: set_raw_result_def opt_py_def)
qed

interpretation set_reply: reply_pair "\<lambda>v. Inr (set_value_to_py v get)" "\<lambda>r. set_raw_result r get" for get
  by unfold_locales (simp_all add: set_conversions_agree)

interpretation pong_reply: scalar_reply "\<lambda>s. py_bool (s = ''PONG'')" "raw_of (\<lambda>s. TBool (s = ''PONG''))"
  by unfold_locales (auto simp: conv_defs)

lemmas replies_agree =
  set_reply.agree pong_reply.agree_undecoded int_reply.agree_undecoded bool_reply.agree_undecoded
  unit_reply.agree_undecoded str_reply.agree_undecoded f64_reply.agree_undecoded bytes_reply.agree
  opt_bytes_reply.agree opt_bytes_list_reply.agree

lemmas string_method_defs =
  redis_set_def async_set_def redis_ping_def async_ping_def redis_get_def async_get_def
  redis_getex_def async_getex_def redis_getdel_def async_getdel_def redis_getrange_def async_getrange_def
  redis_setrange_def async_setrange_def redis_strlen_def async_strlen_def redis_append_def async_append_def
  redis_mget_def async_mget_def redis_mset_def async_mset_def redis_msetnx_def async_msetnx_def
  redis_incr_def async_incr_def redis_incrby_def async_incrby_def redis_incrbyfloat_def async_incrbyfloat_def
  redis_decr_def async_decr_def redis_decrby_def async_decrby_def redis_expire_def async_expire_def
  redis_pexpire_def async_pexpire_def redis_expireat_def async_expireat_def redis_pexpireat_def async_pexpireat_def
  redis_ttl_def async_ttl_def redis_pttl_def async_pttl_def redis_expiretime_def async_expiretime_def
  redis_pexpiretime_def async_pexpiretime_def redis_persist_def async_persist_def redis_rename_def async_rename_def
  redis_renamenx_def async_renamenx_def redis_key_type_def async_key_type_def redis_type_def async_type_def redis_copy_def async_copy_def
  redis_dump_def async_dump_def redis_restore_def async_restore_def redis_delete_def async_delete_def
  redis_exists_def async_exists_def redis_unlink_def async_unlink_def

lemma answered_here: "sync_call env None False (Inr ()) server id (\<lambda>_. Ready 0) py_int = (py_int 0, [])"
  by (simp add: sync_call_def run_request_def py_int_def maybe_decode_def)

lemma closed_call: "sync_call env decode True (Inr u) server post req conv = (Inl closed_error, [])"
  by (simp add: sync_call_def)

text \<open>(C22) Every string and key method behaves the same on both clients, for all arguments and
  whatever the server answers: the same commands are sent, and awaiting gives the value or the
  exception the blocking call gives, validation errors, a closed client and response decoding
  included.  One case differs: DELETE, EXISTS and UNLINK without names on a closed client, where the
  awaitable method raises and the blocking one returns 0; neither sends anything.\<close>
theorem string_methods_agree:
  "await_call env decode (async_set z sv name val opts) = redis_set env decode z sv name val opts \<and>
   await_call env decode (async_ping z ss sx message) = redis_ping env decode z ss sx message \<and>
   await_call env decode (async_get z so key) = redis_get env decode z so key \<and>
   await_call env decode (async_getex z so name opt persist) = redis_getex env decode z so name opt persist \<and>
   await_call env decode (async_getdel z so name) = redis_getdel env decode z so name \<and>
   await_call env decode (async_getrange z sx name start stop) = redis_getrange env decode z sx name start stop \<and>
   await_call env decode (async_setrange z si name offset val) = redis_setrange env decode z si name offset val \<and>
   await_call env decode (async_strlen z si name) = redis_strlen env decode z si name \<and>
   await_call env decode (async_append z si name val) = redis_append env decode z si name val \<and>
   await_call env decode (async_mget z sl keys) = redis_mget env decode z sl keys \<and>
   await_call env decode (async_mset z su entries) = redis_mset env decode z su entries \<and>
   await_call env decode (async_msetnx z si entries) = redis_msetnx env decode z si entries \<and>
   await_call env decode (async_incr z si name) = redis_incr env decode z si name \<and>
   await_call env decode (async_incrby z si name amount) = redis_incrby env decode z si name amount \<and>
   await_call env decode (async_incrbyfloat z sf name step) = redis_incrbyfloat env decode z sf name step \<and>
   await_call env decode (async_decr z si name) = redis_decr env decode z si name \<and>
   await_call env decode (async_decrby z si name amount) = redis_decrby env decode z si name amount \<and>
   await_call env decode (async_expire z sb name time fl) = redis_expire env decode z sb name time fl \<and>
   await_call env decode (async_pexpire z sb name time fl) = redis_pexpire env decode z sb name time fl \<and>
   await_call env decode (async_expireat z sb name time fl) = redis_expireat env decode z sb name time fl \<and>
   await_call env decode (async_pexpireat z sb name time fl) = redis_pexpireat env decode z sb name time fl \<and>
   await_call env decode (async_ttl z si name) = redis_ttl env decode z si name \<and>
   await_call env decode (async_pttl z si name) = redis_pttl env decode z si name \<and>
   await_call env decode (async_expiretime z si name) = redis_expiretime env decode z si name \<and>
   await_call env decode (async_pexpiretime z si name) = redis_pexpiretime env decode z si name \<and>
   await_call env decode (async_persist z sb name) = redis_persist env decode z sb name \<and>
   await_call env decode (async_rename z su src dst) = redis_rename env decode z su src dst \<and>
   await_call env decode (async_renamenx z si src dst) = redis_renamenx env decode z si src dst \<and>
   await_call env decode (async_key_type z ss name) = redis_key_type env decode z ss name \<and>
   await_call env decode (async_type z ss name) = redis_type env decode z ss name \<and>
   await_call env decode (async_copy z si source destination db replace) = redis_copy env decode z si source destination db replace \<and>
   await_call env decode (async_dump z so name) = redis_dump env decode z so name \<and>
   await_call env decode (async_restore z su name ttl_ms val replace absttl idletime frequency) = redis_restore env decode z su name ttl_ms val replace absttl idletime frequency \<and>
   (if z \<and> names = []
    then await_call env decode (async_delete z si names) = (Inl closed_error, []) \<and>
     redis_delete env decode z si names = (Inr (PInt 0), []) \<and>
     await_call env decode (async_exists z si names) = (Inl closed_error, []) \<and>
     redis_exists env decode z si names = (Inr (PInt 0), []) \<and>
     await_call env decode (async_unlink z si names) = (Inl closed_error, []) \<and>
     redis_unlink env decode z si names = (Inr (PInt 0), [])
    else
     await_call env decode (async_delete z si names) = redis_delete env decode z si names \<and>
     await_call env decode (async_exists z si names) = redis_exists env decode z si names \<and>
     await_call env decode (async_unlink z si names) = redis_unlink env decode z si names)"
  by (auto simp: string_method_defs replies_agree answered_here closed_call py_int_def split: option.split)

text \<open>The exception: with no keys, the blocking DELETE answers 0 on a closed client, where the
  awaitable one raises.\<close>

lemma empty_delete_on_closed:
  "redis_delete env decode True server [] = (py_int 0, [])"
  "async_delete True server [] = (Inl closed_error, [])"
  by (simp_all add: redis_delete_def async_delete_def async_call_def)

section \<open>Options on the wire\<close>

fun set_decode :: "redis_cmd \<Rightarrow> (bytes \<times> bytes \<times> set_options) option" where
  "set_decode (Cmd cmd (AStr name # ABytes val # as)) =
     (let (ex, as) = take_opt ''EX'' as; (px, as) = take_opt ''PX'' as;
          (exat, as) = take_opt ''EXAT'' as; (pxat, as) = take_opt ''PXAT'' as;
          (keepttl, as) = take_flag ''KEEPTTL'' as; (nx, as) = take_flag ''NX'' as;
          (xx, as) = take_flag ''XX'' as; (get, as) = take_flag ''GET'' as
      in Some (name, val, \<lparr>eo_ex = Option.bind ex as_u64, eo_px = Option.bind px as_u64,
           eo_exat = Option.bind exat as_i64, eo_pxat = Option.bind pxat as_i64,
           so_nx = nx, so_xx = xx, so_keepttl = keepttl, so_get = get\<rparr>))"
| "set_decode _ = None"

fun getex_decode :: "redis_cmd \<Rightarrow> (bytes \<times> expiry_options \<times> bool) option" where
  "getex_decode (Cmd cmd (AStr name # as)) =
     (let (ex, as) = take_opt ''EX'' as; (px, as) = take_opt ''PX'' as;
          (exat, as) = take_opt ''EXAT'' as; (pxat, as) = take_opt ''PXAT'' as;
          (persist, as) = take_flag ''PERSIST'' as
      in Some (name, \<lparr>eo_ex = Option.bind ex as_u64, eo_px = Option.bind px as_u64,
           eo_exat = Option.bind exat as_i64, eo_pxat = Option.bind pxat as_i64\<rparr>, persist))"
| "getex_decode _ = None"

fun expire_decode :: "redis_cmd \<Rightarrow> (bytes \<times> i64 \<times> expire_flags) option" where
  "expire_decode (Cmd cmd (AStr name # AI64 time # as)) =
     Some (name, time, \<lparr>ef_nx = AStr ''NX'' \<in> set as, ef_xx = AStr ''XX'' \<in> set as,
       ef_gt = AStr ''GT'' \<in> set as, ef_lt = AStr ''LT'' \<in> set as\<rparr>)"
| "expire_decode _ = None"

abbreviation expire_cmd :: "bytes \<Rightarrow> i64 \<Rightarrow> expire_flags \<Rightarrow> redis_cmd" where
  "expire_cmd name time fl \<equiv> expire_full name time (ef_nx fl) (ef_xx fl) (ef_gt fl) (ef_lt fl)"

abbreviation getex_cmd :: "bytes \<Rightarrow> expiry_options \<Rightarrow> bool \<Rightarrow> redis_cmd" where
  "getex_cmd name opt persist \<equiv> getex name (eo_ex opt) (eo_px opt) (eo_exat opt) (eo_pxat opt) persist"

interpretation set_wire: lossless "\<lambda>(name, val, opt). set_command name val opt" set_decode "\<lambda>_. True"
  by unfold_locales (auto simp: set_command_def set_full_def)

interpretation getex_wire: lossless "\<lambda>(name, opt, persist). getex_cmd name opt persist" getex_decode "\<lambda>_. True"
  by unfold_locales (auto simp: getex_def)

interpretation expire_wire: lossless "\<lambda>(name, time, fl). expire_cmd name time fl" expire_decode
    "\<lambda>(name, time, fl). validate_expire_flags fl = Inr ()"
  by unfold_locales
    (auto simp: expire_full_def append_expire_flag_def validate_expire_flags_def count_set_def split: if_splits)

text \<open>(C23) No option of an accepted call is lost on the way to the server: calls of SET, of GETEX,
  and of the EXPIRE family that pass validation send the same command only when they were given
  the same key, value, time and options.\<close>
theorem options_on_wire:
  assumes "validate_expire_flags fl = Inr ()" "validate_expire_flags fl' = Inr ()"
  shows "(set_command name val opt = set_command name' val' opt' \<longleftrightarrow>
      (name, val, opt) = (name', val', opt')) \<and>
    (getex_cmd name gopt persist = getex_cmd name' gopt' persist' \<longleftrightarrow>
      (name, gopt, persist) = (name', gopt', persist')) \<and>
    (expire_cmd name time fl = expire_cmd name' time' fl' \<longleftrightarrow> (name, time, fl) = (name', time', fl'))"
  using set_wire.enc_inj [of "(name, val, opt)" "(name', val', opt')"]
    getex_wire.enc_inj [of "(name, gopt, persist)" "(name', gopt', persist')"]
    expire_wire.enc_inj [of "(name, time, fl)" "(name', time', fl')"] assms
  by auto

theorem options_on_wire_witness:
  "expire_cmd ''k'' 5 \<lparr>ef_nx = True, ef_xx = False, ef_gt = False, ef_lt = False\<rparr> \<noteq>
   expire_cmd ''k'' 5 \<lparr>ef_nx = False, ef_xx = False, ef_gt = True, ef_lt = False\<rparr>"
  using options_on_wire [where fl = "\<lparr>ef_nx = True, ef_xx = False, ef_gt = False, ef_lt = False\<rparr>"
      and fl' = "\<lparr>ef_nx = False, ef_xx = False, ef_gt = True, ef_lt = False\<rparr>"
      and name = "''k''" and name' = "''k''" and time = 5 and time' = 5]
  by (simp add: validate_expire_flags_def count_set_def)

text \<open>Without the validation, a second flag would be dropped.\<close>

lemma second_flag_dropped:
  "expire_full name time True True gt lt = expire_full name time True False False False"
  by (simp add: expire_full_def append_expire_flag_def)

text \<open>The serialised value DUMP returns is binary; under \<open>decode_responses\<close> it is decoded all the
  same, and lost when it is no text.\<close>

lemma dump_is_decoded:
  "server (dump name) = Inr (Some b) \<Longrightarrow>
   fst (redis_dump env (Some c) False server name) = rbind (c b) (\<lambda>s. Inr (PStr s))"
  by (simp add: redis_dump_def sync_call_def run_request_def conv_opt_bytes_def maybe_decode_def py_opt_bytes_def)

end
