(* ===== verification/Replies.thy ===== *)
theory Replies
  imports Strings
begin

text \<open>
  What the other command families share beyond \<open>Calls\<close>: PyO3's conversions of arguments,
  replies that a connection method parses itself, the reply conversions of collections with
  both their sides, and the awaitables that are handed out undecoded.
\<close>

section \<open>Arguments\<close>

text \<open>PyO3's conversions to \<open>Vec<u8>\<close>, to \<open>i64\<close> and to \<open>Option<Vec<u8>>\<close>; the texts of its
  errors are PyO3's.  A \<open>bool\<close> is an \<open>int\<close>.\<close>

definition type_error :: "bytes \<Rightarrow> pyerr" where
  "type_error msg = PyErr PyTypeError msg"

definition extract_int :: "pyval \<Rightarrow> int pyres" where
  "extract_int v =
     (case v of PInt i \<Rightarrow> Inr i | PBool b \<Rightarrow> Inr (of_bool b)
      | _ \<Rightarrow> Inl (type_error ''not an int''))"

definition extract_u8 :: "pyval \<Rightarrow> char pyres" where
  "extract_u8 v =
     rbind (extract_int v) (\<lambda>i.
       if 0 \<le> i \<and> i < 256 then Inr (char_of (nat i))
       else Inl (PyErr PyOverflowError ''out of range integral type conversion attempted''))"

definition extract_i64 :: "pyval \<Rightarrow> i64 pyres" where
  "extract_i64 v =
     rbind (extract_int v) (\<lambda>i.
       if - (2 ^ 63) \<le> i \<and> i < 2 ^ 63 then Inr (word_of_int i)
       else Inl (PyErr PyOverflowError ''Python int too large to convert to C long''))"

definition extract_bytes :: "pyval \<Rightarrow> bytes pyres" where
  "extract_bytes v =
     (case v of
        PBytes b \<Rightarrow> Inr b
      | PList xs \<Rightarrow> collect_res extract_u8 xs
      | PTuple xs \<Rightarrow> collect_res extract_u8 xs
      | _ \<Rightarrow> Inl (type_error ''cannot be converted to Vec''))"

definition extract_opt_bytes :: "pyval \<Rightarrow> bytes option pyres" where
  "extract_opt_bytes v = (if v = PNone then Inr None else rbind (extract_bytes v) (Inr \<circ> Some))"

lemma extract_simps [simp]:
  "extract_int (PInt i) = Inr i"
  "extract_bytes (PBytes b) = Inr b"
  "extract_string (PStr s) = Inr s"
  "extract_opt_bytes PNone = Inr None"
  "extract_opt_bytes (PBytes b) = Inr (Some b)"
  "extract_opt_bytes (PStr s) = Inl (type_error ''cannot be converted to Vec'')"
  by (simp_all add: extract_int_def extract_bytes_def extract_opt_bytes_def extract_string_def)

lemma extract_i64_of_sint [simp]: "extract_i64 (PInt (sint n)) = Inr n"
  using sint_range_size [of n] by (simp add: extract_i64_def extract_int_def word_size)

section \<open>Replies\<close>

text \<open>A connection method that parses the reply before it returns it.\<close>

definition reading ::
  "('v \<Rightarrow> redis_error + 'a) \<Rightarrow> (redis_cmd \<Rightarrow> redis_error + 'v) \<Rightarrow> redis_cmd \<Rightarrow> redis_error + 'a" where
  "reading parse server cmd = rbind (server cmd) parse"

text \<open>An awaitable whose arms are written out: \<open>Ok(v) => f(v), Err(e) => classify(e)\<close>.\<close>

definition raw_with :: "('r \<Rightarrow> raw_result) \<Rightarrow> redis_error + 'r \<Rightarrow> raw_result" where
  "raw_with f r = (case r of Inr v \<Rightarrow> f v | Inl e \<Rightarrow> classify e)"

definition conv_opt_int :: "i64 option \<Rightarrow> pyval pyres" where
  "conv_opt_int v = Inr (case v of Some i \<Rightarrow> PInt (sint i) | None \<Rightarrow> PNone)"

definition conv_opt_f64 :: "f64 option \<Rightarrow> pyval pyres" where
  "conv_opt_f64 v = Inr (case v of Some f \<Rightarrow> PFloat f | None \<Rightarrow> PNone)"

definition int_list_to_py :: "i64 list \<Rightarrow> pyval pyres" where
  "int_list_to_py items = Inr (PList (map (\<lambda>n. PInt (sint n)) items))"

definition bool_list_to_py :: "bool list \<Rightarrow> pyval pyres" where
  "bool_list_to_py items = Inr (PList (map PBool items))"

definition opt_bytes_list_to_py :: "bytes list option \<Rightarrow> pyval pyres" where
  "opt_bytes_list_to_py v = Inr (case v of None \<Rightarrow> PNone | Some items \<Rightarrow> PList (map PBytes items))"

definition raw_opt_list :: "bytes list option \<Rightarrow> raw_result" where
  "raw_opt_list v = (case v of Some items \<Rightarrow> RBytesList items | None \<Rightarrow> RNil)"

lemmas reply_defs = conv_defs raw_with_def conv_opt_int_def conv_opt_f64_def int_list_to_py_def
  bool_list_to_py_def opt_bytes_list_to_py_def raw_opt_list_def py_bytes_list_def py_string_list_def
  py_bytes_pairs_def py_set_of_bytes_def opt_py_def

lemma decode_list_unchanged: "(\<And>v. v \<in> set vs \<Longrightarrow> decode_walk c v = Inr v) \<Longrightarrow> decode_list c vs = Inr vs"
  by (induction vs) simp_all

lemma decode_scalars:
  "decode_list c (map (\<lambda>n. PInt (f n)) xs) = Inr (map (\<lambda>n. PInt (f n)) xs)"
  "decode_list c (map PBool bs) = Inr (map PBool bs)"
  "decode_list c (map PStr ss) = Inr (map PStr ss)"
  by (rule decode_list_unchanged, auto)+

interpretation opt_int_reply: scalar_reply conv_opt_int "raw_of TOptI64"
  by unfold_locales (auto simp: reply_defs split: option.splits)

interpretation opt_f64_reply: scalar_reply conv_opt_f64 "raw_of TOptF64"
  by unfold_locales (auto simp: reply_defs split: option.splits)

interpretation int_list_reply: scalar_reply int_list_to_py "raw_of TI64List"
  by unfold_locales (auto simp: reply_defs decode_scalars)

interpretation bool_list_reply: scalar_reply bool_list_to_py "raw_of TBoolList"
  by unfold_locales (auto simp: reply_defs decode_scalars)

interpretation bytes_list_reply: reply_pair py_bytes_list "raw_of TBytesList"
  by unfold_locales (simp_all add: reply_defs)

interpretation pairs_reply: reply_pair py_bytes_pairs "raw_of TBytesPairs"
  by unfold_locales (simp_all add: reply_defs comp_def split_def)

interpretation value_reply: reply_pair redis_value_to_py "raw_of TValue"
  by unfold_locales (simp_all add: reply_defs)

interpretation set_of_bytes_reply: reply_pair py_set_of_bytes "raw_with RSetOfBytes"
  by unfold_locales (simp_all add: reply_defs)

interpretation opt_list_reply: reply_pair opt_bytes_list_to_py "raw_with raw_opt_list"
  by unfold_locales (auto simp: reply_defs split: option.splits)

text \<open>The reply of a method whose awaitable is typed by hand.\<close>

interpretation opt_bytes_by_hand: reply_pair conv_opt_bytes "raw_with (case_option RNil (ROptBytes \<circ> Some))"
  by unfold_locales (auto simp: reply_defs split: option.splits)

interpretation opt_bytes_variant: reply_pair conv_opt_bytes "raw_with ROptBytes"
  by unfold_locales (auto simp: reply_defs split: option.splits)

interpretation nil_by_hand: scalar_reply conv_unit "raw_with (\<lambda>_. RNil)"
  by unfold_locales (simp_all add: reply_defs)

lemmas method_agreement = replies_agree
  opt_int_reply.agree_undecoded opt_f64_reply.agree_undecoded int_list_reply.agree_undecoded
  bool_list_reply.agree_undecoded bytes_list_reply.agree pairs_reply.agree value_reply.agree
  set_of_bytes_reply.agree opt_list_reply.agree opt_bytes_by_hand.agree opt_bytes_variant.agree
  nil_by_hand.agree_undecoded

text \<open>A method that answers without asking the server: the frame adds the closed check only.\<close>

lemma ready_call:
  "sync_call env None False (Inr k) server post (\<lambda>_. Ready v) conv = (conv v, [])"
  by (auto simp: sync_call_def run_request_def maybe_decode_def rbind_def split: sum.splits)

section \<open>Dicts with distinct keys\<close>

lemma dict_upd_new_field: "k \<notin> fst ` set d \<Longrightarrow> dict_upd (PBytes k) v (bytes_items d) = bytes_items (d @ [(k, v)])"
  by (induction d) auto

lemma dict_of_distinct:
  "distinct (map fst ps) \<Longrightarrow> dict_of_bytes ps = bytes_items ps"
proof -
  have "distinct (map fst (ds @ ps)) \<Longrightarrow>
      fold (\<lambda>(k, v) d. dict_upd (PBytes k) v d) ps (bytes_items ds) = bytes_items (ds @ ps)" for ds
  proof (induction ps arbitrary: ds)
    case (Cons p ps)
    obtain k v where p: "p = (k, v)" by (cases p)
    with Cons.prems have "k \<notin> fst ` set ds" by auto
    with Cons.IH [of "ds @ [(k, v)]"] Cons.prems p show ?case
      by (simp add: dict_upd_new_field del: map_append)
  qed simp
  from this [of "[]"] show "distinct (map fst ps) \<Longrightarrow> ?thesis" by (simp add: dict_of_bytes_def)
qed

text \<open>A pair as servers send it.\<close>

abbreviation bulk_pair :: "bytes \<times> bytes \<Rightarrow> redis_value \<times> redis_value" where
  "bulk_pair p \<equiv> (VBulkString (fst p), VBulkString (snd p))"

section \<open>Awaitables that are handed out as they are\<close>

text \<open>Some methods build their awaitable themselves and return it without \<open>maybe_wrap\<close>: what
  awaiting gives is never decoded.\<close>

definition await_bare ::
  "bridge_env \<Rightarrow> codec option \<Rightarrow> raw_result pyres \<times> redis_cmd list \<Rightarrow> pyval pyres \<times> redis_cmd list" where
  "await_bare env decode r = await_call env None r"

end
