(* ===== verification/Lists.thy ===== *)
theory Lists
  imports Replies
begin

text \<open>
  The list commands (\<open>commands/lists.rs\<close>) and the parsing of their replies
  (\<open>connection.rs\<close>).  The blocking commands run on the connection of \<open>get_blocking\<close> and
  build their own awaitable: except for the awaitable BLMPOP, none of them asks whether the
  client is closed.
\<close>

section \<open>Reply parsing\<close>

text \<open>The replies of (B)LMPOP and of BLPOP/BRPOP.\<close>

definition mpop_reply :: "decoders \<Rightarrow> redis_value \<Rightarrow> redis_error + (bytes \<times> bytes list) option" where
  "mpop_reply dc v =
     (case v of
        VArray [key, elements] \<Rightarrow>
          rbind (dc_string dc key) (\<lambda>k. rbind (dc_bytes_list dc elements) (\<lambda>es. Inr (Some (k, es))))
      | _ \<Rightarrow> Inr None)"

definition bpop_reply :: "decoders \<Rightarrow> redis_value \<Rightarrow> redis_error + (bytes \<times> bytes) option" where
  "bpop_reply dc v =
     (case v of
        VArray [key, val] \<Rightarrow>
          rbind (dc_string dc key) (\<lambda>k. rbind (dc_bytes dc val) (\<lambda>b. Inr (Some (k, b))))
      | _ \<Rightarrow> Inr None)"

definition opt_key_and_bytes_list_to_py :: "(bytes \<times> bytes list) option \<Rightarrow> pyval pyres" where
  "opt_key_and_bytes_list_to_py v =
     Inr (case v of None \<Rightarrow> PNone | Some (key, elements) \<Rightarrow> PTuple [PStr key, PList (map PBytes elements)])"

definition opt_key_and_bytes_to_py :: "(bytes \<times> bytes) option \<Rightarrow> pyval pyres" where
  "opt_key_and_bytes_to_py v =
     Inr (case v of None \<Rightarrow> PNone | Some (key, val) \<Rightarrow> PTuple [PStr key, PBytes val])"

section \<open>Arguments\<close>

definition validate_pop_direction :: "bytes \<Rightarrow> unit pyres" where
  "validate_pop_direction direction =
     (if to_ascii_uppercase direction \<notin> {''LEFT'', ''RIGHT''}
      then Inl (data_error (''direction must be 'LEFT' or 'RIGHT'' @ [CHR 0x27])) else Inr ())"

definition insert_before :: "bytes \<Rightarrow> bool pyres" where
  "insert_before position =
     (if to_ascii_uppercase position = ''BEFORE'' then Inr True
      else if to_ascii_uppercase position = ''AFTER'' then Inr False
      else Inl (data_error (''where argument must be 'BEFORE' or 'AFTER'' @ [CHR 0x27])))"

section \<open>Methods\<close>

definition redis_lpush ::
  "bridge_env \<Rightarrow> codec option \<Rightarrow> bool \<Rightarrow> (redis_cmd \<Rightarrow> redis_error + i64) \<Rightarrow> bytes \<Rightarrow> bytes list \<Rightarrow> pyval pyres \<times> redis_cmd list" where
  "redis_lpush env decode is_closed server name values =
     sync_call env None is_closed (Inr ()) server id
       (\<lambda>_. Dispatch (lpush name values)) py_int"

definition async_lpush ::
  "bool \<Rightarrow> (redis_cmd \<Rightarrow> redis_error + i64) \<Rightarrow> bytes \<Rightarrow> bytes list \<Rightarrow> raw_result pyres \<times> redis_cmd list" where
  "async_lpush is_closed server name values =
     async_call is_closed (Inr ()) server id
       (\<lambda>_. Dispatch (lpush name values)) (raw_of TI64)"

definition redis_rpush ::
  "bridge_env \<Rightarrow> codec option \<Rightarrow> bool \<Rightarrow> (redis_cmd \<Rightarrow> redis_error + i64) \<Rightarrow> bytes \<Rightarrow> bytes list \<Rightarrow> pyval pyres \<times> redis_cmd list" where
  "redis_rpush env decode is_closed server name values =
     sync_call env None is_closed (Inr ()) server id
       (\<lambda>_. Dispatch (rpush name values)) py_int"

definition async_rpush ::
  "bool \<Rightarrow> (redis_cmd \<Rightarrow> redis_error + i64) \<Rightarrow> bytes \<Rightarrow> bytes list \<Rightarrow> raw_result pyres \<times> redis_cmd list" where
  "async_rpush is_closed server name values =
     async_call is_closed (Inr ()) server id
       (\<lambda>_. Dispatch (rpush name values)) (raw_of TI64)"

definition redis_lpushx ::
  "bridge_env \<Rightarrow> codec option \<Rightarrow> bool \<Rightarrow> (redis_cmd \<Rightarrow> redis_error + i64) \<Rightarrow> bytes \<Rightarrow> bytes list \<Rightarrow> pyval pyres \<times> redis_cmd list" where
  "redis_lpushx env decode is_closed server name values =
     sync_call env None is_closed (Inr ()) server id
       (\<lambda>_. Dispatch (lpushx name values)) py_int"

definition async_lpushx ::
  "bool \<Rightarrow> (redis_cmd \<Rightarrow> redis_error + i64) \<Rightarrow> bytes \<Rightarrow> bytes list \<Rightarrow> raw_result pyres \<times> redis_cmd list" where
  "async_lpushx is_closed server name values =
     async_call is_closed (Inr ()) server id
       (\<lambda>_. Dispatch (lpushx name values)) (raw_of TI64)"

definition redis_rpushx ::
  "bridge_env \<Rightarrow> codec option \<Rightarrow> bool \<Rightarrow> (redis_cmd \<Rightarrow> redis_error + i64) \<Rightarrow> bytes \<Rightarrow> bytes list \<Rightarrow> pyval pyres \<times> redis_cmd list" where
  "redis_rpushx env decode is_closed server name values =
     sync_call env None is_closed (Inr ()) server id
       (\<lambda>_. Dispatch (rpushx name values)) py_int"

definition async_rpushx ::
  "bool \<Rightarrow> (redis_cmd \<Rightarrow> redis_error + i64) \<Rightarrow> bytes \<Rightarrow> bytes list \<Rightarrow> raw_result pyres \<times> redis_cmd list" where
  "async_rpushx is_closed server name values =
     async_call is_closed (Inr ()) server id
       (\<lambda>_. Dispatch (rpushx name values)) (raw_of TI64)"

definition redis_lpop ::
  "bridge_env \<Rightarrow> codec option \<Rightarrow> bool \<Rightarrow> (redis_cmd \<Rightarrow> redis_error + bytes option) \<Rightarrow> (redis_cmd \<Rightarrow> redis_error + bytes list option) \<Rightarrow> bytes \<Rightarrow> u64 option \<Rightarrow> pyval pyres \<times> redis_cmd list" where
  "redis_lpop env decode is_closed one many name count =
     (case count of
        None \<Rightarrow> sync_call env decode is_closed (Inr ()) one id
              (\<lambda>_. Dispatch (lpop_one name)) conv_opt_bytes
      | Some c \<Rightarrow> sync_call env decode is_closed (Inr ()) many id
              (\<lambda>_. Dispatch (lpop_count name c)) opt_bytes_list_to_py)"

definition async_lpop ::
  "bool \<Rightarrow> (redis_cmd \<Rightarrow> redis_error + bytes option) \<Rightarrow> (redis_cmd \<Rightarrow> redis_error + bytes list option) \<Rightarrow> bytes \<Rightarrow> u64 option \<Rightarrow> raw_result pyres \<times> redis_cmd list" where
  "async_lpop is_closed one many name count =
     (case count of
        None \<Rightarrow> async_call is_closed (Inr ()) one id
              (\<lambda>_. Dispatch (lpop_one name)) (raw_with (case_option RNil (ROptBytes \<circ> Some)))
      | Some c \<Rightarrow> async_call is_closed (Inr ()) many id
              (\<lambda>_. Dispatch (lpop_count name c)) (raw_with raw_opt_list))"

definition redis_rpop ::
  "bridge_env \<Rightarrow> codec option \<Rightarrow> bool \<Rightarrow> (redis_cmd \<Rightarrow> redis_error + bytes option) \<Rightarrow> (redis_cmd \<Rightarrow> redis_error + bytes list option) \<Rightarrow> bytes \<Rightarrow> u64 option \<Rightarrow> pyval pyres \<times> redis_cmd list" where
  "redis_rpop env decode is_closed one many name count =
     (case count of
        None \<Rightarrow> sync_call env decode is_closed (Inr ()) one id
              (\<lambda>_. Dispatch (rpop_one name)) conv_opt_bytes
      | Some c \<Rightarrow> sync_call env decode is_closed (Inr ()) many id
              (\<lambda>_. Dispatch (rpop_count name c)) opt_bytes_list_to_py)"

definition async_rpop ::
  "bool \<Rightarrow> (redis_cmd \<Rightarrow> redis_error + bytes option) \<Rightarrow> (redis_cmd \<Rightarrow> redis_error + bytes list option) \<Rightarrow> bytes \<Rightarrow> u64 option \<Rightarrow> raw_result pyres \<times> redis_cmd list" where
  "async_rpop is_closed one many name count =
     (case count of
        None \<Rightarrow> async_call is_closed (Inr ()) one id
              (\<lambda>_. Dispatch (rpop_one name)) (raw_with (case_option RNil (ROptBytes \<circ> Some)))
      | Some c \<Rightarrow> async_call is_closed (Inr ()) many id
              (\<lambda>_. Dispatch (rpop_count name c)) (raw_with raw_opt_list))"

definition redis_lrange ::
  "bridge_env \<Rightarrow> codec option \<Rightarrow> bool \<Rightarrow> (redis_cmd \<Rightarrow> redis_error + bytes list) \<Rightarrow> bytes \<Rightarrow> i64 \<Rightarrow> i64 \<Rightarrow> pyval pyres \<times> redis_cmd list" where
  "redis_lrange env decode is_closed server name start stop =
     sync_call env decode is_closed (Inr ()) server id
       (\<lambda>_. Dispatch (lrange name start stop)) py_bytes_list"

definition async_lrange ::
  "bool \<Rightarrow> (redis_cmd \<Rightarrow> redis_error + bytes list) \<Rightarrow> bytes \<Rightarrow> i64 \<Rightarrow> i64 \<Rightarrow> raw_result pyres \<times> redis_cmd list" where
  "async_lrange is_closed server name start stop =
     async_call is_closed (Inr ()) server id
       (\<lambda>_. Dispatch (lrange name start stop)) (raw_of TBytesList)"

definition redis_llen ::
  "bridge_env \<Rightarrow> codec option \<Rightarrow> bool \<Rightarrow> (redis_cmd \<Rightarrow> redis_error + i64) \<Rightarrow> bytes \<Rightarrow> pyval pyres \<times> redis_cmd list" where
  "redis_llen env decode is_closed server name =
     sync_call env None is_closed (Inr ()) server id
       (\<lambda>_. Dispatch (llen name)) py_int"

definition async_llen ::
  "bool \<Rightarrow> (redis_cmd \<Rightarrow> redis_error + i64) \<Rightarrow> bytes \<Rightarrow> raw_result pyres \<times> redis_cmd list" where
  "async_llen is_closed server name =
     async_call is_closed (Inr ()) server id
       (\<lambda>_. Dispatch (llen name)) (raw_of TI64)"

definition redis_lmove ::
  "bridge_env \<Rightarrow> codec option \<Rightarrow> bool \<Rightarrow> (redis_cmd \<Rightarrow> redis_error + bytes option) \<Rightarrow> bytes \<Rightarrow> bytes \<Rightarrow> bytes \<Rightarrow> bytes \<Rightarrow> pyval pyres \<times> redis_cmd list" where
  "redis_lmove env decode is_closed server first second src dest =
     sync_call env decode is_closed (Inr ()) server id
       (\<lambda>_. Dispatch (lmove first second src dest)) conv_opt_bytes"

definition async_lmove ::
  "bool \<Rightarrow> (redis_cmd \<Rightarrow> redis_error + bytes option) \<Rightarrow> bytes \<Rightarrow> bytes \<Rightarrow> bytes \<Rightarrow> bytes \<Rightarrow> raw_result pyres \<times> redis_cmd list" where
  "async_lmove is_closed server first second src dest =
     async_call is_closed (Inr ()) server id
       (\<lambda>_. Dispatch (lmove first second src dest)) (raw_of TOptBytes)"

definition redis_lpos ::
  "bridge_env \<Rightarrow> codec option \<Rightarrow> bool \<Rightarrow> (redis_cmd \<Rightarrow> redis_error + i64 option) \<Rightarrow> (redis_cmd \<Rightarrow> redis_error + i64 list) \<Rightarrow> bytes \<Rightarrow> bytes \<Rightarrow> i64 option \<Rightarrow> i64 option \<Rightarrow> i64 option \<Rightarrow> pyval pyres \<times> redis_cmd list" where
  "redis_lpos env decode is_closed one many name val rank count maxlen =
     (case count of
        None \<Rightarrow> sync_call env None is_closed (Inr ()) one id
              (\<lambda>_. Dispatch (lpos_single name val rank maxlen)) conv_opt_int
      | Some c \<Rightarrow> sync_call env None is_closed (Inr ()) many id
              (\<lambda>_. Dispatch (lpos_count name val rank c maxlen)) int_list_to_py)"

definition async_lpos ::
  "bool \<Rightarrow> (redis_cmd \<Rightarrow> redis_error + i64 option) \<Rightarrow> (redis_cmd \<Rightarrow> redis_error + i64 list) \<Rightarrow> bytes \<Rightarrow> bytes \<Rightarrow> i64 option \<Rightarrow> i64 option \<Rightarrow> i64 option \<Rightarrow> raw_result pyres \<times> redis_cmd list" where
  "async_lpos is_closed one many name val rank count maxlen =
     (case count of
        None \<Rightarrow> async_call is_closed (Inr ()) one id
              (\<lambda>_. Dispatch (lpos_single name val rank maxlen)) (raw_with (case_option RNil RInt))
      | Some c \<Rightarrow> async_call is_closed (Inr ()) many id
              (\<lambda>_. Dispatch (lpos_count name val rank c maxlen)) (raw_with (\<lambda>items. RValue (VArray (map VInt items)))))"

definition redis_lrem ::
  "bridge_env \<Rightarrow> codec option \<Rightarrow> bool \<Rightarrow> (redis_cmd \<Rightarrow> redis_error + i64) \<Rightarrow> bytes \<Rightarrow> i64 \<Rightarrow> bytes \<Rightarrow> pyval pyres \<times> redis_cmd list" where
  "redis_lrem env decode is_closed server name count val =
     sync_call env None is_closed (Inr ()) server id
       (\<lambda>_. Dispatch (lrem name count val)) py_int"

definition async_lrem ::
  "bool \<Rightarrow> (redis_cmd \<Rightarrow> redis_error + i64) \<Rightarrow> bytes \<Rightarrow> i64 \<Rightarrow> bytes \<Rightarrow> raw_result pyres \<times> redis_cmd list" where
  "async_lrem is_closed server name count val =
     async_call is_closed (Inr ()) server id
       (\<lambda>_. Dispatch (lrem name count val)) (raw_of TI64)"

definition redis_lindex ::
  "bridge_env \<Rightarrow> codec option \<Rightarrow> bool \<Rightarrow> (redis_cmd \<Rightarrow> redis_error + bytes option) \<Rightarrow> bytes \<Rightarrow> i64 \<Rightarrow> pyval pyres \<times> redis_cmd list" where
  "redis_lindex env decode is_closed server name index =
     sync_call env decode is_closed (Inr ()) server id
       (\<lambda>_. Dispatch (lindex name index)) conv_opt_bytes"

definition async_lindex ::
  "bool \<Rightarrow> (redis_cmd \<Rightarrow> redis_error + bytes option) \<Rightarrow> bytes \<Rightarrow> i64 \<Rightarrow> raw_result pyres \<times> redis_cmd list" where
  "async_lindex is_closed server name index =
     async_call is_closed (Inr ()) server id
       (\<lambda>_. Dispatch (lindex name index)) (raw_of TOptBytes)"

definition redis_lset ::
  "bridge_env \<Rightarrow> codec option \<Rightarrow> bool \<Rightarrow> (redis_cmd \<Rightarrow> redis_error + unit) \<Rightarrow> bytes \<Rightarrow> i64 \<Rightarrow> bytes \<Rightarrow> pyval pyres \<times> redis_cmd list" where
  "redis_lset env decode is_closed server name index val =
     sync_call env None is_closed (Inr ()) server id
       (\<lambda>_. Dispatch (lset name index val)) conv_unit"

definition async_lset ::
  "bool \<Rightarrow> (redis_cmd \<Rightarrow> redis_error + unit) \<Rightarrow> bytes \<Rightarrow> i64 \<Rightarrow> bytes \<Rightarrow> raw_result pyres \<times> redis_cmd list" where
  "async_lset is_closed server name index val =
     async_call is_closed (Inr ()) server id
       (\<lambda>_. Dispatch (lset name index val)) (raw_of (\<lambda>_. TUnit))"

definition redis_linsert ::
  "bridge_env \<Rightarrow> codec option \<Rightarrow> bool \<Rightarrow> (redis_cmd \<Rightarrow> redis_error + i64) \<Rightarrow> bytes \<Rightarrow> bytes \<Rightarrow> bytes \<Rightarrow> bytes \<Rightarrow> pyval pyres \<times> redis_cmd list" where
  "redis_linsert env decode is_closed server name position refvalue val =
     sync_call env None is_closed (insert_before position) server id
       (\<lambda>before. Dispatch (linsert name before refvalue val)) py_int"

definition async_linsert ::
  "bool \<Rightarrow> (redis_cmd \<Rightarrow> redis_error + i64) \<Rightarrow> bytes \<Rightarrow> bytes \<Rightarrow> bytes \<Rightarrow> bytes \<Rightarrow> raw_result pyres \<times> redis_cmd list" where
  "async_linsert is_closed server name position refvalue val =
     async_call is_closed (insert_before position) server id
       (\<lambda>before. Dispatch (linsert name before refvalue val)) (raw_of TI64)"

definition redis_ltrim ::
  "bridge_env \<Rightarrow> codec option \<Rightarrow> bool \<Rightarrow> (redis_cmd \<Rightarrow> redis_error + unit) \<Rightarrow> bytes \<Rightarrow> i64 \<Rightarrow> i64 \<Rightarrow> pyval pyres \<times> redis_cmd list" where
  "redis_ltrim env decode is_closed server name start stop =
     sync_call env None is_closed (Inr ()) server id
       (\<lambda>_. Dispatch (ltrim name start stop)) conv_unit"

definition async_ltrim ::
  "bool \<Rightarrow> (redis_cmd \<Rightarrow> redis_error + unit) \<Rightarrow> bytes \<Rightarrow> i64 \<Rightarrow> i64 \<Rightarrow> raw_result pyres \<times> redis_cmd list" where
  "async_ltrim is_closed server name start stop =
     async_call is_closed (Inr ()) server id
       (\<lambda>_. Dispatch (ltrim name start stop)) (raw_of (\<lambda>_. TUnit))"

definition redis_lmpop ::
  "bridge_env \<Rightarrow> codec option \<Rightarrow> bool \<Rightarrow> (redis_cmd \<Rightarrow> redis_error + redis_value) \<Rightarrow> decoders \<Rightarrow> bytes list \<Rightarrow> bytes \<Rightarrow> i64 \<Rightarrow> pyval pyres \<times> redis_cmd list" where
  "redis_lmpop env decode is_closed server dc keys direction count =
     sync_call env decode is_closed (validate_pop_direction direction) (reading (mpop_reply dc) server) id
       (\<lambda>_. Dispatch (lmpop keys direction count)) opt_key_and_bytes_list_to_py"

definition async_lmpop ::
  "bool \<Rightarrow> (redis_cmd \<Rightarrow> redis_error + redis_value) \<Rightarrow> decoders \<Rightarrow> bytes list \<Rightarrow> bytes \<Rightarrow> i64 \<Rightarrow> raw_result pyres \<times> redis_cmd list" where
  "async_lmpop is_closed server dc keys direction count =
     async_call is_closed (validate_pop_direction direction) (reading (mpop_reply dc) server) id
       (\<lambda>_. Dispatch (lmpop keys direction count)) (raw_of TOptKeyBytesList)"

definition redis_blpop ::
  "bridge_env \<Rightarrow> codec option \<Rightarrow> bool \<Rightarrow> (redis_cmd \<Rightarrow> redis_error + redis_value) \<Rightarrow> decoders \<Rightarrow> bytes list \<Rightarrow> f64 \<Rightarrow> pyval pyres \<times> redis_cmd list" where
  "redis_blpop env decode is_closed server dc keys timeout =
     sync_call env decode False (Inr ()) (reading (bpop_reply dc) server) id
       (\<lambda>_. Dispatch (blpop keys timeout)) opt_key_and_bytes_to_py"

definition async_blpop ::
  "bool \<Rightarrow> (redis_cmd \<Rightarrow> redis_error + redis_value) \<Rightarrow> decoders \<Rightarrow> bytes list \<Rightarrow> f64 \<Rightarrow> raw_result pyres \<times> redis_cmd list" where
  "async_blpop is_closed server dc keys timeout =
     async_call False (Inr ()) (reading (bpop_reply dc) server) id
       (\<lambda>_. Dispatch (blpop keys timeout)) (raw_with ROptKeyAndBytes)"

definition redis_brpop ::
  "bridge_env \<Rightarrow> codec option \<Rightarrow> bool \<Rightarrow> (redis_cmd \<Rightarrow> redis_error + redis_value) \<Rightarrow> decoders \<Rightarrow> bytes list \<Rightarrow> f64 \<Rightarrow> pyval pyres \<times> redis_cmd list" where
  "redis_brpop env decode is_closed server dc keys timeout =
     sync_call env decode False (Inr ()) (reading (bpop_reply dc) server) id
       (\<lambda>_. Dispatch (brpop keys timeout)) opt_key_and_bytes_to_py"

definition async_brpop ::
  "bool \<Rightarrow> (redis_cmd \<Rightarrow> redis_error + redis_value) \<Rightarrow> decoders \<Rightarrow> bytes list \<Rightarrow> f64 \<Rightarrow> raw_result pyres \<times> redis_cmd list" where
  "async_brpop is_closed server dc keys timeout =
     async_call False (Inr ()) (reading (bpop_reply dc) server) id
       (\<lambda>_. Dispatch (brpop keys timeout)) (raw_with ROptKeyAndBytes)"

definition redis_blmove ::
  "bridge_env \<Rightarrow> codec option \<Rightarrow> bool \<Rightarrow> (redis_cmd \<Rightarrow> redis_error + bytes option) \<Rightarrow> bytes \<Rightarrow> bytes \<Rightarrow> bytes \<Rightarrow> bytes \<Rightarrow> f64 \<Rightarrow> pyval pyres \<times> redis_cmd list" where
  "redis_blmove env decode is_closed server first second src dest timeout =
     sync_call env decode False (Inr ()) server id
       (\<lambda>_. Dispatch (blmove first second src dest timeout)) conv_opt_bytes"

definition async_blmove ::
  "bool \<Rightarrow> (redis_cmd \<Rightarrow> redis_error + bytes option) \<Rightarrow> bytes \<Rightarrow> bytes \<Rightarrow> bytes \<Rightarrow> bytes \<Rightarrow> f64 \<Rightarrow> raw_result pyres \<times> redis_cmd list" where
  "async_blmove is_closed server first second src dest timeout =
     async_call False (Inr ()) server id
       (\<lambda>_. Dispatch (blmove first second src dest timeout)) (raw_with ROptBytes)"

definition redis_blmpop ::
  "bridge_env \<Rightarrow> codec option \<Rightarrow> bool \<Rightarrow> (redis_cmd \<Rightarrow> redis_error + redis_value) \<Rightarrow> decoders \<Rightarrow> f64 \<Rightarrow> bytes list \<Rightarrow> bytes \<Rightarrow> i64 \<Rightarrow> pyval pyres \<times> redis_cmd list" where
  "redis_blmpop env decode is_closed server dc timeout keys direction count =
     sync_call env decode False (validate_pop_direction direction) (reading (mpop_reply dc) server) id
       (\<lambda>_. Dispatch (blmpop timeout keys direction count)) opt_key_and_bytes_list_to_py"

definition async_blmpop ::
  "bool \<Rightarrow> (redis_cmd \<Rightarrow> redis_error + redis_value) \<Rightarrow> decoders \<Rightarrow> f64 \<Rightarrow> bytes list \<Rightarrow> bytes \<Rightarrow> i64 \<Rightarrow> raw_result pyres \<times> redis_cmd list" where
  "async_blmpop is_closed server dc timeout keys direction count =
     async_call False (if is_closed then Inl closed_error else validate_pop_direction direction) (reading (mpop_reply dc) server) id
       (\<lambda>_. Dispatch (blmpop timeout keys direction count)) (raw_with ROptKeyAndBytesList)"

section \<open>Both versions\<close>

interpretation pos_reply: scalar_reply conv_opt_int "raw_with (case_option RNil RInt)"
  by unfold_locales (auto simp: reply_defs split: option.splits)

lemma values_of_ints: "redis_values_to_py (map VInt items) = Inr (map (\<lambda>n. PInt (sint n)) items)"
  by (induction items) simp_all

interpretation positions_reply:
  scalar_reply int_list_to_py "raw_with (\<lambda>items. RValue (VArray (map VInt items)))"
  by unfold_locales (auto simp: reply_defs values_of_ints decode_scalars)

interpretation mpop_by_type: reply_pair opt_key_and_bytes_list_to_py "raw_of TOptKeyBytesList"
  by unfold_locales (auto simp: reply_defs opt_key_and_bytes_list_to_py_def split: option.splits)

interpretation mpop_by_hand: reply_pair opt_key_and_bytes_list_to_py "raw_with ROptKeyAndBytesList"
  by unfold_locales (auto simp: reply_defs opt_key_and_bytes_list_to_py_def split: option.splits)

lemmas list_agreement = method_agreement pos_reply.agree_undecoded positions_reply.agree_undecoded
  mpop_by_type.agree mpop_by_hand.agree

lemmas lists_method_defs =
  redis_lpush_def async_lpush_def redis_rpush_def async_rpush_def redis_lpushx_def async_lpushx_def
  redis_rpushx_def async_rpushx_def redis_lpop_def async_lpop_def redis_rpop_def async_rpop_def
  redis_lrange_def async_lrange_def redis_llen_def async_llen_def redis_lmove_def async_lmove_def
  redis_lpos_def async_lpos_def redis_lrem_def async_lrem_def redis_lindex_def async_lindex_def
  redis_lset_def async_lset_def redis_linsert_def async_linsert_def redis_ltrim_def async_ltrim_def
  redis_lmpop_def async_lmpop_def redis_blmove_def async_blmove_def

text \<open>The list methods that agree on both clients.\<close>
lemma list_methods_agree:
  "await_call env decode (async_lpush z s name values) = redis_lpush env decode z s name values \<and>
   await_call env decode (async_rpush z s name values) = redis_rpush env decode z s name values \<and>
   await_call env decode (async_lpushx z s name values) = redis_lpushx env decode z s name values \<and>
   await_call env decode (async_rpushx z s name values) = redis_rpushx env decode z s name values \<and>
   await_call env decode (async_lpop z s2 s3 name count) = redis_lpop env decode z s2 s3 name count \<and>
   await_call env decode (async_rpop z s2 s3 name count) = redis_rpop env decode z s2 s3 name count \<and>
   await_call env decode (async_lrange z s4 name start stop) = redis_lrange env decode z s4 name start stop \<and>
   await_call env decode (async_llen z s name) = redis_llen env decode z s name \<and>
   await_call env decode (async_lmove z s2 first second src dest) = redis_lmove env decode z s2 first second src dest \<and>
   await_call env decode (async_lpos z s5 s6 name val rank count2 maxlen) = redis_lpos env decode z s5 s6 name val rank count2 maxlen \<and>
   await_call env decode (async_lrem z s name count3 val) = redis_lrem env decode z s name count3 val \<and>
   await_call env decode (async_lindex z s2 name index) = redis_lindex env decode z s2 name index \<and>
   await_call env decode (async_lset z s7 name index val) = redis_lset env decode z s7 name index val \<and>
   await_call env decode (async_linsert z s name position refvalue val) = redis_linsert env decode z s name position refvalue val \<and>
   await_call env decode (async_ltrim z s7 name start stop) = redis_ltrim env decode z s7 name start stop \<and>
   await_call env decode (async_lmpop z s8 dc keys direction count3) = redis_lmpop env decode z s8 dc keys direction count3 \<and>
   await_call env decode (async_blmove z s2 first second src dest timeout) = redis_blmove env decode z s2 first second src dest timeout"
  by (intro conjI; simp add: lists_method_defs list_agreement split: option.split)

text \<open>BLPOP and BRPOP differ: the blocking client returns the key as \<open>str\<close>, the awaitable one
  as \<open>bytes\<close>.  They agree when responses are decoded and the codec reads the key as it is.\<close>

lemma blpop_key_differs:
  assumes "server (blpop keys timeout) = Inr (VArray [key, val])"
    and "dc_string dc key = Inr k" "dc_bytes dc val = Inr b"
  shows "fst (redis_blpop env None z server dc keys timeout) = Inr (PTuple [PStr k, PBytes b])"
    and "fst (await_call env None (async_blpop z server dc keys timeout)) = Inr (PTuple [PBytes k, PBytes b])"
  using assms
  by (simp_all add: redis_blpop_def async_blpop_def sync_call_def async_call_def await_call_def
      run_request_def reading_def bpop_reply_def maybe_decode_def opt_key_and_bytes_to_py_def
      raw_with_def opt_py_def)

lemma bpop_conversions_decoded:
  assumes "\<And>k b. v = Some (k, b) \<Longrightarrow> c k = Inr k"
  shows "rbind (into_py env (ROptKeyAndBytes v)) (maybe_decode (Some c)) =
    rbind (opt_key_and_bytes_to_py v) (maybe_decode (Some c))"
  using assms by (auto simp: maybe_decode_def opt_key_and_bytes_to_py_def opt_py_def split: option.splits)

text \<open>On a closed client the blocking pops still send their command, on both clients; of the
  awaitable ones only BLMPOP looks, and it looks before it validates.\<close>

lemma blocking_pops_ignore_closed:
  "redis_blpop env decode True = redis_blpop env decode False"
  "redis_brpop env decode True = redis_brpop env decode False"
  "redis_blmove env decode True = redis_blmove env decode False"
  "redis_blmpop env decode True = redis_blmpop env decode False"
  "async_blpop True = async_blpop False"
  "async_brpop True = async_brpop False"
  "async_blmove True = async_blmove False"
  "async_blmpop True server dc timeout keys direction count = (Inl closed_error, [])"
  by (simp_all add: fun_eq_iff redis_blpop_def redis_brpop_def redis_blmove_def redis_blmpop_def
      async_blpop_def async_brpop_def async_blmove_def async_blmpop_def async_call_def)

lemma blmpop_agrees_when_open:
  "await_call env decode (async_blmpop False server dc timeout keys direction count) =
   redis_blmpop env decode z server dc timeout keys direction count"
  by (simp add: redis_blmpop_def async_blmpop_def list_agreement)

end
