(* ===== verification/Sets.thy ===== *)
theory Sets
  imports Replies
begin

text \<open>
  The set commands (\<open>commands/sets.rs\<close>).  Collections of members come back as Python sets,
  except for SRANDMEMBER with a negative count, which may repeat members.
\<close>

section \<open>SSCAN replies\<close>

text \<open>The cursor of a scan reply, shared with HSCAN and ZSCAN: anything unreadable is 0.\<close>

definition scan_cursor :: "redis_value \<Rightarrow> u64" where
  "scan_cursor v =
     (case v of
        VBulkString b \<Rightarrow>
          if valid_utf8 b then (case parse_unsigned 64 b of Some n \<Rightarrow> of_nat n | None \<Rightarrow> 0) else 0
      | VInt n \<Rightarrow> n
      | _ \<Rightarrow> 0)"

definition bulk_members :: "redis_value \<Rightarrow> bytes list" where
  "bulk_members payload =
     (case payload of
        VArray items \<Rightarrow> List.map_filter (\<lambda>i. case i of VBulkString b \<Rightarrow> Some b | _ \<Rightarrow> None) items
      | _ \<Rightarrow> [])"

text \<open>The error is the text of the \<open>ValueError\<close>.\<close>

definition sscan_shape :: bytes where
  "sscan_shape = ''SSCAN reply did not match the [cursor, members] shape''"

definition parse_sscan_reply :: "redis_value \<Rightarrow> (u64 \<times> bytes list) pyres" where
  "parse_sscan_reply v =
     (case v of
        VArray [cursor, payload] \<Rightarrow> Inr (scan_cursor cursor, bulk_members payload)
      | _ \<Rightarrow> Inl (PyErr PyValueError sscan_shape))"

definition sscan_to_py :: "redis_value \<Rightarrow> pyval pyres" where
  "sscan_to_py v =
     rbind (parse_sscan_reply v) (\<lambda>(cursor, members).
     rbind (py_set_of_bytes members) (\<lambda>s. py_tuple2 (PInt (uint cursor)) s))"

text \<open>The awaitable reports the malformed reply under another class, with PyO3's rendering of the
  exception as its text.\<close>

definition sscan_raw_result :: "redis_value \<Rightarrow> raw_result" where
  "sscan_raw_result v =
     (case parse_sscan_reply v of
        Inr (cursor, members) \<Rightarrow> RSScan cursor members
      | Inl _ \<Rightarrow> RError EcResponseError (''ValueError: '' @ sscan_shape))"

section \<open>Methods\<close>

definition redis_sadd ::
  "bridge_env \<Rightarrow> codec option \<Rightarrow> bool \<Rightarrow> (redis_cmd \<Rightarrow> redis_error + i64) \<Rightarrow> bytes \<Rightarrow> bytes list \<Rightarrow> pyval pyres \<times> redis_cmd list" where
  "redis_sadd env decode is_closed server key members =
     (if members = [] then (py_int 0, [])
      else sync_call env None is_closed (Inr ()) server id
            (\<lambda>_. Dispatch (sadd key members)) py_int)"

definition async_sadd ::
  "bool \<Rightarrow> (redis_cmd \<Rightarrow> redis_error + i64) \<Rightarrow> bytes \<Rightarrow> bytes list \<Rightarrow> raw_result pyres \<times> redis_cmd list" where
  "async_sadd is_closed server key members =
     async_call is_closed (Inr ()) server id
       (\<lambda>_. if members = [] then Ready 0 else Dispatch (sadd key members)) (raw_of TI64)"

definition redis_srem ::
  "bridge_env \<Rightarrow> codec option \<Rightarrow> bool \<Rightarrow> (redis_cmd \<Rightarrow> redis_error + i64) \<Rightarrow> bytes \<Rightarrow> bytes list \<Rightarrow> pyval pyres \<times> redis_cmd list" where
  "redis_srem env decode is_closed server key members =
     (if members = [] then (py_int 0, [])
      else sync_call env None is_closed (Inr ()) server id
            (\<lambda>_. Dispatch (srem key members)) py_int)"

definition async_srem ::
  "bool \<Rightarrow> (redis_cmd \<Rightarrow> redis_error + i64) \<Rightarrow> bytes \<Rightarrow> bytes list \<Rightarrow> raw_result pyres \<times> redis_cmd list" where
  "async_srem is_closed server key members =
     async_call is_closed (Inr ()) server id
       (\<lambda>_. if members = [] then Ready 0 else Dispatch (srem key members)) (raw_of TI64)"

definition redis_smembers ::
  "bridge_env \<Rightarrow> codec option \<Rightarrow> bool \<Rightarrow> (redis_cmd \<Rightarrow> redis_error + bytes list) \<Rightarrow> bytes \<Rightarrow> pyval pyres \<times> redis_cmd list" where
  "redis_smembers env decode is_closed server key =
     sync_call env decode is_closed (Inr ()) server id
       (\<lambda>_. Dispatch (smembers key)) py_set_of_bytes"

definition async_smembers ::
  "bool \<Rightarrow> (redis_cmd \<Rightarrow> redis_error + bytes list) \<Rightarrow> bytes \<Rightarrow> raw_result pyres \<times> redis_cmd list" where
  "async_smembers is_closed server key =
     async_call is_closed (Inr ()) server id
       (\<lambda>_. Dispatch (smembers key)) (raw_with RSetOfBytes)"

definition redis_scard ::
  "bridge_env \<Rightarrow> codec option \<Rightarrow> bool \<Rightarrow> (redis_cmd \<Rightarrow> redis_error + i64) \<Rightarrow> bytes \<Rightarrow> pyval pyres \<times> redis_cmd list" where
  "redis_scard env decode is_closed server key =
     sync_call env None is_closed (Inr ()) server id
       (\<lambda>_. Dispatch (scard key)) py_int"

definition async_scard ::
  "bool \<Rightarrow> (redis_cmd \<Rightarrow> redis_error + i64) \<Rightarrow> bytes \<Rightarrow> raw_result pyres \<times> redis_cmd list" where
  "async_scard is_closed server key =
     async_call is_closed (Inr ()) server id
       (\<lambda>_. Dispatch (scard key)) (raw_of TI64)"

definition redis_sismember ::
  "bridge_env \<Rightarrow> codec option \<Rightarrow> bool \<Rightarrow> (redis_cmd \<Rightarrow> redis_error + bool) \<Rightarrow> bytes \<Rightarrow> bytes \<Rightarrow> pyval pyres \<times> redis_cmd list" where
  "redis_sismember env decode is_closed server key member =
     sync_call env None is_closed (Inr ()) server id
       (\<lambda>_. Dispatch (sismember key member)) py_bool"

definition async_sismember ::
  "bool \<Rightarrow> (redis_cmd \<Rightarrow> redis_error + bool) \<Rightarrow> bytes \<Rightarrow> bytes \<Rightarrow> raw_result pyres \<times> redis_cmd list" where
  "async_sismember is_closed server key member =
     async_call is_closed (Inr ()) server id
       (\<lambda>_. Dispatch (sismember key member)) (raw_of TBool)"

definition redis_smismember ::
  "bridge_env \<Rightarrow> codec option \<Rightarrow> bool \<Rightarrow> (redis_cmd \<Rightarrow> redis_error + bool list) \<Rightarrow> bytes \<Rightarrow> bytes list \<Rightarrow> pyval pyres \<times> redis_cmd list" where
  "redis_smismember env decode is_closed server key members =
     (if members = [] then (Inr (PList []), [])
      else sync_call env None is_closed (Inr ()) server id
            (\<lambda>_. Dispatch (smismember key members)) bool_list_to_py)"

definition async_smismember ::
  "bool \<Rightarrow> (redis_cmd \<Rightarrow> redis_error + bool list) \<Rightarrow> bytes \<Rightarrow> bytes list \<Rightarrow> raw_result pyres \<times> redis_cmd list" where
  "async_smismember is_closed server key members =
     async_call is_closed (Inr ()) server id
       (\<lambda>_. if members = [] then Ready [] else Dispatch (smismember key members)) (raw_of TBoolList)"

definition redis_spop ::
  "bridge_env \<Rightarrow> codec option \<Rightarrow> bool \<Rightarrow> (redis_cmd \<Rightarrow> redis_error + bytes option) \<Rightarrow> (redis_cmd \<Rightarrow> redis_error + bytes list) \<Rightarrow> bytes \<Rightarrow> i64 option \<Rightarrow> pyval pyres \<times> redis_cmd list" where
  "redis_spop env decode is_closed one many key count =
     (case count of
        None \<Rightarrow> sync_call env decode is_closed (Inr ()) one id
              (\<lambda>_. Dispatch (spop_one key)) conv_opt_bytes
      | Some n \<Rightarrow> sync_call env decode is_closed (Inr ()) many id
              (\<lambda>_. Dispatch (spop_count key n)) py_set_of_bytes)"

definition async_spop ::
  "bool \<Rightarrow> (redis_cmd \<Rightarrow> redis_error + bytes option) \<Rightarrow> (redis_cmd \<Rightarrow> redis_error + bytes list) \<Rightarrow> bytes \<Rightarrow> i64 option \<Rightarrow> raw_result pyres \<times> redis_cmd list" where
  "async_spop is_closed one many key count =
     (case count of
        None \<Rightarrow> async_call is_closed (Inr ()) one id
              (\<lambda>_. Dispatch (spop_one key)) (raw_of TOptBytes)
      | Some n \<Rightarrow> async_call is_closed (Inr ()) many id
              (\<lambda>_. Dispatch (spop_count key n)) (raw_with RSetOfBytes))"

definition sample_to_py :: "i64 \<Rightarrow> bytes list \<Rightarrow> pyval pyres" where
  "sample_to_py n items = (if n <s 0 then Inr (PList (map PBytes items)) else py_set_of_bytes items)"

definition sample_raw_result :: "i64 \<Rightarrow> bytes list \<Rightarrow> raw_result" where
  "sample_raw_result n v = (if n <s 0 then RBytesList v else RSetOfBytes v)"

definition redis_srandmember ::
  "bridge_env \<Rightarrow> codec option \<Rightarrow> bool \<Rightarrow> (redis_cmd \<Rightarrow> redis_error + bytes option) \<Rightarrow> (redis_cmd \<Rightarrow> redis_error + bytes list) \<Rightarrow> bytes \<Rightarrow> i64 option \<Rightarrow> pyval pyres \<times> redis_cmd list" where
  "redis_srandmember env decode is_closed one many key count =
     (case count of
        None \<Rightarrow> sync_call env decode is_closed (Inr ()) one id
              (\<lambda>_. Dispatch (srandmember_one key)) conv_opt_bytes
      | Some n \<Rightarrow> sync_call env decode is_closed (Inr ()) many id
              (\<lambda>_. Dispatch (srandmember_count key n)) (sample_to_py n))"

definition async_srandmember ::
  "bool \<Rightarrow> (redis_cmd \<Rightarrow> redis_error + bytes option) \<Rightarrow> (redis_cmd \<Rightarrow> redis_error + bytes list) \<Rightarrow> bytes \<Rightarrow> i64 option \<Rightarrow> raw_result pyres \<times> redis_cmd list" where
  "async_srandmember is_closed one many key count =
     (case count of
        None \<Rightarrow> async_call is_closed (Inr ()) one id
              (\<lambda>_. Dispatch (srandmember_one key)) (raw_of TOptBytes)
      | Some n \<Rightarrow> async_call is_closed (Inr ()) many id
              (\<lambda>_. Dispatch (srandmember_count key n)) (raw_with (sample_raw_result n)))"

definition redis_sinter ::
  "bridge_env \<Rightarrow> codec option \<Rightarrow> bool \<Rightarrow> (redis_cmd \<Rightarrow> redis_error + bytes list) \<Rightarrow> bytes list \<Rightarrow> pyval pyres \<times> redis_cmd list" where
  "redis_sinter env decode is_closed server keys =
     sync_call env decode is_closed (Inr ()) server id
       (\<lambda>_. Dispatch (sinter keys)) py_set_of_bytes"

definition async_sinter ::
  "bool \<Rightarrow> (redis_cmd \<Rightarrow> redis_error + bytes list) \<Rightarrow> bytes list \<Rightarrow> raw_result pyres \<times> redis_cmd list" where
  "async_sinter is_closed server keys =
     async_call is_closed (Inr ()) server id
       (\<lambda>_. Dispatch (sinter keys)) (raw_with RSetOfBytes)"

definition redis_sunion ::
  "bridge_env \<Rightarrow> codec option \<Rightarrow> bool \<Rightarrow> (redis_cmd \<Rightarrow> redis_error + bytes list) \<Rightarrow> bytes list \<Rightarrow> pyval pyres \<times> redis_cmd list" where
  "redis_sunion env decode is_closed server keys =
     sync_call env decode is_closed (Inr ()) server id
       (\<lambda>_. Dispatch (sunion keys)) py_set_of_bytes"

definition async_sunion ::
  "bool \<Rightarrow> (redis_cmd \<Rightarrow> redis_error + bytes list) \<Rightarrow> bytes list \<Rightarrow> raw_result pyres \<times> redis_cmd list" where
  "async_sunion is_closed server keys =
     async_call is_closed (Inr ()) server id
       (\<lambda>_. Dispatch (sunion keys)) (raw_with RSetOfBytes)"

definition redis_sdiff ::
  "bridge_env \<Rightarrow> codec option \<Rightarrow> bool \<Rightarrow> (redis_cmd \<Rightarrow> redis_error + bytes list) \<Rightarrow> bytes list \<Rightarrow> pyval pyres \<times> redis_cmd list" where
  "redis_sdiff env decode is_closed server keys =
     sync_call env decode is_closed (Inr ()) server id
       (\<lambda>_. Dispatch (sdiff keys)) py_set_of_bytes"

definition async_sdiff ::
  "bool \<Rightarrow> (redis_cmd \<Rightarrow> redis_error + bytes list) \<Rightarrow> bytes list \<Rightarrow> raw_result pyres \<times> redis_cmd list" where
  "async_sdiff is_closed server keys =
     async_call is_closed (Inr ()) server id
       (\<lambda>_. Dispatch (sdiff keys)) (raw_with RSetOfBytes)"

definition redis_sinterstore ::
  "bridge_env \<Rightarrow> codec option \<Rightarrow> bool \<Rightarrow> (redis_cmd \<Rightarrow> redis_error + i64) \<Rightarrow> bytes \<Rightarrow> bytes list \<Rightarrow> pyval pyres \<times> redis_cmd list" where
  "redis_sinterstore env decode is_closed server destination keys =
     sync_call env None is_closed (Inr ()) server id
       (\<lambda>_. Dispatch (sinterstore destination keys)) py_int"

definition async_sinterstore ::
  "bool \<Rightarrow> (redis_cmd \<Rightarrow> redis_error + i64) \<Rightarrow> bytes \<Rightarrow> bytes list \<Rightarrow> raw_result pyres \<times> redis_cmd list" where
  "async_sinterstore is_closed server destination keys =
     async_call is_closed (Inr ()) server id
       (\<lambda>_. Dispatch (sinterstore destination keys)) (raw_of TI64)"

definition redis_sunionstore ::
  "bridge_env \<Rightarrow> codec option \<Rightarrow> bool \<Rightarrow> (redis_cmd \<Rightarrow> redis_error + i64) \<Rightarrow> bytes \<Rightarrow> bytes list \<Rightarrow> pyval pyres \<times> redis_cmd list" where
  "redis_sunionstore env decode is_closed server destination keys =
     sync_call env None is_closed (Inr ()) server id
       (\<lambda>_. Dispatch (sunionstore destination keys)) py_int"

definition async_sunionstore ::
  "bool \<Rightarrow> (redis_cmd \<Rightarrow> redis_error + i64) \<Rightarrow> bytes \<Rightarrow> bytes list \<Rightarrow> raw_result pyres \<times> redis_cmd list" where
  "async_sunionstore is_closed server destination keys =
     async_call is_closed (Inr ()) server id
       (\<lambda>_. Dispatch (sunionstore destination keys)) (raw_of TI64)"

definition redis_sdiffstore ::
  "bridge_env \<Rightarrow> codec option \<Rightarrow> bool \<Rightarrow> (redis_cmd \<Rightarrow> redis_error + i64) \<Rightarrow> bytes \<Rightarrow> bytes list \<Rightarrow> pyval pyres \<times> redis_cmd list" where
  "redis_sdiffstore env decode is_closed server destination keys =
     sync_call env None is_closed (Inr ()) server id
       (\<lambda>_. Dispatch (sdiffstore destination keys)) py_int"

definition async_sdiffstore ::
  "bool \<Rightarrow> (redis_cmd \<Rightarrow> redis_error + i64) \<Rightarrow> bytes \<Rightarrow> bytes list \<Rightarrow> raw_result pyres \<times> redis_cmd list" where
  "async_sdiffstore is_closed server destination keys =
     async_call is_closed (Inr ()) server id
       (\<lambda>_. Dispatch (sdiffstore destination keys)) (raw_of TI64)"

definition redis_sintercard ::
  "bridge_env \<Rightarrow> codec option \<Rightarrow> bool \<Rightarrow> (redis_cmd \<Rightarrow> redis_error + i64) \<Rightarrow> bytes list \<Rightarrow> i64 option \<Rightarrow> pyval pyres \<times> redis_cmd list" where
  "redis_sintercard env decode is_closed server keys limit =
     sync_call env None is_closed (Inr ()) server id
       (\<lambda>_. Dispatch (sintercard keys limit)) py_int"

definition async_sintercard ::
  "bool \<Rightarrow> (redis_cmd \<Rightarrow> redis_error + i64) \<Rightarrow> bytes list \<Rightarrow> i64 option \<Rightarrow> raw_result pyres \<times> redis_cmd list" where
  "async_sintercard is_closed server keys limit =
     async_call is_closed (Inr ()) server id
       (\<lambda>_. Dispatch (sintercard keys limit)) (raw_of TI64)"

definition redis_smove ::
  "bridge_env \<Rightarrow> codec option \<Rightarrow> bool \<Rightarrow> (redis_cmd \<Rightarrow> redis_error + bool) \<Rightarrow> bytes \<Rightarrow> bytes \<Rightarrow> bytes \<Rightarrow> pyval pyres \<times> redis_cmd list" where
  "redis_smove env decode is_closed server source destination member =
     sync_call env None is_closed (Inr ()) server id
       (\<lambda>_. Dispatch (smove source destination member)) py_bool"

definition async_smove ::
  "bool \<Rightarrow> (redis_cmd \<Rightarrow> redis_error + bool) \<Rightarrow> bytes \<Rightarrow> bytes \<Rightarrow> bytes \<Rightarrow> raw_result pyres \<times> redis_cmd list" where
  "async_smove is_closed server source destination member =
     async_call is_closed (Inr ()) server id
       (\<lambda>_. Dispatch (smove source destination member)) (raw_of TBool)"

definition redis_sscan ::
  "bridge_env \<Rightarrow> codec option \<Rightarrow> bool \<Rightarrow> (redis_cmd \<Rightarrow> redis_error + redis_value) \<Rightarrow> bytes \<Rightarrow> u64 \<Rightarrow> bytes option \<Rightarrow> i64 option \<Rightarrow> pyval pyres \<times> redis_cmd list" where
  "redis_sscan env decode is_closed server key cursor pattern count =
     sync_call env decode is_closed (Inr ()) server id
       (\<lambda>_. Dispatch (sscan_raw key cursor pattern count)) sscan_to_py"

definition async_sscan ::
  "bool \<Rightarrow> (redis_cmd \<Rightarrow> redis_error + redis_value) \<Rightarrow> bytes \<Rightarrow> u64 \<Rightarrow> bytes option \<Rightarrow> i64 option \<Rightarrow> raw_result pyres \<times> redis_cmd list" where
  "async_sscan is_closed server key cursor pattern count =
     async_call is_closed (Inr ()) server id
       (\<lambda>_. Dispatch (sscan_raw key cursor pattern count)) (raw_with sscan_raw_result)"

section \<open>Both versions\<close>

interpretation sample_reply: reply_pair "sample_to_py n" "raw_with (sample_raw_result n)" for n
  by unfold_locales (auto simp: reply_defs sample_to_py_def sample_raw_result_def)

lemmas set_agreement = method_agreement sample_reply.agree

lemmas sets_method_defs =
  redis_smembers_def async_smembers_def redis_scard_def async_scard_def redis_sismember_def
  async_sismember_def redis_spop_def async_spop_def redis_srandmember_def async_srandmember_def
  redis_sinter_def async_sinter_def redis_sunion_def async_sunion_def redis_sdiff_def async_sdiff_def
  redis_sinterstore_def async_sinterstore_def redis_sunionstore_def async_sunionstore_def
  redis_sdiffstore_def async_sdiffstore_def redis_sintercard_def async_sintercard_def redis_smove_def
  async_smove_def

text \<open>The set methods that agree on both clients.\<close>
lemma set_methods_agree:
  "await_call env decode (async_smembers z s key) = redis_smembers env decode z s key \<and>
   await_call env decode (async_scard z s2 key) = redis_scard env decode z s2 key \<and>
   await_call env decode (async_sismember z s3 key member) = redis_sismember env decode z s3 key member \<and>
   await_call env decode (async_spop z s4 s key count) = redis_spop env decode z s4 s key count \<and>
   await_call env decode (async_srandmember z s4 s key count) = redis_srandmember env decode z s4 s key count \<and>
   await_call env decode (async_sinter z s keys) = redis_sinter env decode z s keys \<and>
   await_call env decode (async_sunion z s keys) = redis_sunion env decode z s keys \<and>
   await_call env decode (async_sdiff z s keys) = redis_sdiff env decode z s keys \<and>
   await_call env decode (async_sinterstore z s2 destination keys) = redis_sinterstore env decode z s2 destination keys \<and>
   await_call env decode (async_sunionstore z s2 destination keys) = redis_sunionstore env decode z s2 destination keys \<and>
   await_call env decode (async_sdiffstore z s2 destination keys) = redis_sdiffstore env decode z s2 destination keys \<and>
   await_call env decode (async_sintercard z s2 keys limit) = redis_sintercard env decode z s2 keys limit \<and>
   await_call env decode (async_smove z s3 source destination member) = redis_smove env decode z s3 source destination member"
  by (intro conjI; simp add: sets_method_defs set_agreement split: option.split)

text \<open>SADD, SREM and SMISMEMBER without members answer themselves; the blocking ones also on a
  closed client.\<close>

lemma guarded_set_methods_agree:
  "\<not> (z \<and> members = []) \<Longrightarrow>
   await_call env decode (async_sadd z si key members) = redis_sadd env decode z si key members"
  "\<not> (z \<and> members = []) \<Longrightarrow>
   await_call env decode (async_srem z si key members) = redis_srem env decode z si key members"
  "\<not> (z \<and> members = []) \<Longrightarrow>
   await_call env decode (async_smismember z sb key members) = redis_smismember env decode z sb key members"
  by (auto simp: redis_sadd_def async_sadd_def redis_srem_def async_srem_def redis_smismember_def
      async_smismember_def method_agreement ready_call bool_list_to_py_def)

text \<open>SSCAN agrees on every well-formed reply; a malformed one is a \<open>ValueError\<close> on the blocking
  client and a \<open>ResponseError\<close> on the awaitable one.\<close>

lemma sscan_well_formed_agrees:
  "into_py env (sscan_raw_result (VArray [cursor, payload])) = sscan_to_py (VArray [cursor, payload])"
  by (simp add: sscan_raw_result_def sscan_to_py_def parse_sscan_reply_def py_set_of_bytes_def
      py_tuple2_def rbind_assoc)

lemma sscan_malformed_differs:
  "sscan_to_py VNil = Inl (PyErr PyValueError sscan_shape)"
  "into_py env (sscan_raw_result VNil) =
     Inl (into_py_err (pe_lookup_ok env) EcResponseError (''ValueError: '' @ sscan_shape))"
  by (simp_all add: sscan_raw_result_def sscan_to_py_def parse_sscan_reply_def)

text \<open>A member set has the members of the reply, once each.\<close>

lemma set_add_bytes_members:
  "\<exists>s'. set_add_bytes bs (map PBytes s) = Inr (map PBytes s') \<and> set s' = set s \<union> set bs \<and>
     (distinct s \<longrightarrow> distinct s')"
proof (induction bs arbitrary: s)
  case Nil
  then show ?case by auto
next
  case (Cons b bs)
  have *: "list_ex (\<lambda>y. py_key_eq y (PBytes b)) (map PBytes s) \<longleftrightarrow> b \<in> set s"
    by (auto simp: list_ex_iff)
  show ?case
  proof (cases "b \<in> set s")
    case True
    with Cons [of s] * show ?thesis by (auto simp: set_add_def)
  next
    case False
    with Cons [of "s @ [b]"] * show ?thesis by (auto simp: set_add_def)
  qed
qed

theorem member_set_exact:
  "\<exists>ms. py_set_of_bytes members = Inr (PSet (map PBytes ms)) \<and> distinct ms \<and> set ms = set members"
  using set_add_bytes_members [of members "[]"] by (auto simp: py_set_of_bytes_def)

text \<open>Without members the blocking methods answer on a closed client; the awaitable ones raise.\<close>

lemma no_members_on_closed:
  "redis_sadd env decode True server key [] = (py_int 0, [])"
  "redis_srem env decode True server key [] = (py_int 0, [])"
  "redis_smismember env decode True bserver key [] = (Inr (PList []), [])"
  "async_sadd True server key [] = (Inl closed_error, [])"
  "async_srem True server key [] = (Inl closed_error, [])"
  "async_smismember True bserver key [] = (Inl closed_error, [])"
  by (simp_all add: redis_sadd_def redis_srem_def redis_smismember_def async_sadd_def async_srem_def
      async_smismember_def async_call_def)

end
