(* ===== verification/Hashes.thy ===== *)
theory Hashes
  imports Sets
begin

text \<open>
  The hash commands (\<open>commands/hashes.rs\<close>) and the parsing of HGETALL replies
  (\<open>connection.rs\<close>).  The awaitable HRANDFIELD and HSCAN build their own awaitable: they ask
  neither whether the client is closed nor whether it decodes.

  A positional or keyword argument is the Python value it was given as; \<open>mapping\<close> is the list
  of the dict's items.  \<open>warn\<close> is \<open>warnings.warn\<close>, which raises when the user has turned
  warnings into errors.
\<close>

section \<open>Arguments\<close>

definition extract_pair :: "pyval \<times> pyval \<Rightarrow> (bytes \<times> bytes) pyres" where
  "extract_pair p =
     rbind (extract_string (fst p)) (\<lambda>k. rbind (extract_bytes (snd p)) (\<lambda>v. Inr (k, v)))"

definition collect_field_value_pairs ::
  "pyval list \<Rightarrow> (pyval \<times> pyval) list option \<Rightarrow> (bytes \<times> bytes) list pyres" where
  "collect_field_value_pairs items mapping =
     (if odd (length items)
      then Inl (data_error ''HSET items must be an even number of (field, value) positional args'')
      else
        rbind (collect_res extract_pair (pair_up items)) (\<lambda>ps.
        rbind (collect_res extract_pair (case mapping of Some m \<Rightarrow> m | None \<Rightarrow> [])) (\<lambda>qs.
          if ps @ qs = []
          then Inl (data_error ''HSET requires at least one (field, value) pair or a non-empty mapping='')
          else Inr (ps @ qs))))"

definition mapping_to_pairs :: "(pyval \<times> pyval) list \<Rightarrow> (bytes \<times> bytes) list pyres" where
  "mapping_to_pairs mapping =
     (if mapping = [] then Inl (data_error ''HMSET requires a non-empty mapping'')
      else collect_res extract_pair mapping)"

definition validate_ttl_modifiers :: "expire_flags \<Rightarrow> bytes option pyres" where
  "validate_ttl_modifiers f =
     (if count_set [ef_nx f, ef_xx f, ef_gt f, ef_lt f] > 1
      then Inl (data_error ''Only one of NX, XX, GT, LT can be set at a time'')
      else Inr (if ef_nx f then Some ''NX'' else if ef_xx f then Some ''XX''
                else if ef_gt f then Some ''GT'' else if ef_lt f then Some ''LT'' else None))"

section \<open>Replies\<close>

text \<open>HGETALL: a map under RESP3, a flat array under RESP2.\<close>

definition hgetall_reply :: "decoders \<Rightarrow> redis_value \<Rightarrow> redis_error + (bytes \<times> bytes) list" where
  "hgetall_reply dc v =
     (let entry = (\<lambda>(k, x). rbind (dc_bytes dc k) (\<lambda>f. rbind (dc_bytes dc x) (\<lambda>y. Inr (f, y))))
      in case v of
           VMap pairs \<Rightarrow> collect_res entry pairs
         | VArray items \<Rightarrow> collect_res entry (pair_up items)
         | VNil \<Rightarrow> Inr []
         | other \<Rightarrow> dc_pairs dc other)"

definition hscan_shape :: bytes where
  "hscan_shape = ''HSCAN reply did not match the [cursor, items] shape''"

definition split_scan_reply :: "redis_value \<Rightarrow> (u64 \<times> redis_value) pyres" where
  "split_scan_reply v =
     (case v of
        VArray [cursor, payload] \<Rightarrow> Inr (scan_cursor cursor, payload)
      | _ \<Rightarrow> Inl (data_error hscan_shape))"

definition hscan_to_py :: "bool \<Rightarrow> redis_value \<Rightarrow> pyval pyres" where
  "hscan_to_py novalues v =
     rbind (split_scan_reply v) (\<lambda>(cursor, payload). render_hscan cursor payload novalues)"

definition hscan_raw_result :: "bool \<Rightarrow> redis_value \<Rightarrow> raw_result" where
  "hscan_raw_result novalues v =
     (case split_scan_reply v of
        Inr (cursor, payload) \<Rightarrow> RHScan cursor payload novalues
      | Inl _ \<Rightarrow> RError EcResponseError hscan_shape)"

section \<open>Methods\<close>

definition redis_hget ::
  "bridge_env \<Rightarrow> codec option \<Rightarrow> bool \<Rightarrow> (redis_cmd \<Rightarrow> redis_error + bytes option) \<Rightarrow> bytes \<Rightarrow> bytes \<Rightarrow> pyval pyres \<times> redis_cmd list" where
  "redis_hget env decode is_closed server key field =
     sync_call env decode is_closed (Inr ()) server id
       (\<lambda>_. Dispatch (hget key field)) conv_opt_bytes"

definition async_hget ::
  "bool \<Rightarrow> (redis_cmd \<Rightarrow> redis_error + bytes option) \<Rightarrow> bytes \<Rightarrow> bytes \<Rightarrow> raw_result pyres \<times> redis_cmd list" where
  "async_hget is_closed server key field =
     async_call is_closed (Inr ()) server id
       (\<lambda>_. Dispatch (hget key field)) (raw_of TOptBytes)"

definition redis_hset ::
  "bridge_env \<Rightarrow> codec option \<Rightarrow> bool \<Rightarrow> (redis_cmd \<Rightarrow> redis_error + i64) \<Rightarrow> bytes \<Rightarrow> pyval list \<Rightarrow> (pyval \<times> pyval) list option \<Rightarrow> pyval pyres \<times> redis_cmd list" where
  "redis_hset env decode is_closed server key items mapping =
     sync_call env None is_closed (collect_field_value_pairs items mapping) server id
       (\<lambda>pairs. Dispatch (hset_multiple key pairs)) py_int"

definition async_hset ::
  "bool \<Rightarrow> (redis_cmd \<Rightarrow> redis_error + i64) \<Rightarrow> bytes \<Rightarrow> pyval list \<Rightarrow> (pyval \<times> pyval) list option \<Rightarrow> raw_result pyres \<times> redis_cmd list" where
  "async_hset is_closed server key items mapping =
     async_call is_closed (collect_field_value_pairs items mapping) server id
       (\<lambda>pairs. Dispatch (hset_multiple key pairs)) (raw_of TI64)"

definition redis_hsetnx ::
  "bridge_env \<Rightarrow> codec option \<Rightarrow> bool \<Rightarrow> (redis_cmd \<Rightarrow> redis_error + i64) \<Rightarrow> bytes \<Rightarrow> bytes \<Rightarrow> bytes \<Rightarrow> pyval pyres \<times> redis_cmd list" where
  "redis_hsetnx env decode is_closed server key field val =
     sync_call env None is_closed (Inr ()) server is_one
       (\<lambda>_. Dispatch (hset_nx key field val)) py_bool"

definition async_hsetnx ::
  "bool \<Rightarrow> (redis_cmd \<Rightarrow> redis_error + i64) \<Rightarrow> bytes \<Rightarrow> bytes \<Rightarrow> bytes \<Rightarrow> raw_result pyres \<times> redis_cmd list" where
  "async_hsetnx is_closed server key field val =
     async_call is_closed (Inr ()) server is_one
       (\<lambda>_. Dispatch (hset_nx key field val)) (raw_of TBool)"

definition redis_hgetall ::
  "bridge_env \<Rightarrow> codec option \<Rightarrow> bool \<Rightarrow> (redis_cmd \<Rightarrow> redis_error + redis_value) \<Rightarrow> decoders \<Rightarrow> bytes \<Rightarrow> pyval pyres \<times> redis_cmd list" where
  "redis_hgetall env decode is_closed server dc key =
     sync_call env decode is_closed (Inr ()) (reading (hgetall_reply dc) server) id
       (\<lambda>_. Dispatch (hgetall key)) py_bytes_pairs"

definition async_hgetall ::
  "bool \<Rightarrow> (redis_cmd \<Rightarrow> redis_error + redis_value) \<Rightarrow> decoders \<Rightarrow> bytes \<Rightarrow> raw_result pyres \<times> redis_cmd list" where
  "async_hgetall is_closed server dc key =
     async_call is_closed (Inr ()) (reading (hgetall_reply dc) server) id
       (\<lambda>_. Dispatch (hgetall key)) (raw_of TBytesPairs)"

definition redis_hmget ::
  "bridge_env \<Rightarrow> codec option \<Rightarrow> bool \<Rightarrow> (redis_cmd \<Rightarrow> redis_error + bytes option list) \<Rightarrow> bytes \<Rightarrow> pyval list \<Rightarrow> pyval pyres \<times> redis_cmd list" where
  "redis_hmget env decode is_closed server key flds =
     (case flatten_mget_keys flds of
        Inl e \<Rightarrow> (Inl e, [])
      | Inr fs \<Rightarrow>
          (if fs = [] then (Inr (PList []), [])
           else sync_call env decode is_closed (Inr ()) server id
                 (\<lambda>_. Dispatch (hget_multiple key fs)) conv_opt_bytes_list))"

definition async_hmget ::
  "bool \<Rightarrow> (redis_cmd \<Rightarrow> redis_error + bytes option list) \<Rightarrow> bytes \<Rightarrow> pyval list \<Rightarrow> raw_result pyres \<times> redis_cmd list" where
  "async_hmget is_closed server key flds =
     async_call is_closed (flatten_mget_keys flds) server id
       (\<lambda>fs. if fs = [] then Ready [] else Dispatch (hget_multiple key fs)) (raw_of TOptBytesList)"

text \<open>\<open>issue\<close> is \<open>warnings.warn\<close>, on the text and the class of the warning.\<close>

definition warn_hmset_deprecated :: "(bytes \<Rightarrow> pyexc \<Rightarrow> unit pyres) \<Rightarrow> unit pyres" where
  "warn_hmset_deprecated issue = issue ''HMSET is deprecated. Use HSET instead.'' PyDeprecationWarning"

definition redis_hmset ::
  "bridge_env \<Rightarrow> codec option \<Rightarrow> bool \<Rightarrow> (redis_cmd \<Rightarrow> redis_error + unit) \<Rightarrow> (bytes \<Rightarrow> pyexc \<Rightarrow> unit pyres) \<Rightarrow> bytes \<Rightarrow> (pyval \<times> pyval) list \<Rightarrow> pyval pyres \<times> redis_cmd list" where
  "redis_hmset env decode is_closed server warn key mapping =
     sync_call env None is_closed (rbind (warn_hmset_deprecated warn) (\<lambda>_. mapping_to_pairs mapping)) server id
       (\<lambda>pairs. Dispatch (hset_multiple_void key pairs)) conv_unit"

definition async_hmset ::
  "bool \<Rightarrow> (redis_cmd \<Rightarrow> redis_error + unit) \<Rightarrow> (bytes \<Rightarrow> pyexc \<Rightarrow> unit pyres) \<Rightarrow> bytes \<Rightarrow> (pyval \<times> pyval) list \<Rightarrow> raw_result pyres \<times> redis_cmd list" where
  "async_hmset is_closed server warn key mapping =
     async_call is_closed (rbind (warn_hmset_deprecated warn) (\<lambda>_. mapping_to_pairs mapping)) server id
       (\<lambda>pairs. Dispatch (hset_multiple_void key pairs)) (raw_of (\<lambda>_. TUnit))"

definition redis_hdel ::
  "bridge_env \<Rightarrow> codec option \<Rightarrow> bool \<Rightarrow> (redis_cmd \<Rightarrow> redis_error + i64) \<Rightarrow> bytes \<Rightarrow> bytes list \<Rightarrow> pyval pyres \<times> redis_cmd list" where
  "redis_hdel env decode is_closed server key flds =
     (if flds = [] then (py_int 0, [])
      else sync_call env None is_closed (Inr ()) server id
            (\<lambda>_. Dispatch (hdel key flds)) py_int)"

definition async_hdel ::
  "bool \<Rightarrow> (redis_cmd \<Rightarrow> redis_error + i64) \<Rightarrow> bytes \<Rightarrow> bytes list \<Rightarrow> raw_result pyres \<times> redis_cmd list" where
  "async_hdel is_closed server key flds =
     async_call is_closed (Inr ()) server id
       (\<lambda>_. if flds = [] then Ready 0 else Dispatch (hdel key flds)) (raw_of TI64)"

definition redis_hexists ::
  "bridge_env \<Rightarrow> codec option \<Rightarrow> bool \<Rightarrow> (redis_cmd \<Rightarrow> redis_error + i64) \<Rightarrow> bytes \<Rightarrow> bytes \<Rightarrow> pyval pyres \<times> redis_cmd list" where
  "redis_hexists env decode is_closed server key field =
     sync_call env None is_closed (Inr ()) server is_one
       (\<lambda>_. Dispatch (hexists key field)) py_bool"

definition async_hexists ::
  "bool \<Rightarrow> (redis_cmd \<Rightarrow> redis_error + i64) \<Rightarrow> bytes \<Rightarrow> bytes \<Rightarrow> raw_result pyres \<times> redis_cmd list" where
  "async_hexists is_closed server key field =
     async_call is_closed (Inr ()) server is_one
       (\<lambda>_. Dispatch (hexists key field)) (raw_of TBool)"

definition redis_hlen ::
  "bridge_env \<Rightarrow> codec option \<Rightarrow> bool \<Rightarrow> (redis_cmd \<Rightarrow> redis_error + i64) \<Rightarrow> bytes \<Rightarrow> pyval pyres \<times> redis_cmd list" where
  "redis_hlen env decode is_closed server key =
     sync_call env None is_closed (Inr ()) server id
       (\<lambda>_. Dispatch (hlen key)) py_int"

definition async_hlen ::
  "bool \<Rightarrow> (redis_cmd \<Rightarrow> redis_error + i64) \<Rightarrow> bytes \<Rightarrow> raw_result pyres \<times> redis_cmd list" where
  "async_hlen is_closed server key =
     async_call is_closed (Inr ()) server id
       (\<lambda>_. Dispatch (hlen key)) (raw_of TI64)"

definition redis_hkeys ::
  "bridge_env \<Rightarrow> codec option \<Rightarrow> bool \<Rightarrow> (redis_cmd \<Rightarrow> redis_error + bytes list) \<Rightarrow> bytes \<Rightarrow> pyval pyres \<times> redis_cmd list" where
  "redis_hkeys env decode is_closed server key =
     sync_call env decode is_closed (Inr ()) server id
       (\<lambda>_. Dispatch (hkeys key)) py_bytes_list"

definition async_hkeys ::
  "bool \<Rightarrow> (redis_cmd \<Rightarrow> redis_error + bytes list) \<Rightarrow> bytes \<Rightarrow> raw_result pyres \<times> redis_cmd list" where
  "async_hkeys is_closed server key =
     async_call is_closed (Inr ()) server id
       (\<lambda>_. Dispatch (hkeys key)) (raw_of TBytesList)"

definition redis_hvals ::
  "bridge_env \<Rightarrow> codec option \<Rightarrow> bool \<Rightarrow> (redis_cmd \<Rightarrow> redis_error + bytes list) \<Rightarrow> bytes \<Rightarrow> pyval pyres \<times> redis_cmd list" where
  "redis_hvals env decode is_closed server key =
     sync_call env decode is_closed (Inr ()) server id
       (\<lambda>_. Dispatch (hvals key)) py_bytes_list"

definition async_hvals ::
  "bool \<Rightarrow> (redis_cmd \<Rightarrow> redis_error + bytes list) \<Rightarrow> bytes \<Rightarrow> raw_result pyres \<times> redis_cmd list" where
  "async_hvals is_closed server key =
     async_call is_closed (Inr ()) server id
       (\<lambda>_. Dispatch (hvals key)) (raw_of TBytesList)"

definition redis_hrandfield ::
  "bridge_env \<Rightarrow> codec option \<Rightarrow> bool \<Rightarrow> (redis_cmd \<Rightarrow> redis_error + redis_value) \<Rightarrow> bytes \<Rightarrow> i64 option \<Rightarrow> bool \<Rightarrow> pyval pyres \<times> redis_cmd list" where
  "redis_hrandfield env decode is_closed server key count withvalues =
     sync_call env decode is_closed (Inr ()) server id
       (\<lambda>_. Dispatch (hrandfield_raw key count withvalues)) (\<lambda>v. render_hrandfield env v count withvalues)"

definition async_hrandfield ::
  "bool \<Rightarrow> (redis_cmd \<Rightarrow> redis_error + redis_value) \<Rightarrow> bytes \<Rightarrow> i64 option \<Rightarrow> bool \<Rightarrow> raw_result pyres \<times> redis_cmd list" where
  "async_hrandfield is_closed server key count withvalues =
     async_call False (Inr ()) server id
       (\<lambda>_. Dispatch (hrandfield_raw key count withvalues)) (raw_with (\<lambda>v. RHRandfield v count withvalues))"

definition redis_hincrby ::
  "bridge_env \<Rightarrow> codec option \<Rightarrow> bool \<Rightarrow> (redis_cmd \<Rightarrow> redis_error + i64) \<Rightarrow> bytes \<Rightarrow> bytes \<Rightarrow> i64 \<Rightarrow> pyval pyres \<times> redis_cmd list" where
  "redis_hincrby env decode is_closed server key field amount =
     sync_call env None is_closed (Inr ()) server id
       (\<lambda>_. Dispatch (hincrby key field amount)) py_int"

definition async_hincrby ::
  "bool \<Rightarrow> (redis_cmd \<Rightarrow> redis_error + i64) \<Rightarrow> bytes \<Rightarrow> bytes \<Rightarrow> i64 \<Rightarrow> raw_result pyres \<times> redis_cmd list" where
  "async_hincrby is_closed server key field amount =
     async_call is_closed (Inr ()) server id
       (\<lambda>_. Dispatch (hincrby key field amount)) (raw_of TI64)"

definition redis_hincrbyfloat ::
  "bridge_env \<Rightarrow> codec option \<Rightarrow> bool \<Rightarrow> (redis_cmd \<Rightarrow> redis_error + f64) \<Rightarrow> bytes \<Rightarrow> bytes \<Rightarrow> f64 \<Rightarrow> pyval pyres \<times> redis_cmd list" where
  "redis_hincrbyfloat env decode is_closed server key field amount =
     sync_call env None is_closed (Inr ()) server id
       (\<lambda>_. Dispatch (hincrbyfloat key field amount)) conv_f64"

definition async_hincrbyfloat ::
  "bool \<Rightarrow> (redis_cmd \<Rightarrow> redis_error + f64) \<Rightarrow> bytes \<Rightarrow> bytes \<Rightarrow> f64 \<Rightarrow> raw_result pyres \<times> redis_cmd list" where
  "async_hincrbyfloat is_closed server key field amount =
     async_call is_closed (Inr ()) server id
       (\<lambda>_. Dispatch (hincrbyfloat key field amount)) (raw_of TF64)"

definition redis_hscan ::
  "bridge_env \<Rightarrow> codec option \<Rightarrow> bool \<Rightarrow> (redis_cmd \<Rightarrow> redis_error + redis_value) \<Rightarrow> bytes \<Rightarrow> u64 \<Rightarrow> bytes option \<Rightarrow> i64 option \<Rightarrow> bool \<Rightarrow> pyval pyres \<times> redis_cmd list" where
  "redis_hscan env decode is_closed server key cursor pattern count novalues =
     sync_call env decode is_closed (Inr ()) server id
       (\<lambda>_. Dispatch (hscan_raw key cursor pattern count novalues)) (hscan_to_py novalues)"

definition async_hscan ::
  "bool \<Rightarrow> (redis_cmd \<Rightarrow> redis_error + redis_value) \<Rightarrow> bytes \<Rightarrow> u64 \<Rightarrow> bytes option \<Rightarrow> i64 option \<Rightarrow> bool \<Rightarrow> raw_result pyres \<times> redis_cmd list" where
  "async_hscan is_closed server key cursor pattern count novalues =
     async_call False (Inr ()) server id
       (\<lambda>_. Dispatch (hscan_raw key cursor pattern count novalues)) (raw_with (hscan_raw_result novalues))"

definition redis_hexpire ::
  "bridge_env \<Rightarrow> codec option \<Rightarrow> bool \<Rightarrow> (redis_cmd \<Rightarrow> redis_error + i64 list) \<Rightarrow> bytes \<Rightarrow> bytes list \<Rightarrow> i64 \<Rightarrow> expire_flags \<Rightarrow> pyval pyres \<times> redis_cmd list" where
  "redis_hexpire env decode is_closed server key flds time fl =
     sync_call env None is_closed (validate_ttl_modifiers fl) server id
       (\<lambda>modifier. Dispatch (hexpire_family ''HEXPIRE'' key flds time modifier)) int_list_to_py"

definition async_hexpire ::
  "bool \<Rightarrow> (redis_cmd \<Rightarrow> redis_error + i64 list) \<Rightarrow> bytes \<Rightarrow> bytes list \<Rightarrow> i64 \<Rightarrow> expire_flags \<Rightarrow> raw_result pyres \<times> redis_cmd list" where
  "async_hexpire is_closed server key flds time fl =
     async_call is_closed (validate_ttl_modifiers fl) server id
       (\<lambda>modifier. Dispatch (hexpire_family ''HEXPIRE'' key flds time modifier)) (raw_of TI64List)"

definition redis_hpexpire ::
  "bridge_env \<Rightarrow> codec option \<Rightarrow> bool \<Rightarrow> (redis_cmd \<Rightarrow> redis_error + i64 list) \<Rightarrow> bytes \<Rightarrow> bytes list \<Rightarrow> i64 \<Rightarrow> expire_flags \<Rightarrow> pyval pyres \<times> redis_cmd list" where
  "redis_hpexpire env decode is_closed server key flds time fl =
     sync_call env None is_closed (validate_ttl_modifiers fl) server id
       (\<lambda>modifier. Dispatch (hexpire_family ''HPEXPIRE'' key flds time modifier)) int_list_to_py"

definition async_hpexpire ::
  "bool \<Rightarrow> (redis_cmd \<Rightarrow> redis_error + i64 list) \<Rightarrow> bytes \<Rightarrow> bytes list \<Rightarrow> i64 \<Rightarrow> expire_flags \<Rightarrow> raw_result pyres \<times> redis_cmd list" where
  "async_hpexpire is_closed server key flds time fl =
     async_call is_closed (validate_ttl_modifiers fl) server id
       (\<lambda>modifier. Dispatch (hexpire_family ''HPEXPIRE'' key flds time modifier)) (raw_of TI64List)"

definition redis_hexpireat ::
  "bridge_env \<Rightarrow> codec option \<Rightarrow> bool \<Rightarrow> (redis_cmd \<Rightarrow> redis_error + i64 list) \<Rightarrow> bytes \<Rightarrow> bytes list \<Rightarrow> i64 \<Rightarrow> expire_flags \<Rightarrow> pyval pyres \<times> redis_cmd list" where
  "redis_hexpireat env decode is_closed server key flds time fl =
     sync_call env None is_closed (validate_ttl_modifiers fl) server id
       (\<lambda>modifier. Dispatch (hexpire_family ''HEXPIREAT'' key flds time modifier)) int_list_to_py"

definition async_hexpireat ::
  "bool \<Rightarrow> (redis_cmd \<Rightarrow> redis_error + i64 list) \<Rightarrow> bytes \<Rightarrow> bytes list \<Rightarrow> i64 \<Rightarrow> expire_flags \<Rightarrow> raw_result pyres \<times> redis_cmd list" where
  "async_hexpireat is_closed server key flds time fl =
     async_call is_closed (validate_ttl_modifiers fl) server id
       (\<lambda>modifier. Dispatch (hexpire_family ''HEXPIREAT'' key flds time modifier)) (raw_of TI64List)"

definition redis_hpexpireat ::
  "bridge_env \<Rightarrow> codec option \<Rightarrow> bool \<Rightarrow> (redis_cmd \<Rightarrow> redis_error + i64 list) \<Rightarrow> bytes \<Rightarrow> bytes list \<Rightarrow> i64 \<Rightarrow> expire_flags \<Rightarrow> pyval pyres \<times> redis_cmd list" where
  "redis_hpexpireat env decode is_closed server key flds time fl =
     sync_call env None is_closed (validate_ttl_modifiers fl) server id
       (\<lambda>modifier. Dispatch (hexpire_family ''HPEXPIREAT'' key flds time modifier)) int_list_to_py"

definition async_hpexpireat ::
  "bool \<Rightarrow> (redis_cmd \<Rightarrow> redis_error + i64 list) \<Rightarrow> bytes \<Rightarrow> bytes list \<Rightarrow> i64 \<Rightarrow> expire_flags \<Rightarrow> raw_result pyres \<times> redis_cmd list" where
  "async_hpexpireat is_closed server key flds time fl =
     async_call is_closed (validate_ttl_modifiers fl) server id
       (\<lambda>modifier. Dispatch (hexpire_family ''HPEXPIREAT'' key flds time modifier)) (raw_of TI64List)"

definition redis_hexpiretime ::
  "bridge_env \<Rightarrow> codec option \<Rightarrow> bool \<Rightarrow> (redis_cmd \<Rightarrow> redis_error + i64 list) \<Rightarrow> bytes \<Rightarrow> bytes list \<Rightarrow> pyval pyres \<times> redis_cmd list" where
  "redis_hexpiretime env decode is_closed server key flds =
     sync_call env None is_closed (Inr ()) server id
       (\<lambda>_. Dispatch (httl_family ''HEXPIRETIME'' key flds)) int_list_to_py"

definition async_hexpiretime ::
  "bool \<Rightarrow> (redis_cmd \<Rightarrow> redis_error + i64 list) \<Rightarrow> bytes \<Rightarrow> bytes list \<Rightarrow> raw_result pyres \<times> redis_cmd list" where
  "async_hexpiretime is_closed server key flds =
     async_call is_closed (Inr ()) server id
       (\<lambda>_. Dispatch (httl_family ''HEXPIRETIME'' key flds)) (raw_of TI64List)"

definition redis_hpexpiretime ::
  "bridge_env \<Rightarrow> codec option \<Rightarrow> bool \<Rightarrow> (redis_cmd \<Rightarrow> redis_error + i64 list) \<Rightarrow> bytes \<Rightarrow> bytes list \<Rightarrow> pyval pyres \<times> redis_cmd list" where
  "redis_hpexpiretime env decode is_closed server key flds =
     sync_call env None is_closed (Inr ()) server id
       (\<lambda>_. Dispatch (httl_family ''HPEXPIRETIME'' key flds)) int_list_to_py"

definition async_hpexpiretime ::
  "bool \<Rightarrow> (redis_cmd \<Rightarrow> redis_error + i64 list) \<Rightarrow> bytes \<Rightarrow> bytes list \<Rightarrow> raw_result pyres \<times> redis_cmd list" where
  "async_hpexpiretime is_closed server key flds =
     async_call is_closed (Inr ()) server id
       (\<lambda>_. Dispatch (httl_family ''HPEXPIRETIME'' key flds)) (raw_of TI64List)"

definition redis_httl ::
  "bridge_env \<Rightarrow> codec option \<Rightarrow> bool \<Rightarrow> (redis_cmd \<Rightarrow> redis_error + i64 list) \<Rightarrow> bytes \<Rightarrow> bytes list \<Rightarrow> pyval pyres \<times> redis_cmd list" where
  "redis_httl env decode is_closed server key flds =
     sync_call env None is_closed (Inr ()) server id
       (\<lambda>_. Dispatch (httl_family ''HTTL'' key flds)) int_list_to_py"

definition async_httl ::
  "bool \<Rightarrow> (redis_cmd \<Rightarrow> redis_error + i64 list) \<Rightarrow> bytes \<Rightarrow> bytes list \<Rightarrow> raw_result pyres \<times> redis_cmd list" where
  "async_httl is_closed server key flds =
     async_call is_closed (Inr ()) server id
       (\<lambda>_. Dispatch (httl_family ''HTTL'' key flds)) (raw_of TI64List)"

definition redis_hpttl ::
  "bridge_env \<Rightarrow> codec option \<Rightarrow> bool \<Rightarrow> (redis_cmd \<Rightarrow> redis_error + i64 list) \<Rightarrow> bytes \<Rightarrow> bytes list \<Rightarrow> pyval pyres \<times> redis_cmd list" where
  "redis_hpttl env decode is_closed server key flds =
     sync_call env None is_closed (Inr ()) server id
       (\<lambda>_. Dispatch (httl_family ''HPTTL'' key flds)) int_list_to_py"

definition async_hpttl ::
  "bool \<Rightarrow> (redis_cmd \<Rightarrow> redis_error + i64 list) \<Rightarrow> bytes \<Rightarrow> bytes list \<Rightarrow> raw_result pyres \<times> redis_cmd list" where
  "async_hpttl is_closed server key flds =
     async_call is_closed (Inr ()) server id
       (\<lambda>_. Dispatch (httl_family ''HPTTL'' key flds)) (raw_of TI64List)"

definition redis_hpersist ::
  "bridge_env \<Rightarrow> codec option \<Rightarrow> bool \<Rightarrow> (redis_cmd \<Rightarrow> redis_error + i64 list) \<Rightarrow> bytes \<Rightarrow> bytes list \<Rightarrow> pyval pyres \<times> redis_cmd list" where
  "redis_hpersist env decode is_closed server key flds =
     sync_call env None is_closed (Inr ()) server id
       (\<lambda>_. Dispatch (httl_family ''HPERSIST'' key flds)) int_list_to_py"

definition async_hpersist ::
  "bool \<Rightarrow> (redis_cmd \<Rightarrow> redis_error + i64 list) \<Rightarrow> bytes \<Rightarrow> bytes list \<Rightarrow> raw_result pyres \<times> redis_cmd list" where
  "async_hpersist is_closed server key flds =
     async_call is_closed (Inr ()) server id
       (\<lambda>_. Dispatch (httl_family ''HPERSIST'' key flds)) (raw_of TI64List)"

section \<open>Both versions\<close>

lemmas hashes_method_defs =
  redis_hget_def async_hget_def redis_hset_def async_hset_def redis_hsetnx_def async_hsetnx_def
  redis_hgetall_def async_hgetall_def redis_hmset_def async_hmset_def redis_hexists_def
  async_hexists_def redis_hlen_def async_hlen_def redis_hkeys_def async_hkeys_def redis_hvals_def
  async_hvals_def redis_hincrby_def async_hincrby_def redis_hincrbyfloat_def async_hincrbyfloat_def
  redis_hexpire_def async_hexpire_def redis_hpexpire_def async_hpexpire_def redis_hexpireat_def
  async_hexpireat_def redis_hpexpireat_def async_hpexpireat_def redis_hexpiretime_def
  async_hexpiretime_def redis_hpexpiretime_def async_hpexpiretime_def redis_httl_def async_httl_def
  redis_hpttl_def async_hpttl_def redis_hpersist_def async_hpersist_def

text \<open>The hash methods that agree on both clients.\<close>
lemma hash_methods_agree:
  "await_call env decode (async_hget z s key field) = redis_hget env decode z s key field \<and>
   await_call env decode (async_hset z s2 key items mapping) = redis_hset env decode z s2 key items mapping \<and>
   await_call env decode (async_hsetnx z s2 key field val) = redis_hsetnx env decode z s2 key field val \<and>
   await_call env decode (async_hgetall z s3 dc key) = redis_hgetall env decode z s3 dc key \<and>
   await_call env decode (async_hmset z s4 warn key mapping2) = redis_hmset env decode z s4 warn key mapping2 \<and>
   await_call env decode (async_hexists z s2 key field) = redis_hexists env decode z s2 key field \<and>
   await_call env decode (async_hlen z s2 key) = redis_hlen env decode z s2 key \<and>
   await_call env decode (async_hkeys z s5 key) = redis_hkeys env decode z s5 key \<and>
   await_call env decode (async_hvals z s5 key) = redis_hvals env decode z s5 key \<and>
   await_call env decode (async_hincrby z s2 key field amount) = redis_hincrby env decode z s2 key field amount \<and>
   await_call env decode (async_hincrbyfloat z s6 key field amount2) = redis_hincrbyfloat env decode z s6 key field amount2 \<and>
   await_call env decode (async_hexpire z s7 key flds time fl) = redis_hexpire env decode z s7 key flds time fl \<and>
   await_call env decode (async_hpexpire z s7 key flds time fl) = redis_hpexpire env decode z s7 key flds time fl \<and>
   await_call env decode (async_hexpireat z s7 key flds time fl) = redis_hexpireat env decode z s7 key flds time fl \<and>
   await_call env decode (async_hpexpireat z s7 key flds time fl) = redis_hpexpireat env decode z s7 key flds time fl \<and>
   await_call env decode (async_hexpiretime z s7 key flds) = redis_hexpiretime env decode z s7 key flds \<and>
   await_call env decode (async_hpexpiretime z s7 key flds) = redis_hpexpiretime env decode z s7 key flds \<and>
   await_call env decode (async_httl z s7 key flds) = redis_httl env decode z s7 key flds \<and>
   await_call env decode (async_hpttl z s7 key flds) = redis_hpttl env decode z s7 key flds \<and>
   await_call env decode (async_hpersist z s7 key flds) = redis_hpersist env decode z s7 key flds"
  by (intro conjI; simp add: hashes_method_defs method_agreement split: option.split)

text \<open>HDEL and HMGET without fields answer themselves, the blocking ones also on a closed client.\<close>

lemma guarded_hash_methods_agree:
  "\<not> (z \<and> flds = []) \<Longrightarrow>
   await_call env decode (async_hdel z si key flds) = redis_hdel env decode z si key flds"
  "\<not> (z \<and> flatten_mget_keys items = Inr []) \<Longrightarrow>
   await_call env decode (async_hmget z sl key items) = redis_hmget env decode z sl key items"
  by (auto simp: redis_hdel_def async_hdel_def redis_hmget_def async_hmget_def method_agreement ready_call
      conv_opt_bytes_list_def py_int_def sync_call_def run_request_def maybe_decode_def split: sum.splits option.splits)

text \<open>The awaitable HRANDFIELD and HSCAN give what the blocking ones give on an open client that
  does not decode, whatever \<open>closed\<close> and \<open>decode_responses\<close> say; a malformed HSCAN reply also
  has another class.\<close>

interpretation hrandfield_reply:
  reply_at env "\<lambda>v. render_hrandfield env v count withvalues" "raw_with (\<lambda>v. RHRandfield v count withvalues)"
  for env count withvalues
  by unfold_locales (simp_all add: raw_with_def)

lemma hrandfield_ignores_client:
  "await_bare env decode (async_hrandfield z server key count withvalues) =
   redis_hrandfield env None False server key count withvalues"
  by (simp add: await_bare_def async_hrandfield_def redis_hrandfield_def hrandfield_reply.agree)

lemma hscan_ignores_client:
  assumes "\<And>v. server (hscan_raw key cursor pattern count novalues) = Inr v \<Longrightarrow> \<exists>c p. v = VArray [c, p]"
  shows "await_bare env decode (async_hscan z server key cursor pattern count novalues) =
    redis_hscan env None False server key cursor pattern count novalues"
proof (cases "server (hscan_raw key cursor pattern count novalues)")
  case (Inl e)
  then show ?thesis
    by (simp add: await_bare_def async_hscan_def redis_hscan_def await_call_def async_call_def
        sync_call_def run_request_def raw_with_def)
next
  case (Inr v)
  with assms obtain c p where "v = VArray [c, p]" by blast
  with Inr show ?thesis
    by (simp add: await_bare_def async_hscan_def redis_hscan_def await_call_def async_call_def
        sync_call_def run_request_def raw_with_def hscan_raw_result_def hscan_to_py_def split_scan_reply_def)
qed

lemma hscan_malformed_differs:
  "hscan_to_py novalues VNil = Inl (data_error hscan_shape)"
  "into_py env (hscan_raw_result novalues VNil) = Inl (into_py_err (pe_lookup_ok env) EcResponseError hscan_shape)"
  by (simp_all add: hscan_to_py_def hscan_raw_result_def split_scan_reply_def)

section \<open>Arguments of HSET\<close>

abbreviation given_as :: "pyval \<times> pyval \<Rightarrow> bytes \<times> bytes \<Rightarrow> bool" where
  "given_as p q \<equiv> extract_string (fst p) = Inr (fst q) \<and> extract_bytes (snd p) = Inr (snd q)"

lemma extract_pair_Inr: "extract_pair p = Inr q \<longleftrightarrow> given_as p q"
  by (cases q) (auto simp: extract_pair_def res_simps)

lemma extract_pairs_Inr: "collect_res extract_pair ps = Inr qs \<longleftrightarrow> list_all2 given_as ps qs"
  unfolding collect_res_Inr_iff by (simp add: extract_pair_Inr)

lemma list_all2_split:
  "list_all2 P (xs @ ys) qs \<longleftrightarrow> (\<exists>us vs. qs = us @ vs \<and> list_all2 P xs us \<and> list_all2 P ys vs)"
  unfolding list_all2_append1 by (metis list_all2_lengthD)

lemma collect_pairs_Inr:
  "collect_field_value_pairs items mapping = Inr qs \<longleftrightarrow>
     even (length items) \<and> qs \<noteq> [] \<and>
     list_all2 given_as (pair_up items @ (case mapping of Some m \<Rightarrow> m | None \<Rightarrow> [])) qs"
  by (auto simp: collect_field_value_pairs_def res_simps extract_pairs_Inr list_all2_split split: if_splits)

text \<open>(C30) HSET stores what it is given: a call is accepted exactly when the positional arguments
  come in pairs, every field is a \<open>str\<close>, every value is convertible to bytes and there is at least
  one pair; then one HSET with all the pairs, positional ones first, is sent, and otherwise
  nothing is.  Both clients alike.\<close>
theorem hset_sends_pairs:
  "(case collect_field_value_pairs items mapping of
      Inr qs \<Rightarrow>
        even (length items) \<and> qs \<noteq> [] \<and>
        list_all2 given_as (pair_up items @ (case mapping of Some m \<Rightarrow> m | None \<Rightarrow> [])) qs \<and>
        snd (redis_hset env decode False server key items mapping) =
          [Cmd ''HSET'' (AStr key # concat (map (\<lambda>(f, v). [AStr f, ABytes v]) qs))]
    | Inl e \<Rightarrow>
        \<not> (even (length items) \<and>
           (\<exists>qs. qs \<noteq> [] \<and>
             list_all2 given_as (pair_up items @ (case mapping of Some m \<Rightarrow> m | None \<Rightarrow> [])) qs)) \<and>
        redis_hset env decode z server key items mapping = (Inl e, [])) \<and>
   await_call env decode (async_hset z server key items mapping) = redis_hset env decode z server key items mapping"
proof (cases "collect_field_value_pairs items mapping")
  case (Inl e)
  then have "\<not> (even (length items) \<and>
      (\<exists>qs. qs \<noteq> [] \<and>
        list_all2 given_as (pair_up items @ (case mapping of Some m \<Rightarrow> m | None \<Rightarrow> [])) qs))"
    using collect_pairs_Inr [of items mapping] by auto
  with Inl show ?thesis
    by (auto simp: redis_hset_def async_hset_def method_agreement sync_call_def)
next
  case (Inr qs)
  then show ?thesis
    using collect_pairs_Inr [of items mapping qs]
    by (simp add: redis_hset_def async_hset_def method_agreement sync_call_def run_request_def
        hset_multiple_def split: prod.split)
qed

section \<open>HGETALL under both protocols\<close>

text \<open>The documented behaviour of \<open>from_redis_value\<close> for \<open>Vec<u8>\<close> on a bulk string.\<close>

definition reads_bulk :: "decoders \<Rightarrow> bool" where
  "reads_bulk dc \<longleftrightarrow> (\<forall>b. dc_bytes dc (VBulkString b) = Inr b)"

lemma hgetall_reply_map:
  "reads_bulk dc \<Longrightarrow> hgetall_reply dc (VMap (map bulk_pair ps)) = Inr ps"
  by (induction ps) (auto simp: hgetall_reply_def reads_bulk_def)

lemma hgetall_reply_flat: "hgetall_reply dc (VArray (unpair rs)) = hgetall_reply dc (VMap rs)"
  by (simp add: hgetall_reply_def)

text \<open>(C31) HGETALL gives the same dict whether the server speaks RESP2 (a flat array) or RESP3
  (a map): every field with its value, in the server's order, as \<open>bytes\<close>; and the dict is
  the same on both clients.\<close>
theorem hgetall_either_protocol:
  assumes "reads_bulk dc" "distinct (map fst ps)"
    and "server (hgetall key) = Inr (VMap (map bulk_pair ps)) \<or>
         server (hgetall key) = Inr (VArray (unpair (map bulk_pair ps)))"
  shows "redis_hgetall env None False server dc key =
      (Inr (PDict (map (\<lambda>(f, v). (PBytes f, PBytes v)) ps)), [hgetall key]) \<and>
    await_call env None (async_hgetall False server dc key) = redis_hgetall env None False server dc key"
proof -
  have "reading (hgetall_reply dc) server (hgetall key) = Inr ps"
    using assms by (auto simp: reading_def hgetall_reply_flat hgetall_reply_map)
  moreover have "py_bytes_pairs ps = Inr (PDict (map (\<lambda>(f, v). (PBytes f, PBytes v)) ps))"
    using assms(2) set_items_bytes [of "map (\<lambda>(f, v). (f, PBytes v)) ps"]
      dict_of_distinct [of "map (\<lambda>(f, v). (f, PBytes v)) ps"]
    by (simp add: py_bytes_pairs_def comp_def split_def)
  ultimately show ?thesis
    by (simp add: redis_hgetall_def async_hgetall_def method_agreement)
      (simp add: sync_call_def run_request_def maybe_decode_def)
qed

definition sample_decoders :: decoders where
  "sample_decoders =
     \<lparr>dc_bytes = (\<lambda>v. case v of VBulkString b \<Rightarrow> Inr b | _ \<Rightarrow> Inl undefined),
      dc_string = (\<lambda>v. case v of VBulkString b \<Rightarrow> Inr b | _ \<Rightarrow> Inl undefined),
      dc_bytes_list = (\<lambda>_. Inr []), dc_pairs = (\<lambda>_. Inr [])\<rparr>"

theorem hgetall_either_protocol_witness:
  "redis_hgetall sample_env None False
     (\<lambda>_. Inr (VArray [VBulkString ''f'', VBulkString ''1'', VBulkString ''g'', VBulkString ''2'']))
     sample_decoders ''h'' =
   (Inr (PDict [(PBytes ''f'', PBytes ''1''), (PBytes ''g'', PBytes ''2'')]), [hgetall ''h''])"
  using hgetall_either_protocol [where dc = sample_decoders and ps = "[(''f'', ''1''), (''g'', ''2'')]"
      and key = "''h''" and env = sample_env
      and server = "\<lambda>_. Inr (VArray [VBulkString ''f'', VBulkString ''1'', VBulkString ''g'', VBulkString ''2''])"]
  by (simp add: reads_bulk_def sample_decoders_def unpair_def)

end
