(* ===== verification/ZSets.thy ===== *)
theory ZSets
  imports Sets
begin

text \<open>
  The sorted-set commands (\<open>commands/zsets.rs\<close>): argument checks and command builders, the
  parsing of rank, pop and scan replies, and both versions of every method.

  \<open>as_double\<close> is CPython's \<open>PyFloat_AsDouble\<close> on a value that is not a \<open>float\<close>.
  \<open>blocking\<close> is the outcome of \<open>get_blocking\<close>, the connection of the blocking pops; they
  do not ask whether the client is closed.  The commands of methods that go through the redis
  crate's \<open>AsyncCommands\<close> (ZREM, ZINCRBY, ZCARD, ZSCORE, ZREMRANGEBYRANK, ZPOPMIN, ZPOPMAX)
  are the ones its documentation names.
\<close>

section \<open>ZADD\<close>

record zadd_flags =
  za_nx :: bool
  za_xx :: bool
  za_gt :: bool
  za_lt :: bool
  za_ch :: bool
  za_incr :: bool

definition validate_zadd_flags :: "zadd_flags \<Rightarrow> nat \<Rightarrow> unit pyres" where
  "validate_zadd_flags f pair_count =
     (if za_nx f \<and> za_xx f then Inl (data_error ''ZADD: NX and XX options are mutually exclusive'')
      else if za_gt f \<and> za_lt f then Inl (data_error ''ZADD: GT and LT options are mutually exclusive'')
      else if za_nx f \<and> (za_gt f \<or> za_lt f) then Inl (data_error ''ZADD: NX cannot be combined with GT or LT'')
      else if za_incr f \<and> pair_count \<noteq> 1 then
        Inl (data_error ''ZADD: INCR option supports a single member-score pair only'')
      else Inr ())"

definition extract_member :: "pyval \<Rightarrow> bytes pyres" where
  "extract_member k = (case extract_bytes k of Inr b \<Rightarrow> Inr b | Inl _ \<Rightarrow> extract_string k)"

definition collect_zadd_pairs ::
  "(pyval \<Rightarrow> f64 pyres) \<Rightarrow> (pyval \<times> pyval) list \<Rightarrow> scored_pair list pyres" where
  "collect_zadd_pairs as_double mapping =
     (if mapping = []
      then Inl (data_error ''ZADD: mapping is empty; provide at least one (member, score) pair'')
      else
        collect_res (\<lambda>(k, v).
          rbind (extract_member k) (\<lambda>m. rbind (extract_f64 as_double v) (\<lambda>s. Inr (m, s)))) mapping)"

definition build_zadd_cmd :: "bytes \<Rightarrow> scored_pair list \<Rightarrow> zadd_flags \<Rightarrow> redis_cmd" where
  "build_zadd_cmd key pairs f =
     Cmd ''ZADD''
       ([AStr key] @ flag_arg ''NX'' (za_nx f) @ flag_arg ''XX'' (za_xx f) @ flag_arg ''GT'' (za_gt f) @
        flag_arg ''LT'' (za_lt f) @ flag_arg ''CH'' (za_ch f) @ flag_arg ''INCR'' (za_incr f) @
        concat (map (\<lambda>(m, s). [AF64 s, ABytes m]) pairs))"

definition zadd_checked ::
  "(pyval \<Rightarrow> f64 pyres) \<Rightarrow> (pyval \<times> pyval) list \<Rightarrow> zadd_flags \<Rightarrow> scored_pair list pyres" where
  "zadd_checked as_double mapping f =
     rbind (collect_zadd_pairs as_double mapping) (\<lambda>pairs.
     rbind (validate_zadd_flags f (length pairs)) (\<lambda>_. Inr pairs))"

section \<open>Ranges\<close>

record zrange_options =
  zr_byscore :: bool
  zr_bylex :: bool
  zr_desc :: bool
  zr_offset :: "i64 option"
  zr_num :: "i64 option"

text \<open>The LIMIT clause: both parts or neither.\<close>

definition limit_args :: "bytes \<Rightarrow> i64 option \<Rightarrow> i64 option \<Rightarrow> redis_arg list pyres" where
  "limit_args msg offset num =
     (case (offset, num) of
        (Some i, Some n) \<Rightarrow> Inr [AStr ''LIMIT'', AI64 i, AI64 n]
      | (None, None) \<Rightarrow> Inr []
      | _ \<Rightarrow> Inl (data_error msg))"

definition build_zrange_cmd ::
  "bytes \<Rightarrow> bytes list \<Rightarrow> bytes \<Rightarrow> bytes \<Rightarrow> zrange_options \<Rightarrow> bool \<Rightarrow> redis_cmd pyres" where
  "build_zrange_cmd name leading start stop opt withscores =
     (if zr_byscore opt \<and> zr_bylex opt
      then Inl (data_error ''ZRANGE: BYSCORE and BYLEX are mutually exclusive'')
      else if (zr_offset opt \<noteq> None \<or> zr_num opt \<noteq> None) \<and> \<not> (zr_byscore opt \<or> zr_bylex opt)
      then Inl (data_error ''ZRANGE: LIMIT (offset/num) requires BYSCORE or BYLEX'')
      else if withscores \<and> zr_bylex opt
      then Inl (data_error ''ZRANGE: WITHSCORES is not allowed with BYLEX'')
      else rbind (limit_args ''ZRANGE: both `offset` and `num` are required for LIMIT'' (zr_offset opt) (zr_num opt)) (\<lambda>limit.
        Inr (Cmd name
          (map AStr leading @ [AStr start, AStr stop] @ flag_arg ''BYSCORE'' (zr_byscore opt) @
           flag_arg ''BYLEX'' (zr_bylex opt) @ flag_arg ''REV'' (zr_desc opt) @ limit @
           flag_arg ''WITHSCORES'' withscores))))"

definition pyany_to_zrange_arg :: "pyval \<Rightarrow> bytes pyres" where
  "pyany_to_zrange_arg v =
     (case extract_i64 v of
        Inr i \<Rightarrow> Inr (show_int (sint i))
      | Inl _ \<Rightarrow>
          (case extract_string v of
             Inr s \<Rightarrow> Inr s
           | Inl _ \<Rightarrow>
               (case extract_bytes v of
                  Inr b \<Rightarrow> Inr (utf8_lossy b)
                | Inl _ \<Rightarrow> Inl (data_error ''ZRANGE start/stop must be int, str, or bytes''))))"

definition zrange_checked ::
  "bytes \<Rightarrow> bytes list \<Rightarrow> pyval \<Rightarrow> pyval \<Rightarrow> zrange_options \<Rightarrow> bool \<Rightarrow> redis_cmd pyres" where
  "zrange_checked name leading start stop opt withscores =
     rbind (pyany_to_zrange_arg start) (\<lambda>a.
     rbind (pyany_to_zrange_arg stop) (\<lambda>b. build_zrange_cmd name leading a b opt withscores))"

definition build_simple_range_cmd ::
  "bytes \<Rightarrow> bytes \<Rightarrow> bytes \<Rightarrow> bytes \<Rightarrow> bool \<Rightarrow> i64 option \<Rightarrow> i64 option \<Rightarrow> redis_cmd pyres" where
  "build_simple_range_cmd name key a b withscores offset num =
     rbind (limit_args ''LIMIT requires both offset and num'' offset num) (\<lambda>limit.
       Inr (Cmd name ([AStr key, AStr a, AStr b] @ flag_arg ''WITHSCORES'' withscores @ limit)))"

section \<open>ZRANK\<close>

definition rank_cmd :: "bytes \<Rightarrow> bytes \<Rightarrow> bytes \<Rightarrow> bool \<Rightarrow> redis_cmd" where
  "rank_cmd name key member withscore = Cmd name ([AStr key, ABytes member] @ flag_arg ''WITHSCORE'' withscore)"

text \<open>Unlike \<open>parse_score\<close> this reads no integers.\<close>

definition double_or_text :: "bridge_env \<Rightarrow> redis_value \<Rightarrow> f64" where
  "double_or_text env v =
     (case v of
        VDouble f \<Rightarrow> f
      | VBulkString b \<Rightarrow> (case pe_parse_f64 env b of Some f \<Rightarrow> f | None \<Rightarrow> f64_zero)
      | _ \<Rightarrow> f64_zero)"

definition rank_number :: "redis_value \<Rightarrow> i64" where
  "rank_number v = (case v of VInt n \<Rightarrow> n | _ \<Rightarrow> 0)"

definition parse_rank_reply :: "bridge_env \<Rightarrow> bool \<Rightarrow> redis_value \<Rightarrow> pyval pyres" where
  "parse_rank_reply env withscore v =
     (if \<not> withscore then Inr (case v of VNil \<Rightarrow> PNone | VInt n \<Rightarrow> PInt (sint n) | _ \<Rightarrow> PNone)
      else Inr (case v of
             VNil \<Rightarrow> PNone
           | VArray [rank, score] \<Rightarrow> PTuple [PInt (sint (rank_number rank)), PFloat (double_or_text env score)]
           | _ \<Rightarrow> PNone))"

definition parse_rank_reply_to_rawresult :: "bridge_env \<Rightarrow> bool \<Rightarrow> redis_value \<Rightarrow> raw_result" where
  "parse_rank_reply_to_rawresult env withscore v =
     (if \<not> withscore then (case v of VNil \<Rightarrow> ROptInt None | VInt n \<Rightarrow> ROptInt (Some n) | _ \<Rightarrow> ROptInt None)
      else (case v of
              VNil \<Rightarrow> ROptRankAndScore None
            | VArray [rank, score] \<Rightarrow> ROptRankAndScore (Some (rank_number rank, double_or_text env score))
            | _ \<Rightarrow> ROptRankAndScore None))"

section \<open>ZMPOP, BZPOPMIN, ZSCAN\<close>

definition validate_zmpop_direction :: "bytes \<Rightarrow> bytes pyres" where
  "validate_zmpop_direction d =
     (let u = to_ascii_uppercase d in
      if u = ''MIN'' then Inr ''MIN'' else if u = ''MAX'' then Inr ''MAX''
      else Inl (data_error ''ZMPOP/BZMPOP: direction must be MIN or MAX''))"

definition popped_pair :: "bridge_env \<Rightarrow> redis_value \<Rightarrow> scored_pair option" where
  "popped_pair env entry =
     (case entry of VArray [VBulkString m, s] \<Rightarrow> Some (m, double_or_text env s) | _ \<Rightarrow> None)"

definition parse_zmpop_value :: "bridge_env \<Rightarrow> redis_value \<Rightarrow> (bytes \<times> scored_pair list) option" where
  "parse_zmpop_value env v =
     (case v of
        VArray [key, VArray pairs] \<Rightarrow>
          (case key of
             VBulkString b \<Rightarrow> Some (utf8_lossy b, List.map_filter (popped_pair env) pairs)
           | VSimpleString s \<Rightarrow> Some (s, List.map_filter (popped_pair env) pairs)
           | _ \<Rightarrow> None)
      | _ \<Rightarrow> None)"

definition render_zmpop_reply :: "bridge_env \<Rightarrow> redis_value \<Rightarrow> pyval pyres" where
  "render_zmpop_reply env v =
     Inr (case parse_zmpop_value env v of
        None \<Rightarrow> PNone
      | Some (key, items) \<Rightarrow> PTuple [PStr key, PList (map py_float_pair items)])"

definition parse_zmpop_to_rawresult :: "bridge_env \<Rightarrow> redis_value \<Rightarrow> raw_result" where
  "parse_zmpop_to_rawresult env v = ROptKeyAndScoredMembers (parse_zmpop_value env v)"

definition render_bzpop_reply :: "(bytes \<times> bytes \<times> f64) option \<Rightarrow> pyval pyres" where
  "render_bzpop_reply v =
     Inr (case v of None \<Rightarrow> PNone | Some (k, m, s) \<Rightarrow> PTuple [PBytes k, PBytes m, PFloat s])"

definition zscan_shape :: bytes where
  "zscan_shape = ''ZSCAN reply did not match the [cursor, items] shape''"

definition scanned_pair :: "bridge_env \<Rightarrow> redis_value \<times> redis_value \<Rightarrow> scored_pair option" where
  "scanned_pair env p = (case fst p of VBulkString m \<Rightarrow> Some (m, parse_score env (snd p)) | _ \<Rightarrow> None)"

definition parse_zscan_reply :: "bridge_env \<Rightarrow> redis_value \<Rightarrow> (u64 \<times> scored_pair list) pyres" where
  "parse_zscan_reply env v =
     (case v of
        VArray [cursor, payload] \<Rightarrow>
          Inr (scan_cursor cursor,
               (case payload of
                  VArray items \<Rightarrow> List.map_filter (scanned_pair env) (pair_up items)
                | _ \<Rightarrow> []))
      | _ \<Rightarrow> Inl (data_error zscan_shape))"

definition zscan_to_py :: "bridge_env \<Rightarrow> redis_value \<Rightarrow> pyval pyres" where
  "zscan_to_py env v =
     rbind (parse_zscan_reply env v) (\<lambda>(cursor, items).
       Inr (PTuple [PInt (uint cursor), PList (map py_float_pair items)]))"

definition zscan_raw_result :: "bridge_env \<Rightarrow> redis_value \<Rightarrow> raw_result" where
  "zscan_raw_result env v =
     (case parse_zscan_reply env v of
        Inr (cursor, items) \<Rightarrow> RZScan cursor items
      | Inl _ \<Rightarrow> RError EcResponseError ''ZSCAN reply did not match expected shape'')"

definition zscan_cmd :: "bytes \<Rightarrow> u64 \<Rightarrow> bytes option \<Rightarrow> i64 option \<Rightarrow> redis_cmd" where
  "zscan_cmd key cursor pattern count =
     Cmd ''ZSCAN'' ([AStr key, AU64 cursor] @ opt_arg ''MATCH'' AStr pattern @ opt_arg ''COUNT'' AI64 count)"

section \<open>ZUNION, ZINTER, ZDIFF\<close>

definition no_keys :: bytes where
  "no_keys = ''keys= must contain at least one key''"

definition validate_zset_op_args ::
  "bytes list \<Rightarrow> f64 list option \<Rightarrow> bytes option \<Rightarrow> bytes option pyres" where
  "validate_zset_op_args keys weights aggregate =
     (if keys = [] then Inl (data_error no_keys)
      else if (case weights of Some w \<Rightarrow> length w \<noteq> length keys | None \<Rightarrow> False)
      then Inl (data_error ''weights= must have the same length as keys='')
      else (case aggregate of
              None \<Rightarrow> Inr None
            | Some s \<Rightarrow>
                (let u = to_ascii_uppercase s in
                 if u \<in> {''SUM'', ''MIN'', ''MAX''} then Inr (Some u)
                 else Inl (data_error ''AGGREGATE must be one of SUM, MIN, MAX''))))"

definition build_zset_op_cmd ::
  "bytes \<Rightarrow> bytes list \<Rightarrow> bytes list \<Rightarrow> f64 list option \<Rightarrow> bytes option \<Rightarrow> bool \<Rightarrow> redis_cmd" where
  "build_zset_op_cmd name leading keys weights aggregate withscores =
     Cmd name
       (map AStr leading @ [AUsize (length keys)] @ map AStr keys @
        (case weights of Some w \<Rightarrow> AStr ''WEIGHTS'' # map AF64 w | None \<Rightarrow> []) @
        opt_arg ''AGGREGATE'' AStr aggregate @ flag_arg ''WITHSCORES'' withscores)"

definition zset_op_checked ::
  "bytes \<Rightarrow> bytes list \<Rightarrow> bytes list \<Rightarrow> f64 list option \<Rightarrow> bytes option \<Rightarrow> bool \<Rightarrow> redis_cmd pyres" where
  "zset_op_checked name leading keys weights aggregate withscores =
     rbind (validate_zset_op_args keys weights aggregate)
       (\<lambda>agg. Inr (build_zset_op_cmd name leading keys weights agg withscores))"

definition some_keys :: "bytes list \<Rightarrow> unit pyres" where
  "some_keys keys = (if keys = [] then Inl (data_error no_keys) else Inr ())"

definition render_scored_members :: "scored_pair list \<Rightarrow> pyval pyres" where
  "render_scored_members items = Inr (PList (map py_float_pair items))"

section \<open>Methods\<close>

definition redis_zadd ::
  "bridge_env \<Rightarrow> codec option \<Rightarrow> bool \<Rightarrow> (redis_cmd \<Rightarrow> redis_error + f64 option) \<Rightarrow> (redis_cmd \<Rightarrow> redis_error + i64) \<Rightarrow> (pyval \<Rightarrow> f64 pyres) \<Rightarrow> bytes \<Rightarrow> (pyval \<times> pyval) list \<Rightarrow> zadd_flags \<Rightarrow> pyval pyres \<times> redis_cmd list" where
  "redis_zadd env decode is_closed score plain as_double key mapping fl =
     (if za_incr fl then sync_call env None is_closed (zadd_checked as_double mapping fl) score id
             (\<lambda>pairs. Dispatch (build_zadd_cmd key pairs fl)) conv_opt_f64
      else sync_call env None is_closed (zadd_checked as_double mapping fl) plain id
             (\<lambda>pairs. Dispatch (build_zadd_cmd key pairs fl)) py_int)"

definition async_zadd ::
  "bool \<Rightarrow> (redis_cmd \<Rightarrow> redis_error + f64 option) \<Rightarrow> (redis_cmd \<Rightarrow> redis_error + i64) \<Rightarrow> (pyval \<Rightarrow> f64 pyres) \<Rightarrow> bytes \<Rightarrow> (pyval \<times> pyval) list \<Rightarrow> zadd_flags \<Rightarrow> raw_result pyres \<times> redis_cmd list" where
  "async_zadd is_closed score plain as_double key mapping fl =
     (if za_incr fl then async_call is_closed (zadd_checked as_double mapping fl) score id
             (\<lambda>pairs. Dispatch (build_zadd_cmd key pairs fl)) (raw_with ROptScore)
      else async_call is_closed (zadd_checked as_double mapping fl) plain id
             (\<lambda>pairs. Dispatch (build_zadd_cmd key pairs fl)) (raw_of TI64))"

definition redis_zrem ::
  "bridge_env \<Rightarrow> codec option \<Rightarrow> bool \<Rightarrow> (redis_cmd \<Rightarrow> redis_error + i64) \<Rightarrow> bytes \<Rightarrow> bytes list \<Rightarrow> pyval pyres \<times> redis_cmd list" where
  "redis_zrem env decode is_closed server key members =
     (if members = [] then (py_int 0, [])
      else sync_call env None is_closed (Inr ()) server id
            (\<lambda>_. Dispatch (Cmd ''ZREM'' (AStr key # map ABytes members))) py_int)"

definition async_zrem ::
  "bool \<Rightarrow> (redis_cmd \<Rightarrow> redis_error + i64) \<Rightarrow> bytes \<Rightarrow> bytes list \<Rightarrow> raw_result pyres \<times> redis_cmd list" where
  "async_zrem is_closed server key members =
     async_call is_closed (Inr ()) server id
       (\<lambda>_. if members = [] then Ready 0 else Dispatch (Cmd ''ZREM'' (AStr key # map ABytes members))) (raw_of TI64)"

definition redis_zrange ::
  "bridge_env \<Rightarrow> codec option \<Rightarrow> bool \<Rightarrow> (redis_cmd \<Rightarrow> redis_error + scored_pair list) \<Rightarrow> (redis_cmd \<Rightarrow> redis_error + bytes list) \<Rightarrow> bytes \<Rightarrow> pyval \<Rightarrow> pyval \<Rightarrow> zrange_options \<Rightarrow> bool \<Rightarrow> pyval pyres \<times> redis_cmd list" where
  "redis_zrange env decode is_closed scored plain key start stop opt withscores =
     (if withscores then sync_call env decode is_closed (zrange_checked ''ZRANGE'' [key] start stop opt withscores) scored id
             (\<lambda>cmd. Dispatch cmd) render_scored_members
      else sync_call env decode is_closed (zrange_checked ''ZRANGE'' [key] start stop opt withscores) plain id
             (\<lambda>cmd. Dispatch cmd) py_bytes_list)"

definition async_zrange ::
  "bool \<Rightarrow> (redis_cmd \<Rightarrow> redis_error + scored_pair list) \<Rightarrow> (redis_cmd \<Rightarrow> redis_error + bytes list) \<Rightarrow> bytes \<Rightarrow> pyval \<Rightarrow> pyval \<Rightarrow> zrange_options \<Rightarrow> bool \<Rightarrow> raw_result pyres \<times> redis_cmd list" where
  "async_zrange is_closed scored plain key start stop opt withscores =
     (if withscores then async_call is_closed (zrange_checked ''ZRANGE'' [key] start stop opt withscores) scored id
             (\<lambda>cmd. Dispatch cmd) (raw_of TScoredPairs)
      else async_call is_closed (zrange_checked ''ZRANGE'' [key] start stop opt withscores) plain id
             (\<lambda>cmd. Dispatch cmd) (raw_of TBytesList))"

definition redis_zrangestore ::
  "bridge_env \<Rightarrow> codec option \<Rightarrow> bool \<Rightarrow> (redis_cmd \<Rightarrow> redis_error + i64) \<Rightarrow> bytes \<Rightarrow> bytes \<Rightarrow> pyval \<Rightarrow> pyval \<Rightarrow> zrange_options \<Rightarrow> pyval pyres \<times> redis_cmd list" where
  "redis_zrangestore env decode is_closed server destination source start stop opt =
     sync_call env None is_closed (zrange_checked ''ZRANGESTORE'' [destination, source] start stop opt False) server id
       (\<lambda>cmd. Dispatch cmd) py_int"

definition async_zrangestore ::
  "bool \<Rightarrow> (redis_cmd \<Rightarrow> redis_error + i64) \<Rightarrow> bytes \<Rightarrow> bytes \<Rightarrow> pyval \<Rightarrow> pyval \<Rightarrow> zrange_options \<Rightarrow> raw_result pyres \<times> redis_cmd list" where
  "async_zrangestore is_closed server destination source start stop opt =
     async_call is_closed (zrange_checked ''ZRANGESTORE'' [destination, source] start stop opt False) server id
       (\<lambda>cmd. Dispatch cmd) (raw_of TI64)"

definition redis_zrangebyscore ::
  "bridge_env \<Rightarrow> codec option \<Rightarrow> bool \<Rightarrow> (redis_cmd \<Rightarrow> redis_error + scored_pair list) \<Rightarrow> (redis_cmd \<Rightarrow> redis_error + bytes list) \<Rightarrow> bytes \<Rightarrow> bytes \<Rightarrow> bytes \<Rightarrow> bool \<Rightarrow> i64 option \<Rightarrow> i64 option \<Rightarrow> pyval pyres \<times> redis_cmd list" where
  "redis_zrangebyscore env decode is_closed scored plain key a b withscores offset num =
     (if withscores then sync_call env decode is_closed (build_simple_range_cmd ''ZRANGEBYSCORE'' key a b withscores offset num) scored id
             (\<lambda>cmd. Dispatch cmd) render_scored_members
      else sync_call env decode is_closed (build_simple_range_cmd ''ZRANGEBYSCORE'' key a b withscores offset num) plain id
             (\<lambda>cmd. Dispatch cmd) py_bytes_list)"

definition async_zrangebyscore ::
  "bool \<Rightarrow> (redis_cmd \<Rightarrow> redis_error + scored_pair list) \<Rightarrow> (redis_cmd \<Rightarrow> redis_error + bytes list) \<Rightarrow> bytes \<Rightarrow> bytes \<Rightarrow> bytes \<Rightarrow> bool \<Rightarrow> i64 option \<Rightarrow> i64 option \<Rightarrow> raw_result pyres \<times> redis_cmd list" where
  "async_zrangebyscore is_closed scored plain key a b withscores offset num =
     (if withscores then async_call is_closed (build_simple_range_cmd ''ZRANGEBYSCORE'' key a b withscores offset num) scored id
             (\<lambda>cmd. Dispatch cmd) (raw_of TScoredPairs)
      else async_call is_closed (build_simple_range_cmd ''ZRANGEBYSCORE'' key a b withscores offset num) plain id
             (\<lambda>cmd. Dispatch cmd) (raw_of TBytesList))"

definition redis_zrevrangebyscore ::
  "bridge_env \<Rightarrow> codec option \<Rightarrow> bool \<Rightarrow> (redis_cmd \<Rightarrow> redis_error + scored_pair list) \<Rightarrow> (redis_cmd \<Rightarrow> redis_error + bytes list) \<Rightarrow> bytes \<Rightarrow> bytes \<Rightarrow> bytes \<Rightarrow> bool \<Rightarrow> i64 option \<Rightarrow> i64 option \<Rightarrow> pyval pyres \<times> redis_cmd list" where
  "redis_zrevrangebyscore env decode is_closed scored plain key a b withscores offset num =
     (if withscores then sync_call env decode is_closed (build_simple_range_cmd ''ZREVRANGEBYSCORE'' key a b withscores offset num) scored id
             (\<lambda>cmd. Dispatch cmd) render_scored_members
      else sync_call env decode is_closed (build_simple_range_cmd ''ZREVRANGEBYSCORE'' key a b withscores offset num) plain id
             (\<lambda>cmd. Dispatch cmd) py_bytes_list)"

definition async_zrevrangebyscore ::
  "bool \<Rightarrow> (redis_cmd \<Rightarrow> redis_error + scored_pair list) \<Rightarrow> (redis_cmd \<Rightarrow> redis_error + bytes list) \<Rightarrow> bytes \<Rightarrow> bytes \<Rightarrow> bytes \<Rightarrow> bool \<Rightarrow> i64 option \<Rightarrow> i64 option \<Rightarrow> raw_result pyres \<times> redis_cmd list" where
  "async_zrevrangebyscore is_closed scored plain key a b withscores offset num =
     (if withscores then async_call is_closed (build_simple_range_cmd ''ZREVRANGEBYSCORE'' key a b withscores offset num) scored id
             (\<lambda>cmd. Dispatch cmd) (raw_of TScoredPairs)
      else async_call is_closed (build_simple_range_cmd ''ZREVRANGEBYSCORE'' key a b withscores offset num) plain id
             (\<lambda>cmd. Dispatch cmd) (raw_of TBytesList))"

definition redis_zrangebylex ::
  "bridge_env \<Rightarrow> codec option \<Rightarrow> bool \<Rightarrow> (redis_cmd \<Rightarrow> redis_error + bytes list) \<Rightarrow> bytes \<Rightarrow> bytes \<Rightarrow> bytes \<Rightarrow> i64 option \<Rightarrow> i64 option \<Rightarrow> pyval pyres \<times> redis_cmd list" where
  "redis_zrangebylex env decode is_closed server key a b offset num =
     sync_call env decode is_closed (build_simple_range_cmd ''ZRANGEBYLEX'' key a b False offset num) server id
       (\<lambda>cmd. Dispatch cmd) py_bytes_list"

definition async_zrangebylex ::
  "bool \<Rightarrow> (redis_cmd \<Rightarrow> redis_error + bytes list) \<Rightarrow> bytes \<Rightarrow> bytes \<Rightarrow> bytes \<Rightarrow> i64 option \<Rightarrow> i64 option \<Rightarrow> raw_result pyres \<times> redis_cmd list" where
  "async_zrangebylex is_closed server key a b offset num =
     async_call is_closed (build_simple_range_cmd ''ZRANGEBYLEX'' key a b False offset num) server id
       (\<lambda>cmd. Dispatch cmd) (raw_of TBytesList)"

definition redis_zrevrangebylex ::
  "bridge_env \<Rightarrow> codec option \<Rightarrow> bool \<Rightarrow> (redis_cmd \<Rightarrow> redis_error + bytes list) \<Rightarrow> bytes \<Rightarrow> bytes \<Rightarrow> bytes \<Rightarrow> i64 option \<Rightarrow> i64 option \<Rightarrow> pyval pyres \<times> redis_cmd list" where
  "redis_zrevrangebylex env decode is_closed server key a b offset num =
     sync_call env decode is_closed (build_simple_range_cmd ''ZREVRANGEBYLEX'' key a b False offset num) server id
       (\<lambda>cmd. Dispatch cmd) py_bytes_list"

definition async_zrevrangebylex ::
  "bool \<Rightarrow> (redis_cmd \<Rightarrow> redis_error + bytes list) \<Rightarrow> bytes \<Rightarrow> bytes \<Rightarrow> bytes \<Rightarrow> i64 option \<Rightarrow> i64 option \<Rightarrow> raw_result pyres \<times> redis_cmd list" where
  "async_zrevrangebylex is_closed server key a b offset num =
     async_call is_closed (build_simple_range_cmd ''ZREVRANGEBYLEX'' key a b False offset num) server id
       (\<lambda>cmd. Dispatch cmd) (raw_of TBytesList)"

definition redis_zincrby ::
  "bridge_env \<Rightarrow> codec option \<Rightarrow> bool \<Rightarrow> (redis_cmd \<Rightarrow> redis_error + f64) \<Rightarrow> bytes \<Rightarrow> f64 \<Rightarrow> bytes \<Rightarrow> pyval pyres \<times> redis_cmd list" where
  "redis_zincrby env decode is_closed server key amount member =
     sync_call env None is_closed (Inr ()) server id
       (\<lambda>_. Dispatch (Cmd ''ZINCRBY'' [AStr key, AF64 amount, ABytes member])) conv_f64"

definition async_zincrby ::
  "bool \<Rightarrow> (redis_cmd \<Rightarrow> redis_error + f64) \<Rightarrow> bytes \<Rightarrow> f64 \<Rightarrow> bytes \<Rightarrow> raw_result pyres \<times> redis_cmd list" where
  "async_zincrby is_closed server key amount member =
     async_call is_closed (Inr ()) server id
       (\<lambda>_. Dispatch (Cmd ''ZINCRBY'' [AStr key, AF64 amount, ABytes member])) (raw_of TF64)"

definition redis_zcard ::
  "bridge_env \<Rightarrow> codec option \<Rightarrow> bool \<Rightarrow> (redis_cmd \<Rightarrow> redis_error + i64) \<Rightarrow> bytes \<Rightarrow> pyval pyres \<times> redis_cmd list" where
  "redis_zcard env decode is_closed server key =
     sync_call env None is_closed (Inr ()) server id
       (\<lambda>_. Dispatch (Cmd ''ZCARD'' [AStr key])) py_int"

definition async_zcard ::
  "bool \<Rightarrow> (redis_cmd \<Rightarrow> redis_error + i64) \<Rightarrow> bytes \<Rightarrow> raw_result pyres \<times> redis_cmd list" where
  "async_zcard is_closed server key =
     async_call is_closed (Inr ()) server id
       (\<lambda>_. Dispatch (Cmd ''ZCARD'' [AStr key])) (raw_of TI64)"

definition redis_zscore ::
  "bridge_env \<Rightarrow> codec option \<Rightarrow> bool \<Rightarrow> (redis_cmd \<Rightarrow> redis_error + f64 option) \<Rightarrow> bytes \<Rightarrow> bytes \<Rightarrow> pyval pyres \<times> redis_cmd list" where
  "redis_zscore env decode is_closed server key member =
     sync_call env None is_closed (Inr ()) server id
       (\<lambda>_. Dispatch (Cmd ''ZSCORE'' [AStr key, ABytes member])) conv_opt_f64"

definition async_zscore ::
  "bool \<Rightarrow> (redis_cmd \<Rightarrow> redis_error + f64 option) \<Rightarrow> bytes \<Rightarrow> bytes \<Rightarrow> raw_result pyres \<times> redis_cmd list" where
  "async_zscore is_closed server key member =
     async_call is_closed (Inr ()) server id
       (\<lambda>_. Dispatch (Cmd ''ZSCORE'' [AStr key, ABytes member])) (raw_of TOptF64)"

text \<open>ZMSCORE: the blocking method asks for floats (\<open>decode_scores\<close> is
  \<open>from_redis_value\<close> at \<open>Vec<Option<f64>>\<close>), the awaitable one takes the reply as it is.\<close>

definition zmscore_cmd :: "bytes \<Rightarrow> bytes list \<Rightarrow> redis_cmd" where
  "zmscore_cmd key members = Cmd ''ZMSCORE'' (AStr key # map ABytes members)"

definition scores_to_py :: "f64 option list \<Rightarrow> pyval pyres" where
  "scores_to_py items = Inr (PList (map (case_option PNone PFloat) items))"

definition redis_zmscore ::
  "bridge_env \<Rightarrow> codec option \<Rightarrow> bool \<Rightarrow> (redis_cmd \<Rightarrow> redis_error + redis_value) \<Rightarrow> (redis_value \<Rightarrow> redis_error + f64 option list) \<Rightarrow> bytes \<Rightarrow> bytes list \<Rightarrow> pyval pyres \<times> redis_cmd list" where
  "redis_zmscore env decode is_closed server decode_scores key members =
     (if members = [] then (Inr (PList []), [])
      else sync_call env None is_closed (Inr ()) (reading decode_scores server) id
        (\<lambda>_. Dispatch (zmscore_cmd key members)) scores_to_py)"

definition async_zmscore ::
  "bool \<Rightarrow> (redis_cmd \<Rightarrow> redis_error + redis_value) \<Rightarrow> bytes \<Rightarrow> bytes list \<Rightarrow> raw_result pyres \<times> redis_cmd list" where
  "async_zmscore is_closed server key members =
     async_call is_closed (Inr ()) server id
       (\<lambda>_. if members = [] then Ready (VArray []) else Dispatch (zmscore_cmd key members)) (raw_with RValue)"

definition rank_impl_sync ::
  "bridge_env \<Rightarrow> codec option \<Rightarrow> bool \<Rightarrow> (redis_cmd \<Rightarrow> redis_error + redis_value) \<Rightarrow> bytes \<Rightarrow> bytes \<Rightarrow> bytes \<Rightarrow> bool \<Rightarrow> pyval pyres \<times> redis_cmd list" where
  "rank_impl_sync env decode is_closed server name key member withscore =
     sync_call env None is_closed (Inr ()) server id
       (\<lambda>_. Dispatch (rank_cmd name key member withscore)) (parse_rank_reply env withscore)"

definition rank_impl_async ::
  "bridge_env \<Rightarrow> bool \<Rightarrow> (redis_cmd \<Rightarrow> redis_error + redis_value) \<Rightarrow> bytes \<Rightarrow> bytes \<Rightarrow> bytes \<Rightarrow> bool \<Rightarrow> raw_result pyres \<times> redis_cmd list" where
  "rank_impl_async env is_closed server name key member withscore =
     async_call is_closed (Inr ()) server id
       (\<lambda>_. Dispatch (rank_cmd name key member withscore)) (raw_with (parse_rank_reply_to_rawresult env withscore))"

definition redis_zrank ::
  "bridge_env \<Rightarrow> codec option \<Rightarrow> bool \<Rightarrow> (redis_cmd \<Rightarrow> redis_error + redis_value) \<Rightarrow> bytes \<Rightarrow> bytes \<Rightarrow> bool \<Rightarrow> pyval pyres \<times> redis_cmd list" where
  "redis_zrank env decode is_closed server = rank_impl_sync env decode is_closed server ''ZRANK''"

definition async_zrank ::
  "bridge_env \<Rightarrow> bool \<Rightarrow> (redis_cmd \<Rightarrow> redis_error + redis_value) \<Rightarrow> bytes \<Rightarrow> bytes \<Rightarrow> bool \<Rightarrow> raw_result pyres \<times> redis_cmd list" where
  "async_zrank env is_closed server = rank_impl_async env is_closed server ''ZRANK''"

definition redis_zrevrank ::
  "bridge_env \<Rightarrow> codec option \<Rightarrow> bool \<Rightarrow> (redis_cmd \<Rightarrow> redis_error + redis_value) \<Rightarrow> bytes \<Rightarrow> bytes \<Rightarrow> bool \<Rightarrow> pyval pyres \<times> redis_cmd list" where
  "redis_zrevrank env decode is_closed server = rank_impl_sync env decode is_closed server ''ZREVRANK''"

definition async_zrevrank ::
  "bridge_env \<Rightarrow> bool \<Rightarrow> (redis_cmd \<Rightarrow> redis_error + redis_value) \<Rightarrow> bytes \<Rightarrow> bytes \<Rightarrow> bool \<Rightarrow> raw_result pyres \<times> redis_cmd list" where
  "async_zrevrank env is_closed server = rank_impl_async env is_closed server ''ZREVRANK''"

definition redis_zremrangebyrank ::
  "bridge_env \<Rightarrow> codec option \<Rightarrow> bool \<Rightarrow> (redis_cmd \<Rightarrow> redis_error + i64) \<Rightarrow> bytes \<Rightarrow> i64 \<Rightarrow> i64 \<Rightarrow> pyval pyres \<times> redis_cmd list" where
  "redis_zremrangebyrank env decode is_closed server key start stop =
     sync_call env None is_closed (Inr ()) server id
       (\<lambda>_. Dispatch (Cmd ''ZREMRANGEBYRANK'' [AStr key, AI64 start, AI64 stop])) py_int"

definition async_zremrangebyrank ::
  "bool \<Rightarrow> (redis_cmd \<Rightarrow> redis_error + i64) \<Rightarrow> bytes \<Rightarrow> i64 \<Rightarrow> i64 \<Rightarrow> raw_result pyres \<times> redis_cmd list" where
  "async_zremrangebyrank is_closed server key start stop =
     async_call is_closed (Inr ()) server id
       (\<lambda>_. Dispatch (Cmd ''ZREMRANGEBYRANK'' [AStr key, AI64 start, AI64 stop])) (raw_of TI64)"

definition redis_zremrangebyscore ::
  "bridge_env \<Rightarrow> codec option \<Rightarrow> bool \<Rightarrow> (redis_cmd \<Rightarrow> redis_error + i64) \<Rightarrow> bytes \<Rightarrow> bytes \<Rightarrow> bytes \<Rightarrow> pyval pyres \<times> redis_cmd list" where
  "redis_zremrangebyscore env decode is_closed server key a b =
     sync_call env None is_closed (Inr ()) server id
       (\<lambda>_. Dispatch (Cmd ''ZREMRANGEBYSCORE'' [AStr key, AStr a, AStr b])) py_int"

definition async_zremrangebyscore ::
  "bool \<Rightarrow> (redis_cmd \<Rightarrow> redis_error + i64) \<Rightarrow> bytes \<Rightarrow> bytes \<Rightarrow> bytes \<Rightarrow> raw_result pyres \<times> redis_cmd list" where
  "async_zremrangebyscore is_closed server key a b =
     async_call is_closed (Inr ()) server id
       (\<lambda>_. Dispatch (Cmd ''ZREMRANGEBYSCORE'' [AStr key, AStr a, AStr b])) (raw_of TI64)"

definition redis_zremrangebylex ::
  "bridge_env \<Rightarrow> codec option \<Rightarrow> bool \<Rightarrow> (redis_cmd \<Rightarrow> redis_error + i64) \<Rightarrow> bytes \<Rightarrow> bytes \<Rightarrow> bytes \<Rightarrow> pyval pyres \<times> redis_cmd list" where
  "redis_zremrangebylex env decode is_closed server key a b =
     sync_call env None is_closed (Inr ()) server id
       (\<lambda>_. Dispatch (Cmd ''ZREMRANGEBYLEX'' [AStr key, AStr a, AStr b])) py_int"

definition async_zremrangebylex ::
  "bool \<Rightarrow> (redis_cmd \<Rightarrow> redis_error + i64) \<Rightarrow> bytes \<Rightarrow> bytes \<Rightarrow> bytes \<Rightarrow> raw_result pyres \<times> redis_cmd list" where
  "async_zremrangebylex is_closed server key a b =
     async_call is_closed (Inr ()) server id
       (\<lambda>_. Dispatch (Cmd ''ZREMRANGEBYLEX'' [AStr key, AStr a, AStr b])) (raw_of TI64)"

definition redis_zcount ::
  "bridge_env \<Rightarrow> codec option \<Rightarrow> bool \<Rightarrow> (redis_cmd \<Rightarrow> redis_error + i64) \<Rightarrow> bytes \<Rightarrow> bytes \<Rightarrow> bytes \<Rightarrow> pyval pyres \<times> redis_cmd list" where
  "redis_zcount env decode is_closed server key a b =
     sync_call env None is_closed (Inr ()) server id
       (\<lambda>_. Dispatch (Cmd ''ZCOUNT'' [AStr key, AStr a, AStr b])) py_int"

definition async_zcount ::
  "bool \<Rightarrow> (redis_cmd \<Rightarrow> redis_error + i64) \<Rightarrow> bytes \<Rightarrow> bytes \<Rightarrow> bytes \<Rightarrow> raw_result pyres \<times> redis_cmd list" where
  "async_zcount is_closed server key a b =
     async_call is_closed (Inr ()) server id
       (\<lambda>_. Dispatch (Cmd ''ZCOUNT'' [AStr key, AStr a, AStr b])) (raw_of TI64)"

definition redis_zlexcount ::
  "bridge_env \<Rightarrow> codec option \<Rightarrow> bool \<Rightarrow> (redis_cmd \<Rightarrow> redis_error + i64) \<Rightarrow> bytes \<Rightarrow> bytes \<Rightarrow> bytes \<Rightarrow> pyval pyres \<times> redis_cmd list" where
  "redis_zlexcount env decode is_closed server key a b =
     sync_call env None is_closed (Inr ()) server id
       (\<lambda>_. Dispatch (Cmd ''ZLEXCOUNT'' [AStr key, AStr a, AStr b])) py_int"

definition async_zlexcount ::
  "bool \<Rightarrow> (redis_cmd \<Rightarrow> redis_error + i64) \<Rightarrow> bytes \<Rightarrow> bytes \<Rightarrow> bytes \<Rightarrow> raw_result pyres \<times> redis_cmd list" where
  "async_zlexcount is_closed server key a b =
     async_call is_closed (Inr ()) server id
       (\<lambda>_. Dispatch (Cmd ''ZLEXCOUNT'' [AStr key, AStr a, AStr b])) (raw_of TI64)"

definition redis_zpopmin ::
  "bridge_env \<Rightarrow> codec option \<Rightarrow> bool \<Rightarrow> (redis_cmd \<Rightarrow> redis_error + scored_pair list) \<Rightarrow> bytes \<Rightarrow> i64 \<Rightarrow> pyval pyres \<times> redis_cmd list" where
  "redis_zpopmin env decode is_closed server key count =
     sync_call env decode is_closed (Inr ()) server id
       (\<lambda>_. Dispatch (Cmd ''ZPOPMIN'' [AStr key, AI64 count])) render_scored_members"

definition async_zpopmin ::
  "bool \<Rightarrow> (redis_cmd \<Rightarrow> redis_error + scored_pair list) \<Rightarrow> bytes \<Rightarrow> i64 \<Rightarrow> raw_result pyres \<times> redis_cmd list" where
  "async_zpopmin is_closed server key count =
     async_call is_closed (Inr ()) server id
       (\<lambda>_. Dispatch (Cmd ''ZPOPMIN'' [AStr key, AI64 count])) (raw_of TScoredPairs)"

definition redis_zpopmax ::
  "bridge_env \<Rightarrow> codec option \<Rightarrow> bool \<Rightarrow> (redis_cmd \<Rightarrow> redis_error + scored_pair list) \<Rightarrow> bytes \<Rightarrow> i64 \<Rightarrow> pyval pyres \<times> redis_cmd list" where
  "redis_zpopmax env decode is_closed server key count =
     sync_call env decode is_closed (Inr ()) server id
       (\<lambda>_. Dispatch (Cmd ''ZPOPMAX'' [AStr key, AI64 count])) render_scored_members"

definition async_zpopmax ::
  "bool \<Rightarrow> (redis_cmd \<Rightarrow> redis_error + scored_pair list) \<Rightarrow> bytes \<Rightarrow> i64 \<Rightarrow> raw_result pyres \<times> redis_cmd list" where
  "async_zpopmax is_closed server key count =
     async_call is_closed (Inr ()) server id
       (\<lambda>_. Dispatch (Cmd ''ZPOPMAX'' [AStr key, AI64 count])) (raw_of TScoredPairs)"

definition redis_zmpop ::
  "bridge_env \<Rightarrow> codec option \<Rightarrow> bool \<Rightarrow> (redis_cmd \<Rightarrow> redis_error + redis_value) \<Rightarrow> bytes list \<Rightarrow> bytes \<Rightarrow> i64 \<Rightarrow> pyval pyres \<times> redis_cmd list" where
  "redis_zmpop env decode is_closed server keys direction count =
     sync_call env decode is_closed (validate_zmpop_direction direction) server id
       (\<lambda>d. Dispatch (Cmd ''ZMPOP'' ([AUsize (length keys)] @ map AStr keys @ [AStr d, AStr ''COUNT'', AI64 count]))) (render_zmpop_reply env)"

definition async_zmpop ::
  "bridge_env \<Rightarrow> bool \<Rightarrow> (redis_cmd \<Rightarrow> redis_error + redis_value) \<Rightarrow> bytes list \<Rightarrow> bytes \<Rightarrow> i64 \<Rightarrow> raw_result pyres \<times> redis_cmd list" where
  "async_zmpop env is_closed server keys direction count =
     async_call is_closed (validate_zmpop_direction direction) server id
       (\<lambda>d. Dispatch (Cmd ''ZMPOP'' ([AUsize (length keys)] @ map AStr keys @ [AStr d, AStr ''COUNT'', AI64 count]))) (raw_with (parse_zmpop_to_rawresult env))"

text \<open>Blocking pops.  When the blocking connection cannot be opened, the blocking client raises
  Python's own \<open>ConnectionError\<close>, the awaitable one the classified error.\<close>

definition no_blocking_conn :: "redis_error \<Rightarrow> pyerr" where
  "no_blocking_conn e = PyErr PyConnectionError (re_display e)"

definition redis_bzpopmin ::
  "bridge_env \<Rightarrow> codec option \<Rightarrow> bool \<Rightarrow> (redis_cmd \<Rightarrow> redis_error + (bytes \<times> bytes \<times> f64) option) \<Rightarrow> redis_error + unit \<Rightarrow> bytes list \<Rightarrow> f64 \<Rightarrow> pyval pyres \<times> redis_cmd list" where
  "redis_bzpopmin env decode is_closed server blocking keys timeout =
     (case blocking of Inl e \<Rightarrow> (Inl (no_blocking_conn e), [])
      | Inr _ \<Rightarrow> sync_call env decode False (Inr ()) server id
              (\<lambda>_. Dispatch (Cmd ''BZPOPMIN'' (map AStr keys @ [AF64 timeout]))) render_bzpop_reply)"

definition async_bzpopmin ::
  "bool \<Rightarrow> (redis_cmd \<Rightarrow> redis_error + (bytes \<times> bytes \<times> f64) option) \<Rightarrow> redis_error + unit \<Rightarrow> bytes list \<Rightarrow> f64 \<Rightarrow> raw_result pyres \<times> redis_cmd list" where
  "async_bzpopmin is_closed server blocking keys timeout =
     (case blocking of Inl e \<Rightarrow> (Inr (classify e), [])
      | Inr _ \<Rightarrow> async_call False (Inr ()) server id
              (\<lambda>_. Dispatch (Cmd ''BZPOPMIN'' (map AStr keys @ [AF64 timeout]))) (raw_with ROptKeyMemberScore))"

definition redis_bzpopmax ::
  "bridge_env \<Rightarrow> codec option \<Rightarrow> bool \<Rightarrow> (redis_cmd \<Rightarrow> redis_error + (bytes \<times> bytes \<times> f64) option) \<Rightarrow> redis_error + unit \<Rightarrow> bytes list \<Rightarrow> f64 \<Rightarrow> pyval pyres \<times> redis_cmd list" where
  "redis_bzpopmax env decode is_closed server blocking keys timeout =
     (case blocking of Inl e \<Rightarrow> (Inl (no_blocking_conn e), [])
      | Inr _ \<Rightarrow> sync_call env decode False (Inr ()) server id
              (\<lambda>_. Dispatch (Cmd ''BZPOPMAX'' (map AStr keys @ [AF64 timeout]))) render_bzpop_reply)"

definition async_bzpopmax ::
  "bool \<Rightarrow> (redis_cmd \<Rightarrow> redis_error + (bytes \<times> bytes \<times> f64) option) \<Rightarrow> redis_error + unit \<Rightarrow> bytes list \<Rightarrow> f64 \<Rightarrow> raw_result pyres \<times> redis_cmd list" where
  "async_bzpopmax is_closed server blocking keys timeout =
     (case blocking of Inl e \<Rightarrow> (Inr (classify e), [])
      | Inr _ \<Rightarrow> async_call False (Inr ()) server id
              (\<lambda>_. Dispatch (Cmd ''BZPOPMAX'' (map AStr keys @ [AF64 timeout]))) (raw_with ROptKeyMemberScore))"

definition redis_bzmpop ::
  "bridge_env \<Rightarrow> codec option \<Rightarrow> bool \<Rightarrow> (redis_cmd \<Rightarrow> redis_error + redis_value) \<Rightarrow> redis_error + unit \<Rightarrow> bytes list \<Rightarrow> bytes \<Rightarrow> f64 \<Rightarrow> i64 \<Rightarrow> pyval pyres \<times> redis_cmd list" where
  "redis_bzmpop env decode is_closed server blocking keys direction timeout count =
     (case validate_zmpop_direction direction of Inl e \<Rightarrow> (Inl e, [])
      | Inr d \<Rightarrow> (case blocking of Inl e \<Rightarrow> (Inl (no_blocking_conn e), [])
             | Inr _ \<Rightarrow> sync_call env decode False (Inr ()) server id
                     (\<lambda>_. Dispatch (Cmd ''BZMPOP'' ([AF64 timeout, AUsize (length keys)] @ map AStr keys @ [AStr d, AStr ''COUNT'', AI64 count]))) (render_zmpop_reply env)))"

definition async_bzmpop ::
  "bridge_env \<Rightarrow> bool \<Rightarrow> (redis_cmd \<Rightarrow> redis_error + redis_value) \<Rightarrow> redis_error + unit \<Rightarrow> bytes list \<Rightarrow> bytes \<Rightarrow> f64 \<Rightarrow> i64 \<Rightarrow> raw_result pyres \<times> redis_cmd list" where
  "async_bzmpop env is_closed server blocking keys direction timeout count =
     (case validate_zmpop_direction direction of Inl e \<Rightarrow> (Inl e, [])
      | Inr d \<Rightarrow> (case blocking of Inl e \<Rightarrow> (Inr (classify e), [])
             | Inr _ \<Rightarrow> async_call False (Inr ()) server id
                     (\<lambda>_. Dispatch (Cmd ''BZMPOP'' ([AF64 timeout, AUsize (length keys)] @ map AStr keys @ [AStr d, AStr ''COUNT'', AI64 count]))) (raw_with (parse_zmpop_to_rawresult env))))"

definition zrandmember_cmd :: "bytes \<Rightarrow> i64 option \<Rightarrow> bool \<Rightarrow> redis_cmd" where
  "zrandmember_cmd key count withscores =
     Cmd ''ZRANDMEMBER''
       (AStr key # (case count of Some c \<Rightarrow> AI64 c # flag_arg ''WITHSCORES'' withscores | None \<Rightarrow> []))"

definition redis_zrandmember ::
  "bridge_env \<Rightarrow> codec option \<Rightarrow> bool \<Rightarrow> (redis_cmd \<Rightarrow> redis_error + redis_value) \<Rightarrow> bytes \<Rightarrow> i64 option \<Rightarrow> bool \<Rightarrow> pyval pyres \<times> redis_cmd list" where
  "redis_zrandmember env decode is_closed server key count withscores =
     sync_call env decode is_closed (Inr ()) server id
       (\<lambda>_. Dispatch (zrandmember_cmd key count withscores)) (\<lambda>v. render_zrandmember env v count withscores)"

definition async_zrandmember ::
  "bool \<Rightarrow> (redis_cmd \<Rightarrow> redis_error + redis_value) \<Rightarrow> bytes \<Rightarrow> i64 option \<Rightarrow> bool \<Rightarrow> raw_result pyres \<times> redis_cmd list" where
  "async_zrandmember is_closed server key count withscores =
     async_call False (Inr ()) server id
       (\<lambda>_. Dispatch (zrandmember_cmd key count withscores)) (raw_with (\<lambda>v. RZRandmember v count withscores))"

definition redis_zscan ::
  "bridge_env \<Rightarrow> codec option \<Rightarrow> bool \<Rightarrow> (redis_cmd \<Rightarrow> redis_error + redis_value) \<Rightarrow> bytes \<Rightarrow> u64 \<Rightarrow> bytes option \<Rightarrow> i64 option \<Rightarrow> pyval pyres \<times> redis_cmd list" where
  "redis_zscan env decode is_closed server key cursor pattern count =
     sync_call env decode is_closed (Inr ()) server id
       (\<lambda>_. Dispatch (zscan_cmd key cursor pattern count)) (zscan_to_py env)"

definition async_zscan ::
  "bridge_env \<Rightarrow> bool \<Rightarrow> (redis_cmd \<Rightarrow> redis_error + redis_value) \<Rightarrow> bytes \<Rightarrow> u64 \<Rightarrow> bytes option \<Rightarrow> i64 option \<Rightarrow> raw_result pyres \<times> redis_cmd list" where
  "async_zscan env is_closed server key cursor pattern count =
     async_call is_closed (Inr ()) server id
       (\<lambda>_. Dispatch (zscan_cmd key cursor pattern count)) (raw_with (zscan_raw_result env))"

definition redis_zunion ::
  "bridge_env \<Rightarrow> codec option \<Rightarrow> bool \<Rightarrow> (redis_cmd \<Rightarrow> redis_error + scored_pair list) \<Rightarrow> (redis_cmd \<Rightarrow> redis_error + bytes list) \<Rightarrow> bytes list \<Rightarrow> f64 list option \<Rightarrow> bytes option \<Rightarrow> bool \<Rightarrow> pyval pyres \<times> redis_cmd list" where
  "redis_zunion env decode is_closed scored plain keys weights aggregate withscores =
     (if withscores then sync_call env decode is_closed (zset_op_checked ''ZUNION'' [] keys weights aggregate withscores) scored id
             (\<lambda>cmd. Dispatch cmd) render_scored_members
      else sync_call env decode is_closed (zset_op_checked ''ZUNION'' [] keys weights aggregate withscores) plain id
             (\<lambda>cmd. Dispatch cmd) py_bytes_list)"

definition async_zunion ::
  "bool \<Rightarrow> (redis_cmd \<Rightarrow> redis_error + scored_pair list) \<Rightarrow> (redis_cmd \<Rightarrow> redis_error + bytes list) \<Rightarrow> bytes list \<Rightarrow> f64 list option \<Rightarrow> bytes option \<Rightarrow> bool \<Rightarrow> raw_result pyres \<times> redis_cmd list" where
  "async_zunion is_closed scored plain keys weights aggregate withscores =
     (if withscores then async_call is_closed (zset_op_checked ''ZUNION'' [] keys weights aggregate withscores) scored id
             (\<lambda>cmd. Dispatch cmd) (raw_of TScoredPairs)
      else async_call is_closed (zset_op_checked ''ZUNION'' [] keys weights aggregate withscores) plain id
             (\<lambda>cmd. Dispatch cmd) (raw_of TBytesList))"

definition redis_zinter ::
  "bridge_env \<Rightarrow> codec option \<Rightarrow> bool \<Rightarrow> (redis_cmd \<Rightarrow> redis_error + scored_pair list) \<Rightarrow> (redis_cmd \<Rightarrow> redis_error + bytes list) \<Rightarrow> bytes list \<Rightarrow> f64 list option \<Rightarrow> bytes option \<Rightarrow> bool \<Rightarrow> pyval pyres \<times> redis_cmd list" where
  "redis_zinter env decode is_closed scored plain keys weights aggregate withscores =
     (if withscores then sync_call env decode is_closed (zset_op_checked ''ZINTER'' [] keys weights aggregate withscores) scored id
             (\<lambda>cmd. Dispatch cmd) render_scored_members
      else sync_call env decode is_closed (zset_op_checked ''ZINTER'' [] keys weights aggregate withscores) plain id
             (\<lambda>cmd. Dispatch cmd) py_bytes_list)"

definition async_zinter ::
  "bool \<Rightarrow> (redis_cmd \<Rightarrow> redis_error + scored_pair list) \<Rightarrow> (redis_cmd \<Rightarrow> redis_error + bytes list) \<Rightarrow> bytes list \<Rightarrow> f64 list option \<Rightarrow> bytes option \<Rightarrow> bool \<Rightarrow> raw_result pyres \<times> redis_cmd list" where
  "async_zinter is_closed scored plain keys weights aggregate withscores =
     (if withscores then async_call is_closed (zset_op_checked ''ZINTER'' [] keys weights aggregate withscores) scored id
             (\<lambda>cmd. Dispatch cmd) (raw_of TScoredPairs)
      else async_call is_closed (zset_op_checked ''ZINTER'' [] keys weights aggregate withscores) plain id
             (\<lambda>cmd. Dispatch cmd) (raw_of TBytesList))"

definition redis_zdiff ::
  "bridge_env \<Rightarrow> codec option \<Rightarrow> bool \<Rightarrow> (redis_cmd \<Rightarrow> redis_error + scored_pair list) \<Rightarrow> (redis_cmd \<Rightarrow> redis_error + bytes list) \<Rightarrow> bytes list \<Rightarrow> bool \<Rightarrow> pyval pyres \<times> redis_cmd list" where
  "redis_zdiff env decode is_closed scored plain keys withscores =
     (if withscores then sync_call env decode is_closed (some_keys keys) scored id
             (\<lambda>_. Dispatch (build_zset_op_cmd ''ZDIFF'' [] keys None None withscores)) render_scored_members
      else sync_call env decode is_closed (some_keys keys) plain id
             (\<lambda>_. Dispatch (build_zset_op_cmd ''ZDIFF'' [] keys None None withscores)) py_bytes_list)"

definition async_zdiff ::
  "bool \<Rightarrow> (redis_cmd \<Rightarrow> redis_error + scored_pair list) \<Rightarrow> (redis_cmd \<Rightarrow> redis_error + bytes list) \<Rightarrow> bytes list \<Rightarrow> bool \<Rightarrow> raw_result pyres \<times> redis_cmd list" where
  "async_zdiff is_closed scored plain keys withscores =
     (if withscores then async_call is_closed (some_keys keys) scored id
             (\<lambda>_. Dispatch (build_zset_op_cmd ''ZDIFF'' [] keys None None withscores)) (raw_of TScoredPairs)
      else async_call is_closed (some_keys keys) plain id
             (\<lambda>_. Dispatch (build_zset_op_cmd ''ZDIFF'' [] keys None None withscores)) (raw_of TBytesList))"

definition redis_zunionstore ::
  "bridge_env \<Rightarrow> codec option \<Rightarrow> bool \<Rightarrow> (redis_cmd \<Rightarrow> redis_error + i64) \<Rightarrow> bytes \<Rightarrow> bytes list \<Rightarrow> f64 list option \<Rightarrow> bytes option \<Rightarrow> pyval pyres \<times> redis_cmd list" where
  "redis_zunionstore env decode is_closed server destination keys weights aggregate =
     sync_call env None is_closed (zset_op_checked ''ZUNIONSTORE'' [destination] keys weights aggregate False) server id
       (\<lambda>cmd. Dispatch cmd) py_int"

definition async_zunionstore ::
  "bool \<Rightarrow> (redis_cmd \<Rightarrow> redis_error + i64) \<Rightarrow> bytes \<Rightarrow> bytes list \<Rightarrow> f64 list option \<Rightarrow> bytes option \<Rightarrow> raw_result pyres \<times> redis_cmd list" where
  "async_zunionstore is_closed server destination keys weights aggregate =
     async_call is_closed (zset_op_checked ''ZUNIONSTORE'' [destination] keys weights aggregate False) server id
       (\<lambda>cmd. Dispatch cmd) (raw_of TI64)"

definition redis_zinterstore ::
  "bridge_env \<Rightarrow> codec option \<Rightarrow> bool \<Rightarrow> (redis_cmd \<Rightarrow> redis_error + i64) \<Rightarrow> bytes \<Rightarrow> bytes list \<Rightarrow> f64 list option \<Rightarrow> bytes option \<Rightarrow> pyval pyres \<times> redis_cmd list" where
  "redis_zinterstore env decode is_closed server destination keys weights aggregate =
     sync_call env None is_closed (zset_op_checked ''ZINTERSTORE'' [destination] keys weights aggregate False) server id
       (\<lambda>cmd. Dispatch cmd) py_int"

definition async_zinterstore ::
  "bool \<Rightarrow> (redis_cmd \<Rightarrow> redis_error + i64) \<Rightarrow> bytes \<Rightarrow> bytes list \<Rightarrow> f64 list option \<Rightarrow> bytes option \<Rightarrow> raw_result pyres \<times> redis_cmd list" where
  "async_zinterstore is_closed server destination keys weights aggregate =
     async_call is_closed (zset_op_checked ''ZINTERSTORE'' [destination] keys weights aggregate False) server id
       (\<lambda>cmd. Dispatch cmd) (raw_of TI64)"

definition redis_zdiffstore ::
  "bridge_env \<Rightarrow> codec option \<Rightarrow> bool \<Rightarrow> (redis_cmd \<Rightarrow> redis_error + i64) \<Rightarrow> bytes \<Rightarrow> bytes list \<Rightarrow> pyval pyres \<times> redis_cmd list" where
  "redis_zdiffstore env decode is_closed server destination keys =
     sync_call env None is_closed (some_keys keys) server id
       (\<lambda>_. Dispatch (Cmd ''ZDIFFSTORE'' ([AStr destination, AUsize (length keys)] @ map AStr keys))) py_int"

definition async_zdiffstore ::
  "bool \<Rightarrow> (redis_cmd \<Rightarrow> redis_error + i64) \<Rightarrow> bytes \<Rightarrow> bytes list \<Rightarrow> raw_result pyres \<times> redis_cmd list" where
  "async_zdiffstore is_closed server destination keys =
     (if keys = [] then (if is_closed then (Inl closed_error, []) else (Inr (RError EcDataError no_keys), []))
      else async_call is_closed (Inr ()) server id
            (\<lambda>_. Dispatch (Cmd ''ZDIFFSTORE'' ([AStr destination, AUsize (length keys)] @ map AStr keys))) (raw_of TI64))"

definition redis_zintercard ::
  "bridge_env \<Rightarrow> codec option \<Rightarrow> bool \<Rightarrow> (redis_cmd \<Rightarrow> redis_error + i64) \<Rightarrow> bytes list \<Rightarrow> i64 option \<Rightarrow> pyval pyres \<times> redis_cmd list" where
  "redis_zintercard env decode is_closed server keys limit =
     sync_call env None is_closed (some_keys keys) server id
       (\<lambda>_. Dispatch (Cmd ''ZINTERCARD'' ([AUsize (length keys)] @ map AStr keys @ opt_arg ''LIMIT'' AI64 limit))) py_int"

definition async_zintercard ::
  "bool \<Rightarrow> (redis_cmd \<Rightarrow> redis_error + i64) \<Rightarrow> bytes list \<Rightarrow> i64 option \<Rightarrow> raw_result pyres \<times> redis_cmd list" where
  "async_zintercard is_closed server keys limit =
     (if keys = [] then (if is_closed then (Inl closed_error, []) else (Inr (RError EcDataError no_keys), []))
      else async_call is_closed (Inr ()) server id
            (\<lambda>_. Dispatch (Cmd ''ZINTERCARD'' ([AUsize (length keys)] @ map AStr keys @ opt_arg ''LIMIT'' AI64 limit))) (raw_of TI64))"

section \<open>Both versions\<close>

interpretation opt_score_reply: scalar_reply conv_opt_f64 "raw_with ROptScore"
  by unfold_locales (auto simp: reply_defs split: option.splits)

interpretation scored_reply: reply_pair render_scored_members "raw_of TScoredPairs"
  by unfold_locales (simp_all add: reply_defs render_scored_members_def)

interpretation rank_reply:
  scalar_at env "parse_rank_reply env withscore" "raw_with (parse_rank_reply_to_rawresult env withscore)"
  for env withscore
  by unfold_locales
    (auto simp: raw_with_def parse_rank_reply_def parse_rank_reply_to_rawresult_def opt_py_def
      split: redis_value.splits list.splits if_splits)

interpretation zmpop_reply: reply_at env "render_zmpop_reply env" "raw_with (parse_zmpop_to_rawresult env)"
  for env
  by unfold_locales
    (auto simp: raw_with_def render_zmpop_reply_def parse_zmpop_to_rawresult_def opt_py_def split: option.splits)

interpretation bzpop_reply: reply_pair render_bzpop_reply "raw_with ROptKeyMemberScore"
  by unfold_locales (auto simp: raw_with_def render_bzpop_reply_def opt_py_def split: option.splits)

interpretation zrandmember_reply:
  reply_at env "\<lambda>v. render_zrandmember env v count withscores" "raw_with (\<lambda>v. RZRandmember v count withscores)"
  for env count withscores
  by unfold_locales (simp_all add: raw_with_def)

lemmas zset_agreement = method_agreement opt_score_reply.agree_undecoded scored_reply.agree
  rank_reply.agree_undecoded zmpop_reply.agree

lemmas zsets_method_defs =
  redis_zadd_def async_zadd_def redis_zrange_def async_zrange_def redis_zrangestore_def
  async_zrangestore_def redis_zrangebyscore_def async_zrangebyscore_def redis_zrevrangebyscore_def
  async_zrevrangebyscore_def redis_zrangebylex_def async_zrangebylex_def redis_zrevrangebylex_def
  async_zrevrangebylex_def redis_zincrby_def async_zincrby_def redis_zcard_def async_zcard_def
  redis_zscore_def async_zscore_def rank_impl_sync_def rank_impl_async_def redis_zrank_def async_zrank_def redis_zrevrank_def
  async_zrevrank_def redis_zremrangebyrank_def async_zremrangebyrank_def redis_zremrangebyscore_def
  async_zremrangebyscore_def redis_zremrangebylex_def async_zremrangebylex_def redis_zcount_def
  async_zcount_def redis_zlexcount_def async_zlexcount_def redis_zpopmin_def async_zpopmin_def
  redis_zpopmax_def async_zpopmax_def redis_zmpop_def async_zmpop_def redis_zunion_def async_zunion_def
  redis_zinter_def async_zinter_def redis_zdiff_def async_zdiff_def redis_zunionstore_def
  async_zunionstore_def redis_zinterstore_def async_zinterstore_def

text \<open>The sorted-set methods that agree on both clients.\<close>
lemma zset_methods_agree:
  "await_call env decode (async_zadd z s s2 as_double key mapping fl) = redis_zadd env decode z s s2 as_double key mapping fl \<and>
   await_call env decode (async_zrange z s3 s4 key start stop opt withscores) = redis_zrange env decode z s3 s4 key start stop opt withscores \<and>
   await_call env decode (async_zrangestore z s2 destination source start stop opt) = redis_zrangestore env decode z s2 destination source start stop opt \<and>
   await_call env decode (async_zrangebyscore z s3 s4 key a b withscores offset num) = redis_zrangebyscore env decode z s3 s4 key a b withscores offset num \<and>
   await_call env decode (async_zrevrangebyscore z s3 s4 key a b withscores offset num) = redis_zrevrangebyscore env decode z s3 s4 key a b withscores offset num \<and>
   await_call env decode (async_zrangebylex z s4 key a b offset num) = redis_zrangebylex env decode z s4 key a b offset num \<and>
   await_call env decode (async_zrevrangebylex z s4 key a b offset num) = redis_zrevrangebylex env decode z s4 key a b offset num \<and>
   await_call env decode (async_zincrby z s5 key amount member) = redis_zincrby env decode z s5 key amount member \<and>
   await_call env decode (async_zcard z s2 key) = redis_zcard env decode z s2 key \<and>
   await_call env decode (async_zscore z s key member) = redis_zscore env decode z s key member \<and>
   await_call env decode (async_zrank env z s6 key member withscore) = redis_zrank env decode z s6 key member withscore \<and>
   await_call env decode (async_zrevrank env z s6 key member withscore) = redis_zrevrank env decode z s6 key member withscore \<and>
   await_call env decode (async_zremrangebyrank z s2 key start2 stop2) = redis_zremrangebyrank env decode z s2 key start2 stop2 \<and>
   await_call env decode (async_zremrangebyscore z s2 key a b) = redis_zremrangebyscore env decode z s2 key a b \<and>
   await_call env decode (async_zremrangebylex z s2 key a b) = redis_zremrangebylex env decode z s2 key a b \<and>
   await_call env decode (async_zcount z s2 key a b) = redis_zcount env decode z s2 key a b \<and>
   await_call env decode (async_zlexcount z s2 key a b) = redis_zlexcount env decode z s2 key a b \<and>
   await_call env decode (async_zpopmin z s3 key count) = redis_zpopmin env decode z s3 key count \<and>
   await_call env decode (async_zpopmax z s3 key count) = redis_zpopmax env decode z s3 key count \<and>
   await_call env decode (async_zmpop env z s6 keys direction count) = redis_zmpop env decode z s6 keys direction count \<and>
   await_call env decode (async_zunion z s3 s4 keys weights aggregate withscores) = redis_zunion env decode z s3 s4 keys weights aggregate withscores \<and>
   await_call env decode (async_zinter z s3 s4 keys weights aggregate withscores) = redis_zinter env decode z s3 s4 keys weights aggregate withscores \<and>
   await_call env decode (async_zdiff z s3 s4 keys withscores) = redis_zdiff env decode z s3 s4 keys withscores \<and>
   await_call env decode (async_zunionstore z s2 destination keys weights aggregate) = redis_zunionstore env decode z s2 destination keys weights aggregate \<and>
   await_call env decode (async_zinterstore z s2 destination keys weights aggregate) = redis_zinterstore env decode z s2 destination keys weights aggregate"
  by (intro conjI; simp add: zsets_method_defs zset_agreement)

text \<open>ZREM without members answers itself, the blocking one also on a closed client.  ZDIFFSTORE and
  ZINTERCARD without keys fail at once on the blocking client, closed or not; the awaitable ones
  fail when they are awaited, with the same error.\<close>

lemma guarded_zset_methods_agree:
  "\<not> (z \<and> members = []) \<Longrightarrow>
   await_call env decode (async_zrem z si key members) = redis_zrem env decode z si key members"
  "\<not> (z \<and> keys = []) \<Longrightarrow>
   await_call env decode (async_zdiffstore z si destination keys) = redis_zdiffstore env decode z si destination keys"
  "\<not> (z \<and> keys = []) \<Longrightarrow>
   await_call env decode (async_zintercard z si keys limit) = redis_zintercard env decode z si keys limit"
  by (auto simp: redis_zrem_def async_zrem_def redis_zdiffstore_def async_zdiffstore_def
      redis_zintercard_def async_zintercard_def some_keys_def method_agreement ready_call)
    (simp_all add: await_call_def sync_call_def data_error_def)

text \<open>ZMSCORE: the two agree on the doubles of RESP3; the texts of RESP2 come back as \<open>bytes\<close> from
  the awaitable one, where the blocking one has floats.\<close>

definition score_reply :: "f64 option \<Rightarrow> redis_value" where
  "score_reply s = (case s of Some f \<Rightarrow> VDouble f | None \<Rightarrow> VNil)"

lemma score_replies_to_py:
  "redis_values_to_py (map score_reply scores) = Inr (map (case_option PNone PFloat) scores)"
  by (induction scores) (auto simp: score_reply_def split: option.splits)

lemma zmscore_doubles_agree:
  assumes "server (zmscore_cmd key members) = Inr (VArray (map score_reply scores))"
    and "decode_scores (VArray (map score_reply scores)) = Inr scores" and "members \<noteq> []"
  shows "await_call env None (async_zmscore z server key members) =
    redis_zmscore env decode z server decode_scores key members"
  using assms
  by (auto simp: await_call_def async_zmscore_def redis_zmscore_def async_call_def sync_call_def
      run_request_def reading_def raw_with_def score_replies_to_py scores_to_py_def maybe_decode_def)

lemma zmscore_text_differs:
  assumes "server (zmscore_cmd key [m]) = Inr (VArray [VBulkString b])"
    and "decode_scores (VArray [VBulkString b]) = Inr [Some f]"
  shows "fst (redis_zmscore env None False server decode_scores key [m]) = Inr (PList [PFloat f])"
    and "fst (await_call env None (async_zmscore False server key [m])) = Inr (PList [PBytes b])"
  using assms
  by (simp_all add: await_call_def async_zmscore_def redis_zmscore_def async_call_def sync_call_def
      run_request_def reading_def raw_with_def scores_to_py_def maybe_decode_def)

text \<open>The blocking pops agree once their connection is there, and on neither client ask whether it is
  closed; when the connection cannot be opened, they raise different classes.\<close>

lemma blocking_zset_pops_agree:
  "await_call env decode (async_bzpopmin z b (Inr ()) keys timeout) = redis_bzpopmin env decode z' b (Inr ()) keys timeout"
  "await_call env decode (async_bzpopmax z b (Inr ()) keys timeout) = redis_bzpopmax env decode z' b (Inr ()) keys timeout"
  "await_call env decode (async_bzmpop env z v (Inr ()) keys direction timeout count) =
   redis_bzmpop env decode z' v (Inr ()) keys direction timeout count"
  by (simp_all add: redis_bzpopmin_def async_bzpopmin_def redis_bzpopmax_def async_bzpopmax_def
      redis_bzmpop_def async_bzmpop_def zset_agreement bzpop_reply.agree split: sum.split)
    (auto simp: await_call_def)

lemma blocking_connection_failed:
  "fst (redis_bzpopmin env decode z b (Inl e) keys timeout) = Inl (PyErr PyConnectionError (re_display e))"
  "fst (await_call env decode (async_bzpopmin z b (Inl e) keys timeout)) = Inl (to_py_err (pe_lookup_ok env) e)"
  by (simp_all add: redis_bzpopmin_def async_bzpopmin_def no_blocking_conn_def await_call_def)

text \<open>The awaitable ZRANDMEMBER does not ask whether the client is closed.\<close>

lemma zrandmember_ignores_closed:
  "await_call env decode (async_zrandmember z server key count withscores) =
   redis_zrandmember env decode False server key count withscores"
  by (simp add: async_zrandmember_def redis_zrandmember_def zrandmember_reply.agree)

text \<open>ZSCAN agrees on every well-formed reply; a malformed one is a \<open>DataError\<close> on the blocking
  client and a \<open>ResponseError\<close> with another text on the awaitable one.\<close>

lemma zscan_well_formed_agrees:
  "into_py env (zscan_raw_result env (VArray [cursor, payload])) = zscan_to_py env (VArray [cursor, payload])"
  by (simp add: zscan_raw_result_def zscan_to_py_def parse_zscan_reply_def)

lemma zscan_malformed_differs:
  "zscan_to_py env VNil = Inl (PyErr DataError zscan_shape)"
  "into_py env (zscan_raw_result env VNil) =
     Inl (PyErr ResponseError ''ZSCAN reply did not match expected shape'')"
  by (simp_all add: zscan_raw_result_def zscan_to_py_def parse_zscan_reply_def data_error_def)

text \<open>A Python float is no ZRANGE bound, although the comment in \<open>pyany_to_zrange_arg\<close> lists floats.\<close>

lemma float_bound_rejected:
  "pyany_to_zrange_arg (PFloat f) = Inl (data_error ''ZRANGE start/stop must be int, str, or bytes'')"
  by (simp add: pyany_to_zrange_arg_def extract_i64_def extract_int_def extract_string_def extract_bytes_def)

text \<open>Octets that are no UTF-8 become U+FFFD in a bound: different members of a BYLEX range are the
  same bound.\<close>

lemma lossy_bounds_collide:
  "pyany_to_zrange_arg (PBytes [CHR ''['', CHR 0xFE]) = pyany_to_zrange_arg (PBytes [CHR ''['', CHR 0xFF])"
  by (simp add: pyany_to_zrange_arg_def extract_i64_def extract_int_def extract_string_def extract_bytes_def
      utf8_step_def octet_def)

section \<open>Options on the wire\<close>

fun scored_args :: "redis_arg list \<Rightarrow> scored_pair list" where
  "scored_args (AF64 s # ABytes m # as) = (m, s) # scored_args as"
| "scored_args _ = []"

lemma scored_args_concat [simp]: "scored_args (concat (map (\<lambda>(m, s). [AF64 s, ABytes m]) pairs)) = pairs"
  by (induction pairs) auto

lemma no_head_scored [simp]: "no_head kw (concat (map (\<lambda>(m, s). [AF64 s, ABytes m]) pairs))"
  by (cases pairs) (auto simp: no_head_def)

fun zadd_decode :: "redis_cmd \<Rightarrow> (bytes \<times> scored_pair list \<times> zadd_flags) option" where
  "zadd_decode (Cmd cmd (AStr key # as)) =
     (let (nx, as) = take_flag ''NX'' as; (xx, as) = take_flag ''XX'' as; (gt, as) = take_flag ''GT'' as;
          (lt, as) = take_flag ''LT'' as; (ch, as) = take_flag ''CH'' as; (inc, as) = take_flag ''INCR'' as
      in Some (key, scored_args as,
           \<lparr>za_nx = nx, za_xx = xx, za_gt = gt, za_lt = lt, za_ch = ch, za_incr = inc\<rparr>))"
| "zadd_decode _ = None"

interpretation zadd_wire: lossless "\<lambda>(key, pairs, fl). build_zadd_cmd key pairs fl" zadd_decode "\<lambda>_. True"
  by unfold_locales (auto simp: build_zadd_cmd_def)

definition take_limit :: "redis_arg list \<Rightarrow> (i64 option \<times> i64 option) \<times> redis_arg list" where
  "take_limit as =
     (case as of
        a # AI64 i # AI64 n # rest \<Rightarrow> if a = AStr ''LIMIT'' then ((Some i, Some n), rest) else ((None, None), as)
      | _ \<Rightarrow> ((None, None), as))"

lemma take_limit_args [simp]:
  "limit_args msg offset num = Inr limit \<Longrightarrow> take_limit (limit @ flag_arg ''WITHSCORES'' w) = ((offset, num), flag_arg ''WITHSCORES'' w)"
  by (auto simp: limit_args_def take_limit_def flag_arg_def split: option.splits)

lemma no_head_limit [simp]:
  "limit_args msg offset num = Inr limit \<Longrightarrow> kw \<noteq> ''LIMIT'' \<Longrightarrow> no_head kw as \<Longrightarrow> no_head kw (limit @ as)"
  by (auto simp: limit_args_def split: option.splits)

fun zrange_decode :: "redis_cmd \<Rightarrow> (bytes \<times> bytes \<times> bytes \<times> zrange_options \<times> bool) option" where
  "zrange_decode (Cmd cmd (AStr key # AStr start # AStr stop # as)) =
     (let (byscore, as) = take_flag ''BYSCORE'' as; (bylex, as) = take_flag ''BYLEX'' as;
          (desc, as) = take_flag ''REV'' as; ((offset, num), as) = take_limit as;
          (withscores, as) = take_flag ''WITHSCORES'' as
      in Some (key, start, stop, \<lparr>zr_byscore = byscore, zr_bylex = bylex, zr_desc = desc,
           zr_offset = offset, zr_num = num\<rparr>, withscores))"
| "zrange_decode _ = None"

interpretation zrange_wire: lossless
    "\<lambda>(key, start, stop, opt, withscores). build_zrange_cmd name [key] start stop opt withscores"
    "case_sum (\<lambda>_. None) zrange_decode"
    "\<lambda>(key, start, stop, opt, withscores). \<exists>c. build_zrange_cmd name [key] start stop opt withscores = Inr c"
  for name
  by unfold_locales (auto simp: build_zrange_cmd_def res_simps split: if_splits)

fun zset_op_decode :: "redis_cmd \<Rightarrow> (bytes list \<times> f64 list option \<times> bytes option \<times> bool) option" where
  "zset_op_decode (Cmd cmd (AUsize n # as)) =
     (let keys = List.map_filter as_str (take n as); as = drop n as; (weighted, as) = take_flag ''WEIGHTS'' as;
          weights = (if weighted then Some (List.map_filter as_f64 (take n as)) else None);
          as = (if weighted then drop n as else as);
          (aggregate, as) = take_opt ''AGGREGATE'' as; (withscores, as) = take_flag ''WITHSCORES'' as
      in Some (keys, weights, Option.bind aggregate as_str, withscores))"
| "zset_op_decode _ = None"

lemma map_filter_strs [simp]: "List.map_filter as_str (map AStr xs) = xs" "List.map_filter as_f64 (map AF64 ws) = ws"
  by (induction xs) (simp_all add: List.map_filter_simps, induction ws, simp_all add: List.map_filter_simps)

lemma take_flag_none [simp]: "no_head kw as \<Longrightarrow> take_flag kw as = (False, as)"
  by (cases as) (auto simp: take_flag_def no_head_def)

interpretation zset_op_wire: lossless
    "\<lambda>(keys, weights, agg, withscores). build_zset_op_cmd name [] keys weights agg withscores" zset_op_decode
    "\<lambda>(keys, weights, agg, withscores). \<forall>w. weights = Some w \<longrightarrow> length w = length keys"
  for name
  by unfold_locales
    (auto simp: build_zset_op_cmd_def take_flag_def [where as = "_ # _"] split: option.split)

text \<open>The text of a bound, for the bounds that have one: a \<open>str\<close>, an int of 64 bits, UTF-8 octets.\<close>

fun bound_text :: "pyval \<Rightarrow> bytes option" where
  "bound_text (PStr s) = Some s"
| "bound_text (PInt i) = (if - (2 ^ 63) \<le> i \<and> i < 2 ^ 63 then Some (show_int i) else None)"
| "bound_text (PBytes b) = (if valid_utf8 b then Some b else None)"
| "bound_text _ = None"

lemma bound_of_text: "bound_text v = Some b \<Longrightarrow> pyany_to_zrange_arg v = Inr b"
  by (cases v) (auto simp: pyany_to_zrange_arg_def extract_i64_def extract_int_def extract_string_def
      extract_bytes_def sint_sbintrunc' signed_take_bit_int_eq_self split: if_splits)

lemma validated_op:
  assumes "validate_zset_op_args keys weights aggregate = Inr agg"
  shows "agg = map_option to_ascii_uppercase aggregate" "\<forall>w. weights = Some w \<longrightarrow> length w = length keys"
  using assms by (auto simp: validate_zset_op_args_def Let_def split: if_splits option.splits)

lemma zadd_pairs:
  "collect_zadd_pairs as_double mapping = Inr pairs \<Longrightarrow>
   list_all2 (\<lambda>(k, v) (m, s). extract_member k = Inr m \<and> extract_f64 as_double v = Inr s) mapping pairs"
  by (auto simp: collect_zadd_pairs_def collect_res_Inr_iff rbind_def split: if_splits sum.splits
      elim!: list_all2_mono)

text \<open>(C32) No option of an accepted sorted-set call is lost or changed on the way to the server.  Two
  accepted ZRANGE calls, whose bounds are \<open>str\<close>, ints or UTF-8 octets, send the same command just when
  they have the same key, flags and limits and bounds of the same text; two accepted ZUNION (ZINTER)
  calls just when they have the same keys, weights and flag and the same aggregate up to case; two
  accepted ZADD calls just when they have the same key and flags and what their items convert to, a
  member and a score for each item and in order, is the same.\<close>
theorem zset_options_on_wire:
  assumes "zrange_checked ''ZRANGE'' [key] start stop opt withscores = Inr c"
    and "zrange_checked ''ZRANGE'' [key'] start' stop' opt' withscores' = Inr c'"
    and "bound_text start = Some a" "bound_text stop = Some b" "bound_text start' = Some a'" "bound_text stop' = Some b'"
    and "zset_op_checked name [] keys weights aggregate ws = Inr d"
    and "zset_op_checked name [] keys' weights' aggregate' ws' = Inr d'"
    and "zadd_checked as_double mapping fl = Inr pairs" "zadd_checked as_double mapping' fl' = Inr pairs'"
  shows "(c = c' \<longleftrightarrow> (key, a, b, opt, withscores) = (key', a', b', opt', withscores')) \<and>
    (d = d' \<longleftrightarrow> (keys, weights, map_option to_ascii_uppercase aggregate, ws) =
       (keys', weights', map_option to_ascii_uppercase aggregate', ws')) \<and>
    (build_zadd_cmd key pairs fl = build_zadd_cmd key' pairs' fl' \<longleftrightarrow> (key, pairs, fl) = (key', pairs', fl')) \<and>
    list_all2 (\<lambda>(k, v) (m, s). extract_member k = Inr m \<and> extract_f64 as_double v = Inr s) mapping pairs"
proof -
  have "build_zrange_cmd ''ZRANGE'' [key] a b opt withscores = Inr c"
    "build_zrange_cmd ''ZRANGE'' [key'] a' b' opt' withscores' = Inr c'"
    using assms(1,2) bound_of_text [OF assms(3)] bound_of_text [OF assms(4)] bound_of_text [OF assms(5)]
      bound_of_text [OF assms(6)]
    by (simp_all add: zrange_checked_def)
  then have "c = c' \<longleftrightarrow> (key, a, b, opt, withscores) = (key', a', b', opt', withscores')"
    using zrange_wire.enc_inj [where name = "''ZRANGE''" and x = "(key, a, b, opt, withscores)"
        and y = "(key', a', b', opt', withscores')"] by auto
  moreover obtain agg agg' where ok: "validate_zset_op_args keys weights aggregate = Inr agg"
      "validate_zset_op_args keys' weights' aggregate' = Inr agg'"
    and "d = build_zset_op_cmd name [] keys weights agg ws" "d' = build_zset_op_cmd name [] keys' weights' agg' ws'"
    using assms(7,8) by (auto simp: zset_op_checked_def rbind_def split: sum.splits)
  then have "d = d' \<longleftrightarrow> (keys, weights, agg, ws) = (keys', weights', agg', ws')"
    using zset_op_wire.enc_inj [where name = name and x = "(keys, weights, agg, ws)"
        and y = "(keys', weights', agg', ws')"] validated_op(2) [OF ok(1)] validated_op(2) [OF ok(2)] by auto
  moreover have "build_zadd_cmd key pairs fl = build_zadd_cmd key' pairs' fl' \<longleftrightarrow> (key, pairs, fl) = (key', pairs', fl')"
    using zadd_wire.enc_inj [of "(key, pairs, fl)" "(key', pairs', fl')"] by auto
  moreover have "collect_zadd_pairs as_double mapping = Inr pairs"
    using assms(9) by (auto simp: zadd_checked_def rbind_def split: sum.splits)
  ultimately show ?thesis
    using zadd_pairs validated_op(1) [OF ok(1)] validated_op(1) [OF ok(2)] by simp
qed

theorem zset_options_on_wire_witness:
  "zrange_checked ''ZRANGE'' [''z''] (PInt 1) (PStr ''9'') \<lparr>zr_byscore = True, zr_bylex = False, zr_desc = False,
     zr_offset = Some 1, zr_num = Some 2\<rparr> True \<noteq>
   zrange_checked ''ZRANGE'' [''z''] (PInt 1) (PStr ''9'') \<lparr>zr_byscore = True, zr_bylex = False, zr_desc = False,
     zr_offset = None, zr_num = None\<rparr> True"
proof -
  let ?o = "\<lparr>zr_byscore = True, zr_bylex = False, zr_desc = False, zr_offset = Some 1, zr_num = Some 2\<rparr>"
  let ?p = "\<lparr>zr_byscore = True, zr_bylex = False, zr_desc = False, zr_offset = None, zr_num = None\<rparr>"
  let ?fl = "\<lparr>za_nx = False, za_xx = False, za_gt = False, za_lt = False, za_ch = True, za_incr = False\<rparr>"
  have arg: "pyany_to_zrange_arg (PInt 1) = Inr (show_int 1)" "pyany_to_zrange_arg (PStr ''9'') = Inr ''9''"
    by (rule bound_of_text, simp)+
  obtain c c' where c: "zrange_checked ''ZRANGE'' [''z''] (PInt 1) (PStr ''9'') ?o True = Inr c"
    "zrange_checked ''ZRANGE'' [''z''] (PInt 1) (PStr ''9'') ?p True = Inr c'"
    by (simp add: zrange_checked_def arg build_zrange_cmd_def limit_args_def)
  obtain d where d: "zset_op_checked ''ZUNION'' [] [''a'', ''b''] (Some [f64_zero, f64_zero]) (Some ''MAX'') True = Inr d"
    by (simp add: zset_op_checked_def validate_zset_op_args_def to_ascii_uppercase_def ascii_upper_def)
  obtain ps where ps: "zadd_checked (\<lambda>_. Inr f64_zero) [(PStr ''m'', PFloat f64_zero)] ?fl = Inr ps"
    by (simp add: zadd_checked_def collect_zadd_pairs_def validate_zadd_flags_def extract_member_def extract_bytes_def
        extract_string_def extract_f64_def)
  have bounds: "bound_text (PInt 1) = Some (show_int 1)" "bound_text (PStr ''9'') = Some ''9''" by simp_all
  from zset_options_on_wire [OF c bounds bounds d d ps ps] have "c \<noteq> c'" by simp
  with c show ?thesis by simp
qed

end
