(* ===== verification/Streams.thy ===== *)
theory Streams
  imports ZSets
begin

text \<open>
  The stream commands (\<open>commands/streams.rs\<close>): how arguments become fields and commands, how
  the replies are flattened to the shapes redis-py has, and both versions of every method.

  \<open>iterate\<close> is CPython's iteration over a value that is neither a list nor a tuple,
  \<open>as_double\<close> its \<open>PyFloat_AsDouble\<close> on a value that is not a \<open>float\<close>, \<open>show_f64\<close> is
  Rust's \<open>f64::to_string\<close>.  \<open>blocking\<close> is the outcome of \<open>get_blocking\<close>, asked for when
  XREAD or XREADGROUP is given \<open>block\<close>.
\<close>

section \<open>Arguments\<close>

definition dict_to_stream_pairs :: "(pyval \<times> pyval) list \<Rightarrow> (bytes \<times> bytes) list pyres" where
  "dict_to_stream_pairs streams =
     collect_res (\<lambda>(k, v). rbind (extract_string k) (\<lambda>key. rbind (extract_string v) (\<lambda>ident. Inr (key, ident)))) streams"

definition coerce_field_value :: "(pyval \<Rightarrow> f64 pyres) \<Rightarrow> (f64 \<Rightarrow> bytes) \<Rightarrow> pyval \<Rightarrow> bytes pyres" where
  "coerce_field_value as_double show_f64 v =
     (case extract_bytes v of Inr b \<Rightarrow> Inr b | Inl _ \<Rightarrow>
     (case extract_string v of Inr s \<Rightarrow> Inr s | Inl _ \<Rightarrow>
     (case extract_i64 v of Inr n \<Rightarrow> Inr (show_int (sint n)) | Inl _ \<Rightarrow>
     (case extract_f64 as_double v of Inr f \<Rightarrow> Inr (show_f64 f) | Inl _ \<Rightarrow>
        Inl (type_error ''stream field value must be str, bytes, int, or float'')))))"

text \<open>The key of a \<open>(key, value)\<close> entry is extracted before the value is looked for.\<close>

definition field_entry :: "pyval \<Rightarrow> (bytes \<times> pyval) pyres" where
  "field_entry item =
     (let short = PyErr PyIndexError ''index out of range'';
          pick = (\<lambda>xs. case xs of [] \<Rightarrow> Inl short
                   | k # rest \<Rightarrow> rbind (extract_string k) (\<lambda>key. case rest of [] \<Rightarrow> Inl short | v # _ \<Rightarrow> Inr (key, v)))
      in case item of
           PTuple xs \<Rightarrow> pick xs
         | PList xs \<Rightarrow> pick xs
         | _ \<Rightarrow> Inl (type_error ''each field entry must be a (key, value) tuple or list''))"

definition parse_fields ::
  "(pyval \<Rightarrow> pyval list pyres) \<Rightarrow> (pyval \<Rightarrow> f64 pyres) \<Rightarrow> (f64 \<Rightarrow> bytes) \<Rightarrow> pyval \<Rightarrow> fields pyres" where
  "parse_fields iterate as_double show_f64 v =
     (let coerced = (\<lambda>(k, x). rbind (coerce_field_value as_double show_f64 x) (\<lambda>b. Inr (k, b)))
      in case v of
           PDict d \<Rightarrow> collect_res (\<lambda>(k, x). rbind (extract_string k) (\<lambda>key. coerced (key, x))) d
         | _ \<Rightarrow>
             rbind (case v of PList xs \<Rightarrow> Inr xs | PTuple xs \<Rightarrow> Inr xs | other \<Rightarrow> iterate other) (\<lambda>items.
             rbind (collect_res field_entry items) (collect_res coerced)))"

definition xadd_checked ::
  "(pyval \<Rightarrow> pyval list pyres) \<Rightarrow> (pyval \<Rightarrow> f64 pyres) \<Rightarrow> (f64 \<Rightarrow> bytes) \<Rightarrow> pyval \<Rightarrow> pyval option \<Rightarrow> bytes \<Rightarrow> (bytes \<times> fields) pyres" where
  "xadd_checked iterate as_double show_f64 id_or_fields flds ident =
     (case extract_string id_or_fields of
        Inr s \<Rightarrow>
          (case flds of
             None \<Rightarrow> Inl (type_error (''xadd(key, id, fields): '' @ [CHR 0x27] @ ''fields'' @ [CHR 0x27] @
                                 '' is required when second arg is a string''))
           | Some x \<Rightarrow> rbind (parse_fields iterate as_double show_f64 x) (\<lambda>fs. Inr (s, fs)))
      | Inl _ \<Rightarrow> rbind (parse_fields iterate as_double show_f64 id_or_fields) (\<lambda>fs. Inr (ident, fs)))"

section \<open>Commands\<close>

record trim_options =
  tr_maxlen :: "i64 option"
  tr_minid :: "bytes option"
  tr_approximate :: bool
  tr_limit :: "i64 option"

definition trim_mark :: "trim_options \<Rightarrow> redis_arg" where
  "trim_mark t = AStr (if tr_approximate t then ''~'' else ''='')"

text \<open>The trimming clause of XADD; MINID is read only without MAXLEN, LIMIT only with one of them.\<close>

definition trim_args :: "trim_options \<Rightarrow> redis_arg list" where
  "trim_args t =
     (case tr_maxlen t of
        Some n \<Rightarrow> [AStr ''MAXLEN'', trim_mark t, AI64 n] @ opt_arg ''LIMIT'' AI64 (tr_limit t)
      | None \<Rightarrow>
          (case tr_minid t of
             Some i \<Rightarrow> [AStr ''MINID'', trim_mark t, AStr i] @ opt_arg ''LIMIT'' AI64 (tr_limit t)
           | None \<Rightarrow> []))"

definition cmd_xadd :: "bytes \<Rightarrow> bytes \<Rightarrow> fields \<Rightarrow> bool \<Rightarrow> trim_options \<Rightarrow> redis_cmd" where
  "cmd_xadd key ident flds nomkstream t =
     Cmd ''XADD'' ([AStr key] @ flag_arg ''NOMKSTREAM'' nomkstream @ trim_args t @ [AStr ident] @
       concat (map (\<lambda>(k, v). [AStr k, ABytes v]) flds))"

definition cmd_xlen :: "bytes \<Rightarrow> redis_cmd" where "cmd_xlen key = Cmd ''XLEN'' [AStr key]"

definition cmd_xdel :: "bytes \<Rightarrow> bytes list \<Rightarrow> redis_cmd" where
  "cmd_xdel key ids = Cmd ''XDEL'' (AStr key # map AStr ids)"

definition cmd_xack :: "bytes \<Rightarrow> bytes \<Rightarrow> bytes list \<Rightarrow> redis_cmd" where
  "cmd_xack key grp ids = Cmd ''XACK'' ([AStr key, AStr grp] @ map AStr ids)"

definition cmd_xrange :: "bytes \<Rightarrow> bytes \<Rightarrow> bytes \<Rightarrow> i64 option \<Rightarrow> redis_cmd" where
  "cmd_xrange key lo hi count = Cmd ''XRANGE'' ([AStr key, AStr lo, AStr hi] @ opt_arg ''COUNT'' AI64 count)"

definition cmd_xrevrange :: "bytes \<Rightarrow> bytes \<Rightarrow> bytes \<Rightarrow> i64 option \<Rightarrow> redis_cmd" where
  "cmd_xrevrange key hi lo count = Cmd ''XREVRANGE'' ([AStr key, AStr hi, AStr lo] @ opt_arg ''COUNT'' AI64 count)"

definition cmd_xread :: "(bytes \<times> bytes) list \<Rightarrow> i64 option \<Rightarrow> i64 option \<Rightarrow> redis_cmd" where
  "cmd_xread streams count block_ms =
     Cmd ''XREAD'' (opt_arg ''COUNT'' AI64 count @ opt_arg ''BLOCK'' AI64 block_ms @ [AStr ''STREAMS''] @
       map (AStr \<circ> fst) streams @ map (AStr \<circ> snd) streams)"

definition cmd_xreadgroup ::
  "bytes \<Rightarrow> bytes \<Rightarrow> (bytes \<times> bytes) list \<Rightarrow> i64 option \<Rightarrow> i64 option \<Rightarrow> bool \<Rightarrow> redis_cmd" where
  "cmd_xreadgroup grp consumer streams count block_ms noack =
     Cmd ''XREADGROUP'' ([AStr ''GROUP'', AStr grp, AStr consumer] @ opt_arg ''COUNT'' AI64 count @
       opt_arg ''BLOCK'' AI64 block_ms @ flag_arg ''NOACK'' noack @ [AStr ''STREAMS''] @
       map (AStr \<circ> fst) streams @ map (AStr \<circ> snd) streams)"

definition cmd_xgroup_create :: "bytes \<Rightarrow> bytes \<Rightarrow> bytes \<Rightarrow> bool \<Rightarrow> i64 option \<Rightarrow> redis_cmd" where
  "cmd_xgroup_create key grp ident mkstream entries_read =
     Cmd ''XGROUP'' ([AStr ''CREATE'', AStr key, AStr grp, AStr ident] @ flag_arg ''MKSTREAM'' mkstream @
       opt_arg ''ENTRIESREAD'' AI64 entries_read)"

definition cmd_xgroup_setid :: "bytes \<Rightarrow> bytes \<Rightarrow> bytes \<Rightarrow> i64 option \<Rightarrow> redis_cmd" where
  "cmd_xgroup_setid key grp ident entries_read =
     Cmd ''XGROUP'' ([AStr ''SETID'', AStr key, AStr grp, AStr ident] @ opt_arg ''ENTRIESREAD'' AI64 entries_read)"

definition cmd_xgroup_destroy :: "bytes \<Rightarrow> bytes \<Rightarrow> redis_cmd" where
  "cmd_xgroup_destroy key grp = Cmd ''XGROUP'' [AStr ''DESTROY'', AStr key, AStr grp]"

definition cmd_xgroup_createconsumer :: "bytes \<Rightarrow> bytes \<Rightarrow> bytes \<Rightarrow> redis_cmd" where
  "cmd_xgroup_createconsumer key grp consumer =
     Cmd ''XGROUP'' [AStr ''CREATECONSUMER'', AStr key, AStr grp, AStr consumer]"

definition cmd_xgroup_delconsumer :: "bytes \<Rightarrow> bytes \<Rightarrow> bytes \<Rightarrow> redis_cmd" where
  "cmd_xgroup_delconsumer key grp consumer =
     Cmd ''XGROUP'' [AStr ''DELCONSUMER'', AStr key, AStr grp, AStr consumer]"

definition cmd_xinfo_stream :: "bytes \<Rightarrow> bool \<Rightarrow> redis_cmd" where
  "cmd_xinfo_stream key full = Cmd ''XINFO'' ([AStr ''STREAM'', AStr key] @ flag_arg ''FULL'' full)"

definition cmd_xinfo_groups :: "bytes \<Rightarrow> redis_cmd" where
  "cmd_xinfo_groups key = Cmd ''XINFO'' [AStr ''GROUPS'', AStr key]"

definition cmd_xinfo_consumers :: "bytes \<Rightarrow> bytes \<Rightarrow> redis_cmd" where
  "cmd_xinfo_consumers key grp = Cmd ''XINFO'' [AStr ''CONSUMERS'', AStr key, AStr grp]"

definition cmd_xtrim :: "bytes \<Rightarrow> trim_options \<Rightarrow> redis_cmd option" where
  "cmd_xtrim key t =
     (if tr_maxlen t = None \<and> tr_minid t = None then None
      else Some (Cmd ''XTRIM''
        ([AStr key] @
         (case tr_maxlen t of
            Some n \<Rightarrow> [AStr ''MAXLEN'', trim_mark t, AI64 n]
          | None \<Rightarrow> (case tr_minid t of Some i \<Rightarrow> [AStr ''MINID'', trim_mark t, AStr i] | None \<Rightarrow> [])) @
         opt_arg ''LIMIT'' AI64 (tr_limit t))))"

definition xtrim_checked :: "bytes \<Rightarrow> trim_options \<Rightarrow> redis_cmd pyres" where
  "xtrim_checked key t =
     (case cmd_xtrim key t of Some c \<Rightarrow> Inr c | None \<Rightarrow> Inl (data_error ''xtrim requires maxlen or minid''))"

definition cmd_xpending_summary :: "bytes \<Rightarrow> bytes \<Rightarrow> redis_cmd" where
  "cmd_xpending_summary key grp = Cmd ''XPENDING'' [AStr key, AStr grp]"

definition cmd_xpending_range ::
  "bytes \<Rightarrow> bytes \<Rightarrow> i64 option \<Rightarrow> bytes \<Rightarrow> bytes \<Rightarrow> i64 \<Rightarrow> bytes option \<Rightarrow> redis_cmd" where
  "cmd_xpending_range key grp idle lo hi count consumer =
     Cmd ''XPENDING'' ([AStr key, AStr grp] @ opt_arg ''IDLE'' AI64 idle @ [AStr lo, AStr hi, AI64 count] @
       opt_val AStr consumer)"

record pending_options =
  pd_idle :: "i64 option"
  pd_min :: "bytes option"
  pd_max :: "bytes option"
  pd_count :: "i64 option"
  pd_consumer :: "bytes option"

definition pending_is_range :: "pending_options \<Rightarrow> bool" where
  "pending_is_range p \<longleftrightarrow> pd_min p \<noteq> None \<or> pd_max p \<noteq> None \<or> pd_count p \<noteq> None"

definition cmd_xpending :: "bytes \<Rightarrow> bytes \<Rightarrow> pending_options \<Rightarrow> redis_cmd" where
  "cmd_xpending key grp p =
     (if pending_is_range p
      then cmd_xpending_range key grp (pd_idle p)
             (case pd_min p of Some m \<Rightarrow> m | None \<Rightarrow> ''-'') (case pd_max p of Some m \<Rightarrow> m | None \<Rightarrow> ''+'')
             (case pd_count p of Some n \<Rightarrow> n | None \<Rightarrow> 10) (pd_consumer p)
      else cmd_xpending_summary key grp)"

record claim_options =
  cl_idle :: "i64 option"
  cl_time :: "i64 option"
  cl_retrycount :: "i64 option"
  cl_force :: bool
  cl_justid :: bool

definition cmd_xclaim ::
  "bytes \<Rightarrow> bytes \<Rightarrow> bytes \<Rightarrow> i64 \<Rightarrow> bytes list \<Rightarrow> claim_options \<Rightarrow> redis_cmd" where
  "cmd_xclaim key grp consumer min_idle_time message_ids opt =
     Cmd ''XCLAIM'' ([AStr key, AStr grp, AStr consumer, AI64 min_idle_time] @ map AStr message_ids @
       opt_arg ''IDLE'' AI64 (cl_idle opt) @ opt_arg ''TIME'' AI64 (cl_time opt) @
       opt_arg ''RETRYCOUNT'' AI64 (cl_retrycount opt) @ flag_arg ''FORCE'' (cl_force opt) @
       flag_arg ''JUSTID'' (cl_justid opt))"

definition cmd_xautoclaim ::
  "bytes \<Rightarrow> bytes \<Rightarrow> bytes \<Rightarrow> i64 \<Rightarrow> bytes \<Rightarrow> i64 option \<Rightarrow> bool \<Rightarrow> redis_cmd" where
  "cmd_xautoclaim key grp consumer min_idle_time start_id count justid =
     Cmd ''XAUTOCLAIM'' ([AStr key, AStr grp, AStr consumer, AI64 min_idle_time, AStr start_id] @
       opt_arg ''COUNT'' AI64 count @ flag_arg ''JUSTID'' justid)"

definition cmd_xsetid :: "bytes \<Rightarrow> bytes \<Rightarrow> i64 option \<Rightarrow> bytes option \<Rightarrow> redis_cmd" where
  "cmd_xsetid key ident entries_added max_deleted_entry_id =
     Cmd ''XSETID'' ([AStr key, AStr ident] @ opt_arg ''ENTRIESADDED'' AI64 entries_added @
       opt_arg ''MAXDELETEDID'' AStr max_deleted_entry_id)"

section \<open>Replies\<close>

definition value_to_bytes :: "redis_value \<Rightarrow> bytes option" where
  "value_to_bytes v =
     (case v of
        VBulkString b \<Rightarrow> Some b
      | VSimpleString s \<Rightarrow> Some s
      | VVerbatimString fmt txt \<Rightarrow> Some txt
      | VInt n \<Rightarrow> Some (show_int (sint n))
      | VBigNumber n \<Rightarrow> Some (show_int n)
      | _ \<Rightarrow> None)"

definition bytes_or_empty :: "redis_value \<Rightarrow> bytes" where
  "bytes_or_empty v = (case value_to_bytes v of Some b \<Rightarrow> b | None \<Rightarrow> [])"

definition int_or_zero :: "redis_value \<Rightarrow> i64" where
  "int_or_zero v = (case v of VInt n \<Rightarrow> n | _ \<Rightarrow> 0)"

definition bytes_pair :: "redis_value \<times> redis_value \<Rightarrow> (bytes \<times> bytes) option" where
  "bytes_pair p =
     (case (value_to_bytes (fst p), value_to_bytes (snd p)) of (Some k, Some v) \<Rightarrow> Some (k, v) | _ \<Rightarrow> None)"

definition pairs_from_flat :: "redis_value list \<Rightarrow> fields" where
  "pairs_from_flat flat = List.map_filter bytes_pair (pair_up flat)"

definition flatten_entry :: "redis_value \<Rightarrow> stream_entry option" where
  "flatten_entry entry =
     (case entry of
        VArray [ident, flds] \<Rightarrow>
          Some (bytes_or_empty ident,
                (case flds of
                   VArray flat \<Rightarrow> pairs_from_flat flat
                 | VMap pairs \<Rightarrow> List.map_filter bytes_pair pairs
                 | _ \<Rightarrow> []))
      | _ \<Rightarrow> None)"

definition flatten_xrange_reply :: "redis_value \<Rightarrow> stream_entry list" where
  "flatten_xrange_reply v =
     List.map_filter flatten_entry (case v of VArray items \<Rightarrow> items | VNil \<Rightarrow> [] | other \<Rightarrow> [other])"

definition flatten_xread_reply :: "redis_value \<Rightarrow> (bytes \<times> stream_entry list) list" where
  "flatten_xread_reply v =
     (case v of
        VMap pairs \<Rightarrow>
          List.map_filter (\<lambda>(k, es). case value_to_bytes k of
              Some b \<Rightarrow> Some (b, flatten_xrange_reply es) | None \<Rightarrow> None) pairs
      | VArray streams \<Rightarrow>
          List.map_filter (\<lambda>s. case s of
              VArray [k, es] \<Rightarrow> Some (bytes_or_empty k, flatten_xrange_reply es) | _ \<Rightarrow> None) streams
      | _ \<Rightarrow> [])"

definition pending_consumer :: "redis_value \<Rightarrow> (bytes \<times> i64) option" where
  "pending_consumer row =
     (let parse = (\<lambda>s. map_option word_of_int (parse_signed 64 s)) in
      case row of
        VArray [name, n] \<Rightarrow>
          Option.bind (value_to_bytes name) (\<lambda>b.
          Option.bind (case n of
              VInt i \<Rightarrow> Some i
            | VBulkString s \<Rightarrow> if valid_utf8 s then parse s else None
            | VSimpleString s \<Rightarrow> parse s
            | _ \<Rightarrow> None) (\<lambda>i. Some (b, i)))
      | _ \<Rightarrow> None)"

definition flatten_xpending_summary ::
  "redis_value \<Rightarrow> (i64 \<times> bytes \<times> bytes \<times> (bytes \<times> i64) list) option" where
  "flatten_xpending_summary v =
     (case v of
        VArray [n, lo, hi, consumers] \<Rightarrow>
          (if int_or_zero n = 0 \<and> value_to_bytes lo = None \<and> value_to_bytes hi = None then None
           else Some (int_or_zero n, bytes_or_empty lo, bytes_or_empty hi,
                      (case consumers of VArray rows \<Rightarrow> List.map_filter pending_consumer rows | _ \<Rightarrow> [])))
      | _ \<Rightarrow> None)"

definition pending_row :: "redis_value \<Rightarrow> (bytes \<times> bytes \<times> i64 \<times> i64) option" where
  "pending_row row =
     (case row of
        VArray [ident, consumer, idle, deliveries] \<Rightarrow>
          Option.bind (value_to_bytes ident) (\<lambda>i.
          Option.bind (value_to_bytes consumer) (\<lambda>c. Some (i, c, int_or_zero idle, int_or_zero deliveries)))
      | _ \<Rightarrow> None)"

definition flatten_xpending_range :: "redis_value \<Rightarrow> (bytes \<times> bytes \<times> i64 \<times> i64) list" where
  "flatten_xpending_range v = (case v of VArray rows \<Rightarrow> List.map_filter pending_row rows | _ \<Rightarrow> [])"

definition keyed_value :: "redis_value \<times> redis_value \<Rightarrow> (bytes \<times> redis_value) option" where
  "keyed_value p = map_option (\<lambda>k. (k, snd p)) (value_to_bytes (fst p))"

definition map_pairs_from_value :: "redis_value \<Rightarrow> (bytes \<times> redis_value) list" where
  "map_pairs_from_value v =
     (case v of
        VMap pairs \<Rightarrow> List.map_filter keyed_value pairs
      | VArray flat \<Rightarrow> List.map_filter keyed_value (pair_up flat)
      | _ \<Rightarrow> [])"

definition flatten_xinfo_stream :: "redis_value \<Rightarrow> (bytes \<times> redis_value) list" where
  "flatten_xinfo_stream v = map_pairs_from_value v"

definition flatten_xinfo_list :: "redis_value \<Rightarrow> (bytes \<times> redis_value) list list" where
  "flatten_xinfo_list v = (case v of VArray items \<Rightarrow> map map_pairs_from_value items | _ \<Rightarrow> [])"

definition ids_of_value :: "redis_value \<Rightarrow> bytes list" where
  "ids_of_value v = (case v of VArray ids \<Rightarrow> List.map_filter value_to_bytes ids | _ \<Rightarrow> [])"

definition split_xautoclaim_reply :: "redis_value \<Rightarrow> bytes \<times> redis_value \<times> bytes list" where
  "split_xautoclaim_reply v =
     (case v of
        VArray (next_id # middle # rest) \<Rightarrow>
          (bytes_or_empty next_id, middle, (case rest of deleted # _ \<Rightarrow> ids_of_value deleted | [] \<Rightarrow> []))
      | _ \<Rightarrow> ([], VNil, []))"

definition xpending_raw :: "pending_options \<Rightarrow> redis_value \<Rightarrow> raw_result" where
  "xpending_raw p v =
     (if pending_is_range p then RStreamPendingRange (flatten_xpending_range v)
      else RStreamPendingSummary (flatten_xpending_summary v))"

definition xclaim_raw :: "bool \<Rightarrow> redis_value \<Rightarrow> raw_result" where
  "xclaim_raw justid v =
     (if justid then RStreamClaimJustIds (ids_of_value v) else RStreamClaim (flatten_xrange_reply v))"

definition xautoclaim_raw :: "bool \<Rightarrow> redis_value \<Rightarrow> raw_result" where
  "xautoclaim_raw justid v =
     (case split_xautoclaim_reply v of (next_id, middle, deleted) \<Rightarrow>
        if justid then RStreamAutoclaimJustIds (next_id, ids_of_value middle, deleted)
        else RStreamAutoclaim (next_id, flatten_xrange_reply middle, deleted))"

section \<open>Methods\<close>

definition conv_opt_str :: "bytes option \<Rightarrow> pyval pyres" where
  "conv_opt_str v = Inr (opt_py PStr v)"

definition redis_xadd ::
  "bridge_env \<Rightarrow> codec option \<Rightarrow> bool \<Rightarrow> (redis_cmd \<Rightarrow> redis_error + bytes option) \<Rightarrow> (pyval \<Rightarrow> pyval list pyres) \<Rightarrow> (pyval \<Rightarrow> f64 pyres) \<Rightarrow> (f64 \<Rightarrow> bytes) \<Rightarrow> bytes \<Rightarrow> pyval \<Rightarrow> pyval option \<Rightarrow> bytes \<Rightarrow> bool \<Rightarrow> trim_options \<Rightarrow> pyval pyres \<times> redis_cmd list" where
  "redis_xadd env decode is_closed server iterate as_double show_f64 key id_or_fields flds ident nomkstream t =
     sync_call env None is_closed (xadd_checked iterate as_double show_f64 id_or_fields flds ident) server (\<lambda>r. r)
       (\<lambda>p. Dispatch (case p of (entry_id, fs) \<Rightarrow> cmd_xadd key entry_id fs nomkstream t)) conv_opt_str"

definition async_xadd ::
  "bool \<Rightarrow> (redis_cmd \<Rightarrow> redis_error + bytes option) \<Rightarrow> (pyval \<Rightarrow> pyval list pyres) \<Rightarrow> (pyval \<Rightarrow> f64 pyres) \<Rightarrow> (f64 \<Rightarrow> bytes) \<Rightarrow> bytes \<Rightarrow> pyval \<Rightarrow> pyval option \<Rightarrow> bytes \<Rightarrow> bool \<Rightarrow> trim_options \<Rightarrow> raw_result pyres \<times> redis_cmd list" where
  "async_xadd is_closed server iterate as_double show_f64 key id_or_fields flds ident nomkstream t =
     async_call is_closed (xadd_checked iterate as_double show_f64 id_or_fields flds ident) server (\<lambda>r. r)
       (\<lambda>p. Dispatch (case p of (entry_id, fs) \<Rightarrow> cmd_xadd key entry_id fs nomkstream t)) (raw_with ROptStr)"

definition redis_xlen ::
  "bridge_env \<Rightarrow> codec option \<Rightarrow> bool \<Rightarrow> (redis_cmd \<Rightarrow> redis_error + i64) \<Rightarrow> bytes \<Rightarrow> pyval pyres \<times> redis_cmd list" where
  "redis_xlen env decode is_closed server key =
     sync_call env None is_closed (Inr ()) server id
       (\<lambda>_. Dispatch (cmd_xlen key)) py_int"

definition async_xlen ::
  "bool \<Rightarrow> (redis_cmd \<Rightarrow> redis_error + i64) \<Rightarrow> bytes \<Rightarrow> raw_result pyres \<times> redis_cmd list" where
  "async_xlen is_closed server key =
     async_call is_closed (Inr ()) server id
       (\<lambda>_. Dispatch (cmd_xlen key)) (raw_of TI64)"

definition redis_xdel ::
  "bridge_env \<Rightarrow> codec option \<Rightarrow> bool \<Rightarrow> (redis_cmd \<Rightarrow> redis_error + i64) \<Rightarrow> bytes \<Rightarrow> bytes list \<Rightarrow> pyval pyres \<times> redis_cmd list" where
  "redis_xdel env decode is_closed server key ids =
     (if ids = [] then (py_int 0, [])
      else sync_call env None is_closed (Inr ()) server id
            (\<lambda>_. Dispatch (cmd_xdel key ids)) py_int)"

definition async_xdel ::
  "bool \<Rightarrow> (redis_cmd \<Rightarrow> redis_error + i64) \<Rightarrow> bytes \<Rightarrow> bytes list \<Rightarrow> raw_result pyres \<times> redis_cmd list" where
  "async_xdel is_closed server key ids =
     async_call is_closed (Inr ()) server id
       (\<lambda>_. if ids = [] then Ready 0 else Dispatch (cmd_xdel key ids)) (raw_of TI64)"

definition redis_xack ::
  "bridge_env \<Rightarrow> codec option \<Rightarrow> bool \<Rightarrow> (redis_cmd \<Rightarrow> redis_error + i64) \<Rightarrow> bytes \<Rightarrow> bytes \<Rightarrow> bytes list \<Rightarrow> pyval pyres \<times> redis_cmd list" where
  "redis_xack env decode is_closed server key grp ids =
     (if ids = [] then (py_int 0, [])
      else sync_call env None is_closed (Inr ()) server id
            (\<lambda>_. Dispatch (cmd_xack key grp ids)) py_int)"

definition async_xack ::
  "bool \<Rightarrow> (redis_cmd \<Rightarrow> redis_error + i64) \<Rightarrow> bytes \<Rightarrow> bytes \<Rightarrow> bytes list \<Rightarrow> raw_result pyres \<times> redis_cmd list" where
  "async_xack is_closed server key grp ids =
     async_call is_closed (Inr ()) server id
       (\<lambda>_. if ids = [] then Ready 0 else Dispatch (cmd_xack key grp ids)) (raw_of TI64)"

definition redis_xrange ::
  "bridge_env \<Rightarrow> codec option \<Rightarrow> bool \<Rightarrow> (redis_cmd \<Rightarrow> redis_error + redis_value) \<Rightarrow> bytes \<Rightarrow> bytes \<Rightarrow> bytes \<Rightarrow> i64 option \<Rightarrow> pyval pyres \<times> redis_cmd list" where
  "redis_xrange env decode is_closed server key lo hi count =
     sync_call env decode is_closed (Inr ()) server id
       (\<lambda>_. Dispatch (cmd_xrange key lo hi count)) (\<lambda>v. into_py env (RStreamEntries (flatten_xrange_reply v)))"

definition async_xrange ::
  "bool \<Rightarrow> (redis_cmd \<Rightarrow> redis_error + redis_value) \<Rightarrow> bytes \<Rightarrow> bytes \<Rightarrow> bytes \<Rightarrow> i64 option \<Rightarrow> raw_result pyres \<times> redis_cmd list" where
  "async_xrange is_closed server key lo hi count =
     async_call is_closed (Inr ()) server id
       (\<lambda>_. Dispatch (cmd_xrange key lo hi count)) (raw_with (\<lambda>v. RStreamEntries (flatten_xrange_reply v)))"

definition redis_xrevrange ::
  "bridge_env \<Rightarrow> codec option \<Rightarrow> bool \<Rightarrow> (redis_cmd \<Rightarrow> redis_error + redis_value) \<Rightarrow> bytes \<Rightarrow> bytes \<Rightarrow> bytes \<Rightarrow> i64 option \<Rightarrow> pyval pyres \<times> redis_cmd list" where
  "redis_xrevrange env decode is_closed server key hi lo count =
     sync_call env decode is_closed (Inr ()) server id
       (\<lambda>_. Dispatch (cmd_xrevrange key hi lo count)) (\<lambda>v. into_py env (RStreamEntries (flatten_xrange_reply v)))"

definition async_xrevrange ::
  "bool \<Rightarrow> (redis_cmd \<Rightarrow> redis_error + redis_value) \<Rightarrow> bytes \<Rightarrow> bytes \<Rightarrow> bytes \<Rightarrow> i64 option \<Rightarrow> raw_result pyres \<times> redis_cmd list" where
  "async_xrevrange is_closed server key hi lo count =
     async_call is_closed (Inr ()) server id
       (\<lambda>_. Dispatch (cmd_xrevrange key hi lo count)) (raw_with (\<lambda>v. RStreamEntries (flatten_xrange_reply v)))"

text \<open>XREAD and XREADGROUP: the blocking methods do not ask whether the client is closed.\<close>

definition refused :: "i64 option \<Rightarrow> redis_error + unit \<Rightarrow> redis_error option" where
  "refused block blocking = (case (block, blocking) of (Some _, Inl e) \<Rightarrow> Some e | _ \<Rightarrow> None)"

definition redis_xread ::
  "bridge_env \<Rightarrow> codec option \<Rightarrow> bool \<Rightarrow> (redis_cmd \<Rightarrow> redis_error + redis_value) \<Rightarrow> redis_error + unit \<Rightarrow> (pyval \<times> pyval) list \<Rightarrow> i64 option \<Rightarrow> i64 option \<Rightarrow> pyval pyres \<times> redis_cmd list" where
  "redis_xread env decode is_closed server blocking streams count block =
     (case dict_to_stream_pairs streams of
        Inl e \<Rightarrow> (Inl e, [])
      | Inr ps \<Rightarrow>
          (case refused block blocking of
             Some e \<Rightarrow> (Inl (to_py_err (pe_lookup_ok env) e), [])
           | None \<Rightarrow> sync_call env decode False (Inr ()) server id
                 (\<lambda>_. Dispatch (cmd_xread ps count block)) (\<lambda>v. into_py env (RStreamReadEntries (flatten_xread_reply v)))))"

definition async_xread ::
  "bool \<Rightarrow> (redis_cmd \<Rightarrow> redis_error + redis_value) \<Rightarrow> redis_error + unit \<Rightarrow> (pyval \<times> pyval) list \<Rightarrow> i64 option \<Rightarrow> i64 option \<Rightarrow> raw_result pyres \<times> redis_cmd list" where
  "async_xread is_closed server blocking streams count block =
     (case dict_to_stream_pairs streams of
        Inl e \<Rightarrow> (Inl e, [])
      | Inr ps \<Rightarrow>
          (case (if is_closed then None else refused block blocking) of
             Some e \<Rightarrow> (Inr (classify e), [])
           | None \<Rightarrow> async_call is_closed (Inr ()) server id
                 (\<lambda>_. Dispatch (cmd_xread ps count block)) (raw_with (\<lambda>v. RStreamReadEntries (flatten_xread_reply v)))))"

definition redis_xreadgroup ::
  "bridge_env \<Rightarrow> codec option \<Rightarrow> bool \<Rightarrow> (redis_cmd \<Rightarrow> redis_error + redis_value) \<Rightarrow> redis_error + unit \<Rightarrow> bytes \<Rightarrow> bytes \<Rightarrow> (pyval \<times> pyval) list \<Rightarrow> i64 option \<Rightarrow> i64 option \<Rightarrow> bool \<Rightarrow> pyval pyres \<times> redis_cmd list" where
  "redis_xreadgroup env decode is_closed server blocking grp consumer streams count block noack =
     (case dict_to_stream_pairs streams of
        Inl e \<Rightarrow> (Inl e, [])
      | Inr ps \<Rightarrow>
          (case refused block blocking of
             Some e \<Rightarrow> (Inl (to_py_err (pe_lookup_ok env) e), [])
           | None \<Rightarrow> sync_call env decode False (Inr ()) server id
                 (\<lambda>_. Dispatch (cmd_xreadgroup grp consumer ps count block noack)) (\<lambda>v. into_py env (RStreamReadEntries (flatten_xread_reply v)))))"

definition async_xreadgroup ::
  "bool \<Rightarrow> (redis_cmd \<Rightarrow> redis_error + redis_value) \<Rightarrow> redis_error + unit \<Rightarrow> bytes \<Rightarrow> bytes \<Rightarrow> (pyval \<times> pyval) list \<Rightarrow> i64 option \<Rightarrow> i64 option \<Rightarrow> bool \<Rightarrow> raw_result pyres \<times> redis_cmd list" where
  "async_xreadgroup is_closed server blocking grp consumer streams count block noack =
     (case dict_to_stream_pairs streams of
        Inl e \<Rightarrow> (Inl e, [])
      | Inr ps \<Rightarrow>
          (case (if is_closed then None else refused block blocking) of
             Some e \<Rightarrow> (Inr (classify e), [])
           | None \<Rightarrow> async_call is_closed (Inr ()) server id
                 (\<lambda>_. Dispatch (cmd_xreadgroup grp consumer ps count block noack)) (raw_with (\<lambda>v. RStreamReadEntries (flatten_xread_reply v)))))"

definition redis_xgroup_create ::
  "bridge_env \<Rightarrow> codec option \<Rightarrow> bool \<Rightarrow> (redis_cmd \<Rightarrow> redis_error + redis_value) \<Rightarrow> bytes \<Rightarrow> bytes \<Rightarrow> bytes \<Rightarrow> bool \<Rightarrow> i64 option \<Rightarrow> pyval pyres \<times> redis_cmd list" where
  "redis_xgroup_create env decode is_closed server key grp ident mkstream entries_read =
     sync_call env None is_closed (Inr ()) server (\<lambda>_. ())
       (\<lambda>_. Dispatch (cmd_xgroup_create key grp ident mkstream entries_read)) conv_unit"

definition async_xgroup_create ::
  "bool \<Rightarrow> (redis_cmd \<Rightarrow> redis_error + redis_value) \<Rightarrow> bytes \<Rightarrow> bytes \<Rightarrow> bytes \<Rightarrow> bool \<Rightarrow> i64 option \<Rightarrow> raw_result pyres \<times> redis_cmd list" where
  "async_xgroup_create is_closed server key grp ident mkstream entries_read =
     async_call is_closed (Inr ()) server (\<lambda>_. ())
       (\<lambda>_. Dispatch (cmd_xgroup_create key grp ident mkstream entries_read)) (raw_with (\<lambda>_. RNil))"

definition redis_xgroup_setid ::
  "bridge_env \<Rightarrow> codec option \<Rightarrow> bool \<Rightarrow> (redis_cmd \<Rightarrow> redis_error + redis_value) \<Rightarrow> bytes \<Rightarrow> bytes \<Rightarrow> bytes \<Rightarrow> i64 option \<Rightarrow> pyval pyres \<times> redis_cmd list" where
  "redis_xgroup_setid env decode is_closed server key grp ident entries_read =
     sync_call env None is_closed (Inr ()) server (\<lambda>_. ())
       (\<lambda>_. Dispatch (cmd_xgroup_setid key grp ident entries_read)) conv_unit"

definition async_xgroup_setid ::
  "bool \<Rightarrow> (redis_cmd \<Rightarrow> redis_error + redis_value) \<Rightarrow> bytes \<Rightarrow> bytes \<Rightarrow> bytes \<Rightarrow> i64 option \<Rightarrow> raw_result pyres \<times> redis_cmd list" where
  "async_xgroup_setid is_closed server key grp ident entries_read =
     async_call is_closed (Inr ()) server (\<lambda>_. ())
       (\<lambda>_. Dispatch (cmd_xgroup_setid key grp ident entries_read)) (raw_with (\<lambda>_. RNil))"

definition redis_xgroup_destroy ::
  "bridge_env \<Rightarrow> codec option \<Rightarrow> bool \<Rightarrow> (redis_cmd \<Rightarrow> redis_error + i64) \<Rightarrow> bytes \<Rightarrow> bytes \<Rightarrow> pyval pyres \<times> redis_cmd list" where
  "redis_xgroup_destroy env decode is_closed server key grp =
     sync_call env None is_closed (Inr ()) server id
       (\<lambda>_. Dispatch (cmd_xgroup_destroy key grp)) py_int"

definition async_xgroup_destroy ::
  "bool \<Rightarrow> (redis_cmd \<Rightarrow> redis_error + i64) \<Rightarrow> bytes \<Rightarrow> bytes \<Rightarrow> raw_result pyres \<times> redis_cmd list" where
  "async_xgroup_destroy is_closed server key grp =
     async_call is_closed (Inr ()) server id
       (\<lambda>_. Dispatch (cmd_xgroup_destroy key grp)) (raw_of TI64)"

definition redis_xgroup_createconsumer ::
  "bridge_env \<Rightarrow> codec option \<Rightarrow> bool \<Rightarrow> (redis_cmd \<Rightarrow> redis_error + i64) \<Rightarrow> bytes \<Rightarrow> bytes \<Rightarrow> bytes \<Rightarrow> pyval pyres \<times> redis_cmd list" where
  "redis_xgroup_createconsumer env decode is_closed server key grp consumer =
     sync_call env None is_closed (Inr ()) server id
       (\<lambda>_. Dispatch (cmd_xgroup_createconsumer key grp consumer)) py_int"

definition async_xgroup_createconsumer ::
  "bool \<Rightarrow> (redis_cmd \<Rightarrow> redis_error + i64) \<Rightarrow> bytes \<Rightarrow> bytes \<Rightarrow> bytes \<Rightarrow> raw_result pyres \<times> redis_cmd list" where
  "async_xgroup_createconsumer is_closed server key grp consumer =
     async_call is_closed (Inr ()) server id
       (\<lambda>_. Dispatch (cmd_xgroup_createconsumer key grp consumer)) (raw_of TI64)"

definition redis_xgroup_delconsumer ::
  "bridge_env \<Rightarrow> codec option \<Rightarrow> bool \<Rightarrow> (redis_cmd \<Rightarrow> redis_error + i64) \<Rightarrow> bytes \<Rightarrow> bytes \<Rightarrow> bytes \<Rightarrow> pyval pyres \<times> redis_cmd list" where
  "redis_xgroup_delconsumer env decode is_closed server key grp consumer =
     sync_call env None is_closed (Inr ()) server id
       (\<lambda>_. Dispatch (cmd_xgroup_delconsumer key grp consumer)) py_int"

definition async_xgroup_delconsumer ::
  "bool \<Rightarrow> (redis_cmd \<Rightarrow> redis_error + i64) \<Rightarrow> bytes \<Rightarrow> bytes \<Rightarrow> bytes \<Rightarrow> raw_result pyres \<times> redis_cmd list" where
  "async_xgroup_delconsumer is_closed server key grp consumer =
     async_call is_closed (Inr ()) server id
       (\<lambda>_. Dispatch (cmd_xgroup_delconsumer key grp consumer)) (raw_of TI64)"

definition redis_xinfo_stream ::
  "bridge_env \<Rightarrow> codec option \<Rightarrow> bool \<Rightarrow> (redis_cmd \<Rightarrow> redis_error + redis_value) \<Rightarrow> bytes \<Rightarrow> bool \<Rightarrow> pyval pyres \<times> redis_cmd list" where
  "redis_xinfo_stream env decode is_closed server key full =
     sync_call env decode is_closed (Inr ()) server id
       (\<lambda>_. Dispatch (cmd_xinfo_stream key full)) (\<lambda>v. into_py env (RStreamInfoStream (flatten_xinfo_stream v)))"

definition async_xinfo_stream ::
  "bool \<Rightarrow> (redis_cmd \<Rightarrow> redis_error + redis_value) \<Rightarrow> bytes \<Rightarrow> bool \<Rightarrow> raw_result pyres \<times> redis_cmd list" where
  "async_xinfo_stream is_closed server key full =
     async_call is_closed (Inr ()) server id
       (\<lambda>_. Dispatch (cmd_xinfo_stream key full)) (raw_with (\<lambda>v. RStreamInfoStream (flatten_xinfo_stream v)))"

definition redis_xinfo_groups ::
  "bridge_env \<Rightarrow> codec option \<Rightarrow> bool \<Rightarrow> (redis_cmd \<Rightarrow> redis_error + redis_value) \<Rightarrow> bytes \<Rightarrow> pyval pyres \<times> redis_cmd list" where
  "redis_xinfo_groups env decode is_closed server key =
     sync_call env decode is_closed (Inr ()) server id
       (\<lambda>_. Dispatch (cmd_xinfo_groups key)) (\<lambda>v. into_py env (RStreamInfoGroups (flatten_xinfo_list v)))"

definition async_xinfo_groups ::
  "bool \<Rightarrow> (redis_cmd \<Rightarrow> redis_error + redis_value) \<Rightarrow> bytes \<Rightarrow> raw_result pyres \<times> redis_cmd list" where
  "async_xinfo_groups is_closed server key =
     async_call is_closed (Inr ()) server id
       (\<lambda>_. Dispatch (cmd_xinfo_groups key)) (raw_with (\<lambda>v. RStreamInfoGroups (flatten_xinfo_list v)))"

definition redis_xinfo_consumers ::
  "bridge_env \<Rightarrow> codec option \<Rightarrow> bool \<Rightarrow> (redis_cmd \<Rightarrow> redis_error + redis_value) \<Rightarrow> bytes \<Rightarrow> bytes \<Rightarrow> pyval pyres \<times> redis_cmd list" where
  "redis_xinfo_consumers env decode is_closed server key grp =
     sync_call env decode is_closed (Inr ()) server id
       (\<lambda>_. Dispatch (cmd_xinfo_consumers key grp)) (\<lambda>v. into_py env (RStreamInfoConsumers (flatten_xinfo_list v)))"

definition async_xinfo_consumers ::
  "bool \<Rightarrow> (redis_cmd \<Rightarrow> redis_error + redis_value) \<Rightarrow> bytes \<Rightarrow> bytes \<Rightarrow> raw_result pyres \<times> redis_cmd list" where
  "async_xinfo_consumers is_closed server key grp =
     async_call is_closed (Inr ()) server id
       (\<lambda>_. Dispatch (cmd_xinfo_consumers key grp)) (raw_with (\<lambda>v. RStreamInfoConsumers (flatten_xinfo_list v)))"

definition redis_xtrim ::
  "bridge_env \<Rightarrow> codec option \<Rightarrow> bool \<Rightarrow> (redis_cmd \<Rightarrow> redis_error + i64) \<Rightarrow> bytes \<Rightarrow> trim_options \<Rightarrow> pyval pyres \<times> redis_cmd list" where
  "redis_xtrim env decode is_closed server key t =
     sync_call env None is_closed (xtrim_checked key t) server id
       (\<lambda>cmd. Dispatch cmd) py_int"

definition async_xtrim ::
  "bool \<Rightarrow> (redis_cmd \<Rightarrow> redis_error + i64) \<Rightarrow> bytes \<Rightarrow> trim_options \<Rightarrow> raw_result pyres \<times> redis_cmd list" where
  "async_xtrim is_closed server key t =
     async_call is_closed (xtrim_checked key t) server id
       (\<lambda>cmd. Dispatch cmd) (raw_of TI64)"

definition redis_xpending ::
  "bridge_env \<Rightarrow> codec option \<Rightarrow> bool \<Rightarrow> (redis_cmd \<Rightarrow> redis_error + redis_value) \<Rightarrow> bytes \<Rightarrow> bytes \<Rightarrow> pending_options \<Rightarrow> pyval pyres \<times> redis_cmd list" where
  "redis_xpending env decode is_closed server key grp p =
     sync_call env decode is_closed (Inr ()) server id
       (\<lambda>_. Dispatch (cmd_xpending key grp p)) (\<lambda>v. into_py env (xpending_raw p v))"

definition async_xpending ::
  "bool \<Rightarrow> (redis_cmd \<Rightarrow> redis_error + redis_value) \<Rightarrow> bytes \<Rightarrow> bytes \<Rightarrow> pending_options \<Rightarrow> raw_result pyres \<times> redis_cmd list" where
  "async_xpending is_closed server key grp p =
     async_call is_closed (Inr ()) server id
       (\<lambda>_. Dispatch (cmd_xpending key grp p)) (raw_with (xpending_raw p))"

definition redis_xclaim ::
  "bridge_env \<Rightarrow> codec option \<Rightarrow> bool \<Rightarrow> (redis_cmd \<Rightarrow> redis_error + redis_value) \<Rightarrow> bytes \<Rightarrow> bytes \<Rightarrow> bytes \<Rightarrow> i64 \<Rightarrow> bytes list \<Rightarrow> claim_options \<Rightarrow> pyval pyres \<times> redis_cmd list" where
  "redis_xclaim env decode is_closed server key grp consumer min_idle_time message_ids opt =
     sync_call env decode is_closed (Inr ()) server id
       (\<lambda>_. Dispatch (cmd_xclaim key grp consumer min_idle_time message_ids opt)) (\<lambda>v. into_py env (xclaim_raw (cl_justid opt) v))"

definition async_xclaim ::
  "bool \<Rightarrow> (redis_cmd \<Rightarrow> redis_error + redis_value) \<Rightarrow> bytes \<Rightarrow> bytes \<Rightarrow> bytes \<Rightarrow> i64 \<Rightarrow> bytes list \<Rightarrow> claim_options \<Rightarrow> raw_result pyres \<times> redis_cmd list" where
  "async_xclaim is_closed server key grp consumer min_idle_time message_ids opt =
     async_call is_closed (Inr ()) server id
       (\<lambda>_. Dispatch (cmd_xclaim key grp consumer min_idle_time message_ids opt)) (raw_with (xclaim_raw (cl_justid opt)))"

definition redis_xautoclaim ::
  "bridge_env \<Rightarrow> codec option \<Rightarrow> bool \<Rightarrow> (redis_cmd \<Rightarrow> redis_error + redis_value) \<Rightarrow> bytes \<Rightarrow> bytes \<Rightarrow> bytes \<Rightarrow> i64 \<Rightarrow> bytes \<Rightarrow> i64 \<Rightarrow> bool \<Rightarrow> pyval pyres \<times> redis_cmd list" where
  "redis_xautoclaim env decode is_closed server key grp consumer min_idle_time start_id count justid =
     sync_call env decode is_closed (Inr ()) server id
       (\<lambda>_. Dispatch (cmd_xautoclaim key grp consumer min_idle_time start_id (Some count) justid)) (\<lambda>v. into_py env (xautoclaim_raw justid v))"

definition async_xautoclaim ::
  "bool \<Rightarrow> (redis_cmd \<Rightarrow> redis_error + redis_value) \<Rightarrow> bytes \<Rightarrow> bytes \<Rightarrow> bytes \<Rightarrow> i64 \<Rightarrow> bytes \<Rightarrow> i64 \<Rightarrow> bool \<Rightarrow> raw_result pyres \<times> redis_cmd list" where
  "async_xautoclaim is_closed server key grp consumer min_idle_time start_id count justid =
     async_call is_closed (Inr ()) server id
       (\<lambda>_. Dispatch (cmd_xautoclaim key grp consumer min_idle_time start_id (Some count) justid)) (raw_with (xautoclaim_raw justid))"

definition redis_xsetid ::
  "bridge_env \<Rightarrow> codec option \<Rightarrow> bool \<Rightarrow> (redis_cmd \<Rightarrow> redis_error + redis_value) \<Rightarrow> bytes \<Rightarrow> bytes \<Rightarrow> i64 option \<Rightarrow> bytes option \<Rightarrow> pyval pyres \<times> redis_cmd list" where
  "redis_xsetid env decode is_closed server key ident entries_added max_deleted_entry_id =
     sync_call env None is_closed (Inr ()) server (\<lambda>_. ())
       (\<lambda>_. Dispatch (cmd_xsetid key ident entries_added max_deleted_entry_id)) conv_unit"

definition async_xsetid ::
  "bool \<Rightarrow> (redis_cmd \<Rightarrow> redis_error + redis_value) \<Rightarrow> bytes \<Rightarrow> bytes \<Rightarrow> i64 option \<Rightarrow> bytes option \<Rightarrow> raw_result pyres \<times> redis_cmd list" where
  "async_xsetid is_closed server key ident entries_added max_deleted_entry_id =
     async_call is_closed (Inr ()) server (\<lambda>_. ())
       (\<lambda>_. Dispatch (cmd_xsetid key ident entries_added max_deleted_entry_id)) (raw_with (\<lambda>_. RNil))"

section \<open>Both versions\<close>

interpretation opt_str_reply: scalar_reply conv_opt_str "raw_with ROptStr"
  by unfold_locales (auto simp: reply_defs conv_opt_str_def split: option.splits)

interpretation same_raw: reply_at env "\<lambda>v. into_py env (f v)" "raw_with f" for env f
  by unfold_locales (simp_all add: raw_with_def)

lemmas stream_agreement = method_agreement opt_str_reply.agree_undecoded

lemmas streams_method_defs =
  redis_xadd_def async_xadd_def redis_xlen_def async_xlen_def redis_xrange_def async_xrange_def
  redis_xrevrange_def async_xrevrange_def redis_xgroup_create_def async_xgroup_create_def
  redis_xgroup_setid_def async_xgroup_setid_def redis_xgroup_destroy_def async_xgroup_destroy_def
  redis_xgroup_createconsumer_def async_xgroup_createconsumer_def redis_xgroup_delconsumer_def
  async_xgroup_delconsumer_def redis_xinfo_stream_def async_xinfo_stream_def redis_xinfo_groups_def
  async_xinfo_groups_def redis_xinfo_consumers_def async_xinfo_consumers_def redis_xtrim_def
  async_xtrim_def redis_xpending_def async_xpending_def redis_xclaim_def async_xclaim_def
  redis_xautoclaim_def async_xautoclaim_def redis_xsetid_def async_xsetid_def

text \<open>The stream methods that agree on both clients.\<close>
lemma stream_methods_agree:
  "await_call env decode (async_xadd z s iterate as_double show_f64 key id_or_fields flds ident nomkstream t) = redis_xadd env decode z s iterate as_double show_f64 key id_or_fields flds ident nomkstream t \<and>
   await_call env decode (async_xlen z s2 key) = redis_xlen env decode z s2 key \<and>
   await_call env decode (async_xrange z s3 key lo hi count) = redis_xrange env decode z s3 key lo hi count \<and>
   await_call env decode (async_xrevrange z s3 key hi lo count) = redis_xrevrange env decode z s3 key hi lo count \<and>
   await_call env decode (async_xgroup_create z s3 key grp ident mkstream entries_read) = redis_xgroup_create env decode z s3 key grp ident mkstream entries_read \<and>
   await_call env decode (async_xgroup_setid z s3 key grp ident entries_read) = redis_xgroup_setid env decode z s3 key grp ident entries_read \<and>
   await_call env decode (async_xgroup_destroy z s2 key grp) = redis_xgroup_destroy env decode z s2 key grp \<and>
   await_call env decode (async_xgroup_createconsumer z s2 key grp consumer) = redis_xgroup_createconsumer env decode z s2 key grp consumer \<and>
   await_call env decode (async_xgroup_delconsumer z s2 key grp consumer) = redis_xgroup_delconsumer env decode z s2 key grp consumer \<and>
   await_call env decode (async_xinfo_stream z s3 key full) = redis_xinfo_stream env decode z s3 key full \<and>
   await_call env decode (async_xinfo_groups z s3 key) = redis_xinfo_groups env decode z s3 key \<and>
   await_call env decode (async_xinfo_consumers z s3 key grp) = redis_xinfo_consumers env decode z s3 key grp \<and>
   await_call env decode (async_xtrim z s2 key t) = redis_xtrim env decode z s2 key t \<and>
   await_call env decode (async_xpending z s3 key grp p) = redis_xpending env decode z s3 key grp p \<and>
   await_call env decode (async_xclaim z s3 key grp consumer min_idle_time message_ids opt) = redis_xclaim env decode z s3 key grp consumer min_idle_time message_ids opt \<and>
   await_call env decode (async_xautoclaim z s3 key grp consumer min_idle_time start_id count2 justid) = redis_xautoclaim env decode z s3 key grp consumer min_idle_time start_id count2 justid \<and>
   await_call env decode (async_xsetid z s3 key ident entries_added max_deleted_entry_id) = redis_xsetid env decode z s3 key ident entries_added max_deleted_entry_id"
  by (intro conjI; ((simp add: streams_method_defs stream_agreement; fail) | simp add: streams_method_defs same_raw.agree))

text \<open>XDEL and XACK without identifiers answer themselves, the blocking ones also on a closed client.\<close>

lemma guarded_stream_methods_agree:
  "\<not> (z \<and> ids = []) \<Longrightarrow>
   await_call env decode (async_xdel z si key ids) = redis_xdel env decode z si key ids"
  "\<not> (z \<and> ids = []) \<Longrightarrow>
   await_call env decode (async_xack z si key grp ids) = redis_xack env decode z si key grp ids"
  by (auto simp: redis_xdel_def async_xdel_def redis_xack_def async_xack_def method_agreement ready_call)

text \<open>XREAD and XREADGROUP agree on an open client.  On a closed one the awaitable ones raise, the
  blocking ones send their command all the same.\<close>

lemma stream_reads_agree:
  "await_call env decode (async_xread False server blocking streams count block) =
   redis_xread env decode z server blocking streams count block"
  "await_call env decode (async_xreadgroup False server blocking grp consumer streams count block noack) =
   redis_xreadgroup env decode z server blocking grp consumer streams count block noack"
  by (simp_all add: redis_xread_def async_xread_def redis_xreadgroup_def async_xreadgroup_def
      same_raw.agree split: sum.split option.split)
    (simp_all add: await_call_def)

lemma stream_reads_when_closed:
  assumes "dict_to_stream_pairs streams = Inr ps" "refused block blocking = None"
  shows "snd (redis_xread env decode True server blocking streams count block) = [cmd_xread ps count block]"
    and "async_xread True server blocking streams count block = (Inl closed_error, [])"
  using assms
  by (simp_all add: redis_xread_def async_xread_def sync_call_def async_call_def run_request_def)

text \<open>Options that are dropped without a word: MINID next to MAXLEN, LIMIT of an XADD that does not
  trim, and \<open>idle\<close> and \<open>consumer\<close> of an XPENDING without \<open>min\<close>, \<open>max\<close> and \<open>count\<close>.\<close>

lemma dropped_stream_options:
  "tr_maxlen t = Some n \<Longrightarrow> cmd_xadd key ident flds nomkstream (t\<lparr>tr_minid := m\<rparr>) = cmd_xadd key ident flds nomkstream t"
  "tr_maxlen t = None \<Longrightarrow> tr_minid t = None \<Longrightarrow>
   cmd_xadd key ident flds nomkstream (t\<lparr>tr_limit := l\<rparr>) = cmd_xadd key ident flds nomkstream t"
  "\<not> pending_is_range p \<Longrightarrow> cmd_xpending key grp (p\<lparr>pd_idle := i, pd_consumer := c\<rparr>) = cmd_xpending key grp p"
  by (simp_all add: cmd_xadd_def trim_args_def trim_mark_def cmd_xpending_def pending_is_range_def)

text \<open>An \<open>int\<close> field value beyond 64 bits goes through a float and is stored rounded; \<open>True\<close> is
  stored as \<open>1\<close>.\<close>

lemma big_int_rounded:
  assumes "2 ^ 63 \<le> i" "as_double (PInt i) = Inr d"
  shows "coerce_field_value as_double show_f64 (PInt i) = Inr (show_f64 d)"
  using assms
  by (simp add: coerce_field_value_def extract_bytes_def extract_string_def extract_i64_def
      extract_int_def extract_f64_def)

lemma true_stored_as_1: "coerce_field_value as_double show_f64 (PBool True) = Inr ''1''"
proof -
  have "show_int 1 = ''1''" by code_simp
  then show ?thesis
    by (simp add: coerce_field_value_def extract_bytes_def extract_string_def extract_i64_def extract_int_def)
qed

section \<open>What a read delivers\<close>

text \<open>Entries and streams as servers send them: arrays under RESP2, a map of the streams under RESP3.\<close>

definition entry_reply :: "stream_entry \<Rightarrow> redis_value" where
  "entry_reply e = VArray [VBulkString (fst e), VArray (unpair (map bulk_pair (snd e)))]"

definition resp2_streams :: "(bytes \<times> stream_entry list) list \<Rightarrow> redis_value" where
  "resp2_streams ss = VArray (map (\<lambda>(k, es). VArray [VBulkString k, VArray (map entry_reply es)]) ss)"

definition resp3_streams :: "(bytes \<times> stream_entry list) list \<Rightarrow> redis_value" where
  "resp3_streams ss = VMap (map (\<lambda>(k, es). (VBulkString k, VArray (map entry_reply es))) ss)"

lemma map_filter_inverse: "(\<And>x. f (g x) = Some x) \<Longrightarrow> List.map_filter f (map g xs) = xs"
  by (induction xs) (simp_all add: List.map_filter_simps)

lemma flatten_entries [simp]: "flatten_xrange_reply (VArray (map entry_reply es)) = es"
  by (auto simp: flatten_xrange_reply_def flatten_entry_def entry_reply_def pairs_from_flat_def
      bytes_or_empty_def value_to_bytes_def bytes_pair_def intro!: map_filter_inverse)

lemma flatten_streams [simp]:
  "flatten_xread_reply (resp2_streams ss) = ss" "flatten_xread_reply (resp3_streams ss) = ss"
  by (auto simp: flatten_xread_reply_def resp2_streams_def resp3_streams_def bytes_or_empty_def
      value_to_bytes_def split_def intro!: map_filter_inverse)

text \<open>An entry may repeat a field (\<open>XADD s * f 1 f 2\<close>); the dict made of it has the fields in the
  order in which they first occur, each with its last value.\<close>

definition field_names :: "(bytes \<times> bytes) list \<Rightarrow> bytes list" where
  "field_names flds = rev (remdups (rev (map fst flds)))"

definition field_dict :: "(bytes \<times> bytes) list \<Rightarrow> (pyval \<times> pyval) list" where
  "field_dict flds = map (\<lambda>k. (PBytes k, PBytes (the (map_of (rev flds) k)))) (field_names flds)"

definition entry_to_py :: "stream_entry \<Rightarrow> pyval" where
  "entry_to_py e = PTuple [PBytes (fst e), PDict (field_dict (snd e))]"

lemma field_names_set [simp]: "set (field_names flds) = fst ` set flds"
  by (simp add: field_names_def)

lemma field_names_distinct [simp]: "distinct (field_names flds)"
  by (simp add: field_names_def)

lemma field_names_snoc:
  "field_names (flds @ [p]) = (if fst p \<in> fst ` set flds then field_names flds else field_names flds @ [fst p])"
  by (simp add: field_names_def)

lemma field_names_of_distinct: "distinct (map fst flds) \<Longrightarrow> field_names flds = map fst flds"
  by (simp add: field_names_def distinct_remdups_id)

lemma dict_upd_names:
  "distinct ks \<Longrightarrow>
   dict_upd (PBytes k) x (map (\<lambda>j. (PBytes j, g j)) ks) =
     map (\<lambda>j. (PBytes j, (g(k := x)) j)) (if k \<in> set ks then ks else ks @ [k])"
  by (induction ks) auto

lemma dict_of_fields: "dict_of_bytes (map (\<lambda>(k, v). (k, PBytes v)) flds) = field_dict flds"
proof (induction flds rule: rev_induct)
  case (snoc p flds)
  obtain k v where p: "p = (k, v)" by (cases p)
  let ?g = "\<lambda>j. PBytes (the (map_of (rev flds) j))"
  have "dict_of_bytes (map (\<lambda>(k, v). (k, PBytes v)) (flds @ [p])) = dict_upd (PBytes k) (PBytes v) (field_dict flds)"
    using snoc.IH by (simp add: dict_of_bytes_def p)
  also have "\<dots> = map (\<lambda>j. (PBytes j, (?g(k := PBytes v)) j))
      (if k \<in> set (field_names flds) then field_names flds else field_names flds @ [k])"
    unfolding field_dict_def by (rule dict_upd_names [OF field_names_distinct])
  also have "\<dots> = field_dict (flds @ [p])"
    by (simp add: field_dict_def field_names_snoc p fun_upd_def if_distrib cong: if_cong)
  finally show ?case .
qed (simp add: dict_of_bytes_def field_dict_def field_names_def)

lemma build_entries: "build_stream_entries es = Inr (PList (map entry_to_py es))"
proof -
  have "collect_res (\<lambda>(i, flds). rbind (set_items (bytes_items (map (\<lambda>(k, v). (k, PBytes v)) flds)) [])
          (\<lambda>d. Inr (PTuple [PBytes i, PDict d]))) es = collect_res (Inr \<circ> entry_to_py) es"
    by (intro collect_res_cong) (auto simp: dict_of_fields entry_to_py_def simp del: map_map)
  also have "\<dots> = Inr (map entry_to_py es)" by (simp add: comp_def collect_res_map)
  finally show ?thesis by (simp add: build_stream_entries_def del: map_map)
qed

lemma set_converted_distinct:
  assumes "distinct (map fst ds @ map fst ps)" "\<And>k x. (k, x) \<in> set ps \<Longrightarrow> f x = Inr (g x)"
  shows "set_converted f ps (bytes_items ds) = Inr (bytes_items (ds @ map (\<lambda>(k, x). (k, g x)) ps))"
  using assms
proof (induction ps arbitrary: ds)
  case (Cons p ps)
  obtain k x where p: "p = (k, x)" by (cases p)
  with Cons.prems have "k \<notin> fst ` set ds" "f x = Inr (g x)" by auto
  moreover have "set_converted f ps (bytes_items (ds @ [(k, g x)])) =
      Inr (bytes_items ((ds @ [(k, g x)]) @ map (\<lambda>(k, x). (k, g x)) ps))"
    using Cons.prems p by (intro Cons.IH) auto
  ultimately show ?case using p by (simp add: set_item_def dict_upd_new_field del: map_append)
qed simp

definition streams_to_py :: "(bytes \<times> stream_entry list) list \<Rightarrow> pyval" where
  "streams_to_py ss =
     (if ss = [] then PNone else PDict (map (\<lambda>(k, es). (PBytes k, PList (map entry_to_py es))) ss))"

lemma stream_read_distinct:
  assumes "distinct (map fst ss)"
  shows "stream_read_to_py ss = Inr (streams_to_py ss)"
proof -
  have "set_converted build_stream_entries ss (bytes_items []) =
      Inr (bytes_items ([] @ map (\<lambda>(k, es). (k, PList (map entry_to_py es))) ss))"
    using assms by (intro set_converted_distinct) (auto simp: build_entries)
  then show ?thesis by (auto simp: stream_read_to_py_def streams_to_py_def comp_def split_def)
qed

text \<open>(C33) XREAD delivers what the server sent, under either protocol and on both clients: every
  stream with its entries in order, every entry with its identifier and the dict of its fields in
  the order in which they first occur, and \<open>None\<close> when there is nothing to read.  A field has its
  value; of a field that an entry repeats only the last value is left (\<open>repeated_field_lost\<close>).
  The reply names each stream once.\<close>
theorem xread_delivers:
  assumes "dict_to_stream_pairs streams = Inr ps" "refused block blocking = None"
    and "distinct (map fst ss)"
    and "server (cmd_xread ps count block) \<in> {Inr (resp2_streams ss), Inr (resp3_streams ss)} \<or>
         ss = [] \<and> server (cmd_xread ps count block) = Inr VNil"
  shows "redis_xread env None z server blocking streams count block =
      (Inr (streams_to_py ss), [cmd_xread ps count block]) \<and>
    await_call env None (async_xread False server blocking streams count block) =
      (Inr (streams_to_py ss), [cmd_xread ps count block])"
proof -
  have "flatten_xread_reply VNil = []" by (simp add: flatten_xread_reply_def)
  with assms have "redis_xread env None z server blocking streams count block =
      (Inr (streams_to_py ss), [cmd_xread ps count block])"
    by (auto simp: redis_xread_def sync_call_def run_request_def maybe_decode_def stream_read_distinct)
  then show ?thesis using stream_reads_agree(1) [of env None server blocking streams count block z] by simp
qed

theorem xread_delivers_witness:
  "redis_xread sample_env None False
     (\<lambda>_. Inr (VMap [(VBulkString ''s'', VArray [VArray [VBulkString ''1-0'',
        VArray [VBulkString ''f'', VBulkString ''x'', VBulkString ''g'', VBulkString ''z'']]])]))
     (Inr ()) [(PStr ''s'', PStr ''0'')] None None =
   (Inr (PDict [(PBytes ''s'', PList [PTuple [PBytes ''1-0'',
      PDict [(PBytes ''f'', PBytes ''x''), (PBytes ''g'', PBytes ''z'')]]])]),
    [Cmd ''XREAD'' [AStr ''STREAMS'', AStr ''s'', AStr ''0'']])"
  using xread_delivers [where streams = "[(PStr ''s'', PStr ''0'')]" and ps = "[(''s'', ''0'')]"
      and ss = "[(''s'', [(''1-0'', [(''f'', ''x''), (''g'', ''z'')])])]" and blocking = "Inr ()" and block = None
      and count = None and env = sample_env and z = False
      and server = "\<lambda>_. Inr (VMap [(VBulkString ''s'', VArray [VArray [VBulkString ''1-0'',
        VArray [VBulkString ''f'', VBulkString ''x'', VBulkString ''g'', VBulkString ''z'']]])])"]
  by (simp add: dict_to_stream_pairs_def refused_def resp3_streams_def field_dict_def field_names_def
      entry_reply_def unpair_def streams_to_py_def entry_to_py_def cmd_xread_def opt_arg_def)

text \<open>Two entries that differ in an earlier value of a repeated field look the same.\<close>

lemma repeated_field_lost:
  "entry_to_py (i, [(f, v), (f, w)]) = PTuple [PBytes i, PDict [(PBytes f, PBytes w)]]"
  by (simp add: entry_to_py_def field_dict_def field_names_def)

end
