(* ===== verification/Admin.thy ===== *)
theory Admin
  imports Streams
begin

text \<open>
  The administration and introspection commands (\<open>commands/admin.rs\<close>): SCAN and KEYS, INFO,
  CONFIG, CLIENT, OBJECT, MEMORY, WAIT, TIME and the like, and the CLUSTER commands of the
  connection.

  \<open>imported\<close> and \<open>warned\<close> are the outcomes of importing \<open>warnings\<close> and of calling
  \<open>warnings.warn\<close>; \<open>show_f64_6\<close> is Rust's \<open>{:.6}\<close>.
\<close>

section \<open>Arguments\<close>

text \<open>\<open>let _ =\<close> drops the outcome of the warning, so that it never becomes an error.\<close>

definition warn_keys_use :: "unit pyres \<Rightarrow> unit pyres \<Rightarrow> unit pyres" where
  "warn_keys_use imported warned = rbind imported (\<lambda>_. Inr ())"

definition string_pair :: "pyval \<Rightarrow> (bytes \<times> bytes) pyres" where
  "string_pair v =
     (case v of
        PTuple [a, b] \<Rightarrow> rbind (extract_string a) (\<lambda>x. rbind (extract_string b) (\<lambda>y. Inr (x, y)))
      | PTuple _ \<Rightarrow> Inl (PyErr PyValueError ''expected tuple of length 2'')
      | _ \<Rightarrow> Inl (type_error ''not a tuple''))"

definition config_set_extract_pairs :: "pyval \<Rightarrow> bytes option \<Rightarrow> (bytes \<times> bytes) list pyres" where
  "config_set_extract_pairs name_or_mapping val =
     (case extract_string name_or_mapping of
        Inr s \<Rightarrow>
          (case val of
             None \<Rightarrow> Inl (data_error ''config_set(name, value) requires a value when name is a string'')
           | Some v \<Rightarrow> Inr [(s, v)])
      | Inl _ \<Rightarrow>
          (case name_or_mapping of
             PDict d \<Rightarrow> collect_res (\<lambda>(k, v). rbind (extract_string k) (\<lambda>x. rbind (extract_string v) (\<lambda>y. Inr (x, y)))) d
           | PList xs \<Rightarrow> collect_res string_pair xs
           | PTuple xs \<Rightarrow> collect_res string_pair xs
           | _ \<Rightarrow> Inl (type_error ''not a sequence'')))"

definition validate_on_off_mode :: "bytes \<Rightarrow> unit pyres" where
  "validate_on_off_mode mode =
     (if to_ascii_uppercase mode \<in> {''ON'', ''OFF''} then Inr ()
      else Inl (data_error (''mode must be ON or OFF, got '' @ mode)))"

text \<open>The database number in a URL, as \<open>select\<close> reads it.\<close>

definition url_db_index :: "bytes \<Rightarrow> nat" where
  "url_db_index url =
     (case split_once_str ''://'' url of
        None \<Rightarrow> 0
      | Some (_, after_scheme) \<Rightarrow>
          (case split_once CHR ''/'' after_scheme of
             None \<Rightarrow> 0
           | Some (_, path) \<Rightarrow>
               (case parse_unsigned 8 (takeWhile (\<lambda>c. c \<notin> {CHR ''?'', CHR ''#''}) path) of
                  Some n \<Rightarrow> n | None \<Rightarrow> 0)))"

definition select :: "bytes \<Rightarrow> nat \<Rightarrow> pyval pyres" where
  "select url db_index =
     (let connected = url_db_index url in
      if db_index = connected then Inr (PBool True)
      else Inl (PyErr PyNotImplementedError
        (''SELECT to a different db is not supported under the multiplexed connection model (connected to db '' @
         show_nat connected @ '', requested '' @ show_nat db_index @
         ''). Construct a new Redis with the desired db in the URL instead.'')))"

definition echo_bytes :: "pyval \<Rightarrow> bytes pyres" where
  "echo_bytes message = (case extract_string message of Inr s \<Rightarrow> Inr s | Inl _ \<Rightarrow> extract_bytes message)"

section \<open>Commands\<close>

definition cmd_scan :: "u64 \<Rightarrow> bytes option \<Rightarrow> i64 option \<Rightarrow> bytes option \<Rightarrow> redis_cmd" where
  "cmd_scan cursor pattern count type_filter =
     Cmd ''SCAN'' ([AU64 cursor] @ opt_arg ''MATCH'' AStr pattern @ opt_arg ''COUNT'' AI64 count @
       opt_arg ''TYPE'' AStr type_filter)"

definition cmd_keys :: "bytes \<Rightarrow> redis_cmd" where "cmd_keys pattern = Cmd ''KEYS'' [AStr pattern]"
definition cmd_randomkey :: redis_cmd where "cmd_randomkey = Cmd ''RANDOMKEY'' []"
definition cmd_dbsize :: redis_cmd where "cmd_dbsize = Cmd ''DBSIZE'' []"

definition cmd_flushdb :: "bool \<Rightarrow> redis_cmd" where
  "cmd_flushdb asynchronous = Cmd ''FLUSHDB'' [AStr (if asynchronous then ''ASYNC'' else ''SYNC'')]"

definition cmd_flushall :: "bool \<Rightarrow> redis_cmd" where
  "cmd_flushall asynchronous = Cmd ''FLUSHALL'' [AStr (if asynchronous then ''ASYNC'' else ''SYNC'')]"

definition cmd_info :: "bytes option \<Rightarrow> redis_cmd" where
  "cmd_info sect = Cmd ''INFO'' (opt_val AStr sect)"

definition cmd_config_get :: "bytes \<Rightarrow> redis_cmd" where
  "cmd_config_get parameter = Cmd ''CONFIG'' [AStr ''GET'', AStr parameter]"

definition cmd_config_set :: "(bytes \<times> bytes) list \<Rightarrow> redis_cmd" where
  "cmd_config_set pairs = Cmd ''CONFIG'' (AStr ''SET'' # concat (map (\<lambda>(k, v). [AStr k, AStr v]) pairs))"

definition cmd_config_resetstat :: redis_cmd where "cmd_config_resetstat = Cmd ''CONFIG'' [AStr ''RESETSTAT'']"
definition cmd_config_rewrite :: redis_cmd where "cmd_config_rewrite = Cmd ''CONFIG'' [AStr ''REWRITE'']"
definition cmd_client_id :: redis_cmd where "cmd_client_id = Cmd ''CLIENT'' [AStr ''ID'']"
definition cmd_client_getname :: redis_cmd where "cmd_client_getname = Cmd ''CLIENT'' [AStr ''GETNAME'']"

definition cmd_client_setname :: "bytes \<Rightarrow> redis_cmd" where
  "cmd_client_setname name = Cmd ''CLIENT'' [AStr ''SETNAME'', AStr name]"

definition cmd_client_info :: redis_cmd where "cmd_client_info = Cmd ''CLIENT'' [AStr ''INFO'']"

definition cmd_client_list :: "bytes option \<Rightarrow> i64 list \<Rightarrow> redis_cmd" where
  "cmd_client_list client_type client_ids =
     Cmd ''CLIENT'' ([AStr ''LIST''] @ opt_arg ''TYPE'' AStr client_type @
       (if client_ids = [] then [] else AStr ''ID'' # map AI64 client_ids))"

record kill_options =
  ko_addr :: "bytes option"
  ko_laddr :: "bytes option"
  ko_client_id :: "i64 option"
  ko_client_type :: "bytes option"
  ko_user :: "bytes option"
  ko_skipme :: "bool option"
  ko_maxage :: "i64 option"

definition cmd_client_kill :: "kill_options \<Rightarrow> redis_cmd" where
  "cmd_client_kill k =
     Cmd ''CLIENT'' ([AStr ''KILL''] @ opt_arg ''ADDR'' AStr (ko_addr k) @ opt_arg ''LADDR'' AStr (ko_laddr k) @
       opt_arg ''ID'' AI64 (ko_client_id k) @ opt_arg ''TYPE'' AStr (ko_client_type k) @
       opt_arg ''USER'' AStr (ko_user k) @
       opt_arg ''SKIPME'' (\<lambda>skip. AStr (if skip then ''yes'' else ''no'')) (ko_skipme k) @
       opt_arg ''MAXAGE'' AI64 (ko_maxage k))"

definition cmd_client_pause :: "i64 \<Rightarrow> bool \<Rightarrow> redis_cmd" where
  "cmd_client_pause timeout_ms every = Cmd ''CLIENT'' [AStr ''PAUSE'', AI64 timeout_ms, AStr (if every then ''ALL'' else ''WRITE'')]"

definition cmd_client_unpause :: redis_cmd where "cmd_client_unpause = Cmd ''CLIENT'' [AStr ''UNPAUSE'']"

definition cmd_client_no_evict :: "bytes \<Rightarrow> redis_cmd" where
  "cmd_client_no_evict mode = Cmd ''CLIENT'' [AStr ''NO-EVICT'', AStr mode]"

definition cmd_client_no_touch :: "bytes \<Rightarrow> redis_cmd" where
  "cmd_client_no_touch mode = Cmd ''CLIENT'' [AStr ''NO-TOUCH'', AStr mode]"

definition cmd_object_subcmd :: "bytes \<Rightarrow> bytes \<Rightarrow> redis_cmd" where
  "cmd_object_subcmd subcmd key = Cmd ''OBJECT'' [AStr subcmd, AStr key]"

definition cmd_object_help :: redis_cmd where "cmd_object_help = Cmd ''OBJECT'' [AStr ''HELP'']"

definition cmd_memory_usage :: "bytes \<Rightarrow> i64 option \<Rightarrow> redis_cmd" where
  "cmd_memory_usage key samples = Cmd ''MEMORY'' ([AStr ''USAGE'', AStr key] @ opt_arg ''SAMPLES'' AI64 samples)"

definition cmd_echo :: "bytes \<Rightarrow> redis_cmd" where "cmd_echo message = Cmd ''ECHO'' [ABytes message]"

definition cmd_wait :: "i64 \<Rightarrow> i64 \<Rightarrow> redis_cmd" where
  "cmd_wait numreplicas timeout_ms = Cmd ''WAIT'' [AI64 numreplicas, AI64 timeout_ms]"

definition cmd_waitaof :: "i64 \<Rightarrow> i64 \<Rightarrow> i64 \<Rightarrow> redis_cmd" where
  "cmd_waitaof numlocal numreplicas timeout_ms = Cmd ''WAITAOF'' [AI64 numlocal, AI64 numreplicas, AI64 timeout_ms]"

definition cmd_time :: redis_cmd where "cmd_time = Cmd ''TIME'' []"
definition cmd_lastsave :: redis_cmd where "cmd_lastsave = Cmd ''LASTSAVE'' []"
definition cmd_bgsave :: "bool \<Rightarrow> redis_cmd" where "cmd_bgsave schedule = Cmd ''BGSAVE'' (flag_arg ''SCHEDULE'' schedule)"
definition cmd_bgrewriteaof :: redis_cmd where "cmd_bgrewriteaof = Cmd ''BGREWRITEAOF'' []"

definition cmd_debug_sleep :: "(f64 \<Rightarrow> bytes) \<Rightarrow> f64 \<Rightarrow> redis_cmd" where
  "cmd_debug_sleep show_f64_6 seconds = Cmd ''DEBUG'' [AStr ''SLEEP'', AStr (show_f64_6 seconds)]"

section \<open>Replies\<close>

definition parse_scan_reply :: "redis_value \<Rightarrow> u64 \<times> bytes list" where
  "parse_scan_reply v =
     (let parsed = (\<lambda>s. case parse_unsigned 64 s of Some n \<Rightarrow> of_nat n | None \<Rightarrow> 0) in
      case v of
        VArray [cursor, ks] \<Rightarrow>
          ((case cursor of
              VBulkString b \<Rightarrow> if valid_utf8 b then parsed b else 0
            | VInt n \<Rightarrow> if n <s 0 then 0 else n
            | VSimpleString s \<Rightarrow> parsed s
            | _ \<Rightarrow> 0),
           (case ks of
              VArray items \<Rightarrow>
                List.map_filter (\<lambda>i. case i of VBulkString b \<Rightarrow> Some b | VSimpleString s \<Rightarrow> Some s | _ \<Rightarrow> None) items
            | _ \<Rightarrow> []))
      | _ \<Rightarrow> (0, []))"

definition scan_to_py :: "redis_value \<Rightarrow> pyval pyres" where
  "scan_to_py v = (case parse_scan_reply v of (cursor, ks) \<Rightarrow> Inr (PTuple [PInt (uint cursor), PList (map PBytes ks)]))"

text \<open>The awaitable rebuilds a reply whose cursor is the \<open>as i64\<close> cast.\<close>

definition scan_raw_result :: "redis_value \<Rightarrow> raw_result" where
  "scan_raw_result v =
     (case parse_scan_reply v of (cursor, ks) \<Rightarrow> RValue (VArray [VInt cursor, VArray (map VBulkString ks)]))"

definition text_of_value :: "redis_value \<Rightarrow> bytes" where
  "text_of_value v =
     (case v of VBulkString b \<Rightarrow> b | VSimpleString s \<Rightarrow> s | VVerbatimString fmt txt \<Rightarrow> txt | _ \<Rightarrow> [])"

definition config_text :: "redis_value \<Rightarrow> bytes option" where
  "config_text v = (case v of VBulkString b \<Rightarrow> Some b | VSimpleString s \<Rightarrow> Some s | _ \<Rightarrow> None)"

definition config_pair :: "redis_value \<times> redis_value \<Rightarrow> (bytes \<times> bytes) option" where
  "config_pair p = (case (config_text (fst p), config_text (snd p)) of (Some k, Some v) \<Rightarrow> Some (k, v) | _ \<Rightarrow> None)"

definition parse_config_get_reply :: "redis_value \<Rightarrow> fields" where
  "parse_config_get_reply v =
     (case v of
        VMap pairs \<Rightarrow> List.map_filter config_pair pairs
      | VArray flat \<Rightarrow> List.map_filter config_pair (pair_up flat)
      | _ \<Rightarrow> [])"

definition client_row :: "bytes \<Rightarrow> fields" where
  "client_row line = List.map_filter (split_once CHR ''='') (split_on CHR '' '' line)"

definition parse_client_list_reply :: "bytes \<Rightarrow> fields list" where
  "parse_client_list_reply txt =
     filter (\<lambda>row. row \<noteq> []) (map client_row (filter (\<lambda>line. line \<noteq> []) (split_on (CHR 0x0A) txt)))"

definition help_lines :: "bytes \<Rightarrow> bytes list" where
  "help_lines s = filter (\<lambda>l. l \<noteq> []) (split_on (CHR 0x0A) s)"

definition parse_help_reply :: "redis_value \<Rightarrow> bytes list" where
  "parse_help_reply v =
     (case v of
        VArray items \<Rightarrow>
          List.map_filter (\<lambda>i. case i of
              VBulkString b \<Rightarrow> Some b | VSimpleString s \<Rightarrow> Some s | VVerbatimString fmt txt \<Rightarrow> Some txt
            | _ \<Rightarrow> None) items
      | VBulkString b \<Rightarrow> help_lines b
      | VSimpleString s \<Rightarrow> help_lines s
      | VVerbatimString fmt txt \<Rightarrow> help_lines txt
      | _ \<Rightarrow> [])"

definition time_part :: "redis_value \<Rightarrow> i64 option" where
  "time_part v =
     (let parsed = (\<lambda>s. map_option word_of_int (parse_signed 64 s)) in
      case v of
        VBulkString b \<Rightarrow> if valid_utf8 b then parsed b else None
      | VSimpleString s \<Rightarrow> parsed s
      | VInt n \<Rightarrow> Some n
      | _ \<Rightarrow> None)"

definition parse_time_reply :: "redis_value \<Rightarrow> (i64 \<times> i64) option" where
  "parse_time_reply v =
     (case v of
        VArray [secs, usecs] \<Rightarrow>
          Option.bind (time_part secs) (\<lambda>s. Option.bind (time_part usecs) (\<lambda>u. Some (s, u)))
      | _ \<Rightarrow> None)"

definition time_to_py :: "redis_value \<Rightarrow> pyval pyres" where
  "time_to_py v =
     Inr (case parse_time_reply v of Some (s, u) \<Rightarrow> PTuple [PInt (sint s), PInt (sint u)] | None \<Rightarrow> PNone)"

definition pairs_list_to_py :: "fields list \<Rightarrow> pyval pyres" where
  "pairs_list_to_py rows = rbind (collect_res py_bytes_pairs rows) (\<lambda>items. Inr (PList items))"

section \<open>Methods\<close>

definition redis_scan ::
  "bridge_env \<Rightarrow> codec option \<Rightarrow> bool \<Rightarrow> (redis_cmd \<Rightarrow> redis_error + redis_value) \<Rightarrow> u64 \<Rightarrow> bytes option \<Rightarrow> i64 option \<Rightarrow> bytes option \<Rightarrow> pyval pyres \<times> redis_cmd list" where
  "redis_scan env decode is_closed server cursor pattern count type_filter =
     sync_call env decode is_closed (Inr ()) server id
       (\<lambda>_. Dispatch (cmd_scan cursor pattern count type_filter)) scan_to_py"

definition async_scan ::
  "bool \<Rightarrow> (redis_cmd \<Rightarrow> redis_error + redis_value) \<Rightarrow> u64 \<Rightarrow> bytes option \<Rightarrow> i64 option \<Rightarrow> bytes option \<Rightarrow> raw_result pyres \<times> redis_cmd list" where
  "async_scan is_closed server cursor pattern count type_filter =
     async_call is_closed (Inr ()) server id
       (\<lambda>_. Dispatch (cmd_scan cursor pattern count type_filter)) (raw_with scan_raw_result)"

definition redis_keys ::
  "bridge_env \<Rightarrow> codec option \<Rightarrow> bool \<Rightarrow> (redis_cmd \<Rightarrow> redis_error + bytes list) \<Rightarrow> unit pyres \<Rightarrow> unit pyres \<Rightarrow> bytes \<Rightarrow> pyval pyres \<times> redis_cmd list" where
  "redis_keys env decode is_closed server imported warned pattern =
     sync_call env decode is_closed (warn_keys_use imported warned) server id
       (\<lambda>_. Dispatch (cmd_keys pattern)) py_bytes_list"

definition async_keys ::
  "bool \<Rightarrow> (redis_cmd \<Rightarrow> redis_error + bytes list) \<Rightarrow> bytes \<Rightarrow> raw_result pyres \<times> redis_cmd list" where
  "async_keys is_closed server pattern =
     async_call is_closed (Inr ()) server id
       (\<lambda>_. Dispatch (cmd_keys pattern)) (raw_of TBytesList)"

definition redis_randomkey ::
  "bridge_env \<Rightarrow> codec option \<Rightarrow> bool \<Rightarrow> (redis_cmd \<Rightarrow> redis_error + bytes option) \<Rightarrow> pyval pyres \<times> redis_cmd list" where
  "redis_randomkey env decode is_closed server =
     sync_call env decode is_closed (Inr ()) server id
       (\<lambda>_. Dispatch (cmd_randomkey)) conv_opt_bytes"

definition async_randomkey ::
  "bool \<Rightarrow> (redis_cmd \<Rightarrow> redis_error + bytes option) \<Rightarrow> raw_result pyres \<times> redis_cmd list" where
  "async_randomkey is_closed server =
     async_call is_closed (Inr ()) server id
       (\<lambda>_. Dispatch (cmd_randomkey)) (raw_of TOptBytes)"

definition redis_dbsize ::
  "bridge_env \<Rightarrow> codec option \<Rightarrow> bool \<Rightarrow> (redis_cmd \<Rightarrow> redis_error + i64) \<Rightarrow> pyval pyres \<times> redis_cmd list" where
  "redis_dbsize env decode is_closed server =
     sync_call env None is_closed (Inr ()) server id
       (\<lambda>_. Dispatch (cmd_dbsize)) py_int"

definition async_dbsize ::
  "bool \<Rightarrow> (redis_cmd \<Rightarrow> redis_error + i64) \<Rightarrow> raw_result pyres \<times> redis_cmd list" where
  "async_dbsize is_closed server =
     async_call is_closed (Inr ()) server id
       (\<lambda>_. Dispatch (cmd_dbsize)) (raw_of TI64)"

definition redis_flushdb ::
  "bridge_env \<Rightarrow> codec option \<Rightarrow> bool \<Rightarrow> (redis_cmd \<Rightarrow> redis_error + redis_value) \<Rightarrow> bool \<Rightarrow> pyval pyres \<times> redis_cmd list" where
  "redis_flushdb env decode is_closed server asynchronous =
     sync_call env None is_closed (Inr ()) server (\<lambda>_. ())
       (\<lambda>_. Dispatch (cmd_flushdb asynchronous)) conv_unit"

definition async_flushdb ::
  "bool \<Rightarrow> (redis_cmd \<Rightarrow> redis_error + redis_value) \<Rightarrow> bool \<Rightarrow> raw_result pyres \<times> redis_cmd list" where
  "async_flushdb is_closed server asynchronous =
     async_call is_closed (Inr ()) server (\<lambda>_. ())
       (\<lambda>_. Dispatch (cmd_flushdb asynchronous)) (raw_with (\<lambda>_. RNil))"

definition redis_flushall ::
  "bridge_env \<Rightarrow> codec option \<Rightarrow> bool \<Rightarrow> (redis_cmd \<Rightarrow> redis_error + redis_value) \<Rightarrow> bool \<Rightarrow> pyval pyres \<times> redis_cmd list" where
  "redis_flushall env decode is_closed server asynchronous =
     sync_call env None is_closed (Inr ()) server (\<lambda>_. ())
       (\<lambda>_. Dispatch (cmd_flushall asynchronous)) conv_unit"

definition async_flushall ::
  "bool \<Rightarrow> (redis_cmd \<Rightarrow> redis_error + redis_value) \<Rightarrow> bool \<Rightarrow> raw_result pyres \<times> redis_cmd list" where
  "async_flushall is_closed server asynchronous =
     async_call is_closed (Inr ()) server (\<lambda>_. ())
       (\<lambda>_. Dispatch (cmd_flushall asynchronous)) (raw_with (\<lambda>_. RNil))"

definition redis_info ::
  "bridge_env \<Rightarrow> codec option \<Rightarrow> bool \<Rightarrow> (redis_cmd \<Rightarrow> redis_error + redis_value) \<Rightarrow> bytes option \<Rightarrow> pyval pyres \<times> redis_cmd list" where
  "redis_info env decode is_closed server sect =
     sync_call env decode is_closed (Inr ()) server id
       (\<lambda>_. Dispatch (cmd_info sect)) (\<lambda>v. Inr (PBytes (text_of_value v)))"

definition async_info ::
  "bool \<Rightarrow> (redis_cmd \<Rightarrow> redis_error + redis_value) \<Rightarrow> bytes option \<Rightarrow> raw_result pyres \<times> redis_cmd list" where
  "async_info is_closed server sect =
     async_call is_closed (Inr ()) server id
       (\<lambda>_. Dispatch (cmd_info sect)) (raw_with (\<lambda>v. ROptBytes (Some (text_of_value v))))"

definition redis_config_get ::
  "bridge_env \<Rightarrow> codec option \<Rightarrow> bool \<Rightarrow> (redis_cmd \<Rightarrow> redis_error + redis_value) \<Rightarrow> bytes \<Rightarrow> pyval pyres \<times> redis_cmd list" where
  "redis_config_get env decode is_closed server parameter =
     sync_call env decode is_closed (Inr ()) server id
       (\<lambda>_. Dispatch (cmd_config_get parameter)) (\<lambda>v. py_bytes_pairs (parse_config_get_reply v))"

definition async_config_get ::
  "bool \<Rightarrow> (redis_cmd \<Rightarrow> redis_error + redis_value) \<Rightarrow> bytes \<Rightarrow> raw_result pyres \<times> redis_cmd list" where
  "async_config_get is_closed server parameter =
     async_call is_closed (Inr ()) server id
       (\<lambda>_. Dispatch (cmd_config_get parameter)) (raw_with (\<lambda>v. RBytesPairs (parse_config_get_reply v)))"

definition redis_config_set ::
  "bridge_env \<Rightarrow> codec option \<Rightarrow> bool \<Rightarrow> (redis_cmd \<Rightarrow> redis_error + redis_value) \<Rightarrow> pyval \<Rightarrow> bytes option \<Rightarrow> pyval pyres \<times> redis_cmd list" where
  "redis_config_set env decode is_closed server name_or_mapping val =
     sync_call env None is_closed (config_set_extract_pairs name_or_mapping val) server (\<lambda>_. ())
       (\<lambda>pairs. Dispatch (cmd_config_set pairs)) conv_unit"

definition async_config_set ::
  "bool \<Rightarrow> (redis_cmd \<Rightarrow> redis_error + redis_value) \<Rightarrow> pyval \<Rightarrow> bytes option \<Rightarrow> raw_result pyres \<times> redis_cmd list" where
  "async_config_set is_closed server name_or_mapping val =
     async_call is_closed (config_set_extract_pairs name_or_mapping val) server (\<lambda>_. ())
       (\<lambda>pairs. Dispatch (cmd_config_set pairs)) (raw_with (\<lambda>_. RNil))"

definition redis_config_resetstat ::
  "bridge_env \<Rightarrow> codec option \<Rightarrow> bool \<Rightarrow> (redis_cmd \<Rightarrow> redis_error + redis_value) \<Rightarrow> pyval pyres \<times> redis_cmd list" where
  "redis_config_resetstat env decode is_closed server =
     sync_call env None is_closed (Inr ()) server (\<lambda>_. ())
       (\<lambda>_. Dispatch (cmd_config_resetstat)) conv_unit"

definition async_config_resetstat ::
  "bool \<Rightarrow> (redis_cmd \<Rightarrow> redis_error + redis_value) \<Rightarrow> raw_result pyres \<times> redis_cmd list" where
  "async_config_resetstat is_closed server =
     async_call is_closed (Inr ()) server (\<lambda>_. ())
       (\<lambda>_. Dispatch (cmd_config_resetstat)) (raw_with (\<lambda>_. RNil))"

definition redis_config_rewrite ::
  "bridge_env \<Rightarrow> codec option \<Rightarrow> bool \<Rightarrow> (redis_cmd \<Rightarrow> redis_error + redis_value) \<Rightarrow> pyval pyres \<times> redis_cmd list" where
  "redis_config_rewrite env decode is_closed server =
     sync_call env None is_closed (Inr ()) server (\<lambda>_. ())
       (\<lambda>_. Dispatch (cmd_config_rewrite)) conv_unit"

definition async_config_rewrite ::
  "bool \<Rightarrow> (redis_cmd \<Rightarrow> redis_error + redis_value) \<Rightarrow> raw_result pyres \<times> redis_cmd list" where
  "async_config_rewrite is_closed server =
     async_call is_closed (Inr ()) server (\<lambda>_. ())
       (\<lambda>_. Dispatch (cmd_config_rewrite)) (raw_with (\<lambda>_. RNil))"

definition redis_client_id ::
  "bridge_env \<Rightarrow> codec option \<Rightarrow> bool \<Rightarrow> (redis_cmd \<Rightarrow> redis_error + i64) \<Rightarrow> pyval pyres \<times> redis_cmd list" where
  "redis_client_id env decode is_closed server =
     sync_call env None is_closed (Inr ()) server id
       (\<lambda>_. Dispatch (cmd_client_id)) py_int"

definition async_client_id ::
  "bool \<Rightarrow> (redis_cmd \<Rightarrow> redis_error + i64) \<Rightarrow> raw_result pyres \<times> redis_cmd list" where
  "async_client_id is_closed server =
     async_call is_closed (Inr ()) server id
       (\<lambda>_. Dispatch (cmd_client_id)) (raw_of TI64)"

definition redis_client_getname ::
  "bridge_env \<Rightarrow> codec option \<Rightarrow> bool \<Rightarrow> (redis_cmd \<Rightarrow> redis_error + bytes option) \<Rightarrow> pyval pyres \<times> redis_cmd list" where
  "redis_client_getname env decode is_closed server =
     sync_call env decode is_closed (Inr ()) server id
       (\<lambda>_. Dispatch (cmd_client_getname)) conv_opt_bytes"

definition async_client_getname ::
  "bool \<Rightarrow> (redis_cmd \<Rightarrow> redis_error + bytes option) \<Rightarrow> raw_result pyres \<times> redis_cmd list" where
  "async_client_getname is_closed server =
     async_call is_closed (Inr ()) server id
       (\<lambda>_. Dispatch (cmd_client_getname)) (raw_of TOptBytes)"

definition redis_client_setname ::
  "bridge_env \<Rightarrow> codec option \<Rightarrow> bool \<Rightarrow> (redis_cmd \<Rightarrow> redis_error + redis_value) \<Rightarrow> bytes \<Rightarrow> pyval pyres \<times> redis_cmd list" where
  "redis_client_setname env decode is_closed server name =
     sync_call env None is_closed (Inr ()) server (\<lambda>_. ())
       (\<lambda>_. Dispatch (cmd_client_setname name)) conv_unit"

definition async_client_setname ::
  "bool \<Rightarrow> (redis_cmd \<Rightarrow> redis_error + redis_value) \<Rightarrow> bytes \<Rightarrow> raw_result pyres \<times> redis_cmd list" where
  "async_client_setname is_closed server name =
     async_call is_closed (Inr ()) server (\<lambda>_. ())
       (\<lambda>_. Dispatch (cmd_client_setname name)) (raw_with (\<lambda>_. RNil))"

definition redis_client_info ::
  "bridge_env \<Rightarrow> codec option \<Rightarrow> bool \<Rightarrow> (redis_cmd \<Rightarrow> redis_error + redis_value) \<Rightarrow> pyval pyres \<times> redis_cmd list" where
  "redis_client_info env decode is_closed server =
     sync_call env decode is_closed (Inr ()) server id
       (\<lambda>_. Dispatch (cmd_client_info)) (\<lambda>v. Inr (PBytes (text_of_value v)))"

definition async_client_info ::
  "bool \<Rightarrow> (redis_cmd \<Rightarrow> redis_error + redis_value) \<Rightarrow> raw_result pyres \<times> redis_cmd list" where
  "async_client_info is_closed server =
     async_call is_closed (Inr ()) server id
       (\<lambda>_. Dispatch (cmd_client_info)) (raw_with (\<lambda>v. ROptBytes (Some (text_of_value v))))"

definition redis_client_list ::
  "bridge_env \<Rightarrow> codec option \<Rightarrow> bool \<Rightarrow> (redis_cmd \<Rightarrow> redis_error + redis_value) \<Rightarrow> bytes option \<Rightarrow> i64 list option \<Rightarrow> pyval pyres \<times> redis_cmd list" where
  "redis_client_list env decode is_closed server client_type client_id =
     sync_call env decode is_closed (Inr ()) server id
       (\<lambda>_. Dispatch (cmd_client_list client_type (case client_id of Some ids \<Rightarrow> ids | None \<Rightarrow> []))) (\<lambda>v. pairs_list_to_py (parse_client_list_reply (text_of_value v)))"

definition async_client_list ::
  "bool \<Rightarrow> (redis_cmd \<Rightarrow> redis_error + redis_value) \<Rightarrow> bytes option \<Rightarrow> i64 list option \<Rightarrow> raw_result pyres \<times> redis_cmd list" where
  "async_client_list is_closed server client_type client_id =
     async_call is_closed (Inr ()) server id
       (\<lambda>_. Dispatch (cmd_client_list client_type (case client_id of Some ids \<Rightarrow> ids | None \<Rightarrow> []))) (raw_with (\<lambda>v. RBytesPairsList (parse_client_list_reply (text_of_value v))))"

definition redis_client_kill ::
  "bridge_env \<Rightarrow> codec option \<Rightarrow> bool \<Rightarrow> (redis_cmd \<Rightarrow> redis_error + i64) \<Rightarrow> kill_options \<Rightarrow> pyval pyres \<times> redis_cmd list" where
  "redis_client_kill env decode is_closed server k =
     sync_call env None is_closed (Inr ()) server id
       (\<lambda>_. Dispatch (cmd_client_kill k)) py_int"

definition async_client_kill ::
  "bool \<Rightarrow> (redis_cmd \<Rightarrow> redis_error + i64) \<Rightarrow> kill_options \<Rightarrow> raw_result pyres \<times> redis_cmd list" where
  "async_client_kill is_closed server k =
     async_call is_closed (Inr ()) server id
       (\<lambda>_. Dispatch (cmd_client_kill k)) (raw_of TI64)"

definition redis_client_pause ::
  "bridge_env \<Rightarrow> codec option \<Rightarrow> bool \<Rightarrow> (redis_cmd \<Rightarrow> redis_error + redis_value) \<Rightarrow> i64 \<Rightarrow> bool \<Rightarrow> pyval pyres \<times> redis_cmd list" where
  "redis_client_pause env decode is_closed server timeout_ms every =
     sync_call env None is_closed (Inr ()) server (\<lambda>_. ())
       (\<lambda>_. Dispatch (cmd_client_pause timeout_ms every)) conv_unit"

definition async_client_pause ::
  "bool \<Rightarrow> (redis_cmd \<Rightarrow> redis_error + redis_value) \<Rightarrow> i64 \<Rightarrow> bool \<Rightarrow> raw_result pyres \<times> redis_cmd list" where
  "async_client_pause is_closed server timeout_ms every =
     async_call is_closed (Inr ()) server (\<lambda>_. ())
       (\<lambda>_. Dispatch (cmd_client_pause timeout_ms every)) (raw_with (\<lambda>_. RNil))"

definition redis_client_unpause ::
  "bridge_env \<Rightarrow> codec option \<Rightarrow> bool \<Rightarrow> (redis_cmd \<Rightarrow> redis_error + redis_value) \<Rightarrow> pyval pyres \<times> redis_cmd list" where
  "redis_client_unpause env decode is_closed server =
     sync_call env None is_closed (Inr ()) server (\<lambda>_. ())
       (\<lambda>_. Dispatch (cmd_client_unpause)) conv_unit"

definition async_client_unpause ::
  "bool \<Rightarrow> (redis_cmd \<Rightarrow> redis_error + redis_value) \<Rightarrow> raw_result pyres \<times> redis_cmd list" where
  "async_client_unpause is_closed server =
     async_call is_closed (Inr ()) server (\<lambda>_. ())
       (\<lambda>_. Dispatch (cmd_client_unpause)) (raw_with (\<lambda>_. RNil))"

definition redis_client_no_evict ::
  "bridge_env \<Rightarrow> codec option \<Rightarrow> bool \<Rightarrow> (redis_cmd \<Rightarrow> redis_error + redis_value) \<Rightarrow> bytes \<Rightarrow> pyval pyres \<times> redis_cmd list" where
  "redis_client_no_evict env decode is_closed server mode =
     sync_call env None is_closed (validate_on_off_mode mode) server (\<lambda>_. ())
       (\<lambda>_. Dispatch (cmd_client_no_evict (to_ascii_uppercase mode))) conv_unit"

definition async_client_no_evict ::
  "bool \<Rightarrow> (redis_cmd \<Rightarrow> redis_error + redis_value) \<Rightarrow> bytes \<Rightarrow> raw_result pyres \<times> redis_cmd list" where
  "async_client_no_evict is_closed server mode =
     async_call is_closed (validate_on_off_mode mode) server (\<lambda>_. ())
       (\<lambda>_. Dispatch (cmd_client_no_evict (to_ascii_uppercase mode))) (raw_with (\<lambda>_. RNil))"

definition redis_client_no_touch ::
  "bridge_env \<Rightarrow> codec option \<Rightarrow> bool \<Rightarrow> (redis_cmd \<Rightarrow> redis_error + redis_value) \<Rightarrow> bytes \<Rightarrow> pyval pyres \<times> redis_cmd list" where
  "redis_client_no_touch env decode is_closed server mode =
     sync_call env None is_closed (validate_on_off_mode mode) server (\<lambda>_. ())
       (\<lambda>_. Dispatch (cmd_client_no_touch (to_ascii_uppercase mode))) conv_unit"

definition async_client_no_touch ::
  "bool \<Rightarrow> (redis_cmd \<Rightarrow> redis_error + redis_value) \<Rightarrow> bytes \<Rightarrow> raw_result pyres \<times> redis_cmd list" where
  "async_client_no_touch is_closed server mode =
     async_call is_closed (validate_on_off_mode mode) server (\<lambda>_. ())
       (\<lambda>_. Dispatch (cmd_client_no_touch (to_ascii_uppercase mode))) (raw_with (\<lambda>_. RNil))"

definition redis_object_encoding ::
  "bridge_env \<Rightarrow> codec option \<Rightarrow> bool \<Rightarrow> (redis_cmd \<Rightarrow> redis_error + bytes option) \<Rightarrow> bytes \<Rightarrow> pyval pyres \<times> redis_cmd list" where
  "redis_object_encoding env decode is_closed server key =
     sync_call env decode is_closed (Inr ()) server id
       (\<lambda>_. Dispatch (cmd_object_subcmd ''ENCODING'' key)) conv_opt_bytes"

definition async_object_encoding ::
  "bool \<Rightarrow> (redis_cmd \<Rightarrow> redis_error + bytes option) \<Rightarrow> bytes \<Rightarrow> raw_result pyres \<times> redis_cmd list" where
  "async_object_encoding is_closed server key =
     async_call is_closed (Inr ()) server id
       (\<lambda>_. Dispatch (cmd_object_subcmd ''ENCODING'' key)) (raw_of TOptBytes)"

definition redis_object_idletime ::
  "bridge_env \<Rightarrow> codec option \<Rightarrow> bool \<Rightarrow> (redis_cmd \<Rightarrow> redis_error + i64 option) \<Rightarrow> bytes \<Rightarrow> pyval pyres \<times> redis_cmd list" where
  "redis_object_idletime env decode is_closed server key =
     sync_call env None is_closed (Inr ()) server id
       (\<lambda>_. Dispatch (cmd_object_subcmd ''IDLETIME'' key)) conv_opt_int"

definition async_object_idletime ::
  "bool \<Rightarrow> (redis_cmd \<Rightarrow> redis_error + i64 option) \<Rightarrow> bytes \<Rightarrow> raw_result pyres \<times> redis_cmd list" where
  "async_object_idletime is_closed server key =
     async_call is_closed (Inr ()) server id
       (\<lambda>_. Dispatch (cmd_object_subcmd ''IDLETIME'' key)) (raw_of TOptI64)"

definition redis_object_freq ::
  "bridge_env \<Rightarrow> codec option \<Rightarrow> bool \<Rightarrow> (redis_cmd \<Rightarrow> redis_error + i64 option) \<Rightarrow> bytes \<Rightarrow> pyval pyres \<times> redis_cmd list" where
  "redis_object_freq env decode is_closed server key =
     sync_call env None is_closed (Inr ()) server id
       (\<lambda>_. Dispatch (cmd_object_subcmd ''FREQ'' key)) conv_opt_int"

definition async_object_freq ::
  "bool \<Rightarrow> (redis_cmd \<Rightarrow> redis_error + i64 option) \<Rightarrow> bytes \<Rightarrow> raw_result pyres \<times> redis_cmd list" where
  "async_object_freq is_closed server key =
     async_call is_closed (Inr ()) server id
       (\<lambda>_. Dispatch (cmd_object_subcmd ''FREQ'' key)) (raw_of TOptI64)"

definition redis_object_refcount ::
  "bridge_env \<Rightarrow> codec option \<Rightarrow> bool \<Rightarrow> (redis_cmd \<Rightarrow> redis_error + i64 option) \<Rightarrow> bytes \<Rightarrow> pyval pyres \<times> redis_cmd list" where
  "redis_object_refcount env decode is_closed server key =
     sync_call env None is_closed (Inr ()) server id
       (\<lambda>_. Dispatch (cmd_object_subcmd ''REFCOUNT'' key)) conv_opt_int"

definition async_object_refcount ::
  "bool \<Rightarrow> (redis_cmd \<Rightarrow> redis_error + i64 option) \<Rightarrow> bytes \<Rightarrow> raw_result pyres \<times> redis_cmd list" where
  "async_object_refcount is_closed server key =
     async_call is_closed (Inr ()) server id
       (\<lambda>_. Dispatch (cmd_object_subcmd ''REFCOUNT'' key)) (raw_of TOptI64)"

definition redis_object_help ::
  "bridge_env \<Rightarrow> codec option \<Rightarrow> bool \<Rightarrow> (redis_cmd \<Rightarrow> redis_error + redis_value) \<Rightarrow> pyval pyres \<times> redis_cmd list" where
  "redis_object_help env decode is_closed server =
     sync_call env decode is_closed (Inr ()) server id
       (\<lambda>_. Dispatch (cmd_object_help)) (\<lambda>v. py_bytes_list (parse_help_reply v))"

definition async_object_help ::
  "bool \<Rightarrow> (redis_cmd \<Rightarrow> redis_error + redis_value) \<Rightarrow> raw_result pyres \<times> redis_cmd list" where
  "async_object_help is_closed server =
     async_call is_closed (Inr ()) server id
       (\<lambda>_. Dispatch (cmd_object_help)) (raw_with (\<lambda>v. RBytesList (parse_help_reply v)))"

definition redis_memory_usage ::
  "bridge_env \<Rightarrow> codec option \<Rightarrow> bool \<Rightarrow> (redis_cmd \<Rightarrow> redis_error + i64 option) \<Rightarrow> bytes \<Rightarrow> i64 option \<Rightarrow> pyval pyres \<times> redis_cmd list" where
  "redis_memory_usage env decode is_closed server key samples =
     sync_call env None is_closed (Inr ()) server id
       (\<lambda>_. Dispatch (cmd_memory_usage key samples)) conv_opt_int"

definition async_memory_usage ::
  "bool \<Rightarrow> (redis_cmd \<Rightarrow> redis_error + i64 option) \<Rightarrow> bytes \<Rightarrow> i64 option \<Rightarrow> raw_result pyres \<times> redis_cmd list" where
  "async_memory_usage is_closed server key samples =
     async_call is_closed (Inr ()) server id
       (\<lambda>_. Dispatch (cmd_memory_usage key samples)) (raw_of TOptI64)"

definition redis_echo ::
  "bridge_env \<Rightarrow> codec option \<Rightarrow> bool \<Rightarrow> (redis_cmd \<Rightarrow> redis_error + bytes) \<Rightarrow> pyval \<Rightarrow> pyval pyres \<times> redis_cmd list" where
  "redis_echo env decode is_closed server message =
     sync_call env decode is_closed (echo_bytes message) server id
       (\<lambda>b. Dispatch (cmd_echo b)) conv_bytes"

definition async_echo ::
  "bool \<Rightarrow> (redis_cmd \<Rightarrow> redis_error + bytes) \<Rightarrow> pyval \<Rightarrow> raw_result pyres \<times> redis_cmd list" where
  "async_echo is_closed server message =
     async_call is_closed (echo_bytes message) server id
       (\<lambda>b. Dispatch (cmd_echo b)) (raw_of TBytes)"

definition redis_wait ::
  "bridge_env \<Rightarrow> codec option \<Rightarrow> bool \<Rightarrow> (redis_cmd \<Rightarrow> redis_error + i64) \<Rightarrow> i64 \<Rightarrow> i64 \<Rightarrow> pyval pyres \<times> redis_cmd list" where
  "redis_wait env decode is_closed server numreplicas timeout =
     sync_call env None is_closed (Inr ()) server id
       (\<lambda>_. Dispatch (cmd_wait numreplicas timeout)) py_int"

definition async_wait ::
  "bool \<Rightarrow> (redis_cmd \<Rightarrow> redis_error + i64) \<Rightarrow> i64 \<Rightarrow> i64 \<Rightarrow> raw_result pyres \<times> redis_cmd list" where
  "async_wait is_closed server numreplicas timeout =
     async_call is_closed (Inr ()) server id
       (\<lambda>_. Dispatch (cmd_wait numreplicas timeout)) (raw_of TI64)"

definition async_wait_alias ::
  "bool \<Rightarrow> (redis_cmd \<Rightarrow> redis_error + i64) \<Rightarrow> i64 \<Rightarrow> i64 \<Rightarrow> raw_result pyres \<times> redis_cmd list" where
  "async_wait_alias is_closed server numreplicas timeout = async_wait is_closed server numreplicas timeout"

definition redis_waitaof ::
  "bridge_env \<Rightarrow> codec option \<Rightarrow> bool \<Rightarrow> (redis_cmd \<Rightarrow> redis_error + redis_value) \<Rightarrow> i64 \<Rightarrow> i64 \<Rightarrow> i64 \<Rightarrow> pyval pyres \<times> redis_cmd list" where
  "redis_waitaof env decode is_closed server numlocal numreplicas timeout =
     sync_call env None is_closed (Inr ()) server id
       (\<lambda>_. Dispatch (cmd_waitaof numlocal numreplicas timeout)) redis_value_to_py"

definition async_waitaof ::
  "bool \<Rightarrow> (redis_cmd \<Rightarrow> redis_error + redis_value) \<Rightarrow> i64 \<Rightarrow> i64 \<Rightarrow> i64 \<Rightarrow> raw_result pyres \<times> redis_cmd list" where
  "async_waitaof is_closed server numlocal numreplicas timeout =
     async_call is_closed (Inr ()) server id
       (\<lambda>_. Dispatch (cmd_waitaof numlocal numreplicas timeout)) (raw_of TValue)"

definition redis_time ::
  "bridge_env \<Rightarrow> codec option \<Rightarrow> bool \<Rightarrow> (redis_cmd \<Rightarrow> redis_error + redis_value) \<Rightarrow> pyval pyres \<times> redis_cmd list" where
  "redis_time env decode is_closed server =
     sync_call env None is_closed (Inr ()) server id
       (\<lambda>_. Dispatch (cmd_time)) time_to_py"

definition async_time ::
  "bool \<Rightarrow> (redis_cmd \<Rightarrow> redis_error + redis_value) \<Rightarrow> raw_result pyres \<times> redis_cmd list" where
  "async_time is_closed server =
     async_call is_closed (Inr ()) server id
       (\<lambda>_. Dispatch (cmd_time)) (raw_with (\<lambda>v. RIntPair (parse_time_reply v)))"

definition redis_lastsave ::
  "bridge_env \<Rightarrow> codec option \<Rightarrow> bool \<Rightarrow> (redis_cmd \<Rightarrow> redis_error + i64) \<Rightarrow> pyval pyres \<times> redis_cmd list" where
  "redis_lastsave env decode is_closed server =
     sync_call env None is_closed (Inr ()) server id
       (\<lambda>_. Dispatch (cmd_lastsave)) py_int"

definition async_lastsave ::
  "bool \<Rightarrow> (redis_cmd \<Rightarrow> redis_error + i64) \<Rightarrow> raw_result pyres \<times> redis_cmd list" where
  "async_lastsave is_closed server =
     async_call is_closed (Inr ()) server id
       (\<lambda>_. Dispatch (cmd_lastsave)) (raw_of TI64)"

definition redis_bgsave ::
  "bridge_env \<Rightarrow> codec option \<Rightarrow> bool \<Rightarrow> (redis_cmd \<Rightarrow> redis_error + bytes) \<Rightarrow> bool \<Rightarrow> pyval pyres \<times> redis_cmd list" where
  "redis_bgsave env decode is_closed server schedule =
     sync_call env decode is_closed (Inr ()) server id
       (\<lambda>_. Dispatch (cmd_bgsave schedule)) conv_bytes"

definition async_bgsave ::
  "bool \<Rightarrow> (redis_cmd \<Rightarrow> redis_error + bytes) \<Rightarrow> bool \<Rightarrow> raw_result pyres \<times> redis_cmd list" where
  "async_bgsave is_closed server schedule =
     async_call is_closed (Inr ()) server id
       (\<lambda>_. Dispatch (cmd_bgsave schedule)) (raw_with (\<lambda>_. RNil))"

definition redis_bgrewriteaof ::
  "bridge_env \<Rightarrow> codec option \<Rightarrow> bool \<Rightarrow> (redis_cmd \<Rightarrow> redis_error + bytes) \<Rightarrow> pyval pyres \<times> redis_cmd list" where
  "redis_bgrewriteaof env decode is_closed server =
     sync_call env decode is_closed (Inr ()) server id
       (\<lambda>_. Dispatch (cmd_bgrewriteaof)) conv_bytes"

definition async_bgrewriteaof ::
  "bool \<Rightarrow> (redis_cmd \<Rightarrow> redis_error + bytes) \<Rightarrow> raw_result pyres \<times> redis_cmd list" where
  "async_bgrewriteaof is_closed server =
     async_call is_closed (Inr ()) server id
       (\<lambda>_. Dispatch (cmd_bgrewriteaof)) (raw_with (\<lambda>_. RNil))"

definition redis_debug_sleep ::
  "bridge_env \<Rightarrow> codec option \<Rightarrow> bool \<Rightarrow> (redis_cmd \<Rightarrow> redis_error + redis_value) \<Rightarrow> (f64 \<Rightarrow> bytes) \<Rightarrow> f64 \<Rightarrow> pyval pyres \<times> redis_cmd list" where
  "redis_debug_sleep env decode is_closed server show_f64_6 seconds =
     sync_call env None is_closed (Inr ()) server (\<lambda>_. ())
       (\<lambda>_. Dispatch (cmd_debug_sleep show_f64_6 seconds)) conv_unit"

definition async_debug_sleep ::
  "bool \<Rightarrow> (redis_cmd \<Rightarrow> redis_error + redis_value) \<Rightarrow> (f64 \<Rightarrow> bytes) \<Rightarrow> f64 \<Rightarrow> raw_result pyres \<times> redis_cmd list" where
  "async_debug_sleep is_closed server show_f64_6 seconds =
     async_call is_closed (Inr ()) server (\<lambda>_. ())
       (\<lambda>_. Dispatch (cmd_debug_sleep show_f64_6 seconds)) (raw_with (\<lambda>_. RNil))"

section \<open>CLUSTER commands of the connection\<close>

definition cluster_info :: redis_cmd where "cluster_info = Cmd ''CLUSTER'' [AStr ''INFO'']"
definition cluster_nodes :: redis_cmd where "cluster_nodes = Cmd ''CLUSTER'' [AStr ''NODES'']"
definition cluster_slots :: redis_cmd where "cluster_slots = Cmd ''CLUSTER'' [AStr ''SLOTS'']"
definition cluster_shards :: redis_cmd where "cluster_shards = Cmd ''CLUSTER'' [AStr ''SHARDS'']"
definition cluster_myid :: redis_cmd where "cluster_myid = Cmd ''CLUSTER'' [AStr ''MYID'']"
definition cluster_myshardid :: redis_cmd where "cluster_myshardid = Cmd ''CLUSTER'' [AStr ''MYSHARDID'']"
definition cluster_keyslot :: "bytes \<Rightarrow> redis_cmd" where "cluster_keyslot key = Cmd ''CLUSTER'' [AStr ''KEYSLOT'', AStr key]"
definition cluster_countkeysinslot :: "u16 \<Rightarrow> redis_cmd" where "cluster_countkeysinslot slot = Cmd ''CLUSTER'' [AStr ''COUNTKEYSINSLOT'', AU16 slot]"
definition cluster_getkeysinslot :: "u16 \<Rightarrow> u32 \<Rightarrow> redis_cmd" where "cluster_getkeysinslot slot count = Cmd ''CLUSTER'' [AStr ''GETKEYSINSLOT'', AU16 slot, AU32 count]"
definition cluster_meet :: "bytes \<Rightarrow> u16 \<Rightarrow> redis_cmd" where "cluster_meet ip port = Cmd ''CLUSTER'' [AStr ''MEET'', AStr ip, AU16 port]"
definition cluster_forget :: "bytes \<Rightarrow> redis_cmd" where "cluster_forget node_id = Cmd ''CLUSTER'' [AStr ''FORGET'', AStr node_id]"
definition cluster_replicate :: "bytes \<Rightarrow> redis_cmd" where "cluster_replicate node_id = Cmd ''CLUSTER'' [AStr ''REPLICATE'', AStr node_id]"
definition cluster_reset :: "bool \<Rightarrow> redis_cmd" where "cluster_reset hard = Cmd ''CLUSTER'' [AStr ''RESET'', AStr (if hard then ''HARD'' else ''SOFT'')]"
definition cluster_count_failure_reports :: "bytes \<Rightarrow> redis_cmd" where "cluster_count_failure_reports node_id = Cmd ''CLUSTER'' [AStr ''COUNT-FAILURE-REPORTS'', AStr node_id]"
definition cluster_failover :: "bytes option \<Rightarrow> redis_cmd" where "cluster_failover opt = Cmd ''CLUSTER'' (AStr ''FAILOVER'' # opt_val AStr opt)"
definition cluster_replicas :: "bytes \<Rightarrow> redis_cmd" where "cluster_replicas node_id = Cmd ''CLUSTER'' [AStr ''REPLICAS'', AStr node_id]"
definition cluster_links :: redis_cmd where "cluster_links = Cmd ''CLUSTER'' [AStr ''LINKS'']"

section \<open>Both versions\<close>

interpretation text_reply:
  reply_pair "\<lambda>v. Inr (PBytes (text_of_value v))" "raw_with (\<lambda>v. ROptBytes (Some (text_of_value v)))"
  by unfold_locales (simp_all add: reply_defs)

interpretation config_reply:
  reply_pair "\<lambda>v. py_bytes_pairs (parse_config_get_reply v)" "raw_with (\<lambda>v. RBytesPairs (parse_config_get_reply v))"
  by unfold_locales (simp_all add: reply_defs comp_def split_def)

interpretation client_rows_reply:
  reply_pair "\<lambda>v. pairs_list_to_py (parse_client_list_reply (text_of_value v))"
    "raw_with (\<lambda>v. RBytesPairsList (parse_client_list_reply (text_of_value v)))"
  by unfold_locales (simp_all add: reply_defs pairs_list_to_py_def py_bytes_pairs_def [abs_def] comp_def split_def)

interpretation help_reply:
  reply_pair "\<lambda>v. py_bytes_list (parse_help_reply v)" "raw_with (\<lambda>v. RBytesList (parse_help_reply v))"
  by unfold_locales (simp_all add: reply_defs)

interpretation time_reply: scalar_reply time_to_py "raw_with (\<lambda>v. RIntPair (parse_time_reply v))"
  by unfold_locales (auto simp: reply_defs time_to_py_def split: option.splits)

lemmas admin_agreement = method_agreement text_reply.agree config_reply.agree client_rows_reply.agree
  help_reply.agree time_reply.agree_undecoded

lemmas admin_method_defs =
  redis_randomkey_def async_randomkey_def redis_dbsize_def async_dbsize_def redis_flushdb_def
  async_flushdb_def redis_flushall_def async_flushall_def redis_info_def async_info_def
  redis_config_get_def async_config_get_def redis_config_set_def async_config_set_def
  redis_config_resetstat_def async_config_resetstat_def redis_config_rewrite_def
  async_config_rewrite_def redis_client_id_def async_client_id_def redis_client_getname_def
  async_client_getname_def redis_client_setname_def async_client_setname_def redis_client_info_def
  async_client_info_def redis_client_list_def async_client_list_def redis_client_kill_def
  async_client_kill_def redis_client_pause_def async_client_pause_def redis_client_unpause_def
  async_client_unpause_def redis_client_no_evict_def async_client_no_evict_def redis_client_no_touch_def
  async_client_no_touch_def redis_object_encoding_def async_object_encoding_def
  redis_object_idletime_def async_object_idletime_def redis_object_freq_def async_object_freq_def
  redis_object_refcount_def async_object_refcount_def redis_object_help_def async_object_help_def
  redis_memory_usage_def async_memory_usage_def redis_echo_def async_echo_def redis_wait_def
  async_wait_def redis_time_def async_time_def redis_lastsave_def async_lastsave_def
  redis_debug_sleep_def async_debug_sleep_def

text \<open>The administration methods that agree on both clients.\<close>
lemma admin_methods_agree:
  "await_call env decode (async_randomkey z s) = redis_randomkey env decode z s \<and>
   await_call env decode (async_dbsize z s2) = redis_dbsize env decode z s2 \<and>
   await_call env decode (async_flushdb z s3 asynchronous) = redis_flushdb env decode z s3 asynchronous \<and>
   await_call env decode (async_flushall z s3 asynchronous) = redis_flushall env decode z s3 asynchronous \<and>
   await_call env decode (async_info z s3 sect) = redis_info env decode z s3 sect \<and>
   await_call env decode (async_config_get z s3 parameter) = redis_config_get env decode z s3 parameter \<and>
   await_call env decode (async_config_set z s3 name_or_mapping val) = redis_config_set env decode z s3 name_or_mapping val \<and>
   await_call env decode (async_config_resetstat z s3) = redis_config_resetstat env decode z s3 \<and>
   await_call env decode (async_config_rewrite z s3) = redis_config_rewrite env decode z s3 \<and>
   await_call env decode (async_client_id z s2) = redis_client_id env decode z s2 \<and>
   await_call env decode (async_client_getname z s) = redis_client_getname env decode z s \<and>
   await_call env decode (async_client_setname z s3 name) = redis_client_setname env decode z s3 name \<and>
   await_call env decode (async_client_info z s3) = redis_client_info env decode z s3 \<and>
   await_call env decode (async_client_list z s3 client_type client_id) = redis_client_list env decode z s3 client_type client_id \<and>
   await_call env decode (async_client_kill z s2 k) = redis_client_kill env decode z s2 k \<and>
   await_call env decode (async_client_pause z s3 timeout_ms every) = redis_client_pause env decode z s3 timeout_ms every \<and>
   await_call env decode (async_client_unpause z s3) = redis_client_unpause env decode z s3 \<and>
   await_call env decode (async_client_no_evict z s3 mode) = redis_client_no_evict env decode z s3 mode \<and>
   await_call env decode (async_client_no_touch z s3 mode) = redis_client_no_touch env decode z s3 mode \<and>
   await_call env decode (async_object_encoding z s key) = redis_object_encoding env decode z s key \<and>
   await_call env decode (async_object_idletime z s4 key) = redis_object_idletime env decode z s4 key \<and>
   await_call env decode (async_object_freq z s4 key) = redis_object_freq env decode z s4 key \<and>
   await_call env decode (async_object_refcount z s4 key) = redis_object_refcount env decode z s4 key \<and>
   await_call env decode (async_object_help z s3) = redis_object_help env decode z s3 \<and>
   await_call env decode (async_memory_usage z s4 key samples) = redis_memory_usage env decode z s4 key samples \<and>
   await_call env decode (async_echo z s5 message) = redis_echo env decode z s5 message \<and>
   await_call env decode (async_wait z s2 numreplicas timeout) = redis_wait env decode z s2 numreplicas timeout \<and>
   await_call env decode (async_time z s3) = redis_time env decode z s3 \<and>
   await_call env decode (async_lastsave z s2) = redis_lastsave env decode z s2 \<and>
   await_call env decode (async_debug_sleep z s3 show_f64_6 seconds) = redis_debug_sleep env decode z s3 show_f64_6 seconds"
  by (intro conjI; simp add: admin_method_defs admin_agreement)

text \<open>KEYS agrees as long as \<open>warnings\<close> can be imported; only the blocking one warns, and what comes
  of the warning is lost, also where the user has made warnings errors.\<close>

lemma keys_agree:
  "await_call env decode (async_keys z s pattern) = redis_keys env decode z s (Inr ()) warned pattern"
  by (simp add: async_keys_def redis_keys_def warn_keys_use_def admin_agreement)

lemma keys_warning_lost: "redis_keys env decode z s imported w pattern = redis_keys env decode z s imported w' pattern"
  by (simp add: redis_keys_def warn_keys_use_def)

text \<open>SCAN: the blocking client returns a tuple with the unsigned cursor, the awaitable one a list with
  the signed one.  A cursor from \<open>2 ^ 63\<close> on comes back negative, and no client takes a negative
  cursor.\<close>

lemma values_of_bulks: "redis_values_to_py (map VBulkString ks) = Inr (map PBytes ks)"
  by (induction ks) simp_all

lemma scan_differs:
  assumes "parse_scan_reply v = (cursor, ks)"
  shows "scan_to_py v = Inr (PTuple [PInt (uint cursor), PList (map PBytes ks)])"
    and "into_py env (scan_raw_result v) = Inr (PList [PInt (sint cursor), PList (map PBytes ks)])"
  using assms by (simp_all add: scan_to_py_def scan_raw_result_def values_of_bulks)

lemma large_cursor_negative:
  "parse_scan_reply (VArray [VBulkString (show_nat (2 ^ 63)), VArray []]) = (2 ^ 63, [])"
  "sint (2 ^ 63 :: u64) = - (2 ^ 63)"
proof -
  have "valid_utf8 (show_nat n)" for n
  proof (intro valid_utf8_ascii ballI)
    fix c assume "c \<in> set (show_nat n)"
    then have "digit_val c \<noteq> None" by (rule show_nat_digits)
    then show "octet c < 128" unfolding digit_val_Some_iff by (auto simp: octet_def)
  qed
  then show "parse_scan_reply (VArray [VBulkString (show_nat (2 ^ 63)), VArray []]) = (2 ^ 63, [])"
    by (simp add: parse_scan_reply_def List.map_filter_simps)
qed simp

text \<open>BGSAVE and BGREWRITEAOF return the server's text on the blocking client, \<open>None\<close> on the other.\<close>

lemma bgsave_differs:
  assumes "server (cmd_bgsave schedule) = Inr b"
  shows "fst (redis_bgsave env None False server schedule) = Inr (PBytes b)"
    and "fst (await_call env None (async_bgsave False server schedule)) = Inr PNone"
  using assms
  by (simp_all add: redis_bgsave_def async_bgsave_def await_call_def sync_call_def async_call_def
      run_request_def raw_with_def conv_bytes_def maybe_decode_def)

text \<open>WAITAOF: the blocking client does not decode.  On the two integers servers send it agrees.\<close>

lemma waitaof_agrees:
  assumes "server (cmd_waitaof numlocal numreplicas timeout) \<in> {Inr (VArray [VInt a, VInt b]), Inl e}"
  shows "await_call env decode (async_waitaof z server numlocal numreplicas timeout) =
    redis_waitaof env decode z server numlocal numreplicas timeout"
  using assms
  by (auto simp: redis_waitaof_def async_waitaof_def await_call_def sync_call_def async_call_def
      run_request_def reply_defs maybe_decode_def split: option.splits)

text \<open>\<open>select\<close> reads the database number as an octet: connected to database 300, it takes database 0
  for the connected one.\<close>

lemma select_wrong_database:
  "select ''redis://localhost:6379/300?protocol=resp3'' 0 = Inr (PBool True)"
  "\<exists>msg. select ''redis://localhost:6379/3?protocol=resp3'' 0 = Inl (PyErr PyNotImplementedError msg)"
proof -
  have "url_db_index ''redis://localhost:6379/300?protocol=resp3'' = 0"
    "url_db_index ''redis://localhost:6379/3?protocol=resp3'' = 3"
    by code_simp+
  then show "select ''redis://localhost:6379/300?protocol=resp3'' 0 = Inr (PBool True)"
    "\<exists>msg. select ''redis://localhost:6379/3?protocol=resp3'' 0 = Inl (PyErr PyNotImplementedError msg)"
    by (auto simp: select_def Let_def)
qed

section \<open>CLIENT LIST\<close>

text \<open>The text a server sends: a line per client, \<open>key=value\<close> pairs separated by blanks.\<close>

fun join_with :: "char \<Rightarrow> bytes list \<Rightarrow> bytes" where
  "join_with c [] = []"
| "join_with c [x] = x"
| "join_with c (x # xs) = x @ c # join_with c xs"

definition show_field :: "bytes \<times> bytes \<Rightarrow> bytes" where
  "show_field p = fst p @ CHR ''='' # snd p"

definition show_clients :: "fields list \<Rightarrow> bytes" where
  "show_clients rows = concat (map (\<lambda>row. join_with CHR '' '' (map show_field row) @ [CHR 0x0A]) rows)"

definition client_field :: "bytes \<times> bytes \<Rightarrow> bool" where
  "client_field p \<longleftrightarrow>
     set (fst p) \<inter> {CHR ''='', CHR '' '', CHR 0x0A} = {} \<and> set (snd p) \<inter> {CHR '' '', CHR 0x0A} = {}"

lemma split_on_append: "c \<notin> set x \<Longrightarrow> split_on c (x @ c # y) = x # split_on c y"
  by (induction x) auto

lemma split_on_join: "xs \<noteq> [] \<Longrightarrow> \<forall>x \<in> set xs. c \<notin> set x \<Longrightarrow> split_on c (join_with c xs) = xs"
  by (induction c xs rule: join_with.induct) (auto simp: split_on_append)

lemma set_join: "set (join_with c xs) \<subseteq> insert c (\<Union> (set ` set xs))"
  by (induction c xs rule: join_with.induct) auto

lemma client_row_shown:
  assumes "row \<noteq> []" "\<forall>p \<in> set row. client_field p"
  shows "client_row (join_with CHR '' '' (map show_field row)) = row"
proof -
  have "split_on CHR '' '' (join_with CHR '' '' (map show_field row)) = map show_field row"
    using assms by (intro split_on_join) (auto simp: client_field_def show_field_def)
  moreover have "List.map_filter (split_once CHR ''='') (map show_field row) = row"
    using assms(2) by (induction row) (auto simp: List.map_filter_simps client_field_def show_field_def)
  ultimately show ?thesis by (simp add: client_row_def)
qed

lemma lines_shown:
  assumes "\<forall>row \<in> set rows. \<forall>p \<in> set row. client_field p"
  shows "split_on (CHR 0x0A) (show_clients rows) =
    map (\<lambda>row. join_with CHR '' '' (map show_field row)) rows @ [[]]"
  using assms
proof (induction rows)
  case (Cons row rows)
  have "CHR 0x0A \<notin> set (join_with CHR '' '' (map show_field row))"
    using Cons.prems set_join [of "CHR '' ''" "map show_field row"]
    by (fastforce simp: client_field_def show_field_def)
  then show ?case using Cons by (simp add: show_clients_def split_on_append)
qed (simp add: show_clients_def)

text \<open>(C34) CLIENT LIST is read back as it was written: for every list of clients whose keys and values
  contain no blank and no newline, and whose keys contain no equals sign, the parsed reply has every
  client with its fields in order; values may be empty and may contain equals signs.\<close>
theorem client_list_roundtrip:
  assumes "\<forall>row \<in> set rows. row \<noteq> [] \<and> (\<forall>p \<in> set row. client_field p)"
  shows "parse_client_list_reply (show_clients rows) = rows"
proof -
  have "client_row [] = []" by (simp add: client_row_def List.map_filter_simps)
  then have "join_with CHR '' '' (map show_field row) \<noteq> []" if "row \<in> set rows" for row
    using that assms client_row_shown [of row] by fastforce
  then have "filter (\<lambda>line. line \<noteq> []) (map (\<lambda>row. join_with CHR '' '' (map show_field row)) rows) =
      map (\<lambda>row. join_with CHR '' '' (map show_field row)) rows"
    by (auto intro: filter_True)
  moreover have "map client_row (map (\<lambda>row. join_with CHR '' '' (map show_field row)) rows) = rows"
    using assms by (auto simp: client_row_shown intro: map_idI)
  moreover have "filter (\<lambda>row. row \<noteq> []) rows = rows" using assms by (auto intro: filter_True)
  ultimately show ?thesis using assms by (simp add: parse_client_list_reply_def lines_shown)
qed

theorem client_list_roundtrip_witness:
  "parse_client_list_reply (''id=3 name= lib=a=b'' @ [CHR 0x0A] @ ''id=4'' @ [CHR 0x0A]) =
   [[(''id'', ''3''), (''name'', ''''), (''lib'', ''a=b'')], [(''id'', ''4'')]]"
  using client_list_roundtrip [of "[[(''id'', ''3''), (''name'', ''''), (''lib'', ''a=b'')], [(''id'', ''4'')]]"]
  by (simp add: show_clients_def client_field_def show_field_def)

end
