(* ===== verification/PipelineCommands.thy ===== *)
theory PipelineCommands
  imports Pipeline Lists Hashes ZSets Admin
begin

text \<open>
  The buffering command methods of \<open>Pipeline\<close> and \<open>AsyncPipeline\<close> (\<open>facade/pipeline.rs\<close>):
  the name and the argument octets each puts into the buffer.  \<open>fmt\<close> is Rust's decimal
  rendering of a float (\<open>f64::to_string\<close>).
\<close>

definition i64_arg :: "i64 \<Rightarrow> bytes" where
  "i64_arg n = show_int (sint n)"

section \<open>Pipeline\<close>

definition pl_set :: "bytes \<Rightarrow> bytes \<Rightarrow> buffered_cmd" where
  "pl_set key val = (''SET'', [key, val])"

definition pl_get :: "bytes \<Rightarrow> buffered_cmd" where
  "pl_get key = (''GET'', [key])"

definition pl_getdel :: "bytes \<Rightarrow> buffered_cmd" where
  "pl_getdel key = (''GETDEL'', [key])"

definition pl_append :: "bytes \<Rightarrow> bytes \<Rightarrow> buffered_cmd" where
  "pl_append key val = (''APPEND'', [key, val])"

definition pl_strlen :: "bytes \<Rightarrow> buffered_cmd" where
  "pl_strlen key = (''STRLEN'', [key])"

definition pl_incr :: "bytes \<Rightarrow> buffered_cmd" where
  "pl_incr key = (''INCR'', [key])"

definition pl_incrby :: "bytes \<Rightarrow> i64 \<Rightarrow> buffered_cmd" where
  "pl_incrby key delta = (''INCRBY'', [key, i64_arg delta])"

definition pl_incrbyfloat :: "(f64 \<Rightarrow> bytes) \<Rightarrow> bytes \<Rightarrow> f64 \<Rightarrow> buffered_cmd" where
  "pl_incrbyfloat fmt key delta = (''INCRBYFLOAT'', [key, fmt delta])"

definition pl_decr :: "bytes \<Rightarrow> buffered_cmd" where
  "pl_decr key = (''DECR'', [key])"

definition pl_decrby :: "bytes \<Rightarrow> i64 \<Rightarrow> buffered_cmd" where
  "pl_decrby key delta = (''DECRBY'', [key, i64_arg delta])"

definition pl_setrange :: "bytes \<Rightarrow> i64 \<Rightarrow> bytes \<Rightarrow> buffered_cmd" where
  "pl_setrange key offset val = (''SETRANGE'', [key, i64_arg offset, val])"

definition pl_getrange :: "bytes \<Rightarrow> i64 \<Rightarrow> i64 \<Rightarrow> buffered_cmd" where
  "pl_getrange key start stop = (''GETRANGE'', [key, i64_arg start, i64_arg stop])"

definition pl_rename :: "bytes \<Rightarrow> bytes \<Rightarrow> buffered_cmd" where
  "pl_rename key new_key = (''RENAME'', [key, new_key])"

definition pl_renamenx :: "bytes \<Rightarrow> bytes \<Rightarrow> buffered_cmd" where
  "pl_renamenx key new_key = (''RENAMENX'', [key, new_key])"

definition pl_typ :: "bytes \<Rightarrow> buffered_cmd" where
  "pl_typ key = (''TYPE'', [key])"

definition pl_expire :: "bytes \<Rightarrow> i64 \<Rightarrow> buffered_cmd" where
  "pl_expire key seconds = (''EXPIRE'', [key, i64_arg seconds])"

definition pl_pexpire :: "bytes \<Rightarrow> i64 \<Rightarrow> buffered_cmd" where
  "pl_pexpire key millis = (''PEXPIRE'', [key, i64_arg millis])"

definition pl_ttl :: "bytes \<Rightarrow> buffered_cmd" where
  "pl_ttl key = (''TTL'', [key])"

definition pl_pttl :: "bytes \<Rightarrow> buffered_cmd" where
  "pl_pttl key = (''PTTL'', [key])"

definition pl_persist :: "bytes \<Rightarrow> buffered_cmd" where
  "pl_persist key = (''PERSIST'', [key])"

definition pl_delete :: "bytes list \<Rightarrow> buffered_cmd" where
  "pl_delete keys = (''DEL'', keys)"

definition pl_unlink :: "bytes list \<Rightarrow> buffered_cmd" where
  "pl_unlink keys = (''UNLINK'', keys)"

definition pl_exists :: "bytes list \<Rightarrow> buffered_cmd" where
  "pl_exists keys = (''EXISTS'', keys)"

definition pl_lpush :: "bytes \<Rightarrow> bytes list \<Rightarrow> buffered_cmd" where
  "pl_lpush key values = (''LPUSH'', [key] @ values)"

definition pl_rpush :: "bytes \<Rightarrow> bytes list \<Rightarrow> buffered_cmd" where
  "pl_rpush key values = (''RPUSH'', [key] @ values)"

definition pl_lpop :: "bytes \<Rightarrow> buffered_cmd" where
  "pl_lpop key = (''LPOP'', [key])"

definition pl_rpop :: "bytes \<Rightarrow> buffered_cmd" where
  "pl_rpop key = (''RPOP'', [key])"

definition pl_llen :: "bytes \<Rightarrow> buffered_cmd" where
  "pl_llen key = (''LLEN'', [key])"

definition pl_lrange :: "bytes \<Rightarrow> i64 \<Rightarrow> i64 \<Rightarrow> buffered_cmd" where
  "pl_lrange key start stop = (''LRANGE'', [key, i64_arg start, i64_arg stop])"

definition pl_lindex :: "bytes \<Rightarrow> i64 \<Rightarrow> buffered_cmd" where
  "pl_lindex key idx = (''LINDEX'', [key, i64_arg idx])"

definition pl_lrem :: "bytes \<Rightarrow> i64 \<Rightarrow> bytes \<Rightarrow> buffered_cmd" where
  "pl_lrem key cnt val = (''LREM'', [key, i64_arg cnt, val])"

definition pl_ltrim :: "bytes \<Rightarrow> i64 \<Rightarrow> i64 \<Rightarrow> buffered_cmd" where
  "pl_ltrim key start stop = (''LTRIM'', [key, i64_arg start, i64_arg stop])"

definition pl_lset :: "bytes \<Rightarrow> i64 \<Rightarrow> bytes \<Rightarrow> buffered_cmd" where
  "pl_lset key idx val = (''LSET'', [key, i64_arg idx, val])"

definition pl_hset :: "bytes \<Rightarrow> bytes \<Rightarrow> bytes \<Rightarrow> buffered_cmd" where
  "pl_hset key field val = (''HSET'', [key, field, val])"

definition pl_hget :: "bytes \<Rightarrow> bytes \<Rightarrow> buffered_cmd" where
  "pl_hget key field = (''HGET'', [key, field])"

definition pl_hdel :: "bytes \<Rightarrow> bytes list \<Rightarrow> buffered_cmd" where
  "pl_hdel key flds = (''HDEL'', [key] @ flds)"

definition pl_hgetall :: "bytes \<Rightarrow> buffered_cmd" where
  "pl_hgetall key = (''HGETALL'', [key])"

definition pl_hexists :: "bytes \<Rightarrow> bytes \<Rightarrow> buffered_cmd" where
  "pl_hexists key field = (''HEXISTS'', [key, field])"

definition pl_hlen :: "bytes \<Rightarrow> buffered_cmd" where
  "pl_hlen key = (''HLEN'', [key])"

definition pl_hincrby :: "bytes \<Rightarrow> bytes \<Rightarrow> i64 \<Rightarrow> buffered_cmd" where
  "pl_hincrby key field delta = (''HINCRBY'', [key, field, i64_arg delta])"

definition pl_hincrbyfloat :: "(f64 \<Rightarrow> bytes) \<Rightarrow> bytes \<Rightarrow> bytes \<Rightarrow> f64 \<Rightarrow> buffered_cmd" where
  "pl_hincrbyfloat fmt key field delta = (''HINCRBYFLOAT'', [key, field, fmt delta])"

definition pl_sadd :: "bytes \<Rightarrow> bytes list \<Rightarrow> buffered_cmd" where
  "pl_sadd key members = (''SADD'', [key] @ members)"

definition pl_srem :: "bytes \<Rightarrow> bytes list \<Rightarrow> buffered_cmd" where
  "pl_srem key members = (''SREM'', [key] @ members)"

definition pl_smembers :: "bytes \<Rightarrow> buffered_cmd" where
  "pl_smembers key = (''SMEMBERS'', [key])"

definition pl_sismember :: "bytes \<Rightarrow> bytes \<Rightarrow> buffered_cmd" where
  "pl_sismember key member = (''SISMEMBER'', [key, member])"

definition pl_scard :: "bytes \<Rightarrow> buffered_cmd" where
  "pl_scard key = (''SCARD'', [key])"

definition pl_zincrby :: "(f64 \<Rightarrow> bytes) \<Rightarrow> bytes \<Rightarrow> f64 \<Rightarrow> bytes \<Rightarrow> buffered_cmd" where
  "pl_zincrby fmt key delta member = (''ZINCRBY'', [key, fmt delta, member])"

definition pl_zcard :: "bytes \<Rightarrow> buffered_cmd" where
  "pl_zcard key = (''ZCARD'', [key])"

definition pl_zscore :: "bytes \<Rightarrow> bytes \<Rightarrow> buffered_cmd" where
  "pl_zscore key member = (''ZSCORE'', [key, member])"

definition pl_ping :: "buffered_cmd" where
  "pl_ping = (''PING'', [])"

definition pl_echo :: "bytes \<Rightarrow> buffered_cmd" where
  "pl_echo message = (''ECHO'', [message])"

section \<open>AsyncPipeline\<close>

definition apl_set :: "bytes \<Rightarrow> bytes \<Rightarrow> buffered_cmd" where
  "apl_set key val = (''SET'', [key, val])"

definition apl_get :: "bytes \<Rightarrow> buffered_cmd" where
  "apl_get key = (''GET'', [key])"

definition apl_getdel :: "bytes \<Rightarrow> buffered_cmd" where
  "apl_getdel key = (''GETDEL'', [key])"

definition apl_append :: "bytes \<Rightarrow> bytes \<Rightarrow> buffered_cmd" where
  "apl_append key val = (''APPEND'', [key, val])"

definition apl_strlen :: "bytes \<Rightarrow> buffered_cmd" where
  "apl_strlen key = (''STRLEN'', [key])"

definition apl_incr :: "bytes \<Rightarrow> buffered_cmd" where
  "apl_incr key = (''INCR'', [key])"

definition apl_incrby :: "bytes \<Rightarrow> i64 \<Rightarrow> buffered_cmd" where
  "apl_incrby key delta = (''INCRBY'', [key, i64_arg delta])"

definition apl_incrbyfloat :: "(f64 \<Rightarrow> bytes) \<Rightarrow> bytes \<Rightarrow> f64 \<Rightarrow> buffered_cmd" where
  "apl_incrbyfloat fmt key delta = (''INCRBYFLOAT'', [key, fmt delta])"

definition apl_decr :: "bytes \<Rightarrow> buffered_cmd" where
  "apl_decr key = (''DECR'', [key])"

definition apl_decrby :: "bytes \<Rightarrow> i64 \<Rightarrow> buffered_cmd" where
  "apl_decrby key delta = (''DECRBY'', [key, i64_arg delta])"

definition apl_setrange :: "bytes \<Rightarrow> i64 \<Rightarrow> bytes \<Rightarrow> buffered_cmd" where
  "apl_setrange key offset val = (''SETRANGE'', [key, i64_arg offset, val])"

definition apl_getrange :: "bytes \<Rightarrow> i64 \<Rightarrow> i64 \<Rightarrow> buffered_cmd" where
  "apl_getrange key start stop = (''GETRANGE'', [key, i64_arg start, i64_arg stop])"

definition apl_rename :: "bytes \<Rightarrow> bytes \<Rightarrow> buffered_cmd" where
  "apl_rename key new_key = (''RENAME'', [key, new_key])"

definition apl_renamenx :: "bytes \<Rightarrow> bytes \<Rightarrow> buffered_cmd" where
  "apl_renamenx key new_key = (''RENAMENX'', [key, new_key])"

definition apl_typ :: "bytes \<Rightarrow> buffered_cmd" where
  "apl_typ key = (''TYPE'', [key])"

definition apl_expire :: "bytes \<Rightarrow> i64 \<Rightarrow> buffered_cmd" where
  "apl_expire key seconds = (''EXPIRE'', [key, i64_arg seconds])"

definition apl_pexpire :: "bytes \<Rightarrow> i64 \<Rightarrow> buffered_cmd" where
  "apl_pexpire key millis = (''PEXPIRE'', [key, i64_arg millis])"

definition apl_ttl :: "bytes \<Rightarrow> buffered_cmd" where
  "apl_ttl key = (''TTL'', [key])"

definition apl_pttl :: "bytes \<Rightarrow> buffered_cmd" where
  "apl_pttl key = (''PTTL'', [key])"

definition apl_persist :: "bytes \<Rightarrow> buffered_cmd" where
  "apl_persist key = (''PERSIST'', [key])"

definition apl_delete :: "bytes list \<Rightarrow> buffered_cmd" where
  "apl_delete keys = (''DEL'', keys)"

definition apl_unlink :: "bytes list \<Rightarrow> buffered_cmd" where
  "apl_unlink keys = (''UNLINK'', keys)"

definition apl_exists :: "bytes list \<Rightarrow> buffered_cmd" where
  "apl_exists keys = (''EXISTS'', keys)"

definition apl_lpush :: "bytes \<Rightarrow> bytes list \<Rightarrow> buffered_cmd" where
  "apl_lpush key values = (''LPUSH'', [key] @ values)"

definition apl_rpush :: "bytes \<Rightarrow> bytes list \<Rightarrow> buffered_cmd" where
  "apl_rpush key values = (''RPUSH'', [key] @ values)"

definition apl_lpop :: "bytes \<Rightarrow> buffered_cmd" where
  "apl_lpop key = (''LPOP'', [key])"

definition apl_rpop :: "bytes \<Rightarrow> buffered_cmd" where
  "apl_rpop key = (''RPOP'', [key])"

definition apl_llen :: "bytes \<Rightarrow> buffered_cmd" where
  "apl_llen key = (''LLEN'', [key])"

definition apl_lrange :: "bytes \<Rightarrow> i64 \<Rightarrow> i64 \<Rightarrow> buffered_cmd" where
  "apl_lrange key start stop = (''LRANGE'', [key, i64_arg start, i64_arg stop])"

definition apl_lindex :: "bytes \<Rightarrow> i64 \<Rightarrow> buffered_cmd" where
  "apl_lindex key idx = (''LINDEX'', [key, i64_arg idx])"

definition apl_lrem :: "bytes \<Rightarrow> i64 \<Rightarrow> bytes \<Rightarrow> buffered_cmd" where
  "apl_lrem key cnt val = (''LREM'', [key, i64_arg cnt, val])"

definition apl_ltrim :: "bytes \<Rightarrow> i64 \<Rightarrow> i64 \<Rightarrow> buffered_cmd" where
  "apl_ltrim key start stop = (''LTRIM'', [key, i64_arg start, i64_arg stop])"

definition apl_lset :: "bytes \<Rightarrow> i64 \<Rightarrow> bytes \<Rightarrow> buffered_cmd" where
  "apl_lset key idx val = (''LSET'', [key, i64_arg idx, val])"

definition apl_hset :: "bytes \<Rightarrow> bytes \<Rightarrow> bytes \<Rightarrow> buffered_cmd" where
  "apl_hset key field val = (''HSET'', [key, field, val])"

definition apl_hget :: "bytes \<Rightarrow> bytes \<Rightarrow> buffered_cmd" where
  "apl_hget key field = (''HGET'', [key, field])"

definition apl_hdel :: "bytes \<Rightarrow> bytes list \<Rightarrow> buffered_cmd" where
  "apl_hdel key flds = (''HDEL'', [key] @ flds)"

definition apl_hgetall :: "bytes \<Rightarrow> buffered_cmd" where
  "apl_hgetall key = (''HGETALL'', [key])"

definition apl_hexists :: "bytes \<Rightarrow> bytes \<Rightarrow> buffered_cmd" where
  "apl_hexists key field = (''HEXISTS'', [key, field])"

definition apl_hlen :: "bytes \<Rightarrow> buffered_cmd" where
  "apl_hlen key = (''HLEN'', [key])"

definition apl_hincrby :: "bytes \<Rightarrow> bytes \<Rightarrow> i64 \<Rightarrow> buffered_cmd" where
  "apl_hincrby key field delta = (''HINCRBY'', [key, field, i64_arg delta])"

definition apl_hincrbyfloat :: "(f64 \<Rightarrow> bytes) \<Rightarrow> bytes \<Rightarrow> bytes \<Rightarrow> f64 \<Rightarrow> buffered_cmd" where
  "apl_hincrbyfloat fmt key field delta = (''HINCRBYFLOAT'', [key, field, fmt delta])"

definition apl_sadd :: "bytes \<Rightarrow> bytes list \<Rightarrow> buffered_cmd" where
  "apl_sadd key members = (''SADD'', [key] @ members)"

definition apl_srem :: "bytes \<Rightarrow> bytes list \<Rightarrow> buffered_cmd" where
  "apl_srem key members = (''SREM'', [key] @ members)"

definition apl_smembers :: "bytes \<Rightarrow> buffered_cmd" where
  "apl_smembers key = (''SMEMBERS'', [key])"

definition apl_sismember :: "bytes \<Rightarrow> bytes \<Rightarrow> buffered_cmd" where
  "apl_sismember key member = (''SISMEMBER'', [key, member])"

definition apl_scard :: "bytes \<Rightarrow> buffered_cmd" where
  "apl_scard key = (''SCARD'', [key])"

definition apl_zincrby :: "(f64 \<Rightarrow> bytes) \<Rightarrow> bytes \<Rightarrow> f64 \<Rightarrow> bytes \<Rightarrow> buffered_cmd" where
  "apl_zincrby fmt key delta member = (''ZINCRBY'', [key, fmt delta, member])"

definition apl_zcard :: "bytes \<Rightarrow> buffered_cmd" where
  "apl_zcard key = (''ZCARD'', [key])"

definition apl_zscore :: "bytes \<Rightarrow> bytes \<Rightarrow> buffered_cmd" where
  "apl_zscore key member = (''ZSCORE'', [key, member])"

definition apl_ping :: "buffered_cmd" where
  "apl_ping = (''PING'', [])"

definition apl_echo :: "bytes \<Rightarrow> buffered_cmd" where
  "apl_echo message = (''ECHO'', [message])"

section \<open>Agreement\<close>

text \<open>The two pipeline classes buffer the same command for every method.\<close>
theorem async_commands_same:
  "apl_set = pl_set \<and>
   apl_get = pl_get \<and>
   apl_getdel = pl_getdel \<and>
   apl_append = pl_append \<and>
   apl_strlen = pl_strlen \<and>
   apl_incr = pl_incr \<and>
   apl_incrby = pl_incrby \<and>
   apl_incrbyfloat = pl_incrbyfloat \<and>
   apl_decr = pl_decr \<and>
   apl_decrby = pl_decrby \<and>
   apl_setrange = pl_setrange \<and>
   apl_getrange = pl_getrange \<and>
   apl_rename = pl_rename \<and>
   apl_renamenx = pl_renamenx \<and>
   apl_typ = pl_typ \<and>
   apl_expire = pl_expire \<and>
   apl_pexpire = pl_pexpire \<and>
   apl_ttl = pl_ttl \<and>
   apl_pttl = pl_pttl \<and>
   apl_persist = pl_persist \<and>
   apl_delete = pl_delete \<and>
   apl_unlink = pl_unlink \<and>
   apl_exists = pl_exists \<and>
   apl_lpush = pl_lpush \<and>
   apl_rpush = pl_rpush \<and>
   apl_lpop = pl_lpop \<and>
   apl_rpop = pl_rpop \<and>
   apl_llen = pl_llen \<and>
   apl_lrange = pl_lrange \<and>
   apl_lindex = pl_lindex \<and>
   apl_lrem = pl_lrem \<and>
   apl_ltrim = pl_ltrim \<and>
   apl_lset = pl_lset \<and>
   apl_hset = pl_hset \<and>
   apl_hget = pl_hget \<and>
   apl_hdel = pl_hdel \<and>
   apl_hgetall = pl_hgetall \<and>
   apl_hexists = pl_hexists \<and>
   apl_hlen = pl_hlen \<and>
   apl_hincrby = pl_hincrby \<and>
   apl_hincrbyfloat = pl_hincrbyfloat \<and>
   apl_sadd = pl_sadd \<and>
   apl_srem = pl_srem \<and>
   apl_smembers = pl_smembers \<and>
   apl_sismember = pl_sismember \<and>
   apl_scard = pl_scard \<and>
   apl_zincrby = pl_zincrby \<and>
   apl_zcard = pl_zcard \<and>
   apl_zscore = pl_zscore \<and>
   apl_ping = pl_ping \<and>
   apl_echo = pl_echo"
  by (simp_all add: fun_eq_iff
      apl_set_def pl_set_def
      apl_get_def pl_get_def
      apl_getdel_def pl_getdel_def
      apl_append_def pl_append_def
      apl_strlen_def pl_strlen_def
      apl_incr_def pl_incr_def
      apl_incrby_def pl_incrby_def
      apl_incrbyfloat_def pl_incrbyfloat_def
      apl_decr_def pl_decr_def
      apl_decrby_def pl_decrby_def
      apl_setrange_def pl_setrange_def
      apl_getrange_def pl_getrange_def
      apl_rename_def pl_rename_def
      apl_renamenx_def pl_renamenx_def
      apl_typ_def pl_typ_def
      apl_expire_def pl_expire_def
      apl_pexpire_def pl_pexpire_def
      apl_ttl_def pl_ttl_def
      apl_pttl_def pl_pttl_def
      apl_persist_def pl_persist_def
      apl_delete_def pl_delete_def
      apl_unlink_def pl_unlink_def
      apl_exists_def pl_exists_def
      apl_lpush_def pl_lpush_def
      apl_rpush_def pl_rpush_def
      apl_lpop_def pl_lpop_def
      apl_rpop_def pl_rpop_def
      apl_llen_def pl_llen_def
      apl_lrange_def pl_lrange_def
      apl_lindex_def pl_lindex_def
      apl_lrem_def pl_lrem_def
      apl_ltrim_def pl_ltrim_def
      apl_lset_def pl_lset_def
      apl_hset_def pl_hset_def
      apl_hget_def pl_hget_def
      apl_hdel_def pl_hdel_def
      apl_hgetall_def pl_hgetall_def
      apl_hexists_def pl_hexists_def
      apl_hlen_def pl_hlen_def
      apl_hincrby_def pl_hincrby_def
      apl_hincrbyfloat_def pl_hincrbyfloat_def
      apl_sadd_def pl_sadd_def
      apl_srem_def pl_srem_def
      apl_smembers_def pl_smembers_def
      apl_sismember_def pl_sismember_def
      apl_scard_def pl_scard_def
      apl_zincrby_def pl_zincrby_def
      apl_zcard_def pl_zcard_def
      apl_zscore_def pl_zscore_def
      apl_ping_def pl_ping_def
      apl_echo_def pl_echo_def)


definition render :: "(redis_arg \<Rightarrow> bytes) \<Rightarrow> redis_cmd \<Rightarrow> buffered_cmd" where
  "render enc c = (cmd_name c, map enc (cmd_args c))"

text \<open>What a direct method sent, in the form in which a pipeline buffers it.\<close>

definition sent_as :: "(redis_arg \<Rightarrow> bytes) \<Rightarrow> pyval pyres \<times> redis_cmd list \<Rightarrow> buffered_cmd list" where
  "sent_as enc call = map (render enc) (snd call)"



lemma sent_by_call [simp]:
  "sent_as enc (sync_call env d False (Inr u) server post (\<lambda>x. Dispatch (req x)) conv) = [render enc (req u)]"
  by (simp add: sent_as_def sync_call_def run_request_def)

lemma sent_by_none [simp]: "sent_as enc (r, []) = []"
  by (simp add: sent_as_def)








end
