(* ===== verification/PubSub.thy ===== *)
theory PubSub
  imports SyncAsync Utf8
begin

text \<open>
  Publish/subscribe (\<open>facade/pubsub.rs\<close>): the supervisor task that owns the subscriber
  connection, its subscription bookkeeping, the confirmations it makes up, the reconnect loop,
  and the receiving side of \<open>PubSub\<close> and \<open>AsyncPubSub\<close>.

  \<open>ps_sys\<close> is the state the supervisor shares with the Python object: the
  \<open>SubscriptionState\<close>, the outbound queue, and whether the task still runs.  The ghost fields
  \<open>ps_acked_channels\<close> and \<open>ps_acked_patterns\<close> are the subscriptions the server has
  acknowledged on the current connection.  What the network does is an argument of every step:
  the outcome of a request, and for each reconnect attempt whether a connection was made and
  which of the replayed subscriptions were acknowledged.
\<close>

section \<open>Subscription state\<close>

record subscription_state =
  channels :: "bytes list"
  patterns :: "bytes list"
  shard_channels :: "bytes list"

definition no_subscriptions :: subscription_state where
  "no_subscriptions = \<lparr>channels = [], patterns = [], shard_channels = []\<rparr>"

definition add_names :: "bytes list \<Rightarrow> bytes list \<Rightarrow> bytes list" where
  "add_names names g = fold (\<lambda>n g. if n \<in> set g then g else g @ [n]) names g"

definition remove_names :: "bytes list \<Rightarrow> bytes list \<Rightarrow> bytes list" where
  "remove_names names g = (if names = [] then [] else filter (\<lambda>c. c \<notin> set names) g)"

fun update_subscription_state :: "pubsub_kind \<Rightarrow> bytes list \<Rightarrow> subscription_state \<Rightarrow> subscription_state" where
  "update_subscription_state KSubscribe names g = g\<lparr>channels := add_names names (channels g)\<rparr>"
| "update_subscription_state KUnsubscribe names g = g\<lparr>channels := remove_names names (channels g)\<rparr>"
| "update_subscription_state KPSubscribe names g = g\<lparr>patterns := add_names names (patterns g)\<rparr>"
| "update_subscription_state KPUnsubscribe names g = g\<lparr>patterns := remove_names names (patterns g)\<rparr>"
| "update_subscription_state KSSubscribe names g = g\<lparr>shard_channels := add_names names (shard_channels g)\<rparr>"
| "update_subscription_state KSUnsubscribe names g = g\<lparr>shard_channels := remove_names names (shard_channels g)\<rparr>"
| "update_subscription_state _ names g = g"

definition subscriber_count :: "subscription_state \<Rightarrow> i64" where
  "subscriber_count g = of_nat (length (channels g) + length (patterns g) + length (shard_channels g))"

definition subscribe_confirmations :: "pubsub_kind \<Rightarrow> bytes list \<Rightarrow> i64 \<Rightarrow> pubsub_message list" where
  "subscribe_confirmations kind names count =
     map (\<lambda>n. \<lparr>pm_kind = kind, pm_pattern = None, pm_channel = n, pm_data = PubSubCount count\<rparr>)
       (if names = [] then [[]] else names)"

section \<open>The supervisor\<close>

datatype bridge_command =
    Subscribe "bytes list" | Unsubscribe "bytes list" | PSubscribe "bytes list"
  | PUnsubscribe "bytes list" | SSubscribe "bytes list" | SUnsubscribe "bytes list" | Shutdown

record ps_sys =
  ps_subs :: subscription_state
  ps_out :: "pubsub_message list"
  ps_alive :: bool
  ps_acked_channels :: "bytes set"
  ps_acked_patterns :: "bytes set"

definition ps_spawn :: ps_sys where
  "ps_spawn = \<lparr>ps_subs = no_subscriptions, ps_out = [], ps_alive = True,
     ps_acked_channels = {}, ps_acked_patterns = {}\<rparr>"

text \<open>The error of the shard commands, which redis-rs does not offer.\<close>

definition unsupported :: "bridge_env \<Rightarrow> bytes \<Rightarrow> redis_error" where
  "unsupported env name =
     made_error env EkClient (name @ '' not yet supported in redis-rs 1.2 PubSub'') None"

text \<open>The message kind, the names and the outcome of a command; \<open>net\<close> is the outcome of the
  request, where one is made.\<close>

fun command_op ::
  "bridge_env \<Rightarrow> bridge_command \<Rightarrow> redis_error option \<Rightarrow> (redis_error option \<times> pubsub_kind \<times> bytes list) option" where
  "command_op env (Subscribe names) net = Some (net, KSubscribe, names)"
| "command_op env (Unsubscribe names) net = Some (net, KUnsubscribe, names)"
| "command_op env (PSubscribe names) net = Some (net, KPSubscribe, names)"
| "command_op env (PUnsubscribe names) net = Some (net, KPUnsubscribe, names)"
| "command_op env (SSubscribe names) net = Some (Some (unsupported env ''ssubscribe''), KSSubscribe, names)"
| "command_op env (SUnsubscribe names) net = Some (Some (unsupported env ''sunsubscribe''), KSUnsubscribe, names)"
| "command_op env Shutdown net = None"

text \<open>What an acknowledged request does to the subscriptions of the connection.\<close>

fun ack_request :: "pubsub_kind \<Rightarrow> bytes list \<Rightarrow> ps_sys \<Rightarrow> ps_sys" where
  "ack_request KSubscribe names s = s\<lparr>ps_acked_channels := ps_acked_channels s \<union> set names\<rparr>"
| "ack_request KUnsubscribe names s =
     s\<lparr>ps_acked_channels := (if names = [] then {} else ps_acked_channels s - set names)\<rparr>"
| "ack_request KPSubscribe names s = s\<lparr>ps_acked_patterns := ps_acked_patterns s \<union> set names\<rparr>"
| "ack_request KPUnsubscribe names s =
     s\<lparr>ps_acked_patterns := (if names = [] then {} else ps_acked_patterns s - set names)\<rparr>"
| "ack_request _ names s = s"

text \<open>\<open>handle_command\<close>: whether the connection is broken, the acknowledgement for the caller (an
  error text or none), and the new state.\<close>

definition handle_command ::
  "redis_error option \<times> pubsub_kind \<times> bytes list \<Rightarrow> ps_sys \<Rightarrow> bool \<times> bytes option \<times> ps_sys" where
  "handle_command op s =
     (case op of (op_result, kind, names) \<Rightarrow>
        (case op_result of
           Some e \<Rightarrow> (re_kind e = EkIo, Some (re_display e), s)
         | None \<Rightarrow>
             (let s = ack_request kind names s;
                  g = update_subscription_state kind names (ps_subs s)
              in (False, None,
                  s\<lparr>ps_subs := g,
                    ps_out := ps_out s @ subscribe_confirmations kind names (subscriber_count g)\<rparr>))))"

section \<open>Reconnecting\<close>

definition backoff :: "nat \<Rightarrow> nat" where
  "backoff attempt = min (50 * 2 ^ min attempt 4) 1000"

text \<open>The loop over the attempts, with the time slept, in milliseconds.\<close>

fun try_attempts :: "(nat \<Rightarrow> 'c option) \<Rightarrow> nat list \<Rightarrow> nat \<Rightarrow> 'c option \<times> nat" where
  "try_attempts connect [] slept = (None, slept)"
| "try_attempts connect (a # as) slept =
     (case connect a of
        Some c \<Rightarrow> (Some c, slept + backoff a)
      | None \<Rightarrow> try_attempts connect as (slept + backoff a))"

text \<open>A connection that was made, with the replayed channels and patterns it acknowledged.\<close>

type_synonym replay = "(bytes \<Rightarrow> bool) \<times> (bytes \<Rightarrow> bool)"

definition try_reconnect :: "(nat \<Rightarrow> replay option) \<Rightarrow> ps_sys \<Rightarrow> ps_sys \<times> nat" where
  "try_reconnect connect s =
     (case try_attempts connect [0..<32] 0 of
        (Some (ch_ok, pat_ok), slept) \<Rightarrow>
          (s\<lparr>ps_acked_channels := {c \<in> set (channels (ps_subs s)). ch_ok c},
             ps_acked_patterns := {p \<in> set (patterns (ps_subs s)). pat_ok p}\<rparr>, slept)
      | (None, slept) \<Rightarrow>
          (s\<lparr>ps_alive := False, ps_acked_channels := {}, ps_acked_patterns := {}\<rparr>, slept))"

section \<open>Messages\<close>

record redis_msg =
  rm_channel :: bytes
  rm_payload :: bytes
  rm_from_pattern :: bool
  rm_pattern :: "bytes option"

definition forward_message :: "redis_msg \<Rightarrow> pubsub_message" where
  "forward_message msg =
     \<lparr>pm_kind = (if rm_from_pattern msg then KPMessage else KMessage),
      pm_pattern = (if rm_from_pattern msg then rm_pattern msg else None),
      pm_channel = rm_channel msg, pm_data = PubSubBytes (rm_payload msg)\<rparr>"

text \<open>One turn of the \<open>select!\<close> loop.  A ping changes nothing whatever its outcome.\<close>

datatype sup_event =
    SupCommand bridge_command "redis_error option" "nat \<Rightarrow> replay option"
  | SupMessage redis_msg
  | SupStreamEnd "nat \<Rightarrow> replay option"
  | SupPing

fun supervisor_step :: "bridge_env \<Rightarrow> sup_event \<Rightarrow> ps_sys \<Rightarrow> ps_sys" where
  "supervisor_step env (SupCommand cmd net connect) s =
     (if \<not> ps_alive s then s
      else
        (case command_op env cmd net of
           None \<Rightarrow> s\<lparr>ps_alive := False, ps_acked_channels := {}, ps_acked_patterns := {}\<rparr>
         | Some op \<Rightarrow>
             (let (broken, _, s) = handle_command op s in
              if broken then fst (try_reconnect connect s) else s)))"
| "supervisor_step env (SupMessage msg) s =
     (if \<not> ps_alive s then s else s\<lparr>ps_out := ps_out s @ [forward_message msg]\<rparr>)"
| "supervisor_step env (SupStreamEnd connect) s =
     (if \<not> ps_alive s then s else fst (try_reconnect connect s))"
| "supervisor_step env SupPing s = s"

section \<open>Receiving\<close>

definition skipped :: "bool \<Rightarrow> pubsub_message \<Rightarrow> bool" where
  "skipped ignore m \<longleftrightarrow> pm_kind m = KPong \<or> (ignore \<and> is_subscribe_confirmation (pm_kind m))"

text \<open>The receive loop on what the queue holds; \<open>None\<close> when the wait times out or the
  supervisor is gone.\<close>

fun receive :: "bool \<Rightarrow> pubsub_message list \<Rightarrow> pubsub_message option \<times> pubsub_message list" where
  "receive ignore [] = (None, [])"
| "receive ignore (m # q) = (if skipped ignore m then receive ignore q else (Some m, q))"

definition get_message :: "bool \<Rightarrow> pubsub_message list \<Rightarrow> pyval pyres \<times> pubsub_message list" where
  "get_message ignore q =
     (case receive ignore q of
        (Some m, q) \<Rightarrow> (message_to_py m, q)
      | (None, q) \<Rightarrow> (Inr PNone, q))"

definition aget_message :: "bool \<Rightarrow> pubsub_message list \<Rightarrow> raw_result \<times> pubsub_message list" where
  "aget_message ignore q =
     (case receive ignore q of
        (Some m, q) \<Rightarrow> (RPubSubMessage m, q)
      | (None, q) \<Rightarrow> (RNil, q))"

section \<open>Bookkeeping\<close>

lemma set_add_names [simp]: "set (add_names names g) = set g \<union> set names"
  unfolding add_names_def by (induction names arbitrary: g) auto

lemma distinct_add_names: "distinct g \<Longrightarrow> distinct (add_names names g)"
  unfolding add_names_def by (induction names arbitrary: g) auto

lemma set_remove_names [simp]: "set (remove_names names g) = (if names = [] then {} else set g - set names)"
  by (auto simp: remove_names_def)

lemma distinct_remove_names: "distinct g \<Longrightarrow> distinct (remove_names names g)"
  by (simp add: remove_names_def)

definition ps_inv :: "ps_sys \<Rightarrow> bool" where
  "ps_inv s \<longleftrightarrow>
     distinct (channels (ps_subs s)) \<and> distinct (patterns (ps_subs s)) \<and> shard_channels (ps_subs s) = [] \<and>
     (ps_alive s \<longrightarrow> ps_acked_channels s = set (channels (ps_subs s)) \<and>
                     ps_acked_patterns s = set (patterns (ps_subs s)))"

definition replays_ok :: "(nat \<Rightarrow> replay option) \<Rightarrow> bool" where
  "replays_ok connect \<longleftrightarrow> (\<forall>a r. connect a = Some r \<longrightarrow> r = (\<lambda>_. True, \<lambda>_. True))"

fun replays_ok_event :: "sup_event \<Rightarrow> bool" where
  "replays_ok_event (SupCommand _ _ connect) = replays_ok connect"
| "replays_ok_event (SupStreamEnd connect) = replays_ok connect"
| "replays_ok_event _ = True"

text \<open>States reached when every reconnect that succeeds also replays successfully.\<close>

inductive ps_reachable :: "bridge_env \<Rightarrow> ps_sys \<Rightarrow> bool" for env where
  spawn: "ps_reachable env ps_spawn"
| step: "ps_reachable env s \<Longrightarrow> replays_ok_event e \<Longrightarrow> ps_reachable env (supervisor_step env e s)"

lemma try_attempts_Some: "fst (try_attempts connect as d) = Some c \<Longrightarrow> \<exists>a \<in> set as. connect a = Some c"
  by (induction as arbitrary: d) (auto split: option.splits)

lemma try_reconnect_inv: "ps_inv s \<Longrightarrow> replays_ok connect \<Longrightarrow> ps_inv (fst (try_reconnect connect s))"
  using try_attempts_Some [of connect "[0..<32]" 0]
  by (fastforce simp: ps_inv_def try_reconnect_def replays_ok_def split: prod.splits option.splits)

lemma command_op_cases:
  "command_op env cmd net = Some (res, kind, names) \<Longrightarrow>
   kind \<in> {KSubscribe, KUnsubscribe, KPSubscribe, KPUnsubscribe} \<or> res \<noteq> None"
  by (cases cmd) auto

lemma handle_command_inv:
  assumes "ps_inv s" "ps_alive s" "command_op env cmd net = Some op"
  shows "ps_inv (snd (snd (handle_command op s)))"
proof (cases op)
  case (fields res kind names)
  then show ?thesis
    using assms command_op_cases [of env cmd net res kind names]
    by (cases res) (auto simp: ps_inv_def handle_command_def Let_def distinct_add_names distinct_remove_names)
qed

lemma supervisor_step_inv: "ps_inv s \<Longrightarrow> replays_ok_event e \<Longrightarrow> ps_inv (supervisor_step env e s)"
proof (cases e)
  case (SupCommand cmd net connect)
  assume inv: "ps_inv s" and ok: "replays_ok_event e"
  show ?thesis
  proof (cases "command_op env cmd net")
    case None
    then show ?thesis using inv SupCommand by (auto simp: ps_inv_def)
  next
    case (Some op)
    have "ps_inv (snd (snd (handle_command op s)))" if "ps_alive s"
      using handle_command_inv [OF inv that Some] .
    then show ?thesis
      using inv Some ok SupCommand try_reconnect_inv by (auto simp: Let_def split: prod.splits)
  qed
next
  case (SupStreamEnd connect)
  assume "ps_inv s" "replays_ok_event e"
  then show ?thesis using SupStreamEnd try_reconnect_inv by auto
qed (auto simp: ps_inv_def)

lemma reachable_ps_inv: "ps_reachable env s \<Longrightarrow> ps_inv s"
proof (induction rule: ps_reachable.induct)
  case spawn
  then show ?case by (simp add: ps_inv_def ps_spawn_def no_subscriptions_def)
qed (auto intro: supervisor_step_inv)

text \<open>(C12) The bookkeeping follows the server: after any sequence of commands, messages, lost
  connections and reconnects whose replays are acknowledged, the recorded channels and patterns
  are free of duplicates and are exactly those acknowledged on the current connection, as long
  as the supervisor runs.\<close>
theorem subscriptions_in_sync:
  assumes "ps_reachable env s"
  shows "distinct (channels (ps_subs s)) \<and> distinct (patterns (ps_subs s)) \<and>
    (if ps_alive s then ps_acked_channels s = set (channels (ps_subs s)) \<and>
       ps_acked_patterns s = set (patterns (ps_subs s)) else True) \<and>
    subscriber_count (ps_subs s) = of_nat (card (set (channels (ps_subs s))) + card (set (patterns (ps_subs s))))"
  using reachable_ps_inv [OF assms] by (auto simp: ps_inv_def subscriber_count_def distinct_card)

definition good_connect :: "nat \<Rightarrow> replay option" where
  "good_connect a = (if a = 2 then Some (\<lambda>_. True, \<lambda>_. True) else None)"

abbreviation ps_sample :: ps_sys where
  "ps_sample \<equiv> supervisor_step sample_env (SupStreamEnd good_connect)
     (supervisor_step sample_env (SupCommand (Subscribe [''a'', ''b'', ''a'']) None good_connect) ps_spawn)"

lemma ps_sample_reachable: "ps_reachable sample_env ps_sample"
  by (intro ps_reachable.intros) (simp_all add: replays_ok_def good_connect_def)

lemma ps_sample_state:
  "ps_alive ps_sample" "channels (ps_subs ps_sample) = [''a'', ''b'']"
  "snd (try_reconnect good_connect ps_spawn) = 350"
  by (simp_all add: ps_spawn_def handle_command_def Let_def add_names_def no_subscriptions_def
      try_reconnect_def good_connect_def upt_rec backoff_def)

theorem subscriptions_in_sync_witness: "ps_acked_channels ps_sample = {''a'', ''b''}"
  using subscriptions_in_sync [OF ps_sample_reachable] ps_sample_state by simp

text \<open>A replay that the server refuses is lost silently: after such a reconnect the
  supervisor runs on and still records the channel, but the connection is not subscribed to
  it.\<close>
theorem refused_replay_lost:
  assumes "ps_alive s" "c \<in> set (channels (ps_subs s))" "connect 0 = Some (ch_ok, pat_ok)" "\<not> ch_ok c"
  shows "case supervisor_step env (SupStreamEnd connect) s of s' \<Rightarrow>
    ps_alive s' \<and> c \<in> set (channels (ps_subs s')) \<and> c \<notin> ps_acked_channels s' \<and> ps_out s' = ps_out s"
  using assms by (simp add: try_reconnect_def upt_rec)

theorem refused_replay_lost_witness:
  "''a'' \<notin> ps_acked_channels (supervisor_step sample_env (SupStreamEnd (\<lambda>_. Some (\<lambda>c. c \<noteq> ''a'', \<lambda>_. True))) ps_sample)"
  using refused_replay_lost [of ps_sample "''a''" "\<lambda>_. Some (\<lambda>c. c \<noteq> ''a'', \<lambda>_. True)"] ps_sample_state
  by (simp del: supervisor_step.simps)

section \<open>Timing of the reconnect loop\<close>

lemma try_attempts_None: "\<forall>a \<in> set as. connect a = None \<Longrightarrow>
    try_attempts connect as d = (None, d + sum_list (map backoff as))"
  by (induction as arbitrary: d) auto

lemma try_attempts_first:
  "\<forall>a \<in> set as. connect a = None \<Longrightarrow> connect b = Some c \<Longrightarrow>
   try_attempts connect (as @ b # bs) d = (Some c, d + sum_list (map backoff as) + backoff b)"
  by (induction as arbitrary: d) auto

text \<open>The reconnect loop: with \<open>n\<close> failed attempts before the first success, \<open>n\<close> below 32, it
  succeeds after sleeping the first \<open>n + 1\<close> back-offs; when all 32 attempts fail the supervisor
  stops, after 23150 ms.  A back-off is between 50 and 800 ms, so the cap of 1000 is never
  reached.\<close>
theorem reconnect_timing:
  assumes "\<And>a. a < n \<Longrightarrow> connect a = None"
  shows "(if n < 32 \<and> connect n \<noteq> None
          then ps_alive (fst (try_reconnect connect s)) = ps_alive s \<and>
               snd (try_reconnect connect s) = (\<Sum>a \<le> n. backoff a)
          else True) \<and>
    (if 32 \<le> n then \<not> ps_alive (fst (try_reconnect connect s)) \<and> snd (try_reconnect connect s) = 23150 else True) \<and>
    50 \<le> backoff k \<and> backoff k \<le> 800"
proof -
  have sum: "sum_list (map backoff [0..<m]) = (\<Sum>a < m. backoff a)" for m
    by (simp add: interv_sum_list_conv_sum_set_nat atLeast0LessThan)
  have ok: "ps_alive (fst (try_reconnect connect s)) = ps_alive s \<and>
      snd (try_reconnect connect s) = (\<Sum>a \<le> n. backoff a)" if "n < 32" "connect n = Some c" for c
  proof -
    have split: "[0..<32] = [0..<n] @ n # [Suc n..<32]"
      using \<open>n < 32\<close> upt_add_eq_append [of 0 n "32 - n"] upt_conv_Cons [of n 32] by simp
    have "try_attempts connect [0..<32] 0 = (Some c, 0 + sum_list (map backoff [0..<n]) + backoff n)"
      unfolding split by (rule try_attempts_first) (use assms that in auto)
    then show ?thesis
      by (simp add: try_reconnect_def sum lessThan_Suc_atMost [symmetric] split: prod.splits)
  qed
  moreover have "\<not> ps_alive (fst (try_reconnect connect s)) \<and> snd (try_reconnect connect s) = 23150"
    if "32 \<le> n"
  proof -
    have "sum_list (map backoff [0..<32]) = 23150"
      by (simp add: upt_rec backoff_def)
    then have "try_attempts connect [0..<32] 0 = (None, 23150)"
      using try_attempts_None [of "[0..<32]" connect 0] assms that by auto
    then show ?thesis by (simp add: try_reconnect_def)
  qed
  moreover have "50 \<le> backoff k \<and> backoff k \<le> 800"
  proof -
    have "(2::nat) ^ min k 4 \<le> 2 ^ 4" by (rule power_increasing) auto
    then show ?thesis by (simp add: backoff_def)
  qed
  ultimately show ?thesis by auto
qed

theorem reconnect_timing_witness: "snd (try_reconnect good_connect ps_spawn) = 350"
  using reconnect_timing [of 2 good_connect ps_spawn 0]
  by (simp add: good_connect_def backoff_def eval_nat_numeral)

section \<open>Delivery\<close>

fun receive_all :: "bool \<Rightarrow> nat \<Rightarrow> pubsub_message list \<Rightarrow> pyval pyres list" where
  "receive_all ignore 0 q = []"
| "receive_all ignore (Suc n) q = (case get_message ignore q of (r, q) \<Rightarrow> r # receive_all ignore n q)"

lemma filter_after_receive:
  "filter (\<lambda>m. \<not> skipped ignore m) (snd (receive ignore q)) = tl (filter (\<lambda>m. \<not> skipped ignore m) q)"
  by (induction q) auto

lemma fst_receive: "fst (receive ignore q) = (case filter (\<lambda>m. \<not> skipped ignore m) q of [] \<Rightarrow> None | m # _ \<Rightarrow> Some m)"
  by (induction q) auto

text \<open>Receiving: successive \<open>get_message\<close> calls return the queued messages that are not
  filtered out, each once and in the order they were queued, then \<open>None\<close>; \<open>aget_message\<close>
  delivers the same dict.\<close>
theorem messages_in_order:
  "receive_all ignore n q =
     take n (map message_to_py (filter (\<lambda>m. \<not> skipped ignore m) q) @ replicate n (Inr PNone)) \<and>
   (case aget_message ignore q of (raw, q') \<Rightarrow> (into_py env raw, q')) = get_message ignore q"
proof (rule conjI)
  show "receive_all ignore n q =
     take n (map message_to_py (filter (\<lambda>m. \<not> skipped ignore m) q) @ replicate n (Inr PNone))"
  proof (induction n arbitrary: q)
    case 0
    then show ?case by simp
  next
    case (Suc n)
    obtain r q' where rq: "receive ignore q = (r, q')" by (cases "receive ignore q")
    have q': "filter (\<lambda>m. \<not> skipped ignore m) q' = tl (filter (\<lambda>m. \<not> skipped ignore m) q)"
      using filter_after_receive [of ignore q] rq by simp
    have r: "r = (case filter (\<lambda>m. \<not> skipped ignore m) q of [] \<Rightarrow> None | m # _ \<Rightarrow> Some m)"
      using fst_receive [of ignore q] rq by simp
    show ?case
    proof (cases "filter (\<lambda>m. \<not> skipped ignore m) q")
      case Nil
      then show ?thesis using Suc.IH [of q'] r q' by (simp add: get_message_def rq)
    next
      case (Cons m ms)
      have "take n (map message_to_py ms @ Inr PNone # replicate n (Inr PNone)) =
          take n (map message_to_py ms @ replicate n (Inr PNone))"
        by (simp add: replicate_append_same [symmetric] take_Cons' flip: append_assoc)
      then show ?thesis using Cons Suc.IH [of q'] r q' by (simp add: get_message_def rq)
    qed
  qed
  show "(case aget_message ignore q of (raw, q') \<Rightarrow> (into_py env raw, q')) = get_message ignore q"
    by (auto simp: aget_message_def get_message_def split: prod.splits option.splits)
qed

text \<open>Every confirmation of a call carries the count after the whole call, not the running
  one.\<close>

lemma confirmations_final_count:
  "map pm_data (ps_out (supervisor_step sample_env (SupCommand (Subscribe [''a'', ''b'']) None good_connect) ps_spawn)) =
   [PubSubCount 2, PubSubCount 2]"
  by (simp add: ps_spawn_def handle_command_def Let_def add_names_def no_subscriptions_def
      subscribe_confirmations_def subscriber_count_def)

end
