(* ===== verification/PubSubObject.thy ===== *)
theory PubSubObject
  imports PubSub Strings Replies
begin

text \<open>
  The classes \<open>PubSub\<close>, \<open>AsyncPubSub\<close> and \<open>PubSubWorkerThread\<close> (\<open>facade/pubsub.rs\<close>): the
  methods that subscribe, with the handler tables; receiving with a timeout; iteration; and the
  loop of the worker thread.

  The first part works on the state of the supervisor (theory PubSub).  Receiving is a matter of
  time, so that the second part works on an \<open>inbox\<close>: the messages that will become available, each
  with the time after the previous one, in nanoseconds, and when the supervisor ends, if it does;
  and on how long each pass waits for the mutex the receiver is behind.
\<close>

section \<open>The Python object\<close>

text \<open>The three families of subscriptions, each with its handler table.\<close>

datatype family = Channels | Patterns | Shards

record pubsub_obj =
  po_open :: bool
  po_sys :: ps_sys
  po_handlers :: "family \<Rightarrow> bytes \<Rightarrow> nat option"
  po_ignore :: bool

definition coerce_name :: "pyval \<Rightarrow> bytes pyres" where
  "coerce_name v =
     (case v of
        PBytes b \<Rightarrow> Inr b
      | PStr s \<Rightarrow> Inr s
      | _ \<Rightarrow> Inl (PyErr DataError ''channel/pattern names must be str or bytes''))"

definition send_command ::
  "bridge_env \<Rightarrow> bridge_command \<Rightarrow> redis_error option \<Rightarrow> (nat \<Rightarrow> replay option) \<Rightarrow> pubsub_obj \<Rightarrow>
   pyerr option \<times> pubsub_obj" where
  "send_command env cmd net connect po =
     (if \<not> po_open po then (Some (PyErr PubSubError ''pubsub is closed''), po)
      else if \<not> ps_alive (po_sys po) then (Some (PyErr PubSubError ''pubsub bridge has shut down''), po)
      else
        (case command_op env cmd net of
           None \<Rightarrow> (Some (PyErr PubSubError ''ack channel dropped''),
                     po\<lparr>po_sys := supervisor_step env (SupCommand cmd net connect) (po_sys po)\<rparr>)
         | Some op \<Rightarrow>
             (map_option (PyErr PubSubError) (fst (snd (handle_command op (po_sys po)))),
              po\<lparr>po_sys := supervisor_step env (SupCommand cmd net connect) (po_sys po)\<rparr>)))"

text \<open>The awaitable version; what the awaitable is given is the acknowledgement.\<close>

definition async_send_command ::
  "bridge_env \<Rightarrow> bridge_command \<Rightarrow> redis_error option \<Rightarrow> (nat \<Rightarrow> replay option) \<Rightarrow> pubsub_obj \<Rightarrow>
   raw_result pyres \<times> pubsub_obj" where
  "async_send_command env cmd net connect po =
     (if \<not> po_open po then (Inl (PyErr PubSubError ''pubsub is closed''), po)
      else if \<not> ps_alive (po_sys po) then (Inl (PyErr PubSubError ''pubsub bridge has shut down''), po)
      else
        (case command_op env cmd net of
           None \<Rightarrow> (Inr (RError EcPubSubError ''ack channel dropped''),
                     po\<lparr>po_sys := supervisor_step env (SupCommand cmd net connect) (po_sys po)\<rparr>)
         | Some op \<Rightarrow>
             (Inr (case fst (snd (handle_command op (po_sys po))) of None \<Rightarrow> RNil | Some e \<Rightarrow> RError EcPubSubError e),
              po\<lparr>po_sys := supervisor_step env (SupCommand cmd net connect) (po_sys po)\<rparr>)))"

definition subscribe_command :: "family \<Rightarrow> bytes list \<Rightarrow> bridge_command" where
  "subscribe_command f = (case f of Channels \<Rightarrow> Subscribe | Patterns \<Rightarrow> PSubscribe | Shards \<Rightarrow> SSubscribe)"

definition unsubscribe_command :: "family \<Rightarrow> bytes list \<Rightarrow> bridge_command" where
  "unsubscribe_command f = (case f of Channels \<Rightarrow> Unsubscribe | Patterns \<Rightarrow> PUnsubscribe | Shards \<Rightarrow> SUnsubscribe)"

definition set_handlers :: "family \<Rightarrow> (bytes \<Rightarrow> nat option) \<Rightarrow> pubsub_obj \<Rightarrow> pubsub_obj" where
  "set_handlers f h po = po\<lparr>po_handlers := (po_handlers po)(f := h)\<rparr>"

definition subscribe_usage :: "family \<Rightarrow> bytes" where
  "subscribe_usage f =
     (case f of
        Channels \<Rightarrow> ''subscribe() requires at least one channel''
      | Patterns \<Rightarrow> ''psubscribe() requires at least one pattern''
      | Shards \<Rightarrow> ''ssubscribe() requires at least one shard channel'')"

text \<open>\<open>subscribe\<close>, \<open>psubscribe\<close> and \<open>ssubscribe\<close>: positional names, and keyword arguments
  that name a handler, which is stored before the command is sent.\<close>

definition subscribe_names ::
  "family \<Rightarrow> pyval list \<Rightarrow> (bytes \<times> nat) list \<Rightarrow> pubsub_obj \<Rightarrow> bytes list pyres \<times> pubsub_obj" where
  "subscribe_names f args kwargs po =
     (case collect_res coerce_name args of
        Inl e \<Rightarrow> (Inl e, po)
      | Inr pos \<Rightarrow>
          (let names = pos @ map fst kwargs;
               po = set_handlers f (fold (\<lambda>(k, h) m. m(k \<mapsto> h)) kwargs (po_handlers po f)) po
           in (if names = [] then Inl (PyErr DataError (subscribe_usage f)) else Inr names, po)))"

definition unsubscribe_names :: "family \<Rightarrow> pyval list \<Rightarrow> pubsub_obj \<Rightarrow> bytes list pyres \<times> pubsub_obj" where
  "unsubscribe_names f args po =
     (case collect_res coerce_name args of
        Inl e \<Rightarrow> (Inl e, po)
      | Inr names \<Rightarrow>
          (let h = po_handlers po f
           in (Inr names, set_handlers f (if names \<noteq> [] then h |` (- set names) else Map.empty) po)))"

definition ps_subscribe ::
  "bridge_env \<Rightarrow> family \<Rightarrow> pyval list \<Rightarrow> (bytes \<times> nat) list \<Rightarrow> redis_error option \<Rightarrow> (nat \<Rightarrow> replay option) \<Rightarrow>
   pubsub_obj \<Rightarrow> pyerr option \<times> pubsub_obj" where
  "ps_subscribe env f args kwargs net connect po =
     (case subscribe_names f args kwargs po of
        (Inl e, po) \<Rightarrow> (Some e, po)
      | (Inr names, po) \<Rightarrow> send_command env (subscribe_command f names) net connect po)"

definition ps_unsubscribe ::
  "bridge_env \<Rightarrow> family \<Rightarrow> pyval list \<Rightarrow> redis_error option \<Rightarrow> (nat \<Rightarrow> replay option) \<Rightarrow>
   pubsub_obj \<Rightarrow> pyerr option \<times> pubsub_obj" where
  "ps_unsubscribe env f args net connect po =
     (case unsubscribe_names f args po of
        (Inl e, po) \<Rightarrow> (Some e, po)
      | (Inr names, po) \<Rightarrow> send_command env (unsubscribe_command f names) net connect po)"

definition aps_subscribe ::
  "bridge_env \<Rightarrow> family \<Rightarrow> pyval list \<Rightarrow> (bytes \<times> nat) list \<Rightarrow> redis_error option \<Rightarrow> (nat \<Rightarrow> replay option) \<Rightarrow>
   pubsub_obj \<Rightarrow> raw_result pyres \<times> pubsub_obj" where
  "aps_subscribe env f args kwargs net connect po =
     (case subscribe_names f args kwargs po of
        (Inl e, po) \<Rightarrow> (Inl e, po)
      | (Inr names, po) \<Rightarrow> async_send_command env (subscribe_command f names) net connect po)"

definition aps_unsubscribe ::
  "bridge_env \<Rightarrow> family \<Rightarrow> pyval list \<Rightarrow> redis_error option \<Rightarrow> (nat \<Rightarrow> replay option) \<Rightarrow>
   pubsub_obj \<Rightarrow> raw_result pyres \<times> pubsub_obj" where
  "aps_unsubscribe env f args net connect po =
     (case unsubscribe_names f args po of
        (Inl e, po) \<Rightarrow> (Inl e, po)
      | (Inr names, po) \<Rightarrow> async_send_command env (unsubscribe_command f names) net connect po)"

text \<open>The twelve methods.\<close>

definition pubsub_subscribe where
  "pubsub_subscribe env = ps_subscribe env Channels"

definition pubsub_unsubscribe where
  "pubsub_unsubscribe env = ps_unsubscribe env Channels"

definition pubsub_psubscribe where
  "pubsub_psubscribe env = ps_subscribe env Patterns"

definition pubsub_punsubscribe where
  "pubsub_punsubscribe env = ps_unsubscribe env Patterns"

definition pubsub_ssubscribe where
  "pubsub_ssubscribe env = ps_subscribe env Shards"

definition pubsub_sunsubscribe where
  "pubsub_sunsubscribe env = ps_unsubscribe env Shards"

definition apubsub_subscribe where
  "apubsub_subscribe env = aps_subscribe env Channels"

definition apubsub_unsubscribe where
  "apubsub_unsubscribe env = aps_unsubscribe env Channels"

definition apubsub_psubscribe where
  "apubsub_psubscribe env = aps_subscribe env Patterns"

definition apubsub_punsubscribe where
  "apubsub_punsubscribe env = aps_unsubscribe env Patterns"

definition apubsub_ssubscribe where
  "apubsub_ssubscribe env = aps_subscribe env Shards"

definition apubsub_sunsubscribe where
  "apubsub_sunsubscribe env = aps_unsubscribe env Shards"

definition ps_close :: "bridge_env \<Rightarrow> redis_error option \<Rightarrow> (nat \<Rightarrow> replay option) \<Rightarrow> pubsub_obj \<Rightarrow> pubsub_obj" where
  "ps_close env net connect po =
     (if po_open po
      then po\<lparr>po_open := False, po_sys := supervisor_step env (SupCommand Shutdown net connect) (po_sys po)\<rparr>
      else po)"

definition no_handler :: "bytes \<Rightarrow> bytes \<Rightarrow> pyerr" where
  "no_handler what name =
     PyErr PubSubError (what @ '': '' @ [CHR 0x27] @ utf8_lossy name @ [CHR 0x27] @ '' has no handler registered'')"

definition missing_handler :: "bytes \<Rightarrow> (bytes \<Rightarrow> nat option) \<Rightarrow> bytes list \<Rightarrow> pyerr option" where
  "missing_handler what h names = map_option (no_handler what) (List.find (\<lambda>n. h n = None) names)"

text \<open>The validation at the start of \<open>run_in_thread\<close>; \<open>None\<close> means the thread is started.\<close>

definition run_in_thread_check :: "pubsub_obj \<Rightarrow> pyerr option" where
  "run_in_thread_check po =
     (if \<not> po_open po then Some (PyErr PubSubError ''pubsub is closed'')
      else
        (let g = ps_subs (po_sys po) in
         case missing_handler ''Channel'' (po_handlers po Channels) (channels g) of
           Some e \<Rightarrow> Some e
         | None \<Rightarrow>
             (case missing_handler ''Pattern'' (po_handlers po Patterns) (patterns g) of
                Some e \<Rightarrow> Some e
              | None \<Rightarrow> missing_handler ''Shard Channel'' (po_handlers po Shards) (shard_channels g))))"

lemma missing_handler_None: "missing_handler what h names = None \<longleftrightarrow> set names \<subseteq> dom h"
  by (auto simp: missing_handler_def find_None_iff)

lemma missing_handler_Some: "missing_handler what h names = Some e \<Longrightarrow> \<not> set names \<subseteq> dom h"
  using missing_handler_None [of what h names] by simp

lemma run_in_thread_ok:
  "run_in_thread_check po = None \<longleftrightarrow>
   po_open po \<and> set (channels (ps_subs (po_sys po))) \<subseteq> dom (po_handlers po Channels) \<and>
   set (patterns (ps_subs (po_sys po))) \<subseteq> dom (po_handlers po Patterns) \<and>
   set (shard_channels (ps_subs (po_sys po))) \<subseteq> dom (po_handlers po Shards)"
  by (simp add: run_in_thread_check_def Let_def missing_handler_None split: option.split)
    (metis missing_handler_Some)

lemma dom_fold_handlers: "dom (fold (\<lambda>(k, h) m. m(k \<mapsto> h)) kws m) = dom m \<union> fst ` set kws"
  by (induction kws arbitrary: m) auto

lemma reconnect_subs [simp]: "ps_subs (fst (try_reconnect connect s)) = ps_subs s"
  by (auto simp: try_reconnect_def split: prod.splits option.splits)

lemma ack_request_subs [simp]: "ps_subs (ack_request k ns s) = ps_subs s"
  by (cases k) auto

lemma command_step_subs:
  "ps_alive s \<Longrightarrow> command_op env cmd net = Some (None, kind, names) \<Longrightarrow>
   ps_subs (supervisor_step env (SupCommand cmd net connect) s) = update_subscription_state kind names (ps_subs s)"
  by (simp add: handle_command_def Let_def)

lemma send_command_ok:
  assumes "send_command env cmd net connect po = (None, po')"
  shows "\<exists>kind names. command_op env cmd net = Some (None, kind, names) \<and> po_open po \<and>
    po_open po' = po_open po \<and> po_handlers po' = po_handlers po \<and>
    ps_subs (po_sys po') = update_subscription_state kind names (ps_subs (po_sys po))"
proof -
  from assms obtain op where op: "command_op env cmd net = Some op" "po_open po" "ps_alive (po_sys po)"
    "fst (snd (handle_command op (po_sys po))) = None"
    "po' = po\<lparr>po_sys := supervisor_step env (SupCommand cmd net connect) (po_sys po)\<rparr>"
    by (auto simp: send_command_def split: if_splits option.splits)
  then obtain kind names where "op = (None, kind, names)"
    by (cases op) (auto simp: handle_command_def split: option.splits)
  with op command_step_subs [OF op(3)] show ?thesis by auto
qed

text \<open>Handlers and subscriptions stay together: an object on which \<open>run_in_thread\<close> would
  start stays so when channels, patterns or shard channels are subscribed with handlers, and
  when they are unsubscribed, as long as the calls succeed: every channel, pattern and shard
  channel that is subscribed has a handler.\<close>
theorem handlers_cover_subscriptions:
  assumes "run_in_thread_check po = None"
    and "ps_subscribe env f [] kwargs net connect po = (None, po') \<or> ps_unsubscribe env f args net connect po = (None, po')"
  shows "run_in_thread_check po' = None \<and>
    set (channels (ps_subs (po_sys po'))) \<subseteq> dom (po_handlers po' Channels) \<and>
    set (patterns (ps_subs (po_sys po'))) \<subseteq> dom (po_handlers po' Patterns) \<and>
    set (shard_channels (ps_subs (po_sys po'))) \<subseteq> dom (po_handlers po' Shards)"
proof -
  have "run_in_thread_check po' = None" using assms(2)
  proof
  assume "ps_subscribe env f [] kwargs net connect po = (None, po')"
  then have "send_command env (subscribe_command f (map fst kwargs)) net connect
      (set_handlers f (fold (\<lambda>(k, h) m. m(k \<mapsto> h)) kwargs (po_handlers po f)) po) = (None, po')"
    by (auto simp: ps_subscribe_def subscribe_names_def Let_def split: if_splits)
  from send_command_ok [OF this] show ?thesis
    using assms(1)
    by (cases f) (auto simp: run_in_thread_ok subscribe_command_def set_handlers_def dom_fold_handlers)
next
  assume "ps_unsubscribe env f args net connect po = (None, po')"
  then obtain names where "send_command env (unsubscribe_command f names) net connect
      (set_handlers f (if names \<noteq> [] then po_handlers po f |` (- set names) else Map.empty) po) = (None, po')"
    by (auto simp: ps_unsubscribe_def unsubscribe_names_def Let_def split: sum.splits)
  from send_command_ok [OF this] show ?thesis
    using assms(1)
    by (cases f) (auto simp: run_in_thread_ok unsubscribe_command_def set_handlers_def)
qed
  then show ?thesis using run_in_thread_ok [of po'] by simp
qed

definition po_new :: pubsub_obj where
  "po_new = \<lparr>po_open = True, po_sys = ps_spawn, po_handlers = (\<lambda>_. Map.empty), po_ignore = False\<rparr>"

theorem handlers_cover_subscriptions_witness:
  "run_in_thread_check (snd (ps_subscribe sample_env Channels [] [(''a'', 7)] None good_connect po_new)) = None"
proof -
  have "run_in_thread_check po_new = None"
    by (simp add: run_in_thread_ok po_new_def ps_spawn_def no_subscriptions_def)
  moreover have "fst (ps_subscribe sample_env Channels [] [(''a'', 7)] None good_connect po_new) = None"
    by (simp add: ps_subscribe_def subscribe_names_def send_command_def po_new_def set_handlers_def ps_spawn_def
        subscribe_command_def handle_command_def Let_def)
  then have "ps_subscribe sample_env Channels [] [(''a'', 7)] None good_connect po_new =
      (None, snd (ps_subscribe sample_env Channels [] [(''a'', 7)] None good_connect po_new))"
    by (simp add: prod_eq_iff)
  ultimately show ?thesis
    using handlers_cover_subscriptions [where args = "[]"] by blast
qed

text \<open>Awaiting the awaitable methods gives what the blocking ones give, \<open>None\<close> for success, and
  leaves the object in the same state.\<close>

definition unit_result :: "pyerr option \<Rightarrow> pyval pyres" where
  "unit_result r = (case r of None \<Rightarrow> Inr PNone | Some e \<Rightarrow> Inl e)"

lemma send_commands_agree:
  "map_prod (\<lambda>r. rbind r (into_py env)) id (async_send_command env cmd net connect po) =
   map_prod unit_result id (send_command env cmd net connect po)"
  by (simp add: async_send_command_def send_command_def unit_result_def split: option.split)

theorem pubsub_classes_agree:
  "map_prod (\<lambda>r. rbind r (into_py env)) id (aps_subscribe env f args kwargs net connect po) =
   map_prod unit_result id (ps_subscribe env f args kwargs net connect po)"
  "map_prod (\<lambda>r. rbind r (into_py env)) id (aps_unsubscribe env f args net connect po) =
   map_prod unit_result id (ps_unsubscribe env f args net connect po)"
  by (auto simp: aps_subscribe_def ps_subscribe_def aps_unsubscribe_def ps_unsubscribe_def send_commands_agree
      unit_result_def split: prod.split sum.split)

section \<open>Receiving with a timeout\<close>

record inbox =
  ib_coming :: "(nat \<times> pubsub_message) list"
  ib_ends :: "nat option"

text \<open>What the supervisor has queued is there at once.\<close>

definition inbox_now :: "ps_sys \<Rightarrow> inbox" where
  "inbox_now s = \<lparr>ib_coming = map (Pair 0) (ps_out s), ib_ends = (if ps_alive s then None else Some 0)\<rparr>"

definition f64_nonpos :: "f64 \<Rightarrow> bool" where
  "f64_nonpos s \<longleftrightarrow>
     (case f64_value s of Some q \<Rightarrow> q \<le> 0 | None \<Rightarrow> \<not> f64_is_nan s \<and> uint (f64_bits s) \<ge> 2 ^ 63)"

definition parse_timeout :: "(pyval \<Rightarrow> f64 pyres) \<Rightarrow> pyval \<Rightarrow> nat option pyres" where
  "parse_timeout as_double t =
     (if t = PNone then Inr None
      else rbind (extract_f64 as_double t) (\<lambda>secs.
        if f64_nonpos secs then Inr (Some 1000000) else rbind (from_secs_f64 secs) (\<lambda>d. Inr (Some d))))"

text \<open>The argument is an \<open>Option\<close>, so that \<open>None\<close> from Python is an absent timeout.\<close>

definition message_timeout :: "(pyval \<Rightarrow> f64 pyres) \<Rightarrow> pyval \<Rightarrow> nat option pyres" where
  "message_timeout as_double t = (if t = PNone then Inr (Some 1000000) else parse_timeout as_double t)"

text \<open>The loop of \<open>get_message\<close> and \<open>aget_message\<close>: every pass waits for the whole timeout.  The
  result is the message, the time waited and what is left; \<open>None\<close> stands for a wait that never
  ends.\<close>

fun receive_timed ::
  "bool \<Rightarrow> nat option \<Rightarrow> (nat \<times> pubsub_message) list \<Rightarrow> nat option \<Rightarrow> nat \<Rightarrow>
   (pubsub_message option \<times> nat \<times> inbox) option" where
  "receive_timed ignore limit [] ends waited =
     (case (limit, ends) of
        (None, None) \<Rightarrow> None
      | (None, Some e) \<Rightarrow> Some (None, waited + e, \<lparr>ib_coming = [], ib_ends = Some 0\<rparr>)
      | (Some d, None) \<Rightarrow> Some (None, waited + d, \<lparr>ib_coming = [], ib_ends = None\<rparr>)
      | (Some d, Some e) \<Rightarrow>
          Some (None, waited + min d e, \<lparr>ib_coming = [], ib_ends = Some (e - d)\<rparr>))"
| "receive_timed ignore limit ((t, m) # q) ends waited =
     (case limit of
        Some d \<Rightarrow>
          if d < t then Some (None, waited + d, \<lparr>ib_coming = (t - d, m) # q, ib_ends = ends\<rparr>)
          else if skipped ignore m then receive_timed ignore limit q ends (waited + t)
          else Some (Some m, waited + t, \<lparr>ib_coming = q, ib_ends = ends\<rparr>)
      | None \<Rightarrow>
          if skipped ignore m then receive_timed ignore limit q ends (waited + t)
          else Some (Some m, waited + t, \<lparr>ib_coming = q, ib_ends = ends\<rparr>))"

type_synonym 'r timed = "('r \<times> nat \<times> inbox) option"

text \<open>The receiver is behind a mutex, which the loops take for every pass, before the time begins to run.
  Another thread that waits in \<open>__next__\<close> holds it until a message comes.  \<open>mutex\<close> says how long
  the passes to come wait for it: \<open>None\<close> for ever, and not at all after the end of the list.  The
  queue of an \<open>inbox\<close> holds what this caller will find, without what others take.\<close>

fun elapse ::
  "nat \<Rightarrow> (nat \<times> pubsub_message) list \<Rightarrow> nat option \<Rightarrow> (nat \<times> pubsub_message) list \<times> nat option" where
  "elapse h [] ends = ([], map_option (\<lambda>e. e - h) ends)"
| "elapse h ((t, m) # q) ends =
     (if h \<le> t then ((t - h, m) # q, ends) else map_prod (Cons (0, m)) id (elapse (h - t) q ends))"

text \<open>One pass with the mutex: the message, if one comes, the time waited and what is left.\<close>

definition receive_pass ::
  "nat option \<Rightarrow> (nat \<times> pubsub_message) list \<Rightarrow> nat option \<Rightarrow> (pubsub_message option \<times> nat \<times> inbox) option" where
  "receive_pass limit q ends =
     (case q of
        [] \<Rightarrow> receive_timed False limit [] ends 0
      | (t, m) # q' \<Rightarrow>
          (case limit of
             Some d \<Rightarrow>
               if d < t then Some (None, d, \<lparr>ib_coming = (t - d, m) # q', ib_ends = ends\<rparr>)
               else Some (Some m, t, \<lparr>ib_coming = q', ib_ends = ends\<rparr>)
           | None \<Rightarrow> Some (Some m, t, \<lparr>ib_coming = q', ib_ends = ends\<rparr>)))"

fun receive_locked ::
  "bool \<Rightarrow> nat option \<Rightarrow> nat option list \<Rightarrow> (nat \<times> pubsub_message) list \<Rightarrow> nat option \<Rightarrow> nat \<Rightarrow>
   (pubsub_message option \<times> nat \<times> inbox) option" where
  "receive_locked ignore limit [] q ends waited = receive_timed ignore limit q ends waited"
| "receive_locked ignore limit (None # hs) q ends waited = None"
| "receive_locked ignore limit (Some h # hs) q ends waited =
     (case elapse h q ends of (q, ends) \<Rightarrow>
        (case receive_pass limit q ends of
           None \<Rightarrow> None
         | Some (None, t, ib) \<Rightarrow> Some (None, waited + h + t, ib)
         | Some (Some m, t, ib) \<Rightarrow>
             if skipped ignore m then receive_locked ignore limit hs (ib_coming ib) (ib_ends ib) (waited + h + t)
             else Some (Some m, waited + h + t, ib)))"

definition po_get_message ::
  "(pyval \<Rightarrow> f64 pyres) \<Rightarrow> bool \<Rightarrow> pyval \<Rightarrow> nat option list \<Rightarrow> pubsub_obj \<Rightarrow> inbox \<Rightarrow> pyval pyres timed" where
  "po_get_message as_double ignore timeout mutex po ib =
     (if \<not> po_open po then Some (Inl (PyErr PubSubError ''pubsub is closed''), 0, ib)
      else
        (case message_timeout as_double timeout of
           Inl e \<Rightarrow> Some (Inl e, 0, ib)
         | Inr limit \<Rightarrow>
             map_option (map_prod (\<lambda>m. case m of Some m \<Rightarrow> message_to_py m | None \<Rightarrow> Inr PNone) id)
               (receive_locked (ignore \<or> po_ignore po) limit mutex (ib_coming ib) (ib_ends ib) 0)))"

definition po_aget_message ::
  "(pyval \<Rightarrow> f64 pyres) \<Rightarrow> bool \<Rightarrow> pyval \<Rightarrow> nat option list \<Rightarrow> pubsub_obj \<Rightarrow> inbox \<Rightarrow> raw_result pyres timed" where
  "po_aget_message as_double ignore timeout mutex po ib =
     (if \<not> po_open po then Some (Inl (PyErr PubSubError ''pubsub is closed''), 0, ib)
      else
        (case message_timeout as_double timeout of
           Inl e \<Rightarrow> Some (Inl e, 0, ib)
         | Inr limit \<Rightarrow>
             map_option (map_prod (\<lambda>m. case m of Some m \<Rightarrow> Inr (RPubSubMessage m) | None \<Rightarrow> Inr RNil) id)
               (receive_locked (ignore \<or> po_ignore po) limit mutex (ib_coming ib) (ib_ends ib) 0)))"

definition po_next :: "nat option list \<Rightarrow> pubsub_obj \<Rightarrow> inbox \<Rightarrow> pyval pyres timed" where
  "po_next mutex po ib =
     (if \<not> po_open po then Some (Inl (PyErr PyStopIteration []), 0, ib)
      else
        map_option (map_prod (\<lambda>m. case m of Some m \<Rightarrow> message_to_py m | None \<Rightarrow> Inl (PyErr PyStopIteration [])) id)
          (receive_locked (po_ignore po) None mutex (ib_coming ib) (ib_ends ib) 0))"

definition po_anext :: "(pyval \<Rightarrow> f64 pyres) \<Rightarrow> nat option list \<Rightarrow> pubsub_obj \<Rightarrow> inbox \<Rightarrow> raw_result pyres timed" where
  "po_anext as_double mutex po ib =
     (if \<not> po_open po then Some (Inl (PyErr PyStopAsyncIteration []), 0, ib)
      else po_aget_message as_double False PNone mutex po ib)"

definition po_subscribed :: "pubsub_obj \<Rightarrow> bool" where
  "po_subscribed po \<longleftrightarrow>
     po_open po \<and> (channels (ps_subs (po_sys po)) \<noteq> [] \<or> patterns (ps_subs (po_sys po)) \<noteq> [] \<or>
                   shard_channels (ps_subs (po_sys po)) \<noteq> [])"

text \<open>The items of the dict of a message.\<close>

definition message_items :: "pubsub_message \<Rightarrow> (pyval \<times> pyval) list" where
  "message_items m =
     [(PStr ''type'', PStr (type_str (pm_kind m))),
      (PStr ''pattern'', case pm_pattern m of Some p \<Rightarrow> PBytes p | None \<Rightarrow> PNone),
      (PStr ''channel'', PBytes (pm_channel m)),
      (PStr ''data'', case pm_data m of PubSubBytes b \<Rightarrow> PBytes b | PubSubCount n \<Rightarrow> PInt (sint n))]"

lemma message_to_py_items: "message_to_py m = Inr (PDict (message_items m))"
  by (simp add: message_to_py_def message_items_def set_item_def)

text \<open>The messages a caller gets to see.\<close>

abbreviation visible :: "bool \<Rightarrow> (nat \<times> pubsub_message) list \<Rightarrow> pubsub_message list" where
  "visible ignore q \<equiv> filter (\<lambda>m. \<not> skipped ignore m) (map snd q)"

lemma receive_timed_visible:
  "receive_timed ignore limit q ends t = Some (r, t', ib) \<Longrightarrow>
   visible ignore q = (case r of Some m \<Rightarrow> [m] | None \<Rightarrow> []) @ visible ignore (ib_coming ib)"
  by (induction ignore limit q ends t rule: receive_timed.induct) (auto split: option.splits if_splits)

lemma receive_timed_returns: "receive_timed ignore (Some d) q ends t \<noteq> None"
  by (induction q arbitrary: t) (auto split: option.split)


lemma receive_timed_now: "receive_timed ignore (Some d) (map (Pair 0) q) ends t =
  (case receive ignore q of
     (Some m, q') \<Rightarrow> Some (Some m, t, \<lparr>ib_coming = map (Pair 0) q', ib_ends = ends\<rparr>)
   | (None, q') \<Rightarrow> receive_timed ignore (Some d) [] ends t)"
  by (induction q) (auto simp del: receive_timed.simps(1) split: prod.split option.split)


definition sample_message :: pubsub_message where
  "sample_message = \<lparr>pm_kind = KMessage, pm_pattern = None, pm_channel = ''a'', pm_data = PubSubBytes ''x''\<rparr>"

definition sample_confirmation :: pubsub_message where
  "sample_confirmation = \<lparr>pm_kind = KSubscribe, pm_pattern = None, pm_channel = ''a'', pm_data = PubSubCount 1\<rparr>"

lemma message_timeout_Some: "message_timeout as_double timeout = Inr limit \<Longrightarrow> limit \<noteq> None"
  by (auto simp: message_timeout_def parse_timeout_def rbind_def split: if_splits sum.splits)


text \<open>On what is queued already it is the untimed \<open>get_message\<close> of the theory PubSub.\<close>

lemma get_message_now:
  assumes "po_open po" "message_timeout as_double timeout = Inr limit"
  shows "\<exists>t ib'. po_get_message as_double ignore timeout [] po (inbox_now s) =
      Some (fst (get_message (ignore \<or> po_ignore po) (ps_out s)), t, ib') \<and>
    map snd (ib_coming ib') = snd (get_message (ignore \<or> po_ignore po) (ps_out s))"
proof -
  obtain d where d: "limit = Some d" using message_timeout_Some [OF assms(2)] by auto
  obtain r q' where rq: "receive (ignore \<or> po_ignore po) (ps_out s) = (r, q')" by fastforce
  have "snd (receive ig q) = []" if "fst (receive ig q) = None" for ig q
    using that by (induction q) (auto split: if_splits)
  from this [of "ignore \<or> po_ignore po" "ps_out s"] have "r = None \<Longrightarrow> q' = []" using rq by simp
  with rq d assms show ?thesis
    by (cases r; cases "ps_alive s")
      (simp_all add: po_get_message_def get_message_def inbox_now_def receive_timed_now comp_def)
qed





text \<open>Without waits a pass with the mutex is a pass of \<open>receive_timed\<close>.\<close>

lemma elapse_0 [simp]: "elapse 0 q ends = (q, ends)"
  by (cases "(0 :: nat, q, ends)" rule: elapse.cases) (auto simp: option.map_ident)

lemma receive_unlocked:
  "receive_locked ignore limit (replicate n (Some 0)) q ends t = receive_timed ignore limit q ends t"
proof (induction n arbitrary: q t)
  case (Suc n)
  then show ?case
    by (cases q; cases limit; cases ends) (auto simp: receive_pass_def)
qed simp




text \<open>The mutex is awaited outside the timeout: a call with any timeout never returns while another
  thread waits in \<open>__next__\<close> on a connection where nothing is published any more.\<close>

lemma mutex_outlasts_timeout:
  assumes "po_open po" "message_timeout as_double timeout = Inr limit"
  shows "po_get_message as_double ignore timeout (None # hs) po ib = None"
    and "po_aget_message as_double ignore timeout (None # hs) po ib = None"
    and "\<exists>r t ib'. po_get_message as_double ignore timeout [Some h] po \<lparr>ib_coming = [], ib_ends = None\<rparr> = Some (r, t, ib') \<and> h < Suc t"
  using assms message_timeout_Some [OF assms(2)]
  by (auto simp: po_get_message_def po_aget_message_def receive_pass_def)

text \<open>The bound is reached: every skipped message starts the timeout anew.\<close>

lemma timeout_starts_anew:
  assumes "po_open po" "message_timeout as_double timeout = Inr (Some d)" "skipped ignore m"
  shows "po_get_message as_double ignore timeout [] po \<lparr>ib_coming = replicate n (d, m), ib_ends = None\<rparr> =
    Some (Inr PNone, d * Suc n, \<lparr>ib_coming = [], ib_ends = None\<rparr>)"
proof -
  have "receive_timed (ignore \<or> po_ignore po) (Some d) (replicate n (d, m)) None t =
      Some (None, t + d * Suc n, \<lparr>ib_coming = [], ib_ends = None\<rparr>)" for t
    using assms(3) by (induction n arbitrary: t) (auto simp: skipped_def algebra_simps)
  with assms(1,2) show ?thesis by (simp add: po_get_message_def)
qed

section \<open>Iteration\<close>

datatype iter_end = IterStopped | IterRaised pyerr | IterWaits | IterGoesOn

text \<open>The first \<open>n\<close> passes of \<open>for m in pubsub.listen()\<close>, in the only thread that receives.\<close>

fun for_loop :: "nat \<Rightarrow> pubsub_obj \<Rightarrow> inbox \<Rightarrow> pyval list \<times> iter_end" where
  "for_loop 0 po ib = ([], IterGoesOn)"
| "for_loop (Suc n) po ib =
     (case po_next [] po ib of
        None \<Rightarrow> ([], IterWaits)
      | Some (Inl e, _, ib) \<Rightarrow> ([], if e = PyErr PyStopIteration [] then IterStopped else IterRaised e)
      | Some (Inr v, _, ib) \<Rightarrow> (case for_loop n po ib of (vs, r) \<Rightarrow> (v # vs, r)))"

lemma receive_untimed:
  "receive_timed ignore None q ends t = None \<Longrightarrow> visible ignore q = [] \<and> ends = None"
  "receive_timed ignore None q ends t = Some (None, t', ib') \<Longrightarrow> visible ignore q = [] \<and> ends \<noteq> None"
  "receive_timed ignore None q ends t = Some (Some m, t', ib') \<Longrightarrow> ib_ends ib' = ends"
  by (induction q arbitrary: t) (auto split: option.splits if_splits)

lemma po_next_cases:
  assumes "po_open po"
  obtains (waits) "po_next [] po ib = None" "visible (po_ignore po) (ib_coming ib) = []" "ib_ends ib = None"
  | (stops) t ib' where "po_next [] po ib = Some (Inl (PyErr PyStopIteration []), t, ib')"
      "visible (po_ignore po) (ib_coming ib) = []" "ib_ends ib \<noteq> None"
  | (yields) m t ib' where "po_next [] po ib = Some (Inr (PDict (message_items m)), t, ib')"
      "visible (po_ignore po) (ib_coming ib) = m # visible (po_ignore po) (ib_coming ib')" "ib_ends ib' = ib_ends ib"
proof (cases "receive_timed (po_ignore po) None (ib_coming ib) (ib_ends ib) 0")
  case None
  then show thesis using waits receive_untimed(1) [OF None] assms by (simp add: po_next_def)
next
  case (Some p)
  obtain r t ib' where p: "p = (r, t, ib')" by (cases p)
  show thesis
  proof (cases r)
    case None
    then show thesis using stops receive_untimed(2) Some p assms by (fastforce simp: po_next_def)
  next
    case (Some m)
    with \<open>receive_timed _ _ _ _ _ = Some p\<close> p have rt:
      "receive_timed (po_ignore po) None (ib_coming ib) (ib_ends ib) 0 = Some (Some m, t, ib')" by simp
    show thesis
      using yields receive_untimed(3) [OF rt] receive_timed_visible [OF rt] rt assms
      by (simp add: po_next_def message_to_py_items)
  qed
qed

text \<open>(C39) Iteration: a loop over the messages of an open \<open>PubSub\<close>, in the only thread that receives from
  it, gets all those it is to see, once and in order, however long they take; it ends when the
  supervisor has ended, and waits on as long as it has not.\<close>
theorem iteration_complete:
  assumes "po_open po" "length (visible (po_ignore po) (ib_coming ib)) < n"
  shows "for_loop n po ib =
    (map (PDict \<circ> message_items) (visible (po_ignore po) (ib_coming ib)),
     if ib_ends ib = None then IterWaits else IterStopped)"
  using assms(2)
proof (induction n arbitrary: ib)
  case (Suc n)
  show ?case
    by (rule po_next_cases [OF assms(1), of ib]) (use Suc in auto)
qed simp

theorem iteration_complete_witness:
  "snd (for_loop 2 po_new \<lparr>ib_coming = [(5000000000, sample_message)], ib_ends = Some 0\<rparr>) = IterStopped"
  using iteration_complete [of po_new "\<lparr>ib_coming = [(5000000000, sample_message)], ib_ends = Some 0\<rparr>" 2]
  by (simp add: po_new_def)

text \<open>\<open>async for\<close> does not wait: \<open>__anext__\<close> gives \<open>None\<close> when nothing comes for a millisecond,
  also when the supervisor has ended, and so never stops on an object that is not closed.\<close>

lemma anext_does_not_wait:
  assumes "po_open po" "\<not> po_ignore po"
  shows "1000000 < t \<Longrightarrow> po_anext as_double [] po \<lparr>ib_coming = (t, m) # q, ib_ends = e\<rparr> =
      Some (Inr RNil, 1000000, \<lparr>ib_coming = (t - 1000000, m) # q, ib_ends = e\<rparr>)"
    and "po_anext as_double [] po \<lparr>ib_coming = [], ib_ends = Some 0\<rparr> =
      Some (Inr RNil, 0, \<lparr>ib_coming = [], ib_ends = Some 0\<rparr>)"
  using assms by (simp_all add: po_anext_def po_aget_message_def message_timeout_def)

text \<open>An infinite timeout, or NaN, panics.\<close>

lemma infinite_timeout_panics:
  "parse_timeout as_double (PFloat (F64 0x7FF0000000000000)) =
   Inl (PyErr PanicException ''cannot convert float seconds to Duration: value is either too big or NaN'')"
  by (simp add: parse_timeout_def extract_f64_def f64_nonpos_def from_secs_f64_def f64_value_def f64_is_nan_def)

section \<open>Closing while another thread waits\<close>

text \<open>A call in progress on the object in another thread.  PyO3 refuses \<open>&mut self\<close> while a
  method holds the object borrowed: \<open>get_message\<close> does for as long as it waits, \<open>__next__\<close> gives
  the borrow up first.\<close>

datatype call_in_progress = InGetMessage | InNext

definition holds_borrow :: "call_in_progress \<Rightarrow> bool" where
  "holds_borrow c = (case c of InGetMessage \<Rightarrow> True | InNext \<Rightarrow> False)"

definition pubsub_close ::
  "bridge_env \<Rightarrow> call_in_progress list \<Rightarrow> redis_error option \<Rightarrow> (nat \<Rightarrow> replay option) \<Rightarrow> pubsub_obj \<Rightarrow>
   pyerr option \<times> pubsub_obj" where
  "pubsub_close env calls net connect po =
     (if list_ex holds_borrow calls then (Some (PyErr PyRuntimeError ''Already borrowed''), po)
      else (None, ps_close env net connect po))"

text \<open>\<open>aclose\<close>: no awaitable method holds a borrow when it has returned.\<close>

definition po_aclose ::
  "bridge_env \<Rightarrow> redis_error option \<Rightarrow> (nat \<Rightarrow> replay option) \<Rightarrow> pubsub_obj \<Rightarrow> raw_result pyres \<times> pubsub_obj" where
  "po_aclose env net connect po = (Inr RNil, ps_close env net connect po)"

text \<open>The context manager and the iterators of the two classes: an object is its own iterator.
  \<open>__exit__\<close> is \<open>close\<close> whatever ended the block; its result is not true, so an exception goes on.\<close>

definition pubsub_enter :: "pubsub_obj \<Rightarrow> pubsub_obj" where
  "pubsub_enter po = po"

definition pubsub_exit ::
  "bridge_env \<Rightarrow> call_in_progress list \<Rightarrow> redis_error option \<Rightarrow> (nat \<Rightarrow> replay option) \<Rightarrow> pubsub_obj \<Rightarrow>
   pyerr option \<times> pubsub_obj" where
  "pubsub_exit env calls net connect po = pubsub_close env calls net connect po"

definition pubsub_iter :: "pubsub_obj \<Rightarrow> pubsub_obj" where
  "pubsub_iter po = po"

definition pubsub_listen :: "pubsub_obj \<Rightarrow> pubsub_obj" where
  "pubsub_listen po = po"

definition apubsub_listen :: "pubsub_obj \<Rightarrow> pubsub_obj" where
  "apubsub_listen po = po"

definition apubsub_aiter :: "pubsub_obj \<Rightarrow> pubsub_obj" where
  "apubsub_aiter po = po"

definition apubsub_subscribed :: "pubsub_obj \<Rightarrow> bool" where
  "apubsub_subscribed po \<longleftrightarrow>
     po_open po \<and> (channels (ps_subs (po_sys po)) \<noteq> [] \<or> patterns (ps_subs (po_sys po)) \<noteq> [] \<or>
                   shard_channels (ps_subs (po_sys po)) \<noteq> [])"

text \<open>\<open>Drop for PubSubBridge\<close>: an object that is collected without having been closed still ends its
  supervisor.\<close>

definition bridge_drop :: "bridge_env \<Rightarrow> redis_error option \<Rightarrow> (nat \<Rightarrow> replay option) \<Rightarrow> ps_sys \<Rightarrow> ps_sys" where
  "bridge_drop env net connect s = supervisor_step env (SupCommand Shutdown net connect) s"

text \<open>\<open>with r.pubsub() as p:\<close>, left with no other thread in a call, has closed the object; a drop
  does to the supervisor what \<open>close\<close> does, and keeps what had been received.\<close>

lemma with_pubsub_closes:
  assumes "\<not> list_ex holds_borrow calls"
  shows "fst (pubsub_exit env calls net connect (pubsub_enter po)) = None"
    and "\<not> po_open (snd (pubsub_exit env calls net connect (pubsub_enter po)))"
  using assms by (simp_all add: pubsub_exit_def pubsub_close_def pubsub_enter_def ps_close_def)

lemma exit_refused_while_waiting:
  "list_ex holds_borrow calls \<Longrightarrow>
   pubsub_exit env calls net connect po = (Some (PyErr PyRuntimeError ''Already borrowed''), po)"
  by (simp add: pubsub_exit_def pubsub_close_def)

lemma drop_ends_supervisor:
  "\<not> ps_alive (bridge_drop env net connect s) \<and> ps_out (bridge_drop env net connect s) = ps_out s \<and>
   ps_subs (bridge_drop env net connect s) = ps_subs s"
  by (simp add: bridge_drop_def)

lemma drop_after_close:
  "po_open po \<Longrightarrow> bridge_drop env net' connect' (po_sys (ps_close env net connect po)) = po_sys (ps_close env net connect po)"
  by (simp add: bridge_drop_def ps_close_def)

text \<open>A closed object stays closed, raises on every operation, and its supervisor has ended.\<close>

lemma closed_for_good:
  assumes "\<not> po_open po"
  shows "fst (ps_subscribe env f args kwargs net connect po) \<noteq> None"
    and "fst (ps_unsubscribe env f args net connect po) \<noteq> None"
    and "\<not> po_open (snd (ps_subscribe env f args kwargs net connect po))"
    and "\<not> po_open (snd (ps_unsubscribe env f args net connect po))"
    and "run_in_thread_check po = Some (PyErr PubSubError ''pubsub is closed'')"
    and "po_get_message as_double ignore timeout mutex po ib = Some (Inl (PyErr PubSubError ''pubsub is closed''), 0, ib)"
    and "po_next mutex po ib = Some (Inl (PyErr PyStopIteration []), 0, ib)"
    and "\<not> po_subscribed po" and "ps_close env net connect po = po"
  using assms
  by (auto simp: ps_subscribe_def ps_unsubscribe_def subscribe_names_def unsubscribe_names_def send_command_def
      set_handlers_def run_in_thread_check_def po_get_message_def po_next_def po_subscribed_def ps_close_def Let_def
      split: sum.split)

lemma close_ends_supervisor:
  "po_open po \<Longrightarrow> \<not> ps_alive (po_sys (ps_close env net connect po)) \<and> \<not> po_open (ps_close env net connect po)"
  by (simp add: ps_close_def)

section \<open>The worker thread\<close>

text \<open>\<open>threading.Thread\<close> is a parameter: \<open>start\<close> gives the started thread, \<open>join\<close> and \<open>alive\<close> are
  its methods.\<close>

record worker_thread =
  wt_thread :: "nat option"
  wt_running :: bool

definition run_in_thread :: "(bool \<Rightarrow> nat pyres) \<Rightarrow> bool \<Rightarrow> pubsub_obj \<Rightarrow> worker_thread pyres" where
  "run_in_thread start daemon po =
     (case run_in_thread_check po of
        Some e \<Rightarrow> Inl e
      | None \<Rightarrow> rbind (start daemon) (\<lambda>t. Inr \<lparr>wt_thread = Some t, wt_running = True\<rparr>))"

definition worker_stop :: "worker_thread \<Rightarrow> worker_thread" where
  "worker_stop wt = wt\<lparr>wt_running := False\<rparr>"

definition worker_join :: "(nat \<Rightarrow> f64 option \<Rightarrow> unit pyres) \<Rightarrow> f64 option \<Rightarrow> worker_thread \<Rightarrow> unit pyres" where
  "worker_join join timeout wt = (case wt_thread wt of Some t \<Rightarrow> join t timeout | None \<Rightarrow> Inr ())"

definition worker_is_alive :: "(nat \<Rightarrow> bool pyres) \<Rightarrow> worker_thread \<Rightarrow> bool pyres" where
  "worker_is_alive alive wt = (case wt_thread wt of Some t \<Rightarrow> alive t | None \<Rightarrow> Inr False)"

text \<open>What the loop of the thread works on, and the Python calls it makes.\<close>

record worker_world =
  ww_running :: bool
  ww_po :: pubsub_obj
  ww_inbox :: inbox

datatype py_call = CallHandler nat "(pyval \<times> pyval) list" | CallExceptionHandler nat pyerr

text \<open>\<open>call\<close> is what a call raises, if anything, and what it does.\<close>

type_synonym 'u caller = "py_call \<Rightarrow> 'u worker_world_scheme \<Rightarrow> pyerr option \<times> 'u worker_world_scheme"

datatype turn_end = Continue | Finished | Failed pyerr | WaitsForever

definition missing_item :: pyerr where
  "missing_item = PyErr PanicException ''called `Option::unwrap()` on a `None` value''"

definition item_of :: "(pyval \<Rightarrow> 'a pyres) \<Rightarrow> (pyval \<times> pyval) list \<Rightarrow> bytes \<Rightarrow> 'a pyres" where
  "item_of ext d k = (case dict_get d (PStr k) of Some v \<Rightarrow> ext v | None \<Rightarrow> Inl missing_item)"

definition handler_opt :: "pubsub_obj \<Rightarrow> (pyval \<times> pyval) list \<Rightarrow> nat option pyres" where
  "handler_opt po d =
     rbind (item_of extract_string d ''type'') (\<lambda>kind.
       if kind = ''message'' then rbind (item_of extract_bytes d ''channel'') (\<lambda>ch. Inr (po_handlers po Channels ch))
       else if kind = ''pmessage'' then
         rbind (item_of extract_bytes d ''pattern'') (\<lambda>pat. Inr (po_handlers po Patterns pat))
       else if kind = ''smessage'' then rbind (item_of extract_bytes d ''channel'') (\<lambda>ch. Inr (po_handlers po Shards ch))
       else Inr None)"

text \<open>An error is given to the exception handler, if there is one, whose own errors are ignored;
  otherwise it ends the thread.  A panic always does: PyO3 resumes it when it fetches the error.\<close>

definition handle_error ::
  "'u caller \<Rightarrow> nat option \<Rightarrow> pyerr \<Rightarrow> 'u worker_world_scheme \<Rightarrow> turn_end \<times> py_call list \<times> 'u worker_world_scheme" where
  "handle_error call exc_h e w =
     (case exc_h of
        Some h \<Rightarrow>
          (if err_class e = PanicException then (Failed e, [], w)
           else (Continue, [CallExceptionHandler h e], snd (call (CallExceptionHandler h e) w)))
      | None \<Rightarrow> (Failed e, [], w))"

definition dispatch_message ::
  "'u caller \<Rightarrow> nat option \<Rightarrow> (pyval \<times> pyval) list \<Rightarrow> 'u worker_world_scheme \<Rightarrow>
   turn_end \<times> py_call list \<times> 'u worker_world_scheme" where
  "dispatch_message call exc_h d w =
     (case handler_opt (ww_po w) d of
        Inl e \<Rightarrow> (Failed e, [], w)
      | Inr None \<Rightarrow> (Continue, [], w)
      | Inr (Some h) \<Rightarrow>
          (case call (CallHandler h d) w of
             (None, w) \<Rightarrow> (Continue, [CallHandler h d], w)
           | (Some e, w) \<Rightarrow> map_prod id (map_prod (Cons (CallHandler h d)) id) (handle_error call exc_h e w)))"

definition worker_turn ::
  "'u caller \<Rightarrow> (pyval \<Rightarrow> f64 pyres) \<Rightarrow> nat option \<Rightarrow> f64 \<Rightarrow> 'u worker_world_scheme \<Rightarrow>
   turn_end \<times> py_call list \<times> 'u worker_world_scheme" where
  "worker_turn call as_double exc_h sleep_time w =
     (if \<not> ww_running w then (Finished, [], w)
      else
        (case po_get_message as_double True (PFloat sleep_time) [] (ww_po w) (ww_inbox w) of
           None \<Rightarrow> (WaitsForever, [], w)
         | Some (Inl e, _, ib) \<Rightarrow> handle_error call exc_h e (w\<lparr>ww_inbox := ib\<rparr>)
         | Some (Inr msg, _, ib) \<Rightarrow>
             (case msg of
                PNone \<Rightarrow> (Continue, [], w\<lparr>ww_inbox := ib\<rparr>)
              | PDict d \<Rightarrow> dispatch_message call exc_h d (w\<lparr>ww_inbox := ib\<rparr>)
              | _ \<Rightarrow> (Failed (type_error ''not a dict''), [], w\<lparr>ww_inbox := ib\<rparr>))))"

text \<open>The loop; before each pass the other threads do something, but only this one receives.\<close>

fun worker_run ::
  "'u caller \<Rightarrow> (pyval \<Rightarrow> f64 pyres) \<Rightarrow> nat option \<Rightarrow> f64 \<Rightarrow> ('u worker_world_scheme \<Rightarrow> 'u worker_world_scheme) list \<Rightarrow>
   'u worker_world_scheme \<Rightarrow> turn_end \<times> py_call list \<times> 'u worker_world_scheme" where
  "worker_run call as_double exc_h sleep_time [] w = (Continue, [], w)"
| "worker_run call as_double exc_h sleep_time (others # fs) w =
     (case worker_turn call as_double exc_h sleep_time (others w) of
        (Continue, cs, w) \<Rightarrow>
          (case worker_run call as_double exc_h sleep_time fs w of (r, cs', w) \<Rightarrow> (r, cs @ cs', w))
      | (r, cs, w) \<Rightarrow> (r, cs, w))"


subsection \<open>Dispatching\<close>

definition message_handler :: "pubsub_obj \<Rightarrow> pubsub_message \<Rightarrow> nat option" where
  "message_handler po m =
     (case pm_kind m of
        KMessage \<Rightarrow> po_handlers po Channels (pm_channel m)
      | KPMessage \<Rightarrow> Option.bind (pm_pattern m) (po_handlers po Patterns)
      | KSMessage \<Rightarrow> po_handlers po Shards (pm_channel m)
      | _ \<Rightarrow> None)"

lemma handler_opt_message:
  "(pm_kind m = KPMessage \<Longrightarrow> pm_pattern m \<noteq> None) \<Longrightarrow>
   handler_opt po (message_items m) = Inr (message_handler po m)"
  by (cases "pm_kind m")
    (auto simp: handler_opt_def item_of_def message_items_def message_handler_def extract_string_def extract_bytes_def)

text \<open>A message the server sends because of a subscription in \<open>g\<close>.\<close>

definition deliverable :: "subscription_state \<Rightarrow> pubsub_message \<Rightarrow> bool" where
  "deliverable g m \<longleftrightarrow>
     (case pm_kind m of
        KMessage \<Rightarrow> pm_channel m \<in> set (channels g)
      | KPMessage \<Rightarrow> (case pm_pattern m of Some p \<Rightarrow> p \<in> set (patterns g) | None \<Rightarrow> False)
      | _ \<Rightarrow> False)"

lemma deliverable_handler:
  assumes "run_in_thread_check po = None" "deliverable (ps_subs (po_sys po)) m"
  obtains h where "message_handler po m = Some h" "handler_opt po (message_items m) = Inr (Some h)"
proof -
  from assms obtain h where "message_handler po m = Some h"
    by (cases "pm_kind m") (auto simp: run_in_thread_ok deliverable_def message_handler_def split: option.splits)
  moreover have "pm_kind m = KPMessage \<Longrightarrow> pm_pattern m \<noteq> None"
    using assms(2) by (auto simp: deliverable_def split: option.splits)
  ultimately show thesis using that handler_opt_message [of m po] by simp
qed

text \<open>The call a message leads to, and the calls of handlers among all calls.\<close>

definition handler_call :: "pubsub_obj \<Rightarrow> pubsub_message \<Rightarrow> py_call" where
  "handler_call po m = CallHandler (the (message_handler po m)) (message_items m)"

definition is_handler_call :: "py_call \<Rightarrow> bool" where
  "is_handler_call c = (case c of CallHandler _ _ \<Rightarrow> True | CallExceptionHandler _ _ \<Rightarrow> False)"

text \<open>Python code that leaves the pubsub object and the worker alone.\<close>

definition leaves_alone :: "('u worker_world_scheme \<Rightarrow> 'u worker_world_scheme) \<Rightarrow> bool" where
  "leaves_alone f \<longleftrightarrow>
     (\<forall>w. ww_running (f w) = ww_running w \<and> ww_po (f w) = ww_po w \<and> ww_inbox (f w) = ww_inbox w)"

text \<open>What Python code raises can be handled.\<close>

definition errors_handled :: "'u caller \<Rightarrow> nat option \<Rightarrow> bool" where
  "errors_handled call exc_h \<longleftrightarrow>
     (\<forall>c w e. fst (call c w) = Some e \<longrightarrow> exc_h \<noteq> None \<and> err_class e \<noteq> PanicException)"

text \<open>The passes with a timeout of \<open>d\<close> that suffice to receive all messages.\<close>

definition remaining :: "nat \<Rightarrow> (nat \<times> pubsub_message) list \<Rightarrow> nat" where
  "remaining d q = sum_list (map (\<lambda>(t, m). Suc (t div d)) q)"

lemma receive_timed_remaining:
  "receive_timed ignore (Some d) q ends t = Some (r, t', ib) \<Longrightarrow> 0 < d \<Longrightarrow>
   remaining d (ib_coming ib) < remaining d q \<or> q = [] \<and> ib_coming ib = []"
proof (induction q arbitrary: t)
  case (Cons p q)
  show ?case
  proof (cases p)
    case (Pair u m)
    then show ?thesis
      using Cons.prems Cons.IH [of "t + u"] by (auto simp: remaining_def le_div_geq split: if_splits)
  qed
qed (auto split: option.splits)

lemma dispatch_calm:
  assumes h: "handler_opt (ww_po w) d = Inr (Some h)"
    and calm: "\<forall>c. leaves_alone (\<lambda>w. snd (call c w))"
    and ok: "errors_handled call exc_h"
  obtains cs w' where "dispatch_message call exc_h d w = (Continue, cs, w')"
    "filter is_handler_call cs = [CallHandler h d]"
    "ww_running w' = ww_running w" "ww_po w' = ww_po w" "ww_inbox w' = ww_inbox w"
proof -
  have alone: "ww_running (snd (call c w)) = ww_running w \<and> ww_po (snd (call c w)) = ww_po w \<and>
      ww_inbox (snd (call c w)) = ww_inbox w" for c w
    using calm unfolding leaves_alone_def by blast
  obtain r w1 where c: "call (CallHandler h d) w = (r, w1)" by fastforce
  then have w1: "ww_running w1 = ww_running w" "ww_po w1 = ww_po w" "ww_inbox w1 = ww_inbox w"
    using alone [of "CallHandler h d" w] by simp_all
  show thesis
  proof (cases r)
    case None
    then show thesis using that w1 h c by (simp add: dispatch_message_def is_handler_call_def)
  next
    case (Some e)
    with ok c have "exc_h \<noteq> None" and mild: "err_class e \<noteq> PanicException"
      unfolding errors_handled_def by (metis fst_conv)+
    then obtain eh where eh: "exc_h = Some eh" by auto
    show thesis
      by (rule that [of "[CallHandler h d, CallExceptionHandler eh e]" "snd (call (CallExceptionHandler eh e) w1)"])
        (use alone [of "CallExceptionHandler eh e" w1] w1 in
          \<open>simp_all add: dispatch_message_def h c Some eh mild handle_error_def is_handler_call_def\<close>)
  qed
qed

lemma worker_turn_calm:
  assumes run: "ww_running w" and po: "po_open (ww_po w)" "run_in_thread_check (ww_po w) = None"
    and sleep: "message_timeout as_double (PFloat sleep_time) = Inr (Some d)" "0 < d"
    and ms: "list_all (deliverable (ps_subs (po_sys (ww_po w)))) (visible True (ib_coming (ww_inbox w)))"
    and calm: "\<forall>c. leaves_alone (\<lambda>w. snd (call c w))"
    and ok: "errors_handled call exc_h"
  obtains cs w' where "worker_turn call as_double exc_h sleep_time w = (Continue, cs, w')"
    "ww_running w'" "ww_po w' = ww_po w"
    "map (handler_call (ww_po w)) (visible True (ib_coming (ww_inbox w))) =
       filter is_handler_call cs @ map (handler_call (ww_po w)) (visible True (ib_coming (ww_inbox w')))"
    "set (visible True (ib_coming (ww_inbox w'))) \<subseteq> set (visible True (ib_coming (ww_inbox w)))"
    "remaining d (ib_coming (ww_inbox w')) < remaining d (ib_coming (ww_inbox w)) \<or> ib_coming (ww_inbox w') = []"
proof -
  let ?q = "ib_coming (ww_inbox w)" and ?e = "ib_ends (ww_inbox w)"
  obtain r t ib where rt: "receive_timed True (Some d) ?q ?e 0 = Some (r, t, ib)"
    using receive_timed_returns [of True d ?q ?e 0] by auto
  have seen: "visible True ?q = (case r of Some m \<Rightarrow> [m] | None \<Rightarrow> []) @ visible True (ib_coming ib)"
    by (rule receive_timed_visible [OF rt])
  have less: "remaining d (ib_coming ib) < remaining d ?q \<or> ib_coming ib = []"
    using receive_timed_remaining [OF rt sleep(2)] by auto
  have get: "po_get_message as_double True (PFloat sleep_time) [] (ww_po w) (ww_inbox w) =
      Some (case r of Some m \<Rightarrow> Inr (PDict (message_items m)) | None \<Rightarrow> Inr PNone, t, ib)"
    using po sleep rt by (simp add: po_get_message_def message_to_py_items split: option.split)
  show thesis
  proof (cases r)
    case None
    then show thesis
      using that [of "[]" "w\<lparr>ww_inbox := ib\<rparr>"] get run seen less by (simp add: worker_turn_def)
  next
    case (Some m)
    then have "deliverable (ps_subs (po_sys (ww_po w))) m" using ms seen by simp
    from deliverable_handler [OF po(2) this] obtain h
      where h: "message_handler (ww_po w) m = Some h" "handler_opt (ww_po w) (message_items m) = Inr (Some h)" .
    then have "handler_opt (ww_po (w\<lparr>ww_inbox := ib\<rparr>)) (message_items m) = Inr (Some h)" by simp
    then obtain cs w' where
      cs: "dispatch_message call exc_h (message_items m) (w\<lparr>ww_inbox := ib\<rparr>) = (Continue, cs, w')"
        "filter is_handler_call cs = [CallHandler h (message_items m)]"
      and w': "ww_running w' = ww_running (w\<lparr>ww_inbox := ib\<rparr>)" "ww_po w' = ww_po (w\<lparr>ww_inbox := ib\<rparr>)"
        "ww_inbox w' = ww_inbox (w\<lparr>ww_inbox := ib\<rparr>)"
      by (rule dispatch_calm [OF _ calm ok])
    from w' have "ww_running w'" "ww_po w' = ww_po w" "ww_inbox w' = ib" using run by simp_all
    moreover have "worker_turn call as_double exc_h sleep_time w = (Continue, cs, w')"
      using get run Some cs by (simp add: worker_turn_def)
    ultimately show thesis
      using that [of cs w'] seen Some less h cs by (simp add: handler_call_def subset_insertI)
  qed
qed


lemma worker_run_calm:
  assumes sleep: "message_timeout as_double (PFloat sleep_time) = Inr (Some d)" "0 < d"
    and calm: "\<forall>c. leaves_alone (\<lambda>w. snd (call c w))"
    and ok: "errors_handled call exc_h"
    and po: "po_open po" "run_in_thread_check po = None"
  shows "list_all leaves_alone fs \<Longrightarrow> ww_running w \<Longrightarrow> ww_po w = po \<Longrightarrow>
    list_all (deliverable (ps_subs (po_sys po))) (visible True (ib_coming (ww_inbox w))) \<Longrightarrow>
    \<exists>cs w' left. worker_run call as_double exc_h sleep_time fs w = (Continue, cs, w') \<and>
      map (handler_call po) (visible True (ib_coming (ww_inbox w))) = filter is_handler_call cs @ left \<and>
      (remaining d (ib_coming (ww_inbox w)) \<le> length fs \<longrightarrow> left = [])"
proof (induction fs arbitrary: w)
  case Nil
  then show ?case by (cases "ib_coming (ww_inbox w)") (auto simp: remaining_def)
next
  case (Cons f fs)
  have f: "ww_running (f w)" "ww_po (f w) = po" "ww_inbox (f w) = ww_inbox w"
    using Cons.prems by (simp_all add: leaves_alone_def)
  obtain cs w' where turn: "worker_turn call as_double exc_h sleep_time (f w) = (Continue, cs, w')"
    "ww_running w'" "ww_po w' = po"
    "map (handler_call po) (visible True (ib_coming (ww_inbox w))) =
       filter is_handler_call cs @ map (handler_call po) (visible True (ib_coming (ww_inbox w')))"
    "set (visible True (ib_coming (ww_inbox w'))) \<subseteq> set (visible True (ib_coming (ww_inbox w)))"
    "remaining d (ib_coming (ww_inbox w')) < remaining d (ib_coming (ww_inbox w)) \<or> ib_coming (ww_inbox w') = []"
    by (rule worker_turn_calm [where w = "f w", OF _ _ _ sleep _ calm ok]) (use f po Cons.prems in auto)
  have "list_all (deliverable (ps_subs (po_sys po))) (visible True (ib_coming (ww_inbox w')))"
    using turn(5) Cons.prems(4) unfolding list_all_iff by blast
  with Cons.IH [of w'] Cons.prems(1) turn(2,3) obtain cs' w'' left where
    "worker_run call as_double exc_h sleep_time fs w' = (Continue, cs', w'')"
    "map (handler_call po) (visible True (ib_coming (ww_inbox w'))) = filter is_handler_call cs' @ left"
    "remaining d (ib_coming (ww_inbox w')) \<le> length fs \<longrightarrow> left = []"
    by auto
  with turn show ?case by (auto simp: remaining_def)
qed

lemma worker_turn_returns: "fst (worker_turn call as_double exc_h sleep_time w) \<noteq> WaitsForever"
proof (cases "po_get_message as_double True (PFloat sleep_time) [] (ww_po w) (ww_inbox w)")
  case None
  then show ?thesis
    by (auto simp: po_get_message_def receive_timed_returns split: if_splits sum.splits dest!: message_timeout_Some)
next
  case (Some p)
  then show ?thesis
    by (cases p)
      (auto simp: worker_turn_def handle_error_def dispatch_message_def split: sum.split pyval.split option.split prod.split)
qed

text \<open>The worker thread: started on an object whose subscriptions all have handlers, it passes
  every message of a subscription to a handler of its channel or pattern, once and in the order of
  arrival; with enough passes all of them, and it goes on running.  This holds as long as nobody
  else works on the object, also when handlers raise, provided there is an exception handler.\<close>
theorem worker_dispatches:
  assumes "run_in_thread start daemon (ww_po w) = Inr wt" "ww_running w"
    and "message_timeout as_double (PFloat sleep_time) = Inr (Some d)" "0 < d"
    and "\<forall>c. leaves_alone (\<lambda>w. snd (call c w))" "errors_handled call exc_h"
    and "list_all leaves_alone fs"
    and "list_all (deliverable (ps_subs (po_sys (ww_po w)))) (visible True (ib_coming (ww_inbox w)))"
  shows "\<exists>cs w' left. worker_run call as_double exc_h sleep_time fs w = (Continue, cs, w') \<and>
    map (handler_call (ww_po w)) (visible True (ib_coming (ww_inbox w))) = filter is_handler_call cs @ left \<and>
    (if remaining d (ib_coming (ww_inbox w)) \<le> length fs then left = [] else True)"
proof -
  have "run_in_thread_check (ww_po w) = None" using assms(1) by (simp add: run_in_thread_def split: option.splits)
  moreover from this have "po_open (ww_po w)" by (simp add: run_in_thread_ok)
  ultimately show ?thesis
    using worker_run_calm [OF assms(3-6), of "ww_po w" fs w] assms by (simp add: if_bool_eq_conj)
qed

definition sample_subscribed :: pubsub_obj where
  "sample_subscribed = snd (pubsub_subscribe sample_env [] [(''a'', 7)] None good_connect po_new)"

definition sample_world :: worker_world where
  "sample_world =
     \<lparr>ww_running = True, ww_po = sample_subscribed,
      ww_inbox = \<lparr>ib_coming = [(0, sample_confirmation), (2500000, sample_message)], ib_ends = None\<rparr>\<rparr>"

lemma sample_subscribed_state:
  "po_open sample_subscribed" "ps_subs (po_sys sample_subscribed) = \<lparr>channels = [''a''], patterns = [], shard_channels = []\<rparr>"
  "po_handlers sample_subscribed Channels = [''a'' \<mapsto> 7]" "run_in_thread_check sample_subscribed = None"
  by (simp_all add: sample_subscribed_def pubsub_subscribe_def ps_subscribe_def subscribe_names_def send_command_def
      po_new_def set_handlers_def ps_spawn_def subscribe_command_def handle_command_def Let_def no_subscriptions_def
      add_names_def run_in_thread_ok)

lemma no_wait: "message_timeout as_double (PFloat (F64 0)) = Inr (Some 1000000)"
  by (simp add: message_timeout_def parse_timeout_def extract_f64_def f64_nonpos_def f64_value_def)

theorem worker_dispatches_witness:
  "\<exists>cs w'. worker_run (\<lambda>c w. (None, w)) (\<lambda>_. Inl unhashable) None (F64 0) (replicate 4 (\<lambda>w. w)) sample_world =
     (Continue, cs, w') \<and> [CallHandler 7 (message_items sample_message)] = filter is_handler_call cs"
  using worker_dispatches [where start = "\<lambda>_. Inr 1" and daemon = False and w = sample_world
      and wt = "\<lparr>wt_thread = Some 1, wt_running = True\<rparr>" and sleep_time = "F64 0" and d = 1000000
      and as_double = "\<lambda>_. Inl unhashable" and call = "\<lambda>c w. (None, w)" and exc_h = None
      and fs = "replicate 4 (\<lambda>w. w)"]
  by (simp add: sample_world_def sample_subscribed_state run_in_thread_def no_wait leaves_alone_def errors_handled_def list_all_iff
      skipped_def is_subscribe_confirmation_def sample_confirmation_def sample_message_def deliverable_def
      handler_call_def message_handler_def remaining_def)

text \<open>Stopping the worker: from the first pass on that finds the flag cleared it makes no call,
  and the loop has ended; a pass never waits for ever, whatever the handlers and the other threads
  do, as long as none of them receives from the object.\<close>
theorem worker_stops:
  assumes "\<And>w. \<not> ww_running (stop w)"
  shows "fst (worker_run call as_double exc_h sleep_time (fs @ stop # gs) w) \<noteq> Continue \<and>
    fst (worker_run call as_double exc_h sleep_time fs w) \<noteq> WaitsForever \<and>
    (if fst (worker_run call as_double exc_h sleep_time fs w) = Continue
     then worker_run call as_double exc_h sleep_time (fs @ stop # gs) w =
       (Finished, fst (snd (worker_run call as_double exc_h sleep_time fs w)),
        stop (snd (snd (worker_run call as_double exc_h sleep_time fs w))))
     else worker_run call as_double exc_h sleep_time (fs @ stop # gs) w =
       worker_run call as_double exc_h sleep_time fs w)"
proof (induction fs arbitrary: w)
  case Nil
  then show ?case using assms [of w] by (simp add: worker_turn_def)
next
  case (Cons f fs)
  obtain r cs w' where turn: "worker_turn call as_double exc_h sleep_time (f w) = (r, cs, w')" by (cases "worker_turn call as_double exc_h sleep_time (f w)")
  have "r \<noteq> WaitsForever" using worker_turn_returns [of call as_double exc_h sleep_time "f w"] turn by simp
  with turn Cons.IH [of w'] show ?case by (cases r) (auto split: prod.split)
qed

theorem worker_stops_witness:
  "fst (worker_run (\<lambda>c w. (None, w)) (\<lambda>_. Inl unhashable) None (F64 0) [\<lambda>w. w, ww_running_update (\<lambda>_. False)] sample_world) \<noteq>
     Continue"
  using worker_stops [where stop = "ww_running_update (\<lambda>_. False)" and fs = "[\<lambda>w. w]" and gs = "[]"
      and call = "\<lambda>c w. (None, w)" and as_double = "\<lambda>_. Inl unhashable" and exc_h = None and sleep_time = "F64 0"
      and w = sample_world]
  by simp

text \<open>With an exception handler, a closed object keeps the thread calling the handler without
  pause.\<close>

lemma closed_busy_loop:
  assumes "list_all leaves_alone fs" "\<forall>c. leaves_alone (\<lambda>w. snd (call c w))"
  shows "ww_running w \<Longrightarrow> \<not> po_open (ww_po w) \<Longrightarrow>
    \<exists>w'. worker_run call as_double (Some h) sleep_time fs w =
      (Continue, replicate (length fs) (CallExceptionHandler h (PyErr PubSubError ''pubsub is closed'')), w')"
  using assms(1)
proof (induction fs arbitrary: w)
  case (Cons f fs)
  let ?c = "CallExceptionHandler h (PyErr PubSubError ''pubsub is closed'')"
  have f: "ww_running (f w)" "\<not> po_open (ww_po (f w))" using Cons.prems by (simp_all add: leaves_alone_def)
  define w' where "w' = snd (call ?c (f w\<lparr>ww_inbox := ww_inbox (f w)\<rparr>))"
  have turn: "worker_turn call as_double (Some h) sleep_time (f w) = (Continue, [?c], w')"
    using f by (simp add: worker_turn_def po_get_message_def handle_error_def w'_def)
  have "ww_running w'" "\<not> po_open (ww_po w')"
    using f assms(2) unfolding w'_def leaves_alone_def by simp_all
  with Cons.IH [of w'] Cons.prems turn show ?case by auto
qed simp

text \<open>Without one, the first error ends the thread.\<close>

lemma error_ends_thread:
  "ww_running w \<Longrightarrow> \<not> po_open (ww_po w) \<Longrightarrow>
   worker_turn call as_double None sleep_time w = (Failed (PyErr PubSubError ''pubsub is closed''), [], w)"
  by (simp add: worker_turn_def po_get_message_def handle_error_def)

text \<open>\<open>close\<close> raises while a \<open>get_message\<close> is waiting, as the one of the worker thread nearly always
  is.\<close>

lemma close_refused_while_waiting:
  "InGetMessage \<in> set calls \<Longrightarrow>
   pubsub_close env calls net connect po = (Some (PyErr PyRuntimeError ''Already borrowed''), po)"
  by (auto simp: pubsub_close_def holds_borrow_def list_ex_iff split: call_in_progress.split)

section \<open>From the server to the handlers\<close>

text \<open>A message the server sends for one of the subscriptions \<open>g\<close>, and the call it is to lead to.\<close>

definition addressed :: "subscription_state \<Rightarrow> redis_msg \<Rightarrow> bool" where
  "addressed g m \<longleftrightarrow>
     (if rm_from_pattern m then (case rm_pattern m of Some p \<Rightarrow> p \<in> set (patterns g) | None \<Rightarrow> False)
      else rm_channel m \<in> set (channels g))"

definition expected_call :: "pubsub_obj \<Rightarrow> redis_msg \<Rightarrow> py_call" where
  "expected_call po m =
     (if rm_from_pattern m
      then CallHandler (the (po_handlers po Patterns (the (rm_pattern m))))
        [(PStr ''type'', PStr ''pmessage''), (PStr ''pattern'', PBytes (the (rm_pattern m))),
         (PStr ''channel'', PBytes (rm_channel m)), (PStr ''data'', PBytes (rm_payload m))]
      else CallHandler (the (po_handlers po Channels (rm_channel m)))
        [(PStr ''type'', PStr ''message''), (PStr ''pattern'', PNone),
         (PStr ''channel'', PBytes (rm_channel m)), (PStr ''data'', PBytes (rm_payload m))])"

lemma addressed_forward:
  assumes "addressed g m"
  shows "deliverable g (forward_message m)" "handler_call po (forward_message m) = expected_call po m"
    "\<not> skipped True (forward_message m)"
  using assms
  by (auto simp: addressed_def deliverable_def forward_message_def handler_call_def message_handler_def
      expected_call_def message_items_def skipped_def is_subscribe_confirmation_def split: option.splits)

lemma messages_queued:
  "ps_alive s \<Longrightarrow> fold (\<lambda>m. supervisor_step env (SupMessage m)) msgs s = s\<lparr>ps_out := ps_out s @ map forward_message msgs\<rparr>"
  by (induction msgs arbitrary: s) auto

lemma remaining_now: "remaining d (ib_coming (inbox_now s)) = length (ps_out s)"
  by (simp add: remaining_def inbox_now_def comp_def sum_list_triv)

lemma visible_now: "visible ig (ib_coming (inbox_now s)) = filter (\<lambda>m. \<not> skipped ig m) (ps_out s)"
  by (simp add: inbox_now_def comp_def)

text \<open>(C40) The way of a message, from the server through the supervisor and its queue to the worker
  thread: on an object for which \<open>run_in_thread\<close> has started a worker, every message that the
  server sends for one of the subscriptions ends in one call of the handler registered for its
  channel or pattern, with the message as redis-py presents it, in the order sent; the
  confirmations that were queued before are passed over.  This holds for handlers that leave the
  object alone and, when they raise, are caught by an exception handler, while only the worker
  receives from the object.\<close>
theorem published_messages_handled:
  assumes "run_in_thread start daemon po = Inr wt" "ps_alive (po_sys po)"
    and "list_all (skipped True) (ps_out (po_sys po))" "list_all (addressed (ps_subs (po_sys po))) msgs"
    and "s = fold (\<lambda>m. supervisor_step env (SupMessage m)) msgs (po_sys po)"
    and "message_timeout as_double (PFloat sleep_time) = Inr (Some d)" "0 < d"
    and "\<forall>c. leaves_alone (\<lambda>w. snd (call c w))" "errors_handled call exc_h"
    and "list_all leaves_alone fs" "length (ps_out s) \<le> length fs"
    and "ww_running w" "ww_po w = po\<lparr>po_sys := s\<rparr>" "ww_inbox w = inbox_now s"
  shows "\<exists>cs w'. worker_run call as_double exc_h sleep_time fs w = (Continue, cs, w') \<and>
    filter is_handler_call cs = map (expected_call po) msgs"
proof -
  let ?po = "po\<lparr>po_sys := s\<rparr>"
  have s: "s = po_sys po\<lparr>ps_out := ps_out (po_sys po) @ map forward_message msgs\<rparr>"
    using assms(5) messages_queued [OF assms(2)] by simp
  have check: "run_in_thread_check po = None" using assms(1) by (simp add: run_in_thread_def split: option.splits)
  then have po: "po_open ?po" "run_in_thread_check ?po = None" by (simp_all add: run_in_thread_ok s)
  have no_old: "filter (\<lambda>m. \<not> skipped True m) (ps_out (po_sys po)) = []"
    using assms(3) by (simp add: list_all_iff filter_empty_conv)
  have new: "filter (\<lambda>m. \<not> skipped True m) (map forward_message msgs) = map forward_message msgs"
    using addressed_forward(3) [of "ps_subs (po_sys po)"] assms(4) by (simp add: list_all_iff)
  have vis: "visible True (ib_coming (ww_inbox w)) = map forward_message msgs"
    unfolding assms(14) visible_now s using no_old new by simp
  have "list_all (deliverable (ps_subs (po_sys ?po))) (map forward_message msgs)"
    using assms(4) by (auto simp: s list_all_iff addressed_forward)
  with worker_run_calm [OF assms(6-9) po assms(10,12,13)] vis obtain cs w' left where
    run: "worker_run call as_double exc_h sleep_time fs w = (Continue, cs, w')"
      "map (handler_call ?po) (map forward_message msgs) = filter is_handler_call cs @ left"
      "remaining d (ib_coming (ww_inbox w)) \<le> length fs \<longrightarrow> left = []"
    by auto
  have "handler_call ?po (forward_message m) = expected_call po m" if "m \<in> set msgs" for m
    using assms(4) that addressed_forward(2) [of "ps_subs (po_sys po)" m ?po]
    by (simp add: list_all_iff expected_call_def)
  then have "map (handler_call ?po) (map forward_message msgs) = map (expected_call po) msgs" by simp
  with run assms(11) show ?thesis by (auto simp: assms(14) remaining_now)
qed

definition sample_published :: redis_msg where
  "sample_published = \<lparr>rm_channel = ''a'', rm_payload = ''x'', rm_from_pattern = False, rm_pattern = None\<rparr>"

definition sample_queued :: ps_sys where
  "sample_queued = fold (\<lambda>m. supervisor_step sample_env (SupMessage m)) [sample_published, sample_published]
     (po_sys sample_subscribed)"

theorem published_messages_handled_witness:
  "\<exists>cs w'. worker_run (\<lambda>c w. (None, w)) (\<lambda>_. Inl unhashable) None (F64 0) (replicate 3 (\<lambda>w. w))
     \<lparr>ww_running = True, ww_po = sample_subscribed\<lparr>po_sys := sample_queued\<rparr>, ww_inbox = inbox_now sample_queued\<rparr> =
     (Continue, cs, w') \<and> filter is_handler_call cs = replicate 2 (expected_call sample_subscribed sample_published)"
proof -
  have old: "ps_alive (po_sys sample_subscribed)" "ps_out (po_sys sample_subscribed) = [sample_confirmation]"
    by (simp_all add: sample_subscribed_def pubsub_subscribe_def ps_subscribe_def subscribe_names_def send_command_def
        po_new_def set_handlers_def ps_spawn_def subscribe_command_def handle_command_def Let_def no_subscriptions_def
        add_names_def subscribe_confirmations_def subscriber_count_def sample_confirmation_def)
  then have "length (ps_out sample_queued) = 3" by (simp add: sample_queued_def)
  moreover have "skipped True sample_confirmation" "addressed (ps_subs (po_sys sample_subscribed)) sample_published"
    by (simp_all add: skipped_def sample_confirmation_def is_subscribe_confirmation_def addressed_def sample_published_def
        sample_subscribed_state)
  ultimately show ?thesis
    using published_messages_handled [where start = "\<lambda>_. Inr 1" and daemon = False and po = sample_subscribed
        and wt = "\<lparr>wt_thread = Some 1, wt_running = True\<rparr>" and msgs = "[sample_published, sample_published]"
        and s = sample_queued and env = sample_env and as_double = "\<lambda>_. Inl unhashable" and sleep_time = "F64 0"
        and d = 1000000 and call = "\<lambda>c w. (None, w)" and exc_h = None and fs = "replicate 3 (\<lambda>w. w)"
        and w = "\<lparr>ww_running = True, ww_po = sample_subscribed\<lparr>po_sys := sample_queued\<rparr>,
                   ww_inbox = inbox_now sample_queued\<rparr>"]
    by (simp add: old no_wait leaves_alone_def errors_handled_def list_all_iff run_in_thread_def sample_subscribed_state sample_queued_def
        numeral_2_eq_2)
qed

end
