(* ===== verification/Url.thy ===== *)
theory Url
  imports Utf8 PyModel
begin

text \<open>
  Connection URLs: \<open>parse_url\<close>, \<open>percent_decode\<close>, \<open>FacadeConfig::to_url\<close> and the kwargs
  \<open>from_url\<close> merges (\<open>facade/sync.rs\<close>), \<open>url_with_resp3\<close> (\<open>connection.rs\<close>), and the
  start-up URLs of a cluster (\<open>resolve_startup_urls\<close>, \<open>inject_userinfo\<close> in
  \<open>facade/cluster.rs\<close>).  The errors are the three \<open>ValueError\<close>s of \<open>parse_url\<close> without
  their texts.
\<close>

section \<open>Configurations\<close>

record url_config =
  uc_host :: bytes
  uc_port :: u16
  uc_db :: i64
  uc_username :: "bytes option"
  uc_password :: "bytes option"
  uc_ssl :: bool

record facade_config =
  fc_host :: bytes
  fc_port :: u16
  fc_db :: i64
  fc_password :: "bytes option"
  fc_username :: "bytes option"
  fc_ssl :: bool

datatype url_error = BadUrl | BadScheme | BadPort

section \<open>Percent decoding\<close>

definition to_digit16 :: "char \<Rightarrow> nat option" where
  "to_digit16 c =
     (let n = octet c in
      if 48 \<le> n \<and> n \<le> 57 then Some (n - 48)
      else if 97 \<le> n \<and> n \<le> 102 then Some (n - 87)
      else if 65 \<le> n \<and> n \<le> 70 then Some (n - 55)
      else None)"

fun percent_octets :: "bytes \<Rightarrow> bytes" where
  "percent_octets (c # h # l # s) =
     (if c = CHR ''%'' then
        (case (to_digit16 h, to_digit16 l) of
           (Some x, Some y) \<Rightarrow> char_of (x * 16 + y) # percent_octets s
         | _ \<Rightarrow> c # percent_octets (h # l # s))
      else c # percent_octets (h # l # s))"
| "percent_octets s = s"

definition percent_decode :: "bytes \<Rightarrow> bytes" where
  "percent_decode s = utf8_lossy (percent_octets s)"

section \<open>Parsing\<close>

definition strip_slash :: "bytes \<Rightarrow> bytes option" where
  "strip_slash s = (case s of c # p \<Rightarrow> if c = CHR ''/'' then Some p else None | [] \<Rightarrow> None)"

text \<open>The authority: user info before the last \<open>@\<close>, and the rest.\<close>

definition split_authority :: "bytes \<Rightarrow> bytes option \<times> bytes" where
  "split_authority a =
     (case rsplit_once CHR ''@'' a of Some (u, h) \<Rightarrow> (Some u, h) | None \<Rightarrow> (None, a))"

definition set_userinfo :: "bytes option \<Rightarrow> url_config \<Rightarrow> url_config" where
  "set_userinfo userinfo cfg =
     (case userinfo of
        None \<Rightarrow> cfg
      | Some u \<Rightarrow>
          (let (user, pass) =
             (case split_once CHR '':'' u of Some (a, b) \<Rightarrow> (a, Some b) | None \<Rightarrow> (u, None)) in
           cfg\<lparr>uc_username := (if user = [] then None else Some (percent_decode user)),
               uc_password := map_option percent_decode pass\<rparr>))"

definition set_host :: "bool \<Rightarrow> bytes \<Rightarrow> url_config \<Rightarrow> url_error + url_config" where
  "set_host is_unix host_port cfg =
     (if is_unix then Inr (cfg\<lparr>uc_host := host_port\<rparr>)
      else
        (case rsplit_once CHR '':'' host_port of
           Some (h, p) \<Rightarrow>
             (case parse_unsigned 16 p of
                Some n \<Rightarrow> Inr (cfg\<lparr>uc_host := h, uc_port := of_nat n\<rparr>)
              | None \<Rightarrow> Inl BadPort)
         | None \<Rightarrow>
             if host_port \<noteq> [] then Inr (cfg\<lparr>uc_host := host_port\<rparr>)
             else Inr (cfg\<lparr>uc_host := ''localhost''\<rparr>)))"

definition set_db :: "bytes \<Rightarrow> url_config \<Rightarrow> url_config" where
  "set_db s cfg =
     (case parse_signed 64 s of Some d \<Rightarrow> cfg\<lparr>uc_db := word_of_int d\<rparr> | None \<Rightarrow> cfg)"

definition set_query_pair :: "bytes \<Rightarrow> url_config \<Rightarrow> url_config" where
  "set_query_pair pair cfg =
     (let (k, v) = (case split_once CHR ''='' pair of Some kv \<Rightarrow> kv | None \<Rightarrow> (pair, [])) in
      if k = ''db'' then set_db v cfg
      else if k = ''password'' then cfg\<lparr>uc_password := Some (percent_decode v)\<rparr>
      else if k = ''username'' then cfg\<lparr>uc_username := Some (percent_decode v)\<rparr>
      else cfg)"

definition set_path_query :: "bytes \<Rightarrow> url_config \<Rightarrow> url_config" where
  "set_path_query path_and_query cfg =
     (let (path, query) =
        (case split_once CHR ''?'' path_and_query of
           Some (p, q) \<Rightarrow> (p, Some q) | None \<Rightarrow> (path_and_query, None));
        cfg = (case strip_slash path of
                 Some p \<Rightarrow> if p \<noteq> [] then set_db p cfg else cfg
               | None \<Rightarrow> cfg)
      in case query of Some q \<Rightarrow> fold set_query_pair (split_on CHR ''&'' q) cfg | None \<Rightarrow> cfg)"

definition parse_scheme :: "bytes \<Rightarrow> (bool \<times> bool) option" where
  "parse_scheme scheme =
     (if scheme = ''redis'' then Some (False, False)
      else if scheme = ''rediss'' then Some (True, False)
      else if scheme = ''unix'' then Some (False, True)
      else None)"

definition split_path :: "bytes \<Rightarrow> bytes \<times> bytes" where
  "split_path rest =
     (case split_once CHR ''/'' rest of Some (a, p) \<Rightarrow> (a, CHR ''/'' # p) | None \<Rightarrow> (rest, []))"

definition parse_url :: "bytes \<Rightarrow> url_error + url_config" where
  "parse_url input =
     (case split_once_str ''://'' input of
        None \<Rightarrow> Inl BadUrl
      | Some (scheme, rest) \<Rightarrow>
          (case parse_scheme scheme of
             None \<Rightarrow> Inl BadScheme
           | Some (ssl, is_unix) \<Rightarrow>
               (let (authority, path_and_query) = split_path rest;
                    (userinfo, host_port) = split_authority authority;
                    cfg = \<lparr>uc_host = [], uc_port = 6379, uc_db = 0, uc_username = None,
                           uc_password = None, uc_ssl = ssl\<rparr>
                in rbind (set_host is_unix host_port (set_userinfo userinfo cfg))
                     (\<lambda>cfg. Inr (set_path_query path_and_query cfg)))))"

section \<open>Rendering\<close>

definition userinfo_text :: "bytes option \<Rightarrow> bytes option \<Rightarrow> bytes" where
  "userinfo_text user pw =
     (case (user, pw) of
        (Some u, Some p) \<Rightarrow> u @ '':'' @ p @ ''@''
      | (None, Some p) \<Rightarrow> '':'' @ p @ ''@''
      | (Some u, None) \<Rightarrow> u @ ''@''
      | (None, None) \<Rightarrow> [])"

definition to_url :: "facade_config \<Rightarrow> bytes" where
  "to_url c =
     (if fc_ssl c then ''rediss'' else ''redis'') @ ''://'' @
     userinfo_text (fc_username c) (fc_password c) @
     fc_host c @ '':'' @ show_nat (unat (fc_port c)) @ ''/'' @ show_int (sint (fc_db c))"

definition url_with_resp3 :: "bytes \<Rightarrow> bytes" where
  "url_with_resp3 url =
     (if contains_str ''protocol='' url then url
      else
        (let (base, fragment) =
           (case split_once CHR ''#'' url of Some (b, f) \<Rightarrow> (b, Some f) | None \<Rightarrow> (url, None));
           sep = (if CHR ''?'' \<in> set base then CHR ''&'' else CHR ''?'')
         in base @ sep # ''protocol=resp3'' @
            (case fragment of Some f \<Rightarrow> CHR ''#'' # f | None \<Rightarrow> [])))"

definition inject_userinfo :: "bytes \<Rightarrow> bytes option \<Rightarrow> bytes option \<Rightarrow> bytes" where
  "inject_userinfo url user pw =
     (case split_once_str ''://'' url of
        None \<Rightarrow> url
      | Some (scheme, rest) \<Rightarrow> scheme @ ''://'' @ userinfo_text user pw @ rest)"

definition node_url :: "bytes \<Rightarrow> u16 \<Rightarrow> bytes" where
  "node_url host port = ''redis://'' @ host @ '':'' @ show_nat (unat port)"

text \<open>\<open>None\<close> is the \<open>DataError\<close> "RedisCluster requires one of ...".\<close>

definition resolve_startup_urls ::
  "bytes option \<Rightarrow> u16 \<Rightarrow> (bytes \<times> u16) list option \<Rightarrow> bytes option \<Rightarrow> bytes list option" where
  "resolve_startup_urls host port startup_nodes url =
     (case url of
        Some u \<Rightarrow> Some [u]
      | None \<Rightarrow>
          (case startup_nodes of
             Some (n # ns) \<Rightarrow> Some (map (\<lambda>(h, p). node_url h p) (n # ns))
           | _ \<Rightarrow> (case host of Some h \<Rightarrow> Some [node_url h port] | None \<Rightarrow> None)))"

section \<open>Client construction\<close>

text \<open>The \<open>db\<close> argument of \<open>Redis(...)\<close>: an \<open>int\<close> that fits, or a \<open>str\<close> holding one;
  anything else is database 0.\<close>

definition coerce_db :: "pyval option \<Rightarrow> i64" where
  "coerce_db db =
     (case db of
        None \<Rightarrow> 0
      | Some (PInt i) \<Rightarrow> (if - (2 ^ 63) \<le> i \<and> i < 2 ^ 63 then word_of_int i else 0)
      | Some (PBool b) \<Rightarrow> of_bool b
      | Some (PStr s) \<Rightarrow> (case parse_signed 64 s of Some i \<Rightarrow> word_of_int i | None \<Rightarrow> 0)
      | Some _ \<Rightarrow> 0)"

text \<open>The keyword arguments \<open>from_url\<close> calls the class with.\<close>

definition from_url_kwargs :: "url_config \<Rightarrow> (pyval \<times> pyval) list \<Rightarrow> (pyval \<times> pyval) list" where
  "from_url_kwargs cfg kwargs =
     (let kw = dict_upd (PStr ''host'') (PStr (uc_host cfg)) kwargs;
          kw = dict_upd (PStr ''port'') (PInt (uint (uc_port cfg))) kw;
          kw = dict_upd (PStr ''db'') (PInt (sint (uc_db cfg))) kw;
          kw = (case uc_password cfg of
                  Some p \<Rightarrow> dict_upd (PStr ''password'') (PStr p) kw | None \<Rightarrow> kw);
          kw = (case uc_username cfg of
                  Some u \<Rightarrow> dict_upd (PStr ''username'') (PStr u) kw | None \<Rightarrow> kw)
      in if uc_ssl cfg then dict_upd (PStr ''ssl'') (PBool True) kw else kw)"

lemma dict_get_upd_str:
  "dict_get (dict_upd (PStr k) v d) (PStr k') = (if k' = k then Some v else dict_get d (PStr k'))"
  by (induction d) auto

interpretation str_dict: insert_map "\<lambda>d k. dict_get d (PStr k)" "\<lambda>k. dict_upd (PStr k)"
  by unfold_locales (rule dict_get_upd_str)

text \<open>The URL's host, port and database always win over keyword arguments, also when the URL
  does not mention them; \<open>coerce_db\<close> reads back the number.\<close>

lemma from_url_overrides:
  "dict_get (from_url_kwargs cfg kwargs) (PStr ''host'') = Some (PStr (uc_host cfg))"
  "dict_get (from_url_kwargs cfg kwargs) (PStr ''port'') = Some (PInt (uint (uc_port cfg)))"
  "coerce_db (dict_get (from_url_kwargs cfg kwargs) (PStr ''db'')) = uc_db cfg"
  using sint_ge [of "uc_db cfg"] sint_lt [of "uc_db cfg"]
  by (simp_all add: from_url_kwargs_def Let_def str_dict.lookup_insert coerce_db_def split: option.splits)

section \<open>Round trip\<close>

lemma percent_octets_plain: "CHR ''%'' \<notin> set s \<Longrightarrow> percent_octets s = s"
  by (induction s rule: percent_octets.induct) auto

lemma percent_decode_plain: "CHR ''%'' \<notin> set s \<Longrightarrow> valid_utf8 s \<Longrightarrow> percent_decode s = s"
  by (simp add: percent_decode_def percent_octets_plain)

lemma not_in_show_nat [simp]: "digit_val c = None \<Longrightarrow> c \<notin> set (show_nat n)"
  using show_nat_digits by blast

lemma not_in_show_int [simp]: "digit_val c = None \<Longrightarrow> c \<noteq> CHR ''-'' \<Longrightarrow> c \<notin> set (show_int i)"
  by (simp add: show_int_def)

lemma show_int_not_Nil [simp]: "show_int i \<noteq> []"
  by (simp add: show_int_def)

lemma set_db_show [simp]: "set_db (show_int (sint d)) cfg = cfg\<lparr>uc_db := d\<rparr>" for d :: i64
  using parse_signed_show_int [of 64 "sint d"] sint_ge [of d] sint_lt [of d]
  by (simp add: set_db_def)

lemma set_host_show [simp]:
  "set_host False (h @ CHR '':'' # show_nat (unat p)) cfg = Inr (cfg\<lparr>uc_host := h, uc_port := p\<rparr>)"
  for p :: u16
  using unsigned_less [of p, where 'a = nat] by (simp add: set_host_def)

lemma set_path_query_show:
  "q = [] \<or> q = ''?protocol=resp3'' \<Longrightarrow>
   set_path_query (CHR ''/'' # show_int (sint d) @ q) cfg = cfg\<lparr>uc_db := d\<rparr>" for d :: i64
proof -
  have "split_once CHR ''?'' (CHR ''/'' # show_int (sint d) @ ''?protocol=resp3'') =
        Some (CHR ''/'' # show_int (sint d), ''protocol=resp3'')"
    using split_once_append [of "CHR ''?''" "CHR ''/'' # show_int (sint d)" "''protocol=resp3''"] by simp
  moreover assume "q = [] \<or> q = ''?protocol=resp3''"
  ultimately show ?thesis
    by (auto simp: set_path_query_def strip_slash_def set_query_pair_def)
qed

definition clean_host :: "bytes \<Rightarrow> bool" where
  "clean_host h \<longleftrightarrow> set h \<inter> {CHR ''@'', CHR ''/'', CHR ''?'', CHR ''#''} = {}"

definition clean_password :: "bytes \<Rightarrow> bool" where
  "clean_password p \<longleftrightarrow> valid_utf8 p \<and> set p \<inter> {CHR ''%'', CHR ''/'', CHR ''?'', CHR ''#''} = {}"

definition clean_username :: "bytes \<Rightarrow> bool" where
  "clean_username u \<longleftrightarrow> clean_password u \<and> u \<noteq> [] \<and> CHR '':'' \<notin> set u"

definition clean_config :: "facade_config \<Rightarrow> bool" where
  "clean_config c \<longleftrightarrow> clean_host (fc_host c) \<and> pred_option clean_username (fc_username c) \<and>
     pred_option clean_password (fc_password c)"

lemmas clean_defs = clean_host_def clean_password_def clean_username_def

lemma authority_no_slash:
  "pred_option clean_username u \<Longrightarrow> pred_option clean_password p \<Longrightarrow> clean_host h \<Longrightarrow>
   CHR ''/'' \<notin> set (userinfo_text u p @ h @ CHR '':'' # show_nat n)"
  by (auto simp: userinfo_text_def clean_defs split: option.splits)

text \<open>The user info of a rendered URL.\<close>

definition userinfo_opt :: "bytes option \<Rightarrow> bytes option \<Rightarrow> bytes option" where
  "userinfo_opt u p = (if u = None \<and> p = None then None else Some (butlast (userinfo_text u p)))"

lemma split_authority_show:
  "clean_host h \<Longrightarrow>
   split_authority (userinfo_text u p @ h @ CHR '':'' # show_nat n) =
     (userinfo_opt u p, h @ CHR '':'' # show_nat n)"
  using rsplit_once_append [of "CHR ''@''" "h @ CHR '':'' # show_nat n"]
    rsplit_once_append [of "CHR ''@''" "h @ CHR '':'' # show_nat n" "the u @ CHR '':'' # the p"]
    rsplit_once_append [of "CHR ''@''" "h @ CHR '':'' # show_nat n" "CHR '':'' # the p"]
  by (cases u; cases p) (auto simp: split_authority_def userinfo_opt_def userinfo_text_def clean_defs butlast_append)

lemma set_userinfo_show:
  "pred_option clean_username u \<Longrightarrow> pred_option clean_password p \<Longrightarrow> uc_username cfg = None \<Longrightarrow>
   uc_password cfg = None \<Longrightarrow>
   set_userinfo (userinfo_opt u p) cfg =
     cfg\<lparr>uc_username := u, uc_password := p\<rparr>"
  by (cases u; cases p)
    (auto simp: set_userinfo_def userinfo_opt_def userinfo_text_def clean_defs butlast_append percent_decode_plain)

lemma split_scheme [simp]:
  "split_once_str ''://'' (''redis://'' @ r) = Some (''redis'', r)"
  "split_once_str ''://'' (''rediss://'' @ r) = Some (''rediss'', r)"
  "split_once_str ''://'' (''unix://'' @ r) = Some (''unix'', r)"
  by simp_all

lemmas split_scheme_Cons [simp] = split_scheme [unfolded append.simps]

definition url_config_of :: "facade_config \<Rightarrow> url_config" where
  "url_config_of c =
     \<lparr>uc_host = fc_host c, uc_port = fc_port c, uc_db = fc_db c,
      uc_username = fc_username c, uc_password = fc_password c, uc_ssl = fc_ssl c\<rparr>"

lemma parse_rendered:
  assumes "clean_config c" "q = [] \<or> q = ''?protocol=resp3''"
  shows "parse_url (to_url c @ q) = Inr (url_config_of c)"
proof -
  let ?auth = "userinfo_text (fc_username c) (fc_password c) @ fc_host c @ CHR '':'' # show_nat (unat (fc_port c))"
  let ?db = "show_int (sint (fc_db c))"
  have clean: "clean_host (fc_host c)" "pred_option clean_username (fc_username c)"
    "pred_option clean_password (fc_password c)"
    using assms by (auto simp: clean_config_def)
  have path: "split_path (?auth @ CHR ''/'' # ?db @ q) = (?auth, CHR ''/'' # ?db @ q)"
    using split_once_append [OF authority_no_slash [OF clean(2,3,1)], of "unat (fc_port c)" "?db @ q"]
    by (simp add: split_path_def)
  have url: "to_url c = (if fc_ssl c then ''rediss://'' else ''redis://'') @ ?auth @ CHR ''/'' # ?db"
    by (simp add: to_url_def)
  show ?thesis
    unfolding url
    using clean assms(2) path
    by (auto simp: parse_url_def parse_scheme_def split_authority_show set_userinfo_show
        set_path_query_show url_config_of_def simp del: split_once_str.simps)
qed

lemma resp3_rendered:
  assumes "clean_config c"
  shows "url_with_resp3 (to_url c) =
    to_url c @ (if contains_str ''protocol='' (to_url c) then [] else ''?protocol=resp3'')"
proof -
  have "CHR ''#'' \<notin> set (to_url c)" "CHR ''?'' \<notin> set (to_url c)"
    using assms by (cases "fc_username c"; cases "fc_password c";
        auto simp: to_url_def userinfo_text_def clean_config_def clean_defs)+
  then show ?thesis by (simp add: url_with_resp3_def)
qed

text \<open>(C16) A configuration whose host and credentials contain none of the reserved characters of a
  URL survives the trip through the URL the client keeps (\<open>to_url\<close>, then
  \<open>url_with_resp3\<close>): \<open>parse_url\<close> gives back the host, port, database, credentials and the
  TLS flag.\<close>
theorem url_roundtrip:
  assumes "clean_config c"
  shows "parse_url (url_with_resp3 (to_url c)) =
    Inr \<lparr>uc_host = fc_host c, uc_port = fc_port c, uc_db = fc_db c,
         uc_username = fc_username c, uc_password = fc_password c, uc_ssl = fc_ssl c\<rparr>"
  unfolding resp3_rendered [OF assms] using parse_rendered [OF assms] by (simp add: url_config_of_def)

definition sample_config :: facade_config where
  "sample_config = \<lparr>fc_host = ''db.local'', fc_port = 6380, fc_db = 3, fc_password = Some ''p@ss:w'',
     fc_username = Some ''app'', fc_ssl = True\<rparr>"

lemma ascii_valid [simp]: "list_all (\<lambda>c. octet c < 128) s \<Longrightarrow> valid_utf8 s"
  by (simp add: valid_utf8_ascii list_all_iff)

theorem url_roundtrip_witness:
  "parse_url (url_with_resp3 (to_url sample_config)) =
   Inr \<lparr>uc_host = ''db.local'', uc_port = 6380, uc_db = 3, uc_username = Some ''app'',
        uc_password = Some ''p@ss:w'', uc_ssl = True\<rparr>"
  using url_roundtrip [of sample_config]
  by (simp add: sample_config_def clean_config_def clean_defs octet_def del: valid_utf8.simps)

text \<open>\<open>url_with_resp3\<close> always leaves a URL that names the protocol, changes nothing when it
  is applied again (the connection applies it to a URL the client has already rewritten), and
  only inserts text: what precedes and follows the insertion is the original URL.\<close>
theorem resp3_idempotent:
  "contains_str ''protocol='' (url_with_resp3 url) \<and>
   url_with_resp3 (url_with_resp3 url) = url_with_resp3 url \<and>
   (\<exists>a ins b. url = a @ b \<and> url_with_resp3 url = a @ ins @ b \<and>
      ins \<in> {[], ''?protocol=resp3'', ''&protocol=resp3''})"
proof (cases "contains_str ''protocol='' url")
  case True
  then have "url_with_resp3 url = url" by (simp add: url_with_resp3_def)
  moreover have "\<exists>a ins b. url = a @ b \<and> url = a @ ins @ b \<and>
      ins \<in> {[], ''?protocol=resp3'', ''&protocol=resp3''}"
    by (rule exI [of _ url], rule exI [of _ "[]"], rule exI [of _ "[]"]) simp
  ultimately show ?thesis using True by simp
next
  case False
  obtain base frag where split: "url = base @ frag"
    and u: "url_with_resp3 url = base @ (if CHR ''?'' \<in> set base then CHR ''&'' else CHR ''?'') #
      ''protocol=resp3'' @ frag"
  proof (cases "split_once CHR ''#'' url")
    case None
    then show ?thesis using False by (intro that [of url "[]"]) (auto simp: url_with_resp3_def Let_def)
  next
    case (Some bf)
    then obtain b f where "bf = (b, f)" "url = b @ CHR ''#'' # f"
      by (cases bf) (auto simp: split_once_Some)
    with Some False show ?thesis
      by (intro that [of b "CHR ''#'' # f"]) (auto simp: url_with_resp3_def Let_def)
  qed
  have "contains_str ''protocol='' (url_with_resp3 url)"
    unfolding u
    using contains_str_append [of "''protocol=''"
        "base @ [if CHR ''?'' \<in> set base then CHR ''&'' else CHR ''?'']" "''resp3'' @ frag"]
    by simp
  then have "url_with_resp3 (url_with_resp3 url) = url_with_resp3 url"
    by (subst url_with_resp3_def) simp
  moreover have "\<exists>a ins b. url = a @ b \<and> url_with_resp3 url = a @ ins @ b \<and>
      ins \<in> {[], ''?protocol=resp3'', ''&protocol=resp3''}"
    by (rule exI [of _ base],
        rule exI [of _ "(if CHR ''?'' \<in> set base then CHR ''&'' else CHR ''?'') # ''protocol=resp3''"],
        rule exI [of _ frag], insert split u, simp)
  ultimately show ?thesis using \<open>contains_str ''protocol='' (url_with_resp3 url)\<close> by blast
qed

text \<open>The start-up URLs of a cluster client built from \<open>startup_nodes\<close>: with clean hosts and
  credentials, every URL names its node's host and port and carries exactly the given
  credentials, in the order of the nodes; none asks for TLS.\<close>
theorem startup_nodes_urls:
  assumes "nodes \<noteq> []" "list_all (\<lambda>(h, p). clean_host h) nodes"
    and "pred_option clean_username user" "pred_option clean_password pw"
  shows "map_option (map (\<lambda>url. parse_url (inject_userinfo url user pw)))
      (resolve_startup_urls host port (Some nodes) None) =
    Some (map (\<lambda>(h, p). Inr \<lparr>uc_host = h, uc_port = p, uc_db = 0, uc_username = user,
                               uc_password = pw, uc_ssl = False\<rparr>) nodes)"
proof -
  have node: "parse_url (inject_userinfo (node_url h p) user pw) =
      Inr \<lparr>uc_host = h, uc_port = p, uc_db = 0, uc_username = user, uc_password = pw, uc_ssl = False\<rparr>"
    if "(h, p) \<in> set nodes" for h p
  proof -
    let ?auth = "userinfo_text user pw @ h @ CHR '':'' # show_nat (unat p)"
    have "clean_host h" using assms(2) that by (auto simp: list_all_iff)
    moreover from this have "split_path ?auth = (?auth, [])"
      using authority_no_slash [OF assms(3,4), of h "unat p"] by (simp add: split_path_def)
    ultimately show ?thesis
      using assms(3,4)
      by (simp add: inject_userinfo_def node_url_def parse_url_def parse_scheme_def split_authority_show
          set_userinfo_show set_path_query_def strip_slash_def del: split_once_str.simps)
  qed
  have "resolve_startup_urls host port (Some nodes) None = Some (map (\<lambda>(h, p). node_url h p) nodes)"
    using assms(1) by (cases nodes) (auto simp: resolve_startup_urls_def)
  with node show ?thesis by auto
qed

theorem startup_nodes_urls_witness:
  "map_option (map (\<lambda>url. parse_url (inject_userinfo url None (Some ''pw''))))
     (resolve_startup_urls None 6379 (Some [(''a'', 7000), (''b'', 7001)]) None) =
   Some [Inr \<lparr>uc_host = ''a'', uc_port = 7000, uc_db = 0, uc_username = None,
              uc_password = Some ''pw'', uc_ssl = False\<rparr>,
         Inr \<lparr>uc_host = ''b'', uc_port = 7001, uc_db = 0, uc_username = None,
              uc_password = Some ''pw'', uc_ssl = False\<rparr>]"
  using startup_nodes_urls [of "[(''a'', 7000), (''b'', 7001)]" None "Some ''pw''" None 6379]
  by (simp add: clean_defs octet_def del: valid_utf8.simps)

section \<open>URLs that are misread\<close>

lemma split_path_slash: "split_path (CHR ''/'' # p) = ([], CHR ''/'' # p)"
  by (simp add: split_path_def)

text \<open>The path of a \<open>unix://\<close> URL never reaches the configuration: whatever follows
  \<open>unix:///\<close>, the URL is accepted and the host is empty, so every socket path is treated
  alike.\<close>
theorem unix_path_lost:
  "\<exists>cfg. parse_url (''unix:///'' @ path) = Inr cfg \<and> uc_host cfg = []"
proof -
  have host: "uc_host (set_db s cfg) = uc_host cfg" "uc_host (set_query_pair s cfg) = uc_host cfg" for s cfg
    by (auto simp: set_db_def set_query_pair_def split: option.splits prod.splits)
  have fold: "uc_host (fold set_query_pair ps cfg) = uc_host cfg" for ps cfg
    by (induction ps arbitrary: cfg) (auto simp: host)
  have pq: "uc_host (set_path_query s cfg) = uc_host cfg" for s cfg
    by (auto simp: set_path_query_def Let_def host fold split: option.splits prod.splits)
  have "split_once_str ''://'' (''unix:///'' @ path) = Some (''unix'', CHR ''/'' # path)"
    by simp
  then show ?thesis
    by (simp add: parse_url_def parse_scheme_def split_path_slash split_authority_def set_userinfo_def
        set_host_def pq del: split_once_str.simps)
qed

text \<open>Credentials are decoded by \<open>parse_url\<close> and written back undecoded by \<open>to_url\<close>; a query
  needs a slash before it; an IPv6 address needs a port.\<close>

lemmas parse_url_eval = parse_url_def parse_scheme_def split_path_def split_authority_def
  set_userinfo_def set_host_def set_path_query_def set_db_def set_query_pair_def strip_slash_def
  rsplit_once_def percent_decode_def to_digit16_def octet_def parse_unsigned_def parse_signed_def
  parse_nat_def strip_plus_def digit_val_def Let_def to_url_def userinfo_text_def show_nat.simps
  show_int_def

lemma credentials_not_reencoded:
  "map_sum id uc_password (parse_url ''redis://:a%2Fb@h:1/0'') = Inr (Some ''a/b'') \<and>
   parse_url (to_url \<lparr>fc_host = ''h'', fc_port = 1, fc_db = 0, fc_password = Some ''a/b'',
     fc_username = None, fc_ssl = False\<rparr>) = Inl BadPort"
  by (simp add: parse_url_eval; code_simp)

lemma query_without_slash:
  "map_sum id uc_host (parse_url ''redis://h?db=1'') = Inr ''h?db=1''"
  by (simp add: parse_url_eval)

lemma ipv6_without_port: "parse_url ''redis://[::1]'' = Inl BadPort"
  by (simp add: parse_url_eval)

end
