(* ===== verification/Sentinel.thy ===== *)
theory Sentinel
  imports Calls Url
begin

text \<open>
  Sentinel connections: discovery, rediscovery after a failover and the retry of a command
  (\<open>SentinelConn\<close>, \<open>create_sentinel_inner\<close>, \<open>connect_sentinel\<close> and \<open>dispatch_cmd!\<close> in
  \<open>connection.rs\<close>), the discovery calls of the \<open>Sentinel\<close> class
  (\<open>facade/sentinel.rs\<close>), and the URLs a connection hands to pipelines and to pubsub.

  A \<open>sentinel_world\<close> is what the network offers at one moment: whether a client can be built
  for a URL and a connection made to it, and what each sentinel answers.  A \<open>SentinelConn\<close>'s
  shared \<open>ConnectionManager\<close> is represented by the URL it is connected to, \<open>sc_inner\<close>; TLS
  options by whether there are any.  \<open>cache_opts\<close> goes into the configuration of the manager alone,
  which theory SentinelClient carries beside the connection.
\<close>

section \<open>State\<close>

record sentinel_world =
  sw_client :: "bool \<Rightarrow> bytes \<Rightarrow> redis_error option"
  sw_manager :: "bytes \<Rightarrow> redis_error option"
  sw_slaves :: "bytes \<Rightarrow> bytes \<Rightarrow> redis_error + (bytes \<times> bytes) list list"
  sw_master :: "bytes \<Rightarrow> bytes \<Rightarrow> redis_error + bytes list"

record sentinel_conn =
  sc_inner :: bytes
  sc_urls :: "bytes list"
  sc_service :: bytes
  sc_db :: i64
  sc_blocking :: bool
  sc_tls :: bool
  sc_slave :: bool

definition is_failover_error :: "redis_error \<Rightarrow> bool" where
  "is_failover_error e \<longleftrightarrow>
     re_kind e \<in> {EkIo, EkServer SkBusyLoading, EkServer SkTryAgain, EkServer SkReadOnly} \<or> re_dropped e"

text \<open>\<open>create_client\<close>, then \<open>ConnectionManager::new_with_config\<close>.\<close>

definition open_manager :: "sentinel_world \<Rightarrow> bool \<Rightarrow> bytes \<Rightarrow> redis_error option" where
  "open_manager w tls url = (case sw_client w tls url of Some e \<Rightarrow> Some e | None \<Rightarrow> sw_manager w url)"

section \<open>Asking a sentinel\<close>

text \<open>A row collected into a \<open>HashMap\<close>: the last entry of a key counts.\<close>

definition row_field :: "(bytes \<times> bytes) list \<Rightarrow> bytes \<Rightarrow> bytes option" where
  "row_field row = map_of (rev row)"

definition row_flags :: "(bytes \<times> bytes) list \<Rightarrow> bytes" where
  "row_flags row = (case row_field row ''flags'' of Some fl \<Rightarrow> fl | None \<Rightarrow> [])"

definition slave_addr :: "(bytes \<times> bytes) list \<Rightarrow> (bytes \<times> bytes) option" where
  "slave_addr row =
     (if contains_str ''disconnected'' (row_flags row) \<or> contains_str ''s_down'' (row_flags row) then None
      else
        (case (row_field row ''ip'', row_field row ''port'') of
           (Some ip, Some port) \<Rightarrow> Some (ip, port)
         | _ \<Rightarrow> None))"

text \<open>The address, and what \<open>last_err\<close> becomes when there is none.\<close>

definition target_addr ::
  "sentinel_world \<Rightarrow> bool \<Rightarrow> bytes \<Rightarrow> bytes \<Rightarrow> (bytes \<times> bytes) option \<times> bytes option" where
  "target_addr w slave service url =
     (if slave then
        (case sw_slaves w url service of
           Inr rows \<Rightarrow> (case List.map_filter slave_addr rows of a # _ \<Rightarrow> Some a | [] \<Rightarrow> None, None)
         | Inl e \<Rightarrow> (None, Some (re_display e)))
      else
        (case sw_master w url service of
           Inr [host, port] \<Rightarrow> (Some (host, port), None)
         | Inr _ \<Rightarrow> (None, Some ''unexpected response'')
         | Inl e \<Rightarrow> (None, Some (re_display e))))"

definition target_url :: "bool \<Rightarrow> i64 \<Rightarrow> bytes \<times> bytes \<Rightarrow> bytes" where
  "target_url tls db addr =
     url_with_resp3 ((if tls then ''rediss'' else ''redis'') @ ''://'' @ fst addr @ '':'' @ snd addr @ ''/'' @
       show_int (sint db))"

section \<open>Connecting and rediscovering\<close>

fun rediscover_from ::
  "bridge_env \<Rightarrow> sentinel_world \<Rightarrow> bytes list \<Rightarrow> sentinel_conn \<Rightarrow> redis_error option \<times> sentinel_conn" where
  "rediscover_from env w [] s =
     (Some (made_error env EkIo ''Failed to rediscover master from any sentinel'' None), s)"
| "rediscover_from env w (u # us) s =
     (if open_manager w (sc_tls s) u \<noteq> None then rediscover_from env w us s
      else
        (case fst (target_addr w (sc_slave s) (sc_service s) u) of
           None \<Rightarrow> rediscover_from env w us s
         | Some addr \<Rightarrow>
             (let url = target_url (sc_tls s) (sc_db s) addr in
              case open_manager w (sc_tls s) url of
                Some e \<Rightarrow> (Some e, s)
              | None \<Rightarrow> (None, s\<lparr>sc_inner := url\<rparr>))))"

definition rediscover ::
  "bridge_env \<Rightarrow> sentinel_world \<Rightarrow> sentinel_conn \<Rightarrow> redis_error option \<times> sentinel_conn" where
  "rediscover env w s = rediscover_from env w (sc_urls s) s"

definition sentinel_note :: "bytes \<Rightarrow> bytes \<Rightarrow> bytes" where
  "sentinel_note url msg = ''Sentinel '' @ url @ '': '' @ msg"

text \<open>The loop of \<open>create_sentinel_inner\<close> over the remaining URLs; \<open>conn\<close> is the connection
  being built, without its target.\<close>

fun create_from ::
  "bridge_env \<Rightarrow> sentinel_world \<Rightarrow> sentinel_conn \<Rightarrow> bytes list \<Rightarrow> bytes \<Rightarrow> redis_error + sentinel_conn" where
  "create_from env w conn [] last_err =
     Inl (made_error env EkIo ''Failed to discover master from any sentinel'' (Some last_err))"
| "create_from env w conn (u # us) last_err =
     (case open_manager w (sc_tls conn) u of
        Some e \<Rightarrow> create_from env w conn us (sentinel_note u (re_display e))
      | None \<Rightarrow>
          (case target_addr w (sc_slave conn) (sc_service conn) u of
             (None, note) \<Rightarrow>
               create_from env w conn us (case note of Some msg \<Rightarrow> sentinel_note u msg | None \<Rightarrow> last_err)
           | (Some addr, _) \<Rightarrow>
               (let url = target_url (sc_tls conn) (sc_db conn) addr in
                case open_manager w (sc_tls conn) url of
                  Some e \<Rightarrow> Inl e
                | None \<Rightarrow> Inr (conn\<lparr>sc_inner := url\<rparr>))))"

definition create_sentinel_inner ::
  "bridge_env \<Rightarrow> sentinel_world \<Rightarrow> bytes list \<Rightarrow> bytes \<Rightarrow> i64 \<Rightarrow> bool \<Rightarrow> bool \<Rightarrow> bool \<Rightarrow> redis_error + sentinel_conn" where
  "create_sentinel_inner env w urls service db blocking slave tls =
     create_from env w
       \<lparr>sc_inner = [], sc_urls = urls, sc_service = service, sc_db = db, sc_blocking = blocking,
        sc_tls = tls, sc_slave = slave\<rparr> urls ''No sentinels provided''"

text \<open>\<open>connect_sentinel\<close>; its error is the text of the failure.\<close>

definition connect_sentinel ::
  "bridge_env \<Rightarrow> sentinel_world \<Rightarrow> bytes list \<Rightarrow> bytes \<Rightarrow> i64 \<Rightarrow> bool \<Rightarrow> bool \<Rightarrow> bytes + sentinel_conn" where
  "connect_sentinel env w urls service db slave tls =
     (if urls = [] then Inl ''connect_sentinel: at least one sentinel URL required''
      else map_sum re_display id (create_sentinel_inner env w urls service db False slave tls))"

section \<open>Sending a command\<close>

text \<open>
  \<open>dispatch_cmd!\<close>.
  \<open>send\<close> is the server: it gets the URL it is reached by, the command and the state of the
  world; \<open>world\<close> is what the sentinels see of that state.
\<close>

type_synonym ('w, 'r) sender = "bytes \<Rightarrow> redis_cmd \<Rightarrow> 'w \<Rightarrow> (redis_error + 'r) \<times> 'w"

datatype conn_inner = Standard bytes | ClusterConn bytes | SentinelBacked sentinel_conn

definition dispatch_cmd ::
  "bridge_env \<Rightarrow> ('w \<Rightarrow> sentinel_world) \<Rightarrow> ('w, 'r) sender \<Rightarrow> redis_cmd \<Rightarrow> conn_inner \<Rightarrow> 'w \<Rightarrow>
   (redis_error + 'r) \<times> conn_inner \<times> 'w" where
  "dispatch_cmd env world send cmd conn w =
     (case conn of
        Standard url \<Rightarrow> (let (r, w) = send url cmd w in (r, conn, w))
      | ClusterConn url \<Rightarrow> (let (r, w) = send url cmd w in (r, conn, w))
      | SentinelBacked s \<Rightarrow>
          (case send (sc_inner s) cmd w of
             (Inr v, w) \<Rightarrow> (Inr v, conn, w)
           | (Inl e, w) \<Rightarrow>
               (if is_failover_error e then
                  (case rediscover env (world w) s of
                     (None, s) \<Rightarrow> (let (r, w) = send (sc_inner s) cmd w in (r, SentinelBacked s, w))
                   | (Some re, s) \<Rightarrow> (Inl re, SentinelBacked s, w))
                else (Inl e, conn, w))))"

text \<open>\<open>sentinel_retry!\<close> and \<open>conn_method!\<close>: \<open>op\<close> is the expression the caller writes, which makes a
  fresh future each time it stands in the expansion; it gets the URL of the connection it is bound to.\<close>

definition sentinel_retry ::
  "bridge_env \<Rightarrow> ('w \<Rightarrow> sentinel_world) \<Rightarrow> sentinel_conn \<Rightarrow> (bytes \<Rightarrow> 'w \<Rightarrow> (redis_error + 'r) \<times> 'w) \<Rightarrow> 'w \<Rightarrow>
   (redis_error + 'r) \<times> sentinel_conn \<times> 'w" where
  "sentinel_retry env world s op w =
     (case op (sc_inner s) w of
        (Inr v, w) \<Rightarrow> (Inr v, s, w)
      | (Inl e, w) \<Rightarrow>
          (if is_failover_error e then
             (case rediscover env (world w) s of
                (None, s) \<Rightarrow> (let (r, w) = op (sc_inner s) w in (r, s, w))
              | (Some re, s) \<Rightarrow> (Inl re, s, w))
           else (Inl e, s, w)))"

definition conn_method ::
  "bridge_env \<Rightarrow> ('w \<Rightarrow> sentinel_world) \<Rightarrow> conn_inner \<Rightarrow> (bytes \<Rightarrow> 'w \<Rightarrow> (redis_error + 'r) \<times> 'w) \<Rightarrow> 'w \<Rightarrow>
   (redis_error + 'r) \<times> conn_inner \<times> 'w" where
  "conn_method env world conn op w =
     (case conn of
        Standard url \<Rightarrow> (let (r, w) = op url w in (r, conn, w))
      | ClusterConn url \<Rightarrow> (let (r, w) = op url w in (r, conn, w))
      | SentinelBacked s \<Rightarrow>
          (case op (sc_inner s) w of
             (Inr v, w) \<Rightarrow> (Inr v, conn, w)
           | (Inl e, w) \<Rightarrow>
               (if is_failover_error e then
                  (case rediscover env (world w) s of
                     (None, s) \<Rightarrow> (let (r, w) = op (sc_inner s) w in (r, SentinelBacked s, w))
                   | (Some re, s) \<Rightarrow> (Inl re, SentinelBacked s, w))
                else (Inl e, conn, w))))"

section \<open>The Sentinel class\<close>

text \<open>\<open>with_sentinel\<close>: \<open>ask\<close> is the closure, applied to the connection to a sentinel.\<close>

fun with_sentinel ::
  "bridge_env \<Rightarrow> sentinel_world \<Rightarrow> (bytes \<Rightarrow> redis_error + 'a) \<Rightarrow> bytes list \<Rightarrow> redis_error option \<Rightarrow> redis_error + 'a" where
  "with_sentinel env w ask [] last_err =
     Inl (case last_err of Some e \<Rightarrow> e | None \<Rightarrow> made_error env EkIo ''no sentinels reachable'' None)"
| "with_sentinel env w ask (u # us) last_err =
     (case open_manager w False u of
        Some e \<Rightarrow> with_sentinel env w ask us (Some e)
      | None \<Rightarrow> (case ask u of Inr v \<Rightarrow> Inr v | Inl e \<Rightarrow> with_sentinel env w ask us (Some e)))"

definition ask_master :: "bridge_env \<Rightarrow> sentinel_world \<Rightarrow> bytes \<Rightarrow> bytes \<Rightarrow> redis_error + bytes \<times> u16" where
  "ask_master env w service u =
     (case sw_master w u service of
        Inl e \<Rightarrow> Inl e
      | Inr [host, port] \<Rightarrow>
          (case parse_unsigned 16 port of
             Some n \<Rightarrow> Inr (host, of_nat n)
           | None \<Rightarrow> Inl (made_error env (EkServer SkResponseError) ''invalid port in sentinel response'' None))
      | Inr _ \<Rightarrow> Inl (made_error env (EkServer SkMasterDown) ''no master found'' None))"

definition discover_master ::
  "bridge_env \<Rightarrow> sentinel_world \<Rightarrow> bytes list \<Rightarrow> bytes \<Rightarrow> (bytes \<times> u16) pyres" where
  "discover_master env w urls service =
     (case with_sentinel env w (ask_master env w service) urls None of
        Inr a \<Rightarrow> Inr a | Inl e \<Rightarrow> Inl (PyErr MasterDownError (re_display e)))"

definition slave_entry :: "(bytes \<times> bytes) list \<Rightarrow> (bytes \<times> u16) option" where
  "slave_entry row =
     (if contains_str ''disconnected'' (row_flags row) \<or> contains_str ''s_down'' (row_flags row) \<or>
         contains_str ''o_down'' (row_flags row) then None
      else
        (case (row_field row ''ip'', Option.bind (row_field row ''port'') (parse_unsigned 16)) of
           (Some ip, Some port) \<Rightarrow> Some (ip, of_nat port)
         | _ \<Rightarrow> None))"

definition discover_slaves ::
  "bridge_env \<Rightarrow> sentinel_world \<Rightarrow> bytes list \<Rightarrow> bytes \<Rightarrow> (bytes \<times> u16) list pyres" where
  "discover_slaves env w urls service =
     (case with_sentinel env w
        (\<lambda>u. map_sum id (List.map_filter slave_entry) (sw_slaves w u service)) urls None of
        Inr l \<Rightarrow> Inr l | Inl e \<Rightarrow> Inl (to_py_err (pe_lookup_ok env) e))"

text \<open>The slave cursor of \<open>SentinelInner\<close>: the index before the bump (a \<open>usize\<close>).\<close>

definition next_slave_idx :: "bytes \<Rightarrow> (bytes \<Rightarrow> u64 option) \<Rightarrow> u64 \<times> (bytes \<Rightarrow> u64 option)" where
  "next_slave_idx service cursors =
     (let n = (case cursors service of Some n \<Rightarrow> n | None \<Rightarrow> 0) in (n, cursors(service \<mapsto> n + 1)))"

definition sentinel_urls :: "(bytes \<times> u16) list \<Rightarrow> bytes list pyres" where
  "sentinel_urls sentinels =
     (if sentinels = [] then Inl (PyErr DataError ''Sentinel requires at least one (host, port) tuple'')
      else Inr (map (\<lambda>(host, port). ''redis://'' @ host @ '':'' @ show_nat (unat port)) sentinels))"

section \<open>Other connections of a client\<close>

text \<open>The URL of a pipeline's reserved connection (\<open>reserve_connection\<close>) and of a pubsub
  connection (\<open>build_client_for_pubsub\<close>).\<close>

datatype conn_config =
    ConfStandard bytes
  | ConfCluster "bytes list"
  | ConfSentinel "bytes list" bytes i64 bool

definition first_url :: "bytes list \<Rightarrow> bytes" where
  "first_url urls = (case urls of u # _ \<Rightarrow> u | [] \<Rightarrow> ''redis://127.0.0.1'')"

fun dedicated_url :: "conn_config \<Rightarrow> bytes" where
  "dedicated_url (ConfStandard url) = url"
| "dedicated_url (ConfCluster urls) = first_url urls"
| "dedicated_url (ConfSentinel urls service db slave) = first_url urls"

text \<open>The lazily created connection for blocking commands: \<open>get_or_try_init\<close>.\<close>

definition get_blocking :: "(redis_error + 'c) \<Rightarrow> 'c option \<Rightarrow> (redis_error + 'c) \<times> 'c option" where
  "get_blocking build cell =
     (case cell of
        Some c \<Rightarrow> (Inr c, cell)
      | None \<Rightarrow> (case build of Inr c \<Rightarrow> (Inr c, Some c) | Inl e \<Rightarrow> (Inl e, None)))"

section \<open>Choosing a target\<close>

text \<open>A sentinel that gives an address; the first such sentinel decides.\<close>

definition useful :: "sentinel_world \<Rightarrow> bool \<Rightarrow> bool \<Rightarrow> bytes \<Rightarrow> bytes \<Rightarrow> bool" where
  "useful w tls slave service u \<longleftrightarrow>
     open_manager w tls u = None \<and> fst (target_addr w slave service u) \<noteq> None"

lemma rediscover_from_find:
  "rediscover_from env w us s =
     (case List.find (useful w (sc_tls s) (sc_slave s) (sc_service s)) us of
        None \<Rightarrow> (Some (made_error env EkIo ''Failed to rediscover master from any sentinel'' None), s)
      | Some u \<Rightarrow>
          (let url = target_url (sc_tls s) (sc_db s) (the (fst (target_addr w (sc_slave s) (sc_service s) u))) in
           case open_manager w (sc_tls s) url of
             Some e \<Rightarrow> (Some e, s)
           | None \<Rightarrow> (None, s\<lparr>sc_inner := url\<rparr>)))"
  by (induction us) (auto simp: useful_def Let_def split: option.splits)

lemma create_from_find:
  "(\<exists>msg. create_from env w s us last_err =
     (case List.find (useful w (sc_tls s) (sc_slave s) (sc_service s)) us of
        None \<Rightarrow> Inl (made_error env EkIo ''Failed to discover master from any sentinel'' (Some msg))
      | Some u \<Rightarrow>
          (let url = target_url (sc_tls s) (sc_db s) (the (fst (target_addr w (sc_slave s) (sc_service s) u))) in
           case open_manager w (sc_tls s) url of
             Some e \<Rightarrow> Inl e
           | None \<Rightarrow> Inr (s\<lparr>sc_inner := url\<rparr>))))"
proof (induction us arbitrary: last_err)
  case (Cons u us)
  show ?case
  proof (cases "useful w (sc_tls s) (sc_slave s) (sc_service s) u")
    case True
    then show ?thesis by (auto simp: useful_def Let_def split: option.splits prod.splits)
  next
    case False
    obtain a msg where "target_addr w (sc_slave s) (sc_service s) u = (a, msg)" by fastforce
    with False obtain last_err' where "create_from env w s (u # us) last_err = create_from env w s us last_err'"
      by (cases "open_manager w (sc_tls s) u"; cases a) (auto simp: useful_def)
    then show ?thesis using Cons.IH [of last_err'] False by simp
  qed
qed auto

section \<open>Failover\<close>

text \<open>(C26) After a failover, a client is where a new client would be: rediscovering, from whatever
  target it had, connects to the target \<open>create_sentinel_inner\<close> picks in the same world and
  changes nothing else; when a new client could not be made, rediscovering fails and keeps the
  old target.\<close>
theorem rediscover_like_connect:
  "case create_sentinel_inner env w (sc_urls s) (sc_service s) (sc_db s) (sc_blocking s) (sc_slave s) (sc_tls s) of
     Inr fresh \<Rightarrow> rediscover env w s = (None, fresh) \<and> fresh = s\<lparr>sc_inner := sc_inner fresh\<rparr>
   | Inl e \<Rightarrow> (\<exists>e'. rediscover env w s = (Some e', s) \<and> re_kind e' = re_kind e)"
proof (cases s)
  case (fields inner urls service db blocking tls slave)
  note created = create_from_find [of env w "s\<lparr>sc_inner := []\<rparr>" urls "''No sentinels provided''"]
  show ?thesis
  proof (cases "List.find (useful w tls slave service) urls")
    case None
    then show ?thesis
      using created
      by (auto simp: fields create_sentinel_inner_def rediscover_def rediscover_from_find made_error_def)
  next
    case (Some u)
    then show ?thesis
      using created
      by (cases "open_manager w tls (target_url tls db (the (fst (target_addr w slave service u))))")
        (simp_all add: fields create_sentinel_inner_def rediscover_def rediscover_from_find)
  qed
qed

text \<open>(C24) A command sent during a failover reaches the new master: when the old target answers
  with a failover error and the first useful sentinel names an address that can be connected
  to, the same command is sent there, once, its reply is what the caller gets, and the connection
  stays with the new target.\<close>
theorem failover_resends:
  assumes "send (sc_inner s) cmd w = (Inl e, w1)" "is_failover_error e"
    and "List.find (useful (world w1) (sc_tls s) (sc_slave s) (sc_service s)) (sc_urls s) = Some u"
    and "fst (target_addr (world w1) (sc_slave s) (sc_service s) u) = Some addr"
    and "open_manager (world w1) (sc_tls s) (target_url (sc_tls s) (sc_db s) addr) = None"
  shows "dispatch_cmd env world send cmd (SentinelBacked s) w =
    (case send (target_url (sc_tls s) (sc_db s) addr) cmd w1 of
       (r, w2) \<Rightarrow> (r, SentinelBacked (s\<lparr>sc_inner := target_url (sc_tls s) (sc_db s) addr\<rparr>), w2))"
  using assms by (simp add: dispatch_cmd_def rediscover_def rediscover_from_find Let_def)

text \<open>A sender that records what it is given.\<close>

definition logged :: "('w, 'r) sender \<Rightarrow> ('w \<times> (bytes \<times> redis_cmd) list, 'r) sender" where
  "logged send url cmd w = (case send url cmd (fst w) of (r, w') \<Rightarrow> (r, w', snd w @ [(url, cmd)]))"

text \<open>(C25) A command is sent at most twice, and the second time only after a failover error and a
  rediscovery that succeeded; without a failover error the reply is returned as it is and the
  target stays.\<close>
theorem dispatch_at_most_twice:
  assumes "dispatch_cmd env (world \<circ> fst) (logged send) cmd (SentinelBacked s) (w, []) = (r, conn, w', sent)"
  shows "(sent = [(sc_inner s, cmd)] \<and> conn = SentinelBacked s \<and>
      (r = fst (send (sc_inner s) cmd w) \<and> (case r of Inl e \<Rightarrow> \<not> is_failover_error e | Inr _ \<Rightarrow> True) \<or>
       (\<exists>re. r = Inl re \<and> fst (rediscover env (world w') s) = Some re))) \<or>
    (\<exists>e w1 s'. send (sc_inner s) cmd w = (Inl e, w1) \<and> is_failover_error e \<and>
       rediscover env (world w1) s = (None, s') \<and> conn = SentinelBacked s' \<and>
       sent = [(sc_inner s, cmd), (sc_inner s', cmd)] \<and> send (sc_inner s') cmd w1 = (r, w'))"
proof -
  have kept: "rediscover env v s = (Some re, s') \<Longrightarrow> s' = s" for v re s'
    by (auto simp: rediscover_def rediscover_from_find Let_def split: option.splits)
  obtain r1 w1 where "send (sc_inner s) cmd w = (r1, w1)" by fastforce
  then show ?thesis
    using assms kept
    by (cases r1) (auto simp: dispatch_cmd_def logged_def split: if_splits prod.splits option.splits)
qed

text \<open>The three macros are one: what is proved of \<open>dispatch_cmd!\<close> holds of a method called on the
  connection, whose command is built anew for the second attempt.\<close>

lemma conn_method_is_dispatch:
  "conn_method env world conn (\<lambda>url. send url cmd) w = dispatch_cmd env world send cmd conn w"
  by (simp add: conn_method_def dispatch_cmd_def)

lemma conn_method_is_retry:
  "conn_method env world (SentinelBacked s) op w =
     (case sentinel_retry env world s op w of (r, s', w') \<Rightarrow> (r, SentinelBacked s', w'))"
  by (auto simp: conn_method_def sentinel_retry_def Let_def split: prod.splits sum.splits option.splits)

section \<open>Discovery\<close>

lemma with_sentinel_Inr:
  "with_sentinel env w ask us last_err = Inr v \<Longrightarrow>
   \<exists>u. List.find (\<lambda>u. open_manager w False u = None \<and> (\<exists>v. ask u = Inr v)) us = Some u \<and> ask u = Inr v"
  by (induction us arbitrary: last_err) (auto split: option.splits sum.splits if_splits)

lemma target_master_iff: "fst (target_addr w False service u) = Some (h, p) \<longleftrightarrow> sw_master w u service = Inr [h, p]"
  by (auto simp: target_addr_def split: sum.splits list.splits)

lemma ask_master_Inr:
  "ask_master env w service u = Inr (h, n) \<longleftrightarrow>
   (\<exists>p m. sw_master w u service = Inr [h, p] \<and> parse_unsigned 16 p = Some m \<and> n = of_nat m)"
  by (auto simp: ask_master_def split: sum.splits list.splits option.splits)

text \<open>\<open>discover_master\<close> tells where a client goes: when every sentinel that names a master
  gives a port number, the host and port it returns are those of the target a new client for that
  service connects to.\<close>
theorem discover_master_agrees:
  assumes "\<And>u h p. sw_master w u service = Inr [h, p] \<Longrightarrow> parse_unsigned 16 p \<noteq> None"
    and "discover_master env w urls service = Inr (host, port)"
  shows "\<exists>p n. parse_unsigned 16 p = Some n \<and> port = of_nat n \<and>
    (case create_sentinel_inner env w urls service db blocking False False of
       Inr fresh \<Rightarrow> sc_inner fresh = target_url False db (host, p)
     | Inl e \<Rightarrow> open_manager w False (target_url False db (host, p)) = Some e)"
proof -
  from assms(2) have "with_sentinel env w (ask_master env w service) urls None = Inr (host, port)"
    by (auto simp: discover_master_def split: sum.splits)
  from with_sentinel_Inr [OF this] obtain u where u: "ask_master env w service u = Inr (host, port)"
    "List.find (\<lambda>u. open_manager w False u = None \<and> (\<exists>v. ask_master env w service u = Inr v)) urls = Some u"
    by blast
  have "useful w False False service = (\<lambda>u. open_manager w False u = None \<and> (\<exists>v. ask_master env w service u = Inr v))"
    using assms(1) by (fastforce simp: useful_def fun_eq_iff ask_master_Inr target_master_iff)
  with u(2) have found: "List.find (useful w False False service) urls = Some u" by simp
  from u(1) obtain p n where pn: "parse_unsigned 16 p = Some n" "port = of_nat n"
    "fst (target_addr w False service u) = Some (host, p)"
    by (auto simp: ask_master_Inr target_master_iff)
  have "case create_sentinel_inner env w urls service db blocking False False of
       Inr fresh \<Rightarrow> sc_inner fresh = target_url False db (host, p)
     | Inl e \<Rightarrow> open_manager w False (target_url False db (host, p)) = Some e"
    using create_from_find [of env w "\<lparr>sc_inner = [], sc_urls = urls, sc_service = service, sc_db = db,
        sc_blocking = blocking, sc_tls = False, sc_slave = False\<rparr>" urls "''No sentinels provided''"] found pn(3)
    by (cases "open_manager w False (target_url False db (host, p))")
      (simp_all add: create_sentinel_inner_def)
  with pn show ?thesis by blast
qed

section \<open>A concrete world\<close>

text \<open>Two sentinels, the first unreachable; the master has moved from \<open>a\<close> to \<open>b\<close>.\<close>

definition io_error :: redis_error where
  "io_error = \<lparr>re_kind = EkIo, re_code = None, re_timeout = False, re_dropped = True, re_refused = False,
     re_display = ''broken pipe''\<rparr>"

definition sample_world :: sentinel_world where
  "sample_world = \<lparr>sw_client = (\<lambda>_ _. None), sw_manager = (\<lambda>u. if u = ''redis://s1'' then Some io_error else None),
     sw_slaves = (\<lambda>_ _. Inr [[(''ip'', ''c''), (''port'', ''6379''), (''flags'', ''slave,o_down'')]]),
     sw_master = (\<lambda>_ _. Inr [''b'', ''6379''])\<rparr>"

definition sample_conn :: sentinel_conn where
  "sample_conn = \<lparr>sc_inner = ''redis://a:6379/0?protocol=resp3'', sc_urls = [''redis://s1'', ''redis://s2''],
     sc_service = ''m'', sc_db = 0, sc_blocking = False, sc_tls = False, sc_slave = False\<rparr>"

text \<open>Only the new master answers.\<close>

definition sample_send :: "(nat, i64) sender" where
  "sample_send url cmd n =
     (if url = ''redis://b:6379/0?protocol=resp3'' then (Inr (of_nat n), n + 1) else (Inl io_error, n + 1))"

lemma sample_target: "target_url False 0 (''b'', ''6379'') = ''redis://b:6379/0?protocol=resp3''"
  by (simp add: target_url_def url_with_resp3_def show_int_def) code_simp

lemma sample_useful: "List.find (useful sample_world False False ''m'') [''redis://s1'', ''redis://s2''] = Some ''redis://s2''"
  by (simp add: useful_def open_manager_def sample_world_def target_addr_def)

lemma sample_conn_fields [simp]:
  "sc_inner sample_conn = ''redis://a:6379/0?protocol=resp3''" "sc_service sample_conn = ''m''"
  "sc_urls sample_conn = [''redis://s1'', ''redis://s2'']" "sc_db sample_conn = 0"
  "sc_tls sample_conn = False" "sc_slave sample_conn = False" "sc_blocking sample_conn = False"
  by (simp_all add: sample_conn_def)

theorem failover_resends_witness:
  "fst (dispatch_cmd sample_env (\<lambda>_. sample_world) sample_send (Cmd ''INCR'' [AStr ''k'']) (SentinelBacked sample_conn) 7) = Inr 8"
proof -
  have failed: "sample_send (sc_inner sample_conn) (Cmd ''INCR'' [AStr ''k'']) 7 = (Inl io_error, 8)"
    by (simp add: sample_send_def)
  have reached: "open_manager sample_world (sc_tls sample_conn)
      (target_url (sc_tls sample_conn) (sc_db sample_conn) (''b'', ''6379'')) = None"
    by (simp add: sample_target) (simp add: open_manager_def sample_world_def)
  have addr: "fst (target_addr sample_world (sc_slave sample_conn) (sc_service sample_conn) ''redis://s2'') = Some (''b'', ''6379'')"
    by (simp add: target_addr_def sample_world_def)
  have found: "List.find (useful sample_world (sc_tls sample_conn) (sc_slave sample_conn) (sc_service sample_conn))
      (sc_urls sample_conn) = Some ''redis://s2''"
    unfolding sample_conn_fields by (rule sample_useful)
  have "is_failover_error io_error" by (simp add: is_failover_error_def io_error_def)
  with failover_resends [where world = "\<lambda>_. sample_world" and env = sample_env and send = sample_send and s = sample_conn
      and addr = "(''b'', ''6379'')" and u = "''redis://s2''", OF failed this found addr reached]
  show ?thesis by (simp add: sample_target) (simp add: sample_send_def)
qed

theorem dispatch_at_most_twice_witness:
  "length (snd (snd (snd (dispatch_cmd sample_env ((\<lambda>_. sample_world) \<circ> fst) (logged sample_send) (Cmd ''INCR'' [AStr ''k''])
     (SentinelBacked sample_conn) (7, []))))) \<le> 2"
proof -
  obtain r conn w' sent where run: "dispatch_cmd sample_env ((\<lambda>_. sample_world) \<circ> fst) (logged sample_send)
      (Cmd ''INCR'' [AStr ''k'']) (SentinelBacked sample_conn) (7, []) = (r, conn, w', sent)"
    by (metis prod_cases4)
  from dispatch_at_most_twice [OF run] have "length sent \<le> 2" by auto
  with run show ?thesis by simp
qed

theorem discover_master_agrees_witness:
  "\<exists>p n. parse_unsigned 16 p = Some n \<and> (6379 :: u16) = of_nat n \<and>
    (case create_sentinel_inner sample_env sample_world [''redis://s1'', ''redis://s2''] ''m'' 0 False False False of
       Inr fresh \<Rightarrow> sc_inner fresh = target_url False 0 (''b'', p)
     | Inl e \<Rightarrow> open_manager sample_world False (target_url False 0 (''b'', p)) = Some e)"
proof (rule discover_master_agrees)
  have port: "parse_unsigned 16 ''6379'' = Some 6379" by (simp add: parse_url_eval)
  then show "parse_unsigned 16 p \<noteq> None" if "sw_master sample_world u ''m'' = Inr [h, p]" for u h p
    using that by (simp add: sample_world_def)
  show "discover_master sample_env sample_world [''redis://s1'', ''redis://s2''] ''m'' = Inr (''b'', 6379)"
    using port by (simp add: discover_master_def ask_master_def open_manager_def sample_world_def)
qed

text \<open>A replica that a sentinel reports as \<open>o_down\<close> is left out by \<open>discover_slaves\<close> and
  still connected to.\<close>

lemma odown_slave_chosen:
  "discover_slaves sample_env sample_world [''redis://s2''] ''m'' = Inr []"
  "fst (target_addr sample_world True ''m'' ''redis://s2'') = Some (''c'', ''6379'')"
  by (simp_all add: discover_slaves_def open_manager_def sample_world_def slave_entry_def row_flags_def
      row_field_def target_addr_def slave_addr_def List.map_filter_simps)

text \<open>The target of a sentinel client never carries the credentials the constructor accepted, and
  the first sentinel is where its pipelines watch and its pubsub listens.\<close>

lemma sentinel_target_anonymous:
  "map_sum id (\<lambda>c. (uc_username c, uc_password c)) (parse_url (target_url False 0 (''b'', ''6379''))) = Inr (None, None)"
  unfolding sample_target by (simp add: parse_url_eval)

lemma sentinel_dedicated_url: "dedicated_url (ConfSentinel (u # us) service db slave) = u"
  by (simp add: first_url_def)

end
