(* ===== verification/Kwargs.thy ===== *)
theory Kwargs
  imports Strings
begin

text \<open>
  The keyword arguments the constructors do not know (\<open>facade/kwargs.rs\<close>): each is accepted and
  ignored, with one warning per process and name.

  The two \<open>HashSet\<close>s of names that were warned about are \<open>warn_state\<close>.  \<open>warn\<close> is what
  \<open>warnings.warn\<close> does with a category and a text: it returns, or raises when the filter turns the
  warning into an error.  The calls of it are returned in order.  The standard modules
  \<open>warnings\<close> and \<open>builtins\<close> are importable.
\<close>

section \<open>The names\<close>

definition KNOWN_KWARGS :: "bytes list" where
  "KNOWN_KWARGS =
     [''host'', ''port'', ''db'', ''password'', ''socket_timeout'', ''socket_connect_timeout'',
      ''socket_keepalive'', ''socket_keepalive_options'', ''connection_pool'', ''unix_socket_path'',
      ''encoding'', ''encoding_errors'', ''charset'', ''errors'', ''decode_responses'',
      ''retry_on_timeout'', ''retry_on_error'', ''ssl'', ''ssl_keyfile'', ''ssl_certfile'',
      ''ssl_cert_reqs'', ''ssl_ca_certs'', ''ssl_ca_path'', ''ssl_ca_data'', ''ssl_check_hostname'',
      ''ssl_password'', ''ssl_validate_ocsp'', ''ssl_validate_ocsp_stapled'', ''ssl_ocsp_context'',
      ''ssl_ocsp_expected_cert'', ''ssl_min_version'', ''ssl_ciphers'', ''max_connections'',
      ''single_connection_client'', ''health_check_interval'', ''client_name'', ''lib_name'',
      ''lib_version'', ''username'', ''retry'', ''redis_connect_func'', ''credential_provider'',
      ''protocol'', ''cache'', ''cache_config'', ''event_dispatcher'']"

definition IMPLEMENTED_KWARGS :: "bytes list" where
  "IMPLEMENTED_KWARGS =
     [''host'', ''port'', ''db'', ''password'', ''username'', ''ssl'', ''ssl_keyfile'', ''ssl_certfile'',
      ''ssl_ca_certs'', ''socket_timeout'', ''max_connections'', ''health_check_interval'',
      ''client_name'', ''protocol'', ''decode_responses'', ''encoding'', ''encoding_errors'']"

section \<open>Warnings\<close>

record warn_state =
  seen_unimplemented :: "bytes set"
  seen_unknown :: "bytes set"

type_synonym py_warning = "pyexc \<times> bytes"

text \<open>The dash of the two texts, in UTF-8.\<close>

definition em_dash :: bytes where
  "em_dash = [CHR 0xE2, CHR 0x80, CHR 0x94]"

definition kwarg_warning :: "bytes \<Rightarrow> py_warning" where
  "kwarg_warning name =
     (if name \<in> set KNOWN_KWARGS then
        (PyUserWarning, ''redis_rs_py.Redis: kwarg `'' @ name @
           ''` is recognised by redis-py but not yet implemented in this driver '' @ em_dash @
           '' it has been accepted and ignored. See the compatibility matrix for status.'')
      else
        (PyRuntimeWarning, ''redis_rs_py.Redis: kwarg `'' @ name @
           ''` is not recognised by redis-py 5.x or this driver '' @ em_dash @
           '' it has been accepted and ignored. Check for a typo.''))"

definition seen_kwarg :: "warn_state \<Rightarrow> bytes \<Rightarrow> bool" where
  "seen_kwarg st name \<longleftrightarrow>
     name \<in> (if name \<in> set KNOWN_KWARGS then seen_unimplemented st else seen_unknown st)"

definition insert_kwarg :: "bytes \<Rightarrow> warn_state \<Rightarrow> warn_state" where
  "insert_kwarg name st =
     (if name \<in> set KNOWN_KWARGS then st\<lparr>seen_unimplemented := insert name (seen_unimplemented st)\<rparr>
      else st\<lparr>seen_unknown := insert name (seen_unknown st)\<rparr>)"

fun warn_names ::
  "(pyexc \<Rightarrow> bytes \<Rightarrow> unit pyres) \<Rightarrow> bytes list \<Rightarrow> pyval list \<Rightarrow> warn_state \<Rightarrow>
   unit pyres \<times> warn_state \<times> py_warning list" where
  "warn_names warn implemented [] st = (Inr (), st, [])"
| "warn_names warn implemented (k # ks) st =
     (case extract_string k of
        Inl e \<Rightarrow> (Inl e, st, [])
      | Inr name \<Rightarrow>
          if name \<in> set implemented \<or> seen_kwarg st name then warn_names warn implemented ks st
          else
            (case warn (fst (kwarg_warning name)) (snd (kwarg_warning name)) of
               Inl e \<Rightarrow> (Inl e, insert_kwarg name st, [kwarg_warning name])
             | Inr _ \<Rightarrow>
                 (case warn_names warn implemented ks (insert_kwarg name st) of
                    (r, st, ws) \<Rightarrow> (r, st, kwarg_warning name # ws))))"

definition accept_and_warn ::
  "(pyexc \<Rightarrow> bytes \<Rightarrow> unit pyres) \<Rightarrow> bytes list \<Rightarrow> (pyval \<times> pyval) list option \<Rightarrow> warn_state \<Rightarrow>
   unit pyres \<times> warn_state \<times> py_warning list" where
  "accept_and_warn warn implemented kwargs st =
     (case kwargs of
        None \<Rightarrow> (Inr (), st, [])
      | Some d \<Rightarrow> if d = [] then (Inr (), st, []) else warn_names warn implemented (map fst d) st)"

definition reset_warn_state_for_tests :: "warn_state \<Rightarrow> warn_state" where
  "reset_warn_state_for_tests st = \<lparr>seen_unimplemented = {}, seen_unknown = {}\<rparr>"

definition warn_state_init :: warn_state where
  "warn_state_init = \<lparr>seen_unimplemented = {}, seen_unknown = {}\<rparr>"

section \<open>Which names are warned about\<close>

definition seen_names :: "warn_state \<Rightarrow> bytes set" where
  "seen_names st = {n. seen_kwarg st n}"

lemma seen_names_insert [simp]: "seen_names (insert_kwarg n st) = insert n (seen_names st)"
  by (auto simp: seen_names_def seen_kwarg_def insert_kwarg_def)

lemma seen_kwarg_iff: "seen_kwarg st n \<longleftrightarrow> n \<in> seen_names st"
  by (simp add: seen_names_def)

lemma seen_names_init [simp]: "seen_names warn_state_init = {}"
  by (simp add: seen_names_def seen_kwarg_def warn_state_init_def)

text \<open>The two texts differ for different names.\<close>

lemma kwarg_warning_inj: "kwarg_warning a = kwarg_warning b \<Longrightarrow> a = b"
  by (auto simp: kwarg_warning_def split: if_splits)

text \<open>Whatever happens, a name is inserted exactly when its warning is issued.\<close>

lemma warn_names_seen:
  "warn_names warn implemented ks st = (r, st', ws) \<Longrightarrow>
   \<exists>ns. ws = map kwarg_warning ns \<and> distinct ns \<and> set ns \<inter> seen_names st = {} \<and>
     seen_names st' = seen_names st \<union> set ns"
proof (induction ks arbitrary: st r st' ws)
  case (Cons k ks)
  show ?case
  proof (cases "\<exists>n e u. extract_string k = Inr n \<and> \<not> (n \<in> set implemented \<or> seen_kwarg st n) \<and>
      warn (fst (kwarg_warning n)) (snd (kwarg_warning n)) = Inr u")
    case False
    then show ?thesis
      using Cons by (auto simp: seen_kwarg_iff split: sum.splits if_splits intro: exI [of _ "[_]"] exI [of _ "[]"])
  next
    case True
    then obtain n where n: "extract_string k = Inr n" "n \<notin> set implemented" "n \<notin> seen_names st"
        "warn (fst (kwarg_warning n)) (snd (kwarg_warning n)) = Inr ()"
      by (auto simp: seen_kwarg_iff)
    obtain r' st'' ws' where rest: "warn_names warn implemented ks (insert_kwarg n st) = (r', st'', ws')"
      by (metis prod_cases3)
    from Cons.IH [OF this] obtain ns where "ws' = map kwarg_warning ns" "distinct ns"
        "set ns \<inter> insert n (seen_names st) = {}" "seen_names st'' = insert n (seen_names st) \<union> set ns"
      by auto
    then show ?thesis
      using Cons.prems n rest by (intro exI [of _ "n # ns"]) (auto simp: seen_kwarg_iff)
  qed
qed (auto intro: exI [of _ "[]"])

lemma accept_seen:
  "accept_and_warn warn implemented kwargs st = (r, st', ws) \<Longrightarrow>
   \<exists>ns. ws = map kwarg_warning ns \<and> distinct ns \<and> set ns \<inter> seen_names st = {} \<and>
     seen_names st' = seen_names st \<union> set ns"
  by (auto simp: accept_and_warn_def split: option.splits if_splits dest: warn_names_seen intro: exI [of _ "[]"])

text \<open>When no warning is turned into an error and the names are strings, a call succeeds and has
  afterwards warned about every name it did not implement.\<close>

definition accepted_warning :: "pyexc \<Rightarrow> bytes \<Rightarrow> unit pyres" where
  "accepted_warning category msg = Inr ()"

fun str_key :: "pyval \<times> pyval \<Rightarrow> bool" where
  "str_key (PStr _, _) = True"
| "str_key _ = False"

lemma str_key_iff: "str_key p \<longleftrightarrow> (\<exists>s. fst p = PStr s)"
  by (cases p rule: str_key.cases) auto

definition new_names :: "bytes list \<Rightarrow> (pyval \<times> pyval) list \<Rightarrow> bytes set" where
  "new_names implemented d = {n. PStr n \<in> fst ` set d} - set implemented"

lemma new_names_simps [simp]:
  "new_names implemented [] = {}"
  "fst p = PStr n \<Longrightarrow> new_names implemented (p # d) = (if n \<in> set implemented then {} else {n}) \<union> new_names implemented d"
  by (auto simp: new_names_def)

lemma warn_names_all:
  "list_all str_key d \<Longrightarrow>
   \<exists>st' ws. warn_names accepted_warning implemented (map fst d) st = (Inr (), st', ws) \<and>
    seen_names st' = seen_names st \<union> new_names implemented d"
proof (induction d arbitrary: st)
  case (Cons p d)
  then obtain n where p: "fst p = PStr n" by (auto simp: str_key_iff)
  define st0 where "st0 = (if n \<in> set implemented \<or> seen_kwarg st n then st else insert_kwarg n st)"
  obtain st1 ws1 where run: "warn_names accepted_warning implemented (map fst d) st0 = (Inr (), st1, ws1)"
    and seen: "seen_names st1 = seen_names st0 \<union> new_names implemented d"
    using Cons.IH [of st0] Cons.prems by auto
  have "seen_names st0 \<union> new_names implemented d = seen_names st \<union> new_names implemented (p # d)"
    using p by (auto simp: st0_def seen_kwarg_iff)
  moreover have "\<exists>ws. warn_names accepted_warning implemented (map fst (p # d)) st = (Inr (), st1, ws)"
    using run by (cases "n \<in> set implemented \<or> seen_kwarg st n")
      (simp_all add: p extract_string_def accepted_warning_def st0_def)
  ultimately show ?case using seen by auto
qed simp

definition left_names :: "bytes list \<Rightarrow> (pyval \<times> pyval) list option \<Rightarrow> bytes set" where
  "left_names implemented kwargs = (case kwargs of None \<Rightarrow> {} | Some d \<Rightarrow> new_names implemented d)"

lemma accept_all:
  "pred_option (list_all str_key) kwargs \<Longrightarrow>
   \<exists>st' ws. accept_and_warn accepted_warning implemented kwargs st = (Inr (), st', ws) \<and>
    seen_names st' = seen_names st \<union> left_names implemented kwargs"
  using warn_names_all by (cases kwargs) (auto simp: accept_and_warn_def left_names_def)

lemma accept_warns:
  assumes "pred_option (list_all str_key) kwargs"
  obtains st' ns where
    "accept_and_warn accepted_warning implemented kwargs st = (Inr (), st', map kwarg_warning ns)"
    "distinct ns" "set ns \<inter> seen_names st = {}" "seen_names st' = seen_names st \<union> set ns"
    "seen_names st' = seen_names st \<union> left_names implemented kwargs"
proof -
  obtain st' ws where run: "accept_and_warn accepted_warning implemented kwargs st = (Inr (), st', ws)"
      "seen_names st' = seen_names st \<union> left_names implemented kwargs"
    using accept_all [OF assms] by blast
  from accept_seen [OF run(1)] show thesis using that run by auto
qed

text \<open>A name is noted before its warning is issued: with warnings as errors the first
  construction raises, and repeating it succeeds without a word.\<close>

lemma kwarg_error_only_once:
  assumes "n \<notin> set implemented" "\<not> seen_kwarg st n"
  shows "\<exists>st'. accept_and_warn (\<lambda>c m. Inl (PyErr c m)) implemented (Some [(PStr n, v)]) st =
      (Inl (PyErr (fst (kwarg_warning n)) (snd (kwarg_warning n))), st', [kwarg_warning n]) \<and>
    accept_and_warn (\<lambda>c m. Inl (PyErr c m)) implemented (Some [(PStr n, v)]) st' = (Inr (), st', [])"
  using assms by (simp add: accept_and_warn_def extract_string_def seen_kwarg_iff)

end
