(* ===== verification/Facade.thy ===== *)
theory Facade
  imports Kwargs Replies Url
begin

text \<open>
  Constructing, wrapping up and closing the clients: the constructors and \<open>from_url\<close> of
  \<open>Redis\<close> (\<open>facade/sync.rs\<close>) and \<open>AsyncRedis\<close> (\<open>facade/asyncio_mod.rs\<close>), and
  \<open>connect_standard\<close> and \<open>connect_cluster\<close> (\<open>connection.rs\<close>).

  A constructor is modelled from its keyword arguments on: the signature gives the order in which
  PyO3 extracts them, what is not in it goes to \<open>accept_and_warn\<close>.  The redis crate's client,
  the file system, Python's warnings and the conversion to a double are parameters.
\<close>

section \<open>TLS files and connections\<close>

record tls_opts =
  root_cert :: "bytes option"
  client_cert :: "bytes option"
  client_key :: "bytes option"

record tls_certs =
  tc_root :: "bytes option"
  tc_client :: "(bytes \<times> bytes) option"

definition to_tls_certs :: "tls_opts \<Rightarrow> tls_certs" where
  "to_tls_certs t =
     \<lparr>tc_root = root_cert t,
      tc_client = (case (client_cert t, client_key t) of (Some c, Some k) \<Rightarrow> Some (c, k) | _ \<Rightarrow> None)\<rparr>"

record manager_config =
  mc_buffer :: nat
  mc_timeout :: "nat option"
  mc_cache :: "(nat \<times> u64) option"

text \<open>The response time-out is in seconds; a cache of size 0 becomes one of size 1.\<close>

definition conn_manager_config :: "(nat \<times> u64) option \<Rightarrow> manager_config" where
  "conn_manager_config cache =
     \<lparr>mc_buffer = 1000, mc_timeout = Some 30,
      mc_cache = map_option (\<lambda>(max_size, ttl). (max max_size 1, ttl)) cache\<rparr>"

definition blocking_conn_manager_config :: manager_config where
  "blocking_conn_manager_config = \<lparr>mc_buffer = 1000, mc_timeout = None, mc_cache = None\<rparr>"

text \<open>What the redis crate does: open a client for a URL, and start a connection manager, or a
  cluster connection.\<close>

record ('client, 'conn) redis_crate =
  rc_open :: "bytes \<Rightarrow> tls_certs option \<Rightarrow> redis_error + 'client"
  rc_start :: "'client \<Rightarrow> manager_config \<Rightarrow> redis_error + 'conn"
  rc_cluster :: "bytes list \<Rightarrow> tls_certs option \<Rightarrow> redis_error + 'client"
  rc_cluster_start :: "'client \<Rightarrow> redis_error + 'conn"

definition create_client ::
  "('client, 'conn) redis_crate \<Rightarrow> bytes \<Rightarrow> tls_opts option \<Rightarrow> redis_error + 'client" where
  "create_client crate url tls = rc_open crate url (map_option to_tls_certs tls)"

text \<open>A \<open>ValkeyConn\<close>: the connection and the configuration its dedicated connections are built
  from.\<close>

record 'conn valkey_conn =
  vc_regular :: 'conn
  vc_urls :: "bytes list"
  vc_tls :: "tls_opts option"

definition connect_standard ::
  "('client, 'conn) redis_crate \<Rightarrow> bytes \<Rightarrow> (nat \<times> u64) option \<Rightarrow> tls_opts option \<Rightarrow> bytes + 'conn valkey_conn" where
  "connect_standard crate url cache tls =
     (let url = url_with_resp3 url in
      map_sum re_display id
        (rbind (create_client crate url tls) (\<lambda>client.
         rbind (rc_start crate client (conn_manager_config cache)) (\<lambda>mgr.
         Inr \<lparr>vc_regular = mgr, vc_urls = [url], vc_tls = tls\<rparr>))))"

definition connect_cluster ::
  "('client, 'conn) redis_crate \<Rightarrow> bytes list \<Rightarrow> tls_opts option \<Rightarrow> bytes + 'conn valkey_conn" where
  "connect_cluster crate urls tls =
     (if urls = [] then Inl ''connect_cluster: at least one startup URL required''
      else
        rbind (map_sum (\<lambda>e. ''Invalid cluster URLs: '' @ re_display e) id
                (rc_cluster crate urls (map_option to_tls_certs tls))) (\<lambda>client.
        rbind (map_sum (\<lambda>e. ''Cluster connection failed: '' @ re_display e) id
                (rc_cluster_start crate client)) (\<lambda>conn.
        Inr \<lparr>vc_regular = conn, vc_urls = urls, vc_tls = tls\<rparr>)))"

section \<open>Clients\<close>

text \<open>\<open>Redis\<close> and \<open>AsyncRedis\<close> have the same fields; \<open>ro_decode\<close> holds the encoding and its
  error handler.\<close>

record 'conn redis_object =
  ro_connection :: "'conn valkey_conn"
  ro_url :: bytes
  ro_closed :: bool
  ro_decode :: "(bytes \<times> bytes) option"

record full_config = facade_config +
  fc_ssl_keyfile :: "bytes option"
  fc_ssl_certfile :: "bytes option"
  fc_ssl_ca_certs :: "bytes option"
  fc_socket_timeout :: "f64 option"
  fc_max_connections :: "u64 option"
  fc_health_check_interval :: u64
  fc_client_name :: "bytes option"
  fc_protocol :: i64
  fc_decode_responses :: bool
  fc_encoding :: bytes
  fc_encoding_errors :: bytes

text \<open>\<open>std::fs::read\<close>: the content, or the text of the I/O error.\<close>

type_synonym file_system = "bytes \<Rightarrow> bytes + bytes"

definition read_tls_file :: "file_system \<Rightarrow> bytes \<Rightarrow> bytes option \<Rightarrow> bytes option pyres" where
  "read_tls_file fs arg path =
     (case path of
        None \<Rightarrow> Inr None
      | Some f \<Rightarrow>
          map_sum (\<lambda>e. PyErr PyValueError (''Cannot read '' @ arg @ '' '' @ f @ '': '' @ e)) Some (fs f))"

definition tls_opts_of :: "file_system \<Rightarrow> full_config \<Rightarrow> tls_opts option pyres" where
  "tls_opts_of fs cfg =
     (if fc_ssl_ca_certs cfg \<noteq> None \<or> fc_ssl_certfile cfg \<noteq> None \<or> fc_ssl_keyfile cfg \<noteq> None then
        rbind (read_tls_file fs ''ssl_ca_certs'' (fc_ssl_ca_certs cfg)) (\<lambda>root.
        rbind (read_tls_file fs ''ssl_certfile'' (fc_ssl_certfile cfg)) (\<lambda>cert.
        rbind (read_tls_file fs ''ssl_keyfile'' (fc_ssl_keyfile cfg)) (\<lambda>key.
        Inr (Some \<lparr>root_cert = root, client_cert = cert, client_key = key\<rparr>))))
      else Inr None)"

definition build_connection ::
  "bridge_env \<Rightarrow> ('client, 'conn) redis_crate \<Rightarrow> file_system \<Rightarrow> full_config \<Rightarrow> 'conn redis_object pyres" where
  "build_connection env crate fs cfg =
     (let url = to_url (facade_config.truncate cfg) in
      rbind (tls_opts_of fs cfg) (\<lambda>tls.
        (let resp3_url = url_with_resp3 url in
         case connect_standard crate resp3_url None tls of
           Inr c \<Rightarrow> Inr \<lparr>ro_connection = c, ro_url = resp3_url, ro_closed = False,
                         ro_decode = (if fc_decode_responses cfg
                                      then Some (fc_encoding cfg, fc_encoding_errors cfg) else None)\<rparr>
         | Inl e \<Rightarrow> Inl (to_py_err (pe_lookup_ok env) (made_error env EkIo ''connect'' (Some e))))))"

section \<open>Keyword arguments\<close>

text \<open>The conversions PyO3 applies to the annotated types, with the texts left to PyO3.\<close>

definition extract_word :: "nat \<Rightarrow> pyval \<Rightarrow> int pyres" where
  "extract_word w v =
     rbind (extract_int v) (\<lambda>i.
       if 0 \<le> i \<and> i < 2 ^ w then Inr i
       else Inl (PyErr PyOverflowError ''out of range integral type conversion attempted''))"

definition extract_bool :: "pyval \<Rightarrow> bool pyres" where
  "extract_bool v = (case v of PBool b \<Rightarrow> Inr b | _ \<Rightarrow> Inl (type_error ''not a bool''))"

definition optional :: "(pyval \<Rightarrow> 'a pyres) \<Rightarrow> pyval \<Rightarrow> 'a option pyres" where
  "optional ext v = (if v = PNone then Inr None else map_sum id Some (ext v))"

definition checks :: "(pyval \<Rightarrow> 'a pyres) \<Rightarrow> pyval \<Rightarrow> unit pyres" where
  "checks ext v = map_sum id (\<lambda>_. ()) (ext v)"

definition any_value :: "pyval \<Rightarrow> unit pyres" where "any_value v = Inr ()"

type_synonym py_signature = "(bytes \<times> (pyval \<Rightarrow> unit pyres)) list"

text \<open>Extraction in the order of the signature; the first failure is raised.\<close>

definition bind_args :: "py_signature \<Rightarrow> (pyval \<times> pyval) list \<Rightarrow> unit pyres" where
  "bind_args sig kw =
     rbind (collect_res (\<lambda>(k, chk). case dict_get kw (PStr k) of None \<Rightarrow> Inr () | Some v \<Rightarrow> chk v) sig)
       (\<lambda>_. Inr ())"

definition extra_args :: "py_signature \<Rightarrow> (pyval \<times> pyval) list \<Rightarrow> (pyval \<times> pyval) list option" where
  "extra_args sig kw =
     (case filter (\<lambda>(k, _). k \<notin> PStr ` fst ` set sig) kw of [] \<Rightarrow> None | d \<Rightarrow> Some d)"

text \<open>The value of an argument after the extraction went well.\<close>

definition arg_or :: "'a \<Rightarrow> (pyval \<Rightarrow> 'a pyres) \<Rightarrow> (pyval \<times> pyval) list \<Rightarrow> bytes \<Rightarrow> 'a" where
  "arg_or dflt ext kw k =
     (case dict_get kw (PStr k) of
        None \<Rightarrow> dflt
      | Some v \<Rightarrow> (case ext v of Inr x \<Rightarrow> x | Inl _ \<Rightarrow> dflt))"

definition redis_signature :: "(pyval \<Rightarrow> f64 pyres) \<Rightarrow> py_signature" where
  "redis_signature as_double =
     [(''host'', checks extract_string), (''port'', checks (extract_word 16)), (''db'', any_value),
      (''password'', checks (optional extract_string)), (''socket_timeout'', checks (optional as_double)),
      (''encoding'', checks extract_string), (''encoding_errors'', checks extract_string),
      (''decode_responses'', checks extract_bool), (''ssl'', checks extract_bool),
      (''ssl_keyfile'', checks (optional extract_string)), (''ssl_certfile'', checks (optional extract_string)),
      (''ssl_ca_certs'', checks (optional extract_string)), (''max_connections'', checks (optional (extract_word 64))),
      (''health_check_interval'', checks (extract_word 64)), (''client_name'', checks (optional extract_string)),
      (''username'', checks (optional extract_string)), (''protocol'', checks extract_i64)]"

definition async_redis_signature :: "(pyval \<Rightarrow> f64 pyres) \<Rightarrow> py_signature" where
  "async_redis_signature as_double =
     [(''host'', checks extract_string), (''port'', checks (extract_word 16)), (''db'', checks extract_i64),
      (''password'', checks (optional extract_string)), (''socket_timeout'', checks (optional as_double)),
      (''socket_connect_timeout'', any_value), (''socket_keepalive'', checks extract_bool),
      (''socket_keepalive_options'', any_value), (''connection_pool'', any_value),
      (''unix_socket_path'', any_value), (''encoding'', checks extract_string),
      (''encoding_errors'', checks extract_string), (''charset'', any_value), (''errors'', any_value),
      (''decode_responses'', checks extract_bool), (''retry_on_timeout'', checks extract_bool),
      (''retry_on_error'', any_value), (''ssl'', checks extract_bool),
      (''ssl_keyfile'', checks (optional extract_string)), (''ssl_certfile'', checks (optional extract_string)),
      (''ssl_cert_reqs'', checks extract_string), (''ssl_ca_certs'', checks (optional extract_string)),
      (''ssl_ca_path'', any_value), (''ssl_ca_data'', any_value), (''ssl_check_hostname'', checks extract_bool),
      (''ssl_password'', any_value), (''ssl_validate_ocsp'', checks extract_bool),
      (''ssl_validate_ocsp_stapled'', checks extract_bool), (''ssl_ocsp_context'', any_value),
      (''ssl_ocsp_expected_cert'', any_value), (''ssl_min_version'', any_value), (''ssl_ciphers'', any_value),
      (''max_connections'', checks (optional (extract_word 64))), (''single_connection_client'', checks extract_bool),
      (''health_check_interval'', checks (extract_word 64)), (''client_name'', checks (optional extract_string)),
      (''lib_name'', checks (optional extract_string)), (''lib_version'', checks (optional extract_string)),
      (''username'', checks (optional extract_string)), (''retry'', any_value), (''redis_connect_func'', any_value),
      (''credential_provider'', any_value), (''protocol'', checks extract_i64), (''cache'', any_value),
      (''cache_config'', any_value), (''event_dispatcher'', any_value)]"

text \<open>The \<open>FacadeConfig\<close> literal of both constructors; they differ in how they read \<open>db\<close>.\<close>

definition config_of :: "(pyval \<Rightarrow> f64 pyres) \<Rightarrow> i64 \<Rightarrow> (pyval \<times> pyval) list \<Rightarrow> full_config" where
  "config_of as_double db kw =
     \<lparr>fc_host = arg_or ''localhost'' extract_string kw ''host'',
      fc_port = word_of_int (arg_or 6379 (extract_word 16) kw ''port''),
      fc_db = db,
      fc_password = arg_or None (optional extract_string) kw ''password'',
      fc_username = arg_or None (optional extract_string) kw ''username'',
      fc_ssl = arg_or False extract_bool kw ''ssl'',
      fc_ssl_keyfile = arg_or None (optional extract_string) kw ''ssl_keyfile'',
      fc_ssl_certfile = arg_or None (optional extract_string) kw ''ssl_certfile'',
      fc_ssl_ca_certs = arg_or None (optional extract_string) kw ''ssl_ca_certs'',
      fc_socket_timeout = arg_or None (optional as_double) kw ''socket_timeout'',
      fc_max_connections = map_option word_of_int (arg_or None (optional (extract_word 64)) kw ''max_connections''),
      fc_health_check_interval = word_of_int (arg_or 0 (extract_word 64) kw ''health_check_interval''),
      fc_client_name = arg_or None (optional extract_string) kw ''client_name'',
      fc_protocol = arg_or 2 extract_i64 kw ''protocol'',
      fc_decode_responses = arg_or False extract_bool kw ''decode_responses'',
      fc_encoding = arg_or ''utf-8'' extract_string kw ''encoding'',
      fc_encoding_errors = arg_or ''strict'' extract_string kw ''encoding_errors''\<rparr>"

section \<open>Constructors\<close>

record ('client, 'conn) host_env =
  he_bridge :: bridge_env
  he_crate :: "('client, 'conn) redis_crate"
  he_files :: file_system
  he_warn :: "pyexc \<Rightarrow> bytes \<Rightarrow> unit pyres"
  he_double :: "pyval \<Rightarrow> f64 pyres"
  he_url_text :: "url_error \<Rightarrow> bytes"

text \<open>Bind the arguments, warn about the rest, connect.\<close>

definition construct_with ::
  "('client, 'conn) host_env \<Rightarrow> py_signature \<Rightarrow> i64 \<Rightarrow> (pyval \<times> pyval) list \<Rightarrow> warn_state \<Rightarrow>
   'conn redis_object pyres \<times> warn_state \<times> py_warning list" where
  "construct_with h sig db kw st =
     (case bind_args sig kw of
        Inl e \<Rightarrow> (Inl e, st, [])
      | Inr _ \<Rightarrow>
          (case accept_and_warn (he_warn h) IMPLEMENTED_KWARGS (extra_args sig kw) st of
             (Inl e, st, ws) \<Rightarrow> (Inl e, st, ws)
           | (Inr _, st, ws) \<Rightarrow>
               (build_connection (he_bridge h) (he_crate h) (he_files h) (config_of (he_double h) db kw), st, ws)))"

definition redis_new ::
  "('client, 'conn) host_env \<Rightarrow> (pyval \<times> pyval) list \<Rightarrow> warn_state \<Rightarrow>
   'conn redis_object pyres \<times> warn_state \<times> py_warning list" where
  "redis_new h kw = construct_with h (redis_signature (he_double h)) (coerce_db (dict_get kw (PStr ''db''))) kw"

definition async_redis_new ::
  "('client, 'conn) host_env \<Rightarrow> (pyval \<times> pyval) list \<Rightarrow> warn_state \<Rightarrow>
   'conn redis_object pyres \<times> warn_state \<times> py_warning list" where
  "async_redis_new h kw = construct_with h (async_redis_signature (he_double h)) (arg_or 0 extract_i64 kw ''db'') kw"

text \<open>\<open>from_url\<close> of both classes: \<open>cls\<close> is the class it is called on.\<close>

definition redis_from_url ::
  "('client, 'conn) host_env \<Rightarrow>
   ((pyval \<times> pyval) list \<Rightarrow> warn_state \<Rightarrow> 'conn redis_object pyres \<times> warn_state \<times> py_warning list) \<Rightarrow>
   bytes \<Rightarrow> (pyval \<times> pyval) list option \<Rightarrow> warn_state \<Rightarrow>
   'conn redis_object pyres \<times> warn_state \<times> py_warning list" where
  "redis_from_url h cls url kwargs st =
     (case parse_url url of
        Inl e \<Rightarrow> (Inl (PyErr PyValueError (he_url_text h e)), st, [])
      | Inr cfg \<Rightarrow> cls (from_url_kwargs cfg (case kwargs of None \<Rightarrow> [] | Some d \<Rightarrow> d)) st)"

definition async_redis_from_url ::
  "('client, 'conn) host_env \<Rightarrow>
   ((pyval \<times> pyval) list \<Rightarrow> warn_state \<Rightarrow> 'conn redis_object pyres \<times> warn_state \<times> py_warning list) \<Rightarrow>
   bytes \<Rightarrow> (pyval \<times> pyval) list option \<Rightarrow> warn_state \<Rightarrow>
   'conn redis_object pyres \<times> warn_state \<times> py_warning list" where
  "async_redis_from_url h cls url kwargs st =
     (case parse_url url of
        Inl e \<Rightarrow> (Inl (PyErr PyValueError (he_url_text h e)), st, [])
      | Inr cfg \<Rightarrow> cls (from_url_kwargs cfg (case kwargs of None \<Rightarrow> [] | Some d \<Rightarrow> d)) st)"

section \<open>Closing\<close>

definition redis_close :: "'conn redis_object \<Rightarrow> unit pyres \<times> 'conn redis_object" where
  "redis_close o1 = (Inr (), o1\<lparr>ro_closed := True\<rparr>)"

definition redis_enter :: "'conn redis_object \<Rightarrow> 'conn redis_object pyres \<times> 'conn redis_object" where
  "redis_enter o1 = (Inr o1, o1)"

definition redis_exit :: "'conn redis_object \<Rightarrow> bool pyres \<times> 'conn redis_object" where
  "redis_exit o1 = (let (r, o1) = redis_close o1 in (rbind r (\<lambda>_. Inr False), o1))"

text \<open>The awaitable versions hand out \<open>asyncio.sleep(0, v)\<close>, whose result is \<open>v\<close>.\<close>

definition async_redis_aenter :: "'conn redis_object \<Rightarrow> 'conn redis_object pyres \<times> 'conn redis_object" where
  "async_redis_aenter o1 = (Inr o1, o1)"

definition async_redis_aclose :: "'conn redis_object \<Rightarrow> pyval pyres \<times> 'conn redis_object" where
  "async_redis_aclose o1 = (Inr PNone, o1\<lparr>ro_closed := True\<rparr>)"

definition async_redis_aexit :: "'conn redis_object \<Rightarrow> pyval pyres \<times> 'conn redis_object" where
  "async_redis_aexit o1 = (Inr (PBool False), o1\<lparr>ro_closed := True\<rparr>)"

text \<open>The URL a client tells, as it was built: with the password in it.\<close>

definition redis_connection_url :: "'conn redis_object \<Rightarrow> bytes" where
  "redis_connection_url o1 = ro_url o1"

definition async_redis_connection_url :: "'conn redis_object \<Rightarrow> bytes" where
  "async_redis_connection_url o1 = ro_url o1"

lemma connection_url_shows_password:
  assumes "build_connection env crate fs cfg = Inr o1" "fc_password cfg = Some p"
    and "\<not> contains_str ''protocol='' (to_url (facade_config.truncate cfg))"
    and "CHR ''#'' \<notin> set (to_url (facade_config.truncate cfg))"
  shows "\<exists>pre post. redis_connection_url o1 = pre @ p @ post"
proof -
  let ?url = "to_url (facade_config.truncate cfg)"
  have "redis_connection_url o1 = url_with_resp3 ?url"
    using assms(1)
    by (auto simp: build_connection_def rbind_def redis_connection_url_def Let_def split: sum.splits)
  also have "\<dots> = ?url @ (if CHR ''?'' \<in> set ?url then CHR ''&'' else CHR ''?'') # ''protocol=resp3''"
    using assms(3,4) by (simp add: url_with_resp3_def Let_def)
  finally have whole: "redis_connection_url o1 = ?url @ (if CHR ''?'' \<in> set ?url then CHR ''&'' else CHR ''?'') # ''protocol=resp3''" .
  let ?before = "case fc_username cfg of Some u \<Rightarrow> u @ '':'' | None \<Rightarrow> '':''"
  have "userinfo_text (fc_username cfg) (fc_password cfg) = ?before @ p @ ''@''"
    using assms(2) by (simp add: userinfo_text_def split: option.split)
  then have "?url = ((if fc_ssl cfg then ''rediss'' else ''redis'') @ ''://'' @ ?before) @ p @
      (''@'' @ fc_host cfg @ '':'' @ show_nat (unat (fc_port cfg)) @ ''/'' @ show_int (sint (fc_db cfg)))"
    by (simp add: to_url_def facade_config.truncate_def)
  with whole show ?thesis by (metis append.assoc)
qed

section \<open>From a URL to a connection\<close>

lemma bind_args_ok:
  "list_all (\<lambda>(k, chk). pred_option (\<lambda>v. chk v = Inr ()) (dict_get kw (PStr k))) sig \<Longrightarrow> bind_args sig kw = Inr ()"
  by (induction sig) (auto simp: bind_args_def rbind_def split: option.splits sum.splits)

lemma extra_args_None: "fst ` set kw \<subseteq> PStr ` fst ` set sig \<Longrightarrow> extra_args sig kw = None"
proof -
  assume "fst ` set kw \<subseteq> PStr ` fst ` set sig"
  then have "filter (\<lambda>(k, _). k \<notin> PStr ` fst ` set sig) kw = []" by (force simp: filter_empty_conv)
  then show ?thesis by (simp add: extra_args_def)
qed

lemma dict_upd_keys: "fst ` set (dict_upd k v d) \<subseteq> insert k (fst ` set d)"
  by (induction d) (force split: if_splits)+

lemma extract_word_uint [simp]:
  "extract_word 16 (PInt (uint p)) = Inr (uint p)" for p :: u16
  using unsigned_less [of p, where 'a = int] by (simp add: extract_word_def)

text \<open>The keyword arguments of a parsed URL, looked up.\<close>

lemma from_url_lookup:
  "dict_get (from_url_kwargs cfg []) (PStr k) =
     (if k = ''ssl'' \<and> uc_ssl cfg then Some (PBool True)
      else if k = ''username'' then map_option PStr (uc_username cfg)
      else if k = ''password'' then map_option PStr (uc_password cfg)
      else if k = ''db'' then Some (PInt (sint (uc_db cfg)))
      else if k = ''port'' then Some (PInt (uint (uc_port cfg)))
      else if k = ''host'' then Some (PStr (uc_host cfg)) else None)"
  by (auto simp: from_url_kwargs_def Let_def str_dict.lookup_insert split: option.splits)

lemma from_url_keys:
  "fst ` set (from_url_kwargs cfg []) \<subseteq> PStr ` {''host'', ''port'', ''db'', ''password'', ''username'', ''ssl''}"
proof -
  have upd: "fst ` set d \<subseteq> PStr ` S \<Longrightarrow> k \<in> S \<Longrightarrow> fst ` set (dict_upd (PStr k) v d) \<subseteq> PStr ` S" for k v d S
    using dict_upd_keys [of "PStr k" v d] by blast
  show ?thesis by (auto simp: from_url_kwargs_def Let_def intro!: upd split: option.splits)
qed

lemma arg_or_simps:
  "arg_or d ext kw k = (case dict_get kw (PStr k) of None \<Rightarrow> d | Some v \<Rightarrow> (case ext v of Inr x \<Rightarrow> x | Inl _ \<Rightarrow> d))"
  by (simp add: arg_or_def)

lemma optional_string [simp]: "optional extract_string (PStr s) = Inr (Some s)"
  by (simp add: optional_def extract_string_def)

lemma checks_simps [simp]:
  "checks extract_string (PStr s) = Inr ()"
  "checks (optional extract_string) (PStr s) = Inr ()"
  "checks extract_bool (PBool b) = Inr ()"
  "checks (extract_word 16) (PInt (uint p)) = Inr ()"
  "checks extract_i64 (PInt (sint n)) = Inr ()"
  "any_value v = Inr ()"
  for p :: u16 and n :: i64
  by (simp_all add: checks_def any_value_def extract_bool_def extract_string_def)

lemma from_url_binds:
  "bind_args (redis_signature as_double) (from_url_kwargs cfg []) = Inr ()"
  "bind_args (async_redis_signature as_double) (from_url_kwargs cfg []) = Inr ()"
  by (rule bind_args_ok; cases "uc_password cfg"; cases "uc_username cfg";
      simp add: redis_signature_def async_redis_signature_def from_url_lookup)+

lemma from_url_no_extra:
  "extra_args (redis_signature as_double) (from_url_kwargs cfg []) = None"
  "extra_args (async_redis_signature as_double) (from_url_kwargs cfg []) = None"
  by (rule extra_args_None [OF subset_trans [OF from_url_keys]];
      simp add: redis_signature_def async_redis_signature_def)+

lemma config_of_url:
  "facade_config.truncate (config_of as_double (uc_db cfg) (from_url_kwargs cfg [])) =
     \<lparr>fc_host = uc_host cfg, fc_port = uc_port cfg, fc_db = uc_db cfg, fc_password = uc_password cfg,
      fc_username = uc_username cfg, fc_ssl = uc_ssl cfg\<rparr>"
  by (cases "uc_password cfg"; cases "uc_username cfg")
    (simp_all add: config_of_def facade_config.defs arg_or_def from_url_lookup extract_bool_def)

lemma config_of_url_defaults:
  "tls_opts_of fs (config_of as_double db (from_url_kwargs cfg [])) = Inr None"
  "fc_decode_responses (config_of as_double db (from_url_kwargs cfg [])) = False"
  by (simp_all add: tls_opts_of_def config_of_def arg_or_def from_url_lookup)

lemma db_of_url:
  "coerce_db (dict_get (from_url_kwargs cfg []) (PStr ''db'')) = uc_db cfg"
  "arg_or 0 extract_i64 (from_url_kwargs cfg []) ''db'' = uc_db cfg"
  by (rule from_url_overrides) (simp add: arg_or_def from_url_lookup)

lemma rendered_facade_config: "uc = url_config_of c \<Longrightarrow>
   \<lparr>fc_host = uc_host uc, fc_port = uc_port uc, fc_db = uc_db uc, fc_password = uc_password uc,
    fc_username = uc_username uc, fc_ssl = uc_ssl uc\<rparr> = c"
  for c :: facade_config
  by (simp add: url_config_of_def)

lemma construct_from_url:
  assumes "bind_args sig (from_url_kwargs (url_config_of c) []) = Inr ()"
    and "extra_args sig (from_url_kwargs (url_config_of c) []) = None" "db = fc_db c"
  shows "construct_with h sig db (from_url_kwargs (url_config_of c) []) st =
    (case connect_standard (he_crate h) (url_with_resp3 (to_url c)) None None of
       Inr v \<Rightarrow> Inr \<lparr>ro_connection = v, ro_url = url_with_resp3 (to_url c), ro_closed = False, ro_decode = None\<rparr>
     | Inl e \<Rightarrow> Inl (to_py_err (pe_lookup_ok (he_bridge h)) (made_error (he_bridge h) EkIo ''connect'' (Some e))), st, [])"
proof -
  have "db = uc_db (url_config_of c)" using assms(3) by (simp add: url_config_of_def)
  moreover note rendered_facade_config [OF refl, of c]
  ultimately have "facade_config.truncate (config_of (he_double h) db (from_url_kwargs (url_config_of c) [])) = c"
    by (simp add: config_of_url)
  then show ?thesis
    using assms by (simp add: construct_with_def accept_and_warn_def build_connection_def config_of_url_defaults Let_def)
qed

text \<open>From a URL to a connection: \<open>from_url\<close> of either class, given the rendered URL of a
  configuration without reserved characters, raises no warning and opens exactly one connection,
  to that URL with \<open>protocol=resp3\<close>, without TLS files and without decoding; the client is open and
  keeps that URL, and a failure to connect is raised as the translation of an I/O error.\<close>
theorem from_url_connects:
  assumes "clean_config c" and "new \<in> {redis_new h, async_redis_new h}"
  shows "redis_from_url h new (to_url c) None st =
    (case connect_standard (he_crate h) (url_with_resp3 (to_url c)) None None of
       Inr v \<Rightarrow> Inr \<lparr>ro_connection = v, ro_url = url_with_resp3 (to_url c), ro_closed = False, ro_decode = None\<rparr>
     | Inl e \<Rightarrow> Inl (to_py_err (pe_lookup_ok (he_bridge h)) (made_error (he_bridge h) EkIo ''connect'' (Some e))), st, [])"
proof -
  have "parse_url (to_url c) = Inr (url_config_of c)"
    using parse_rendered [OF assms(1), of "[]"] by simp
  moreover have "uc_db (url_config_of c) = fc_db c" by (simp add: url_config_of_def)
  ultimately show ?thesis
    using assms(2)
    by (auto simp only: redis_from_url_def redis_new_def async_redis_new_def db_of_url sum.case option.case insert_iff
        empty_iff construct_from_url [OF from_url_binds(1) from_url_no_extra(1) refl]
        construct_from_url [OF from_url_binds(2) from_url_no_extra(2) refl])
qed

text \<open>A host environment for concrete evaluations: every URL connects, and the connection is the
  URL.\<close>

definition sample_host :: "(bytes, bytes) host_env" where
  "sample_host =
     \<lparr>he_bridge = sample_env,
      he_crate = \<lparr>rc_open = (\<lambda>url _. Inr url), rc_start = (\<lambda>url _. Inr url),
                  rc_cluster = (\<lambda>urls _. Inr (concat urls)), rc_cluster_start = Inr\<rparr>,
      he_files = (\<lambda>_. Inl ''No such file or directory''), he_warn = accepted_warning,
      he_double = (\<lambda>_. Inl (type_error [])), he_url_text = (\<lambda>_. [])\<rparr>"

theorem from_url_connects_witness:
  "(case redis_from_url sample_host (async_redis_new sample_host) (to_url sample_config) None warn_state_init of
      (r, st, ws) \<Rightarrow> map_sum id (vc_regular \<circ> ro_connection) r = Inr (url_with_resp3 (to_url sample_config)) \<and> ws = [])"
proof -
  have "clean_config sample_config"
    by (simp add: sample_config_def clean_config_def clean_defs octet_def del: valid_utf8.simps)
  moreover have "url_with_resp3 (url_with_resp3 (to_url sample_config)) = url_with_resp3 (to_url sample_config)"
    using resp3_idempotent [of "to_url sample_config"] by blast
  ultimately show ?thesis
    using from_url_connects [of sample_config "async_redis_new sample_host" sample_host warn_state_init]
    by (simp add: connect_standard_def create_client_def sample_host_def Let_def)
qed

section \<open>The two constructors\<close>

text \<open>The awaitable class names every redis-py argument in its signature, so the same call warns on
  the blocking class only.\<close>

lemma async_ignores_silently:
  assumes "he_warn h = accepted_warning"
  shows "snd (snd (async_redis_new h [(PStr ''retry'', v)] st)) = []"
    and "snd (snd (redis_new h [(PStr ''retry'', v)] warn_state_init)) = [kwarg_warning ''retry'']"
proof -
  have "bind_args (async_redis_signature f) [(PStr ''retry'', v)] = Inr ()"
    "bind_args (redis_signature f) [(PStr ''retry'', v)] = Inr ()" for f
    by (rule bind_args_ok; simp add: redis_signature_def async_redis_signature_def)+
  moreover have "extra_args (async_redis_signature f) [(PStr ''retry'', v)] = None" for f
    by (rule extra_args_None) (simp add: async_redis_signature_def)
  moreover have "extra_args (redis_signature f) [(PStr ''retry'', v)] = Some [(PStr ''retry'', v)]" for f
    by (simp add: extra_args_def redis_signature_def)
  moreover have "''retry'' \<notin> set IMPLEMENTED_KWARGS" by (simp add: IMPLEMENTED_KWARGS_def)
  ultimately show "snd (snd (async_redis_new h [(PStr ''retry'', v)] st)) = []"
    "snd (snd (redis_new h [(PStr ''retry'', v)] warn_state_init)) = [kwarg_warning ''retry'']"
    using assms
    by (simp_all add: redis_new_def async_redis_new_def construct_with_def accept_and_warn_def seen_kwarg_iff
        accepted_warning_def)
qed

text \<open>A database number given as a string is accepted by the blocking class only.\<close>

lemma string_db:
  "fst (async_redis_new h [(PStr ''db'', PStr s)] st) = Inl (type_error ''not an int'')"
  "fst (redis_new h [(PStr ''db'', PStr s)] st) =
     build_connection (he_bridge h) (he_crate h) (he_files h)
       (config_of (he_double h) (coerce_db (Some (PStr s))) [(PStr ''db'', PStr s)])"
  by (simp_all add: redis_new_def async_redis_new_def construct_with_def redis_signature_def async_redis_signature_def
      bind_args_def extra_args_def accept_and_warn_def any_value_def checks_def extract_i64_def extract_int_def)

text \<open>A client certificate without its key, or the reverse, is dropped without an error.\<close>

lemma half_client_certificate:
  "client_cert t = None \<or> client_key t = None \<Longrightarrow> tc_client (to_tls_certs t) = None"
  by (auto simp: to_tls_certs_def split: option.split)

text \<open>Closing twice is closing once, and is never undone.\<close>

lemma closed_stays:
  "ro_closed (snd (redis_close o1))" "ro_closed (snd (redis_exit o1))"
  "ro_closed (snd (async_redis_aclose o1))" "ro_closed (snd (async_redis_aexit o1))"
  "snd (redis_close (snd (redis_close o1))) = snd (redis_close o1)"
  by (simp_all add: redis_close_def redis_exit_def async_redis_aclose_def async_redis_aexit_def)

text \<open>\<open>url_with_resp3\<close> is meant for every URL: a cluster is given its URLs as they are, and a
  password that contains \<open>protocol=\<close> keeps a URL as it is.\<close>

lemma cluster_urls_unchanged: "connect_cluster crate urls tls = Inr c \<Longrightarrow> vc_urls c = urls"
  by (auto simp: connect_cluster_def rbind_def split: if_splits sum.splits)

lemma password_hides_protocol:
  "url_with_resp3 ''redis://:protocol=@h:6379/0'' = ''redis://:protocol=@h:6379/0''"
  by code_simp

end
