(* ===== verification/SentinelClient.thy ===== *)
theory SentinelClient
  imports Sentinel Facade
begin

text \<open>
  The classes \<open>Sentinel\<close> and \<open>AsyncSentinel\<close> (\<open>facade/sentinel.rs\<close>) on top of the theory
  Sentinel: their construction, the clients they hand out, and the SENTINEL commands, which go to
  the sentinels in turn until one accepts.

  \<open>send\<close> is what a sentinel answers to a command, and what it does to the state of the world;
  \<open>world\<close> is which sentinels can be reached in that state.
\<close>

section \<open>Construction\<close>

record sentinel_obj =
  so_urls :: "bytes list"
  so_cursors :: "bytes \<Rightarrow> u64 option"
  so_kwargs :: "(pyval \<times> pyval) list"
  so_min_other :: u32

definition SENTINEL_KWARGS_ACCEPT :: "bytes list" where
  "SENTINEL_KWARGS_ACCEPT =
     [''sentinels'', ''min_other_sentinels'', ''sentinel_kwargs'', ''force_master_ip'', ''db'', ''username'',
      ''password'', ''decode_responses'', ''encoding'', ''encoding_errors'', ''ssl'', ''ssl_ca_certs'',
      ''ssl_certfile'', ''ssl_keyfile'', ''socket_timeout'', ''socket_connect_timeout'',
      ''socket_keepalive'', ''client_name'', ''cache_max_size'', ''cache_ttl_secs'']"

definition sentinel_entry :: "pyval \<Rightarrow> bytes pyres" where
  "sentinel_entry v =
     (case v of
        PTuple [h, p] \<Rightarrow>
          rbind (extract_string h) (\<lambda>host. rbind (extract_word 16 p) (\<lambda>port.
            Inr (''redis://'' @ host @ '':'' @ show_nat (nat port))))
      | PTuple _ \<Rightarrow> Inl (data_error ''each sentinel entry must be a (host, port) tuple'')
      | _ \<Rightarrow> Inl (type_error ''not a tuple''))"

definition sentinel_new ::
  "('client, 'conn) host_env \<Rightarrow> pyval list \<Rightarrow> u32 \<Rightarrow> (pyval \<times> pyval) list option \<Rightarrow> warn_state \<Rightarrow>
   sentinel_obj pyres \<times> warn_state \<times> py_warning list" where
  "sentinel_new h sentinels min_other kwargs st =
     (if sentinels = [] then (Inl (data_error ''Sentinel requires at least one (host, port) tuple''), st, [])
      else
        (case collect_res sentinel_entry sentinels of
           Inl e \<Rightarrow> (Inl e, st, [])
         | Inr urls \<Rightarrow>
             (case accept_and_warn (he_warn h) SENTINEL_KWARGS_ACCEPT kwargs st of
                (Inl e, st, ws) \<Rightarrow> (Inl e, st, ws)
              | (Inr _, st, ws) \<Rightarrow>
                  (Inr \<lparr>so_urls = urls, so_cursors = Map.empty,
                        so_kwargs = (case kwargs of None \<Rightarrow> [] | Some d \<Rightarrow> d), so_min_other = min_other\<rparr>, st, ws))))"

definition async_sentinel_new ::
  "('client, 'conn) host_env \<Rightarrow> pyval list \<Rightarrow> u32 \<Rightarrow> (pyval \<times> pyval) list option \<Rightarrow> warn_state \<Rightarrow>
   sentinel_obj pyres \<times> warn_state \<times> py_warning list" where
  "async_sentinel_new = sentinel_new"

definition sentinel_repr :: "bytes \<Rightarrow> sentinel_obj \<Rightarrow> bytes" where
  "sentinel_repr class s =
     ''<'' @ class @ ''(sentinels='' @ show_nat (length (so_urls s)) @ '', min_other_sentinels='' @
     show_nat (unat (so_min_other s)) @ '')>''"

section \<open>The clients of a service\<close>

definition merge_kwargs :: "(pyval \<times> pyval) list \<Rightarrow> (pyval \<times> pyval) list option \<Rightarrow> (pyval \<times> pyval) list" where
  "merge_kwargs kwargs per_call =
     fold (\<lambda>(k, v). dict_upd k v) (case per_call of None \<Rightarrow> [] | Some d \<Rightarrow> d)
       (fold (\<lambda>(k, v). dict_upd k v) kwargs [])"

text \<open>\<open>get_item(k)?.and_then(|v| v.extract().ok())\<close>\<close>

definition get_as :: "(pyval \<Rightarrow> 'a pyres) \<Rightarrow> (pyval \<times> pyval) list \<Rightarrow> bytes \<Rightarrow> 'a option" where
  "get_as ext kw k =
     Option.bind (dict_get kw (PStr k)) (\<lambda>v. case ext v of Inr x \<Rightarrow> Some x | Inl _ \<Rightarrow> None)"

definition merged_db :: "(pyval \<times> pyval) list \<Rightarrow> i64" where
  "merged_db merged = (case get_as extract_i64 merged ''db'' of Some n \<Rightarrow> n | None \<Rightarrow> 0)"

definition merged_cache :: "(pyval \<times> pyval) list \<Rightarrow> (nat \<times> u64) option" where
  "merged_cache merged =
     (case (get_as (extract_word 64) merged ''cache_max_size'', get_as (extract_word 64) merged ''cache_ttl_secs'') of
        (None, None) \<Rightarrow> None
      | (max_size, ttl_secs) \<Rightarrow>
          Some (case max_size of Some n \<Rightarrow> nat n | None \<Rightarrow> 10000,
                case ttl_secs of Some n \<Rightarrow> word_of_int n | None \<Rightarrow> 300))"

definition merged_tls :: "(pyval \<times> pyval) list \<Rightarrow> tls_opts option" where
  "merged_tls merged =
     (let root = get_as extract_bytes merged ''ssl_ca_certs'';
          cert = get_as extract_bytes merged ''ssl_certfile'';
          key = get_as extract_bytes merged ''ssl_keyfile''
      in if root \<noteq> None \<or> cert \<noteq> None \<or> key \<noteq> None
         then Some \<lparr>root_cert = root, client_cert = cert, client_key = key\<rparr> else None)"

text \<open>\<open>SentinelConn::conn_config\<close>: how the connection to the target is managed.\<close>

definition sentinel_manager :: "bool \<Rightarrow> (nat \<times> u64) option \<Rightarrow> manager_config" where
  "sentinel_manager is_blocking cache =
     (if is_blocking then blocking_conn_manager_config else conn_manager_config cache)"

type_synonym sentinel_client = "(sentinel_conn \<times> manager_config) redis_object"

definition sentinel_redis ::
  "bridge_env \<Rightarrow> sentinel_world \<Rightarrow> sentinel_obj \<Rightarrow> bytes \<Rightarrow> i64 \<Rightarrow> bool \<Rightarrow> (nat \<times> u64) option \<Rightarrow> tls_opts option \<Rightarrow>
   sentinel_client pyres" where
  "sentinel_redis env w s service db slave cache tls =
     (case connect_sentinel env w (so_urls s) service db slave (tls \<noteq> None) of
        Inr c \<Rightarrow> Inr \<lparr>ro_connection = \<lparr>vc_regular = (c, sentinel_manager False cache), vc_urls = so_urls s, vc_tls = tls\<rparr>,
                      ro_url = (case so_urls s of u # _ \<Rightarrow> u | [] \<Rightarrow> ''sentinel://'' @ service),
                      ro_closed = False, ro_decode = None\<rparr>
      | Inl e \<Rightarrow> Inl (to_py_err (pe_lookup_ok env) (made_error env EkIo ''connect_sentinel'' (Some e))))"

definition build_redis_conn ::
  "bridge_env \<Rightarrow> sentinel_world \<Rightarrow> sentinel_obj \<Rightarrow> bytes \<Rightarrow> bool \<Rightarrow> (pyval \<times> pyval) list option \<Rightarrow> sentinel_client pyres" where
  "build_redis_conn env w s service slave per_call =
     (let merged = merge_kwargs (so_kwargs s) per_call in
      sentinel_redis env w s service (merged_db merged) slave (merged_cache merged) (merged_tls merged))"

definition build_async_redis ::
  "bridge_env \<Rightarrow> sentinel_world \<Rightarrow> sentinel_obj \<Rightarrow> bytes \<Rightarrow> bool \<Rightarrow> (pyval \<times> pyval) list option \<Rightarrow> sentinel_client pyres" where
  "build_async_redis env w s service slave per_call =
     (let merged = merge_kwargs (so_kwargs s) per_call in
      sentinel_redis env w s service (merged_db merged) slave None None)"

definition master_for ::
  "bridge_env \<Rightarrow> sentinel_world \<Rightarrow> bytes \<Rightarrow> (pyval \<times> pyval) list option \<Rightarrow> sentinel_obj \<Rightarrow>
   sentinel_client pyres \<times> sentinel_obj" where
  "master_for env w service kwargs s = (build_redis_conn env w s service False kwargs, s)"

definition slave_for ::
  "bridge_env \<Rightarrow> sentinel_world \<Rightarrow> bytes \<Rightarrow> (pyval \<times> pyval) list option \<Rightarrow> sentinel_obj \<Rightarrow>
   sentinel_client pyres \<times> sentinel_obj" where
  "slave_for env w service kwargs s =
     (let s = s\<lparr>so_cursors := snd (next_slave_idx service (so_cursors s))\<rparr>
      in (build_redis_conn env w s service True kwargs, s))"

definition async_master_for ::
  "bridge_env \<Rightarrow> sentinel_world \<Rightarrow> bytes \<Rightarrow> (pyval \<times> pyval) list option \<Rightarrow> sentinel_obj \<Rightarrow>
   sentinel_client pyres \<times> sentinel_obj" where
  "async_master_for env w service kwargs s = (build_async_redis env w s service False kwargs, s)"

definition async_slave_for ::
  "bridge_env \<Rightarrow> sentinel_world \<Rightarrow> bytes \<Rightarrow> (pyval \<times> pyval) list option \<Rightarrow> sentinel_obj \<Rightarrow>
   sentinel_client pyres \<times> sentinel_obj" where
  "async_slave_for env w service kwargs s =
     (let s = s\<lparr>so_cursors := snd (next_slave_idx service (so_cursors s))\<rparr>
      in (build_async_redis env w s service True kwargs, s))"

section \<open>SENTINEL commands\<close>

type_synonym 'w sentinel_method = "sentinel_obj \<Rightarrow> 'w \<Rightarrow> pyval pyres \<times> 'w"

text \<open>\<open>with_sentinel\<close> with a closure that sends one command.\<close>

fun sentinel_ask ::
  "bridge_env \<Rightarrow> ('w \<Rightarrow> sentinel_world) \<Rightarrow> ('w, 'r) sender \<Rightarrow> redis_cmd \<Rightarrow> bytes list \<Rightarrow> redis_error option \<Rightarrow> 'w \<Rightarrow>
   (redis_error + 'r) \<times> 'w" where
  "sentinel_ask env world send cmd [] last_err w =
     (Inl (case last_err of Some e \<Rightarrow> e | None \<Rightarrow> made_error env EkIo ''no sentinels reachable'' None), w)"
| "sentinel_ask env world send cmd (u # us) last_err w =
     (case open_manager (world w) False u of
        Some e \<Rightarrow> sentinel_ask env world send cmd us (Some e) w
      | None \<Rightarrow>
          (case send u cmd w of
             (Inr v, w) \<Rightarrow> (Inr v, w)
           | (Inl e, w) \<Rightarrow> sentinel_ask env world send cmd us (Some e) w))"

definition sentinel_call ::
  "bridge_env \<Rightarrow> ('w \<Rightarrow> sentinel_world) \<Rightarrow> ('w, 'r) sender \<Rightarrow> redis_cmd \<Rightarrow> ('r \<Rightarrow> pyval) \<Rightarrow> sentinel_obj \<Rightarrow> 'w \<Rightarrow>
   pyval pyres \<times> 'w" where
  "sentinel_call env world send cmd conv s w =
     (case sentinel_ask env world send cmd (so_urls s) None w of
        (Inr v, w) \<Rightarrow> (Inr (conv v), w)
      | (Inl e, w) \<Rightarrow> (Inl (to_py_err (pe_lookup_ok env) e), w))"

definition row_to_dict :: "(bytes \<times> bytes) list \<Rightarrow> pyval" where
  "row_to_dict row = PDict (fold (\<lambda>(k, v). dict_upd (PStr k) (PStr v)) row [])"

definition rows_to_dicts :: "(bytes \<times> bytes) list list \<Rightarrow> pyval" where
  "rows_to_dicts rows = PList (map row_to_dict rows)"

text \<open>\<open>enum\<close> is the iteration order of a \<open>HashMap\<close>.\<close>

definition masters_to_py ::
  "((bytes \<Rightarrow> bytes option) \<Rightarrow> (bytes \<times> bytes) list) \<Rightarrow> (bytes \<times> bytes) list list \<Rightarrow> pyval" where
  "masters_to_py enum rows =
     PDict (fold (\<lambda>row out.
       case row_field row ''name'' of
         None \<Rightarrow> out
       | Some name \<Rightarrow> dict_upd (PStr name) (row_to_dict (enum (row_field row))) out) rows [])"

definition sentinel_get_master_addr_by_name ::
  "bridge_env \<Rightarrow> sentinel_world \<Rightarrow> bytes list \<Rightarrow> bytes \<Rightarrow> (bytes \<times> u16) pyres" where
  "sentinel_get_master_addr_by_name = discover_master"

definition sentinel_masters ::
  "bridge_env \<Rightarrow> ('w \<Rightarrow> sentinel_world) \<Rightarrow> ('w, (bytes \<times> bytes) list list) sender \<Rightarrow> ((bytes \<Rightarrow> bytes option) \<Rightarrow> (bytes \<times> bytes) list) \<Rightarrow> 'w sentinel_method" where
  "sentinel_masters env world send enum =
     sentinel_call env world send (Cmd ''SENTINEL'' [AStr ''masters'']) (masters_to_py enum)"

definition sentinel_master ::
  "bridge_env \<Rightarrow> ('w \<Rightarrow> sentinel_world) \<Rightarrow> ('w, (bytes \<times> bytes) list) sender \<Rightarrow> bytes \<Rightarrow> 'w sentinel_method" where
  "sentinel_master env world send service =
     sentinel_call env world send (Cmd ''SENTINEL'' [AStr ''master'', AStr service]) row_to_dict"

definition sentinel_slaves ::
  "bridge_env \<Rightarrow> ('w \<Rightarrow> sentinel_world) \<Rightarrow> ('w, (bytes \<times> bytes) list list) sender \<Rightarrow> bytes \<Rightarrow> 'w sentinel_method" where
  "sentinel_slaves env world send service =
     sentinel_call env world send (Cmd ''SENTINEL'' [AStr ''slaves'', AStr service]) rows_to_dicts"

definition sentinel_sentinels ::
  "bridge_env \<Rightarrow> ('w \<Rightarrow> sentinel_world) \<Rightarrow> ('w, (bytes \<times> bytes) list list) sender \<Rightarrow> bytes \<Rightarrow> 'w sentinel_method" where
  "sentinel_sentinels env world send service =
     sentinel_call env world send (Cmd ''SENTINEL'' [AStr ''sentinels'', AStr service]) rows_to_dicts"

definition sentinel_failover ::
  "bridge_env \<Rightarrow> ('w \<Rightarrow> sentinel_world) \<Rightarrow> ('w, unit) sender \<Rightarrow> bytes \<Rightarrow> 'w sentinel_method" where
  "sentinel_failover env world send service =
     sentinel_call env world send (Cmd ''SENTINEL'' [AStr ''failover'', AStr service]) (\<lambda>_. PNone)"

definition sentinel_reset ::
  "bridge_env \<Rightarrow> ('w \<Rightarrow> sentinel_world) \<Rightarrow> ('w, i64) sender \<Rightarrow> bytes \<Rightarrow> 'w sentinel_method" where
  "sentinel_reset env world send pattern =
     sentinel_call env world send (Cmd ''SENTINEL'' [AStr ''reset'', AStr pattern]) (\<lambda>n. PInt (sint n))"

definition sentinel_set ::
  "bridge_env \<Rightarrow> ('w \<Rightarrow> sentinel_world) \<Rightarrow> ('w, unit) sender \<Rightarrow> bytes \<Rightarrow> bytes \<Rightarrow> bytes \<Rightarrow> 'w sentinel_method" where
  "sentinel_set env world send service opt val =
     sentinel_call env world send (Cmd ''SENTINEL'' [AStr ''set'', AStr service, AStr opt, AStr val]) (\<lambda>_. PNone)"

definition sentinel_remove ::
  "bridge_env \<Rightarrow> ('w \<Rightarrow> sentinel_world) \<Rightarrow> ('w, unit) sender \<Rightarrow> bytes \<Rightarrow> 'w sentinel_method" where
  "sentinel_remove env world send service =
     sentinel_call env world send (Cmd ''SENTINEL'' [AStr ''remove'', AStr service]) (\<lambda>_. PNone)"

definition sentinel_monitor ::
  "bridge_env \<Rightarrow> ('w \<Rightarrow> sentinel_world) \<Rightarrow> ('w, unit) sender \<Rightarrow> bytes \<Rightarrow> bytes \<Rightarrow> u16 \<Rightarrow> u32 \<Rightarrow> 'w sentinel_method" where
  "sentinel_monitor env world send service ip port quorum =
     sentinel_call env world send
       (Cmd ''SENTINEL'' [AStr ''monitor'', AStr service, AStr ip, AU16 port, AU32 quorum]) (\<lambda>_. PNone)"

text \<open>The awaitable methods; the result is what the awaitable is resolved with.\<close>

definition async_discover_master ::
  "bridge_env \<Rightarrow> sentinel_world \<Rightarrow> bytes list \<Rightarrow> bytes \<Rightarrow> raw_result" where
  "async_discover_master env w urls service =
     raw_with RStringList
       (with_sentinel env w (\<lambda>u. rbind (sw_master w u service) (\<lambda>addr.
          if length addr \<noteq> 2 then Inl (made_error env (EkServer SkMasterDown) ''no master'' None) else Inr addr)) urls None)"

definition async_sentinel_masters ::
  "bridge_env \<Rightarrow> ('w \<Rightarrow> sentinel_world) \<Rightarrow> ('w, (bytes \<times> bytes) list list) sender \<Rightarrow> sentinel_obj \<Rightarrow> 'w \<Rightarrow>
   raw_result \<times> 'w" where
  "async_sentinel_masters env world send s w =
     (case sentinel_ask env world send (Cmd ''SENTINEL'' [AStr ''masters'']) (so_urls s) None w of
        (r, w) \<Rightarrow>
          (raw_with (\<lambda>rows. RValue (VArray (map (\<lambda>row.
             VArray (concat (map (\<lambda>(k, v). [VBulkString k, VBulkString v]) row))) rows))) r, w))"

section \<open>What a command reaches\<close>

text \<open>A sender that records which sentinel was asked and what it answered.\<close>

definition observed :: "('w, 'r) sender \<Rightarrow> ('w \<times> (bytes \<times> (redis_error + 'r)) list, 'r) sender" where
  "observed send u cmd w = (case send u cmd (fst w) of (r, w') \<Rightarrow> (r, w', snd w @ [(u, r)]))"

definition reachable_sentinels :: "sentinel_world \<Rightarrow> bytes list \<Rightarrow> bytes list" where
  "reachable_sentinels sw urls = filter (\<lambda>u. open_manager sw False u = None) urls"

definition rejected :: "bytes \<times> (redis_error + 'r) \<Rightarrow> bool" where
  "rejected a \<longleftrightarrow> (case snd a of Inl _ \<Rightarrow> True | Inr _ \<Rightarrow> False)"

lemma observed_apply:
  "send u cmd w = (r, w') \<Longrightarrow> observed send u cmd (w, past) = (r, w', past @ [(u, r)])"
  by (simp add: observed_def)

lemma sentinel_ask_observed:
  "sentinel_ask env (\<lambda>_. sw) (observed send) cmd urls last_err (w, past) = (r, w', seen) \<Longrightarrow>
   \<exists>asked. seen = past @ asked \<and>
     (case r of
        Inr v \<Rightarrow> \<exists>front u. asked = front @ [(u, Inr v)] \<and> list_all rejected front \<and>
                 (\<exists>rest. reachable_sentinels sw urls = map fst asked @ rest)
      | Inl e \<Rightarrow> list_all rejected asked \<and> map fst asked = reachable_sentinels sw urls)"
proof (induction urls arbitrary: last_err w past)
  case (Cons u us)
  show ?case
  proof (cases "open_manager sw False u")
    case (Some e)
    then have "reachable_sentinels sw (u # us) = reachable_sentinels sw us"
      by (simp add: reachable_sentinels_def)
    moreover have "sentinel_ask env (\<lambda>_. sw) (observed send) cmd us (Some e) (w, past) = (r, w', seen)"
      using Cons.prems Some by simp
    ultimately show ?thesis using Cons.IH by (simp only:)
  next
    case None
    then have reach: "reachable_sentinels sw (u # us) = u # reachable_sentinels sw us"
      by (simp add: reachable_sentinels_def)
    obtain a w1 where send: "send u cmd w = (a, w1)" by (cases "send u cmd w")
    show ?thesis
    proof (cases a)
      case (Inl e)
      then have "sentinel_ask env (\<lambda>_. sw) (observed send) cmd us (Some e) (w1, past @ [(u, a)]) = (r, w', seen)"
        using Cons.prems None observed_apply [where send = send, OF send] by simp
      from Cons.IH [OF this] obtain asked where asked: "seen = (past @ [(u, a)]) @ asked"
        "case r of
           Inr v \<Rightarrow> \<exists>front u. asked = front @ [(u, Inr v)] \<and> list_all rejected front \<and>
                    (\<exists>rest. reachable_sentinels sw us = map fst asked @ rest)
         | Inl e \<Rightarrow> list_all rejected asked \<and> map fst asked = reachable_sentinels sw us"
        by blast
      have rej: "rejected (u, a)" by (simp add: rejected_def Inl)
      show ?thesis
      proof (cases r)
        case (Inl e')
        with asked rej reach show ?thesis by (intro exI [of _ "(u, a) # asked"]) simp
      next
        case (Inr v)
        with asked obtain front u' rest where "asked = front @ [(u', Inr v)]" "list_all rejected front"
          "reachable_sentinels sw us = map fst asked @ rest" by auto
        with Inr asked(1) rej reach show ?thesis
          by (intro exI [of _ "(u, a) # asked"])
            (auto intro!: exI [of _ "(u, a) # front"])
      qed
    next
      case (Inr v)
      then have "r = Inr v" "seen = past @ [(u, Inr v)]"
        using Cons.prems None observed_apply [where send = send, OF send] by auto
      with reach show ?thesis by (intro exI [of _ "[(u, Inr v)]"]) auto
    qed
  qed
qed (auto simp: reachable_sentinels_def)

text \<open>The doc comment of \<open>with_sentinel\<close> promises the result of the closure on the first reachable
  sentinel.  That is so when this sentinel accepts the command.\<close>

lemma first_reachable_accepts:
  assumes "reachable_sentinels sw urls = u # us" "send u cmd w = (Inr v, w')"
  shows "sentinel_ask env (\<lambda>_. sw) (observed send) cmd urls last_err (w, past) = (Inr v, w', past @ [(u, Inr v)])"
  using assms(1)
proof (induction urls arbitrary: last_err)
  case (Cons x urls)
  show ?case
  proof (cases "open_manager sw False x")
    case None
    with Cons.prems have "x = u" by (simp add: reachable_sentinels_def)
    with None assms(2) show ?thesis by (simp add: observed_apply)
  next
    case (Some e)
    with Cons show ?thesis by (simp add: reachable_sentinels_def)
  qed
qed (simp add: reachable_sentinels_def)

lemma first_reachable_rejects:
  assumes "reachable_sentinels sw urls = u # us" "send u cmd w = (Inl e, w1)"
    and "sentinel_ask env (\<lambda>_. sw) (observed send) cmd urls last_err (w, []) = (r, w', asked)"
  shows "asked \<noteq> [] \<and> hd asked = (u, Inl e)"
  using assms(1,3)
proof (induction urls arbitrary: last_err)
  case (Cons x urls)
  show ?case
  proof (cases "open_manager sw False x")
    case None
    with Cons.prems have "x = u" by (simp add: reachable_sentinels_def)
    with None Cons.prems(2) assms(2) have
      "sentinel_ask env (\<lambda>_. sw) (observed send) cmd urls (Some e) (w1, [(u, Inl e)]) = (r, w', asked)"
      by (simp add: observed_apply)
    from sentinel_ask_observed [OF this] show ?thesis by (cases r) auto
  next
    case (Some e)
    with Cons show ?thesis by (simp add: reachable_sentinels_def)
  qed
qed (simp add: reachable_sentinels_def)

text \<open>(C37) A SENTINEL command.  Sentinels that cannot be reached are passed over.  When the first
  reachable one accepts the command its reply is the result and no other is asked, as the doc
  comment of \<open>with_sentinel\<close> says.  When it rejects the command the code departs from the comment,
  which promises that rejection as the result: the reachable sentinels are asked one after the
  other, in the order of the list, until one accepts, whose reply is the result; all before
  rejected the command and none after gets it.  The call fails only when every reachable sentinel
  has rejected the command.\<close>
theorem sentinel_first_accepting:
  "case sentinel_ask env (\<lambda>_. sw) (observed send) cmd urls None (w, []) of
     (r, w', asked) \<Rightarrow>
       (case reachable_sentinels sw urls of
          [] \<Rightarrow> asked = []
        | u # _ \<Rightarrow>
            (case send u cmd w of
               (Inr v, w1) \<Rightarrow> r = Inr v \<and> w' = w1 \<and> asked = [(u, Inr v)]
             | (Inl e, _) \<Rightarrow> asked \<noteq> [] \<and> hd asked = (u, Inl e))) \<and>
       (\<exists>rest. reachable_sentinels sw urls = map fst asked @ rest \<and>
          (case r of
             Inr v \<Rightarrow> asked \<noteq> [] \<and> snd (last asked) = Inr v \<and> list_all rejected (butlast asked)
           | Inl e \<Rightarrow> list_all rejected asked \<and> rest = []))"
proof -
  obtain r w' asked where run: "sentinel_ask env (\<lambda>_. sw) (observed send) cmd urls None (w, []) = (r, w', asked)"
    by (metis prod_cases3)
  have order: "\<exists>rest. reachable_sentinels sw urls = map fst asked @ rest \<and>
      (case r of
         Inr v \<Rightarrow> asked \<noteq> [] \<and> snd (last asked) = Inr v \<and> list_all rejected (butlast asked)
       | Inl e \<Rightarrow> list_all rejected asked \<and> rest = [])"
    using sentinel_ask_observed [OF run] by (cases r) auto
  have first: "case reachable_sentinels sw urls of
      [] \<Rightarrow> asked = []
    | u # _ \<Rightarrow>
        (case send u cmd w of
           (Inr v, w1) \<Rightarrow> r = Inr v \<and> w' = w1 \<and> asked = [(u, Inr v)]
         | (Inl e, _) \<Rightarrow> asked \<noteq> [] \<and> hd asked = (u, Inl e))"
  proof (cases "reachable_sentinels sw urls")
    case (Cons u us)
    obtain r1 w1 where s: "send u cmd w = (r1, w1)" by fastforce
    show ?thesis
    proof (cases r1)
      case (Inl e)
      then show ?thesis using first_reachable_rejects [OF Cons _ run] s Cons by auto
    next
      case (Inr v)
      then show ?thesis using first_reachable_accepts [OF Cons, of send cmd w v w1 env None "[]"] s run Cons by simp
    qed
  qed (use order in simp)
  show ?thesis unfolding run prod.case using order first by (rule conjI [rotated])
qed

text \<open>The doc comment promises the result of the closure on the first reachable sentinel; a command
  the first one rejects is sent to the others, too.\<close>

lemma rejected_command_repeated:
  assumes "open_manager sw False u1 = None" "open_manager sw False u2 = None"
    and "send u1 cmd w = (Inl e, w1)"
  shows "sentinel_ask env (\<lambda>_. sw) send cmd [u1, u2] None w = (case send u2 cmd w1 of
     (Inr v, w2) \<Rightarrow> (Inr v, w2) | (Inl e2, w2) \<Rightarrow> (Inl e2, w2))"
  using assms by (simp split: sum.split prod.split)

section \<open>The two classes\<close>

text \<open>The arguments of the call win over those of the constructor.\<close>

lemma dict_get_fold_upd:
  "list_all str_key kw \<Longrightarrow>
   dict_get (fold (\<lambda>(k, v). dict_upd k v) kw d) (PStr k) =
     (case map_of (rev kw) (PStr k) of Some v \<Rightarrow> Some v | None \<Rightarrow> dict_get d (PStr k))"
proof (induction kw arbitrary: d)
  case (Cons p kw)
  then obtain s v where p: "p = (PStr s, v)" by (cases p) (auto simp: str_key_iff)
  show ?case
    using Cons.IH [of "dict_upd (PStr s) v d"] Cons.prems
    by (auto simp: p str_dict.lookup_insert map_add_def split: option.split)
qed simp

lemma per_call_wins:
  assumes "list_all str_key kwargs" "list_all str_key d"
  shows "dict_get (merge_kwargs kwargs (Some d)) (PStr k) =
    (case map_of (rev d) (PStr k) of Some v \<Rightarrow> Some v | None \<Rightarrow> map_of (rev kwargs) (PStr k))"
  using dict_get_fold_upd [OF assms(2)] dict_get_fold_upd [OF assms(1), of "[]"]
  by (simp add: merge_kwargs_def split: option.split)

text \<open>\<open>AsyncSentinel\<close> ignores the TLS and cache options: its clients connect in clear text.\<close>

lemma async_sentinel_clear_text:
  "build_async_redis env w s service slave kw =
   sentinel_redis env w s service (merged_db (merge_kwargs (so_kwargs s) kw)) slave None None"
  "so_kwargs s = [(PStr ''ssl_ca_certs'', PBytes pem)] \<Longrightarrow>
   build_redis_conn env w s service slave None =
   sentinel_redis env w s service 0 slave None (Some \<lparr>root_cert = Some pem, client_cert = None, client_key = None\<rparr>)"
  by (simp_all add: build_async_redis_def build_redis_conn_def merge_kwargs_def merged_tls_def merged_cache_def
      merged_db_def get_as_def)

text \<open>On the clients it agrees with \<open>Sentinel\<close> when there are no such options.\<close>

lemma sentinel_clients_agree:
  assumes "merged_cache (merge_kwargs (so_kwargs s) kw) = None" "merged_tls (merge_kwargs (so_kwargs s) kw) = None"
  shows "async_master_for env w service kw s = master_for env w service kw s"
    and "async_slave_for env w service kw s = slave_for env w service kw s"
  using assms
  by (simp_all add: async_master_for_def master_for_def async_slave_for_def slave_for_def
      build_async_redis_def build_redis_conn_def Let_def)

text \<open>\<open>discover_master\<close> is a tuple with a number on one class and a list of two strings on the other,
  which accepts a port that is no number.\<close>

lemma async_discover_master_differs:
  assumes "open_manager w False u = None" "sw_master w u service = Inr [host, ''x'']"
  shows "into_py env (async_discover_master env w [u] service) = Inr (PList [PStr host, PStr ''x''])"
    and "\<exists>e. discover_master env w [u] service = Inl e"
proof -
  have "parse_unsigned 16 ''x'' = None" by code_simp
  with assms show "into_py env (async_discover_master env w [u] service) = Inr (PList [PStr host, PStr ''x''])"
    "\<exists>e. discover_master env w [u] service = Inl e"
    by (simp_all add: async_discover_master_def raw_with_def discover_master_def ask_master_def)
qed

text \<open>The masters are a dict of dicts on one class and a list of flat lists on the other.\<close>

lemma async_sentinel_masters_differs:
  assumes "open_manager (world w) False u = None"
    and "send u (Cmd ''SENTINEL'' [AStr ''masters'']) w = (Inr [[(''name'', n)]], w')" "so_urls s = [u]"
  shows "into_py env (fst (async_sentinel_masters env world send s w)) = Inr (PList [PList [PBytes ''name'', PBytes n]])"
    and "fst (sentinel_masters env world send (\<lambda>m. [(''name'', the (m ''name''))]) s w) =
         Inr (PDict [(PStr n, PDict [(PStr ''name'', PStr n)])])"
  using assms
  by (simp_all add: async_sentinel_masters_def raw_with_def sentinel_masters_def sentinel_call_def
      masters_to_py_def row_to_dict_def row_field_def)

text \<open>A database that is not a number in range is database 0, without an error.\<close>

lemma bad_db_is_0:
  "dict_get merged (PStr ''db'') = Some (PStr t) \<Longrightarrow> merged_db merged = 0"
  by (simp add: merged_db_def get_as_def extract_i64_def extract_int_def)

text \<open>The round-robin cursor of \<open>slave_for\<close> is counted up and never read: which replica a client
  gets does not depend on it.\<close>

lemma cursor_unused:
  "fst (slave_for env w service kw (s\<lparr>so_cursors := c\<rparr>)) = fst (slave_for env w service kw s)"
  "fst (async_slave_for env w service kw (s\<lparr>so_cursors := c\<rparr>)) = fst (async_slave_for env w service kw s)"
  by (simp_all add: slave_for_def async_slave_for_def build_redis_conn_def build_async_redis_def sentinel_redis_def Let_def
      split: sum.split)

end
