(* ===== verification/Scripts.thy ===== *)
theory Scripts
  imports Replies
begin

text \<open>
  Scripting and functions (\<open>commands/scripts.rs\<close>): the commands, the two argument checks and
  both versions of every method.
\<close>

section \<open>Commands\<close>

definition cmd_eval :: "bytes \<Rightarrow> bytes \<Rightarrow> bytes list \<Rightarrow> bytes list \<Rightarrow> redis_cmd" where
  "cmd_eval name script_or_sha keys args =
     Cmd name ([AStr script_or_sha, AUsize (length keys)] @ map AStr keys @ map ABytes args)"

definition cmd_script_load :: "bytes \<Rightarrow> redis_cmd" where
  "cmd_script_load script = Cmd ''SCRIPT'' [AStr ''LOAD'', AStr script]"

definition cmd_script_exists :: "bytes list \<Rightarrow> redis_cmd" where
  "cmd_script_exists shas = Cmd ''SCRIPT'' (AStr ''EXISTS'' # map AStr shas)"

definition cmd_script_flush :: "bytes option \<Rightarrow> redis_cmd" where
  "cmd_script_flush mode = Cmd ''SCRIPT'' (AStr ''FLUSH'' # opt_val AStr mode)"

definition cmd_script_kill :: redis_cmd where
  "cmd_script_kill = Cmd ''SCRIPT'' [AStr ''KILL'']"

definition cmd_fcall :: "bytes \<Rightarrow> bytes \<Rightarrow> bytes list \<Rightarrow> bytes list \<Rightarrow> redis_cmd" where
  "cmd_fcall name function_name keys args =
     Cmd name ([AStr function_name, AUsize (length keys)] @ map AStr keys @ map ABytes args)"

definition cmd_function_load :: "bytes \<Rightarrow> bool \<Rightarrow> redis_cmd" where
  "cmd_function_load code replace = Cmd ''FUNCTION'' ([AStr ''LOAD''] @ flag_arg ''REPLACE'' replace @ [AStr code])"

definition cmd_function_delete :: "bytes \<Rightarrow> redis_cmd" where
  "cmd_function_delete library = Cmd ''FUNCTION'' [AStr ''DELETE'', AStr library]"

definition cmd_function_dump :: redis_cmd where
  "cmd_function_dump = Cmd ''FUNCTION'' [AStr ''DUMP'']"

definition cmd_function_flush :: "bytes option \<Rightarrow> redis_cmd" where
  "cmd_function_flush mode = Cmd ''FUNCTION'' (AStr ''FLUSH'' # opt_val AStr mode)"

definition cmd_function_list :: "bytes option \<Rightarrow> bool \<Rightarrow> redis_cmd" where
  "cmd_function_list library withcode =
     Cmd ''FUNCTION'' ([AStr ''LIST''] @ opt_arg ''LIBRARYNAME'' AStr library @ flag_arg ''WITHCODE'' withcode)"

definition cmd_function_stats :: redis_cmd where
  "cmd_function_stats = Cmd ''FUNCTION'' [AStr ''STATS'']"

definition cmd_function_kill :: redis_cmd where
  "cmd_function_kill = Cmd ''FUNCTION'' [AStr ''KILL'']"

definition cmd_function_restore :: "bytes \<Rightarrow> bytes option \<Rightarrow> redis_cmd" where
  "cmd_function_restore payload policy = Cmd ''FUNCTION'' ([AStr ''RESTORE'', ABytes payload] @ opt_val AStr policy)"

section \<open>Argument checks\<close>

definition validate_flush_mode :: "bytes \<Rightarrow> unit pyres" where
  "validate_flush_mode mode =
     (if to_ascii_uppercase mode \<in> {''ASYNC'', ''SYNC''} then Inr ()
      else Inl (data_error (''flush mode must be ASYNC or SYNC, got '' @ mode)))"

definition validate_restore_policy :: "bytes \<Rightarrow> unit pyres" where
  "validate_restore_policy policy =
     (if to_ascii_uppercase policy \<in> {''FLUSH'', ''APPEND'', ''REPLACE''} then Inr ()
      else Inl (data_error (''restore policy must be FLUSH, APPEND, or REPLACE, got '' @ policy)))"

definition checked_option :: "(bytes \<Rightarrow> unit pyres) \<Rightarrow> bytes option \<Rightarrow> unit pyres" where
  "checked_option check v = (case v of Some x \<Rightarrow> check x | None \<Rightarrow> Inr ())"

section \<open>Methods\<close>

definition redis_eval ::
  "bridge_env \<Rightarrow> codec option \<Rightarrow> bool \<Rightarrow> (redis_cmd \<Rightarrow> redis_error + redis_value) \<Rightarrow> bytes \<Rightarrow> bytes list \<Rightarrow> bytes list \<Rightarrow> pyval pyres \<times> redis_cmd list" where
  "redis_eval env decode is_closed server script keys args =
     sync_call env decode is_closed (Inr ()) server id
       (\<lambda>_. Dispatch (cmd_eval ''EVAL'' script keys args)) redis_value_to_py"

definition async_eval ::
  "bool \<Rightarrow> (redis_cmd \<Rightarrow> redis_error + redis_value) \<Rightarrow> bytes \<Rightarrow> bytes list \<Rightarrow> bytes list \<Rightarrow> raw_result pyres \<times> redis_cmd list" where
  "async_eval is_closed server script keys args =
     async_call is_closed (Inr ()) server id
       (\<lambda>_. Dispatch (cmd_eval ''EVAL'' script keys args)) (raw_of TValue)"

definition redis_evalsha ::
  "bridge_env \<Rightarrow> codec option \<Rightarrow> bool \<Rightarrow> (redis_cmd \<Rightarrow> redis_error + redis_value) \<Rightarrow> bytes \<Rightarrow> bytes list \<Rightarrow> bytes list \<Rightarrow> pyval pyres \<times> redis_cmd list" where
  "redis_evalsha env decode is_closed server script keys args =
     sync_call env decode is_closed (Inr ()) server id
       (\<lambda>_. Dispatch (cmd_eval ''EVALSHA'' script keys args)) redis_value_to_py"

definition async_evalsha ::
  "bool \<Rightarrow> (redis_cmd \<Rightarrow> redis_error + redis_value) \<Rightarrow> bytes \<Rightarrow> bytes list \<Rightarrow> bytes list \<Rightarrow> raw_result pyres \<times> redis_cmd list" where
  "async_evalsha is_closed server script keys args =
     async_call is_closed (Inr ()) server id
       (\<lambda>_. Dispatch (cmd_eval ''EVALSHA'' script keys args)) (raw_of TValue)"

definition redis_eval_ro ::
  "bridge_env \<Rightarrow> codec option \<Rightarrow> bool \<Rightarrow> (redis_cmd \<Rightarrow> redis_error + redis_value) \<Rightarrow> bytes \<Rightarrow> bytes list \<Rightarrow> bytes list \<Rightarrow> pyval pyres \<times> redis_cmd list" where
  "redis_eval_ro env decode is_closed server script keys args =
     sync_call env decode is_closed (Inr ()) server id
       (\<lambda>_. Dispatch (cmd_eval ''EVAL_RO'' script keys args)) redis_value_to_py"

definition async_eval_ro ::
  "bool \<Rightarrow> (redis_cmd \<Rightarrow> redis_error + redis_value) \<Rightarrow> bytes \<Rightarrow> bytes list \<Rightarrow> bytes list \<Rightarrow> raw_result pyres \<times> redis_cmd list" where
  "async_eval_ro is_closed server script keys args =
     async_call is_closed (Inr ()) server id
       (\<lambda>_. Dispatch (cmd_eval ''EVAL_RO'' script keys args)) (raw_of TValue)"

definition redis_evalsha_ro ::
  "bridge_env \<Rightarrow> codec option \<Rightarrow> bool \<Rightarrow> (redis_cmd \<Rightarrow> redis_error + redis_value) \<Rightarrow> bytes \<Rightarrow> bytes list \<Rightarrow> bytes list \<Rightarrow> pyval pyres \<times> redis_cmd list" where
  "redis_evalsha_ro env decode is_closed server script keys args =
     sync_call env decode is_closed (Inr ()) server id
       (\<lambda>_. Dispatch (cmd_eval ''EVALSHA_RO'' script keys args)) redis_value_to_py"

definition async_evalsha_ro ::
  "bool \<Rightarrow> (redis_cmd \<Rightarrow> redis_error + redis_value) \<Rightarrow> bytes \<Rightarrow> bytes list \<Rightarrow> bytes list \<Rightarrow> raw_result pyres \<times> redis_cmd list" where
  "async_evalsha_ro is_closed server script keys args =
     async_call is_closed (Inr ()) server id
       (\<lambda>_. Dispatch (cmd_eval ''EVALSHA_RO'' script keys args)) (raw_of TValue)"

definition redis_script_load ::
  "bridge_env \<Rightarrow> codec option \<Rightarrow> bool \<Rightarrow> (redis_cmd \<Rightarrow> redis_error + bytes) \<Rightarrow> bytes \<Rightarrow> pyval pyres \<times> redis_cmd list" where
  "redis_script_load env decode is_closed server script =
     sync_call env None is_closed (Inr ()) server id
       (\<lambda>_. Dispatch (cmd_script_load script)) conv_str"

definition async_script_load ::
  "bool \<Rightarrow> (redis_cmd \<Rightarrow> redis_error + bytes) \<Rightarrow> bytes \<Rightarrow> raw_result pyres \<times> redis_cmd list" where
  "async_script_load is_closed server script =
     async_call is_closed (Inr ()) server id
       (\<lambda>_. Dispatch (cmd_script_load script)) (raw_of TString)"

definition redis_script_exists ::
  "bridge_env \<Rightarrow> codec option \<Rightarrow> bool \<Rightarrow> (redis_cmd \<Rightarrow> redis_error + bool list) \<Rightarrow> bytes list \<Rightarrow> pyval pyres \<times> redis_cmd list" where
  "redis_script_exists env decode is_closed server shas =
     sync_call env None is_closed (Inr ()) server id
       (\<lambda>_. Dispatch (cmd_script_exists shas)) bool_list_to_py"

definition async_script_exists ::
  "bool \<Rightarrow> (redis_cmd \<Rightarrow> redis_error + bool list) \<Rightarrow> bytes list \<Rightarrow> raw_result pyres \<times> redis_cmd list" where
  "async_script_exists is_closed server shas =
     async_call is_closed (Inr ()) server id
       (\<lambda>_. Dispatch (cmd_script_exists shas)) (raw_of TBoolList)"

definition redis_script_flush ::
  "bridge_env \<Rightarrow> codec option \<Rightarrow> bool \<Rightarrow> (redis_cmd \<Rightarrow> redis_error + redis_value) \<Rightarrow> bytes option \<Rightarrow> pyval pyres \<times> redis_cmd list" where
  "redis_script_flush env decode is_closed server mode =
     sync_call env None is_closed (checked_option validate_flush_mode mode) server (\<lambda>_. ())
       (\<lambda>_. Dispatch (cmd_script_flush mode)) conv_unit"

definition async_script_flush ::
  "bool \<Rightarrow> (redis_cmd \<Rightarrow> redis_error + redis_value) \<Rightarrow> bytes option \<Rightarrow> raw_result pyres \<times> redis_cmd list" where
  "async_script_flush is_closed server mode =
     async_call is_closed (checked_option validate_flush_mode mode) server (\<lambda>_. ())
       (\<lambda>_. Dispatch (cmd_script_flush mode)) (raw_with (\<lambda>_. RNil))"

definition redis_script_kill ::
  "bridge_env \<Rightarrow> codec option \<Rightarrow> bool \<Rightarrow> (redis_cmd \<Rightarrow> redis_error + redis_value) \<Rightarrow> pyval pyres \<times> redis_cmd list" where
  "redis_script_kill env decode is_closed server =
     sync_call env None is_closed (Inr ()) server (\<lambda>_. ())
       (\<lambda>_. Dispatch (cmd_script_kill)) conv_unit"

definition async_script_kill ::
  "bool \<Rightarrow> (redis_cmd \<Rightarrow> redis_error + redis_value) \<Rightarrow> raw_result pyres \<times> redis_cmd list" where
  "async_script_kill is_closed server =
     async_call is_closed (Inr ()) server (\<lambda>_. ())
       (\<lambda>_. Dispatch (cmd_script_kill)) (raw_with (\<lambda>_. RNil))"

definition redis_fcall ::
  "bridge_env \<Rightarrow> codec option \<Rightarrow> bool \<Rightarrow> (redis_cmd \<Rightarrow> redis_error + redis_value) \<Rightarrow> bytes \<Rightarrow> bytes list \<Rightarrow> bytes list \<Rightarrow> pyval pyres \<times> redis_cmd list" where
  "redis_fcall env decode is_closed server function_name keys args =
     sync_call env decode is_closed (Inr ()) server id
       (\<lambda>_. Dispatch (cmd_fcall ''FCALL'' function_name keys args)) redis_value_to_py"

definition async_fcall ::
  "bool \<Rightarrow> (redis_cmd \<Rightarrow> redis_error + redis_value) \<Rightarrow> bytes \<Rightarrow> bytes list \<Rightarrow> bytes list \<Rightarrow> raw_result pyres \<times> redis_cmd list" where
  "async_fcall is_closed server function_name keys args =
     async_call is_closed (Inr ()) server id
       (\<lambda>_. Dispatch (cmd_fcall ''FCALL'' function_name keys args)) (raw_of TValue)"

definition redis_fcall_ro ::
  "bridge_env \<Rightarrow> codec option \<Rightarrow> bool \<Rightarrow> (redis_cmd \<Rightarrow> redis_error + redis_value) \<Rightarrow> bytes \<Rightarrow> bytes list \<Rightarrow> bytes list \<Rightarrow> pyval pyres \<times> redis_cmd list" where
  "redis_fcall_ro env decode is_closed server function_name keys args =
     sync_call env decode is_closed (Inr ()) server id
       (\<lambda>_. Dispatch (cmd_fcall ''FCALL_RO'' function_name keys args)) redis_value_to_py"

definition async_fcall_ro ::
  "bool \<Rightarrow> (redis_cmd \<Rightarrow> redis_error + redis_value) \<Rightarrow> bytes \<Rightarrow> bytes list \<Rightarrow> bytes list \<Rightarrow> raw_result pyres \<times> redis_cmd list" where
  "async_fcall_ro is_closed server function_name keys args =
     async_call is_closed (Inr ()) server id
       (\<lambda>_. Dispatch (cmd_fcall ''FCALL_RO'' function_name keys args)) (raw_of TValue)"

definition redis_function_load ::
  "bridge_env \<Rightarrow> codec option \<Rightarrow> bool \<Rightarrow> (redis_cmd \<Rightarrow> redis_error + bytes) \<Rightarrow> bytes \<Rightarrow> bool \<Rightarrow> pyval pyres \<times> redis_cmd list" where
  "redis_function_load env decode is_closed server code replace =
     sync_call env None is_closed (Inr ()) server id
       (\<lambda>_. Dispatch (cmd_function_load code replace)) conv_str"

definition async_function_load ::
  "bool \<Rightarrow> (redis_cmd \<Rightarrow> redis_error + bytes) \<Rightarrow> bytes \<Rightarrow> bool \<Rightarrow> raw_result pyres \<times> redis_cmd list" where
  "async_function_load is_closed server code replace =
     async_call is_closed (Inr ()) server id
       (\<lambda>_. Dispatch (cmd_function_load code replace)) (raw_of TString)"

definition redis_function_delete ::
  "bridge_env \<Rightarrow> codec option \<Rightarrow> bool \<Rightarrow> (redis_cmd \<Rightarrow> redis_error + redis_value) \<Rightarrow> bytes \<Rightarrow> pyval pyres \<times> redis_cmd list" where
  "redis_function_delete env decode is_closed server library =
     sync_call env None is_closed (Inr ()) server (\<lambda>_. ())
       (\<lambda>_. Dispatch (cmd_function_delete library)) conv_unit"

definition async_function_delete ::
  "bool \<Rightarrow> (redis_cmd \<Rightarrow> redis_error + redis_value) \<Rightarrow> bytes \<Rightarrow> raw_result pyres \<times> redis_cmd list" where
  "async_function_delete is_closed server library =
     async_call is_closed (Inr ()) server (\<lambda>_. ())
       (\<lambda>_. Dispatch (cmd_function_delete library)) (raw_with (\<lambda>_. RNil))"

definition redis_function_dump ::
  "bridge_env \<Rightarrow> codec option \<Rightarrow> bool \<Rightarrow> (redis_cmd \<Rightarrow> redis_error + bytes) \<Rightarrow> pyval pyres \<times> redis_cmd list" where
  "redis_function_dump env decode is_closed server =
     sync_call env decode is_closed (Inr ()) server id
       (\<lambda>_. Dispatch (cmd_function_dump)) conv_bytes"

definition async_function_dump ::
  "bool \<Rightarrow> (redis_cmd \<Rightarrow> redis_error + bytes) \<Rightarrow> raw_result pyres \<times> redis_cmd list" where
  "async_function_dump is_closed server =
     async_call is_closed (Inr ()) server id
       (\<lambda>_. Dispatch (cmd_function_dump)) (raw_of TBytes)"

definition redis_function_flush ::
  "bridge_env \<Rightarrow> codec option \<Rightarrow> bool \<Rightarrow> (redis_cmd \<Rightarrow> redis_error + redis_value) \<Rightarrow> bytes option \<Rightarrow> pyval pyres \<times> redis_cmd list" where
  "redis_function_flush env decode is_closed server mode =
     sync_call env None is_closed (checked_option validate_flush_mode mode) server (\<lambda>_. ())
       (\<lambda>_. Dispatch (cmd_function_flush mode)) conv_unit"

definition async_function_flush ::
  "bool \<Rightarrow> (redis_cmd \<Rightarrow> redis_error + redis_value) \<Rightarrow> bytes option \<Rightarrow> raw_result pyres \<times> redis_cmd list" where
  "async_function_flush is_closed server mode =
     async_call is_closed (checked_option validate_flush_mode mode) server (\<lambda>_. ())
       (\<lambda>_. Dispatch (cmd_function_flush mode)) (raw_with (\<lambda>_. RNil))"

definition redis_function_list ::
  "bridge_env \<Rightarrow> codec option \<Rightarrow> bool \<Rightarrow> (redis_cmd \<Rightarrow> redis_error + redis_value) \<Rightarrow> bytes option \<Rightarrow> bool \<Rightarrow> pyval pyres \<times> redis_cmd list" where
  "redis_function_list env decode is_closed server library withcode =
     sync_call env decode is_closed (Inr ()) server id
       (\<lambda>_. Dispatch (cmd_function_list library withcode)) redis_value_to_py"

definition async_function_list ::
  "bool \<Rightarrow> (redis_cmd \<Rightarrow> redis_error + redis_value) \<Rightarrow> bytes option \<Rightarrow> bool \<Rightarrow> raw_result pyres \<times> redis_cmd list" where
  "async_function_list is_closed server library withcode =
     async_call is_closed (Inr ()) server id
       (\<lambda>_. Dispatch (cmd_function_list library withcode)) (raw_of TValue)"

definition redis_function_stats ::
  "bridge_env \<Rightarrow> codec option \<Rightarrow> bool \<Rightarrow> (redis_cmd \<Rightarrow> redis_error + redis_value) \<Rightarrow> pyval pyres \<times> redis_cmd list" where
  "redis_function_stats env decode is_closed server =
     sync_call env decode is_closed (Inr ()) server id
       (\<lambda>_. Dispatch (cmd_function_stats)) redis_value_to_py"

definition async_function_stats ::
  "bool \<Rightarrow> (redis_cmd \<Rightarrow> redis_error + redis_value) \<Rightarrow> raw_result pyres \<times> redis_cmd list" where
  "async_function_stats is_closed server =
     async_call is_closed (Inr ()) server id
       (\<lambda>_. Dispatch (cmd_function_stats)) (raw_of TValue)"

definition redis_function_kill ::
  "bridge_env \<Rightarrow> codec option \<Rightarrow> bool \<Rightarrow> (redis_cmd \<Rightarrow> redis_error + redis_value) \<Rightarrow> pyval pyres \<times> redis_cmd list" where
  "redis_function_kill env decode is_closed server =
     sync_call env None is_closed (Inr ()) server (\<lambda>_. ())
       (\<lambda>_. Dispatch (cmd_function_kill)) conv_unit"

definition async_function_kill ::
  "bool \<Rightarrow> (redis_cmd \<Rightarrow> redis_error + redis_value) \<Rightarrow> raw_result pyres \<times> redis_cmd list" where
  "async_function_kill is_closed server =
     async_call is_closed (Inr ()) server (\<lambda>_. ())
       (\<lambda>_. Dispatch (cmd_function_kill)) (raw_with (\<lambda>_. RNil))"

definition redis_function_restore ::
  "bridge_env \<Rightarrow> codec option \<Rightarrow> bool \<Rightarrow> (redis_cmd \<Rightarrow> redis_error + redis_value) \<Rightarrow> bytes \<Rightarrow> bytes option \<Rightarrow> pyval pyres \<times> redis_cmd list" where
  "redis_function_restore env decode is_closed server payload policy =
     sync_call env None is_closed (checked_option validate_restore_policy policy) server (\<lambda>_. ())
       (\<lambda>_. Dispatch (cmd_function_restore payload policy)) conv_unit"

definition async_function_restore ::
  "bool \<Rightarrow> (redis_cmd \<Rightarrow> redis_error + redis_value) \<Rightarrow> bytes \<Rightarrow> bytes option \<Rightarrow> raw_result pyres \<times> redis_cmd list" where
  "async_function_restore is_closed server payload policy =
     async_call is_closed (checked_option validate_restore_policy policy) server (\<lambda>_. ())
       (\<lambda>_. Dispatch (cmd_function_restore payload policy)) (raw_with (\<lambda>_. RNil))"

section \<open>Both versions\<close>

lemmas scripts_method_defs =
  redis_eval_def async_eval_def redis_evalsha_def async_evalsha_def redis_eval_ro_def async_eval_ro_def
  redis_evalsha_ro_def async_evalsha_ro_def redis_script_load_def async_script_load_def
  redis_script_exists_def async_script_exists_def redis_script_flush_def async_script_flush_def
  redis_script_kill_def async_script_kill_def redis_fcall_def async_fcall_def redis_fcall_ro_def
  async_fcall_ro_def redis_function_load_def async_function_load_def redis_function_delete_def
  async_function_delete_def redis_function_dump_def async_function_dump_def redis_function_flush_def
  async_function_flush_def redis_function_list_def async_function_list_def redis_function_stats_def
  async_function_stats_def redis_function_kill_def async_function_kill_def redis_function_restore_def
  async_function_restore_def

text \<open>Every scripting method agrees on both clients.\<close>
lemma script_methods_agree:
  "await_call env decode (async_eval z s script keys args) = redis_eval env decode z s script keys args \<and>
   await_call env decode (async_evalsha z s script keys args) = redis_evalsha env decode z s script keys args \<and>
   await_call env decode (async_eval_ro z s script keys args) = redis_eval_ro env decode z s script keys args \<and>
   await_call env decode (async_evalsha_ro z s script keys args) = redis_evalsha_ro env decode z s script keys args \<and>
   await_call env decode (async_script_load z s2 script) = redis_script_load env decode z s2 script \<and>
   await_call env decode (async_script_exists z s3 shas) = redis_script_exists env decode z s3 shas \<and>
   await_call env decode (async_script_flush z s mode) = redis_script_flush env decode z s mode \<and>
   await_call env decode (async_script_kill z s) = redis_script_kill env decode z s \<and>
   await_call env decode (async_fcall z s function_name keys args) = redis_fcall env decode z s function_name keys args \<and>
   await_call env decode (async_fcall_ro z s function_name keys args) = redis_fcall_ro env decode z s function_name keys args \<and>
   await_call env decode (async_function_load z s2 code replace) = redis_function_load env decode z s2 code replace \<and>
   await_call env decode (async_function_delete z s library) = redis_function_delete env decode z s library \<and>
   await_call env decode (async_function_dump z s2) = redis_function_dump env decode z s2 \<and>
   await_call env decode (async_function_flush z s mode) = redis_function_flush env decode z s mode \<and>
   await_call env decode (async_function_list z s library2 withcode) = redis_function_list env decode z s library2 withcode \<and>
   await_call env decode (async_function_stats z s) = redis_function_stats env decode z s \<and>
   await_call env decode (async_function_kill z s) = redis_function_kill env decode z s \<and>
   await_call env decode (async_function_restore z s payload policy) = redis_function_restore env decode z s payload policy"
  by (intro conjI; simp add: scripts_method_defs method_agreement split: option.split)

section \<open>Arguments of EVAL\<close>

text \<open>The number of keys lets the server split keys from arguments: two calls send the same command
  only when they were given the same script, keys and arguments.\<close>

fun eval_decode :: "redis_cmd \<Rightarrow> (bytes \<times> bytes \<times> bytes list \<times> bytes list) option" where
  "eval_decode (Cmd name (AStr script # AUsize n # rest)) =
     Some (name, script, List.map_filter as_str (take n rest), List.map_filter as_bytes (drop n rest))"
| "eval_decode _ = None"

lemma map_filter_typed [simp]:
  "List.map_filter as_str (map AStr xs) = xs"
  "List.map_filter as_bytes (map ABytes ys) = ys"
  by (induction xs) (simp_all add: List.map_filter_simps, induction ys, simp_all add: List.map_filter_simps)

interpretation eval_wire: lossless "\<lambda>(name, script, keys, args). cmd_eval name script keys args" eval_decode "\<lambda>_. True"
  by unfold_locales (auto simp: cmd_eval_def)

interpretation fcall_wire: lossless "\<lambda>(name, fn, keys, args). cmd_fcall name fn keys args" eval_decode "\<lambda>_. True"
  by unfold_locales (auto simp: cmd_fcall_def)

end
