(* ===== verification/Lock.thy ===== *)
theory Lock
  imports Scripts
begin

text \<open>
  The distributed lock (\<open>Lock\<close> in \<open>facade/sync.rs\<close>): its state, every method, the two Lua
  scripts and the tokens.  The methods run on the blocking client, through the definitions of
  SET, GET and EVAL in \<open>Strings\<close> and \<open>Scripts\<close>.

  The server is a parameter, \<open>exec\<close>: what it answers to a command and the store it is left
  with.  \<open>runs_lock_commands\<close> says what Redis documents for the four commands of a lock; the
  theorems about several clients rest on it.  A loop of \<open>acquire\<close> runs over the list of its
  attempts, each with what other clients did before it and whether the deadline has passed
  after it; \<open>None\<close> stands for a loop that is still sleeping.
\<close>

section \<open>State\<close>

record lock =
  lk_name :: bytes
  lk_timeout :: "f64 option"
  lk_sleep :: f64
  lk_blocking :: bool
  lk_blocking_timeout :: "f64 option"
  lk_token :: "bytes option"

text \<open>The client of a lock.  \<open>cl_opt_bytes\<close> is \<open>from_redis_value\<close> for the reply of GET;
  \<open>cl_import\<close> what importing the exception class raises, when it does.\<close>

record client =
  cl_env :: bridge_env
  cl_decode :: "codec option"
  cl_closed :: bool
  cl_opt_bytes :: "redis_value \<Rightarrow> redis_error + bytes option"
  cl_import :: "pyerr option"

type_synonym 'db executor = "redis_cmd \<Rightarrow> 'db \<Rightarrow> (redis_error + redis_value) \<times> 'db"

text \<open>A method call against a server with a state; a method sends at most one command.\<close>

definition on_server ::
  "'db executor \<Rightarrow> ((redis_cmd \<Rightarrow> redis_error + redis_value) \<Rightarrow> 'r \<times> redis_cmd list) \<Rightarrow> 'db \<Rightarrow> 'r \<times> 'db" where
  "on_server exec call db =
     (let (r, sent) = call (\<lambda>cmd. fst (exec cmd db)) in (r, fold (\<lambda>cmd db. snd (exec cmd db)) sent db))"

section \<open>Times\<close>

text \<open>\<open>(s * 1000.0) as i64\<close>: the product rounded to 53 bits, ties to even, then truncated and
  saturated; NaN gives 0.  A product below \<open>2^-1022\<close> truncates to 0 whatever its rounding.\<close>

function bit_len :: "int \<Rightarrow> nat" where
  "bit_len n = (if n \<le> 0 then 0 else Suc (bit_len (n div 2)))"
  by pat_completeness auto
termination
  by (relation "measure nat") auto

declare bit_len.simps [simp del]

definition round_half_even :: "int \<Rightarrow> nat \<Rightarrow> int" where
  "round_half_even m d =
     (let q = m div 2 ^ d; r = m mod 2 ^ d
      in if 2 * r > 2 ^ d \<or> 2 * r = 2 ^ d \<and> odd q then q + 1 else q)"

definition saturate :: "int \<Rightarrow> i64" where
  "saturate i = word_of_int (max (- (2 ^ 63)) (min (2 ^ 63 - 1) i))"

definition millis :: "f64 \<Rightarrow> i64" where
  "millis s =
     (let b = uint (f64_bits s); neg = (b div 2 ^ 63 = 1); e = nat ((b div 2 ^ 52) mod 2048); m = b mod 2 ^ 52
      in if e = 2047 then (if m \<noteq> 0 then 0 else saturate (if neg then - (2 ^ 63) else 2 ^ 63))
         else
           (let p = 1000 * (if e = 0 then m else 2 ^ 52 + m);
                d = bit_len p - 53;
                q = round_half_even p d;
                k = (if e = 0 then 1 else e) + d;
                t = (if k \<ge> 1075 then q * 2 ^ (k - 1075) else q div 2 ^ (1075 - k))
            in saturate (if neg then - t else t)))"

definition sleep_check :: "f64 \<Rightarrow> unit pyres" where
  "sleep_check s = rbind (from_secs_f64 s) (\<lambda>_. Inr ())"

section \<open>Scripts and tokens\<close>

definition lua_text :: "bytes list \<Rightarrow> bytes" where
  "lua_text ls = concat (map (\<lambda>l. CHR 0x0A # l) ls) @ [CHR 0x0A]"

definition LOCK_RELEASE_LUA :: bytes where
  "LOCK_RELEASE_LUA = lua_text
     [''if redis.call('GET', KEYS[1]) == ARGV[1] then'', ''    return redis.call('DEL', KEYS[1])'',
      ''else'', ''    return 0'', ''end'']"

definition LOCK_EXTEND_LUA :: bytes where
  "LOCK_EXTEND_LUA = lua_text
     [''if redis.call('GET', KEYS[1]) == ARGV[1] then'',
      ''    return redis.call('PEXPIRE', KEYS[1], ARGV[2])'', ''else'', ''    return 0'', ''end'']"

text \<open>\<open>generate_token\<close>, with the process id, the time and the process-wide counter.\<close>

definition generate_token :: "u32 \<Rightarrow> nat \<Rightarrow> u64 \<Rightarrow> bytes \<times> u64" where
  "generate_token pid nanos counter =
     (show_nat (unat pid) @ ''-'' @ show_nat nanos @ ''-'' @ show_nat (unat counter), counter + 1)"

section \<open>Methods\<close>

text \<open>\<open>is_truthy\<close> of what SET returns.\<close>

fun py_truthy :: "pyval \<Rightarrow> bool" where
  "py_truthy PNone = False"
| "py_truthy (PBool b) = b"
| "py_truthy (PInt i) = (i \<noteq> 0)"
| "py_truthy (PFloat f) = (f64_value f \<noteq> Some 0)"
| "py_truthy (PBytes b) = (b \<noteq> [])"
| "py_truthy (PStr s) = (s \<noteq> [])"
| "py_truthy (PList xs) = (xs \<noteq> [])"
| "py_truthy (PTuple xs) = (xs \<noteq> [])"
| "py_truthy (PDict d) = (d \<noteq> [])"
| "py_truthy (PSet xs) = (xs \<noteq> [])"
| "py_truthy (PObj n) = True"

definition lock_px :: "lock \<Rightarrow> u64 option" where
  "lock_px l = (let px = (case lk_timeout l of Some s \<Rightarrow> millis s | None \<Rightarrow> 0) in if 0 <s px then Some px else None)"

definition lock_set :: "client \<Rightarrow> 'db executor \<Rightarrow> lock \<Rightarrow> bytes \<Rightarrow> 'db \<Rightarrow> pyval pyres \<times> 'db" where
  "lock_set cl exec l token =
     on_server exec (\<lambda>srv. redis_set (cl_env cl) (cl_decode cl) (cl_closed cl) srv (lk_name l) token
       \<lparr>eo_ex = None, eo_px = lock_px l, eo_exat = None, eo_pxat = None,
        so_nx = True, so_xx = False, so_keepttl = False, so_get = False\<rparr>)"

text \<open>One turn of the loop of \<open>acquire\<close>; \<open>late\<close> says that there is a deadline and it has passed.\<close>

definition acquire_once ::
  "client \<Rightarrow> 'db executor \<Rightarrow> bool \<Rightarrow> bool \<Rightarrow> bytes \<Rightarrow> lock \<Rightarrow> 'db \<Rightarrow> bool pyres option \<times> lock \<times> 'db" where
  "acquire_once cl exec blocking late token l db =
     (let (res, db) = lock_set cl exec l token db
      in case res of
           Inl e \<Rightarrow> (Some (Inl e), l, db)
         | Inr v \<Rightarrow>
             if py_truthy v then (Some (Inr True), l\<lparr>lk_token := Some token\<rparr>, db)
             else if \<not> blocking then (Some (Inr False), l, db)
             else if late then (Some (Inr False), l, db)
             else (case sleep_check (lk_sleep l) of Inl e \<Rightarrow> (Some (Inl e), l, db) | Inr _ \<Rightarrow> (None, l, db)))"

fun acquire_loop ::
  "client \<Rightarrow> 'db executor \<Rightarrow> bool \<Rightarrow> bool \<Rightarrow> bytes \<Rightarrow> lock \<Rightarrow> (('db \<Rightarrow> 'db) \<times> bool) list \<Rightarrow> 'db \<Rightarrow>
   bool pyres option \<times> lock \<times> 'db" where
  "acquire_loop cl exec blocking deadline token l [] db = (None, l, db)"
| "acquire_loop cl exec blocking deadline token l ((others, passed) # attempts) db =
     (case acquire_once cl exec blocking (deadline \<and> passed) token l (others db) of
        (None, l, db) \<Rightarrow> acquire_loop cl exec blocking deadline token l attempts db
      | (Some r, l, db) \<Rightarrow> (Some r, l, db))"

text \<open>\<open>fresh\<close> is what \<open>generate_token\<close> gives.\<close>

definition acquire ::
  "client \<Rightarrow> 'db executor \<Rightarrow> bool option \<Rightarrow> f64 option \<Rightarrow> bytes option \<Rightarrow> bytes \<Rightarrow> lock \<Rightarrow>
   (('db \<Rightarrow> 'db) \<times> bool) list \<Rightarrow> 'db \<Rightarrow> bool pyres option \<times> lock \<times> 'db" where
  "acquire cl exec blocking blocking_timeout token fresh l attempts db =
     acquire_loop cl exec (case blocking of Some b \<Rightarrow> b | None \<Rightarrow> lk_blocking l)
       (blocking_timeout \<noteq> None \<or> lk_blocking_timeout l \<noteq> None)
       (case token of Some t \<Rightarrow> t | None \<Rightarrow> fresh) l attempts db"

definition not_owned :: "client \<Rightarrow> bytes \<Rightarrow> pyerr" where
  "not_owned cl msg = (case cl_import cl of Some e \<Rightarrow> e | None \<Rightarrow> PyErr LockNotOwnedError msg)"

definition lock_eval ::
  "client \<Rightarrow> 'db executor \<Rightarrow> bytes \<Rightarrow> lock \<Rightarrow> bytes list \<Rightarrow> 'db \<Rightarrow> i64 pyres \<times> 'db" where
  "lock_eval cl exec script l args db =
     (let (r, db) = on_server exec
        (\<lambda>srv. redis_eval (cl_env cl) (cl_decode cl) (cl_closed cl) srv script [lk_name l] args) db
      in (rbind r extract_i64, db))"

definition release :: "client \<Rightarrow> 'db executor \<Rightarrow> lock \<Rightarrow> 'db \<Rightarrow> unit pyres \<times> lock \<times> 'db" where
  "release cl exec l db =
     (case lk_token l of
        None \<Rightarrow> (Inl (not_owned cl ''Cannot release an unlocked lock''), l, db)
      | Some token \<Rightarrow>
          (let (r, db) = lock_eval cl exec LOCK_RELEASE_LUA l [token] db
           in case r of
                Inl e \<Rightarrow> (Inl e, l, db)
              | Inr n \<Rightarrow>
                  if n = 0 then (Inl (not_owned cl ''Cannot release a lock owned by someone else''), l, db)
                  else (Inr (), l\<lparr>lk_token := None\<rparr>, db)))"

definition lock_extend :: "client \<Rightarrow> 'db executor \<Rightarrow> f64 \<Rightarrow> lock \<Rightarrow> 'db \<Rightarrow> bool pyres \<times> 'db" where
  "lock_extend cl exec additional_time l db =
     (case lk_token l of
        None \<Rightarrow> (Inl (not_owned cl ''Cannot extend an unlocked lock''), db)
      | Some token \<Rightarrow>
          (let (r, db) = lock_eval cl exec LOCK_EXTEND_LUA l
                           [token, show_int (sint (millis additional_time))] db
           in (rbind r (\<lambda>n. Inr (0 <s n)), db)))"

definition lock_value :: "client \<Rightarrow> 'db executor \<Rightarrow> lock \<Rightarrow> 'db \<Rightarrow> bytes option pyres \<times> 'db" where
  "lock_value cl exec l db =
     (let (r, db) = on_server exec
        (\<lambda>srv. redis_get (cl_env cl) (cl_decode cl) (cl_closed cl) (reading (cl_opt_bytes cl) srv) (lk_name l)) db
      in (rbind r extract_opt_bytes, db))"

definition owned :: "client \<Rightarrow> 'db executor \<Rightarrow> lock \<Rightarrow> 'db \<Rightarrow> bool pyres \<times> 'db" where
  "owned cl exec l db =
     (case lk_token l of
        None \<Rightarrow> (Inr False, db)
      | Some token \<Rightarrow>
          (let (r, db) = lock_value cl exec l db in (rbind r (\<lambda>v. Inr (v = Some token)), db)))"

definition locked :: "client \<Rightarrow> 'db executor \<Rightarrow> lock \<Rightarrow> 'db \<Rightarrow> bool pyres \<times> 'db" where
  "locked cl exec l db =
     (let (r, db) = lock_value cl exec l db in (rbind r (\<lambda>v. Inr (v \<noteq> None)), db))"

definition lock_enter ::
  "client \<Rightarrow> 'db executor \<Rightarrow> bytes \<Rightarrow> lock \<Rightarrow> (('db \<Rightarrow> 'db) \<times> bool) list \<Rightarrow> 'db \<Rightarrow> unit pyres option \<times> lock \<times> 'db" where
  "lock_enter cl exec fresh l attempts db =
     (let (r, l, db) = acquire cl exec None None None fresh l attempts db
      in (map_option (\<lambda>r. rbind r (\<lambda>_. Inr ())) r, l, db))"

definition lock_exit :: "client \<Rightarrow> 'db executor \<Rightarrow> lock \<Rightarrow> 'db \<Rightarrow> bool pyres \<times> lock \<times> 'db" where
  "lock_exit cl exec l db = (let (r, l, db) = release cl exec l db in (rbind r (\<lambda>_. Inr False), l, db))"

section \<open>What Redis does with these commands\<close>

definition set_nx_cmd :: "bytes \<Rightarrow> bytes \<Rightarrow> u64 option \<Rightarrow> redis_cmd" where
  "set_nx_cmd name token px = set_full name token None px None None True False False False"

text \<open>SET NX writes only a missing key; the scripts compare before they act; PEXPIRE with a time
  that is not positive deletes the key; GET reads.\<close>

definition runs_lock_commands ::
  "'db executor \<Rightarrow> (redis_value \<Rightarrow> redis_error + bytes option) \<Rightarrow> ('db \<Rightarrow> bytes \<Rightarrow> bytes option) \<Rightarrow> bool" where
  "runs_lock_commands exec opt_bytes lookup \<longleftrightarrow>
     (\<forall>db k t px. case exec (set_nx_cmd k t px) db of (r, db') \<Rightarrow>
        (r, lookup db') =
          (if lookup db k = None then (Inr VOkay, (lookup db)(k \<mapsto> t)) else (Inr VNil, lookup db))) \<and>
     (\<forall>db k t. case exec (cmd_eval ''EVAL'' LOCK_RELEASE_LUA [k] [t]) db of (r, db') \<Rightarrow>
        (r, lookup db') =
          (if lookup db k = Some t then (Inr (VInt 1), (lookup db)(k := None)) else (Inr (VInt 0), lookup db))) \<and>
     (\<forall>db k t (ms :: i64). case exec (cmd_eval ''EVAL'' LOCK_EXTEND_LUA [k] [t, show_int (sint ms)]) db of (r, db') \<Rightarrow>
        (r, lookup db') =
          (if lookup db k = Some t
           then (Inr (VInt 1), if ms \<le>s 0 then (lookup db)(k := None) else lookup db)
           else (Inr (VInt 0), lookup db))) \<and>
     (\<forall>db k. case exec (Cmd ''GET'' [AStr k]) db of (r, db') \<Rightarrow>
        rbind r opt_bytes = Inr (lookup db k) \<and> lookup db' = lookup db)"

text \<open>A client that is open and does not decode.\<close>

definition plain_client :: "client \<Rightarrow> bool" where
  "plain_client cl \<longleftrightarrow> \<not> cl_closed cl \<and> cl_decode cl = None"

text \<open>The same server behind a connection that may fail: a request that returns an error may have been
  executed or not, and one that is sent again may have been executed before.  What is known of a
  reply: OK is the reply of a SET that wrote, 1 that of a script that found the token, and GET
  reads what is there.\<close>

definition lossy_lock_commands ::
  "'db executor \<Rightarrow> (redis_value \<Rightarrow> redis_error + bytes option) \<Rightarrow> ('db \<Rightarrow> bytes \<Rightarrow> bytes option) \<Rightarrow> bool" where
  "lossy_lock_commands exec opt_bytes lookup \<longleftrightarrow>
     (\<forall>db k t px. case exec (set_nx_cmd k t px) db of (r, db') \<Rightarrow>
        (lookup db' = lookup db \<or> lookup db k = None \<and> lookup db' = (lookup db)(k \<mapsto> t)) \<and>
        (\<forall>v. r = Inr v \<longrightarrow> v = VNil \<or> v = VOkay \<and> lookup db k = None \<and> lookup db' = (lookup db)(k \<mapsto> t))) \<and>
     (\<forall>db k t. case exec (cmd_eval ''EVAL'' LOCK_RELEASE_LUA [k] [t]) db of (r, db') \<Rightarrow>
        (lookup db' = lookup db \<or> lookup db k = Some t \<and> lookup db' = (lookup db)(k := None)) \<and>
        (\<forall>v. r = Inr v \<longrightarrow> v = VInt 0 \<or> v = VInt 1 \<and> lookup db k = Some t \<and> lookup db' = (lookup db)(k := None))) \<and>
     (\<forall>db k t (ms :: i64). case exec (cmd_eval ''EVAL'' LOCK_EXTEND_LUA [k] [t, show_int (sint ms)]) db of (r, db') \<Rightarrow>
        (lookup db' = lookup db \<or> ms \<le>s 0 \<and> lookup db k = Some t \<and> lookup db' = (lookup db)(k := None)) \<and>
        (\<forall>v. r = Inr v \<longrightarrow> v = VInt 0 \<or> v = VInt 1 \<and> lookup db k = Some t)) \<and>
     (\<forall>db k. case exec (Cmd ''GET'' [AStr k]) db of (r, db') \<Rightarrow>
        lookup db' = lookup db \<and> (\<forall>v. rbind r opt_bytes = Inr v \<longrightarrow> v = lookup db k))"

lemma runs_is_lossy:
  assumes "runs_lock_commands exec ob lookup"
  shows "lossy_lock_commands exec ob lookup"
proof -
  note laws = assms [unfolded runs_lock_commands_def]
  note set = conjunct1 [OF laws, rule_format]
    and rel = conjunct1 [OF conjunct2 [OF laws], rule_format]
    and ext = conjunct1 [OF conjunct2 [OF conjunct2 [OF laws]], rule_format]
    and get = conjunct2 [OF conjunct2 [OF conjunct2 [OF laws]], rule_format]
  show ?thesis
    unfolding lossy_lock_commands_def
  proof (intro conjI allI)
    fix db and k t :: bytes and px :: "u64 option" and ms :: i64
    show "case exec (set_nx_cmd k t px) db of (r, db') \<Rightarrow>
        (lookup db' = lookup db \<or> lookup db k = None \<and> lookup db' = (lookup db)(k \<mapsto> t)) \<and>
        (\<forall>v. r = Inr v \<longrightarrow> v = VNil \<or> v = VOkay \<and> lookup db k = None \<and> lookup db' = (lookup db)(k \<mapsto> t))"
      using set [of db k t px] by (auto split: if_splits prod.splits)
    show "case exec (cmd_eval ''EVAL'' LOCK_RELEASE_LUA [k] [t]) db of (r, db') \<Rightarrow>
        (lookup db' = lookup db \<or> lookup db k = Some t \<and> lookup db' = (lookup db)(k := None)) \<and>
        (\<forall>v. r = Inr v \<longrightarrow> v = VInt 0 \<or> v = VInt 1 \<and> lookup db k = Some t \<and> lookup db' = (lookup db)(k := None))"
      using rel [of db k t] by (auto split: if_splits prod.splits)
    show "case exec (cmd_eval ''EVAL'' LOCK_EXTEND_LUA [k] [t, show_int (sint ms)]) db of (r, db') \<Rightarrow>
        (lookup db' = lookup db \<or> ms \<le>s 0 \<and> lookup db k = Some t \<and> lookup db' = (lookup db)(k := None)) \<and>
        (\<forall>v. r = Inr v \<longrightarrow> v = VInt 0 \<or> v = VInt 1 \<and> lookup db k = Some t)"
      using ext [of db k t ms] by (auto split: if_splits prod.splits)
    show "case exec (Cmd ''GET'' [AStr k]) db of (r, db') \<Rightarrow>
        lookup db' = lookup db \<and> (\<forall>v. rbind r ob = Inr v \<longrightarrow> v = lookup db k)"
      using get [of db k] by (auto split: prod.splits)
  qed
qed

text \<open>An open client, decoding or not: SET and EVAL reply without bytes.\<close>

lemma set_command_lock [simp]:
  "set_command name t \<lparr>eo_ex = None, eo_px = px, eo_exat = None, eo_pxat = None,
      so_nx = True, so_xx = False, so_keepttl = False, so_get = False\<rparr> = set_nx_cmd name t px"
  by (simp add: set_command_def set_nx_cmd_def)

lemma lock_options_valid [simp]:
  "validate_set_kwargs \<lparr>eo_ex = None, eo_px = px, eo_exat = None, eo_pxat = None,
      so_nx = True, so_xx = False, so_keepttl = False, so_get = False\<rparr> = Inr ()"
  by (simp add: validate_set_kwargs_def ttl_set_def count_set_def)

lemma lock_set_outcome:
  assumes "runs_lock_commands exec ob lookup" "\<not> cl_closed cl"
  shows "case lock_set cl exec l t db of (r, db') \<Rightarrow>
    (r, lookup db') =
      (if lookup db (lk_name l) = None then (Inr (PBool True), (lookup db)(lk_name l \<mapsto> t))
       else (Inr PNone, lookup db))"
proof -
  have "case exec (set_nx_cmd (lk_name l) t (lock_px l)) db of (r, db') \<Rightarrow>
      (r, lookup db') =
        (if lookup db (lk_name l) = None then (Inr VOkay, (lookup db)(lk_name l \<mapsto> t)) else (Inr VNil, lookup db))"
    using assms(1) by (simp only: runs_lock_commands_def)
  with assms(2) show ?thesis
    by (auto simp: lock_set_def on_server_def redis_set_def sync_call_def run_request_def maybe_decode_def
        split: prod.splits if_splits option.splits)
qed

lemma lock_eval_outcome:
  assumes "\<not> cl_closed cl" "exec (cmd_eval ''EVAL'' script [lk_name l] args) db = (Inr (VInt n), db')"
  shows "lock_eval cl exec script l args db = (Inr n, db')"
  using assms
  by (simp add: lock_eval_def on_server_def redis_eval_def sync_call_def run_request_def maybe_decode_def
      split: option.split)

lemma release_script_outcome:
  assumes "runs_lock_commands exec ob lookup" "\<not> cl_closed cl"
  obtains n db' where "lock_eval cl exec LOCK_RELEASE_LUA l [t] db = (Inr n, db')"
    and "(n, lookup db') = (if lookup db (lk_name l) = Some t then (1, (lookup db)(lk_name l := None)) else (0, lookup db))"
proof -
  have "case exec (cmd_eval ''EVAL'' LOCK_RELEASE_LUA [lk_name l] [t]) db of (r, db') \<Rightarrow>
      (r, lookup db') =
        (if lookup db (lk_name l) = Some t then (Inr (VInt 1), (lookup db)(lk_name l := None))
         else (Inr (VInt 0), lookup db))"
    using assms(1) by (simp only: runs_lock_commands_def)
  then show thesis
    by (cases "exec (cmd_eval ''EVAL'' LOCK_RELEASE_LUA [lk_name l] [t]) db")
      (auto intro!: that lock_eval_outcome assms(2) split: if_splits)
qed

lemma extend_script_outcome:
  fixes ms :: i64
  assumes "runs_lock_commands exec ob lookup" "\<not> cl_closed cl"
  obtains n db' where "lock_eval cl exec LOCK_EXTEND_LUA l [t, show_int (sint ms)] db = (Inr n, db')"
    and "(n, lookup db') =
      (if lookup db (lk_name l) = Some t
       then (1, if ms \<le>s 0 then (lookup db)(lk_name l := None) else lookup db) else (0, lookup db))"
proof -
  have "case exec (cmd_eval ''EVAL'' LOCK_EXTEND_LUA [lk_name l] [t, show_int (sint ms)]) db of (r, db') \<Rightarrow>
      (r, lookup db') =
        (if lookup db (lk_name l) = Some t
         then (Inr (VInt 1), if ms \<le>s 0 then (lookup db)(lk_name l := None) else lookup db)
         else (Inr (VInt 0), lookup db))"
    using assms(1) by (simp only: runs_lock_commands_def)
  then show thesis
    by (cases "exec (cmd_eval ''EVAL'' LOCK_EXTEND_LUA [lk_name l] [t, show_int (sint ms)]) db")
      (auto intro!: that lock_eval_outcome assms(2) split: if_splits)
qed

lemma lock_value_outcome:
  assumes "runs_lock_commands exec (cl_opt_bytes cl) lookup" "plain_client cl"
  shows "case lock_value cl exec l db of (r, db') \<Rightarrow>
    r = Inr (lookup db (lk_name l)) \<and> lookup db' = lookup db"
proof -
  have "case exec (Cmd ''GET'' [AStr (lk_name l)]) db of (r, db') \<Rightarrow>
      rbind r (cl_opt_bytes cl) = Inr (lookup db (lk_name l)) \<and> lookup db' = lookup db"
    using assms(1) by (simp only: runs_lock_commands_def)
  with assms(2) show ?thesis
    by (cases "lookup db (lk_name l)")
      (auto simp: plain_client_def lock_value_def on_server_def redis_get_def sync_call_def run_request_def
        maybe_decode_def reading_def conv_opt_bytes_def py_opt_bytes_def)
qed

section \<open>What the methods do\<close>

lemma acquire_once_outcome:
  assumes "runs_lock_commands exec (cl_opt_bytes cl) lookup" "plain_client cl"
  shows "(case acquire_once cl exec blocking late t l db of (r, l', db') \<Rightarrow>
      if lookup db (lk_name l) = None
      then r = Some (Inr True) \<and> l' = l\<lparr>lk_token := Some t\<rparr> \<and> lookup db' = (lookup db)(lk_name l \<mapsto> t)
      else r = (if \<not> blocking \<or> late then Some (Inr False)
                else case sleep_check (lk_sleep l) of Inl e \<Rightarrow> Some (Inl e) | Inr _ \<Rightarrow> None) \<and>
           l' = l \<and> lookup db' = lookup db)"
  using lock_set_outcome [OF assms(1), where cl = cl and l = l and t = t and db = db] assms(2)
  by (auto simp: plain_client_def acquire_once_def Let_def split: prod.splits if_splits sum.splits)

lemma release_outcome:
  fixes l :: lock
  assumes "runs_lock_commands exec (cl_opt_bytes cl) lookup" "plain_client cl"
  shows "(case release cl exec l db of (r, l', db') \<Rightarrow>
      if lk_token l \<noteq> None \<and> lookup db (lk_name l) = lk_token l
      then r = Inr () \<and> l' = l\<lparr>lk_token := None\<rparr> \<and> lookup db' = (lookup db)(lk_name l := None)
      else (\<exists>msg. r = Inl (not_owned cl msg)) \<and> l' = l \<and> lookup db' = lookup db)"
proof (cases "lk_token l")
  case (Some t)
  have open_client: "\<not> cl_closed cl" using assms(2) by (simp add: plain_client_def)
  obtain n db' where "lock_eval cl exec LOCK_RELEASE_LUA l [t] db = (Inr n, db')"
    "(n, lookup db') = (if lookup db (lk_name l) = Some t then (1, (lookup db)(lk_name l := None)) else (0, lookup db))"
    by (rule release_script_outcome [OF assms(1) open_client, where l = l and t = t and db = db])
  with Some show ?thesis by (auto simp: release_def split: if_splits)
qed (auto simp: release_def)

lemma extend_outcome:
  fixes l :: lock
  assumes "runs_lock_commands exec (cl_opt_bytes cl) lookup" "plain_client cl"
  shows "(case lock_extend cl exec s l db of (r, db') \<Rightarrow>
      if lk_token l = None then r = Inl (not_owned cl ''Cannot extend an unlocked lock'') \<and> db' = db
      else r = Inr (lookup db (lk_name l) = lk_token l) \<and>
           lookup db' = (if lookup db (lk_name l) = lk_token l \<and> millis s \<le>s 0
                         then (lookup db)(lk_name l := None) else lookup db))"
proof (cases "lk_token l")
  case (Some t)
  have open_client: "\<not> cl_closed cl" using assms(2) by (simp add: plain_client_def)
  obtain n db' where "lock_eval cl exec LOCK_EXTEND_LUA l [t, show_int (sint (millis s))] db = (Inr n, db')"
    "(n, lookup db') =
      (if lookup db (lk_name l) = Some t
       then (1, if millis s \<le>s 0 then (lookup db)(lk_name l := None) else lookup db) else (0, lookup db))"
    by (rule extend_script_outcome [OF assms(1) open_client, where l = l and t = t and ms = "millis s" and db = db])
  with Some show ?thesis by (auto simp: lock_extend_def word_sless_alt split: if_splits)
qed (auto simp: lock_extend_def)

lemma owned_outcome:
  fixes l :: lock
  assumes "runs_lock_commands exec (cl_opt_bytes cl) lookup" "plain_client cl"
  shows "(case owned cl exec l db of (r, db') \<Rightarrow>
      r = Inr (lk_token l \<noteq> None \<and> lookup db (lk_name l) = lk_token l) \<and> lookup db' = lookup db)"
  using lock_value_outcome [OF assms, where l = l and db = db] by (auto simp: owned_def split: option.splits prod.splits)

lemma locked_outcome:
  fixes l :: lock
  assumes "runs_lock_commands exec (cl_opt_bytes cl) lookup" "plain_client cl"
  shows "(case locked cl exec l db of (r, db') \<Rightarrow>
      r = Inr (lookup db (lk_name l) \<noteq> None) \<and> lookup db' = lookup db)"
  using lock_value_outcome [OF assms, where l = l and db = db] by (auto simp: locked_def split: prod.splits)

lemma acquire_outcome:
  assumes "runs_lock_commands exec (cl_opt_bytes cl) lookup" "plain_client cl"
  shows "\<exists>db'. lookup db' = (if lookup (others db) (lk_name l) = None
        then (lookup (others db))(lk_name l \<mapsto> case token of Some t \<Rightarrow> t | None \<Rightarrow> fresh) else lookup (others db)) \<and>
      acquire cl exec blocking blocking_timeout token fresh l ((others, passed) # attempts) db =
       (if lookup (others db) (lk_name l) = None
        then (Some (Inr True), l\<lparr>lk_token := Some (case token of Some t \<Rightarrow> t | None \<Rightarrow> fresh)\<rparr>, db')
        else if \<not> (case blocking of Some b \<Rightarrow> b | None \<Rightarrow> lk_blocking l) \<or>
                (blocking_timeout \<noteq> None \<or> lk_blocking_timeout l \<noteq> None) \<and> passed
        then (Some (Inr False), l, db')
        else case sleep_check (lk_sleep l) of
               Inl e \<Rightarrow> (Some (Inl e), l, db')
             | Inr _ \<Rightarrow> acquire cl exec blocking blocking_timeout token fresh l attempts db')"
proof -
  define t where "t = (case token of Some t \<Rightarrow> t | None \<Rightarrow> fresh)"
  define b where "b = (case blocking of Some b \<Rightarrow> b | None \<Rightarrow> lk_blocking l)"
  define d where "d \<longleftrightarrow> blocking_timeout \<noteq> None \<or> lk_blocking_timeout l \<noteq> None"
  obtain r l' db' where turn: "acquire_once cl exec b (d \<and> passed) t l (others db) = (r, l', db')" by (metis prod_cases3)
  have loop: "acquire cl exec blocking blocking_timeout token fresh l rest w = acquire_loop cl exec b d t l rest w" for rest w
    by (simp only: acquire_def t_def b_def d_def)
  show ?thesis
    unfolding t_def [symmetric] b_def [symmetric] d_def [symmetric] loop
    by (rule exI [of _ db'])
      (use acquire_once_outcome [OF assms, where blocking = b and late = "d \<and> passed" and t = t and l = l
          and db = "others db"] turn in \<open>auto split: if_splits sum.splits\<close>)
qed

lemma enter_outcome:
  assumes "runs_lock_commands exec (cl_opt_bytes cl) lookup" "plain_client cl"
  shows "\<exists>db'. lookup db' = (if lookup (others db) (lk_name l) = None
        then (lookup (others db))(lk_name l \<mapsto> fresh) else lookup (others db)) \<and>
      lock_enter cl exec fresh l ((others, passed) # attempts) db =
       (if lookup (others db) (lk_name l) = None then (Some (Inr ()), l\<lparr>lk_token := Some fresh\<rparr>, db')
        else if \<not> lk_blocking l \<or> lk_blocking_timeout l \<noteq> None \<and> passed then (Some (Inr ()), l, db')
        else case sleep_check (lk_sleep l) of
               Inl e \<Rightarrow> (Some (Inl e), l, db')
             | Inr _ \<Rightarrow> lock_enter cl exec fresh l attempts db')"
proof -
  obtain db' where "lookup db' = (if lookup (others db) (lk_name l) = None
        then (lookup (others db))(lk_name l \<mapsto> fresh) else lookup (others db))"
      "acquire cl exec None None None fresh l ((others, passed) # attempts) db =
       (if lookup (others db) (lk_name l) = None then (Some (Inr True), l\<lparr>lk_token := Some fresh\<rparr>, db')
        else if \<not> lk_blocking l \<or> lk_blocking_timeout l \<noteq> None \<and> passed then (Some (Inr False), l, db')
        else case sleep_check (lk_sleep l) of
               Inl e \<Rightarrow> (Some (Inl e), l, db')
             | Inr _ \<Rightarrow> acquire cl exec None None None fresh l attempts db')"
    using acquire_outcome [OF assms, where blocking = None and blocking_timeout = None and token = None
      and fresh = fresh and l = l and others = others and passed = passed and attempts = attempts and db = db]
    by (simp only: option.case simp_thms) blast
  then show ?thesis
    by (intro exI [of _ db']) (auto simp: lock_enter_def split: sum.split)
qed

lemma exit_outcome:
  fixes l :: lock
  assumes "runs_lock_commands exec (cl_opt_bytes cl) lookup" "plain_client cl"
  shows "case lock_exit cl exec l db of (r, l', db') \<Rightarrow>
      if lk_token l \<noteq> None \<and> lookup db (lk_name l) = lk_token l
      then r = Inr False \<and> l' = l\<lparr>lk_token := None\<rparr> \<and> lookup db' = (lookup db)(lk_name l := None)
      else (\<exists>msg. r = Inl (not_owned cl msg)) \<and> l' = l \<and> lookup db' = lookup db"
  using release_outcome [OF assms, where l = l and db = db]
  by (auto simp: lock_exit_def split: prod.splits if_splits)

text \<open>(C29) What every lock method does, on an open client that does not decode.  An attempt of
  \<open>acquire\<close> takes a free lock with the caller's token or a fresh one; on a lock that is held it
  changes nothing, and returns \<open>False\<close> when the call does not block or its deadline has passed,
  and otherwise sleeps and goes on.  \<open>__enter__\<close> is such a call, with the lock's own settings,
  whose result is dropped.  \<open>release\<close> and \<open>__exit__\<close> free exactly a lock they own and raise
  \<open>LockNotOwnedError\<close> otherwise; \<open>extend\<close> says whether it owns the lock, which it deletes when the
  time is not positive; \<open>owned\<close> and \<open>locked\<close> tell the truth and change nothing.\<close>
theorem lock_operations:
  fixes l :: lock
  assumes "runs_lock_commands exec (cl_opt_bytes cl) lookup" "plain_client cl"
  shows "(\<exists>db'. lookup db' = (if lookup (others db) (lk_name l) = None
        then (lookup (others db))(lk_name l \<mapsto> case token of Some t \<Rightarrow> t | None \<Rightarrow> fresh) else lookup (others db)) \<and>
      acquire cl exec blocking blocking_timeout token fresh l ((others, passed) # attempts) db =
       (if lookup (others db) (lk_name l) = None
        then (Some (Inr True), l\<lparr>lk_token := Some (case token of Some t \<Rightarrow> t | None \<Rightarrow> fresh)\<rparr>, db')
        else if \<not> (case blocking of Some b \<Rightarrow> b | None \<Rightarrow> lk_blocking l) \<or>
                (blocking_timeout \<noteq> None \<or> lk_blocking_timeout l \<noteq> None) \<and> passed
        then (Some (Inr False), l, db')
        else case sleep_check (lk_sleep l) of
               Inl e \<Rightarrow> (Some (Inl e), l, db')
             | Inr _ \<Rightarrow> acquire cl exec blocking blocking_timeout token fresh l attempts db')) \<and>
    (\<exists>db'. lookup db' = (if lookup (others db) (lk_name l) = None
        then (lookup (others db))(lk_name l \<mapsto> fresh) else lookup (others db)) \<and>
      lock_enter cl exec fresh l ((others, passed) # attempts) db =
       (if lookup (others db) (lk_name l) = None then (Some (Inr ()), l\<lparr>lk_token := Some fresh\<rparr>, db')
        else if \<not> lk_blocking l \<or> lk_blocking_timeout l \<noteq> None \<and> passed then (Some (Inr ()), l, db')
        else case sleep_check (lk_sleep l) of
               Inl e \<Rightarrow> (Some (Inl e), l, db')
             | Inr _ \<Rightarrow> lock_enter cl exec fresh l attempts db')) \<and>
    (case release cl exec l db of (r, l', db') \<Rightarrow>
      if lk_token l \<noteq> None \<and> lookup db (lk_name l) = lk_token l
      then r = Inr () \<and> l' = l\<lparr>lk_token := None\<rparr> \<and> lookup db' = (lookup db)(lk_name l := None)
      else (\<exists>msg. r = Inl (not_owned cl msg)) \<and> l' = l \<and> lookup db' = lookup db) \<and>
    (case lock_exit cl exec l db of (r, l', db') \<Rightarrow>
      if lk_token l \<noteq> None \<and> lookup db (lk_name l) = lk_token l
      then r = Inr False \<and> l' = l\<lparr>lk_token := None\<rparr> \<and> lookup db' = (lookup db)(lk_name l := None)
      else (\<exists>msg. r = Inl (not_owned cl msg)) \<and> l' = l \<and> lookup db' = lookup db) \<and>
    (case lock_extend cl exec s l db of (r, db') \<Rightarrow>
      if lk_token l = None then r = Inl (not_owned cl ''Cannot extend an unlocked lock'') \<and> db' = db
      else r = Inr (lookup db (lk_name l) = lk_token l) \<and>
           lookup db' = (if lookup db (lk_name l) = lk_token l \<and> millis s \<le>s 0
                         then (lookup db)(lk_name l := None) else lookup db)) \<and>
    (case owned cl exec l db of (r, db') \<Rightarrow>
      r = Inr (lk_token l \<noteq> None \<and> lookup db (lk_name l) = lk_token l) \<and> lookup db' = lookup db) \<and>
    (case locked cl exec l db of (r, db') \<Rightarrow>
      r = Inr (lookup db (lk_name l) \<noteq> None) \<and> lookup db' = lookup db)"
  by (intro conjI acquire_outcome enter_outcome release_outcome exit_outcome extend_outcome owned_outcome locked_outcome assms)

section \<open>What the methods do over a connection that may fail\<close>

lemma acquire_once_lossy:
  assumes "lossy_lock_commands exec (cl_opt_bytes cl) lookup" "plain_client cl"
  shows "case acquire_once cl exec blocking late t l db of (r, l', db') \<Rightarrow>
    r = Some (Inr True) \<and> lookup db (lk_name l) = None \<and> l' = l\<lparr>lk_token := Some t\<rparr> \<and>
      lookup db' = (lookup db)(lk_name l \<mapsto> t) \<or>
    r \<noteq> Some (Inr True) \<and> l' = l \<and>
      (lookup db' = lookup db \<or> lookup db (lk_name l) = None \<and> lookup db' = (lookup db)(lk_name l \<mapsto> t))"
proof -
  let ?cmd = "set_nx_cmd (lk_name l) t (lock_px l)"
  obtain r db' where run: "exec ?cmd db = (r, db')" by fastforce
  have law: "(lookup db' = lookup db \<or> lookup db (lk_name l) = None \<and> lookup db' = (lookup db)(lk_name l \<mapsto> t)) \<and>
      (\<forall>v. r = Inr v \<longrightarrow> v = VNil \<or> v = VOkay \<and> lookup db (lk_name l) = None \<and> lookup db' = (lookup db)(lk_name l \<mapsto> t))"
    using conjunct1 [OF assms(1) [unfolded lossy_lock_commands_def], rule_format,
        where db = db and k = "lk_name l" and t = t and px = "lock_px l"] run
    by simp
  show ?thesis
    using law assms(2)
    by (cases r) (auto simp: acquire_once_def lock_set_def on_server_def redis_set_def sync_call_def run_request_def
        maybe_decode_def plain_client_def run Let_def split: sum.splits)
qed

lemma lock_eval_lossy:
  assumes "exec (cmd_eval ''EVAL'' script [lk_name l] args) db = (r, db')" "plain_client cl"
    and "\<And>v. r = Inr v \<Longrightarrow> v = VInt 0 \<or> v = VInt 1"
  shows "snd (lock_eval cl exec script l args db) = db' \<and>
    (\<forall>n. fst (lock_eval cl exec script l args db) = Inr n \<longrightarrow> r = Inr (VInt n))"
proof (cases r)
  case (Inl e)
  with assms(1,2) show ?thesis
    by (auto simp: lock_eval_def on_server_def redis_eval_def sync_call_def run_request_def maybe_decode_def plain_client_def)
next
  case (Inr v)
  then obtain n where "r = Inr (VInt n)" using assms(3) by blast
  then show ?thesis
    using lock_eval_outcome [of cl exec script l args db n db'] assms(1,2) by (simp add: plain_client_def)
qed

lemma release_lossy:
  fixes l :: lock
  assumes "lossy_lock_commands exec (cl_opt_bytes cl) lookup" "plain_client cl"
  shows "case release cl exec l db of (r, l', db') \<Rightarrow>
    (r = Inr () \<longrightarrow> lk_token l \<noteq> None \<and> lookup db (lk_name l) = lk_token l \<and> l' = l\<lparr>lk_token := None\<rparr> \<and>
       lookup db' (lk_name l) = None) \<and>
    (r \<noteq> Inr () \<longrightarrow> l' = l) \<and>
    (lookup db' = lookup db \<or>
     lk_token l \<noteq> None \<and> lookup db (lk_name l) = lk_token l \<and> lookup db' = (lookup db)(lk_name l := None))"
proof (cases "lk_token l")
  case (Some t)
  obtain r db' where run: "exec (cmd_eval ''EVAL'' LOCK_RELEASE_LUA [lk_name l] [t]) db = (r, db')" by fastforce
  have law: "(lookup db' = lookup db \<or> lookup db (lk_name l) = Some t \<and> lookup db' = (lookup db)(lk_name l := None)) \<and>
      (\<forall>v. r = Inr v \<longrightarrow> v = VInt 0 \<or> v = VInt 1 \<and> lookup db (lk_name l) = Some t \<and> lookup db' = (lookup db)(lk_name l := None))"
    using conjunct1 [OF conjunct2 [OF assms(1) [unfolded lossy_lock_commands_def]], rule_format,
        where db = db and k = "lk_name l" and t = t] run
    by simp
  then have ev: "snd (lock_eval cl exec LOCK_RELEASE_LUA l [t] db) = db'"
      "fst (lock_eval cl exec LOCK_RELEASE_LUA l [t] db) = Inr n \<Longrightarrow> r = Inr (VInt n)" for n
    using lock_eval_lossy [where r = r and l = l and exec = exec, OF run assms(2)] by blast+
  show ?thesis
  proof (cases "fst (lock_eval cl exec LOCK_RELEASE_LUA l [t] db)")
    case (Inl e)
    with Some ev(1) law show ?thesis by (auto simp: release_def case_prod_beta Let_def)
  next
    case (Inr n)
    with Some ev(1) law ev(2) [OF Inr] show ?thesis
      by (auto simp: release_def case_prod_beta Let_def fun_upd_idem_iff)
  qed
qed (auto simp: release_def)

lemma extend_lossy:
  fixes l :: lock
  assumes "lossy_lock_commands exec (cl_opt_bytes cl) lookup" "plain_client cl"
  shows "case lock_extend cl exec s l db of (r, db') \<Rightarrow>
    (r = Inr True \<longrightarrow> lk_token l \<noteq> None \<and> lookup db (lk_name l) = lk_token l) \<and>
    (lookup db' = lookup db \<or>
     millis s \<le>s 0 \<and> lk_token l \<noteq> None \<and> lookup db (lk_name l) = lk_token l \<and>
       lookup db' = (lookup db)(lk_name l := None))"
proof (cases "lk_token l")
  case (Some t)
  let ?args = "[t, show_int (sint (millis s))]"
  obtain r db' where run: "exec (cmd_eval ''EVAL'' LOCK_EXTEND_LUA [lk_name l] ?args) db = (r, db')" by fastforce
  have law: "(lookup db' = lookup db \<or> millis s \<le>s 0 \<and> lookup db (lk_name l) = Some t \<and> lookup db' = (lookup db)(lk_name l := None)) \<and>
      (\<forall>v. r = Inr v \<longrightarrow> v = VInt 0 \<or> v = VInt 1 \<and> lookup db (lk_name l) = Some t)"
    using conjunct1 [OF conjunct2 [OF conjunct2 [OF assms(1) [unfolded lossy_lock_commands_def]]], rule_format,
        where db = db and k = "lk_name l" and t = t and ms = "millis s"] run
    by simp
  then have ev: "snd (lock_eval cl exec LOCK_EXTEND_LUA l ?args db) = db'"
      "fst (lock_eval cl exec LOCK_EXTEND_LUA l ?args db) = Inr n \<Longrightarrow> r = Inr (VInt n)" for n
    using lock_eval_lossy [where r = r and l = l and exec = exec, OF run assms(2)] by blast+
  show ?thesis
  proof (cases "fst (lock_eval cl exec LOCK_EXTEND_LUA l ?args db)")
    case (Inl e)
    with Some ev(1) law show ?thesis by (auto simp: lock_extend_def case_prod_beta Let_def)
  next
    case (Inr n)
    with Some ev(1) law ev(2) [OF Inr] show ?thesis by (auto simp: lock_extend_def case_prod_beta Let_def)
  qed
qed (auto simp: lock_extend_def)

lemma lock_value_lossy:
  assumes "lossy_lock_commands exec (cl_opt_bytes cl) lookup" "plain_client cl"
  shows "case lock_value cl exec l db of (r, db') \<Rightarrow>
    lookup db' = lookup db \<and> (\<forall>v. r = Inr v \<longrightarrow> v = lookup db (lk_name l))"
proof -
  obtain r db' where run: "exec (Cmd ''GET'' [AStr (lk_name l)]) db = (r, db')" by fastforce
  have "lookup db' = lookup db \<and> (\<forall>v. rbind r (cl_opt_bytes cl) = Inr v \<longrightarrow> v = lookup db (lk_name l))"
    using conjunct2 [OF conjunct2 [OF conjunct2 [OF assms(1) [unfolded lossy_lock_commands_def]]], rule_format,
        where db = db and k = "lk_name l"] run
    by simp
  with assms(2) run show ?thesis
    by (cases "rbind r (cl_opt_bytes cl)")
      (auto simp: plain_client_def lock_value_def on_server_def redis_get_def sync_call_def run_request_def
        maybe_decode_def reading_def conv_opt_bytes_def py_opt_bytes_def split: option.splits)
qed

lemma owned_lossy:
  fixes l :: lock
  assumes "lossy_lock_commands exec (cl_opt_bytes cl) lookup" "plain_client cl"
  shows "case owned cl exec l db of (r, db') \<Rightarrow>
      lookup db' = lookup db \<and> (\<forall>b. r = Inr b \<longrightarrow> b = (lk_token l \<noteq> None \<and> lookup db (lk_name l) = lk_token l))"
  using lock_value_lossy [OF assms, where l = l and db = db]
  by (auto simp: owned_def rbind_def split: option.splits prod.splits sum.splits)

lemma locked_lossy:
  fixes l :: lock
  assumes "lossy_lock_commands exec (cl_opt_bytes cl) lookup" "plain_client cl"
  shows "lookup (snd (locked cl exec l db)) = lookup db"
  using lock_value_lossy [OF assms, where l = l and db = db] by (auto simp: locked_def split: prod.splits)

section \<open>Several clients\<close>

text \<open>
  The clients of one lock, each with its own \<open>Lock\<close> object and its own connection to the
  server, which may fail: \<open>exec c\<close> is the server as client \<open>c\<close> reaches it.  \<open>sys_inside\<close> are those
  whose \<open>acquire\<close> has returned \<open>True\<close> and that have since neither called \<open>release\<close>, whatever came
  of the call, nor asked \<open>extend\<close> for a time that is not positive (which deletes the key), nor lost
  the lock on the server: by expiry, or because a failover dropped the write that took it.
  \<open>minted token\<close> is the client that generated a token: no two generate the same.
\<close>

record 'db lock_sys =
  sys_db :: 'db
  sys_locks :: "nat \<Rightarrow> lock"
  sys_inside :: "nat set"

inductive lock_step ::
  "client \<Rightarrow> (nat \<Rightarrow> 'db executor) \<Rightarrow> ('db \<Rightarrow> bytes \<Rightarrow> bytes option) \<Rightarrow> (bytes \<Rightarrow> nat) \<Rightarrow> bytes \<Rightarrow>
   'db lock_sys \<Rightarrow> 'db lock_sys \<Rightarrow> bool"
  for cl exec lookup minted name
where
  attempted: "minted token = c \<Longrightarrow>
    acquire_once cl (exec c) blocking late token (sys_locks s c) (sys_db s) = (r, l, db) \<Longrightarrow>
    lock_step cl exec lookup minted name s
      (s\<lparr>sys_db := db, sys_locks := (sys_locks s)(c := l),
         sys_inside := (if r = Some (Inr True) then insert c (sys_inside s) else sys_inside s)\<rparr>)"
| released: "release cl (exec c) (sys_locks s c) (sys_db s) = (r, l, db) \<Longrightarrow>
    lock_step cl exec lookup minted name s
      (s\<lparr>sys_db := db, sys_locks := (sys_locks s)(c := l), sys_inside := sys_inside s - {c}\<rparr>)"
| extended: "lock_extend cl (exec c) time (sys_locks s c) (sys_db s) = (r, db) \<Longrightarrow>
    lock_step cl exec lookup minted name s
      (s\<lparr>sys_db := db,
         sys_inside := (if millis time \<le>s 0 then sys_inside s - {c} else sys_inside s)\<rparr>)"
| asked: "owned cl (exec c) (sys_locks s c) (sys_db s) = (r, db) \<or>
    locked cl (exec c) (sys_locks s c) (sys_db s) = (r, db) \<Longrightarrow>
    lock_step cl exec lookup minted name s (s\<lparr>sys_db := db\<rparr>)"
| lost: "lookup db name \<noteq> lookup (sys_db s) name \<Longrightarrow>
    lock_step cl exec lookup minted name s (s\<lparr>sys_db := db, sys_inside := {}\<rparr>)"
| elsewhere: "lookup db name = lookup (sys_db s) name \<Longrightarrow>
    lock_step cl exec lookup minted name s (s\<lparr>sys_db := db\<rparr>)"

text \<open>Nobody holds a token at first.\<close>

inductive lock_reachable ::
  "client \<Rightarrow> (nat \<Rightarrow> 'db executor) \<Rightarrow> ('db \<Rightarrow> bytes \<Rightarrow> bytes option) \<Rightarrow> (bytes \<Rightarrow> nat) \<Rightarrow> bytes \<Rightarrow>
   'db lock_sys \<Rightarrow> bool"
  for cl exec lookup minted name
where
  start: "(\<And>c. lk_token (sys_locks s c) = None \<and> lk_name (sys_locks s c) = name) \<Longrightarrow> sys_inside s = {} \<Longrightarrow>
    lock_reachable cl exec lookup minted name s"
| step: "lock_reachable cl exec lookup minted name s \<Longrightarrow> lock_step cl exec lookup minted name s s' \<Longrightarrow>
    lock_reachable cl exec lookup minted name s'"

definition lock_inv ::
  "('db \<Rightarrow> bytes \<Rightarrow> bytes option) \<Rightarrow> (bytes \<Rightarrow> nat) \<Rightarrow> bytes \<Rightarrow> 'db lock_sys \<Rightarrow> bool" where
  "lock_inv lookup minted name s \<longleftrightarrow>
     (\<forall>c. lk_name (sys_locks s c) = name) \<and>
     (\<forall>c t. lk_token (sys_locks s c) = Some t \<longrightarrow> minted t = c) \<and>
     (\<forall>c \<in> sys_inside s. lk_token (sys_locks s c) \<noteq> None \<and>
        lookup (sys_db s) name = lk_token (sys_locks s c))"

lemma same_token:
  "lock_inv lookup minted name s \<Longrightarrow> lk_token (sys_locks s c) = lk_token (sys_locks s c') \<Longrightarrow>
   lk_token (sys_locks s c) \<noteq> None \<Longrightarrow> c' = c"
  unfolding lock_inv_def by (metis option.exhaust)

lemma only_one_inside:
  assumes "lock_inv lookup minted name s" "c \<in> sys_inside s" "c' \<in> sys_inside s"
  shows "c' = c"
proof -
  have "lk_token (sys_locks s c) = lk_token (sys_locks s c')" "lk_token (sys_locks s c) \<noteq> None"
    using assms unfolding lock_inv_def by metis+
  then show ?thesis by (rule same_token [OF assms(1)])
qed

lemma free_lock_empty:
  "lock_inv lookup minted name s \<Longrightarrow> lookup (sys_db s) name = None \<Longrightarrow> sys_inside s = {}"
  by (auto simp: lock_inv_def)

text \<open>A client with the token that the server stores is alone.\<close>

lemma holder_alone:
  assumes "lock_inv lookup minted name s" "lk_token (sys_locks s c) \<noteq> None"
    and "lookup (sys_db s) name = lk_token (sys_locks s c)"
  shows "sys_inside s \<subseteq> {c}"
  using assms same_token [OF assms(1), of c] unfolding lock_inv_def by fastforce

lemma lock_step_inv:
  assumes server: "\<And>c. lossy_lock_commands (exec c) (cl_opt_bytes cl) lookup" "plain_client cl"
    and "lock_step cl exec lookup minted name s s'" and inv: "lock_inv lookup minted name s"
  shows "lock_inv lookup minted name s'"
proof -
  have name: "lk_name (sys_locks s c) = name" for c using inv by (simp add: lock_inv_def)
  show ?thesis using assms(3)
  proof (cases rule: lock_step.cases)
    case (attempted token c blocking late r l db)
    then show ?thesis
      using acquire_once_lossy [OF server(1) [of c] server(2), where blocking = blocking and late = late and t = token
          and l = "sys_locks s c" and db = "sys_db s"] inv name [of c] free_lock_empty [OF inv]
      by (auto simp: lock_inv_def)
  next
    case (released c r l db)
    then have "(r \<noteq> Inr () \<longrightarrow> l = sys_locks s c) \<and> (r = Inr () \<longrightarrow> l = (sys_locks s c)\<lparr>lk_token := None\<rparr>) \<and>
        (lookup db = lookup (sys_db s) \<or> sys_inside s \<subseteq> {c})"
      using release_lossy [OF server(1) [of c] server(2), where l = "sys_locks s c" and db = "sys_db s"] name [of c]
        holder_alone [OF inv, of c]
      by auto
    then show ?thesis
      using released(1) inv by (cases "r = Inr ()") (auto simp: lock_inv_def)
  next
    case (extended c time r db)
    then have "lookup db = lookup (sys_db s) \<or> millis time \<le>s 0 \<and> sys_inside s \<subseteq> {c}"
      using extend_lossy [OF server(1) [of c] server(2), where s = time and l = "sys_locks s c" and db = "sys_db s"]
        name [of c] holder_alone [OF inv, of c]
      by auto
    then show ?thesis using extended(1) inv by (auto simp: lock_inv_def)
  next
    case (asked c r db)
    then have "lookup db = lookup (sys_db s)"
      using owned_lossy [OF server(1) [of c] server(2), where l = "sys_locks s c" and db = "sys_db s"]
        locked_lossy [OF server(1) [of c] server(2), where l = "sys_locks s c" and db = "sys_db s"]
      by auto
    then show ?thesis using asked(1) inv by (simp add: lock_inv_def)
  qed (use inv in \<open>auto simp: lock_inv_def\<close>)
qed

lemma lock_reachable_inv:
  assumes "lock_reachable cl exec lookup minted name s"
    and "\<And>c. lossy_lock_commands (exec c) (cl_opt_bytes cl) lookup" "plain_client cl"
  shows "lock_inv lookup minted name s"
  using assms(1)
proof (induction rule: lock_reachable.induct)
  case (start s)
  then show ?case by (simp add: lock_inv_def)
next
  case (step s s')
  then show ?case using lock_step_inv assms(2,3) by blast
qed

text \<open>What the holder and the others get from each method while one client is inside.\<close>

lemma inside_token:
  assumes "lock_inv lookup minted name s" "c \<in> sys_inside s"
  obtains t where "lk_token (sys_locks s c) = Some t" "lookup (sys_db s) name = Some t"
    "\<And>c'. c' \<noteq> c \<Longrightarrow> lk_token (sys_locks s c') \<noteq> Some t"
  using assms unfolding lock_inv_def by (metis option.exhaust)

lemma holder_keeps:
  assumes "\<And>c. lossy_lock_commands (exec c) (cl_opt_bytes cl) lookup" "plain_client cl"
    and "lock_reachable cl exec lookup minted name s" "c \<in> sys_inside s"
  shows "sys_inside s = {c}"
    and "fst (owned cl (exec c) (sys_locks s c) (sys_db s)) \<noteq> Inr False"
    and "millis time \<le>s 0 \<or> lookup (snd (lock_extend cl (exec c) time (sys_locks s c) (sys_db s))) = lookup (sys_db s)"
proof -
  have inv: "lock_inv lookup minted name s" by (rule lock_reachable_inv [OF assms(3,1,2)])
  then have name: "lk_name (sys_locks s c) = name" by (simp add: lock_inv_def)
  obtain t where t: "lk_token (sys_locks s c) = Some t" "lookup (sys_db s) name = Some t"
    by (rule inside_token [OF inv assms(4)])
  show "sys_inside s = {c}" using only_one_inside [OF inv assms(4)] assms(4) by blast
  show "fst (owned cl (exec c) (sys_locks s c) (sys_db s)) \<noteq> Inr False"
    using owned_lossy [OF assms(1) [of c] assms(2), where l = "sys_locks s c" and db = "sys_db s"]
    by (auto simp: t name split: prod.splits)
  show "millis time \<le>s 0 \<or> lookup (snd (lock_extend cl (exec c) time (sys_locks s c) (sys_db s))) = lookup (sys_db s)"
    using extend_lossy [OF assms(1) [of c] assms(2), where s = time and l = "sys_locks s c" and db = "sys_db s"]
    by (auto split: prod.splits)
qed

lemma others_refused:
  assumes "\<And>c. lossy_lock_commands (exec c) (cl_opt_bytes cl) lookup" "plain_client cl"
    and "lock_reachable cl exec lookup minted name s" "c \<in> sys_inside s"
  shows "fst (acquire_once cl (exec c') blocking late t' (sys_locks s c') (sys_db s)) \<noteq> Some (Inr True)"
    and "c' = c \<or> (case release cl (exec c') (sys_locks s c') (sys_db s) of (r, l, db) \<Rightarrow>
          r \<noteq> Inr () \<and> lookup db = lookup (sys_db s))"
    and "c' = c \<or> (case lock_extend cl (exec c') time (sys_locks s c') (sys_db s) of (r, db) \<Rightarrow>
          r \<noteq> Inr True \<and> lookup db = lookup (sys_db s))"
proof -
  have inv: "lock_inv lookup minted name s" by (rule lock_reachable_inv [OF assms(3,1,2)])
  then have name: "lk_name (sys_locks s c) = name" for c by (simp add: lock_inv_def)
  obtain t where t: "lk_token (sys_locks s c) = Some t" "lookup (sys_db s) name = Some t"
    "\<And>c'. c' \<noteq> c \<Longrightarrow> lk_token (sys_locks s c') \<noteq> Some t"
    by (rule inside_token [OF inv assms(4)]) blast
  show "fst (acquire_once cl (exec c') blocking late t' (sys_locks s c') (sys_db s)) \<noteq> Some (Inr True)"
    using acquire_once_lossy [OF assms(1) [of c'] assms(2), where blocking = blocking and late = late and t = t'
        and l = "sys_locks s c'" and db = "sys_db s"]
    by (auto simp: t(2) name split: prod.splits)
  show "c' = c \<or> (case release cl (exec c') (sys_locks s c') (sys_db s) of (r, l, db) \<Rightarrow>
      r \<noteq> Inr () \<and> lookup db = lookup (sys_db s))"
    using release_lossy [OF assms(1) [of c'] assms(2), where l = "sys_locks s c'" and db = "sys_db s"] t(3) [of c']
    by (auto simp: t(2) name split: prod.splits)
  show "c' = c \<or> (case lock_extend cl (exec c') time (sys_locks s c') (sys_db s) of (r, db) \<Rightarrow>
      r \<noteq> Inr True \<and> lookup db = lookup (sys_db s))"
    using extend_lossy [OF assms(1) [of c'] assms(2), where s = time and l = "sys_locks s c'" and db = "sys_db s"]
      t(3) [of c']
    by (auto simp: t(2) name split: prod.splits)
qed

text \<open>(C27) Mutual exclusion, over connections that may fail before or after a request was executed:
  however the calls of the clients, expiry, lost writes and writes to other keys interleave, at most
  one client is inside.  While it is, \<open>owned\<close> does not deny it and its \<open>extend\<close> by a positive time
  leaves it the lock; nobody's \<open>acquire\<close> succeeds; and another client's \<open>release\<close> or \<open>extend\<close> does
  not succeed and leaves the lock alone.  A client that has called \<open>release\<close>, or \<open>extend\<close> with a
  time that is not positive, is not inside any more, whatever the call returned.\<close>
theorem lock_mutual_exclusion:
  assumes "\<And>c. lossy_lock_commands (exec c) (cl_opt_bytes cl) lookup" "plain_client cl"
    and "lock_reachable cl exec lookup minted name s" "c \<in> sys_inside s"
  shows "sys_inside s = {c} \<and>
    fst (owned cl (exec c) (sys_locks s c) (sys_db s)) \<noteq> Inr False \<and>
    (\<forall>time. millis time \<le>s 0 \<or>
       lookup (snd (lock_extend cl (exec c) time (sys_locks s c) (sys_db s))) = lookup (sys_db s)) \<and>
    (\<forall>c' blocking late t.
       fst (acquire_once cl (exec c') blocking late t (sys_locks s c') (sys_db s)) \<noteq> Some (Inr True)) \<and>
    (\<forall>c'. c' = c \<or>
       (case release cl (exec c') (sys_locks s c') (sys_db s) of (r, l, db) \<Rightarrow>
          r \<noteq> Inr () \<and> lookup db = lookup (sys_db s))) \<and>
    (\<forall>c' time. c' = c \<or>
       (case lock_extend cl (exec c') time (sys_locks s c') (sys_db s) of (r, db) \<Rightarrow>
          r \<noteq> Inr True \<and> lookup db = lookup (sys_db s)))"
  by (intro conjI allI holder_keeps [OF assms] others_refused [OF assms])

section \<open>A server that runs the commands\<close>

fun sample_exec :: "(bytes \<Rightarrow> bytes option) executor" where
  "sample_exec (Cmd name (AStr k # ABytes t # rest)) db =
     (if db k = None then (Inr VOkay, db(k \<mapsto> t)) else (Inr VNil, db))"
| "sample_exec (Cmd name [AStr k]) db =
     (Inr (case db k of Some b \<Rightarrow> VBulkString b | None \<Rightarrow> VNil), db)"
| "sample_exec (Cmd name (AStr script # AUsize n # AStr k # ABytes t # rest)) db =
     (if db k \<noteq> Some t then (Inr (VInt 0), db)
      else if script = LOCK_RELEASE_LUA then (Inr (VInt 1), db(k := None))
      else (Inr (VInt 1),
            case rest of
              [ABytes ms] \<Rightarrow> (case parse_signed 64 ms of Some i \<Rightarrow> if i \<le> 0 then db(k := None) else db | None \<Rightarrow> db)
            | _ \<Rightarrow> db))"
| "sample_exec _ db = (Inr VNil, db)"

definition sample_client :: client where
  "sample_client =
     \<lparr>cl_env = sample_env, cl_decode = None, cl_closed = False,
      cl_opt_bytes = (\<lambda>v. case v of VBulkString b \<Rightarrow> Inr (Some b) | _ \<Rightarrow> Inr None), cl_import = None\<rparr>"

definition sample_lock :: lock where
  "sample_lock =
     \<lparr>lk_name = ''job'', lk_timeout = None, lk_sleep = F64 0, lk_blocking = True, lk_blocking_timeout = None,
      lk_token = None\<rparr>"

lemma scripts_differ: "LOCK_EXTEND_LUA \<noteq> LOCK_RELEASE_LUA"
  by (simp add: LOCK_EXTEND_LUA_def LOCK_RELEASE_LUA_def lua_text_def)

lemma parse_shown_i64 [simp]: "parse_signed 64 (show_int (sint (n :: i64))) = Some (sint n)"
  using sint_range_size [of n] by (intro parse_signed_show_int) (simp_all add: word_size)

lemma sample_runs: "runs_lock_commands sample_exec (cl_opt_bytes sample_client) (\<lambda>db. db)"
  unfolding runs_lock_commands_def
  by (intro conjI allI)
    (simp_all add: set_nx_cmd_def set_full_def cmd_eval_def scripts_differ sample_client_def word_sle_eq
      split: option.split)

lemma sample_lossy: "lossy_lock_commands sample_exec (cl_opt_bytes sample_client) (\<lambda>db. db)"
  by (rule runs_is_lossy [OF sample_runs])

lemma sample_plain: "plain_client sample_client"
  by (simp add: plain_client_def sample_client_def)

lemma sample_acquired:
  "acquire_once sample_client sample_exec True False ''t'' sample_lock (\<lambda>_. None) =
     (Some (Inr True), sample_lock\<lparr>lk_token := Some ''t''\<rparr>, [''job'' \<mapsto> ''t''])"
  using acquire_once_outcome [OF sample_runs sample_plain, where blocking = True and late = False and t = "''t''"
      and l = sample_lock and db = "\<lambda>_. None"]
  by (simp add: case_prod_beta prod_eq_iff) (simp add: sample_lock_def)

theorem lock_operations_witness:
  "fst (release sample_client sample_exec (sample_lock\<lparr>lk_token := Some ''u''\<rparr>) [''job'' \<mapsto> ''t'']) \<noteq> Inr ()"
  using lock_operations [OF sample_runs sample_plain, where l = "sample_lock\<lparr>lk_token := Some ''u''\<rparr>"
      and db = "[''job'' \<mapsto> ''t'']"]
  by (auto simp: case_prod_beta sample_lock_def)

text \<open>Client 1 has the lock; clients are told apart by the length of their tokens.\<close>

definition sample_inside :: "(bytes \<Rightarrow> bytes option) lock_sys" where
  "sample_inside =
     \<lparr>sys_db = [''job'' \<mapsto> ''t''],
      sys_locks = (\<lambda>_. sample_lock)(1 := sample_lock\<lparr>lk_token := Some ''t''\<rparr>), sys_inside = {1}\<rparr>"

lemma sample_reached: "lock_reachable sample_client (\<lambda>_. sample_exec) (\<lambda>db. db) length ''job'' sample_inside"
proof -
  let ?s = "\<lparr>sys_db = (\<lambda>_. None), sys_locks = (\<lambda>_. sample_lock), sys_inside = {}\<rparr> :: (bytes \<Rightarrow> bytes option) lock_sys"
  have "lock_reachable sample_client (\<lambda>_. sample_exec) (\<lambda>db. db) length ''job'' ?s"
    by (rule lock_reachable.start) (simp_all add: sample_lock_def)
  moreover have "lock_step sample_client (\<lambda>_. sample_exec) (\<lambda>db. db) length ''job'' ?s sample_inside"
    using lock_step.attempted [of length "''t''" 1 sample_client "\<lambda>_. sample_exec" True False ?s, OF _ , of "Some (Inr True)"]
    by (simp add: sample_acquired sample_inside_def)
  ultimately show ?thesis by (rule lock_reachable.step)
qed

theorem lock_mutual_exclusion_witness:
  "sys_inside sample_inside = {1} \<and>
   fst (owned sample_client sample_exec (sys_locks sample_inside 1) (sys_db sample_inside)) \<noteq> Inr False \<and>
   fst (acquire_once sample_client sample_exec True False ''uu'' (sys_locks sample_inside 2) (sys_db sample_inside)) \<noteq>
     Some (Inr True)"
proof -
  have "1 \<in> sys_inside sample_inside" by (simp add: sample_inside_def)
  from lock_mutual_exclusion [OF sample_lossy sample_plain sample_reached this] show ?thesis by blast
qed

section \<open>The loop of acquire\<close>

text \<open>A blocking \<open>acquire\<close> without a deadline waits for the lock: it does not return before
  the lock is free at one of its attempts, and at the first such attempt it returns \<open>True\<close>, with
  its token both in the store and in the \<open>Lock\<close>; failed attempts change nothing.\<close>
theorem acquire_waits:
  assumes "runs_lock_commands exec (cl_opt_bytes cl) lookup" "plain_client cl"
    and "sleep_check (lk_sleep l) = Inr ()"
    and "\<And>others passed db. (others, passed) \<in> set before \<Longrightarrow> lookup (others db) (lk_name l) \<noteq> None"
    and "\<And>db. lookup (free db) (lk_name l) = None"
  shows "fst (acquire_loop cl exec True False token l before db) = None \<and>
    (case acquire_loop cl exec True False token l (before @ (free, passed) # rest) db of (r, l', db') \<Rightarrow>
       r = Some (Inr True) \<and> l' = l\<lparr>lk_token := Some token\<rparr> \<and> lookup db' (lk_name l) = Some token)"
  using assms(4)
proof (induction before arbitrary: db)
  case Nil
  show ?case
    using acquire_once_outcome [OF assms(1,2), where blocking = True and late = False and t = token and l = l
        and db = "free db"] assms(5) [of db]
    by (auto split: option.splits prod.splits)
next
  case (Cons a before)
  obtain others late where a: "a = (others, late)" by (cases a)
  have "lookup (others db) (lk_name l) \<noteq> None" using Cons.prems [of others late db] a by simp
  then obtain db' where "acquire_once cl exec True False token l (others db) = (None, l, db')"
    using acquire_once_outcome [OF assms(1,2), where blocking = True and late = False and t = token and l = l
        and db = "others db"] assms(3)
    by (auto split: prod.splits)
  moreover have "fst (acquire_loop cl exec True False token l before db') = None \<and>
      (case acquire_loop cl exec True False token l (before @ (free, passed) # rest) db' of (r, l', db'') \<Rightarrow>
         r = Some (Inr True) \<and> l' = l\<lparr>lk_token := Some token\<rparr> \<and> lookup db'' (lk_name l) = Some token)"
    by (rule Cons.IH) (use Cons.prems in \<open>meson list.set_intros(2)\<close>)
  ultimately show ?case by (simp add: a)
qed

theorem acquire_waits_witness:
  "fst (acquire_loop sample_client sample_exec True False ''t'' sample_lock
     [(\<lambda>_. [''job'' \<mapsto> ''u''], False), (\<lambda>_ _. None, False)] (\<lambda>_. None)) = Some (Inr True)"
  using acquire_waits [OF sample_runs sample_plain, where l = sample_lock and token = "''t''"
      and before = "[(\<lambda>_. [''job'' \<mapsto> ''u''], False)]" and free = "\<lambda>_ _. None" and passed = False and rest = "[]"
      and db = "\<lambda>_. None"]
  by (simp add: sample_lock_def sleep_check_def from_secs_f64_def f64_value_def case_prod_beta)

lemma acquire_once_returns: "\<not> blocking \<or> late \<Longrightarrow> fst (acquire_once cl exec blocking late token l db) \<noteq> None"
  by (auto simp: acquire_once_def split: sum.split prod.split)

lemma acquire_loop_returns:
  "\<not> blocking \<or> deadline \<Longrightarrow>
   fst (acquire_loop cl exec blocking deadline token l (before @ [(others, True)]) db) \<noteq> None \<and>
   acquire_loop cl exec blocking deadline token l (before @ (others, True) # rest) db =
     acquire_loop cl exec blocking deadline token l (before @ [(others, True)]) db"
proof (induction before arbitrary: l db)
  case Nil
  then show ?case
    using acquire_once_returns [of blocking deadline cl exec token l "others db"]
    by (auto split: option.split prod.split)
next
  case (Cons a before)
  then show ?case by (cases a) (auto split: option.split prod.split)
qed

text \<open>(C36) The loop of \<open>acquire\<close> ends: on any server, with any outcome of its requests and whatever
  the other clients do.  A call that does not block, by its argument or the lock's setting, returns
  after one attempt, whatever the timeouts; a call that has a deadline, of its own or from the
  \<open>Lock\<close>, returns at the latest with the first attempt after which the clock has reached the
  deadline, and makes no further attempt.\<close>
theorem acquire_terminates:
  "((case blocking of Some b \<Rightarrow> b | None \<Rightarrow> lk_blocking l) \<or>
      (\<exists>r l' db'. acquire cl exec blocking blocking_timeout token fresh l (first # rest) db = (Some r, l', db') \<and>
         acquire cl exec blocking blocking_timeout token fresh l [first] db = (Some r, l', db'))) \<and>
    (blocking_timeout = None \<and> lk_blocking_timeout l = None \<or>
      (\<exists>r l' db'. acquire cl exec blocking blocking_timeout token fresh l (before @ (others, True) # rest) db =
          (Some r, l', db') \<and>
        acquire cl exec blocking blocking_timeout token fresh l (before @ [(others, True)]) db = (Some r, l', db')))"
proof -
  have once: "\<not> b \<Longrightarrow> acquire_loop cl exec b d t l (a # rest) db = acquire_loop cl exec b d t l [a] db \<and>
      fst (acquire_loop cl exec b d t l [a] db) \<noteq> None" for b d t a
    using acquire_once_returns [of b "d \<and> snd a" cl exec t l "fst a db"]
    by (cases a) (auto split: option.split prod.split)
  have single: "b \<or> (\<exists>r l' db'. acquire_loop cl exec b d t l (first # rest) db = (Some r, l', db') \<and>
      acquire_loop cl exec b d t l [first] db = (Some r, l', db'))" for b d t
    using once [of b d t first] by (metis option.exhaust prod.exhaust fst_conv)
  have late: "\<not> d \<or> (\<exists>r l' db'. acquire_loop cl exec b d t l (before @ (others, True) # rest) db = (Some r, l', db') \<and>
      acquire_loop cl exec b d t l (before @ [(others, True)]) db = (Some r, l', db'))" for b d t
    using acquire_loop_returns [of b d cl exec t l before others db rest] by (metis option.exhaust prod.exhaust fst_conv)
  show ?thesis
    unfolding acquire_def
    using single late [of "blocking_timeout \<noteq> None \<or> lk_blocking_timeout l \<noteq> None"]
    by (simp only: de_Morgan_disj not_not simp_thms)
qed

theorem acquire_terminates_witness:
  "\<exists>r l' db'. acquire sample_client sample_exec None (Some (f64_zero)) None ''t'' sample_lock
      ([(\<lambda>db. db, False), (\<lambda>db. db, False)] @ (\<lambda>db. db, True) # replicate 5 (\<lambda>db. db, True)) [''job'' \<mapsto> ''u''] =
      (Some r, l', db')"
  using acquire_terminates [where blocking = None and l = sample_lock and cl = sample_client and exec = sample_exec
      and blocking_timeout = "Some f64_zero" and token = None and fresh = "''t''"
      and before = "[(\<lambda>db. db, False), (\<lambda>db. db, False)]" and others = "\<lambda>db. db"
      and rest = "replicate 5 (\<lambda>db. db, True)" and db = "[''job'' \<mapsto> ''u'']"]
  by blast

section \<open>Departures\<close>

text \<open>Under \<open>decode_responses\<close> the value of the key is a \<open>str\<close>, which does not convert to
  \<open>Vec<u8>\<close>: \<open>locked\<close> (and \<open>owned\<close>, once there is a token) raises \<open>TypeError\<close> when the lock is
  held.\<close>

lemma locked_raises_when_decoding:
  assumes "exec (Cmd ''GET'' [AStr (lk_name l)]) db = (Inr v, db')"
    and "cl_opt_bytes cl v = Inr (Some b)" "\<not> cl_closed cl" "cl_decode cl = Some c" "c b = Inr s"
  shows "locked cl exec l db = (Inl (type_error ''cannot be converted to Vec''), db')"
  using assms
  by (simp add: locked_def lock_value_def on_server_def redis_get_def sync_call_def run_request_def
      maybe_decode_def reading_def conv_opt_bytes_def py_opt_bytes_def)

text \<open>\<open>__enter__\<close> drops the result of \<open>acquire\<close>: a \<open>with\<close> block is entered without the lock.\<close>

lemma enter_without_lock:
  "lock_enter sample_client sample_exec ''t'' (sample_lock\<lparr>lk_blocking := False\<rparr>) [(\<lambda>db. db, False)] [''job'' \<mapsto> ''u''] =
     (Some (Inr ()), sample_lock\<lparr>lk_blocking := False\<rparr>, [''job'' \<mapsto> ''u''])"
  using acquire_once_outcome [OF sample_runs sample_plain, where blocking = False and late = False and t = "''t''"
      and l = "sample_lock\<lparr>lk_blocking := False\<rparr>" and db = "[''job'' \<mapsto> ''u'']"]
  by (auto simp: lock_enter_def acquire_def sample_lock_def split: prod.splits option.splits)

text \<open>A timeout below a millisecond is no timeout at all: the lock never expires.  Extending by
  no more than a millisecond (or by a negative time) deletes the key and reports success.\<close>

lemma short_timeout_never_expires:
  "lock_px (sample_lock\<lparr>lk_timeout := Some (F64 0x3F40624DD2F1A9FB)\<rparr>) = None"
  by code_simp

lemma extend_by_nothing_releases:
  assumes "runs_lock_commands exec (cl_opt_bytes cl) lookup" "plain_client cl"
    and "millis s \<le>s 0" "lk_token l = Some t" "lookup db (lk_name l) = Some t"
  shows "case lock_extend cl exec s l db of (r, db') \<Rightarrow> r = Inr True \<and> lookup db' (lk_name l) = None"
  using extend_outcome [OF assms(1,2), where s = s and l = l and db = db] assms(3-)
  by (auto split: prod.splits)

text \<open>A negative \<open>sleep\<close> panics after the first failed attempt.\<close>

lemma negative_sleep_panics:
  "sleep_check (F64 0xBFF0000000000000) =
     Inl (PyErr PanicException ''cannot convert float seconds to Duration: value is negative'')"
  by (simp add: sleep_check_def from_secs_f64_def f64_value_def)

section \<open>Tokens\<close>

text \<open>Tokens of different processes, or from different calls of one process, differ.\<close>

lemma dash_not_digit: "CHR ''-'' \<notin> set (show_nat n)"
  using show_nat_digits [of "CHR ''-''" n] by (auto simp: digit_val_def)

lemma show_nat_inject: "show_nat m = show_nat n \<longleftrightarrow> m = n"
  by (metis option.inject parse_nat_show_nat)

lemma dash_split:
  "show_nat m @ CHR ''-'' # xs = show_nat n @ CHR ''-'' # ys \<longleftrightarrow> m = n \<and> xs = ys"
proof -
  have "split_once CHR ''-'' (show_nat k @ CHR ''-'' # zs) = Some (show_nat k, zs)" for k zs
    by (simp add: dash_not_digit)
  then show ?thesis by (metis option.inject prod.inject show_nat_inject)
qed

theorem tokens_differ:
  "fst (generate_token pid nanos n) = fst (generate_token pid' nanos' n') \<longleftrightarrow>
     pid = pid' \<and> nanos = nanos' \<and> n = n'"
  by (auto simp: generate_token_def dash_split show_nat_inject word_unat_eq_iff)

end
