(* ===== verification/Connections.thy ===== *)
theory Connections
  imports SentinelClient PubSubObject Pipeline Lock
begin

text \<open>
  The other connections of a client (\<open>connection.rs\<close>), and what a client hands out
  (\<open>facade/sync.rs\<close>, \<open>facade/asyncio_mod.rs\<close>): the second connection for the commands that
  block, opened when the first of them is called; the clients of pipelines and of pubsub; and
  the methods \<open>pipeline\<close>, \<open>pubsub\<close>, \<open>transaction\<close> and \<open>lock\<close>.
\<close>

section \<open>The connection for blocking commands\<close>

text \<open>\<open>ValkeyConnInner\<close>: a connection manager, a cluster connection, or one to a sentinel's
  target.\<close>

datatype 'conn any_conn = OnManager 'conn | OnClusterConn 'conn | OnTarget sentinel_conn

definition build_blocking ::
  "bridge_env \<Rightarrow> ('client, 'conn) redis_crate \<Rightarrow> sentinel_world \<Rightarrow> conn_config \<Rightarrow> tls_opts option \<Rightarrow>
   redis_error + 'conn any_conn" where
  "build_blocking env crate sw cfg tls =
     (case cfg of
        ConfStandard url \<Rightarrow>
          rbind (create_client crate url tls) (\<lambda>client.
          rbind (rc_start crate client blocking_conn_manager_config) (\<lambda>mgr. Inr (OnManager mgr)))
      | ConfCluster urls \<Rightarrow>
          rbind (rc_cluster crate urls (map_option to_tls_certs tls)) (\<lambda>client.
          rbind (rc_cluster_start crate client) (\<lambda>conn. Inr (OnClusterConn conn)))
      | ConfSentinel urls service db slave \<Rightarrow>
          map_sum id OnTarget (create_sentinel_inner env sw urls service db True slave (tls \<noteq> None)))"

text \<open>The cell that all clones of a connection share, with the connections opened for it and what
  was sent on them.\<close>

record 'c blocking_sys =
  bk_cell :: "'c option"
  bk_opened :: "'c list"
  bk_sent :: "('c \<times> redis_cmd) list"

definition no_blocking :: "'c blocking_sys" where
  "no_blocking = \<lparr>bk_cell = None, bk_opened = [], bk_sent = []\<rparr>"

definition blocking_initialised :: "'c blocking_sys \<Rightarrow> bool" where
  "blocking_initialised s \<longleftrightarrow> bk_cell s \<noteq> None"

text \<open>A blocking command; \<open>build\<close> is what opening a connection would give now.\<close>

definition blocking_call ::
  "redis_error + 'c \<Rightarrow> ('c \<Rightarrow> redis_cmd \<Rightarrow> redis_error + 'v) \<Rightarrow> redis_cmd \<Rightarrow> 'c blocking_sys \<Rightarrow>
   (redis_error + 'v) \<times> 'c blocking_sys" where
  "blocking_call build send cmd s =
     (case get_blocking build (bk_cell s) of
        (Inl e, cell) \<Rightarrow> (Inl e, s\<lparr>bk_cell := cell\<rparr>)
      | (Inr c, cell) \<Rightarrow>
          (send c cmd,
           s\<lparr>bk_cell := cell, bk_opened := bk_opened s @ (if bk_cell s = None then [c] else []),
             bk_sent := bk_sent s @ [(c, cmd)]\<rparr>))"

definition conn_blpop where
  "conn_blpop build send keys timeout = blocking_call build send (blpop keys timeout)"

definition conn_brpop where
  "conn_brpop build send keys timeout = blocking_call build send (brpop keys timeout)"

definition conn_blmove where
  "conn_blmove build send src dst wherefrom whereto timeout =
     blocking_call build send (blmove src dst wherefrom whereto timeout)"

definition conn_blmpop where
  "conn_blmpop build send timeout keys direction count =
     blocking_call build send (blmpop timeout keys direction count)"

text \<open>A run of blocking commands, each with what opening a connection would give and what the
  server answers.\<close>

type_synonym ('c, 'v) blocking_step = "(redis_error + 'c) \<times> ('c \<Rightarrow> redis_cmd \<Rightarrow> redis_error + 'v) \<times> redis_cmd"

definition blocking_run ::
  "('c, 'v) blocking_step list \<Rightarrow> 'c blocking_sys \<Rightarrow> (redis_error + 'v) list \<times> 'c blocking_sys" where
  "blocking_run = run_ops (\<lambda>(build, send, cmd). blocking_call build send cmd)"

lemma blocking_run_initialised:
  "bk_cell s = Some c \<Longrightarrow>
   blocking_run steps s =
     (map (\<lambda>(build, send, cmd). send c cmd) steps,
      s\<lparr>bk_sent := bk_sent s @ map (\<lambda>(build, send, cmd). (c, cmd)) steps\<rparr>)"
proof (induction steps arbitrary: s)
  case (Cons st steps)
  obtain build send cmd where st: "st = (build, send, cmd)" by (cases st)
  have same: "s\<lparr>bk_cell := Some c\<rparr> = s" using Cons.prems by (cases s) simp
  from Cons.IH [of "s\<lparr>bk_sent := bk_sent s @ [(c, cmd)]\<rparr>"] Cons.prems show ?case
    by (simp add: blocking_run_def st blocking_call_def get_blocking_def same)
qed (simp add: blocking_run_def)

text \<open>The second connection is opened once, by the first blocking command for which that
  succeeds; until then every blocking command tries anew and reports the failure, without sending
  anything, and from then on all of them use that connection, whatever opening another would
  give.\<close>
theorem blocking_connection_once:
  assumes "list_all (\<lambda>(build, send, cmd). \<exists>e. build = Inl e) before"
  shows "blocking_run (before @ (Inr c, send, cmd) # after) no_blocking =
      (map (\<lambda>(build, send, cmd). case build of Inl e \<Rightarrow> Inl e) before @
         send c cmd # map (\<lambda>(build, send, cmd). send c cmd) after,
       \<lparr>bk_cell = Some c, bk_opened = [c], bk_sent = (c, cmd) # map (\<lambda>(build, send, cmd). (c, cmd)) after\<rparr>)"
    and "blocking_run before no_blocking =
      (map (\<lambda>(build, send, cmd). case build of Inl e \<Rightarrow> Inl e) before, no_blocking)"
proof -
  have first: "blocking_run ((Inr c, send, cmd) # after) no_blocking =
      (send c cmd # map (\<lambda>(build, send, cmd). send c cmd) after,
       \<lparr>bk_cell = Some c, bk_opened = [c], bk_sent = (c, cmd) # map (\<lambda>(build, send, cmd). (c, cmd)) after\<rparr>)"
    using blocking_run_initialised [of "\<lparr>bk_cell = Some c, bk_opened = [c], bk_sent = [(c, cmd)]\<rparr>" c after]
    by (simp add: blocking_run_def blocking_call_def get_blocking_def no_blocking_def)
  have failed: "blocking_run (before @ more) no_blocking =
      (map (\<lambda>(build, send, cmd). case build of Inl e \<Rightarrow> Inl e) before @ fst (blocking_run more no_blocking),
       snd (blocking_run more no_blocking))" for more
    using assms
  proof (induction before)
    case (Cons st before)
    then show ?case
      by (auto simp: blocking_run_def blocking_call_def get_blocking_def no_blocking_def split: prod.splits)
  qed simp
  show "blocking_run (before @ (Inr c, send, cmd) # after) no_blocking =
      (map (\<lambda>(build, send, cmd). case build of Inl e \<Rightarrow> Inl e) before @
         send c cmd # map (\<lambda>(build, send, cmd). send c cmd) after,
       \<lparr>bk_cell = Some c, bk_opened = [c], bk_sent = (c, cmd) # map (\<lambda>(build, send, cmd). (c, cmd)) after\<rparr>)"
    by (simp add: failed first)
  show "blocking_run before no_blocking =
      (map (\<lambda>(build, send, cmd). case build of Inl e \<Rightarrow> Inl e) before, no_blocking)"
    using failed [of "[]"] by (simp add: blocking_run_def)
qed

text \<open>On a standalone server it has no response time-out and no cache; a cluster's is like the
  first one, with the response time-out of the crate.\<close>

lemma blocking_standalone:
  "build_blocking env crate sw (ConfStandard url) tls =
   rbind (create_client crate url tls) (\<lambda>client.
     map_sum id OnManager (rc_start crate client \<lparr>mc_buffer = 1000, mc_timeout = None, mc_cache = None\<rparr>))"
  by (auto simp: build_blocking_def blocking_conn_manager_config_def rbind_def split: sum.split)

section \<open>What kind of connection, and its cache\<close>

definition conn_topology :: "'conn any_conn \<Rightarrow> topology" where
  "conn_topology c = (case c of OnManager _ \<Rightarrow> OnStandard | OnClusterConn _ \<Rightarrow> OnCluster | OnTarget _ \<Rightarrow> OnSentinel)"

definition conn_is_cluster :: "'conn any_conn \<Rightarrow> bool" where
  "conn_is_cluster c \<longleftrightarrow> (case c of OnClusterConn _ \<Rightarrow> True | _ \<Rightarrow> False)"

definition conn_is_sentinel :: "'conn any_conn \<Rightarrow> bool" where
  "conn_is_sentinel c \<longleftrightarrow> (case c of OnTarget _ \<Rightarrow> True | _ \<Rightarrow> False)"

text \<open>\<open>stats\<close> is the crate's counter of a manager, \<open>stats_target\<close> that of the manager behind a
  sentinel connection; \<open>busy\<close> is a rediscovery in progress.\<close>

definition conn_cache_statistics ::
  "('conn \<Rightarrow> (nat \<times> nat \<times> nat) option) \<Rightarrow> (sentinel_conn \<Rightarrow> (nat \<times> nat \<times> nat) option) \<Rightarrow> bool \<Rightarrow> 'conn any_conn \<Rightarrow>
   (nat \<times> nat \<times> nat) option" where
  "conn_cache_statistics stats stats_target busy c =
     (case c of
        OnManager m \<Rightarrow> stats m
      | OnClusterConn _ \<Rightarrow> None
      | OnTarget t \<Rightarrow> if busy then None else stats_target t)"

section \<open>What a client hands out\<close>

text \<open>A client as far as these methods read it.\<close>

record 'conn client_view =
  cv_conn :: "'conn any_conn"
  cv_config :: conn_config
  cv_tls :: "tls_opts option"
  cv_closed :: bool

definition redis_cache_statistics ::
  "('conn \<Rightarrow> (nat \<times> nat \<times> nat) option) \<Rightarrow> (sentinel_conn \<Rightarrow> (nat \<times> nat \<times> nat) option) \<Rightarrow> bool \<Rightarrow>
   'conn client_view \<Rightarrow> (nat \<times> nat \<times> nat) option" where
  "redis_cache_statistics stats stats_target busy cv = conn_cache_statistics stats stats_target busy (cv_conn cv)"

definition async_redis_cache_statistics ::
  "('conn \<Rightarrow> (nat \<times> nat \<times> nat) option) \<Rightarrow> (sentinel_conn \<Rightarrow> (nat \<times> nat \<times> nat) option) \<Rightarrow> bool \<Rightarrow>
   'conn client_view \<Rightarrow> (nat \<times> nat \<times> nat) option" where
  "async_redis_cache_statistics stats stats_target busy cv =
     conn_cache_statistics stats stats_target busy (cv_conn cv)"

definition redis_pipeline :: "'conn client_view \<Rightarrow> bool \<Rightarrow> pipe_sys" where
  "redis_pipeline cv tx = pipeline_new (conn_topology (cv_conn cv)) tx"

definition async_redis_pipeline :: "'conn client_view \<Rightarrow> bool \<Rightarrow> pipe_sys" where
  "async_redis_pipeline cv tx = pipeline_new (conn_topology (cv_conn cv)) tx"

definition build_client_for_pubsub ::
  "('client, 'conn) redis_crate \<Rightarrow> conn_config \<Rightarrow> tls_opts option \<Rightarrow> bytes + 'client" where
  "build_client_for_pubsub crate cfg tls = map_sum re_display id (create_client crate (dedicated_url cfg) tls)"

text \<open>\<open>f64::max\<close> with 0.1: NaN gives 0.1.\<close>

definition a_tenth :: f64 where "a_tenth = F64 0x3FB999999999999A"

definition at_least_a_tenth :: "f64 \<Rightarrow> f64" where
  "at_least_a_tenth s =
     (if f64_is_nan s then a_tenth
      else
        (case f64_value s of
           Some q \<Rightarrow> if q < the (f64_value a_tenth) then a_tenth else s
         | None \<Rightarrow> if uint (f64_bits s) \<ge> 2 ^ 63 then a_tenth else s))"

text \<open>\<open>subscriber\<close> is the outcome of \<open>get_async_pubsub\<close>.\<close>

definition redis_pubsub ::
  "('client, 'conn) redis_crate \<Rightarrow> ('client \<Rightarrow> redis_error option) \<Rightarrow> bool \<Rightarrow> f64 \<Rightarrow> 'conn client_view \<Rightarrow>
   pubsub_obj pyres" where
  "redis_pubsub crate subscriber ignore health_check_interval cv =
     rbind (from_secs_f64 (at_least_a_tenth health_check_interval)) (\<lambda>_.
       (case build_client_for_pubsub crate (cv_config cv) (cv_tls cv) of
          Inl e \<Rightarrow> Inl (PyErr PyConnectionError e)
        | Inr client \<Rightarrow>
            (case subscriber client of
               Some e \<Rightarrow> Inl (PyErr PubSubError (''get_async_pubsub failed: '' @ re_display e))
             | None \<Rightarrow> Inr (po_new\<lparr>po_ignore := ignore\<rparr>))))"

definition async_redis_pubsub ::
  "('client, 'conn) redis_crate \<Rightarrow> ('client \<Rightarrow> redis_error option) \<Rightarrow> bool \<Rightarrow> f64 \<Rightarrow> 'conn client_view \<Rightarrow>
   pubsub_obj pyres" where
  "async_redis_pubsub = redis_pubsub"

text \<open>\<open>transaction\<close> and \<open>atransaction\<close>; \<open>None\<close> stands for a loop that goes on.\<close>

definition watch_names :: "pyval list \<Rightarrow> bytes list pyres" where
  "watch_names watches = collect_res extract_string watches"

definition redis_transaction ::
  "bridge_env \<Rightarrow> 'conn client_view \<Rightarrow> pyval list \<Rightarrow> bool \<Rightarrow> f64 option \<Rightarrow> attempt list \<Rightarrow> pyval pyres option" where
  "redis_transaction env cv watches value_from_callable delay attempts =
     (case watch_names watches of
        Inl e \<Rightarrow> Some (Inl e)
      | Inr keys \<Rightarrow> transaction_helper env (conn_topology (cv_conn cv)) keys value_from_callable delay attempts)"

definition async_redis_transaction ::
  "bridge_env \<Rightarrow> 'conn client_view \<Rightarrow> pyval list \<Rightarrow> bool \<Rightarrow> f64 option \<Rightarrow> attempt list \<Rightarrow> pyval pyres option" where
  "async_redis_transaction env cv watches value_from_callable delay attempts =
     (case watch_names watches of
        Inl e \<Rightarrow> Some (Inl e)
      | Inr keys \<Rightarrow> atransaction_helper env (conn_topology (cv_conn cv)) keys value_from_callable delay attempts)"

definition redis_lock :: "bytes \<Rightarrow> f64 option \<Rightarrow> f64 \<Rightarrow> bool \<Rightarrow> f64 option \<Rightarrow> lock" where
  "redis_lock name timeout sleep blocking blocking_timeout =
     \<lparr>lk_name = name, lk_timeout = timeout, lk_sleep = sleep, lk_blocking = blocking,
      lk_blocking_timeout = blocking_timeout, lk_token = None\<rparr>"

text \<open>None of these ask whether the client is closed: on a closed client, a pipeline runs.\<close>

lemma closed_client_pipeline_runs:
  "net_pipe net = Inr vs \<Longrightarrow>
   fst (execute env net (snd (buf_or_dispatch env net c (redis_pipeline (cv\<lparr>cv_closed := True\<rparr>) False)))) =
     into_py env (RValue (VArray vs))"
  by (simp add: redis_pipeline_def pl_defs pipeline_new_def)

lemma closed_client_hands_out:
  "redis_pubsub crate subscriber ignore h (cv\<lparr>cv_closed := c\<rparr>) = redis_pubsub crate subscriber ignore h cv"
  "redis_transaction env (cv\<lparr>cv_closed := c\<rparr>) watches vfc delay attempts = redis_transaction env cv watches vfc delay attempts"
  by (simp_all add: redis_pubsub_def redis_transaction_def split: sum.split)

text \<open>The pubsub object a client hands out: fresh and open, and on the server the client itself
  talks to when that is a standalone one.\<close>
theorem pubsub_on_own_server:
  assumes "redis_pubsub crate subscriber ignore h cv = Inr po"
  shows "po_open po \<and> po_ignore po = ignore \<and> ps_alive (po_sys po) \<and> \<not> po_subscribed po \<and>
    run_in_thread_check po = None \<and>
    (\<exists>client. create_client crate (dedicated_url (cv_config cv)) (cv_tls cv) = Inr client \<and> subscriber client = None)"
  using assms
  by (cases "create_client crate (dedicated_url (cv_config cv)) (cv_tls cv)")
    (auto simp: redis_pubsub_def rbind_def build_client_for_pubsub_def po_new_def ps_spawn_def no_subscriptions_def
      po_subscribed_def run_in_thread_ok split: sum.splits option.splits)

text \<open>A health check interval of infinity panics.\<close>

lemma infinite_interval_panics:
  "redis_pubsub crate subscriber ignore (F64 0x7FF0000000000000) cv =
   Inl (PyErr PanicException ''cannot convert float seconds to Duration: value is either too big or NaN'')"
  by (simp add: redis_pubsub_def at_least_a_tenth_def from_secs_f64_def f64_value_def f64_is_nan_def)

end
