(* ===== verification/ClusterClient.thy ===== *)
theory ClusterClient
  imports Admin Facade Cluster Lists Hashes
begin

text \<open>
  The cluster clients \<open>RedisCluster\<close> and \<open>AsyncRedisCluster\<close> (\<open>facade/cluster.rs\<close>): their
  construction, their single-key commands, the multi-key commands that fan out over the slots
  (theory Cluster) and the CLUSTER commands.

  A method asks first whether the client is closed.  The blocking methods decode only some of
  their replies; the conversion frames are those of the theory Calls, with \<open>None\<close> for the codec
  where the code does not decode.
\<close>

section \<open>Construction\<close>

definition CLUSTER_KWARGS_ACCEPT :: "bytes list" where
  "CLUSTER_KWARGS_ACCEPT =
     [''host'', ''port'', ''startup_nodes'', ''url'', ''username'', ''password'', ''db'', ''decode_responses'',
      ''encoding'', ''encoding_errors'', ''ssl'', ''ssl_ca_certs'', ''ssl_certfile'', ''ssl_keyfile'',
      ''ssl_cert_reqs'', ''ssl_check_hostname'', ''socket_timeout'', ''socket_connect_timeout'',
      ''socket_keepalive'', ''socket_keepalive_options'', ''max_connections_per_node'', ''client_name'',
      ''cluster_error_retry_attempts'', ''connection_error_retry_attempts'', ''read_from_replicas'',
      ''dynamic_startup_nodes'', ''require_full_coverage'', ''reinitialize_steps'',
      ''load_balancing_strategy'', ''address_remap'', ''cache_max_size'', ''cache_ttl_secs'', ''retry'',
      ''cache'', ''cache_config'', ''event_dispatcher'']"

text \<open>The arguments of the constructor that it uses, as PyO3 hands them over; an item of
  \<open>startup_nodes\<close> that is no \<open>ClusterNode\<close> is the error its extraction raises.\<close>

record cluster_args =
  ca_host :: "bytes option"
  ca_port :: u16
  ca_startup_nodes :: "(bytes \<times> u16) pyres list option"
  ca_url :: "bytes option"
  ca_root_cert :: "bytes option"
  ca_certfile :: "bytes option"
  ca_keyfile :: "bytes option"
  ca_username :: "bytes option"
  ca_password :: "bytes option"
  ca_cache_max_size :: "u64 option"
  ca_cache_ttl_secs :: "u64 option"
  ca_decode :: "(bytes \<times> bytes) option"
  ca_extra :: "(pyval \<times> pyval) list option"

definition cache_warning :: py_warning where
  "cache_warning =
     (PyUserWarning, ''redis-rs-py: client-side caching is not supported on cluster connections '' @
        ''(redis-rs cluster_async has no CacheConfig hook). cache_max_size / cache_ttl_secs are ignored.'')"

text \<open>The flag \<open>CACHE_ON_CLUSTER_WARNED\<close> is set before the warning is issued.\<close>

definition warn_cache_on_cluster ::
  "(pyexc \<Rightarrow> bytes \<Rightarrow> unit pyres) \<Rightarrow> bool \<Rightarrow> unit pyres \<times> bool \<times> py_warning list" where
  "warn_cache_on_cluster warn warned =
     (if warned then (Inr (), warned, [])
      else (warn (fst cache_warning) (snd cache_warning), True, [cache_warning]))"

definition startup_urls :: "cluster_args \<Rightarrow> bytes list pyres" where
  "startup_urls a =
     rbind (if ca_url a \<noteq> None then Inr None
            else case ca_startup_nodes a of
                   None \<Rightarrow> Inr None
                 | Some nodes \<Rightarrow> map_sum id Some (collect_res (\<lambda>n. n) nodes)) (\<lambda>nodes.
       case resolve_startup_urls (ca_host a) (ca_port a) nodes (ca_url a) of
         Some urls \<Rightarrow> Inr urls
       | None \<Rightarrow> Inl (data_error ''RedisCluster requires one of: host=, url=, or startup_nodes=[ClusterNode(...)]''))"

definition cluster_tls :: "cluster_args \<Rightarrow> tls_opts option" where
  "cluster_tls a =
     (if ca_root_cert a \<noteq> None \<or> ca_certfile a \<noteq> None \<or> ca_keyfile a \<noteq> None then
        Some \<lparr>root_cert = ca_root_cert a, client_cert = ca_certfile a, client_key = ca_keyfile a\<rparr>
      else None)"

definition cluster_connection ::
  "('client, 'conn) host_env \<Rightarrow> cluster_args \<Rightarrow> ('conn valkey_conn \<times> bytes) pyres" where
  "cluster_connection h a =
     rbind (startup_urls a) (\<lambda>urls.
       (let urls = (if ca_username a \<noteq> None \<or> ca_password a \<noteq> None
                    then map (\<lambda>u. inject_userinfo u (ca_username a) (ca_password a)) urls else urls);
            primary_url = (case urls of [] \<Rightarrow> [] | u # _ \<Rightarrow> u)
        in case connect_cluster (he_crate h) urls (cluster_tls a) of
             Inr c \<Rightarrow> Inr (c, primary_url)
           | Inl e \<Rightarrow> Inl (to_py_err (pe_lookup_ok (he_bridge h))
                            (made_error (he_bridge h) EkIo ''connect_cluster'' (Some e)))))"

definition build_cluster_conn ::
  "('client, 'conn) host_env \<Rightarrow> cluster_args \<Rightarrow> bool \<times> warn_state \<Rightarrow>
   ('conn valkey_conn \<times> bytes) pyres \<times> (bool \<times> warn_state) \<times> py_warning list" where
  "build_cluster_conn h a st =
     (let (warned, seen) = st;
          (r, warned, ws) = (if ca_cache_max_size a \<noteq> None \<or> ca_cache_ttl_secs a \<noteq> None
                             then warn_cache_on_cluster (he_warn h) warned else (Inr (), warned, []))
      in case r of
           Inl e \<Rightarrow> (Inl e, (warned, seen), ws)
         | Inr _ \<Rightarrow>
             (case accept_and_warn (he_warn h) CLUSTER_KWARGS_ACCEPT (ca_extra a) seen of
                (Inl e, seen, ws') \<Rightarrow> (Inl e, (warned, seen), ws @ ws')
              | (Inr _, seen, ws') \<Rightarrow> (cluster_connection h a, (warned, seen), ws @ ws')))"

text \<open>Both constructors; the blocking and the awaitable client have the fields of a
  \<open>redis_object\<close>.\<close>

definition cluster_new ::
  "('client, 'conn) host_env \<Rightarrow> cluster_args \<Rightarrow> bool \<times> warn_state \<Rightarrow>
   'conn redis_object pyres \<times> (bool \<times> warn_state) \<times> py_warning list" where
  "cluster_new h a st =
     (let (r, st, ws) = build_cluster_conn h a st in
      (rbind r (\<lambda>(conn, primary_url).
         Inr \<lparr>ro_connection = conn, ro_url = primary_url, ro_closed = False, ro_decode = ca_decode a\<rparr>), st, ws))"

definition acluster_new ::
  "('client, 'conn) host_env \<Rightarrow> cluster_args \<Rightarrow> bool \<times> warn_state \<Rightarrow>
   'conn redis_object pyres \<times> (bool \<times> warn_state) \<times> py_warning list" where
  "acluster_new = cluster_new"

text \<open>The keyword arguments \<open>from_url\<close> calls the class with.\<close>

definition cluster_from_url_kwargs :: "bytes \<Rightarrow> (pyval \<times> pyval) list option \<Rightarrow> (pyval \<times> pyval) list" where
  "cluster_from_url_kwargs url kwargs =
     fold (\<lambda>(k, v). dict_upd k v) (case kwargs of None \<Rightarrow> [] | Some d \<Rightarrow> d) [(PStr ''url'', PStr url)]"

definition acluster_from_url_kwargs :: "bytes \<Rightarrow> (pyval \<times> pyval) list option \<Rightarrow> (pyval \<times> pyval) list" where
  "acluster_from_url_kwargs url kwargs =
     fold (\<lambda>(k, v). dict_upd k v) (case kwargs of None \<Rightarrow> [] | Some d \<Rightarrow> d) [(PStr ''url'', PStr url)]"

definition cluster_enter :: "'conn redis_object \<Rightarrow> 'conn redis_object pyres \<times> 'conn redis_object" where
  "cluster_enter c = (Inr c, c)"

definition acluster_aenter :: "'conn redis_object \<Rightarrow> 'conn redis_object pyres \<times> 'conn redis_object" where
  "acluster_aenter c = (Inr c, c)"

definition cluster_connection_url :: "'conn redis_object \<Rightarrow> bytes" where
  "cluster_connection_url c = ro_url c"

definition cluster_close :: "'conn redis_object \<Rightarrow> unit pyres \<times> 'conn redis_object" where
  "cluster_close c = (Inr (), c\<lparr>ro_closed := True\<rparr>)"

definition cluster_exit :: "'conn redis_object \<Rightarrow> bool pyres \<times> 'conn redis_object" where
  "cluster_exit c = (let (r, c) = cluster_close c in (rbind r (\<lambda>_. Inr False), c))"

text \<open>\<open>aclose\<close> and \<open>__aexit__\<close> hand out a future that is resolved with \<open>None\<close>.\<close>

definition acluster_aclose :: "'conn redis_object \<Rightarrow> pyval pyres \<times> 'conn redis_object" where
  "acluster_aclose c = (Inr PNone, c\<lparr>ro_closed := True\<rparr>)"

definition acluster_aexit :: "'conn redis_object \<Rightarrow> pyval pyres \<times> 'conn redis_object" where
  "acluster_aexit c = (Inr PNone, c\<lparr>ro_closed := True\<rparr>)"

section \<open>Nodes and publish/subscribe\<close>

record cluster_node =
  cn_host :: bytes
  cn_port :: u16

definition cluster_node_new :: "bytes \<Rightarrow> u16 \<Rightarrow> bytes option \<Rightarrow> pyval option \<Rightarrow> cluster_node" where
  "cluster_node_new host port server_type redis_connection = \<lparr>cn_host = host, cn_port = port\<rparr>"

text \<open>\<open>debug_str\<close> is the \<open>Debug\<close> rendering of a string.\<close>

definition cluster_node_repr :: "(bytes \<Rightarrow> bytes) \<Rightarrow> cluster_node \<Rightarrow> bytes" where
  "cluster_node_repr debug_str n =
     ''ClusterNode(host='' @ debug_str (cn_host n) @ '', port='' @ show_nat (unat (cn_port n)) @ '')''"

definition cluster_node_eq :: "cluster_node \<Rightarrow> cluster_node \<Rightarrow> bool" where
  "cluster_node_eq a b \<longleftrightarrow> cn_host a = cn_host b \<and> cn_port a = cn_port b"

text \<open>\<open>DefaultHasher\<close> fed with the two fields.\<close>

definition cluster_node_hash :: "(bytes \<Rightarrow> u16 \<Rightarrow> u64) \<Rightarrow> cluster_node \<Rightarrow> u64" where
  "cluster_node_hash hasher n = hasher (cn_host n) (cn_port n)"

text \<open>A \<open>ClusterPubSub\<close> is its URLs, which nothing reads.\<close>

definition cluster_pubsub_new :: "bytes list \<Rightarrow> bytes list" where
  "cluster_pubsub_new master_urls = master_urls"

definition cluster_pubsub :: "'conn redis_object \<Rightarrow> bytes list pyres" where
  "cluster_pubsub c = Inr (cluster_pubsub_new [ro_url c])"

definition cluster_pubsub_close :: "bytes list \<Rightarrow> unit pyres" where
  "cluster_pubsub_close urls = Inr ()"

definition cluster_pubsub_stub :: "bytes \<Rightarrow> pyval pyres" where
  "cluster_pubsub_stub name =
     Inl (PyErr PyNotImplementedError (''ClusterPubSub.'' @ name @ '': cluster pub/sub support is deferred.''))"

section \<open>Fan-out methods\<close>

text \<open>The frames of a method whose request changes the servers: \<open>run\<close> is the fan-out.\<close>

definition sync_fanout ::
  "bridge_env \<Rightarrow> bool \<Rightarrow> 'k pyres \<Rightarrow> ('k \<Rightarrow> 'db \<Rightarrow> (redis_error + 'r) \<times> 'db) \<Rightarrow> ('r \<Rightarrow> pyval pyres) \<Rightarrow> 'db \<Rightarrow>
   pyval pyres \<times> 'db" where
  "sync_fanout env is_closed args run conv db =
     (if is_closed then (Inl closed_error, db)
      else case args of
             Inl e \<Rightarrow> (Inl e, db)
           | Inr k \<Rightarrow>
               (let (r, db) = run k db in
                (case r of Inl e \<Rightarrow> Inl (to_py_err (pe_lookup_ok env) e) | Inr v \<Rightarrow> conv v, db)))"

definition async_fanout ::
  "bool \<Rightarrow> 'k pyres \<Rightarrow> ('k \<Rightarrow> 'db \<Rightarrow> (redis_error + 'r) \<times> 'db) \<Rightarrow> ('r \<Rightarrow> raw_result) \<Rightarrow> 'db \<Rightarrow>
   raw_result pyres \<times> 'db" where
  "async_fanout is_closed args run raw db =
     (if is_closed then (Inl closed_error, db)
      else case args of
             Inl e \<Rightarrow> (Inl e, db)
           | Inr k \<Rightarrow> (let (r, db) = run k db in (Inr (raw_with raw r), db)))"

text \<open>The entries of the mapping of MSET.\<close>

definition mset_pair :: "pyval \<times> pyval \<Rightarrow> (bytes \<times> bytes) pyres" where
  "mset_pair p = rbind (extract_string (fst p)) (\<lambda>k. rbind (extract_bytes (snd p)) (\<lambda>v. Inr (k, v)))"

definition rcluster_mget ::
  "bridge_env \<Rightarrow> bool \<Rightarrow> ('db, bytes option list) server \<Rightarrow> u16 list \<Rightarrow> u16 list \<Rightarrow> bytes list \<Rightarrow> 'db \<Rightarrow> pyval pyres \<times> 'db" where
  "rcluster_mget env is_closed dispatch exec joined keys =
     sync_fanout env is_closed (Inr keys) (fanout_mget dispatch exec joined) conv_opt_bytes_list"

definition rcluster_mset ::
  "bridge_env \<Rightarrow> bool \<Rightarrow> ('db, unit) server \<Rightarrow> u16 list \<Rightarrow> u16 list \<Rightarrow> (pyval \<times> pyval) list \<Rightarrow> 'db \<Rightarrow> pyval pyres \<times> 'db" where
  "rcluster_mset env is_closed dispatch exec joined mapping =
     sync_fanout env is_closed (collect_res mset_pair mapping) (fanout_mset dispatch exec joined) conv_unit"

definition rcluster_delete ::
  "bridge_env \<Rightarrow> bool \<Rightarrow> ('db, i64) server \<Rightarrow> u16 list \<Rightarrow> u16 list \<Rightarrow> bytes list \<Rightarrow> 'db \<Rightarrow> pyval pyres \<times> 'db" where
  "rcluster_delete env is_closed dispatch exec joined keys =
     sync_fanout env is_closed (Inr keys) (\<lambda>keys. fanout_del dispatch exec joined keys False) py_int"

definition rcluster_unlink ::
  "bridge_env \<Rightarrow> bool \<Rightarrow> ('db, i64) server \<Rightarrow> u16 list \<Rightarrow> u16 list \<Rightarrow> bytes list \<Rightarrow> 'db \<Rightarrow> pyval pyres \<times> 'db" where
  "rcluster_unlink env is_closed dispatch exec joined keys =
     sync_fanout env is_closed (Inr keys) (\<lambda>keys. fanout_del dispatch exec joined keys True) py_int"

definition rcluster_exists ::
  "bridge_env \<Rightarrow> bool \<Rightarrow> ('db, i64) server \<Rightarrow> u16 list \<Rightarrow> u16 list \<Rightarrow> bytes list \<Rightarrow> 'db \<Rightarrow> pyval pyres \<times> 'db" where
  "rcluster_exists env is_closed dispatch exec joined keys =
     sync_fanout env is_closed (Inr keys) (fanout_exists dispatch exec joined) py_int"

definition acluster_mget ::
  "bool \<Rightarrow> ('db, bytes option list) server \<Rightarrow> u16 list \<Rightarrow> u16 list \<Rightarrow> bytes list \<Rightarrow> 'db \<Rightarrow> raw_result pyres \<times> 'db" where
  "acluster_mget is_closed dispatch exec joined keys =
     async_fanout is_closed (Inr keys) (fanout_mget dispatch exec joined) ROptBytesList"

definition acluster_mset ::
  "bool \<Rightarrow> ('db, unit) server \<Rightarrow> u16 list \<Rightarrow> u16 list \<Rightarrow> (pyval \<times> pyval) list \<Rightarrow> 'db \<Rightarrow> raw_result pyres \<times> 'db" where
  "acluster_mset is_closed dispatch exec joined mapping =
     async_fanout is_closed (collect_res mset_pair mapping) (fanout_mset dispatch exec joined) (\<lambda>_. RNil)"

definition acluster_delete ::
  "bool \<Rightarrow> ('db, i64) server \<Rightarrow> u16 list \<Rightarrow> u16 list \<Rightarrow> bytes list \<Rightarrow> 'db \<Rightarrow> raw_result pyres \<times> 'db" where
  "acluster_delete is_closed dispatch exec joined keys =
     async_fanout is_closed (Inr keys) (\<lambda>keys. fanout_del dispatch exec joined keys False) RInt"

definition acluster_exists ::
  "bool \<Rightarrow> ('db, i64) server \<Rightarrow> u16 list \<Rightarrow> u16 list \<Rightarrow> bytes list \<Rightarrow> 'db \<Rightarrow> raw_result pyres \<times> 'db" where
  "acluster_exists is_closed dispatch exec joined keys =
     async_fanout is_closed (Inr keys) (fanout_exists dispatch exec joined) RInt"

section \<open>Single-key methods\<close>

definition rcluster_ping ::
  "bridge_env \<Rightarrow> codec option \<Rightarrow> bool \<Rightarrow> (redis_cmd \<Rightarrow> redis_error + bytes) \<Rightarrow> pyval pyres \<times> redis_cmd list" where
  "rcluster_ping env decode is_closed server =
     sync_call env None is_closed (Inr ()) server id
       (\<lambda>_. Dispatch (Cmd ''PING'' [])) (\<lambda>s. py_bool (s = ''PONG''))"

definition acluster_ping ::
  "bool \<Rightarrow> (redis_cmd \<Rightarrow> redis_error + bytes) \<Rightarrow> raw_result pyres \<times> redis_cmd list" where
  "acluster_ping is_closed server =
     async_call is_closed (Inr ()) server id
       (\<lambda>_. Dispatch (Cmd ''PING'' [])) (raw_of (\<lambda>s. TBool (s = ''PONG'')))"

definition rcluster_get ::
  "bridge_env \<Rightarrow> codec option \<Rightarrow> bool \<Rightarrow> (redis_cmd \<Rightarrow> redis_error + bytes option) \<Rightarrow> bytes \<Rightarrow> pyval pyres \<times> redis_cmd list" where
  "rcluster_get env decode is_closed server key =
     sync_call env decode is_closed (Inr ()) server id
       (\<lambda>_. Dispatch (Cmd ''GET'' [AStr key])) conv_opt_bytes"

definition acluster_get ::
  "bool \<Rightarrow> (redis_cmd \<Rightarrow> redis_error + bytes option) \<Rightarrow> bytes \<Rightarrow> raw_result pyres \<times> redis_cmd list" where
  "acluster_get is_closed server key =
     async_call is_closed (Inr ()) server id
       (\<lambda>_. Dispatch (Cmd ''GET'' [AStr key])) (raw_with ROptBytes)"

definition rcluster_set ::
  "bridge_env \<Rightarrow> codec option \<Rightarrow> bool \<Rightarrow> (redis_cmd \<Rightarrow> redis_error + redis_value) \<Rightarrow> bytes \<Rightarrow> bytes \<Rightarrow> expiry_options \<Rightarrow> bool \<Rightarrow> bool \<Rightarrow> bool \<Rightarrow> bool \<Rightarrow> pyval pyres \<times> redis_cmd list" where
  "rcluster_set env decode is_closed server key val opt nx xx keepttl get_old =
     sync_call env decode is_closed (Inr ()) server id
       (\<lambda>_. Dispatch (set_full key val (eo_ex opt) (eo_px opt) (eo_exat opt) (eo_pxat opt) nx xx keepttl get_old)) (\<lambda>v. into_py env (raw_of TValue (Inr v)))"

definition acluster_set ::
  "bool \<Rightarrow> (redis_cmd \<Rightarrow> redis_error + redis_value) \<Rightarrow> bytes \<Rightarrow> bytes \<Rightarrow> expiry_options \<Rightarrow> bool \<Rightarrow> bool \<Rightarrow> bool \<Rightarrow> bool \<Rightarrow> raw_result pyres \<times> redis_cmd list" where
  "acluster_set is_closed server key val opt nx xx keepttl get_old =
     async_call is_closed (Inr ()) server id
       (\<lambda>_. Dispatch (set_full key val (eo_ex opt) (eo_px opt) (eo_exat opt) (eo_pxat opt) nx xx keepttl get_old)) (raw_with RValue)"

definition rcluster_incr ::
  "bridge_env \<Rightarrow> codec option \<Rightarrow> bool \<Rightarrow> (redis_cmd \<Rightarrow> redis_error + i64) \<Rightarrow> bytes \<Rightarrow> pyval pyres \<times> redis_cmd list" where
  "rcluster_incr env decode is_closed server key =
     sync_call env None is_closed (Inr ()) server id
       (\<lambda>_. Dispatch (incr key)) py_int"

definition rcluster_decr ::
  "bridge_env \<Rightarrow> codec option \<Rightarrow> bool \<Rightarrow> (redis_cmd \<Rightarrow> redis_error + i64) \<Rightarrow> bytes \<Rightarrow> pyval pyres \<times> redis_cmd list" where
  "rcluster_decr env decode is_closed server key =
     sync_call env None is_closed (Inr ()) server id
       (\<lambda>_. Dispatch (decr key)) py_int"

definition rcluster_incrby ::
  "bridge_env \<Rightarrow> codec option \<Rightarrow> bool \<Rightarrow> (redis_cmd \<Rightarrow> redis_error + i64) \<Rightarrow> bytes \<Rightarrow> i64 \<Rightarrow> pyval pyres \<times> redis_cmd list" where
  "rcluster_incrby env decode is_closed server key amount =
     sync_call env None is_closed (Inr ()) server id
       (\<lambda>_. Dispatch (incrby key amount)) py_int"

definition rcluster_decrby ::
  "bridge_env \<Rightarrow> codec option \<Rightarrow> bool \<Rightarrow> (redis_cmd \<Rightarrow> redis_error + i64) \<Rightarrow> bytes \<Rightarrow> i64 \<Rightarrow> pyval pyres \<times> redis_cmd list" where
  "rcluster_decrby env decode is_closed server key amount =
     sync_call env None is_closed (Inr ()) server id
       (\<lambda>_. Dispatch (decrby key amount)) py_int"

definition rcluster_incrbyfloat ::
  "bridge_env \<Rightarrow> codec option \<Rightarrow> bool \<Rightarrow> (redis_cmd \<Rightarrow> redis_error + f64) \<Rightarrow> bytes \<Rightarrow> f64 \<Rightarrow> pyval pyres \<times> redis_cmd list" where
  "rcluster_incrbyfloat env decode is_closed server key amount =
     sync_call env None is_closed (Inr ()) server id
       (\<lambda>_. Dispatch (incrbyfloat key amount)) conv_f64"

definition rcluster_strlen ::
  "bridge_env \<Rightarrow> codec option \<Rightarrow> bool \<Rightarrow> (redis_cmd \<Rightarrow> redis_error + i64) \<Rightarrow> bytes \<Rightarrow> pyval pyres \<times> redis_cmd list" where
  "rcluster_strlen env decode is_closed server key =
     sync_call env None is_closed (Inr ()) server id
       (\<lambda>_. Dispatch (strlen key)) py_int"

definition rcluster_getdel ::
  "bridge_env \<Rightarrow> codec option \<Rightarrow> bool \<Rightarrow> (redis_cmd \<Rightarrow> redis_error + bytes option) \<Rightarrow> bytes \<Rightarrow> pyval pyres \<times> redis_cmd list" where
  "rcluster_getdel env decode is_closed server key =
     sync_call env decode is_closed (Inr ()) server id
       (\<lambda>_. Dispatch (getdel key)) conv_opt_bytes"

definition rcluster_append ::
  "bridge_env \<Rightarrow> codec option \<Rightarrow> bool \<Rightarrow> (redis_cmd \<Rightarrow> redis_error + i64) \<Rightarrow> bytes \<Rightarrow> bytes \<Rightarrow> pyval pyres \<times> redis_cmd list" where
  "rcluster_append env decode is_closed server key val =
     sync_call env None is_closed (Inr ()) server id
       (\<lambda>_. Dispatch (conn_append key val)) py_int"

definition rcluster_ttl ::
  "bridge_env \<Rightarrow> codec option \<Rightarrow> bool \<Rightarrow> (redis_cmd \<Rightarrow> redis_error + i64) \<Rightarrow> bytes \<Rightarrow> pyval pyres \<times> redis_cmd list" where
  "rcluster_ttl env decode is_closed server key =
     sync_call env None is_closed (Inr ()) server id
       (\<lambda>_. Dispatch (ttl key)) py_int"

definition rcluster_pttl ::
  "bridge_env \<Rightarrow> codec option \<Rightarrow> bool \<Rightarrow> (redis_cmd \<Rightarrow> redis_error + i64) \<Rightarrow> bytes \<Rightarrow> pyval pyres \<times> redis_cmd list" where
  "rcluster_pttl env decode is_closed server key =
     sync_call env None is_closed (Inr ()) server id
       (\<lambda>_. Dispatch (pttl key)) py_int"

definition rcluster_expire ::
  "bridge_env \<Rightarrow> codec option \<Rightarrow> bool \<Rightarrow> (redis_cmd \<Rightarrow> redis_error + bool) \<Rightarrow> bytes \<Rightarrow> i64 \<Rightarrow> pyval pyres \<times> redis_cmd list" where
  "rcluster_expire env decode is_closed server key seconds =
     sync_call env None is_closed (Inr ()) server id
       (\<lambda>_. Dispatch (expire_full key seconds False False False False)) py_bool"

definition rcluster_pexpire ::
  "bridge_env \<Rightarrow> codec option \<Rightarrow> bool \<Rightarrow> (redis_cmd \<Rightarrow> redis_error + bool) \<Rightarrow> bytes \<Rightarrow> i64 \<Rightarrow> pyval pyres \<times> redis_cmd list" where
  "rcluster_pexpire env decode is_closed server key milliseconds =
     sync_call env None is_closed (Inr ()) server id
       (\<lambda>_. Dispatch (pexpire_full key milliseconds False False False False)) py_bool"

definition rcluster_persist ::
  "bridge_env \<Rightarrow> codec option \<Rightarrow> bool \<Rightarrow> (redis_cmd \<Rightarrow> redis_error + bool) \<Rightarrow> bytes \<Rightarrow> pyval pyres \<times> redis_cmd list" where
  "rcluster_persist env decode is_closed server key =
     sync_call env None is_closed (Inr ()) server id
       (\<lambda>_. Dispatch (persist_key key)) py_bool"

definition rcluster_type ::
  "bridge_env \<Rightarrow> codec option \<Rightarrow> bool \<Rightarrow> (redis_cmd \<Rightarrow> redis_error + bytes) \<Rightarrow> bytes \<Rightarrow> pyval pyres \<times> redis_cmd list" where
  "rcluster_type env decode is_closed server key =
     sync_call env None is_closed (Inr ()) server id
       (\<lambda>_. Dispatch (key_type key)) conv_str"

definition rcluster_rename ::
  "bridge_env \<Rightarrow> codec option \<Rightarrow> bool \<Rightarrow> (redis_cmd \<Rightarrow> redis_error + unit) \<Rightarrow> bytes \<Rightarrow> bytes \<Rightarrow> pyval pyres \<times> redis_cmd list" where
  "rcluster_rename env decode is_closed server src dst =
     sync_call env None is_closed (Inr ()) server id
       (\<lambda>_. Dispatch (rename src dst)) conv_unit"

definition rcluster_keys ::
  "bridge_env \<Rightarrow> codec option \<Rightarrow> bool \<Rightarrow> (redis_cmd \<Rightarrow> redis_error + bytes list) \<Rightarrow> bytes \<Rightarrow> pyval pyres \<times> redis_cmd list" where
  "rcluster_keys env decode is_closed server pattern =
     sync_call env None is_closed (Inr ()) server id
       (\<lambda>_. Dispatch (cmd_keys pattern)) py_bytes_list"

definition rcluster_hset ::
  "bridge_env \<Rightarrow> codec option \<Rightarrow> bool \<Rightarrow> (redis_cmd \<Rightarrow> redis_error + i64) \<Rightarrow> bytes \<Rightarrow> bytes \<Rightarrow> bytes \<Rightarrow> pyval pyres \<times> redis_cmd list" where
  "rcluster_hset env decode is_closed server key field val =
     sync_call env None is_closed (Inr ()) server id
       (\<lambda>_. Dispatch (hset_multiple key [(field, val)])) py_int"

definition rcluster_hget ::
  "bridge_env \<Rightarrow> codec option \<Rightarrow> bool \<Rightarrow> (redis_cmd \<Rightarrow> redis_error + bytes option) \<Rightarrow> bytes \<Rightarrow> bytes \<Rightarrow> pyval pyres \<times> redis_cmd list" where
  "rcluster_hget env decode is_closed server key field =
     sync_call env decode is_closed (Inr ()) server id
       (\<lambda>_. Dispatch (hget key field)) conv_opt_bytes"

definition rcluster_hgetall ::
  "bridge_env \<Rightarrow> codec option \<Rightarrow> bool \<Rightarrow> (redis_cmd \<Rightarrow> redis_error + redis_value) \<Rightarrow> decoders \<Rightarrow> bytes \<Rightarrow> pyval pyres \<times> redis_cmd list" where
  "rcluster_hgetall env decode is_closed server dc key =
     sync_call env None is_closed (Inr ()) (reading (hgetall_reply dc) server) id
       (\<lambda>_. Dispatch (hgetall key)) py_bytes_pairs"

definition rcluster_hkeys ::
  "bridge_env \<Rightarrow> codec option \<Rightarrow> bool \<Rightarrow> (redis_cmd \<Rightarrow> redis_error + bytes list) \<Rightarrow> bytes \<Rightarrow> pyval pyres \<times> redis_cmd list" where
  "rcluster_hkeys env decode is_closed server key =
     sync_call env None is_closed (Inr ()) server id
       (\<lambda>_. Dispatch (hkeys key)) py_bytes_list"

definition rcluster_hvals ::
  "bridge_env \<Rightarrow> codec option \<Rightarrow> bool \<Rightarrow> (redis_cmd \<Rightarrow> redis_error + bytes list) \<Rightarrow> bytes \<Rightarrow> pyval pyres \<times> redis_cmd list" where
  "rcluster_hvals env decode is_closed server key =
     sync_call env None is_closed (Inr ()) server id
       (\<lambda>_. Dispatch (hvals key)) py_bytes_list"

definition rcluster_hlen ::
  "bridge_env \<Rightarrow> codec option \<Rightarrow> bool \<Rightarrow> (redis_cmd \<Rightarrow> redis_error + i64) \<Rightarrow> bytes \<Rightarrow> pyval pyres \<times> redis_cmd list" where
  "rcluster_hlen env decode is_closed server key =
     sync_call env None is_closed (Inr ()) server id
       (\<lambda>_. Dispatch (hlen key)) py_int"

definition rcluster_hdel ::
  "bridge_env \<Rightarrow> codec option \<Rightarrow> bool \<Rightarrow> (redis_cmd \<Rightarrow> redis_error + i64) \<Rightarrow> bytes \<Rightarrow> bytes list \<Rightarrow> pyval pyres \<times> redis_cmd list" where
  "rcluster_hdel env decode is_closed server key flds =
     sync_call env None is_closed (Inr ()) server id
       (\<lambda>_. Dispatch (hdel key flds)) py_int"

definition rcluster_hexists ::
  "bridge_env \<Rightarrow> codec option \<Rightarrow> bool \<Rightarrow> (redis_cmd \<Rightarrow> redis_error + i64) \<Rightarrow> bytes \<Rightarrow> bytes \<Rightarrow> pyval pyres \<times> redis_cmd list" where
  "rcluster_hexists env decode is_closed server key field =
     sync_call env None is_closed (Inr ()) server is_one
       (\<lambda>_. Dispatch (hexists key field)) py_bool"

definition rcluster_hincrby ::
  "bridge_env \<Rightarrow> codec option \<Rightarrow> bool \<Rightarrow> (redis_cmd \<Rightarrow> redis_error + i64) \<Rightarrow> bytes \<Rightarrow> bytes \<Rightarrow> i64 \<Rightarrow> pyval pyres \<times> redis_cmd list" where
  "rcluster_hincrby env decode is_closed server key field amount =
     sync_call env None is_closed (Inr ()) server id
       (\<lambda>_. Dispatch (hincrby key field amount)) py_int"

definition rcluster_rpush ::
  "bridge_env \<Rightarrow> codec option \<Rightarrow> bool \<Rightarrow> (redis_cmd \<Rightarrow> redis_error + i64) \<Rightarrow> bytes \<Rightarrow> bytes list \<Rightarrow> pyval pyres \<times> redis_cmd list" where
  "rcluster_rpush env decode is_closed server key values =
     sync_call env None is_closed (Inr ()) server id
       (\<lambda>_. Dispatch (rpush key values)) py_int"

definition rcluster_lpush ::
  "bridge_env \<Rightarrow> codec option \<Rightarrow> bool \<Rightarrow> (redis_cmd \<Rightarrow> redis_error + i64) \<Rightarrow> bytes \<Rightarrow> bytes list \<Rightarrow> pyval pyres \<times> redis_cmd list" where
  "rcluster_lpush env decode is_closed server key values =
     sync_call env None is_closed (Inr ()) server id
       (\<lambda>_. Dispatch (lpush key values)) py_int"

definition rcluster_lrange ::
  "bridge_env \<Rightarrow> codec option \<Rightarrow> bool \<Rightarrow> (redis_cmd \<Rightarrow> redis_error + bytes list) \<Rightarrow> bytes \<Rightarrow> i64 \<Rightarrow> i64 \<Rightarrow> pyval pyres \<times> redis_cmd list" where
  "rcluster_lrange env decode is_closed server key start stop =
     sync_call env None is_closed (Inr ()) server id
       (\<lambda>_. Dispatch (lrange key start stop)) py_bytes_list"

definition rcluster_llen ::
  "bridge_env \<Rightarrow> codec option \<Rightarrow> bool \<Rightarrow> (redis_cmd \<Rightarrow> redis_error + i64) \<Rightarrow> bytes \<Rightarrow> pyval pyres \<times> redis_cmd list" where
  "rcluster_llen env decode is_closed server key =
     sync_call env None is_closed (Inr ()) server id
       (\<lambda>_. Dispatch (llen key)) py_int"

definition rcluster_lpop ::
  "bridge_env \<Rightarrow> codec option \<Rightarrow> bool \<Rightarrow> (redis_cmd \<Rightarrow> redis_error + bytes option) \<Rightarrow> bytes \<Rightarrow> pyval pyres \<times> redis_cmd list" where
  "rcluster_lpop env decode is_closed server key =
     sync_call env decode is_closed (Inr ()) server id
       (\<lambda>_. Dispatch (lpop_one key)) conv_opt_bytes"

definition rcluster_rpop ::
  "bridge_env \<Rightarrow> codec option \<Rightarrow> bool \<Rightarrow> (redis_cmd \<Rightarrow> redis_error + bytes option) \<Rightarrow> bytes \<Rightarrow> pyval pyres \<times> redis_cmd list" where
  "rcluster_rpop env decode is_closed server key =
     sync_call env decode is_closed (Inr ()) server id
       (\<lambda>_. Dispatch (rpop_one key)) conv_opt_bytes"

definition rcluster_sadd ::
  "bridge_env \<Rightarrow> codec option \<Rightarrow> bool \<Rightarrow> (redis_cmd \<Rightarrow> redis_error + i64) \<Rightarrow> bytes \<Rightarrow> bytes list \<Rightarrow> pyval pyres \<times> redis_cmd list" where
  "rcluster_sadd env decode is_closed server key members =
     sync_call env None is_closed (Inr ()) server id
       (\<lambda>_. Dispatch (sadd key members)) py_int"

definition rcluster_srem ::
  "bridge_env \<Rightarrow> codec option \<Rightarrow> bool \<Rightarrow> (redis_cmd \<Rightarrow> redis_error + i64) \<Rightarrow> bytes \<Rightarrow> bytes list \<Rightarrow> pyval pyres \<times> redis_cmd list" where
  "rcluster_srem env decode is_closed server key members =
     sync_call env None is_closed (Inr ()) server id
       (\<lambda>_. Dispatch (srem key members)) py_int"

definition rcluster_smembers ::
  "bridge_env \<Rightarrow> codec option \<Rightarrow> bool \<Rightarrow> (redis_cmd \<Rightarrow> redis_error + bytes list) \<Rightarrow> bytes \<Rightarrow> pyval pyres \<times> redis_cmd list" where
  "rcluster_smembers env decode is_closed server key =
     sync_call env None is_closed (Inr ()) server id
       (\<lambda>_. Dispatch (smembers key)) py_bytes_list"

definition rcluster_scard ::
  "bridge_env \<Rightarrow> codec option \<Rightarrow> bool \<Rightarrow> (redis_cmd \<Rightarrow> redis_error + i64) \<Rightarrow> bytes \<Rightarrow> pyval pyres \<times> redis_cmd list" where
  "rcluster_scard env decode is_closed server key =
     sync_call env None is_closed (Inr ()) server id
       (\<lambda>_. Dispatch (scard key)) py_int"

definition rcluster_sismember ::
  "bridge_env \<Rightarrow> codec option \<Rightarrow> bool \<Rightarrow> (redis_cmd \<Rightarrow> redis_error + bool) \<Rightarrow> bytes \<Rightarrow> bytes \<Rightarrow> pyval pyres \<times> redis_cmd list" where
  "rcluster_sismember env decode is_closed server key member =
     sync_call env None is_closed (Inr ()) server id
       (\<lambda>_. Dispatch (sismember key member)) py_bool"

text \<open>ZADD takes a mapping from members to scores; an empty one is answered with 0.\<close>

definition cluster_zadd_pair :: "(pyval \<Rightarrow> f64 pyres) \<Rightarrow> pyval \<times> pyval \<Rightarrow> (f64 \<times> bytes) pyres" where
  "cluster_zadd_pair as_double p =
     rbind (extract_f64 as_double (snd p)) (\<lambda>s. rbind (extract_bytes (fst p)) (\<lambda>m. Inr (s, m)))"

definition rcluster_zadd ::
  "bridge_env \<Rightarrow> codec option \<Rightarrow> bool \<Rightarrow> (redis_cmd \<Rightarrow> redis_error + i64) \<Rightarrow> (pyval \<Rightarrow> f64 pyres) \<Rightarrow> bytes \<Rightarrow> (pyval \<times> pyval) list \<Rightarrow> pyval pyres \<times> redis_cmd list" where
  "rcluster_zadd env decode is_closed server as_double key mapping =
     sync_call env None is_closed (if is_closed then Inl closed_error else collect_res (cluster_zadd_pair as_double) mapping) server id
       (\<lambda>pairs. (if pairs = [] then Ready 0 else Dispatch (Cmd ''ZADD'' (AStr key # concat (map (\<lambda>(s, m). [AF64 s, ABytes m]) pairs))))) py_int"

definition rcluster_zrange ::
  "bridge_env \<Rightarrow> codec option \<Rightarrow> bool \<Rightarrow> (redis_cmd \<Rightarrow> redis_error + bytes list) \<Rightarrow> bytes \<Rightarrow> i64 \<Rightarrow> i64 \<Rightarrow> pyval pyres \<times> redis_cmd list" where
  "rcluster_zrange env decode is_closed server key start stop =
     sync_call env None is_closed (Inr ()) server id
       (\<lambda>_. Dispatch (Cmd ''ZRANGE'' [AStr key, AI64 start, AI64 stop])) py_bytes_list"

definition rcluster_zcard ::
  "bridge_env \<Rightarrow> codec option \<Rightarrow> bool \<Rightarrow> (redis_cmd \<Rightarrow> redis_error + i64) \<Rightarrow> bytes \<Rightarrow> pyval pyres \<times> redis_cmd list" where
  "rcluster_zcard env decode is_closed server key =
     sync_call env None is_closed (Inr ()) server id
       (\<lambda>_. Dispatch (Cmd ''ZCARD'' [AStr key])) py_int"

definition rcluster_zrem ::
  "bridge_env \<Rightarrow> codec option \<Rightarrow> bool \<Rightarrow> (redis_cmd \<Rightarrow> redis_error + i64) \<Rightarrow> bytes \<Rightarrow> bytes list \<Rightarrow> pyval pyres \<times> redis_cmd list" where
  "rcluster_zrem env decode is_closed server key members =
     sync_call env None is_closed (Inr ()) server id
       (\<lambda>_. Dispatch (Cmd ''ZREM'' (AStr key # map ABytes members))) py_int"

definition rcluster_zscore ::
  "bridge_env \<Rightarrow> codec option \<Rightarrow> bool \<Rightarrow> (redis_cmd \<Rightarrow> redis_error + f64 option) \<Rightarrow> bytes \<Rightarrow> bytes \<Rightarrow> pyval pyres \<times> redis_cmd list" where
  "rcluster_zscore env decode is_closed server key member =
     sync_call env None is_closed (Inr ()) server id
       (\<lambda>_. Dispatch (Cmd ''ZSCORE'' [AStr key, ABytes member])) conv_opt_f64"

definition rcluster_publish ::
  "bridge_env \<Rightarrow> codec option \<Rightarrow> bool \<Rightarrow> (redis_cmd \<Rightarrow> redis_error + i64) \<Rightarrow> bytes \<Rightarrow> bytes \<Rightarrow> pyval pyres \<times> redis_cmd list" where
  "rcluster_publish env decode is_closed server channel msg =
     sync_call env None is_closed (Inr ()) server id
       (\<lambda>_. Dispatch (Cmd ''PUBLISH'' [AStr channel, ABytes msg])) py_int"

section \<open>CLUSTER commands\<close>

definition rcluster_cluster_info ::
  "bridge_env \<Rightarrow> codec option \<Rightarrow> bool \<Rightarrow> (redis_cmd \<Rightarrow> redis_error + bytes) \<Rightarrow> pyval pyres \<times> redis_cmd list" where
  "rcluster_cluster_info env decode is_closed server =
     sync_call env None is_closed (Inr ()) server id
       (\<lambda>_. Dispatch (cluster_info)) conv_bytes"

definition acluster_cluster_info ::
  "bool \<Rightarrow> (redis_cmd \<Rightarrow> redis_error + bytes) \<Rightarrow> raw_result pyres \<times> redis_cmd list" where
  "acluster_cluster_info is_closed server =
     async_call is_closed (Inr ()) server id
       (\<lambda>_. Dispatch (cluster_info)) (raw_with (ROptBytes \<circ> Some))"

definition rcluster_cluster_nodes ::
  "bridge_env \<Rightarrow> codec option \<Rightarrow> bool \<Rightarrow> (redis_cmd \<Rightarrow> redis_error + bytes) \<Rightarrow> pyval pyres \<times> redis_cmd list" where
  "rcluster_cluster_nodes env decode is_closed server =
     sync_call env None is_closed (Inr ()) server id
       (\<lambda>_. Dispatch (cluster_nodes)) conv_bytes"

definition rcluster_cluster_slots ::
  "bridge_env \<Rightarrow> codec option \<Rightarrow> bool \<Rightarrow> (redis_cmd \<Rightarrow> redis_error + redis_value) \<Rightarrow> pyval pyres \<times> redis_cmd list" where
  "rcluster_cluster_slots env decode is_closed server =
     sync_call env None is_closed (Inr ()) server id
       (\<lambda>_. Dispatch (cluster_slots)) (\<lambda>v. into_py env (RValue v))"

definition rcluster_cluster_shards ::
  "bridge_env \<Rightarrow> codec option \<Rightarrow> bool \<Rightarrow> (redis_cmd \<Rightarrow> redis_error + redis_value) \<Rightarrow> pyval pyres \<times> redis_cmd list" where
  "rcluster_cluster_shards env decode is_closed server =
     sync_call env None is_closed (Inr ()) server id
       (\<lambda>_. Dispatch (cluster_shards)) (\<lambda>v. into_py env (RValue v))"

definition rcluster_cluster_links ::
  "bridge_env \<Rightarrow> codec option \<Rightarrow> bool \<Rightarrow> (redis_cmd \<Rightarrow> redis_error + redis_value) \<Rightarrow> pyval pyres \<times> redis_cmd list" where
  "rcluster_cluster_links env decode is_closed server =
     sync_call env None is_closed (Inr ()) server id
       (\<lambda>_. Dispatch (cluster_links)) (\<lambda>v. into_py env (RValue v))"

definition rcluster_cluster_myid ::
  "bridge_env \<Rightarrow> codec option \<Rightarrow> bool \<Rightarrow> (redis_cmd \<Rightarrow> redis_error + bytes) \<Rightarrow> pyval pyres \<times> redis_cmd list" where
  "rcluster_cluster_myid env decode is_closed server =
     sync_call env None is_closed (Inr ()) server id
       (\<lambda>_. Dispatch (cluster_myid)) conv_bytes"

definition rcluster_cluster_myshardid ::
  "bridge_env \<Rightarrow> codec option \<Rightarrow> bool \<Rightarrow> (redis_cmd \<Rightarrow> redis_error + bytes) \<Rightarrow> pyval pyres \<times> redis_cmd list" where
  "rcluster_cluster_myshardid env decode is_closed server =
     sync_call env None is_closed (Inr ()) server id
       (\<lambda>_. Dispatch (cluster_myshardid)) conv_bytes"

definition rcluster_cluster_keyslot ::
  "bridge_env \<Rightarrow> codec option \<Rightarrow> bool \<Rightarrow> (redis_cmd \<Rightarrow> redis_error + i64) \<Rightarrow> bytes \<Rightarrow> pyval pyres \<times> redis_cmd list" where
  "rcluster_cluster_keyslot env decode is_closed server key =
     sync_call env None is_closed (Inr ()) server id
       (\<lambda>_. Dispatch (cluster_keyslot key)) py_int"

definition acluster_cluster_keyslot ::
  "bool \<Rightarrow> (redis_cmd \<Rightarrow> redis_error + i64) \<Rightarrow> bytes \<Rightarrow> raw_result pyres \<times> redis_cmd list" where
  "acluster_cluster_keyslot is_closed server key =
     async_call is_closed (Inr ()) server id
       (\<lambda>_. Dispatch (cluster_keyslot key)) (raw_with RInt)"

definition rcluster_cluster_countkeysinslot ::
  "bridge_env \<Rightarrow> codec option \<Rightarrow> bool \<Rightarrow> (redis_cmd \<Rightarrow> redis_error + i64) \<Rightarrow> u16 \<Rightarrow> pyval pyres \<times> redis_cmd list" where
  "rcluster_cluster_countkeysinslot env decode is_closed server slot =
     sync_call env None is_closed (Inr ()) server id
       (\<lambda>_. Dispatch (cluster_countkeysinslot slot)) py_int"

definition rcluster_cluster_getkeysinslot ::
  "bridge_env \<Rightarrow> codec option \<Rightarrow> bool \<Rightarrow> (redis_cmd \<Rightarrow> redis_error + bytes list) \<Rightarrow> u16 \<Rightarrow> u32 \<Rightarrow> pyval pyres \<times> redis_cmd list" where
  "rcluster_cluster_getkeysinslot env decode is_closed server slot count =
     sync_call env None is_closed (Inr ()) server id
       (\<lambda>_. Dispatch (cluster_getkeysinslot slot count)) py_bytes_list"

definition rcluster_cluster_meet ::
  "bridge_env \<Rightarrow> codec option \<Rightarrow> bool \<Rightarrow> (redis_cmd \<Rightarrow> redis_error + unit) \<Rightarrow> bytes \<Rightarrow> u16 \<Rightarrow> pyval pyres \<times> redis_cmd list" where
  "rcluster_cluster_meet env decode is_closed server ip port =
     sync_call env None is_closed (Inr ()) server id
       (\<lambda>_. Dispatch (cluster_meet ip port)) conv_unit"

definition rcluster_cluster_forget ::
  "bridge_env \<Rightarrow> codec option \<Rightarrow> bool \<Rightarrow> (redis_cmd \<Rightarrow> redis_error + unit) \<Rightarrow> bytes \<Rightarrow> pyval pyres \<times> redis_cmd list" where
  "rcluster_cluster_forget env decode is_closed server node_id =
     sync_call env None is_closed (Inr ()) server id
       (\<lambda>_. Dispatch (cluster_forget node_id)) conv_unit"

definition rcluster_cluster_replicate ::
  "bridge_env \<Rightarrow> codec option \<Rightarrow> bool \<Rightarrow> (redis_cmd \<Rightarrow> redis_error + unit) \<Rightarrow> bytes \<Rightarrow> pyval pyres \<times> redis_cmd list" where
  "rcluster_cluster_replicate env decode is_closed server node_id =
     sync_call env None is_closed (Inr ()) server id
       (\<lambda>_. Dispatch (cluster_replicate node_id)) conv_unit"

definition rcluster_cluster_reset ::
  "bridge_env \<Rightarrow> codec option \<Rightarrow> bool \<Rightarrow> (redis_cmd \<Rightarrow> redis_error + unit) \<Rightarrow> bytes \<Rightarrow> pyval pyres \<times> redis_cmd list" where
  "rcluster_cluster_reset env decode is_closed server mode =
     sync_call env None is_closed (Inr ()) server id
       (\<lambda>_. Dispatch (cluster_reset (to_ascii_uppercase mode = ''HARD''))) conv_unit"

definition rcluster_cluster_count_failure_reports ::
  "bridge_env \<Rightarrow> codec option \<Rightarrow> bool \<Rightarrow> (redis_cmd \<Rightarrow> redis_error + i64) \<Rightarrow> bytes \<Rightarrow> pyval pyres \<times> redis_cmd list" where
  "rcluster_cluster_count_failure_reports env decode is_closed server node_id =
     sync_call env None is_closed (Inr ()) server id
       (\<lambda>_. Dispatch (cluster_count_failure_reports node_id)) py_int"

definition rcluster_cluster_failover ::
  "bridge_env \<Rightarrow> codec option \<Rightarrow> bool \<Rightarrow> (redis_cmd \<Rightarrow> redis_error + unit) \<Rightarrow> bytes option \<Rightarrow> pyval pyres \<times> redis_cmd list" where
  "rcluster_cluster_failover env decode is_closed server opt =
     sync_call env None is_closed (Inr ()) server id
       (\<lambda>_. Dispatch (cluster_failover opt)) conv_unit"

definition rcluster_cluster_replicas ::
  "bridge_env \<Rightarrow> codec option \<Rightarrow> bool \<Rightarrow> (redis_cmd \<Rightarrow> redis_error + bytes list) \<Rightarrow> bytes \<Rightarrow> pyval pyres \<times> redis_cmd list" where
  "rcluster_cluster_replicas env decode is_closed server node_id =
     sync_call env None is_closed (Inr ()) server id
       (\<lambda>_. Dispatch (cluster_replicas node_id)) py_bytes_list"

definition rcluster_cluster_slaves ::
  "bridge_env \<Rightarrow> codec option \<Rightarrow> bool \<Rightarrow> (redis_cmd \<Rightarrow> redis_error + bytes list) \<Rightarrow> bytes \<Rightarrow> pyval pyres \<times> redis_cmd list" where
  "rcluster_cluster_slaves = rcluster_cluster_replicas"

section \<open>The two clients\<close>

interpretation int_by_hand: scalar_reply py_int "raw_with RInt"
  by unfold_locales (auto simp: reply_defs)

text \<open>Methods that exist on both clients and convert and decode alike.\<close>

lemma cluster_methods_agree:
  "await_call env decode (acluster_ping z s) = rcluster_ping env decode z s \<and>
   await_call env decode (acluster_get z s' key) = rcluster_get env decode z s' key \<and>
   await_call env decode (acluster_set z v key val opt nx xx keepttl get_old) =
     rcluster_set env decode z v key val opt nx xx keepttl get_old \<and>
   await_call env decode (acluster_cluster_keyslot z n key) = rcluster_cluster_keyslot env decode z n key"
proof (intro conjI)
  have raw: "into_py env (raw_with RValue r) =
      (case r of Inl e \<Rightarrow> Inl (to_py_err (pe_lookup_ok env) e) | Inr v \<Rightarrow> into_py env (raw_of TValue (Inr v)))" for r
    by (cases r) (simp_all add: raw_with_def raw_of_def into_raw_result_def)
  show "await_call env decode (acluster_set z v key val opt nx xx keepttl get_old) =
     rcluster_set env decode z v key val opt nx xx keepttl get_old"
    by (simp add: acluster_set_def rcluster_set_def await_call_def async_call_def sync_call_def raw split: prod.split)
qed (simp_all add: acluster_ping_def rcluster_ping_def acluster_get_def rcluster_get_def pong_reply.agree_undecoded
    acluster_cluster_keyslot_def rcluster_cluster_keyslot_def method_agreement int_by_hand.agree_undecoded)

lemma fanout_agrees:
  "(\<And>v. into_py env (raw v) = conv v) \<Longrightarrow>
   await_call env None (async_fanout z args run raw db) = sync_fanout env z args run conv db"
  by (simp add: await_call_def async_fanout_def sync_fanout_def raw_with_def maybe_decode_def
      split: sum.split prod.split) (simp add: rbind_def maybe_decode_def split: sum.split)

lemma cluster_fanout_agrees:
  "await_call env None (acluster_mget z d exec joined keys db) = rcluster_mget env z d exec joined keys db \<and>
   await_call env None (acluster_mset z u exec joined mapping db) = rcluster_mset env z u exec joined mapping db \<and>
   await_call env None (acluster_delete z n exec joined keys db) = rcluster_delete env z n exec joined keys db \<and>
   await_call env None (acluster_exists z n exec joined keys db) = rcluster_exists env z n exec joined keys db"
  unfolding acluster_mget_def acluster_mset_def acluster_delete_def acluster_exists_def
    rcluster_mget_def rcluster_mset_def rcluster_delete_def rcluster_exists_def
  by (intro conjI fanout_agrees)
    (simp_all add: conv_opt_bytes_list_def conv_unit_def py_int_def py_opt_bytes_def opt_py_def cong: option.case_cong)

text \<open>With \<open>decode_responses\<close> the blocking client still returns \<open>bytes\<close> from MGET, where the
  awaitable one decodes, and from KEYS, HKEYS, LRANGE, ZRANGE and their like; SMEMBERS is a list.\<close>

lemma cluster_reads_undecoded:
  "fst (rcluster_keys env decode False (\<lambda>_. Inr [k]) pattern) = Inr (PList [PBytes k])"
  "fst (rcluster_hkeys env decode False (\<lambda>_. Inr [k]) key) = Inr (PList [PBytes k])"
  "fst (rcluster_lrange env decode False (\<lambda>_. Inr [k]) key start stop) = Inr (PList [PBytes k])"
  "fst (rcluster_zrange env decode False (\<lambda>_. Inr [k]) key start stop) = Inr (PList [PBytes k])"
  "fst (rcluster_smembers env decode False (\<lambda>_. Inr [k]) key) = Inr (PList [PBytes k])"
  by (simp_all add: rcluster_keys_def rcluster_hkeys_def rcluster_lrange_def rcluster_zrange_def
      rcluster_smembers_def sync_call_def run_request_def py_bytes_list_def maybe_decode_def)

lemma cluster_mget_decoded_by_async_only:
  assumes "fanout_mget dispatch exec joined [k] db = (Inr [Some b], db)" "c b = Inr s"
  shows "fst (rcluster_mget env False dispatch exec joined [k] db) = Inr (PList [PBytes b])"
    and "fst (await_call env (Some c) (acluster_mget False dispatch exec joined [k] db)) = Inr (PList [PStr s])"
  using assms
  by (simp_all add: rcluster_mget_def acluster_mget_def sync_fanout_def async_fanout_def await_call_def
      conv_opt_bytes_list_def py_opt_bytes_def raw_with_def maybe_decode_def opt_py_def)

text \<open>A mode of CLUSTER RESET that is not HARD, a misspelt one too, is a soft reset.\<close>

lemma cluster_reset_unvalidated:
  "snd (rcluster_cluster_reset env decode False server ''HRAD'') =
   [Cmd ''CLUSTER'' [AStr ''RESET'', AStr ''SOFT'']]"
proof -
  have "to_ascii_uppercase ''HRAD'' \<noteq> ''HARD''" by code_simp
  then show ?thesis
    by (simp add: rcluster_cluster_reset_def sync_call_def run_request_def cluster_reset_def)
qed

text \<open>SET sends contradictory options, which \<open>Redis.set\<close> rejects.\<close>

lemma cluster_set_unvalidated:
  "snd (rcluster_set env decode False server key val opt True True False False) =
   [set_full key val (eo_ex opt) (eo_px opt) (eo_exat opt) (eo_pxat opt) True True False False]"
  by (simp add: rcluster_set_def sync_call_def run_request_def)

text \<open>\<open>ssl=True\<close> changes nothing: start-up URLs made from hosts never use TLS (\<open>resolve_startup_urls\<close>).
  A client that was only given a URL connects to just that URL.\<close>

lemma cluster_from_one_url:
  assumes "ca_url a = Some u" "ca_username a = None" "ca_password a = None"
  shows "cluster_connection h a =
    (case connect_cluster (he_crate h) [u] (cluster_tls a) of
       Inr c \<Rightarrow> Inr (c, u)
     | Inl e \<Rightarrow> Inl (to_py_err (pe_lookup_ok (he_bridge h)) (made_error (he_bridge h) EkIo ''connect_cluster'' (Some e))))"
  using assms by (simp add: cluster_connection_def startup_urls_def resolve_startup_urls_def Let_def)
    (simp split: sum.split)

section \<open>The cluster as one map\<close>

text \<open>A session: multi-key calls, each with the order in which its requests are executed and joined,
  and closing the client.\<close>

datatype cluster_op =
    OpMget "bytes list" "u16 list" "u16 list"
  | OpMset "(pyval \<times> pyval) list" "u16 list" "u16 list"
  | OpDelete "bytes list" "u16 list" "u16 list"
  | OpUnlink "bytes list" "u16 list" "u16 list"
  | OpExists "bytes list" "u16 list" "u16 list"
  | OpClose

record 'db cluster_server =
  cs_mget :: "('db, bytes option list) server"
  cs_mset :: "('db, unit) server"
  cs_count :: "('db, i64) server"

fun cluster_step ::
  "bridge_env \<Rightarrow> 'db cluster_server \<Rightarrow> cluster_op \<Rightarrow> 'conn redis_object \<times> 'db \<Rightarrow> pyval pyres \<times> 'conn redis_object \<times> 'db" where
  "cluster_step env srv (OpMget keys exec joined) (c, db) =
     map_prod id (Pair c) (rcluster_mget env (ro_closed c) (cs_mget srv) exec joined keys db)"
| "cluster_step env srv (OpMset mapping exec joined) (c, db) =
     map_prod id (Pair c) (rcluster_mset env (ro_closed c) (cs_mset srv) exec joined mapping db)"
| "cluster_step env srv (OpDelete keys exec joined) (c, db) =
     map_prod id (Pair c) (rcluster_delete env (ro_closed c) (cs_count srv) exec joined keys db)"
| "cluster_step env srv (OpUnlink keys exec joined) (c, db) =
     map_prod id (Pair c) (rcluster_unlink env (ro_closed c) (cs_count srv) exec joined keys db)"
| "cluster_step env srv (OpExists keys exec joined) (c, db) =
     map_prod id (Pair c) (rcluster_exists env (ro_closed c) (cs_count srv) exec joined keys db)"
| "cluster_step env srv OpClose (c, db) =
     (map_sum id (\<lambda>_. PNone) (fst (cluster_close c)), snd (cluster_close c), db)"

text \<open>The specification: one map from keys to values, and whether the client is closed.\<close>

fun map_step :: "cluster_op \<Rightarrow> bool \<times> (bytes \<rightharpoonup> bytes) \<Rightarrow> pyval pyres \<times> bool \<times> (bytes \<rightharpoonup> bytes)" where
  "map_step OpClose (is_closed, m) = (Inr PNone, True, m)"
| "map_step (OpMget keys _ _) (False, m) = (Inr (PList (map (\<lambda>k. py_opt_bytes (m k)) keys)), False, m)"
| "map_step (OpMset mapping _ _) (False, m) =
     (case collect_res mset_pair mapping of
        Inl e \<Rightarrow> (Inl e, False, m)
      | Inr ps \<Rightarrow> (Inr PNone, False, m ++ map_of (rev ps)))"
| "map_step (OpDelete keys _ _) (False, m) =
     (Inr (PInt (sint (of_nat (card (set keys \<inter> dom m)) :: i64))), False, m |` (- set keys))"
| "map_step (OpUnlink keys _ _) (False, m) =
     (Inr (PInt (sint (of_nat (card (set keys \<inter> dom m)) :: i64))), False, m |` (- set keys))"
| "map_step (OpExists keys _ _) (False, m) =
     (Inr (PInt (sint (of_nat (length (filter (\<lambda>k. m k \<noteq> None) keys)) :: i64))), False, m)"
| "map_step _ (True, m) = (Inl closed_error, True, m)"

text \<open>What the servers are documented to do, and that the orders of an operation are orders of the
  slots of its keys.\<close>

definition answers_cluster :: "'db cluster_server \<Rightarrow> ('db \<Rightarrow> bytes \<rightharpoonup> bytes) \<Rightarrow> bool" where
  "answers_cluster srv lookup \<longleftrightarrow>
     answers_mget (cs_mget srv) lookup \<and> answers_mset (cs_mset srv) lookup \<and>
     answers_del ''DEL'' (cs_count srv) lookup \<and> answers_del ''UNLINK'' (cs_count srv) lookup \<and>
     answers_exists (cs_count srv) lookup"

fun ordered_op :: "cluster_op \<Rightarrow> bool" where
  "ordered_op (OpMget keys exec joined) \<longleftrightarrow> slot_orders keys exec joined"
| "ordered_op (OpMset mapping exec joined) \<longleftrightarrow>
     (case collect_res mset_pair mapping of Inr ps \<Rightarrow> slot_orders (map fst ps) exec joined | Inl _ \<Rightarrow> True)"
| "ordered_op (OpDelete keys exec joined) \<longleftrightarrow> slot_orders keys exec joined"
| "ordered_op (OpUnlink keys exec joined) \<longleftrightarrow> slot_orders keys exec joined"
| "ordered_op (OpExists keys exec joined) \<longleftrightarrow> slot_orders keys exec joined"
| "ordered_op OpClose \<longleftrightarrow> True"

text \<open>The keys of an operation, which are to have no \<open>}\<close> before their first \<open>{\<close>: the code sends
  other keys to a slot that is not theirs.\<close>

fun op_keys :: "cluster_op \<Rightarrow> bytes list" where
  "op_keys (OpMget keys exec joined) = keys"
| "op_keys (OpMset mapping exec joined) =
     (case collect_res mset_pair mapping of Inr ps \<Rightarrow> map fst ps | Inl _ \<Rightarrow> [])"
| "op_keys (OpDelete keys exec joined) = keys"
| "op_keys (OpUnlink keys exec joined) = keys"
| "op_keys (OpExists keys exec joined) = keys"
| "op_keys OpClose = []"

definition routable_op :: "cluster_op \<Rightarrow> bool" where
  "routable_op x \<longleftrightarrow> ordered_op x \<and> list_all plain_braces (op_keys x)"

lemma fold_upd_map_of: "fold (\<lambda>(k, v) m. m(k \<mapsto> v)) ps m = m ++ map_of (rev ps)"
  by (induction ps arbitrary: m) (auto simp: fun_eq_iff map_add_def split: option.splits)

lemma closed_fanout: "sync_fanout env True args run conv db = (Inl closed_error, db)"
  by (simp add: sync_fanout_def)

lemma open_fanout:
  "sync_fanout env False (Inr k) run conv db =
     (case run k db of (r, db) \<Rightarrow> (case r of Inl e \<Rightarrow> Inl (to_py_err (pe_lookup_ok env) e) | Inr v \<Rightarrow> conv v, db))"
  by (simp add: sync_fanout_def)

lemmas rcluster_fanout_defs = rcluster_mget_def rcluster_mset_def rcluster_delete_def rcluster_unlink_def
  rcluster_exists_def closed_fanout open_fanout cluster_close_def

lemma cluster_step_refines:
  assumes "answers_cluster srv lookup" "routable_op x"
  shows "map_prod id (map_prod ro_closed lookup) (cluster_step env srv x (c, db)) = map_step x (ro_closed c, lookup db)"
proof (cases "ro_closed c")
  case True
  then show ?thesis by (cases x) (simp_all add: rcluster_fanout_defs)
next
  case False
  note srv = assms(1) [unfolded answers_cluster_def]
    and ok = assms(2) [unfolded routable_op_def]
  show ?thesis
  proof (cases x)
    case (OpMget keys exec joined)
    then show ?thesis
      using False srv fanout_mget_correct [of "cs_mget srv" lookup keys exec joined db] ok
      by (simp add: rcluster_fanout_defs conv_opt_bytes_list_def)
  next
    case (OpMset mapping exec joined)
    show ?thesis
    proof (cases "collect_res mset_pair mapping")
      case (Inl e)
      then show ?thesis using False OpMset by (simp add: rcluster_mset_def sync_fanout_def)
    next
      case (Inr ps)
      then show ?thesis
        using False OpMset srv fanout_mset_correct [of "cs_mset srv" lookup ps exec joined db] ok
        by (simp add: rcluster_fanout_defs conv_unit_def fold_upd_map_of split: prod.splits)
    qed
  next
    case (OpDelete keys exec joined)
    then show ?thesis
      using False srv fanout_del_correct [of False "cs_count srv" lookup keys exec joined db] ok
      by (simp add: rcluster_fanout_defs py_int_def split: prod.splits)
  next
    case (OpUnlink keys exec joined)
    then show ?thesis
      using False srv fanout_del_correct [of True "cs_count srv" lookup keys exec joined db] ok
      by (simp add: rcluster_fanout_defs py_int_def split: prod.splits)
  next
    case (OpExists keys exec joined)
    then show ?thesis
      using False srv fanout_exists_correct [of "cs_count srv" lookup keys exec joined db] ok
      by (simp add: rcluster_fanout_defs py_int_def)
  next
    case OpClose
    then show ?thesis by (simp add: rcluster_fanout_defs)
  qed
qed

interpretation cluster_session: data_refinement "map_prod ro_closed lookup" "cluster_step env srv" map_step
    "\<lambda>x. answers_cluster srv lookup \<and> routable_op x" for env srv lookup
proof
  fix x and c :: "'a redis_object \<times> 'b"
  assume "answers_cluster srv lookup \<and> routable_op x"
  then show "map_prod id (map_prod ro_closed lookup) (cluster_step env srv x c) = map_step x (map_prod ro_closed lookup c)"
    by (cases c) (simp add: cluster_step_refines)
qed

text \<open>(C4) Seen through a cluster client, the cluster is one map: any session of MGET, MSET, DELETE, UNLINK
  and EXISTS over keys in any slots of the cluster specification, whatever the order in which the
  per-slot requests of each call run and are joined, returns call by call what the map returns and
  leaves the map's content; rejected mappings change nothing, and after \<open>close\<close> every call raises and
  nothing changes.  The keys are to have no \<open>}\<close> before their first \<open>{\<close>.\<close>
theorem cluster_is_one_map:
  assumes "answers_cluster srv lookup" "list_all routable_op ops"
  shows "map_prod id (map_prod ro_closed lookup) (run_ops (cluster_step env srv) ops (c, db)) =
    run_ops map_step ops (ro_closed c, lookup db)"
proof -
  have "list_all (\<lambda>x. answers_cluster srv lookup \<and> routable_op x) ops"
    using assms by (simp add: list_all_iff)
  from cluster_session.run_refines [OF this, of env "(c, db)"] show ?thesis by simp
qed

definition kv_server :: "(bytes \<rightharpoonup> bytes) cluster_server" where
  "kv_server = \<lparr>cs_mget = kv_mget, cs_mset = kv_mset, cs_count = kv_count\<rparr>"

definition sample_session :: "cluster_op list" where
  "sample_session =
     [OpMset [(PStr ''a'', PBytes ''1''), (PStr ''b'', PBytes ''2''), (PStr ''a'', PBytes ''3'')] [3300, 15495] [15495, 3300],
      OpMset [(PStr ''a'', PInt 1)] [] [],
      OpMget [''a'', ''b'', ''a''] [15495, 3300] [15495, 3300],
      OpDelete [''a'', ''b'', ''a''] [3300, 15495] [3300, 15495],
      OpClose,
      OpMget [''a'', ''b'', ''a''] [15495, 3300] [15495, 3300]]"

theorem cluster_is_one_map_witness:
  "fst (run_ops (cluster_step sample_env kv_server) sample_session
     (\<lparr>ro_connection = \<lparr>vc_regular = (), vc_urls = [], vc_tls = None\<rparr>, ro_url = [], ro_closed = False, ro_decode = None\<rparr>,
      Map.empty)) =
   [Inr PNone, Inl (type_error ''cannot be converted to Vec''),
    Inr (PList [PBytes ''3'', PBytes ''2'', PBytes ''3'']), Inr (PInt 2), Inr PNone, Inl closed_error]"
proof -
  let ?c = "\<lparr>ro_connection = \<lparr>vc_regular = (), vc_urls = [], vc_tls = None\<rparr>, ro_url = [], ro_closed = False, ro_decode = None\<rparr>"
  have "answers_cluster kv_server (\<lambda>db. db)" by (simp add: answers_cluster_def kv_server_def kv_answers)
  moreover have "list_all routable_op sample_session"
    by (simp add: routable_op_def plain_braces_def sample_session_def mset_pair_def slot_orders_def slots_ab insert_commute extract_bytes_def)
  ultimately have "map_prod id (map_prod ro_closed (\<lambda>db. db)) (run_ops (cluster_step sample_env kv_server) sample_session (?c, Map.empty)) =
      run_ops map_step sample_session (False, Map.empty)"
    using cluster_is_one_map [of kv_server "\<lambda>db. db" sample_session sample_env ?c Map.empty] by simp
  then have "fst (run_ops (cluster_step sample_env kv_server) sample_session (?c, Map.empty)) =
      fst (run_ops map_step sample_session (False, Map.empty))"
    by (metis fst_map_prod id_apply)
  also have "\<dots> = [Inr PNone, Inl (type_error ''cannot be converted to Vec''),
    Inr (PList [PBytes ''3'', PBytes ''2'', PBytes ''3'']), Inr (PInt 2), Inr PNone, Inl closed_error]"
    by (simp add: sample_session_def mset_pair_def extract_bytes_def py_opt_bytes_def opt_py_def Let_def)
  finally show ?thesis .
qed

end
