(* ===== verification/Coroutine.thy ===== *)
theory Coroutine
  imports Calls
begin

text \<open>
  The object an awaitable method returns (\<open>maybe_wrap\<close>, \<open>wrap_awaitable\<close> and
  \<open>DecoderClosure\<close> of \<open>facade/decode.rs\<close>): the \<open>RedisRsAwaitable\<close> itself, or with
  \<open>decode_responses\<close> the coroutine \<open>_wrap(awaitable, decoder)\<close>, which awaits it and decodes
  what comes.  \<open>rt_send\<close> is one \<open>send(None)\<close> of the task that awaits the object.

  It is shown that driving this object, poll by poll, gives what \<open>await_call\<close> of Calls says.  The
  last section is \<open>test_helpers.rs\<close>: awaitables in a given state of resolution.
\<close>

section \<open>Decoders\<close>

record decode_opts =
  do_encoding :: bytes
  do_errors :: bytes

text \<open>\<open>decoders enc err\<close> is \<open>bytes.decode(enc, err)\<close>.\<close>

definition decode_with :: "(bytes \<Rightarrow> bytes \<Rightarrow> codec) \<Rightarrow> decode_opts \<Rightarrow> codec" where
  "decode_with decoders opts = decoders (do_encoding opts) (do_errors opts)"

definition decoder_new :: "bytes \<Rightarrow> bytes \<Rightarrow> decode_opts" where
  "decoder_new encoding errors = \<lparr>do_encoding = encoding, do_errors = errors\<rparr>"

definition decoder_call :: "(bytes \<Rightarrow> bytes \<Rightarrow> codec) \<Rightarrow> decode_opts \<Rightarrow> pyval \<Rightarrow> pyval pyres" where
  "decoder_call decoders d v = decode_walk (decode_with decoders d) v"

definition py_decode_walk :: "(bytes \<Rightarrow> bytes \<Rightarrow> codec) \<Rightarrow> pyval \<Rightarrow> bytes \<Rightarrow> bytes \<Rightarrow> pyval pyres" where
  "py_decode_walk decoders v encoding errors = decode_walk (decode_with decoders (decoder_new encoding errors)) v"

text \<open>\<open>helper\<close>: the compiled \<open>_wrap\<close>, made once; \<open>build\<close> is what compiling it gives.\<close>

definition wrap_helper :: "'h pyres \<Rightarrow> 'h option \<Rightarrow> 'h pyres \<times> 'h option" where
  "wrap_helper build cell =
     (case cell of
        Some h \<Rightarrow> (Inr h, cell)
      | None \<Rightarrow> (case build of Inl e \<Rightarrow> (Inl e, None) | Inr h \<Rightarrow> (Inr h, Some h)))"

lemma wrap_helper_once:
  "wrap_helper build None = (Inr h, cell) \<Longrightarrow> wrap_helper build' cell = (Inr h, cell)"
  by (auto simp: wrap_helper_def split: sum.splits)

section \<open>The returned object\<close>

text \<open>\<open>rt_decoder\<close> is \<open>None\<close> for the bare awaitable; \<open>rt_finished\<close> is a coroutine that has
  returned or raised.\<close>

record returned =
  rt_decoder :: "(pyval \<Rightarrow> pyval pyres) option"
  rt_inner :: aw_sys
  rt_finished :: bool

definition wrap_awaitable :: "(bytes \<Rightarrow> bytes \<Rightarrow> codec) \<Rightarrow> aw_sys \<Rightarrow> decode_opts \<Rightarrow> returned" where
  "wrap_awaitable decoders a opts =
     \<lparr>rt_decoder = Some (decoder_call decoders (decoder_new (do_encoding opts) (do_errors opts))),
      rt_inner = a, rt_finished = False\<rparr>"

definition maybe_wrap :: "(bytes \<Rightarrow> bytes \<Rightarrow> codec) \<Rightarrow> decode_opts option \<Rightarrow> aw_sys \<Rightarrow> returned" where
  "maybe_wrap decoders decode a =
     (case decode of
        Some opts \<Rightarrow> wrap_awaitable decoders a opts
      | None \<Rightarrow> \<lparr>rt_decoder = None, rt_inner = a, rt_finished = False\<rparr>)"

text \<open>\<open>__await__\<close> and \<open>__iter__\<close> of \<open>RedisRsAwaitable\<close> return the object itself.\<close>

definition aw_await :: "aw_sys \<Rightarrow> aw_sys" where
  "aw_await s = s"

definition aw_iter :: "aw_sys \<Rightarrow> aw_sys" where
  "aw_iter s = s"

definition aw_loop :: "aw_sys \<Rightarrow> nat option" where
  "aw_loop s = map_option fst (aw_cb s)"

definition aw_is_cancelled :: "aw_sys \<Rightarrow> bool" where
  "aw_is_cancelled s = aw_cancelled s"

definition coroutine_reused :: pyerr where
  "coroutine_reused = PyErr PyRuntimeError ''cannot reuse already awaited coroutine''"

definition as_next :: "pyval pyres \<Rightarrow> next_result" where
  "as_next r = (case r of Inr v \<Rightarrow> StopIteration v | Inl e \<Rightarrow> Raise e)"

text \<open>\<open>result = await awaitable; return decoder(result)\<close>.\<close>

definition rt_send :: "bridge_env \<Rightarrow> pyerr + nat \<Rightarrow> returned \<Rightarrow> next_result \<times> returned" where
  "rt_send env loop w =
     (case rt_decoder w of
        None \<Rightarrow> (case aw_next env loop (rt_inner w) of (r, s) \<Rightarrow> (r, w\<lparr>rt_inner := s\<rparr>))
      | Some decoder \<Rightarrow>
          (if rt_finished w then (Raise coroutine_reused, w)
           else
             (case aw_next env loop (aw_iter (aw_await (rt_inner w))) of
                (StopIteration v, s) \<Rightarrow> (as_next (decoder v), w\<lparr>rt_inner := s, rt_finished := True\<rparr>)
              | (Raise e, s) \<Rightarrow> (Raise e, w\<lparr>rt_inner := s, rt_finished := True\<rparr>)
              | (yielded, s) \<Rightarrow> (yielded, w\<lparr>rt_inner := s\<rparr>))))"

fun rt_step :: "bridge_env \<Rightarrow> aw_event \<Rightarrow> returned \<Rightarrow> returned" where
  "rt_step env (ENext loop) w = snd (rt_send env loop w)"
| "rt_step env e w = w\<lparr>rt_inner := aw_step env e (rt_inner w)\<rparr>"

definition rt_run :: "bridge_env \<Rightarrow> aw_event list \<Rightarrow> returned \<Rightarrow> returned" where
  "rt_run env es w = fold (rt_step env) es w"

lemma rt_run_simps [simp]:
  "rt_run env [] w = w"
  "rt_run env (e # es) w = rt_run env es (rt_step env e w)"
  "rt_run env (es @ fs) w = rt_run env fs (rt_run env es w)"
  by (simp_all add: rt_run_def)

lemma maybe_wrap_simps [simp]:
  "rt_inner (maybe_wrap decoders decode a) = a" "\<not> rt_finished (maybe_wrap decoders decode a)"
  "rt_decoder (maybe_wrap decoders decode a) = map_option (\<lambda>opts. decode_walk (decode_with decoders opts)) decode"
  by (auto simp: maybe_wrap_def wrap_awaitable_def decoder_call_def [abs_def] decoder_new_def decode_with_def
      split: option.splits)

text \<open>Until the coroutine has finished it is in step with the awaitable inside it.\<close>

lemma rt_step_inner:
  "\<not> rt_finished w \<Longrightarrow> rt_inner (rt_step env e w) = aw_step env e (rt_inner w) \<and>
     rt_decoder (rt_step env e w) = rt_decoder w"
  by (cases e) (auto simp: rt_send_def aw_await_def aw_iter_def split: option.splits prod.splits next_result.splits)

lemma rt_step_finished: "rt_finished w \<Longrightarrow> rt_decoder (rt_step env e w) = rt_decoder w"
  by (cases e) (auto simp: rt_send_def split: option.splits prod.splits next_result.splits)

lemma rt_step_decoder [simp]: "rt_decoder (rt_step env e w) = rt_decoder w"
  using rt_step_inner rt_step_finished by blast

lemma rt_run_decoder [simp]: "rt_decoder (rt_run env es w) = rt_decoder w"
  by (induction es arbitrary: w) simp_all

definition rt_ok :: "bridge_env \<Rightarrow> returned \<Rightarrow> bool" where
  "rt_ok env w \<longleftrightarrow> aw_reachable env (rt_inner w)"

lemma rt_step_ok:
  assumes "rt_ok env w"
  shows "rt_ok env (rt_step env e w)"
proof -
  have "rt_inner (rt_step env e w) = rt_inner w \<or> rt_inner (rt_step env e w) = aw_step env e (rt_inner w)"
  proof (cases e)
    case (ENext loop)
    have "aw_step env (ENext loop) s = snd (aw_next env loop s)" for s by simp
    then show ?thesis
      unfolding ENext
      by (auto simp: rt_send_def aw_await_def aw_iter_def split: option.splits prod.splits next_result.splits)
  qed simp_all
  with assms show ?thesis by (auto simp: rt_ok_def intro: aw_reachable.step)
qed

lemma rt_run_ok: "rt_ok env w \<Longrightarrow> rt_ok env (rt_run env es w)"
  by (induction es arbitrary: w) (simp_all add: rt_step_ok)

lemma maybe_wrap_ok [simp]: "rt_ok env (maybe_wrap decoders decode aw_new)"
  by (simp add: rt_ok_def aw_reachable.start)

lemma rt_send_outcome:
  assumes "\<not> rt_finished w" "fst (aw_next env loop (rt_inner w)) = outcome env r"
    and "rt_decoder w = map_option decode_walk decode"
  shows "fst (rt_send env loop w) = as_next (fst (await_call env decode (Inr r, sent)))"
  using assms
  by (cases "into_py env r"; cases decode)
    (auto simp: rt_send_def outcome_def as_next_def await_call_def maybe_decode_def aw_await_def aw_iter_def
      split: prod.splits)

text \<open>(C3) What is awaited is what \<open>await_call\<close> says: from any state that polls, callbacks, cancellation
  and the background task can lead the returned object to, decoding or not, once the command's
  task has sent its result and unless the object has finished or given up its receiver, the next
  \<open>send\<close> after the background task's turn returns exactly the converted and decoded result,
  or raises the error of the command, of the conversion or of the decoding.\<close>
theorem returned_object_delivers:
  assumes "w = rt_run env es (maybe_wrap decoders decode aw_new)"
    and "\<not> rt_finished w" "\<not> aw_done (rt_inner w)" "sys_chan (rt_inner w) = ChSent r"
    and "aw_rx (rt_inner w) \<or> aw_cb (rt_inner w) \<noteq> None"
  shows "fst (rt_send env loop (rt_step env ETask w)) =
    as_next (fst (await_call env (map_option (decode_with decoders) decode) (Inr r, sent)))"
proof (rule rt_send_outcome)
  have "aw_reachable env (rt_inner w)"
    using rt_run_ok [OF maybe_wrap_ok, of env es decoders decode] assms(1) by (simp add: rt_ok_def)
  from sent_result_delivered [OF this assms(3-5), of loop]
  show "fst (aw_next env loop (rt_inner (rt_step env ETask w))) = outcome env r" by simp
  show "rt_decoder (rt_step env ETask w) = map_option decode_walk (map_option (decode_with decoders) decode)"
    using assms(1) by (simp add: option.map_comp comp_def)
qed (use assms(2) in simp)

section \<open>Whole calls\<close>

lemma waiting_returned:
  assumes "n \<le> 6"
  shows "\<not> rt_finished (rt_run env (replicate n (ENext (Inr l))) (maybe_wrap decoders decode aw_new)) \<and>
    rt_inner (rt_run env (replicate n (ENext (Inr l))) (maybe_wrap decoders decode aw_new)) =
      aw_run env (replicate n (ENext (Inr l))) aw_new"
  using assms
proof (induction n)
  case (Suc n)
  let ?w = "rt_run env (replicate n (ENext (Inr l))) (maybe_wrap decoders decode aw_new)"
  have more: "replicate (Suc n) x = replicate n x @ [x]" for x :: 'x
    by (simp add: replicate_append_same)
  have IH: "\<not> rt_finished ?w" "rt_inner ?w = aw_run env (replicate n (ENext (Inr l))) aw_new"
    using Suc by simp_all
  have y: "fst (aw_next env (Inr l) (rt_inner ?w)) \<in> {YieldNone, YieldSelf}"
    using awaitable_poll_protocol [of n env "Inr l"] Suc.prems IH(2) by simp
  have "\<not> rt_finished (rt_step env (ENext (Inr l)) ?w)"
    using IH(1) y
    by (auto simp: rt_send_def aw_await_def aw_iter_def split: option.splits prod.splits next_result.splits)
  moreover have "rt_inner (rt_step env (ENext (Inr l)) ?w) = aw_step env (ENext (Inr l)) (rt_inner ?w)"
    using rt_step_inner [OF IH(1)] by blast
  ultimately show ?case unfolding more rt_run_simps aw_run_append by (simp add: IH(2))
qed simp

text \<open>(C2) Awaiting a method of the awaitable class is calling its blocking twin: for every method whose
  two conversions of a reply fit together, with or without decoding, on an open or a closed client,
  and whenever the reply arrives (during the five busy polls or after the object has blocked),
  both send the same commands; when the arguments or the closed client make the call raise, both
  raise the same exception at once; otherwise awaiting the returned object gives the value or the
  exception of the blocking call.\<close>
theorem method_object_agrees:
  assumes "reply_at env conv raw" "n \<le> 6"
  shows "snd (async_call is_closed checked server post req raw) =
      snd (sync_call env (map_option (decode_with decoders) decode) is_closed checked server post req conv) \<and>
    (case fst (async_call is_closed checked server post req raw) of
       Inl e \<Rightarrow> fst (sync_call env (map_option (decode_with decoders) decode) is_closed checked server post req conv) = Inl e
     | Inr r \<Rightarrow>
         fst (rt_send env loop
           (rt_run env (replicate n (ENext (Inr l)) @ [ESend r, ETask]) (maybe_wrap decoders decode aw_new))) =
         as_next (fst (sync_call env (map_option (decode_with decoders) decode) is_closed checked server post req conv)))"
proof -
  let ?decode = "map_option (decode_with decoders) decode"
  let ?call = "async_call is_closed checked server post req raw"
  note agree = reply_at.agree [OF assms(1), of ?decode is_closed checked server post req]
  have sent: "snd ?call = snd (sync_call env ?decode is_closed checked server post req conv)"
    using arg_cong [OF agree, of snd] by (simp add: await_call_def)
  show ?thesis
  proof (cases "fst ?call")
    case (Inl e)
    then show ?thesis using sent arg_cong [OF agree, of fst] by (simp add: await_call_def)
  next
    case (Inr r)
    let ?w = "rt_run env (replicate n (ENext (Inr l))) (maybe_wrap decoders decode aw_new)"
    note w = waiting_returned [OF assms(2), of env l decoders decode]
    obtain "\<not> aw_done (rt_inner ?w)" "sys_chan (rt_inner ?w) = ChEmpty" "aw_rx (rt_inner ?w) \<or> aw_cb (rt_inner ?w) \<noteq> None"
      using waiting_state [OF assms(2), of env l] w by auto
    then have "fst (aw_next env loop (aw_step env ETask (aw_step env (ESend r) (rt_inner ?w)))) = outcome env r"
      using rt_step_ok [OF rt_run_ok [OF maybe_wrap_ok], of env "ESend r" "replicate n (ENext (Inr l))" decoders decode]
      by (intro conjunct1 [OF sent_result_delivered]) (auto simp: rt_ok_def aw_done_def)
    then have "fst (rt_send env loop (rt_run env (replicate n (ENext (Inr l)) @ [ESend r, ETask]) (maybe_wrap decoders decode aw_new))) =
        as_next (fst (await_call env ?decode (Inr r, snd ?call)))"
      using w by (intro rt_send_outcome) (simp_all add: option.map_comp comp_def)
    moreover have "?call = (Inr r, snd ?call)" using Inr by (simp add: prod_eq_iff)
    ultimately show ?thesis using sent Inr agree by simp
  qed
qed

text \<open>A method with an integer reply.\<close>

lemma integer_replies: "reply_at env (\<lambda>n. Inr (PInt (sint n))) (\<lambda>r. case r of Inl e \<Rightarrow> classify e | Inr n \<Rightarrow> RInt n)"
  by unfold_locales simp_all

abbreviation sample_wrapped :: returned where
  "sample_wrapped \<equiv> maybe_wrap (\<lambda>_ _ b. Inr b) (Some \<lparr>do_encoding = ''utf-8'', do_errors = ''strict''\<rparr>) aw_new"

theorem returned_object_delivers_witness:
  "fst (rt_send sample_env (Inr 1) (rt_step sample_env ETask
     (rt_run sample_env [ENext (Inr 1), ESend (ROptBytes (Some ''v''))] sample_wrapped))) = StopIteration (PStr ''v'')"
proof -
  let ?w = "rt_run sample_env [ENext (Inr 1), ESend (ROptBytes (Some ''v''))] sample_wrapped"
  have w: "\<not> rt_finished ?w" "\<not> aw_done (rt_inner ?w)" "sys_chan (rt_inner ?w) = ChSent (ROptBytes (Some ''v''))"
    "aw_rx (rt_inner ?w) \<or> aw_cb (rt_inner ?w) \<noteq> None"
    by (simp_all add: rt_send_def aw_await_def aw_iter_def aw_next_def try_recv_def poll_or_block_def aw_new_def aw_done_def)
  show ?thesis
    using returned_object_delivers [OF refl w, of "Inr 1" "[]"]
    by (simp add: await_call_def as_next_def maybe_decode_def decode_with_def opt_py_def)
qed

theorem method_object_agrees_witness:
  "fst (rt_send sample_env (Inr 1)
     (rt_run sample_env (replicate 6 (ENext (Inr 1)) @ [ESend (RInt 5), ETask]) sample_wrapped)) = StopIteration (PInt 5)"
  using method_object_agrees [OF integer_replies, where n = 6 and env = sample_env and is_closed = False and checked = "Inr ()"
      and server = "\<lambda>_. Inr (5 :: i64)" and post = "\<lambda>n. n" and req = "\<lambda>_. Dispatch (Cmd ''INCR'' [AStr ''n''])" and l = 1
      and decode = "Some \<lparr>do_encoding = ''utf-8'', do_errors = ''strict''\<rparr>" and decoders = "\<lambda>_ _ b. Inr b" and loop = "Inr 1"]
  by (simp add: async_call_def sync_call_def run_request_def maybe_decode_def as_next_def del: rt_run_simps)

section \<open>Awaiting twice\<close>

lemma poll_not_stop: "fst (poll_or_block loop s) \<noteq> StopIteration v"
  by (auto simp: poll_or_block_def Let_def split: sum.split)

lemma deliver_stop:
  "outcome env r = StopIteration v \<Longrightarrow> aw_value (snd (deliver env r s)) = Some v \<and> aw_resolved (snd (deliver env r s)) \<and>
     aw_cancelled (snd (deliver env r s)) = aw_cancelled s"
  by (auto simp: outcome_def deliver_def deliver_value_def split: sum.splits)

lemma next_stop:
  assumes "fst (aw_next env loop s) = StopIteration v"
  shows "aw_value (snd (aw_next env loop s)) = Some v \<and> aw_resolved (snd (aw_next env loop s)) \<and>
    \<not> aw_cancelled (snd (aw_next env loop s))"
proof (cases "aw_cancelled s \<or> aw_resolved s")
  case True
  then show ?thesis using assms by (auto simp: aw_next_def split: option.splits if_splits)
next
  case False
  show ?thesis
  proof (cases "aw_cb s \<noteq> None \<and> sys_slot s \<noteq> None")
    case True
    then show ?thesis
      using assms False
      by (auto simp: aw_next_def Let_def deliver_stop deliver_error_def split: option.splits sum.splits)
  next
    case no_slot: False
    then have "aw_next env loop s = try_recv env loop s"
      using False by (auto simp: aw_next_def split: option.splits)
    then show ?thesis
      using assms False
      by (auto simp: try_recv_def poll_not_stop deliver_stop deliver_error_def split: if_splits channel.splits)
  qed
qed

text \<open>Once delivered, a bare awaitable gives its value again, and the coroutine of a decoding client
  raises.\<close>

lemma awaited_twice:
  assumes "fst (rt_send env loop w) = StopIteration v" "rt_ok env w"
  shows "fst (rt_send env loop (snd (rt_send env loop w))) =
    (case rt_decoder w of None \<Rightarrow> StopIteration v | Some _ \<Rightarrow> Raise coroutine_reused)"
proof (cases "rt_decoder w")
  case None
  let ?t = "snd (aw_next env loop (rt_inner w))"
  have "fst (aw_next env loop (rt_inner w)) = StopIteration v"
    using assms(1) None by (simp add: rt_send_def split: prod.splits)
  note t = next_stop [OF this]
  have "aw_inv env ?t" using assms(2) by (simp add: rt_ok_def reachable_aw_inv aw_next_inv)
  then have "aw_error ?t = None" using t by (auto simp: aw_inv_def delivered_ok_def split: option.splits)
  with t have "fst (aw_next env loop ?t) = StopIteration v" by (simp add: aw_next_def)
  with None show ?thesis by (simp add: rt_send_def case_prod_beta)
next
  case (Some d)
  have "rt_finished (snd (rt_send env loop w))"
    using assms(1) Some
    by (auto simp: rt_send_def split: prod.splits next_result.splits if_splits)
  moreover have "rt_decoder (snd (rt_send env loop w)) = Some d"
    using Some rt_step_decoder [of env "ENext loop" w] by simp
  ultimately show ?thesis using Some by (simp add: rt_send_def)
qed

section \<open>Test helpers\<close>

definition test_resolved_bytes :: "bytes \<Rightarrow> aw_sys" where
  "test_resolved_bytes b = aw_new\<lparr>sys_chan := ChSent (ROptBytes (Some b))\<rparr>"

definition test_resolved_none :: aw_sys where
  "test_resolved_none = aw_new\<lparr>sys_chan := ChSent (ROptBytes None)\<rparr>"

definition test_resolved_int :: "i64 \<Rightarrow> aw_sys" where
  "test_resolved_int n = aw_new\<lparr>sys_chan := ChSent (RInt n)\<rparr>"

text \<open>As it is \<open>elapsed\<close> milliseconds after the call, if nobody has polled it.\<close>

definition test_delayed_bytes :: "bytes \<Rightarrow> u64 \<Rightarrow> nat \<Rightarrow> aw_sys" where
  "test_delayed_bytes b delay_ms elapsed =
     (if unat delay_ms \<le> elapsed then aw_new\<lparr>sys_chan := ChSent (ROptBytes (Some b))\<rparr> else aw_new)"

definition test_pending :: aw_sys where
  "test_pending = aw_new"

definition test_dropped :: aw_sys where
  "test_dropped = aw_new\<lparr>sys_chan := ChClosed\<rparr>"

definition test_error :: "bytes \<Rightarrow> aw_sys" where
  "test_error msg = aw_new\<lparr>sys_chan := ChSent (RError EcConnectionError msg)\<rparr>"

definition test_server_error :: "bytes \<Rightarrow> aw_sys" where
  "test_server_error msg = aw_new\<lparr>sys_chan := ChSent (RError EcResponseError msg)\<rparr>"

text \<open>What the first poll of each gives; the pending one never gives anything.\<close>

lemma test_awaitables:
  "fst (aw_next env loop (test_resolved_bytes b)) = StopIteration (PBytes b)"
  "fst (aw_next env loop test_resolved_none) = StopIteration PNone"
  "fst (aw_next env loop (test_resolved_int n)) = StopIteration (PInt (sint n))"
  "fst (aw_next env loop (test_delayed_bytes b d t)) = (if unat d \<le> t then StopIteration (PBytes b) else YieldNone)"
  "fst (aw_next env loop test_dropped) = Raise operation_dropped"
  "fst (aw_next env loop (test_error msg)) = Raise (PyErr ConnectionError msg)"
  "fst (aw_next env loop (test_server_error msg)) = Raise (PyErr ResponseError msg)"
  by (simp_all add: test_resolved_bytes_def test_resolved_none_def test_resolved_int_def test_delayed_bytes_def
      test_dropped_def test_error_def test_server_error_def aw_next_def try_recv_def poll_or_block_def aw_new_def
      outcome_def opt_py_def deliver_error_def)

lemma test_pending_never:
  "n \<le> 6 \<Longrightarrow> \<not> aw_done (aw_run env (replicate n (ENext (Inr l))) test_pending)"
  using waiting_state [of n env l] by (auto simp: test_pending_def)

end
