(* ===== verification/Optimistic.thy ===== *)
theory Optimistic
  imports Pipeline
begin

text \<open>
  Optimistic locking end to end: any number of clients run the read-modify-write transaction
  that \<open>transaction()\<close> is for (WATCH a key, read it, MULTI, queue a SET of the new value,
  execute) with the operations of \<open>Pipeline\<close>, their steps interleaved in any order with each
  other and with other traffic.

  The server is a parameter, \<open>serve\<close>: for a client and a message of \<open>wire\<close>, the reply (or
  the error of a lost connection) and the state it is left with.  \<open>optimistic_server\<close> says what
  Redis documents for these messages, in terms of the stored values, of how often each key has
  been modified, and of what a connection has seen of the keys it watches.  \<open>hear\<close> makes the
  \<open>net\<close> of an operation the server's answers to the messages the operation sends.
\<close>

section \<open>A server behind the pipelines\<close>

type_synonym 'db server = "nat \<Rightarrow> wire \<Rightarrow> 'db \<Rightarrow> (redis_error + redis_value) \<times> 'db"

definition left_of :: "'e + 'a \<Rightarrow> 'e option" where
  "left_of r = (case r of Inl e \<Rightarrow> Some e | Inr _ \<Rightarrow> None)"

text \<open>\<open>reply_heard\<close>: the outcome the network model gives for a message is the server's reply to it.\<close>

fun reply_heard :: "net \<Rightarrow> wire \<Rightarrow> redis_error + redis_value \<Rightarrow> bool" where
  "reply_heard net (WReserve i) r = True"
| "reply_heard net (WCmd i (name, args)) r =
     (if name = ''WATCH'' then net_watch net = left_of r
      else if name = ''UNWATCH'' then net_unwatch net = left_of r
      else net_immediate net = r)"
| "reply_heard net (WAtomic i block) r = (net_exec net = r)"
| "reply_heard net (WPipe tx block) r =
     (case net_pipe net of Inl e \<Rightarrow> r = Inl e | Inr vs \<Rightarrow> r = Inr (VArray vs))"

fun hear :: "'db server \<Rightarrow> nat \<Rightarrow> net \<Rightarrow> wire list \<Rightarrow> 'db \<Rightarrow> 'db option" where
  "hear serve c net [] db = Some db"
| "hear serve c net (m # ms) db =
     (case serve c m db of (r, db) \<Rightarrow> if reply_heard net m r then hear serve c net ms db else None)"

definition stored_reply :: "bytes option \<Rightarrow> redis_value" where
  "stored_reply v = (case v of None \<Rightarrow> VNil | Some b \<Rightarrow> VBulkString b)"

text \<open>A connection is a client with the number of the reserved connection.  EXEC does nothing and
  answers nil when a watched key has been modified since it was watched; otherwise it runs the
  block.  A reply may be lost, whether or not the block has run.\<close>

definition untouched :: "('db \<Rightarrow> bytes \<Rightarrow> bytes option) \<Rightarrow> ('db \<Rightarrow> bytes \<Rightarrow> nat) \<Rightarrow> 'db \<Rightarrow> 'db \<Rightarrow> bool" where
  "untouched lookup version db db' \<longleftrightarrow> lookup db' = lookup db \<and> version db' = version db"

definition stored_by_set ::
  "('db \<Rightarrow> bytes \<Rightarrow> bytes option) \<Rightarrow> ('db \<Rightarrow> bytes \<Rightarrow> nat) \<Rightarrow> bytes \<Rightarrow> bytes \<Rightarrow> 'db \<Rightarrow> 'db \<Rightarrow> bool" where
  "stored_by_set lookup version k v db db' \<longleftrightarrow>
     lookup db' = (lookup db)(k \<mapsto> v) \<and> version db' = (version db)(k := Suc (version db k))"

definition unmodified :: "('db \<Rightarrow> bytes \<Rightarrow> nat) \<Rightarrow> ('db \<Rightarrow> nat \<times> nat \<Rightarrow> bytes \<Rightarrow> nat option) \<Rightarrow> nat \<times> nat \<Rightarrow> 'db \<Rightarrow> bool" where
  "unmodified version seen conn db \<longleftrightarrow> (\<forall>k n. seen db conn k = Some n \<longrightarrow> version db k = n)"

definition exec_law ::
  "('db \<Rightarrow> bytes \<Rightarrow> bytes option) \<Rightarrow> ('db \<Rightarrow> bytes \<Rightarrow> nat) \<Rightarrow> ('db \<Rightarrow> nat \<times> nat \<Rightarrow> bytes \<Rightarrow> nat option) \<Rightarrow>
   nat \<times> nat \<Rightarrow> bytes \<Rightarrow> bytes \<Rightarrow> 'db \<Rightarrow> redis_error + redis_value \<Rightarrow> 'db \<Rightarrow> bool" where
  "exec_law lookup version seen conn k v db r db' \<longleftrightarrow>
     (case r of
        Inr VNil \<Rightarrow> \<not> unmodified version seen conn db \<and> untouched lookup version db db'
      | Inr (VArray items) \<Rightarrow>
          unmodified version seen conn db \<and>
          (items = [VOkay] \<and> stored_by_set lookup version k v db db' \<or>
           (\<exists>e. items = [VServerError e]) \<and> untouched lookup version db db')
      | _ \<Rightarrow> untouched lookup version db db' \<or>
          unmodified version seen conn db \<and> stored_by_set lookup version k v db db')"

definition optimistic_server ::
  "'db server \<Rightarrow> ('db \<Rightarrow> bytes \<Rightarrow> bytes option) \<Rightarrow> ('db \<Rightarrow> bytes \<Rightarrow> nat) \<Rightarrow>
   ('db \<Rightarrow> nat \<times> nat \<Rightarrow> bytes \<Rightarrow> nat option) \<Rightarrow> bool" where
  "optimistic_server serve lookup version seen \<longleftrightarrow>
     (\<forall>c i db r db'. serve c (WReserve i) db = (r, db') \<longrightarrow>
        untouched lookup version db db' \<and> seen db' (c, i) = Map.empty) \<and>
     (\<forall>c i k db r db'. serve c (WCmd i (''WATCH'', [k])) db = (r, db') \<longrightarrow>
        untouched lookup version db db' \<and>
        (\<not> isl r \<longrightarrow> seen db' (c, i) = [k \<mapsto> version db k] ++ seen db (c, i))) \<and>
     (\<forall>c i k db r db'. serve c (WCmd i (''GET'', [k])) db = (r, db') \<longrightarrow>
        untouched lookup version db db' \<and> seen db' = seen db \<and>
        (\<forall>v. r = Inr v \<longrightarrow> v = stored_reply (lookup db k))) \<and>
     (\<forall>c i db r db'. serve c (WCmd i (''UNWATCH'', [])) db = (r, db') \<longrightarrow> untouched lookup version db db') \<and>
     (\<forall>c i k v db r db'. serve c (WAtomic i [(''SET'', [k, v])]) db = (r, db') \<longrightarrow>
        exec_law lookup version seen (c, i) k v db r db') \<and>
     (\<forall>c m db r db' c' i. serve c m db = (r, db') \<longrightarrow> c' \<noteq> c \<longrightarrow> seen db' (c', i) = seen db (c', i))"

section \<open>The transaction of a client\<close>

datatype phase = Idle | Watching | HasRead pyval | InMulti pyval | Queued pyval | Ending

fun next_event :: "bytes \<Rightarrow> (pyval \<Rightarrow> bytes) \<Rightarrow> phase \<Rightarrow> pl_event" where
  "next_event key f Idle = PlWatch [key]"
| "next_event key f Watching = PlCommand (''GET'', [key])"
| "next_event key f (HasRead v) = PlMulti"
| "next_event key f (InMulti v) = PlCommand (''SET'', [key, f v])"
| "next_event key f (Queued v) = PlExecute"
| "next_event key f Ending = PlReset"

fun next_phase :: "phase \<Rightarrow> pyval pyres \<Rightarrow> phase" where
  "next_phase Ending r = Idle"
| "next_phase ph (Inl e) = Ending"
| "next_phase Idle (Inr v) = Watching"
| "next_phase Watching (Inr v) = HasRead v"
| "next_phase (HasRead v) (Inr w) = InMulti v"
| "next_phase (InMulti v) (Inr w) = Queued v"
| "next_phase (Queued v) (Inr w) = Ending"

text \<open>The same transaction as a function for \<open>transaction()\<close>, and as its steps.\<close>

definition update_func :: "bridge_env \<Rightarrow> net \<Rightarrow> bytes \<Rightarrow> (pyval \<Rightarrow> bytes) \<Rightarrow> pipe_sys \<Rightarrow> pyval pyres \<times> pipe_sys" where
  "update_func env net key f s =
     (case buf_or_dispatch env net (''GET'', [key]) s of
        (Inl e, s) \<Rightarrow> (Inl e, s)
      | (Inr v, s) \<Rightarrow>
          (case multi s of
             (Inl e, s) \<Rightarrow> (Inl e, s)
           | (Inr _, s) \<Rightarrow> buf_or_dispatch env net (''SET'', [key, f v]) s))"

fun run_phases ::
  "bridge_env \<Rightarrow> net \<Rightarrow> bytes \<Rightarrow> (pyval \<Rightarrow> bytes) \<Rightarrow> nat \<Rightarrow> phase \<Rightarrow> pipe_sys \<Rightarrow> (pyval pyres \<times> pipe_sys) option" where
  "run_phases env net key f 0 ph s = None"
| "run_phases env net key f (Suc n) ph s =
     (case pl_step env net (next_event key f ph) s of
        (r, s) \<Rightarrow> if next_phase ph r = Ending then Some (r, s) else run_phases env net key f n (next_phase ph r) s)"

lemma run_phases_Suc:
  "pl_step env net (next_event key f ph) s = (r, t) \<Longrightarrow>
   run_phases env net key f (Suc n) ph s =
     (if next_phase ph r = Ending then Some (r, t) else run_phases env net key f n (next_phase ph r) t)"
  by simp

lemma update_phases:
  "map_option fst (run_phases env net key f 4 Watching s) =
     Some (case update_func env net key f s of (Inl e, s) \<Rightarrow> Inl e | (Inr v, s) \<Rightarrow> fst (execute env net s)) \<and>
   map_option snd (run_phases env net key f 4 Watching s) =
     Some (case update_func env net key f s of (Inl e, s) \<Rightarrow> s | (Inr v, s) \<Rightarrow> snd (execute env net s))"
proof -
  obtain g s1 where 1: "buf_or_dispatch env net (''GET'', [key]) s = (g, s1)" by fastforce
  obtain m s2 where 2: "multi s1 = (m, s2)" by fastforce
  show ?thesis
  proof (cases "isl g \<or> isl m")
    case True
    then show ?thesis by (cases g; cases m) (simp_all add: update_func_def eval_nat_numeral 1 2)
  next
    case False
    then obtain v x where v: "g = Inr v" "m = Inr x" by (cases g; cases m) auto
    obtain q s3 where 3: "buf_or_dispatch env net (''SET'', [key, f v]) s2 = (q, s3)" by fastforce
    obtain r s4 where 4: "execute env net s3 = (r, s4)" by fastforce
    show ?thesis
      by (cases q; cases r) (simp_all add: update_func_def eval_nat_numeral 1 2 3 4 v)
  qed
qed

text \<open>The steps taken one after the other are an attempt of \<open>transaction()\<close> with this function.\<close>

lemma attempt_runs_phases:
  "map_option (\<lambda>(r, s). (r, release_reserved net s)) (run_phases env net key f 5 Idle (pipeline_new kind True)) =
   Some (run_attempt env kind [key] False \<lparr>at_net = net, at_func = update_func env net key f\<rparr>)"
proof -
  obtain w s where w: "watch env net [key] (pipeline_new kind True) = (w, s)" by fastforce
  obtain r t where r: "run_phases env net key f 4 Watching s = Some (r, t)"
    using update_phases [of env net key f s] by auto
  have "run_phases env net key f 5 Idle (pipeline_new kind True) =
      (case w of Inl e \<Rightarrow> Some (w, s) | Inr _ \<Rightarrow> Some (r, t))"
    using run_phases_Suc [of env net key f Idle "pipeline_new kind True" w s 4] r
    by (cases w) (simp_all add: w)
  then show ?thesis
    using update_phases [of env net key f s] r
    by (auto simp: run_attempt_def w split: sum.splits prod.splits)
qed

section \<open>Interleaved transactions\<close>

text \<open>\<open>op_done\<close> counts the executes that returned a value, \<open>op_aborted\<close> the ones that raised
  \<open>WatchError\<close> and \<open>op_failed\<close> those that raised anything else.\<close>

record 'db opt_sys =
  op_db :: 'db
  op_pipe :: "nat \<Rightarrow> pipe_sys"
  op_phase :: "nat \<Rightarrow> phase"
  op_done :: nat
  op_aborted :: nat
  op_failed :: nat

definition executed :: "phase \<Rightarrow> pyval pyres \<Rightarrow> 'db opt_sys \<Rightarrow> 'db opt_sys" where
  "executed ph r s =
     (case ph of
        Queued v \<Rightarrow>
          (if retryable r then s\<lparr>op_aborted := op_aborted s + 1\<rparr>
           else if isl r then s\<lparr>op_failed := op_failed s + 1\<rparr>
           else s\<lparr>op_done := op_done s + 1\<rparr>)
      | _ \<Rightarrow> s)"

text \<open>A client makes its next call, with the answers of the server; after the reset of an attempt it
  starts the next one on a new pipeline.\<close>

definition opt_call ::
  "bridge_env \<Rightarrow> 'db server \<Rightarrow> topology \<Rightarrow> bytes \<Rightarrow> (pyval \<Rightarrow> bytes) \<Rightarrow> nat \<Rightarrow> net \<Rightarrow> 'db opt_sys \<Rightarrow> 'db opt_sys option" where
  "opt_call env serve kind key f c net s =
     (case pl_step env net (next_event key f (op_phase s c)) (op_pipe s c) of
        (r, p) \<Rightarrow>
          map_option (\<lambda>db. (executed (op_phase s c) r s)
            \<lparr>op_db := db,
             op_pipe := (op_pipe s)(c := if op_phase s c = Ending then pipeline_new kind True else p),
             op_phase := (op_phase s)(c := next_phase (op_phase s c) r)\<rparr>)
          (hear serve c net (drop (length (wire_log (op_pipe s c))) (wire_log p)) (op_db s)))"

inductive opt_step ::
  "bridge_env \<Rightarrow> 'db server \<Rightarrow> ('db \<Rightarrow> 'db \<Rightarrow> bool) \<Rightarrow> topology \<Rightarrow> bytes \<Rightarrow> (pyval \<Rightarrow> bytes) \<Rightarrow> nat \<Rightarrow>
   'db opt_sys \<Rightarrow> 'db opt_sys \<Rightarrow> bool" for env serve outside kind key f clients where
  call: "c < clients \<Longrightarrow> opt_call env serve kind key f c net s = Some t \<Longrightarrow>
    opt_step env serve outside kind key f clients s t"
| other: "outside (op_db s) db \<Longrightarrow>
    opt_step env serve outside kind key f clients s (s\<lparr>op_db := db\<rparr>)"

definition opt_start :: "topology \<Rightarrow> 'db \<Rightarrow> 'db opt_sys" where
  "opt_start kind db = \<lparr>op_db = db, op_pipe = (\<lambda>_. pipeline_new kind True), op_phase = (\<lambda>_. Idle),
     op_done = 0, op_aborted = 0, op_failed = 0\<rparr>"

inductive opt_reachable ::
  "bridge_env \<Rightarrow> 'db server \<Rightarrow> ('db \<Rightarrow> 'db \<Rightarrow> bool) \<Rightarrow> topology \<Rightarrow> bytes \<Rightarrow> (pyval \<Rightarrow> bytes) \<Rightarrow> nat \<Rightarrow> 'db \<Rightarrow>
   'db opt_sys \<Rightarrow> bool" for env serve outside kind key f clients db where
  start: "opt_reachable env serve outside kind key f clients db (opt_start kind db)"
| step: "opt_reachable env serve outside kind key f clients db s \<Longrightarrow>
    opt_step env serve outside kind key f clients s t \<Longrightarrow>
    opt_reachable env serve outside kind key f clients db t"

text \<open>Other traffic does not touch what the clients' connections have seen, and modifies a key only
  with a new version of it; or it leaves the key alone.\<close>

definition keeps_versions ::
  "('db \<Rightarrow> 'db \<Rightarrow> bool) \<Rightarrow> ('db \<Rightarrow> bytes \<Rightarrow> bytes option) \<Rightarrow> ('db \<Rightarrow> bytes \<Rightarrow> nat) \<Rightarrow>
   ('db \<Rightarrow> nat \<times> nat \<Rightarrow> bytes \<Rightarrow> nat option) \<Rightarrow> bytes \<Rightarrow> bool" where
  "keeps_versions outside lookup version seen key \<longleftrightarrow>
     (\<forall>db db'. outside db db' \<longrightarrow>
        seen db' = seen db \<and> version db key \<le> version db' key \<and>
        (version db' key = version db key \<longrightarrow> lookup db' key = lookup db key))"

definition leaves_key ::
  "('db \<Rightarrow> 'db \<Rightarrow> bool) \<Rightarrow> ('db \<Rightarrow> bytes \<Rightarrow> bytes option) \<Rightarrow> ('db \<Rightarrow> bytes \<Rightarrow> nat) \<Rightarrow>
   ('db \<Rightarrow> nat \<times> nat \<Rightarrow> bytes \<Rightarrow> nat option) \<Rightarrow> bytes \<Rightarrow> bool" where
  "leaves_key outside lookup version seen key \<longleftrightarrow>
     (\<forall>db db'. outside db db' \<longrightarrow>
        lookup db' key = lookup db key \<and> version db' key = version db key \<and> seen db' = seen db)"

lemma leaves_keeps:
  "leaves_key outside lookup version seen key \<Longrightarrow> keeps_versions outside lookup version seen key"
  by (simp add: leaves_key_def keeps_versions_def)

section \<open>Invariant\<close>

definition watched_pipe :: "topology \<Rightarrow> bytes \<Rightarrow> wire list \<Rightarrow> bool \<Rightarrow> buffered_cmd list \<Rightarrow> pipe_sys" where
  "watched_pipe kind key sent explicit cs =
     (pipeline_new kind True)
       \<lparr>commands := cs, watched_keys := [key], explicit_transaction := explicit, watching := True,
        reserved := Some \<lparr>rc_id = 0, rc_watched = True\<rparr>,
        wire_log := WReserve 0 # WCmd 0 (''WATCH'', [key]) # sent, next_conn := 1\<rparr>"

text \<open>The pipeline of a client in a phase, and the value it has read.\<close>

fun phase_pipe :: "topology \<Rightarrow> bytes \<Rightarrow> (pyval \<Rightarrow> bytes) \<Rightarrow> phase \<Rightarrow> pipe_sys option" where
  "phase_pipe kind key f Idle = Some (pipeline_new kind True)"
| "phase_pipe kind key f Watching = Some (watched_pipe kind key [] False [])"
| "phase_pipe kind key f (HasRead v) = Some (watched_pipe kind key [WCmd 0 (''GET'', [key])] False [])"
| "phase_pipe kind key f (InMulti v) = Some (watched_pipe kind key [WCmd 0 (''GET'', [key])] True [])"
| "phase_pipe kind key f (Queued v) =
     Some (watched_pipe kind key [WCmd 0 (''GET'', [key])] True [(''SET'', [key, f v])])"
| "phase_pipe kind key f Ending = None"

fun phase_value :: "phase \<Rightarrow> pyval option" where
  "phase_value (HasRead v) = Some v"
| "phase_value (InMulti v) = Some v"
| "phase_value (Queued v) = Some v"
| "phase_value _ = None"

fun in_watch :: "phase \<Rightarrow> bool" where
  "in_watch Idle = False"
| "in_watch Ending = False"
| "in_watch _ = True"

text \<open>What a client relies on: its connection watches the key alone, and unless the key has been
  modified since, the value it has read is the stored one.\<close>

definition read_ok :: "bytes \<Rightarrow> phase \<Rightarrow> (bytes \<Rightarrow> nat option) \<Rightarrow> nat \<Rightarrow> bytes option \<Rightarrow> bool" where
  "read_ok key ph m n stored \<longleftrightarrow>
     (in_watch ph \<longrightarrow>
       (\<exists>k \<le> n. m = [key \<mapsto> k] \<and> (\<forall>v. k = n \<longrightarrow> phase_value ph = Some v \<longrightarrow> v = opt_py PBytes stored)))"

definition client_ok ::
  "topology \<Rightarrow> bytes \<Rightarrow> (pyval \<Rightarrow> bytes) \<Rightarrow> phase \<Rightarrow> pipe_sys \<Rightarrow> bool" where
  "client_ok kind key f ph p \<longleftrightarrow> (\<forall>q. phase_pipe kind key f ph = Some q \<longrightarrow> p = q)"

definition stale :: "bytes \<Rightarrow> phase \<Rightarrow> (bytes \<Rightarrow> nat option) \<Rightarrow> nat \<Rightarrow> bool" where
  "stale key ph m n \<longleftrightarrow> in_watch ph \<and> m key \<noteq> Some n"

lemmas opt_client_defs = read_ok_def client_ok_def stale_def watched_pipe_def pipeline_new_def

lemma watched_pipe_log [simp]:
  "wire_log (watched_pipe kind key sent explicit cs) = WReserve 0 # WCmd 0 (''WATCH'', [key]) # sent"
  by (simp add: watched_pipe_def)

lemma to_err_not_watch: "\<not> issubclass (err_class (to_err env e)) WatchError"
proof -
  have server: "classify_server_kind k \<noteq> Some EcWatchError" for k by (cases k) simp_all
  have code: "classify_code k \<noteq> Some EcWatchError" for k using classify_code_cases [of k] by auto
  have "classify_error e \<noteq> EcWatchError"
    by (auto simp: classify_error_def server code split: option.splits error_kind.splits)
  then show ?thesis
    unfolding to_py_err_def
    by (cases "classify_error e") (simp_all add: raise_defs issubclass_def eval_nat_numeral)
qed

text \<open>The server's laws, one message at a time.\<close>

lemma server_laws:
  assumes "optimistic_server serve lookup version seen"
  shows server_reserve: "serve c (WReserve i) db = (r, db') \<Longrightarrow>
      untouched lookup version db db' \<and> seen db' (c, i) = Map.empty"
    and server_watch: "serve c (WCmd i (''WATCH'', [k])) db = (r, db') \<Longrightarrow>
      untouched lookup version db db' \<and>
      (\<not> isl r \<longrightarrow> seen db' (c, i) = [k \<mapsto> version db k] ++ seen db (c, i))"
    and server_get: "serve c (WCmd i (''GET'', [k])) db = (r, db') \<Longrightarrow>
      untouched lookup version db db' \<and> seen db' = seen db \<and>
      (\<forall>v. r = Inr v \<longrightarrow> v = stored_reply (lookup db k))"
    and server_unwatch: "serve c (WCmd i (''UNWATCH'', [])) db = (r, db') \<Longrightarrow> untouched lookup version db db'"
    and server_exec: "serve c (WAtomic i [(''SET'', [k, v])]) db = (r, db') \<Longrightarrow>
      exec_law lookup version seen (c, i) k v db r db'"
    and server_others: "serve c m db = (r, db') \<Longrightarrow> c' \<noteq> c \<Longrightarrow> seen db' (c', i) = seen db (c', i)"
  using assms unfolding optimistic_server_def by (elim conjE; metis)+

lemma hear_others:
  assumes "optimistic_server serve lookup version seen" "c' \<noteq> c"
  shows "hear serve c net ms db = Some db' \<Longrightarrow> seen db' (c', i) = seen db (c', i)"
proof (induction ms arbitrary: db)
  case (Cons m ms)
  obtain r db1 where "serve c m db = (r, db1)" by fastforce
  with Cons show ?case using server_others [OF assms(1), of c m db r db1 c' i] assms(2) by (auto split: if_splits)
qed simp

lemma untouched_trans:
  "untouched lookup version a b \<Longrightarrow> untouched lookup version b c \<Longrightarrow> untouched lookup version a c"
  by (simp add: untouched_def)

lemma untouched_refl [simp]: "untouched lookup version a a"
  by (simp add: untouched_def)

section \<open>One call of a client\<close>

definition quiet :: "('db \<Rightarrow> bytes \<Rightarrow> bytes option) \<Rightarrow> ('db \<Rightarrow> bytes \<Rightarrow> nat) \<Rightarrow> bytes \<Rightarrow> 'db \<Rightarrow> 'db \<Rightarrow> bool" where
  "quiet lookup version key db db' \<longleftrightarrow> lookup db' key = lookup db key \<and> version db' key = version db key"

text \<open>\<open>committed\<close>: the update was made from the value stored just before.\<close>

definition committed ::
  "('db \<Rightarrow> bytes \<Rightarrow> bytes option) \<Rightarrow> ('db \<Rightarrow> bytes \<Rightarrow> nat) \<Rightarrow> bytes \<Rightarrow> (pyval \<Rightarrow> bytes) \<Rightarrow> 'db \<Rightarrow> 'db \<Rightarrow> bool" where
  "committed lookup version key f db db' \<longleftrightarrow>
     lookup db' key = Some (f (opt_py PBytes (lookup db key))) \<and> version db' key = Suc (version db key)"

lemma untouched_quiet: "untouched lookup version db db' \<Longrightarrow> quiet lookup version key db db'"
  by (simp add: untouched_def quiet_def)

lemma hear_single:
  "hear serve c net [m] db = Some db' \<Longrightarrow> \<exists>r. serve c m db = (r, db') \<and> reply_heard net m r"
  by (auto split: prod.splits if_splits)

lemma idle_call:
  assumes s: "optimistic_server serve lookup version seen"
    and step: "pl_step env net (PlWatch [key]) (pipeline_new kind True) = (r, p)"
    and hear: "hear serve c net (wire_log p) db = Some db'"
  shows "quiet lookup version key db db' \<and> client_ok kind key f (next_phase Idle r) p \<and>
    (in_watch (next_phase Idle r) \<longrightarrow> seen db' (c, 0) = [key \<mapsto> version db key])"
proof (cases "net_reserve net")
  case (Some e)
  then have "r = Inl (PyErr ConnectionError e)" "p = pipeline_new kind True"
    using step by (auto simp: watch_def ensure_reserved_def pipeline_new_def)
  then show ?thesis using hear by (simp add: quiet_def client_ok_def pipeline_new_def)
next
  case None
  have log: "wire_log p = [WReserve 0, WCmd 0 (''WATCH'', [key])]"
    and r: "isl r \<longleftrightarrow> net_watch net \<noteq> None"
    and p: "net_watch net = None \<Longrightarrow> p = watched_pipe kind key [] False []"
    using step None
    by (cases "net_watch net"; auto simp: watch_def ensure_reserved_def watch_reserved_def rc_watch_def
        pipeline_new_def watched_pipe_def Let_def)+
  obtain r1 db1 where 1: "serve c (WReserve 0) db = (r1, db1)" by fastforce
  obtain r2 db2 where 2: "serve c (WCmd 0 (''WATCH'', [key])) db1 = (r2, db2)" by fastforce
  have h: "db' = db2" "net_watch net = left_of r2"
    using hear by (auto simp: log 1 2 split: if_splits)
  note w = server_reserve [OF s 1] server_watch [OF s 2]
  have q: "untouched lookup version db db'" using w h untouched_trans [of lookup version db db1 db2] by simp
  show ?thesis
  proof (cases r2)
    case (Inl e)
    then have "isl r" using r h by (simp add: left_of_def)
    then show ?thesis using untouched_quiet [OF q] by (cases r) (simp_all add: client_ok_def)
  next
    case (Inr v)
    then have "\<not> isl r" "p = watched_pipe kind key [] False []" using r p h by (simp_all add: left_of_def)
    moreover have "seen db' (c, 0) = [key \<mapsto> version db key]"
      using w h Inr by (simp add: untouched_def)
    ultimately show ?thesis using untouched_quiet [OF q] by (cases r) (simp_all add: client_ok_def)
  qed
qed

lemma watching_call:
  assumes s: "optimistic_server serve lookup version seen"
    and step: "pl_step env net (PlCommand (''GET'', [key])) (watched_pipe kind key [] False []) = (r, p)"
    and hear: "hear serve c net (drop 2 (wire_log p)) db = Some db'"
  shows "quiet lookup version key db db' \<and> client_ok kind key f (next_phase Watching r) p \<and>
    seen db' = seen db \<and> (\<forall>v. r = Inr v \<longrightarrow> v = opt_py PBytes (lookup db key))"
proof -
  have p: "p = watched_pipe kind key [WCmd 0 (''GET'', [key])] False []"
    and r: "r = (case net_immediate net of Inl e \<Rightarrow> Inl (to_err env e) | Inr v \<Rightarrow> into_py env (RValue v))"
    using step
    by (auto simp: buf_or_dispatch_def dispatch_immediate_inner_def dispatch_immediate_def watched_pipe_def
        pipeline_new_def)
  have "drop 2 (wire_log p) = [WCmd 0 (''GET'', [key])]" by (simp add: p watched_pipe_def)
  with hear obtain x where x: "serve c (WCmd 0 (''GET'', [key])) db = (x, db')" "net_immediate net = x"
    using hear_single [of serve c net "WCmd 0 (''GET'', [key])" db db'] by auto
  have "\<forall>v. r = Inr v \<longrightarrow> v = opt_py PBytes (lookup db key)"
    using server_get [OF s x(1)] r x(2) by (auto simp: stored_reply_def opt_py_def split: sum.splits option.splits)
  then show ?thesis
    using server_get [OF s x(1)] untouched_quiet [of lookup version db db' key] p
    by (cases r) (simp_all add: client_ok_def)
qed

lemma multi_call:
  assumes "pl_step env net PlMulti (watched_pipe kind key sent False []) = (r, p)"
  shows "r = Inr PNone \<and> p = watched_pipe kind key sent True []"
  using assms by (auto simp: multi_def watched_pipe_def pipeline_new_def)

lemma queue_call:
  assumes "pl_step env net (PlCommand c) (watched_pipe kind key sent True []) = (r, p)"
  shows "r = Inr self_obj \<and> p = watched_pipe kind key sent True [c]"
  using assms by (auto simp: buf_or_dispatch_def push_command_def watched_pipe_def pipeline_new_def)

lemma queued_call:
  assumes s: "optimistic_server serve lookup version seen"
    and step: "pl_step env net PlExecute (watched_pipe kind key sent True [(''SET'', [key, w])]) = (r, p)"
    and hear: "hear serve c net (drop (2 + length sent) (wire_log p)) db = Some db'"
    and seen: "seen db (c, 0) = [key \<mapsto> k]"
  shows "(if isl r then quiet lookup version key db db' else False) \<and> (retryable r \<longrightarrow> k \<noteq> version db key) \<or>
    k = version db key \<and> stored_by_set lookup version key w db db' \<and> \<not> retryable r"
proof -
  have r: "r = exec_outcome env net" and log: "drop (2 + length sent) (wire_log p) = [WAtomic 0 [(''SET'', [key, w])]]"
    using step sync_pipeline.execute_watching
        [of "watched_pipe kind key sent True [(''SET'', [key, w])]" "\<lparr>rc_id = 0, rc_watched = True\<rparr>" env net]
    by (auto simp: watched_pipe_def pipeline_new_def)
  from hear obtain x where x: "serve c (WAtomic 0 [(''SET'', [key, w])]) db = (x, db')" "net_exec net = x"
    unfolding log using hear_single [of serve c net "WAtomic 0 [(''SET'', [key, w])]" db db'] by auto
  have law: "exec_law lookup version seen (c, 0) key w db x db'" by (rule server_exec [OF s x(1)])
  have um: "unmodified version seen (c, 0) db \<longleftrightarrow> k = version db key"
    by (auto simp: unmodified_def seen)
  note q = untouched_quiet [of lookup version db db' key]
  have unexpected: "r = Inl (to_err env (unexpected_exec env v)) \<Longrightarrow> isl r \<and> \<not> retryable r" for v
    by (simp add: retryable_def to_err_not_watch)
  show ?thesis
  proof (cases x)
    case (Inl e)
    then have "r = Inl (to_err env e)" using r x(2) by (simp add: exec_outcome_def watched_outcome_def)
    then show ?thesis using law q by (auto simp: Inl exec_law_def um retryable_def to_err_not_watch)
  next
    case (Inr v)
    show ?thesis
    proof (cases "v = VNil \<or> (\<exists>items. v = VArray items)")
      case True
      then show ?thesis
        using law q r x(2)
        by (auto simp: Inr exec_law_def um exec_outcome_def watched_outcome_def retryable_def issubclass_def
            eval_nat_numeral)
    next
      case False
      then have "r = Inl (to_err env (unexpected_exec env v))"
        using r x(2) by (cases v) (simp_all add: Inr exec_outcome_def watched_outcome_def)
      moreover have "untouched lookup version db db' \<or> k = version db key \<and> stored_by_set lookup version key w db db'"
        using law False by (cases v) (simp_all add: Inr exec_law_def um)
      ultimately show ?thesis using unexpected q by auto
    qed
  qed
qed

lemma reset_call:
  assumes s: "optimistic_server serve lookup version seen"
    and step: "pl_step env net PlReset q = (r, p)"
    and hear: "hear serve c net (drop (length (wire_log q)) (wire_log p)) db = Some db'"
  shows "quiet lookup version key db db'"
proof -
  have "drop (length (wire_log q)) (wire_log p) = [] \<or>
      (\<exists>i. drop (length (wire_log q)) (wire_log p) = [WCmd i (''UNWATCH'', [])])"
    using step by (auto simp: pl_reset_def release_reserved_def unwatch_if_needed_def clear_all_def Let_def
        split: option.splits if_splits)
  then show ?thesis
  proof (elim disjE exE)
    fix i assume "drop (length (wire_log q)) (wire_log p) = [WCmd i (''UNWATCH'', [])]"
    then obtain x where "serve c (WCmd i (''UNWATCH'', [])) db = (x, db')"
      using hear hear_single [of serve c net "WCmd i (''UNWATCH'', [])" db db'] by auto
    then show ?thesis by (metis server_unwatch [OF s] untouched_quiet)
  qed (use hear in \<open>simp add: quiet_def\<close>)
qed

text \<open>Every call of a client in any phase: it leaves the key alone or commits an update of the
  value stored just before, and an aborted execute had a stale watch.\<close>

lemma client_call:
  assumes s: "optimistic_server serve lookup version seen"
    and ok: "client_ok kind key f ph q" "read_ok key ph (seen db (c, 0)) (version db key) (lookup db key)"
    and step: "pl_step env net (next_event key f ph) q = (r, p)"
    and hear: "hear serve c net (drop (length (wire_log q)) (wire_log p)) db = Some db'"
  shows "client_ok kind key f (next_phase ph r) (if ph = Ending then pipeline_new kind True else p) \<and>
    read_ok key (next_phase ph r) (seen db' (c, 0)) (version db' key) (lookup db' key) \<and>
    (stale key (next_phase ph r) (seen db' (c, 0)) (version db' key) \<longrightarrow>
       stale key ph (seen db (c, 0)) (version db key)) \<and>
    (quiet lookup version key db db' \<and>
       (\<forall>v. ph = Queued v \<longrightarrow> isl r \<and> (retryable r \<longrightarrow> stale key ph (seen db (c, 0)) (version db key))) \<or>
     (\<exists>v. ph = Queued v) \<and> \<not> retryable r \<and> committed lookup version key f db db')"
proof (cases ph)
  case Idle
  with ok(1) have "q = pipeline_new kind True" by (simp add: client_ok_def)
  with idle_call [OF s, of env net key kind r p c db db' f] step hear Idle show ?thesis
    by (cases r) (auto simp: quiet_def read_ok_def stale_def client_ok_def pipeline_new_def)
next
  case Watching
  with ok(1) have q: "q = watched_pipe kind key [] False []" by (simp add: client_ok_def)
  have "quiet lookup version key db db' \<and> client_ok kind key f (next_phase Watching r) p \<and>
    seen db' = seen db \<and> (\<forall>v. r = Inr v \<longrightarrow> v = opt_py PBytes (lookup db key))"
    by (rule watching_call [OF s]) (use step hear Watching in \<open>simp_all add: q eval_nat_numeral\<close>)
  with Watching ok(2) show ?thesis by (cases r) (auto simp: quiet_def read_ok_def stale_def)
next
  case (HasRead v)
  with ok(1) have q: "q = watched_pipe kind key [WCmd 0 (''GET'', [key])] False []" by (simp add: client_ok_def)
  with multi_call [of env net kind key "[WCmd 0 (''GET'', [key])]" r p] step HasRead
  have p: "r = Inr PNone" "p = watched_pipe kind key [WCmd 0 (''GET'', [key])] True []" by simp_all
  with hear q have "db' = db" by simp
  with p HasRead ok(2) show ?thesis by (auto simp: quiet_def read_ok_def stale_def client_ok_def)
next
  case (InMulti v)
  with ok(1) have q: "q = watched_pipe kind key [WCmd 0 (''GET'', [key])] True []" by (simp add: client_ok_def)
  with queue_call [of env net "(''SET'', [key, f v])" kind key "[WCmd 0 (''GET'', [key])]" r p] step InMulti
  have p: "r = Inr self_obj" "p = watched_pipe kind key [WCmd 0 (''GET'', [key])] True [(''SET'', [key, f v])]"
    by simp_all
  with hear q have "db' = db" by simp
  with p InMulti ok(2) show ?thesis by (auto simp: quiet_def read_ok_def stale_def client_ok_def)
next
  case (Queued v)
  with ok(1) have q: "q = watched_pipe kind key [WCmd 0 (''GET'', [key])] True [(''SET'', [key, f v])]"
    by (simp add: client_ok_def)
  from ok(2) Queued obtain k where k: "seen db (c, 0) = [key \<mapsto> k]"
    "k = version db key \<Longrightarrow> v = opt_py PBytes (lookup db key)" by (auto simp: read_ok_def)
  have ph: "next_phase ph r = Ending" using Queued by (cases r) simp_all
  have result: "(if isl r then quiet lookup version key db db' else False) \<and> (retryable r \<longrightarrow> k \<noteq> version db key) \<or>
      k = version db key \<and> stored_by_set lookup version key (f v) db db' \<and> \<not> retryable r"
    by (rule queued_call [OF s, where sent = "[WCmd 0 (''GET'', [key])]", OF _ _ k(1)])
      (use step hear Queued in \<open>simp_all add: q eval_nat_numeral del: pl_step.simps\<close>)
  show ?thesis
    using result Queued k
    unfolding ph
    by (auto simp: read_ok_def client_ok_def stale_def stored_by_set_def committed_def split: if_splits)
next
  case Ending
  with reset_call [OF s, of env net q r p c db db' key] step hear show ?thesis
    by (simp add: read_ok_def client_ok_def stale_def)
qed

section \<open>All clients\<close>

text \<open>The clients whose watched key has been modified: their execute will be aborted.\<close>

definition stale_clients ::
  "('db \<Rightarrow> bytes \<Rightarrow> nat) \<Rightarrow> ('db \<Rightarrow> nat \<times> nat \<Rightarrow> bytes \<Rightarrow> nat option) \<Rightarrow> bytes \<Rightarrow> nat \<Rightarrow> 'db opt_sys \<Rightarrow> nat set" where
  "stale_clients version seen key clients s =
     {c. c < clients \<and> stale key (op_phase s c) (seen (op_db s) (c, 0)) (version (op_db s) key)}"

definition clients_ok ::
  "topology \<Rightarrow> ('db \<Rightarrow> bytes \<Rightarrow> bytes option) \<Rightarrow> ('db \<Rightarrow> bytes \<Rightarrow> nat) \<Rightarrow> ('db \<Rightarrow> nat \<times> nat \<Rightarrow> bytes \<Rightarrow> nat option) \<Rightarrow>
   bytes \<Rightarrow> (pyval \<Rightarrow> bytes) \<Rightarrow> nat \<Rightarrow> 'db opt_sys \<Rightarrow> bool" where
  "clients_ok kind lookup version seen key f clients s \<longleftrightarrow>
     (\<forall>c < clients. client_ok kind key f (op_phase s c) (op_pipe s c) \<and>
        read_ok key (op_phase s c) (seen (op_db s) (c, 0)) (version (op_db s) key) (lookup (op_db s) key))"

text \<open>After \<open>n\<close> committed updates: the value is the result of applying them one after the other
  to the first one.\<close>

definition update_value :: "(pyval \<Rightarrow> bytes) \<Rightarrow> bytes option \<Rightarrow> bytes option" where
  "update_value f v = Some (f (opt_py PBytes v))"

definition updates_ok ::
  "('db \<Rightarrow> bytes \<Rightarrow> bytes option) \<Rightarrow> ('db \<Rightarrow> bytes \<Rightarrow> nat) \<Rightarrow> ('db \<Rightarrow> nat \<times> nat \<Rightarrow> bytes \<Rightarrow> nat option) \<Rightarrow>
   bytes \<Rightarrow> (pyval \<Rightarrow> bytes) \<Rightarrow> nat \<Rightarrow> 'db \<Rightarrow> 'db opt_sys \<Rightarrow> nat \<Rightarrow> bool" where
  "updates_ok lookup version seen key f clients db s n \<longleftrightarrow>
     lookup (op_db s) key = (update_value f ^^ n) (lookup db key) \<and>
     op_done s \<le> n \<and> n \<le> op_done s + op_failed s \<and>
     op_aborted s + card (stale_clients version seen key clients s) \<le> n * (clients - 1)"

lemma finite_stale [simp]: "finite (stale_clients version seen key clients s)"
  by (simp add: stale_clients_def)

lemma read_ok_quiet:
  "quiet lookup version key db db' \<Longrightarrow> m' = m \<Longrightarrow> read_ok key ph m (version db key) (lookup db key) \<Longrightarrow>
   read_ok key ph m' (version db' key) (lookup db' key)"
  by (simp add: quiet_def)

lemma read_ok_committed:
  "committed lookup version key f db db' \<Longrightarrow> m' = m \<Longrightarrow> read_ok key ph m (version db key) (lookup db key) \<Longrightarrow>
   read_ok key ph m' (version db' key) (lookup db' key)"
  unfolding committed_def read_ok_def by (metis le_SucI not_less_eq_eq order_refl)

lemma stale_quiet:
  assumes "quiet lookup version key (op_db s) db" "\<And>c'. c' \<noteq> c \<Longrightarrow> seen db (c', 0) = seen (op_db s) (c', 0)"
    and "stale key ph (seen db (c, 0)) (version db key) \<Longrightarrow>
      stale key (op_phase s c) (seen (op_db s) (c, 0)) (version (op_db s) key)"
  shows "stale_clients version seen key clients
      (t\<lparr>op_db := db, op_pipe := pipes, op_phase := (op_phase s)(c := ph)\<rparr>) \<subseteq>
    (if in_watch ph then stale_clients version seen key clients s
     else stale_clients version seen key clients s - {c})"
proof
  fix c'
  assume "c' \<in> stale_clients version seen key clients
    (t\<lparr>op_db := db, op_pipe := pipes, op_phase := (op_phase s)(c := ph)\<rparr>)"
  then show "c' \<in> (if in_watch ph then stale_clients version seen key clients s
      else stale_clients version seen key clients s - {c})"
    using assms by (cases "c' = c") (auto simp: stale_clients_def stale_def quiet_def)
qed

lemma executed_other [simp]: "\<not> (\<exists>v. ph = Queued v) \<Longrightarrow> executed ph r s = s"
  by (cases ph) (simp_all add: executed_def)

lemma opt_callE:
  assumes "opt_call env serve kind key f c net s = Some t"
  obtains r p db where "pl_step env net (next_event key f (op_phase s c)) (op_pipe s c) = (r, p)"
    and "hear serve c net (drop (length (wire_log (op_pipe s c))) (wire_log p)) (op_db s) = Some db"
    and "t = (executed (op_phase s c) r s)
        \<lparr>op_db := db,
         op_pipe := (op_pipe s)(c := if op_phase s c = Ending then pipeline_new kind True else p),
         op_phase := (op_phase s)(c := next_phase (op_phase s c) r)\<rparr>"
  using assms by (auto simp: opt_call_def split: prod.splits)

lemma opt_step_clients:
  assumes s: "optimistic_server serve lookup version seen" "keeps_versions outside lookup version seen key"
    and step: "opt_step env serve outside kind key f clients s t"
    and inv: "clients_ok kind lookup version seen key f clients s"
  shows "clients_ok kind lookup version seen key f clients t"
  using step
proof cases
  case (other db')
  then have "seen db' = seen (op_db s) \<and> version (op_db s) key \<le> version db' key \<and>
      (version db' key = version (op_db s) key \<longrightarrow> lookup db' key = lookup (op_db s) key)"
    using s(2) by (simp add: keeps_versions_def)
  with inv other show ?thesis
    unfolding clients_ok_def read_ok_def by simp (metis le_antisym le_trans)
next
  case (call c net)
  then obtain r p db' where c: "pl_step env net (next_event key f (op_phase s c)) (op_pipe s c) = (r, p)"
    "hear serve c net (drop (length (wire_log (op_pipe s c))) (wire_log p)) (op_db s) = Some db'"
    "t = (executed (op_phase s c) r s)
        \<lparr>op_db := db',
         op_pipe := (op_pipe s)(c := if op_phase s c = Ending then pipeline_new kind True else p),
         op_phase := (op_phase s)(c := next_phase (op_phase s c) r)\<rparr>" by (elim opt_callE)
  have own: "client_ok kind key f (op_phase s c) (op_pipe s c)"
    "read_ok key (op_phase s c) (seen (op_db s) (c, 0)) (version (op_db s) key) (lookup (op_db s) key)"
    using inv call(1) by (auto simp: clients_ok_def)
  note res = client_call [OF s(1) own c(1,2)]
  have "seen db' (c', 0) = seen (op_db s) (c', 0)" if "c' \<noteq> c" for c'
    by (rule hear_others [OF s(1) that c(2)])
  moreover have "quiet lookup version key (op_db s) db' \<or> committed lookup version key f (op_db s) db'"
    using res by blast
  ultimately show ?thesis
    using inv res by (auto simp: c(3) clients_ok_def intro: read_ok_quiet read_ok_committed)
qed

text \<open>The counters, for a call that leaves the key alone and for one that commits.\<close>

lemma opt_call_counts:
  assumes s: "optimistic_server serve lookup version seen" "c < clients"
    and call: "opt_call env serve kind key f c net s = Some t"
    and inv: "clients_ok kind lookup version seen key f clients s" "updates_ok lookup version seen key f clients db s n"
  shows "\<exists>n. updates_ok lookup version seen key f clients db t n"
proof -
  let ?ph = "op_phase s c" and ?d = "op_db s"
  from call obtain r p db' where c: "pl_step env net (next_event key f ?ph) (op_pipe s c) = (r, p)"
    "hear serve c net (drop (length (wire_log (op_pipe s c))) (wire_log p)) ?d = Some db'"
    and t: "t = (executed ?ph r s)
        \<lparr>op_db := db', op_pipe := (op_pipe s)(c := if ?ph = Ending then pipeline_new kind True else p),
         op_phase := (op_phase s)(c := next_phase ?ph r)\<rparr>" by (elim opt_callE)
  have own: "client_ok kind key f ?ph (op_pipe s c)"
    "read_ok key ?ph (seen ?d (c, 0)) (version ?d key) (lookup ?d key)"
    using inv(1) s(2) by (auto simp: clients_ok_def)
  note res = client_call [OF s(1) own c(1,2)]
  have others: "seen db' (c', 0) = seen ?d (c', 0)" if "c' \<noteq> c" for c'
    by (rule hear_others [OF s(1) that c(2)])
  have db: "op_db t = db'" by (simp add: t)
  show ?thesis
  proof (cases "quiet lookup version key ?d db'")
    case False
    then have commit: "committed lookup version key f ?d db'" "\<not> retryable r" "\<exists>v. ?ph = Queued v"
      using res by blast+
    then obtain v where v: "?ph = Queued v" by blast
    then have ph: "next_phase ?ph r = Ending" by (cases r) simp_all
    have "stale_clients version seen key clients t \<subseteq> {..<clients} - {c}"
      by (auto simp: stale_clients_def t ph stale_def)
    then have "card (stale_clients version seen key clients t) \<le> clients - 1"
      using s(2) card_mono [of "{..<clients} - {c}"] by fastforce
    moreover have "op_aborted t = op_aborted s" "op_done t + op_failed t = Suc (op_done s + op_failed s)"
      "op_done t \<le> Suc (op_done s)"
      using commit(2) by (auto simp: t executed_def v)
    ultimately have "updates_ok lookup version seen key f clients db t (Suc n)"
      using inv(2) commit(1) by (simp add: updates_ok_def committed_def db update_value_def)
    then show ?thesis by blast
  next
    case True
    have stored: "lookup (op_db t) key = lookup ?d key" using True by (simp add: db quiet_def)
    have sub: "stale_clients version seen key clients t \<subseteq>
      (if in_watch (next_phase ?ph r) then stale_clients version seen key clients s
       else stale_clients version seen key clients s - {c})"
      unfolding t by (rule stale_quiet [where seen = seen and version = version, OF True others]) (use res in blast)+
    have result: "isl r \<and> (retryable r \<longrightarrow> c \<in> stale_clients version seen key clients s)" if "?ph = Queued v" for v
      using res that True s(2) by (auto simp: stale_clients_def quiet_def committed_def)
    show ?thesis
    proof (cases "(\<exists>v. ?ph = Queued v) \<and> retryable r")
      case aborted: True
      then obtain v where v: "?ph = Queued v" by blast
      then have ph: "next_phase ?ph r = Ending" by (cases r) simp_all
      have "card (stale_clients version seen key clients t) < card (stale_clients version seen key clients s)"
        using sub result [OF v] aborted ph by (intro psubset_card_mono) auto
      moreover have "op_aborted t = Suc (op_aborted s)" "op_done t = op_done s" "op_failed t = op_failed s"
        using aborted by (auto simp: t executed_def v)
      ultimately have "updates_ok lookup version seen key f clients db t n"
        using inv(2) by (simp add: updates_ok_def stored)
      then show ?thesis by blast
    next
      case False
      then have "op_aborted t = op_aborted s" "op_done t = op_done s" "op_failed s \<le> op_failed t"
        using result by (auto simp: t executed_def split: phase.split)
      moreover have "card (stale_clients version seen key clients t) \<le> card (stale_clients version seen key clients s)"
        using sub by (intro card_mono) (auto split: if_splits)
      ultimately have "updates_ok lookup version seen key f clients db t n"
        using inv(2) by (simp add: updates_ok_def stored)
      then show ?thesis by blast
    qed
  qed
qed

lemma opt_clients_ok:
  assumes "optimistic_server serve lookup version seen" "keeps_versions outside lookup version seen key"
    and "opt_reachable env serve outside kind key f clients db s"
  shows "clients_ok kind lookup version seen key f clients s"
  using assms(3)
proof induction
  case start
  show ?case by (simp add: opt_start_def clients_ok_def client_ok_def read_ok_def)
next
  case (step s t)
  then show ?case using opt_step_clients [OF assms(1,2)] by blast
qed

lemma opt_updates_ok:
  assumes "optimistic_server serve lookup version seen" "leaves_key outside lookup version seen key"
    and "opt_reachable env serve outside kind key f clients db s"
  shows "\<exists>n. updates_ok lookup version seen key f clients db s n"
  using assms(3)
proof induction
  case start
  show ?case by (auto simp: opt_start_def updates_ok_def stale_clients_def stale_def intro: exI [of _ 0])
next
  case (step s t)
  then obtain n where n: "updates_ok lookup version seen key f clients db s n" by blast
  have ok: "clients_ok kind lookup version seen key f clients s"
    by (rule opt_clients_ok [OF assms(1) leaves_keeps [OF assms(2)] step(1)])
  from step(2) show ?case
  proof cases
    case (call c net)
    then show ?thesis using opt_call_counts [OF assms(1) _ _ ok n] by blast
  next
    case (other db')
    with assms(2) n show ?thesis
      by (auto simp: updates_ok_def leaves_key_def stale_clients_def intro!: exI [of _ n])
  qed
qed

section \<open>What the transactions guarantee\<close>

text \<open>(C8) No update is lost.  Any number of clients update one key, each by reading it under WATCH and
  writing what it computes from the value read, their calls interleaved in any order and with any
  failures of the requests: the stored value is at every moment the result of applying the update
  \<open>n\<close> times, one after the other, where \<open>n\<close> is at least the number of executes that have
  returned a value, and exceeds it at most by the executes that raised something other than
  \<open>WatchError\<close>.\<close>
theorem no_lost_updates:
  assumes "optimistic_server serve lookup version seen" "leaves_key outside lookup version seen key"
    and "opt_reachable env serve outside kind key f clients db s"
  shows "\<exists>n. lookup (op_db s) key = (update_value f ^^ n) (lookup db key) \<and>
    op_done s \<le> n \<and> n \<le> op_done s + op_failed s"
  using opt_updates_ok [OF assms] by (auto simp: updates_ok_def)

text \<open>(C10) The clients make progress: every \<open>WatchError\<close> is the doing of an update of another client
  that took effect, each of which aborts at most one execute of every other client.  \<open>n\<close> is the
  number of updates that took effect, those of the executes that returned and of some that failed
  otherwise than by \<open>WatchError\<close>.  Of executes that only return or raise \<open>WatchError\<close>, one in
  \<open>clients\<close> returns; a client on its own is never aborted.\<close>
theorem aborts_are_progress:
  assumes "optimistic_server serve lookup version seen" "leaves_key outside lookup version seen key"
    and "opt_reachable env serve outside kind key f clients db s"
  shows "\<exists>n. lookup (op_db s) key = (update_value f ^^ n) (lookup db key) \<and>
    op_done s \<le> n \<and> n \<le> op_done s + op_failed s \<and>
    op_aborted s \<le> n * (clients - 1) \<and> n * (clients - 1) \<le> (op_done s + op_failed s) * (clients - 1)"
proof -
  obtain n where "updates_ok lookup version seen key f clients db s n" using opt_updates_ok [OF assms] by blast
  then show ?thesis by (intro exI [of _ n]) (simp add: updates_ok_def)
qed

text \<open>(C9) Whatever else is written to the key in the meantime, by transactions or not: when an execute
  returns a value, the value read in the transaction is the one stored when EXEC is run, and the
  new value takes its place; when it raises \<open>WatchError\<close>, the key is left alone.\<close>
theorem update_applies_to_current:
  assumes "optimistic_server serve lookup version seen" "keeps_versions outside lookup version seen key"
    and "opt_reachable env serve outside kind key f clients db s"
    and "c < clients" "op_phase s c = Queued v"
    and "opt_call env serve kind key f c net s = Some t"
  shows "(op_done t = Suc (op_done s) \<longrightarrow>
      opt_py PBytes (lookup (op_db s) key) = v \<and> lookup (op_db t) key = Some (f v)) \<and>
    (op_aborted t = Suc (op_aborted s) \<longrightarrow> lookup (op_db t) key = lookup (op_db s) key)"
proof -
  from assms(6) obtain r p db' where c: "pl_step env net (next_event key f (op_phase s c)) (op_pipe s c) = (r, p)"
    "hear serve c net (drop (length (wire_log (op_pipe s c))) (wire_log p)) (op_db s) = Some db'"
    and t: "t = (executed (op_phase s c) r s)
        \<lparr>op_db := db', op_pipe := (op_pipe s)(c := if op_phase s c = Ending then pipeline_new kind True else p),
         op_phase := (op_phase s)(c := next_phase (op_phase s c) r)\<rparr>" by (elim opt_callE)
  have own: "client_ok kind key f (op_phase s c) (op_pipe s c)"
    "read_ok key (op_phase s c) (seen (op_db s) (c, 0)) (version (op_db s) key) (lookup (op_db s) key)"
    using opt_clients_ok [OF assms(1-3)] assms(4) by (auto simp: clients_ok_def)
  then obtain k where q: "op_pipe s c = watched_pipe kind key [WCmd 0 (''GET'', [key])] True [(''SET'', [key, f v])]"
    and k: "seen (op_db s) (c, 0) = [key \<mapsto> k]" "k = version (op_db s) key \<longrightarrow> v = opt_py PBytes (lookup (op_db s) key)"
    using assms(5) by (auto simp: client_ok_def read_ok_def)
  have "(if isl r then quiet lookup version key (op_db s) db' else False) \<and>
      (retryable r \<longrightarrow> k \<noteq> version (op_db s) key) \<or>
      k = version (op_db s) key \<and> stored_by_set lookup version key (f v) (op_db s) db' \<and> \<not> retryable r"
    by (rule queued_call [OF assms(1), where sent = "[WCmd 0 (''GET'', [key])]", OF _ _ k(1)])
      (use c assms(5) in \<open>simp_all add: q eval_nat_numeral del: pl_step.simps\<close>)
  then show ?thesis
    using k(2) by (auto simp: t executed_def assms(5) stored_by_set_def quiet_def split: if_splits)
qed

section \<open>A server that watches\<close>

record sample_db =
  sd_store :: "bytes \<Rightarrow> bytes option"
  sd_version :: "bytes \<Rightarrow> nat"
  sd_seen :: "nat \<times> nat \<Rightarrow> (bytes \<times> nat) list"

definition sd_unmodified :: "(bytes \<times> nat) list \<Rightarrow> sample_db \<Rightarrow> bool" where
  "sd_unmodified ws db = list_all (\<lambda>k. map_of ws k = Some (sd_version db k)) (map fst ws)"

fun sample_serve :: "sample_db server" where
  "sample_serve c (WReserve i) db = (Inr VOkay, db\<lparr>sd_seen := (sd_seen db)((c, i) := [])\<rparr>)"
| "sample_serve c (WCmd i (name, [k])) db =
     (if name = ''WATCH''
      then (Inr VOkay, db\<lparr>sd_seen := (sd_seen db)((c, i) := sd_seen db (c, i) @ [(k, sd_version db k)])\<rparr>)
      else (Inr (stored_reply (sd_store db k)), db))"
| "sample_serve c (WCmd i (name, args)) db = (Inr VOkay, db\<lparr>sd_seen := (sd_seen db)((c, i) := [])\<rparr>)"
| "sample_serve c (WAtomic i [(name, [k, v])]) db =
     (if sd_unmodified (sd_seen db (c, i)) db
      then (Inr (VArray [VOkay]),
            db\<lparr>sd_store := (sd_store db)(k \<mapsto> v), sd_version := (sd_version db)(k := Suc (sd_version db k))\<rparr>)
      else (Inr VNil, db))"
| "sample_serve c m db = (Inr VNil, db)"

abbreviation sd_watched :: "sample_db \<Rightarrow> nat \<times> nat \<Rightarrow> bytes \<Rightarrow> nat option" where
  "sd_watched db conn \<equiv> map_of (sd_seen db conn)"

lemma sd_unmodified_iff: "sd_unmodified (sd_seen db conn) db \<longleftrightarrow> unmodified sd_version sd_watched conn db"
proof -
  have "k \<in> fst ` set (sd_seen db conn) \<longleftrightarrow> (\<exists>n. sd_watched db conn k = Some n)" for k
    by (simp add: dom_map_of_conv_image_fst [symmetric] domIff)
  then have "sd_unmodified (sd_seen db conn) db \<longleftrightarrow>
      (\<forall>k. (\<exists>n. sd_watched db conn k = Some n) \<longrightarrow> sd_watched db conn k = Some (sd_version db k))"
    by (simp add: sd_unmodified_def list.pred_set Ball_def)
  also have "\<dots> \<longleftrightarrow> unmodified sd_version sd_watched conn db"
    by (auto simp: unmodified_def)
  finally show ?thesis .
qed

lemma sample_serve_others: "c' \<noteq> c \<Longrightarrow> sd_seen (snd (sample_serve c m db)) (c', i) = sd_seen db (c', i)"
  by (cases "(c, m, db)" rule: sample_serve.cases) simp_all

lemma sample_optimistic: "optimistic_server sample_serve sd_store sd_version sd_watched"
  unfolding optimistic_server_def
  by (intro conjI allI impI)
    (auto simp: untouched_def exec_law_def sd_unmodified_iff stored_by_set_def map_add_def fun_eq_iff
      split: if_splits option.splits, metis sample_serve_others snd_conv)

text \<open>Two clients in lockstep: both watch and read the key, both queue their update, client 0 executes
  first.\<close>

fun opt_run ::
  "bridge_env \<Rightarrow> 'db server \<Rightarrow> topology \<Rightarrow> bytes \<Rightarrow> (pyval \<Rightarrow> bytes) \<Rightarrow> (nat \<times> net) list \<Rightarrow> 'db opt_sys \<Rightarrow>
   'db opt_sys option" where
  "opt_run env serve kind key f [] s = Some s"
| "opt_run env serve kind key f ((c, net) # cs) s =
     (case opt_call env serve kind key f c net s of None \<Rightarrow> None | Some s \<Rightarrow> opt_run env serve kind key f cs s)"

lemma opt_run_reachable:
  "opt_reachable env serve outside kind key f clients db s \<Longrightarrow> list_all (\<lambda>(c, _). c < clients) cs \<Longrightarrow>
   opt_run env serve kind key f cs s = Some t \<Longrightarrow> opt_reachable env serve outside kind key f clients db t"
proof (induction cs arbitrary: s)
  case (Cons a cs)
  obtain c net where a: "a = (c, net)" by (cases a)
  with Cons.prems obtain u where "opt_call env serve kind key f c net s = Some u"
    "opt_run env serve kind key f cs u = Some t" by (auto split: option.splits)
  with Cons.prems Cons.IH a show ?case using opt_reachable.step [OF Cons.prems(1) opt_step.call] by auto
qed simp

definition sample_update :: "pyval \<Rightarrow> bytes" where
  "sample_update v = (case v of PBytes b \<Rightarrow> b @ ''I'' | _ \<Rightarrow> ''I'')"

definition read_net :: net where
  "read_net = ok_net\<lparr>net_immediate := Inr VNil\<rparr>"

abbreviation both :: "net \<Rightarrow> (nat \<times> net) list" where
  "both net \<equiv> [(0, net), (1, net)]"

definition sample_start :: sample_db where
  "sample_start = \<lparr>sd_store = Map.empty, sd_version = (\<lambda>_. 0), sd_seen = (\<lambda>_. [])\<rparr>"

definition sample_queued :: "sample_db opt_sys" where
  "sample_queued = the (opt_run sample_env sample_serve OnStandard ''n'' sample_update
     (both read_net @ both read_net @ both read_net @ both read_net) (opt_start OnStandard sample_start))"

definition sample_finished :: "sample_db opt_sys" where
  "sample_finished = the (opt_run sample_env sample_serve OnStandard ''n'' sample_update
     [(0, ok_net), (1, ok_net\<lparr>net_exec := Inr VNil\<rparr>)] sample_queued)"

lemma sample_queued_run:
  "opt_run sample_env sample_serve OnStandard ''n'' sample_update
     (both read_net @ both read_net @ both read_net @ both read_net) (opt_start OnStandard sample_start) \<noteq> None"
  by code_simp

lemma sample_finished_run:
  "opt_run sample_env sample_serve OnStandard ''n'' sample_update
     [(0, ok_net), (1, ok_net\<lparr>net_exec := Inr VNil\<rparr>)] sample_queued \<noteq> None"
  by code_simp

lemma sample_reachable:
  "opt_reachable sample_env sample_serve outside OnStandard ''n'' sample_update 2 sample_start sample_queued"
  "opt_reachable sample_env sample_serve outside OnStandard ''n'' sample_update 2 sample_start sample_finished"
proof -
  show *: "opt_reachable sample_env sample_serve outside OnStandard ''n'' sample_update 2 sample_start sample_queued"
    by (rule opt_run_reachable [OF opt_reachable.start,
          where cs = "both read_net @ both read_net @ both read_net @ both read_net"])
      (use sample_queued_run in \<open>simp_all add: sample_queued_def del: opt_run.simps\<close>)
  show "opt_reachable sample_env sample_serve outside OnStandard ''n'' sample_update 2 sample_start sample_finished"
    by (rule opt_run_reachable [OF *, where cs = "[(0, ok_net), (1, ok_net\<lparr>net_exec := Inr VNil\<rparr>)]"])
      (use sample_finished_run in \<open>simp_all add: sample_finished_def del: opt_run.simps\<close>)
qed

lemma sample_leaves: "leaves_key (\<lambda>db db'. db' = db) sd_store sd_version sd_watched ''n''"
  by (simp add: leaves_key_def)

lemma sample_counts: "op_done sample_finished = 1" "op_aborted sample_finished = 1" "op_failed sample_finished = 0"
  by code_simp+

theorem no_lost_updates_witness: "sd_store (op_db sample_finished) ''n'' = Some ''I''"
proof -
  obtain n where "sd_store (op_db sample_finished) ''n'' = (update_value sample_update ^^ n) (sd_store sample_start ''n'')"
    "1 \<le> n" "n \<le> 1"
    using no_lost_updates [OF sample_optimistic sample_leaves sample_reachable(2)] by (auto simp: sample_counts)
  moreover from this have "n = Suc 0" by simp
  ultimately show ?thesis by (simp add: update_value_def sample_update_def opt_py_def sample_start_def)
qed

theorem aborts_are_progress_witness: "op_aborted sample_finished \<le> 1"
  using aborts_are_progress [OF sample_optimistic sample_leaves sample_reachable(2)] by (auto simp: sample_counts)

theorem update_applies_to_current_witness:
  "opt_py PBytes (sd_store (op_db sample_queued) ''n'') = PNone"
proof -
  have ph: "op_phase sample_queued 0 = Queued PNone" by code_simp
  let ?t = "opt_call sample_env sample_serve OnStandard ''n'' sample_update 0 ok_net sample_queued"
  have "?t \<noteq> None" by code_simp
  then have t: "?t = Some (the ?t)" by simp
  have "op_done (the ?t) = Suc (op_done sample_queued)" by code_simp
  then show ?thesis
    using update_applies_to_current [OF sample_optimistic leaves_keeps [OF sample_leaves] sample_reachable(1) _ ph t]
    by simp
qed

end
