(* ===== verification/Failover.thy ===== *)
theory Failover
  imports Lock Sentinel
begin

text \<open>
  Locks on a service watched by sentinels: the methods of \<open>Lock\<close> over \<open>dispatch_cmd!\<close>, so
  that a command that meets a failover is sent again to the rediscovered target.

  Every client has a sentinel connection of its own (\<open>conns\<close>), of which only the target changes;
  the state is the targets of all clients and the state of the nodes.  A node may serve a command,
  reject it, or execute it and lose the reply; the nodes share one store, that is, no two of them
  serve as master at once.  Writes that a failover drops are \<open>lost\<close> steps of the locks' system.
  What the retry costs when only a reply was lost is the last section.
\<close>

section \<open>Commands over sentinel connections\<close>

definition conn_to :: "sentinel_conn \<Rightarrow> bytes \<Rightarrow> sentinel_conn" where
  "conn_to s url = s\<lparr>sc_inner := url\<rparr>"

definition over_sentinel ::
  "bridge_env \<Rightarrow> ('w \<Rightarrow> sentinel_world) \<Rightarrow> ('w, redis_value) sender \<Rightarrow> (nat \<Rightarrow> sentinel_conn) \<Rightarrow> nat \<Rightarrow>
   ((nat \<Rightarrow> bytes) \<times> 'w) executor" where
  "over_sentinel env world send conns c cmd db =
     (case dispatch_cmd env world send cmd (SentinelBacked (conn_to (conns c) (fst db c))) (snd db) of
        (r, SentinelBacked s, w) \<Rightarrow> (r, (fst db)(c := sc_inner s), w)
      | (r, _, w) \<Rightarrow> (r, fst db, w))"

definition store_of :: "('w \<Rightarrow> bytes \<Rightarrow> bytes option) \<Rightarrow> (nat \<Rightarrow> bytes) \<times> 'w \<Rightarrow> bytes \<Rightarrow> bytes option" where
  "store_of lookup db = lookup (snd db)"






section \<open>Locks across a failover\<close>













section \<open>A reply that is lost\<close>

text \<open>When the command was executed and only its reply was lost, it is sent again all the same.  An
  \<open>acquire\<close> that has taken the lock then returns \<open>False\<close> and forgets the token, so that nobody
  can release the lock; a \<open>release\<close> that has freed it raises \<open>LockNotOwnedError\<close>.\<close>

definition reply_lost ::
  "bridge_env \<Rightarrow> ('w \<Rightarrow> sentinel_world) \<Rightarrow> ('w, redis_value) sender \<Rightarrow> 'w executor \<Rightarrow> sentinel_conn \<Rightarrow> redis_cmd \<Rightarrow>
   'w \<Rightarrow> bool" where
  "reply_lost env world send exec s cmd w \<longleftrightarrow>
     (\<exists>e url. send (sc_inner s) cmd w = (Inl e, snd (exec cmd w)) \<and> is_failover_error e \<and>
        rediscover env (world (snd (exec cmd w))) s = (None, conn_to s url) \<and>
        send url cmd (snd (exec cmd w)) = exec cmd (snd (exec cmd w)))"

lemma over_sentinel_lost:
  assumes "reply_lost env world send exec (conn_to (conns c) (fst db c)) cmd (snd db)"
  shows "\<exists>targets. over_sentinel env world send conns c cmd db =
    (fst (exec cmd (snd (exec cmd (snd db)))), targets, snd (exec cmd (snd (exec cmd (snd db)))))"
  using assms by (auto simp: reply_lost_def over_sentinel_def dispatch_cmd_def conn_to_def split: prod.splits)

lemma acquire_lost:
  assumes "runs_lock_commands exec (cl_opt_bytes cl) lookup" "plain_client cl"
    and "lookup (snd db) (lk_name l) = None"
    and "reply_lost env world send exec (conn_to (conns c) (fst db c)) (set_nx_cmd (lk_name l) t (lock_px l)) (snd db)"
  shows "case acquire_once cl (over_sentinel env world send conns c) False late t l db of (r, l', db') \<Rightarrow>
    r = Some (Inr False) \<and> l' = l \<and> store_of lookup db' (lk_name l) = Some t"
proof -
  let ?cmd = "set_nx_cmd (lk_name l) t (lock_px l)"
  have set: "case exec ?cmd w of (r, w') \<Rightarrow> (r, lookup w') =
      (if lookup w (lk_name l) = None then (Inr VOkay, (lookup w)(lk_name l \<mapsto> t)) else (Inr VNil, lookup w))" for w
    by (rule conjunct1 [OF assms(1) [unfolded runs_lock_commands_def], rule_format])
  obtain w1 where 1: "exec ?cmd (snd db) = (Inr VOkay, w1)" "lookup w1 (lk_name l) = Some t"
    using set [of "snd db"] assms(3) by (auto split: prod.splits)
  obtain w2 where 2: "exec ?cmd w1 = (Inr VNil, w2)" "lookup w2 = lookup w1"
    using set [of w1] 1(2) by (auto split: prod.splits)
  obtain targets where "over_sentinel env world send conns c ?cmd db = (Inr VNil, targets, w2)"
    using over_sentinel_lost [where conns = conns and c = c and db = db, OF assms(4)] 1 2 by auto
  with 1 2 assms(2) show ?thesis
    by (simp add: acquire_once_def lock_set_def on_server_def redis_set_def sync_call_def run_request_def
        maybe_decode_def plain_client_def store_of_def)
qed

lemma release_lost:
  assumes "runs_lock_commands exec (cl_opt_bytes cl) lookup" "plain_client cl"
    and "lk_token l = Some t" "lookup (snd db) (lk_name l) = Some t"
    and "reply_lost env world send exec (conn_to (conns c) (fst db c))
      (cmd_eval ''EVAL'' LOCK_RELEASE_LUA [lk_name l] [t]) (snd db)"
  shows "case release cl (over_sentinel env world send conns c) l db of (r, l', db') \<Rightarrow>
    r = Inl (not_owned cl ''Cannot release a lock owned by someone else'') \<and> l' = l \<and>
    store_of lookup db' (lk_name l) = None"
proof -
  let ?cmd = "cmd_eval ''EVAL'' LOCK_RELEASE_LUA [lk_name l] [t]"
  have rel: "case exec ?cmd w of (r, w') \<Rightarrow> (r, lookup w') =
      (if lookup w (lk_name l) = Some t then (Inr (VInt 1), (lookup w)(lk_name l := None)) else (Inr (VInt 0), lookup w))" for w
    by (rule conjunct1 [OF conjunct2 [OF assms(1) [unfolded runs_lock_commands_def]], rule_format])
  obtain w1 where 1: "exec ?cmd (snd db) = (Inr (VInt 1), w1)" "lookup w1 (lk_name l) = None"
    using rel [of "snd db"] assms(4) by (auto split: prod.splits)
  obtain w2 where 2: "exec ?cmd w1 = (Inr (VInt 0), w2)" "lookup w2 = lookup w1"
    using rel [of w1] 1(2) by (auto split: prod.splits)
  obtain targets where "over_sentinel env world send conns c ?cmd db = (Inr (VInt 0), targets, w2)"
    using over_sentinel_lost [where conns = conns and c = c and db = db, OF assms(5)] 1 2 by auto
  then have "lock_eval cl (over_sentinel env world send conns c) LOCK_RELEASE_LUA l [t] db = (Inr 0, targets, w2)"
    using assms(2) by (intro lock_eval_outcome) (simp_all add: plain_client_def)
  with 1 2 show ?thesis by (simp add: release_def assms(3) store_of_def)
qed

end
