(* ===== verification/Constructors.thy ===== *)
theory Constructors
  imports ClusterClient SentinelClient
begin

text \<open>
  A process that constructs clients: any sequence of calls of the six classes \<open>Redis\<close>,
  \<open>AsyncRedis\<close>, \<open>RedisCluster\<close>, \<open>AsyncRedisCluster\<close>, \<open>Sentinel\<close> and \<open>AsyncSentinel\<close>, which share the
  names \<open>accept_and_warn\<close> has warned about (\<open>facade/kwargs.rs\<close>) and the flag of the cache warning
  (\<open>facade/cluster.rs\<close>).
\<close>

section \<open>Sessions\<close>

datatype construction =
    NewRedis "(pyval \<times> pyval) list"
  | NewAsyncRedis "(pyval \<times> pyval) list"
  | NewCluster cluster_args
  | NewAsyncCluster cluster_args
  | NewSentinel "pyval list" u32 "(pyval \<times> pyval) list option"
  | NewAsyncSentinel "pyval list" u32 "(pyval \<times> pyval) list option"

datatype 'conn built = Client "'conn redis_object" | SentinelOf sentinel_obj

text \<open>The flag of the cluster's cache warning, and the names.\<close>

type_synonym process = "bool \<times> warn_state"

definition process_start :: process where
  "process_start = (False, warn_state_init)"

fun construct :: "('client, 'conn) host_env \<Rightarrow> construction \<Rightarrow> process \<Rightarrow> 'conn built pyres \<times> process \<times> py_warning list" where
  "construct h (NewRedis kw) st =
     (case redis_new h kw (snd st) of (r, seen, ws) \<Rightarrow> (map_sum id Client r, (fst st, seen), ws))"
| "construct h (NewAsyncRedis kw) st =
     (case async_redis_new h kw (snd st) of (r, seen, ws) \<Rightarrow> (map_sum id Client r, (fst st, seen), ws))"
| "construct h (NewCluster a) st =
     (case cluster_new h a st of (r, st, ws) \<Rightarrow> (map_sum id Client r, st, ws))"
| "construct h (NewAsyncCluster a) st =
     (case acluster_new h a st of (r, st, ws) \<Rightarrow> (map_sum id Client r, st, ws))"
| "construct h (NewSentinel entries others kwargs) st =
     (case sentinel_new h entries others kwargs (snd st) of
        (r, seen, ws) \<Rightarrow> (map_sum id SentinelOf r, (fst st, seen), ws))"
| "construct h (NewAsyncSentinel entries others kwargs) st =
     (case async_sentinel_new h entries others kwargs (snd st) of
        (r, seen, ws) \<Rightarrow> (map_sum id SentinelOf r, (fst st, seen), ws))"

fun construct_all ::
  "('client, 'conn) host_env \<Rightarrow> construction list \<Rightarrow> process \<Rightarrow> 'conn built pyres list \<times> process \<times> py_warning list" where
  "construct_all h [] st = ([], st, [])"
| "construct_all h (c # cs) st =
     (case construct h c st of
        (r, st, ws) \<Rightarrow> (case construct_all h cs st of (rs, st, ws') \<Rightarrow> (r # rs, st, ws @ ws')))"

section \<open>What a call is to give, and to warn about\<close>

text \<open>A call of \<open>Redis\<close> or \<open>AsyncRedis\<close> without the arguments that are not in the signature.\<close>

definition known_args :: "py_signature \<Rightarrow> (pyval \<times> pyval) list \<Rightarrow> (pyval \<times> pyval) list" where
  "known_args sig kw = filter (\<lambda>(k, _). k \<in> PStr ` fst ` set sig) kw"

definition plain_sentinel :: "pyval list \<Rightarrow> u32 \<Rightarrow> (pyval \<times> pyval) list option \<Rightarrow> 'conn built pyres" where
  "plain_sentinel entries others kwargs =
     (if entries = [] then Inl (data_error ''Sentinel requires at least one (host, port) tuple'')
      else rbind (collect_res sentinel_entry entries) (\<lambda>urls.
        Inr (SentinelOf \<lparr>so_urls = urls, so_cursors = Map.empty,
          so_kwargs = (case kwargs of None \<Rightarrow> [] | Some d \<Rightarrow> d), so_min_other = others\<rparr>)))"

text \<open>The result of a call, made without any argument the class does not know; a sentinel keeps the
  dict it is given.\<close>

fun plain_result :: "('client, 'conn) host_env \<Rightarrow> construction \<Rightarrow> 'conn built pyres" where
  "plain_result h (NewRedis kw) = map_sum id Client
     (fst (redis_new h (known_args (redis_signature (he_double h)) kw) warn_state_init))"
| "plain_result h (NewAsyncRedis kw) = map_sum id Client
     (fst (async_redis_new h (known_args (async_redis_signature (he_double h)) kw) warn_state_init))"
| "plain_result h (NewCluster a) = map_sum id Client
     (fst (cluster_new h (a\<lparr>ca_cache_max_size := None, ca_cache_ttl_secs := None, ca_extra := None\<rparr>) process_start))"
| "plain_result h (NewAsyncCluster a) = map_sum id Client
     (fst (acluster_new h (a\<lparr>ca_cache_max_size := None, ca_cache_ttl_secs := None, ca_extra := None\<rparr>) process_start))"
| "plain_result h (NewSentinel entries others kwargs) = plain_sentinel entries others kwargs"
| "plain_result h (NewAsyncSentinel entries others kwargs) = plain_sentinel entries others kwargs"

text \<open>The names to warn about: those in neither the signature nor the list of the class, when the
  other arguments are accepted.\<close>

definition sentinel_unknown :: "pyval list \<Rightarrow> (pyval \<times> pyval) list option \<Rightarrow> bytes set" where
  "sentinel_unknown entries kwargs =
     (if entries \<noteq> [] \<and> (\<exists>urls. collect_res sentinel_entry entries = Inr urls)
      then left_names SENTINEL_KWARGS_ACCEPT kwargs else {})"

fun unknown_names :: "('client, 'conn) host_env \<Rightarrow> construction \<Rightarrow> bytes set" where
  "unknown_names h (NewRedis kw) =
     (if bind_args (redis_signature (he_double h)) kw = Inr ()
      then new_names (map fst (redis_signature (he_double h))) kw else {})"
| "unknown_names h (NewAsyncRedis kw) =
     (if bind_args (async_redis_signature (he_double h)) kw = Inr ()
      then new_names (map fst (async_redis_signature (he_double h))) kw else {})"
| "unknown_names h (NewCluster a) = left_names CLUSTER_KWARGS_ACCEPT (ca_extra a)"
| "unknown_names h (NewAsyncCluster a) = left_names CLUSTER_KWARGS_ACCEPT (ca_extra a)"
| "unknown_names h (NewSentinel entries others kwargs) = sentinel_unknown entries kwargs"
| "unknown_names h (NewAsyncSentinel entries others kwargs) = sentinel_unknown entries kwargs"

definition cached_cluster :: "construction \<Rightarrow> bool" where
  "cached_cluster c \<longleftrightarrow>
     (case c of
        NewCluster a \<Rightarrow> ca_cache_max_size a \<noteq> None \<or> ca_cache_ttl_secs a \<noteq> None
      | NewAsyncCluster a \<Rightarrow> ca_cache_max_size a \<noteq> None \<or> ca_cache_ttl_secs a \<noteq> None
      | _ \<Rightarrow> False)"

text \<open>Keyword names are strings.\<close>

fun named_by_strings :: "construction \<Rightarrow> bool" where
  "named_by_strings (NewRedis kw) = list_all str_key kw"
| "named_by_strings (NewAsyncRedis kw) = list_all str_key kw"
| "named_by_strings (NewCluster a) = pred_option (list_all str_key) (ca_extra a)"
| "named_by_strings (NewAsyncCluster a) = pred_option (list_all str_key) (ca_extra a)"
| "named_by_strings (NewSentinel entries others kwargs) = pred_option (list_all str_key) kwargs"
| "named_by_strings (NewAsyncSentinel entries others kwargs) = pred_option (list_all str_key) kwargs"

section \<open>The arguments that are known\<close>

lemma known_lookup: "n \<in> fst ` set sig \<Longrightarrow> dict_get (known_args sig kw) (PStr n) = dict_get kw (PStr n)"
proof (induction kw)
  case (Cons p kw)
  then have "PStr n \<in> PStr ` fst ` set sig" by simp
  with Cons show ?case by (cases p) (auto simp: known_args_def simp del: image_image)
qed (simp add: known_args_def)

lemma known_bound: "bind_args sig (known_args sig kw) = bind_args sig kw"
proof -
  have "collect_res (\<lambda>(k, chk). case dict_get (known_args sig kw) (PStr k) of None \<Rightarrow> Inr () | Some v \<Rightarrow> chk v) sig =
      collect_res (\<lambda>(k, chk). case dict_get kw (PStr k) of None \<Rightarrow> Inr () | Some v \<Rightarrow> chk v) sig"
    by (rule collect_res_cong) (auto simp: known_lookup rev_image_eqI)
  then show ?thesis by (simp add: bind_args_def)
qed

lemma known_arg_or: "n \<in> fst ` set sig \<Longrightarrow> arg_or d ext (known_args sig kw) n = arg_or d ext kw n"
  by (simp add: arg_or_def known_lookup)

lemma known_config:
  assumes "{''host'', ''port'', ''password'', ''username'', ''ssl'', ''ssl_keyfile'', ''ssl_certfile'', ''ssl_ca_certs'',
    ''socket_timeout'', ''max_connections'', ''health_check_interval'', ''client_name'', ''protocol'',
    ''decode_responses'', ''encoding'', ''encoding_errors''} \<subseteq> fst ` set sig"
  shows "config_of as_double db (known_args sig kw) = config_of as_double db kw"
  using assms by (simp add: config_of_def known_arg_or)

lemma known_no_extra: "extra_args sig (known_args sig kw) = None"
  by (rule extra_args_None) (force simp: known_args_def)

lemma extra_names:
  assumes "set IMPLEMENTED_KWARGS \<subseteq> fst ` set sig" "list_all str_key kw"
  shows "left_names IMPLEMENTED_KWARGS (extra_args sig kw) = new_names (map fst sig) kw"
    and "pred_option (list_all str_key) (extra_args sig kw)"
proof -
  let ?d = "filter (\<lambda>(k, _). k \<notin> PStr ` fst ` set sig) kw"
  have "new_names IMPLEMENTED_KWARGS ?d = new_names (map fst sig) kw"
    using assms(1) by (force simp: new_names_def image_iff split_def)
  moreover have "new_names IMPLEMENTED_KWARGS [] = {}" by simp
  ultimately show "left_names IMPLEMENTED_KWARGS (extra_args sig kw) = new_names (map fst sig) kw"
    unfolding extra_args_def left_names_def by (cases ?d) auto
  have "list_all str_key ?d" using assms(2) by (auto simp: list_all_iff)
  then show "pred_option (list_all str_key) (extra_args sig kw)"
    unfolding extra_args_def by (cases ?d) auto
qed

lemma signature_names:
  "set IMPLEMENTED_KWARGS \<subseteq> fst ` set (redis_signature f)"
  "set IMPLEMENTED_KWARGS \<subseteq> fst ` set (async_redis_signature f)"
  by (simp_all add: IMPLEMENTED_KWARGS_def redis_signature_def async_redis_signature_def)

section \<open>One call\<close>

text \<open>What a call in a process is to do: the plain result, the kwarg warnings of the names not seen
  before, and the cache warning of the first cluster that asks for a cache.\<close>

definition calm_call :: "('client, 'conn) host_env \<Rightarrow> construction \<Rightarrow> process \<Rightarrow> bool" where
  "calm_call h c st \<longleftrightarrow>
     (\<exists>seen ns. construct h c st =
        (plain_result h c, (fst st \<or> cached_cluster c, seen),
         (if cached_cluster c \<and> \<not> fst st then [cache_warning] else []) @ map kwarg_warning ns) \<and>
      distinct ns \<and> set ns \<inter> seen_names (snd st) = {} \<and> seen_names seen = seen_names (snd st) \<union> set ns \<and>
      seen_names seen = seen_names (snd st) \<union> unknown_names h c)"

lemma new_clients_calm:
  assumes warn: "he_warn h = accepted_warning" and kw: "list_all str_key kw"
    and names: "set IMPLEMENTED_KWARGS \<subseteq> fst ` set sig"
    and db: "db = db'" and config: "config_of (he_double h) db (known_args sig kw) = config_of (he_double h) db kw"
  obtains st' ns where "construct_with h sig db kw st =
      (fst (construct_with h sig db' (known_args sig kw) warn_state_init), st', map kwarg_warning ns)"
    "distinct ns" "set ns \<inter> seen_names st = {}" "seen_names st' = seen_names st \<union> set ns"
    "seen_names st' = seen_names st \<union> (if bind_args sig kw = Inr () then new_names (map fst sig) kw else {})"
proof (cases "bind_args sig kw")
  case (Inl e)
  then show thesis using that [of st "[]"] by (simp add: construct_with_def known_bound)
next
  case (Inr u)
  obtain st' ns where
    "accept_and_warn accepted_warning IMPLEMENTED_KWARGS (extra_args sig kw) st = (Inr (), st', map kwarg_warning ns)"
    "distinct ns" "set ns \<inter> seen_names st = {}" "seen_names st' = seen_names st \<union> set ns"
    "seen_names st' = seen_names st \<union> new_names (map fst sig) kw"
    using accept_warns [OF extra_names(2) [OF names kw], of IMPLEMENTED_KWARGS st]
    unfolding extra_names(1) [OF names kw] .
  moreover have "fst (construct_with h sig db' (known_args sig kw) warn_state_init) =
      build_connection (he_bridge h) (he_crate h) (he_files h) (config_of (he_double h) db kw)"
    using Inr config db by (simp add: construct_with_def known_bound known_no_extra accept_and_warn_def)
  ultimately show thesis
    using that [of st' ns] Inr warn by (simp add: construct_with_def)
qed

lemma redis_new_calm:
  assumes "he_warn h = accepted_warning" "list_all str_key kw"
  shows "calm_call h (NewRedis kw) st" and "calm_call h (NewAsyncRedis kw) st"
proof -
  let ?sig = "redis_signature (he_double h)" and ?asig = "async_redis_signature (he_double h)"
  have db: "coerce_db (dict_get kw (PStr ''db'')) = coerce_db (dict_get (known_args ?sig kw) (PStr ''db''))"
    by (simp add: known_lookup redis_signature_def)
  have adb: "arg_or 0 extract_i64 kw ''db'' = arg_or 0 extract_i64 (known_args ?asig kw) ''db''"
    by (simp add: known_arg_or async_redis_signature_def)
  have config: "config_of (he_double h) d (known_args ?sig kw) = config_of (he_double h) d kw"
    "config_of (he_double h) d (known_args ?asig kw) = config_of (he_double h) d kw" for d
    by (rule known_config; simp add: redis_signature_def async_redis_signature_def)+
  show "calm_call h (NewRedis kw) st"
    by (rule new_clients_calm [OF assms signature_names(1) [of "he_double h"] db config(1), of "snd st"])
      (auto simp: calm_call_def redis_new_def cached_cluster_def)
  show "calm_call h (NewAsyncRedis kw) st"
    by (rule new_clients_calm [OF assms signature_names(2) [of "he_double h"] adb config(2), of "snd st"])
      (auto simp: calm_call_def async_redis_new_def cached_cluster_def)
qed

lemma cluster_new_calm:
  assumes "he_warn h = accepted_warning" "pred_option (list_all str_key) (ca_extra a)"
  shows "calm_call h (NewCluster a) st" and "calm_call h (NewAsyncCluster a) st"
proof -
  obtain warned seen where st: "st = (warned, seen)" by (cases st)
  obtain st' ns where
    "accept_and_warn accepted_warning CLUSTER_KWARGS_ACCEPT (ca_extra a) seen = (Inr (), st', map kwarg_warning ns)"
    "distinct ns" "set ns \<inter> seen_names seen = {}" "seen_names st' = seen_names seen \<union> set ns"
    "seen_names st' = seen_names seen \<union> left_names CLUSTER_KWARGS_ACCEPT (ca_extra a)"
    by (rule accept_warns [OF assms(2)])
  moreover have "cluster_connection h (a\<lparr>ca_cache_max_size := None, ca_cache_ttl_secs := None, ca_extra := None\<rparr>) =
      cluster_connection h a"
    by (simp add: cluster_connection_def startup_urls_def cluster_tls_def Let_def cong: if_cong)
  ultimately show "calm_call h (NewCluster a) st"
    using assms(1)
    by (auto simp: calm_call_def st cluster_new_def build_cluster_conn_def warn_cache_on_cluster_def accepted_warning_def
        cached_cluster_def process_start_def accept_and_warn_def [of _ _ None] Let_def)
  then show "calm_call h (NewAsyncCluster a) st"
    by (simp add: calm_call_def acluster_new_def cached_cluster_def)
qed

lemma sentinel_new_calm:
  assumes "he_warn h = accepted_warning" "pred_option (list_all str_key) kwargs"
  shows "calm_call h (NewSentinel entries others kwargs) st"
    and "calm_call h (NewAsyncSentinel entries others kwargs) st"
proof -
  obtain st' ns where
    "accept_and_warn accepted_warning SENTINEL_KWARGS_ACCEPT kwargs (snd st) = (Inr (), st', map kwarg_warning ns)"
    "distinct ns" "set ns \<inter> seen_names (snd st) = {}" "seen_names st' = seen_names (snd st) \<union> set ns"
    "seen_names st' = seen_names (snd st) \<union> left_names SENTINEL_KWARGS_ACCEPT kwargs"
    by (rule accept_warns [OF assms(2)])
  then show "calm_call h (NewSentinel entries others kwargs) st"
    using assms(1)
    by (cases st; cases "collect_res sentinel_entry entries")
      (auto simp: calm_call_def sentinel_new_def plain_sentinel_def sentinel_unknown_def cached_cluster_def rbind_def)
  then show "calm_call h (NewAsyncSentinel entries others kwargs) st"
    by (simp add: calm_call_def async_sentinel_new_def cached_cluster_def)
qed

lemma construct_calm:
  "he_warn h = accepted_warning \<Longrightarrow> named_by_strings c \<Longrightarrow> calm_call h c st"
  by (cases c) (simp_all add: redis_new_calm cluster_new_calm sentinel_new_calm)

section \<open>A whole process\<close>

lemma cache_warning_other: "cache_warning \<notin> range kwarg_warning"
  by (auto simp: cache_warning_def kwarg_warning_def)

lemma construct_all_calm:
  assumes "he_warn h = accepted_warning"
  shows "list_all named_by_strings cs \<Longrightarrow>
    \<exists>seen ns ms. construct_all h cs st = (map (plain_result h) cs, (fst st \<or> list_ex cached_cluster cs, seen), ms) \<and>
      distinct ms \<and> set ns \<inter> seen_names (snd st) = {} \<and> seen_names seen = seen_names (snd st) \<union> set ns \<and>
      seen_names seen = seen_names (snd st) \<union> (\<Union>c \<in> set cs. unknown_names h c) \<and>
      set ms = kwarg_warning ` set ns \<union> (if list_ex cached_cluster cs \<and> \<not> fst st then {cache_warning} else {})"
proof (induction cs arbitrary: st)
  case (Cons c cs)
  obtain warned seen where st: "st = (warned, seen)" by (cases st)
  from construct_calm [OF assms, of c st] Cons.prems obtain seen1 ns1 where one:
    "construct h c st = (plain_result h c, (warned \<or> cached_cluster c, seen1),
       (if cached_cluster c \<and> \<not> warned then [cache_warning] else []) @ map kwarg_warning ns1)"
    "distinct ns1" "set ns1 \<inter> seen_names seen = {}" "seen_names seen1 = seen_names seen \<union> set ns1"
    "seen_names seen1 = seen_names seen \<union> unknown_names h c"
    unfolding calm_call_def st by auto
  from Cons.IH [of "(warned \<or> cached_cluster c, seen1)"] Cons.prems obtain seen2 ns2 ms2 where rest:
    "construct_all h cs (warned \<or> cached_cluster c, seen1) =
       (map (plain_result h) cs, ((warned \<or> cached_cluster c) \<or> list_ex cached_cluster cs, seen2), ms2)"
    "distinct ms2" "set ns2 \<inter> seen_names seen1 = {}" "seen_names seen2 = seen_names seen1 \<union> set ns2"
    "seen_names seen2 = seen_names seen1 \<union> (\<Union>c \<in> set cs. unknown_names h c)"
    "set ms2 = kwarg_warning ` set ns2 \<union>
       (if list_ex cached_cluster cs \<and> \<not> (warned \<or> cached_cluster c) then {cache_warning} else {})"
    by auto
  let ?ms = "((if cached_cluster c \<and> \<not> warned then [cache_warning] else []) @ map kwarg_warning ns1) @ ms2"
  have apart: "kwarg_warning n \<noteq> cache_warning" "cache_warning \<noteq> kwarg_warning n" for n
    using cache_warning_other by (metis rangeI)+
  have "set ns1 \<inter> set ns2 = {}" using rest(3) one(4) by blast
  then have "kwarg_warning ` set ns1 \<inter> kwarg_warning ` set ns2 = {}"
    using kwarg_warning_inj by blast
  moreover have "distinct (map kwarg_warning ns1)"
    using one(2) by (auto simp: distinct_map intro: inj_onI kwarg_warning_inj)
  ultimately have "distinct ?ms" using rest(2,6) apart by (auto split: if_splits)
  moreover have "set ?ms = kwarg_warning ` set (ns1 @ ns2) \<union>
      (if list_ex cached_cluster (c # cs) \<and> \<not> warned then {cache_warning} else {})"
    using rest(6) by auto
  moreover have "set (ns1 @ ns2) \<inter> seen_names seen = {}" using one(3,4) rest(3) by auto
  moreover have "seen_names seen2 = seen_names seen \<union> set (ns1 @ ns2)"
    "seen_names seen2 = seen_names seen \<union> (\<Union>c \<in> set (c # cs). unknown_names h c)"
    using one(4,5) rest(4,5) by auto
  moreover have "construct_all h (c # cs) st =
      (map (plain_result h) (c # cs), (warned \<or> list_ex cached_cluster (c # cs), seen2), ?ms)"
    using one(1) rest(1) by (simp add: st disj_assoc)
  ultimately show ?case
    unfolding st fst_conv snd_conv
    by (intro exI [of _ seen2] exI [of _ "ns1 @ ns2"] exI [of _ ?ms] conjI)
next
  case Nil
  show ?case by (cases st) auto
qed

text \<open>(C35) Unknown keyword arguments, over any sequence of constructions in a process with the six
  classes, while no warning filter turns a warning into an error.  Every name that is in neither
  the signature nor the list of names of its class is warned about, exactly once in the process, with the
  category and the text for that name; the only other warning is that of the first cluster that
  asks for a cache.  No call fails on account of such a name: a client is what the call makes
  of the other arguments alone.  Names in a signature or a list are never warned
  about, also when nothing comes of them (\<open>async_ignores_silently\<close>), and under a filter that raises
  a name fails once (\<open>kwarg_error_only_once\<close>).\<close>
theorem unknown_kwargs_warned_once:
  assumes "he_warn h = accepted_warning" "list_all named_by_strings cs"
  shows "case construct_all h cs process_start of (rs, _, ws) \<Rightarrow>
    rs = map (plain_result h) cs \<and> distinct ws \<and>
    set ws = kwarg_warning ` (\<Union>c \<in> set cs. unknown_names h c) \<union>
      (if list_ex cached_cluster cs then {cache_warning} else {})"
proof -
  obtain seen ns ms where
    "construct_all h cs process_start = (map (plain_result h) cs, (list_ex cached_cluster cs, seen), ms)"
    "distinct ms" "seen_names seen = set ns" "seen_names seen = (\<Union>c \<in> set cs. unknown_names h c)"
    "set ms = kwarg_warning ` set ns \<union> (if list_ex cached_cluster cs then {cache_warning} else {})"
    using construct_all_calm [OF assms, of process_start] by (auto simp: process_start_def)
  then show ?thesis by simp
qed

definition sample_session :: "construction list" where
  "sample_session =
     [NewRedis [(PStr ''retry'', PNone), (PStr ''hots'', PNone)], NewAsyncRedis [(PStr ''retry'', PNone)],
      NewSentinel [PTuple [PStr ''h'', PInt 1]] 0 (Some [(PStr ''hots'', PNone)])]"

theorem unknown_kwargs_warned_once_witness:
  "(case construct_all sample_host sample_session process_start of (rs, _, ws) \<Rightarrow>
     length rs = 3 \<and> distinct ws \<and> set ws = {kwarg_warning ''retry'', kwarg_warning ''hots''})"
proof -
  have host: "he_warn sample_host = accepted_warning" by (simp add: sample_host_def)
  have bound: "bind_args (redis_signature f) [(PStr ''retry'', PNone), (PStr ''hots'', PNone)] = Inr ()"
    "bind_args (async_redis_signature f) [(PStr ''retry'', PNone)] = Inr ()" for f
    by (rule bind_args_ok; simp add: redis_signature_def async_redis_signature_def)+
  have names: "map fst (redis_signature f) =
      [''host'', ''port'', ''db'', ''password'', ''socket_timeout'', ''encoding'', ''encoding_errors'',
       ''decode_responses'', ''ssl'', ''ssl_keyfile'', ''ssl_certfile'', ''ssl_ca_certs'', ''max_connections'',
       ''health_check_interval'', ''client_name'', ''username'', ''protocol'']"
    "''retry'' \<in> set (map fst (async_redis_signature f))" for f
    by (simp_all add: redis_signature_def async_redis_signature_def)
  have "collect_res sentinel_entry [PTuple [PStr ''h'', PInt 1]] = Inr [''redis://h:'' @ show_nat 1]"
    by (simp add: sentinel_entry_def extract_string_def extract_word_def extract_int_def)
  then have "(\<Union>c \<in> set sample_session. unknown_names sample_host c) = {''retry'', ''hots''}"
    using names(2) by (auto simp: sample_session_def bound names(1) sentinel_unknown_def left_names_def SENTINEL_KWARGS_ACCEPT_def)
  moreover have "list_all named_by_strings sample_session" "\<not> list_ex cached_cluster sample_session"
    by (simp_all add: sample_session_def cached_cluster_def)
  moreover have "length sample_session = 3" by (simp add: sample_session_def)
  ultimately show ?thesis
    using unknown_kwargs_warned_once [OF host, of sample_session] by (auto split: prod.splits)
qed

end
