(* ===== verification/Spec2Isabelle.thy ===== *)
theory Spec2Isabelle
  imports RuntimeFork Cluster PipelineCommands PubSubObject Sentinel Lists Hashes Connections Admin ClusterClient
    SentinelClient Coroutine Optimistic Failover Constructors
begin

text \<open>
  A model of \<open>redis-rs-py-driver\<close>, the Rust extension module behind the Python package
  \<open>redis_rs_py\<close>.

  The driver puts a redis-py compatible interface on the redis crate.  It translates server
  replies and errors into Python objects, runs the crate's futures on one process-wide tokio
  runtime, and offers every command twice, blocking and awaitable.  All paths below are under
  \<open>src/crates/redis-rs-py-driver/src\<close>.

  Theories and what they model:

  Prelude, PyModel and Utf8 are the vocabulary: machine integers, byte strings, number
  rendering and parsing, string splitting; the Python values the driver builds, with dict and set
  insertion under Python's notion of equal keys; lossy UTF-8 decoding.

  Errors is \<open>exceptions.rs\<close> and \<open>errors.rs\<close>: the exception classes and their bases,
  \<open>classify_error\<close> with its five layers, and the two ways an error crosses the boundary
  (\<open>to_py_err\<close> for blocking calls, \<open>into_py_err\<close> for awaitables).

  Bridge is the reply conversion of \<open>async_bridge.rs\<close>: \<open>redis_value_to_py\<close> and every
  arm of \<open>RawResult::into_py\<close>, with the renderers of \<open>commands/hashes.rs\<close>,
  \<open>commands/zsets.rs\<close> and \<open>facade/pubsub.rs\<close>.

  Awaitable is \<open>RedisRsAwaitable\<close>: the one-shot channel, the background task, the event
  loop's polling and the callbacks, as a step relation.

  RuntimeFork is \<open>runtime.rs\<close>: the runtime singleton and its rebuild after a fork.

  RedisCmd and ConnCommands are the commands \<open>ValkeyConnInner\<close> builds
  (\<open>connection.rs\<close>): one definition per method, giving the command and its arguments.

  SyncAsync is \<open>helpers.rs\<close> and \<open>raw_result.rs\<close>: the two call macros, the conversions
  into \<open>RawResult\<close>, and the blocking conversions, proved to agree.

  Url is the handling of connection URLs (\<open>facade/sync.rs\<close>, \<open>connection.rs\<close>,
  \<open>facade/cluster.rs\<close>).

  Cluster is \<open>cluster_slot\<close> and the fan-out of multi-key commands
  (\<open>facade/cluster.rs\<close>).  Its CRC is proved to be the remainder of polynomial division over
  GF(2), and its slot the documented one (\<open>spec_slot\<close>) for keys whose braces are plain
  (\<open>plain_braces\<close>); other keys it may misroute.  ClusterClient is the rest of that file: how a cluster client is
  constructed, and its methods; the locale \<open>data_refinement\<close> of Prelude, interpreted on them,
  gives that a session of multi-key calls on keys with plain braces behaves like one map, on any
  cluster that answers by the documented slots.

  Pipeline and PipelineCommands are \<open>facade/pipeline.rs\<close> with the reserved connection of
  \<open>connection.rs\<close>: the state machine of \<open>Pipeline\<close> and \<open>AsyncPipeline\<close>, the
  transaction retry loop, and what each buffering method queues, which is the command its direct
  counterpart sends.  Optimistic runs the pipelines of
  any number of clients against one server, their calls interleaved: \<open>hear\<close> makes the outcomes of
  an operation's requests the server's replies to what it put on the wire.  Updates made by
  WATCH, GET, MULTI, SET and EXEC are never lost, and a \<open>WatchError\<close> is always the doing of an
  update that another client has made.

  PubSub and PubSubObject are \<open>facade/pubsub.rs\<close>: the supervisor task, its bookkeeping and reconnect
  loop; and the classes \<open>PubSub\<close>, \<open>AsyncPubSub\<close> and \<open>PubSubWorkerThread\<close>, with their handler
  tables, receiving within a timeout and behind the receiver's mutex, iteration and the loop of the
  worker thread.

  Decode is \<open>facade/decode.rs\<close>: \<open>decode_walk\<close>, which turns every \<open>bytes\<close> of a reply
  into \<open>str\<close> when the client was created with \<open>decode_responses\<close>.

  Calls is the frame of a command method: validate, check that the client is open, send,
  convert, decode.  \<open>sync_call\<close> does it on the calling thread and \<open>async_call\<close> gives the
  \<open>RawResult\<close> that \<open>await_call\<close> converts; the locales \<open>reply_at\<close> and \<open>reply_pair\<close>
  state when the two conversions of one reply fit together and prove that then the two calls
  agree.  Strings and Replies interpret them on every pair of conversions the methods use.

  Coroutine is the object a method of the awaitable class returns: the awaitable, or the coroutine
  that awaits it and decodes.  Driving it poll by poll gives what \<open>await_call\<close> says, so that the
  agreement lemmas of the command theories are about what a Python program sees.  It also has the
  awaitables of \<open>test_helpers.rs\<close>.

  Strings, Lists, Sets, Hashes, ZSets, Streams, Scripts and Admin are the files of
  \<open>commands\<close> with these names.  Each gives, for a command \<open>foo\<close>, \<open>redis_foo\<close> (the method of the blocking
  class) and \<open>async_foo\<close> (the method of the awaitable one): the result and the list of
  commands sent, from the arguments and the server's answer.  Each theory ends with one lemma
  that all its pairs agree, and with the pairs that do not.

  Kwargs is \<open>facade/kwargs.rs\<close>: which keyword arguments are warned about, and when.  Constructors
  runs the constructors of all six classes in one process, which share the names warned about.

  Facade is how a client comes to be and is closed: the constructors and \<open>from_url\<close> of
  \<open>facade/sync.rs\<close> and \<open>facade/asyncio_mod.rs\<close>, and the connection functions of
  \<open>connection.rs\<close>.

  Connections is what else a client opens and hands out: the connection for blocking commands, and
  the methods \<open>pipeline\<close>, \<open>pubsub\<close>, \<open>transaction\<close> and \<open>lock\<close>.

  Lock is \<open>Lock\<close> of \<open>facade/sync.rs\<close>, on a server state of its own: the calls of one
  lock object, and a step relation in which several objects, expiry, lost writes, failing requests and
  other clients interleave.

  Sentinel is the failover path (\<open>SentinelConn\<close> of \<open>connection.rs\<close>, discovery of
  \<open>facade/sentinel.rs\<close>): how a target is found, and how a command survives a failover.
  SentinelClient is the rest of \<open>facade/sentinel.rs\<close>: the clients a \<open>Sentinel\<close> hands out and the
  SENTINEL commands.  Failover puts \<open>Lock\<close> on sentinel connections, whose nodes share one store:
  exclusion survives failovers in which requests fail before or after they were executed and are sent
  again; a \<open>SET NX\<close> sent again may report a lock as taken that the caller itself has set.

  How state and operations correspond: a Rust struct is a record with the struct's fields, an enum
  a datatype with its variants, \<open>PyResult\<close> and \<open>RedisResult\<close> are sums with the error on
  the left.  An operation takes the state and returns it changed.  What a server, the network or
  the scheduler does is an argument: the outcome of a request, the order of concurrent tasks, the
  chain of process identifiers.  Code of the redis crate, of tokio, PyO3 and CPython is never
  defined: it appears as such an argument or as a record of functions (\<open>bridge_env\<close>,
  \<open>decoders\<close>), and the theorems that rely on documented behaviour of the server state it as a
  hypothesis (\<open>answers_mget\<close> and its companions, \<open>writes_args\<close>, \<open>runs_lock_commands\<close>,
  \<open>lossy_lock_commands\<close>, \<open>optimistic_server\<close>), each with a concrete server that meets it.

  What the lemmas show: that each component keeps its invariant; that blocking and awaitable calls
  agree; that replies, errors, commands and messages arrive complete and in order; that the
  fan-out of a cluster computes what one server would; and, as lemmas named for it, where the code
  departs from what its comments or redis-py promise.

  Bounds: the supervisor makes 32 reconnect attempts (\<open>try_reconnect\<close>), an awaitable is
  polled five times before it blocks, the class hierarchy is five deep (the fuel of
  \<open>issubclass\<close> covers it), and \<open>transaction_helper\<close> runs over a given list of
  attempts, \<open>None\<close> standing for a loop that still retries.  The worker thread runs over a list of
  passes, each with what other threads did before it; \<open>remaining\<close> passes are enough for it to
  receive what is coming.  Times of a pubsub are in nanoseconds, and waits for its mutex
  a list, one for each pass.

  Not modelled: the registration of the classes and functions with PyO3 (\<open>lib.rs\<close> and the
  \<open>mod.rs\<close> files), which has no behaviour of its own; the unit tests inside \<open>errors.rs\<close>; and a system that refuses a
  runtime its threads, on which \<open>runtime.rs\<close> panics.
\<close>

end
